(* ===== verification/Go_Prelude.thy ===== *)
theory Go_Prelude
  imports Main "HOL-Library.Word" "HOL-Library.AList" "HOL-Library.List_Lexorder"
    "HOL-Library.Char_ord"
begin

text \<open>
  Shared vocabulary of the development: the Go standard library functions the operator calls
  (packages \<^verbatim>\<open>strings\<close>, \<^verbatim>\<open>strconv\<close>, \<^verbatim>\<open>slices\<close>, \<^verbatim>\<open>maps\<close>), Go errors as values, and the
  state-and-error monad in which the stateful code (API calls, caches, event recorder) is written,
  with a small Hoare calculus for it.

  A Go \<^verbatim>\<open>map[string]T\<close> the code iterates over is an association list (key order is not
  observable: facts are stated through \<^term>\<open>map_of\<close>); a map that is only read, copied and
  written is a HOL map. A Go string is a list of bytes (\<^typ>\<open>string\<close>), an
  \<^verbatim>\<open>int32\<close> a 32-bit word read with \<^term>\<open>sint\<close>, a \<^verbatim>\<open>time.Duration\<close> a 64-bit word of nanoseconds.
  A pointer is an \<^typ>\<open>'a option\<close> whose \<^term>\<open>None\<close> is \<^verbatim>\<open>nil\<close>.
\<close>

named_theorems go_defs \<open>definitions of the Go monad, unfolded to run a program on a state\<close>
named_theorems go_wp \<open>Hoare rules of the Go monad\<close>
named_theorems string_defs \<open>definitions of the Go string functions\<close>

section \<open>Go types\<close>

type_synonym int32 = "32 word"
type_synonym int64 = "64 word"
type_synonym Duration = "64 word"
type_synonym ('k, 'v) gomap = "('k \<times> 'v) list"

text \<open>Fields of an API object that the operator neither reads nor writes are kept as one
  opaque value.\<close>
type_synonym opaque = string

abbreviation Nanosecond :: Duration where "Nanosecond \<equiv> 1"
abbreviation Second :: Duration where "Second \<equiv> 1000000000"
abbreviation Minute :: Duration where "Minute \<equiv> 60000000000"
abbreviation Hour :: Duration where "Hour \<equiv> 3600000000000"

text \<open>\<^verbatim>\<open>time.Duration(x) * time.Second\<close> for an \<^verbatim>\<open>int32\<close> \<open>x\<close>: sign extension to 64 bits and
  a wrapping multiplication.\<close>
definition seconds_of_int32 :: "int32 \<Rightarrow> Duration" where
  "seconds_of_int32 x = signed x * Second"

lemma sint32_range: "- 2147483648 \<le> sint (x :: int32)" "sint (x :: int32) < 2147483648"
  using sint_ge[of x] sint_lt[of x] by simp_all

lemma sint_seconds_of_int32: "sint (seconds_of_int32 x) = sint x * 1000000000"
proof -
  have lo: "- (2 ^ 63) \<le> sint x * 1000000000" and hi: "sint x * 1000000000 < 2 ^ 63"
    using sint32_range[of x] by simp_all
  have "seconds_of_int32 x = word_of_int (sint x * 1000000000)"
    unfolding seconds_of_int32_def scast_eq by (simp only: of_int_mult of_int_numeral)
  then have "sint (seconds_of_int32 x) = signed_take_bit 63 (sint x * 1000000000)"
    by (simp only: sint_sbintrunc') simp
  also have "\<dots> = sint x * 1000000000"
    using lo hi by (intro signed_take_bit_int_eq_self) auto
  finally show ?thesis .
qed

section \<open>Package strings\<close>

definition HasPrefix :: "string \<Rightarrow> string \<Rightarrow> bool" where
  [string_defs]: "HasPrefix s p = (take (length p) s = p)"

definition HasSuffix :: "string \<Rightarrow> string \<Rightarrow> bool" where
  [string_defs]: "HasSuffix s p = (length p \<le> length s \<and> drop (length s - length p) s = p)"

definition TrimPrefix :: "string \<Rightarrow> string \<Rightarrow> string" where
  [string_defs]: "TrimPrefix s p = (if HasPrefix s p then drop (length p) s else s)"

definition TrimSuffix :: "string \<Rightarrow> string \<Rightarrow> string" where
  [string_defs]: "TrimSuffix s p = (if HasSuffix s p then take (length s - length p) s else s)"

text \<open>\<^verbatim>\<open>strings.TrimRight(s, "c")\<close> with a one-byte cutset.\<close>
definition TrimRight :: "string \<Rightarrow> char \<Rightarrow> string" where
  [string_defs]: "TrimRight s c = rev (dropWhile (\<lambda>x. x = c) (rev s))"

fun Contains :: "string \<Rightarrow> string \<Rightarrow> bool" where
  "Contains [] sub = (sub = [])"
| "Contains (c # s) sub = (HasPrefix (c # s) sub \<or> Contains s sub)"

text \<open>\<^verbatim>\<open>strings.ToLower\<close> on ASCII text.\<close>
definition char_lower :: "char \<Rightarrow> char" where
  [string_defs]: "char_lower c =
     (if 65 \<le> (of_char c :: nat) \<and> (of_char c :: nat) \<le> 90 then char_of (of_char c + 32 :: nat) else c)"

definition ToLower :: "string \<Rightarrow> string" where
  [string_defs]: "ToLower s = map char_lower s"

fun Join :: "string list \<Rightarrow> string \<Rightarrow> string" where
  "Join [] sep = []"
| "Join [x] sep = x"
| "Join (x # y # xs) sep = x @ sep @ Join (y # xs) sep"

lemma Contains_iff: "Contains s sub \<longleftrightarrow> (\<exists>p q. s = p @ sub @ q)"
proof (induction s)
  case Nil
  then show ?case by auto
next
  case (Cons c s)
  have "HasPrefix (c # s) sub \<longleftrightarrow> (\<exists>q. c # s = sub @ q)"
    by (auto simp: HasPrefix_def) (metis append_take_drop_id)
  moreover have "(\<exists>p q. c # s = p @ sub @ q) \<longleftrightarrow>
      (\<exists>q. c # s = sub @ q) \<or> (\<exists>p q. s = p @ sub @ q)"
    by (metis append_Cons append_Nil append_eq_Cons_conv)
  ultimately show ?case using Cons.IH by simp
qed

lemma HasPrefix_append [simp]: "HasPrefix (p @ s) p"
  by (simp add: HasPrefix_def)

lemma HasPrefix_iff: "HasPrefix s p \<longleftrightarrow> (\<exists>q. s = p @ q)"
  by (auto simp: HasPrefix_def) (metis append_take_drop_id)

lemma HasSuffix_append [simp]: "HasSuffix (s @ p) p"
  by (simp add: HasSuffix_def)

lemma HasSuffix_iff: "HasSuffix s p \<longleftrightarrow> (\<exists>q. s = q @ p)"
  by (auto simp: HasSuffix_def) (metis append_take_drop_id)

lemma TrimPrefix_append [simp]: "TrimPrefix (p @ s) p = s"
  by (simp add: TrimPrefix_def)

lemma TrimSuffix_append [simp]: "TrimSuffix (s @ p) p = s"
  by (simp add: TrimSuffix_def)

section \<open>Package strconv\<close>

definition digit_char :: "nat \<Rightarrow> char" where
  "digit_char d = char_of (48 + d)"

fun digits_of :: "nat \<Rightarrow> string" where
  "digits_of n = (if n < 10 then [digit_char n] else digits_of (n div 10) @ [digit_char (n mod 10)])"

declare digits_of.simps [simp del]

text \<open>\<^verbatim>\<open>strconv.FormatInt(n, 10)\<close> and the \<^verbatim>\<open>%d\<close> verb.\<close>
definition FormatInt :: "int \<Rightarrow> string" where
  "FormatInt n = (if n < 0 then CHR ''-'' # digits_of (nat (- n)) else digits_of (nat n))"

definition char_digit :: "char \<Rightarrow> nat option" where
  "char_digit c =
     (let k = (of_char c :: nat) in if 48 \<le> k \<and> k \<le> 57 then Some (k - 48) else None)"

fun parse_digits :: "string \<Rightarrow> nat \<Rightarrow> nat option" where
  "parse_digits [] acc = Some acc"
| "parse_digits (c # cs) acc =
     (case char_digit c of None \<Rightarrow> None | Some d \<Rightarrow> parse_digits cs (10 * acc + d))"

text \<open>\<^verbatim>\<open>strconv.Atoi\<close>: an optional sign, at least one digit, and a value that fits \<^verbatim>\<open>int\<close> (64 bits);
  anything else is an error.\<close>
definition Atoi :: "string \<Rightarrow> int option" where
  "Atoi s =
     (let (neg, ds) = (case s of [] \<Rightarrow> (False, [])
            | c # cs \<Rightarrow> if c = CHR ''-'' then (True, cs)
                        else if c = CHR ''+'' then (False, cs) else (False, s))
      in if ds = [] then None
         else case parse_digits ds 0 of None \<Rightarrow> None
           | Some n \<Rightarrow> (let v = (if neg then - int n else int n)
                        in if - (2 ^ 63) \<le> v \<and> v < 2 ^ 63 then Some v else None))"

lemma char_digit_digit_char [simp]: "d < 10 \<Longrightarrow> char_digit (digit_char d) = Some d"
  by (simp add: char_digit_def digit_char_def)

lemma parse_digits_append:
  "parse_digits (xs @ ys) a = Option.bind (parse_digits xs a) (parse_digits ys)"
  by (induction xs arbitrary: a) (auto split: option.splits)

lemma parse_digits_of: "parse_digits (digits_of n) 0 = Some n"
proof (induction n rule: digits_of.induct)
  case (1 n)
  then show ?case
    by (subst digits_of.simps) (simp add: parse_digits_append)
qed

lemma digits_of_Cons: "\<exists>d ds. digits_of n = digit_char d # ds \<and> d < 10"
proof (induction n rule: digits_of.induct)
  case (1 n)
  show ?case
  proof (cases "n < 10")
    case True
    then show ?thesis by (subst digits_of.simps) auto
  next
    case False
    with 1 obtain d ds where "digits_of (n div 10) = digit_char d # ds" "d < 10" by blast
    with False show ?thesis by (subst digits_of.simps) auto
  qed
qed

lemma digit_char_not_sign: "d < 10 \<Longrightarrow> digit_char d \<noteq> CHR ''-'' \<and> digit_char d \<noteq> CHR ''+''"
proof -
  assume "d < 10"
  then have "char_digit (digit_char d) = Some d" by simp
  moreover have "char_digit CHR ''-'' = None" and "char_digit CHR ''+'' = None"
    by (simp_all add: char_digit_def)
  ultimately show ?thesis by force
qed

text \<open>Reading back what \<^verbatim>\<open>FormatInt\<close> prints gives the number.\<close>
lemma Atoi_FormatInt: "- (2 ^ 63) \<le> n \<Longrightarrow> n < 2 ^ 63 \<Longrightarrow> Atoi (FormatInt n) = Some n"
proof -
  assume r: "- (2 ^ 63) \<le> n" "n < 2 ^ 63"
  show ?thesis
  proof (cases "n < 0")
    case True
    obtain d ds where "digits_of (nat (- n)) = digit_char d # ds" using digits_of_Cons by blast
    with True r show ?thesis
      using parse_digits_of[of "nat (- n)"] by (simp add: Atoi_def FormatInt_def Let_def)
  next
    case False
    obtain d ds where ds: "digits_of (nat n) = digit_char d # ds" "d < 10"
      using digits_of_Cons by blast
    with digit_char_not_sign[of d] False r show ?thesis
      using parse_digits_of[of "nat n"] by (simp add: Atoi_def FormatInt_def Let_def)
  qed
qed

end
