(* ===== verification/API_Types.thy ===== *)
theory API_Types
  imports Go_Prelude
begin

text \<open>
  The Kueue custom resource: the structs of \<^verbatim>\<open>pkg/apis/kueueoperator/v1/types.go\<close>, one record per
  struct, with a prefix per struct in place of Go's per-struct field names, and the structs of
  \<^verbatim>\<open>metav1\<close> and \<^verbatim>\<open>operatorv1\<close> they embed. An enumeration is a Go string type, so its values are
  strings: the named constants below are the ones the API declares, and a value outside of them is
  representable, as it is in Go. A struct field that is optional by being a pointer is an
  \<^typ>\<open>'a option\<close>; one that is optional by \<^verbatim>\<open>omitzero\<close> has its zero value when it is absent.
\<close>

section \<open>Object metadata\<close>

record OwnerReference =
  or_APIVersion :: string
  or_Kind :: string
  or_Name :: string
  or_UID :: string
  or_Controller :: "bool option"
  or_BlockOwnerDeletion :: "bool option"

record ObjectMeta =
  om_Name :: string
  om_Namespace :: string
  om_UID :: string
  om_ResourceVersion :: string
  om_Generation :: int
  om_DeletionTimestamp :: "nat option"
  om_Labels :: "(string, string) gomap"
  om_Annotations :: "(string, string) gomap"
  om_OwnerReferences :: "OwnerReference list"
  om_Finalizers :: "string list"

definition empty_meta :: ObjectMeta where
  "empty_meta = \<lparr>om_Name = [], om_Namespace = [], om_UID = [], om_ResourceVersion = [],
     om_Generation = 0, om_DeletionTimestamp = None, om_Labels = [], om_Annotations = [],
     om_OwnerReferences = [], om_Finalizers = []\<rparr>"

record LabelSelectorRequirement =
  lsr_Key :: string
  lsr_Operator :: string
  lsr_Values :: "string list"

record LabelSelector =
  ls_MatchLabels :: "string \<rightharpoonup> string"
  ls_MatchExpressions :: "LabelSelectorRequirement list"

section \<open>Metrics labels\<close>

type_synonym SourceKind = string
abbreviation SourceKindCohort :: SourceKind where "SourceKindCohort \<equiv> ''Cohort''"
abbreviation SourceKindLocalQueue :: SourceKind where "SourceKindLocalQueue \<equiv> ''LocalQueue''"
abbreviation SourceKindClusterQueue :: SourceKind where "SourceKindClusterQueue \<equiv> ''ClusterQueue''"

type_synonym SourceType = string
abbreviation SourceAnnotation :: SourceType where "SourceAnnotation \<equiv> ''Annotation''"
abbreviation SourceLabel :: SourceType where "SourceLabel \<equiv> ''Label''"

record SourceKeyLabel = skl_Key :: string
record SourceKeyAnnotation = ska_Key :: string

record SourceKey =
  sk_SourceType :: SourceType
  sk_Label :: SourceKeyLabel
  sk_Annotation :: SourceKeyAnnotation

record ControllerMetricsCustomLabel =
  cl_Name :: string
  cl_SourceKey :: SourceKey
  cl_SourceKind :: SourceKind

record ControllerMetrics = cmx_CustomLabels :: "ControllerMetricsCustomLabel list"
record ControllerManager = cmg_Metrics :: ControllerMetrics

section \<open>Integrations\<close>

type_synonym KueueIntegration = string
abbreviation KueueIntegrationBatchJob :: KueueIntegration where
  "KueueIntegrationBatchJob \<equiv> ''BatchJob''"
abbreviation KueueIntegrationRayJob :: KueueIntegration where
  "KueueIntegrationRayJob \<equiv> ''RayJob''"
abbreviation KueueIntegrationRayCluster :: KueueIntegration where
  "KueueIntegrationRayCluster \<equiv> ''RayCluster''"
abbreviation KueueIntegrationRayService :: KueueIntegration where
  "KueueIntegrationRayService \<equiv> ''RayService''"
abbreviation KueueIntegrationJobSet :: KueueIntegration where
  "KueueIntegrationJobSet \<equiv> ''JobSet''"
abbreviation KueueIntegrationMPIJob :: KueueIntegration where
  "KueueIntegrationMPIJob \<equiv> ''MPIJob''"
abbreviation KueueIntegrationPaddleJob :: KueueIntegration where
  "KueueIntegrationPaddleJob \<equiv> ''PaddleJob''"
abbreviation KueueIntegrationPyTorchJob :: KueueIntegration where
  "KueueIntegrationPyTorchJob \<equiv> ''PyTorchJob''"
abbreviation KueueIntegrationTFJob :: KueueIntegration where
  "KueueIntegrationTFJob \<equiv> ''TFJob''"
abbreviation KueueIntegrationTrainJob :: KueueIntegration where
  "KueueIntegrationTrainJob \<equiv> ''TrainJob''"
abbreviation KueueIntegrationXGBoostJob :: KueueIntegration where
  "KueueIntegrationXGBoostJob \<equiv> ''XGBoostJob''"
abbreviation KueueIntegrationJaxJob :: KueueIntegration where
  "KueueIntegrationJaxJob \<equiv> ''JaxJob''"
abbreviation KueueIntegrationAppWrapper :: KueueIntegration where
  "KueueIntegrationAppWrapper \<equiv> ''AppWrapper''"
abbreviation KueueIntegrationPod :: KueueIntegration where
  "KueueIntegrationPod \<equiv> ''Pod''"
abbreviation KueueIntegrationDeployment :: KueueIntegration where
  "KueueIntegrationDeployment \<equiv> ''Deployment''"
abbreviation KueueIntegrationStatefulSet :: KueueIntegration where
  "KueueIntegrationStatefulSet \<equiv> ''StatefulSet''"
abbreviation KueueIntegrationLeaderWorkerSet :: KueueIntegration where
  "KueueIntegrationLeaderWorkerSet \<equiv> ''LeaderWorkerSet''"
abbreviation KueueIntegrationSparkApplication :: KueueIntegration where
  "KueueIntegrationSparkApplication \<equiv> ''SparkApplication''"

text \<open>The values the API server admits: the \<^verbatim>\<open>+kubebuilder:validation:Enum\<close> marker.\<close>
definition KueueIntegration_Enum :: "KueueIntegration list" where
  "KueueIntegration_Enum =
    [KueueIntegrationBatchJob, KueueIntegrationRayJob, KueueIntegrationRayCluster,
     KueueIntegrationRayService, KueueIntegrationJobSet, KueueIntegrationMPIJob,
     KueueIntegrationPaddleJob, KueueIntegrationPyTorchJob, KueueIntegrationTFJob,
     KueueIntegrationTrainJob, KueueIntegrationXGBoostJob, KueueIntegrationJaxJob,
     KueueIntegrationAppWrapper, KueueIntegrationPod, KueueIntegrationDeployment,
     KueueIntegrationStatefulSet, KueueIntegrationLeaderWorkerSet,
     KueueIntegrationSparkApplication]"

record ExternalFramework =
  ef_Group :: string
  ef_Resource :: string
  ef_Version :: string

record LabelKeys = lk_Key :: string

record Integrations =
  in_Frameworks :: "KueueIntegration list"
  in_ExternalFrameworks :: "ExternalFramework list"
  in_LabelKeysToCopy :: "LabelKeys list"

record MultiKueue = mk_ExternalFrameworks :: "ExternalFramework list"

section \<open>Admission fair sharing\<close>

type_synonym AdmissionFairSharingConfiguration = string
abbreviation AdmissionFairSharingConfigurationDefault :: AdmissionFairSharingConfiguration where
  "AdmissionFairSharingConfigurationDefault \<equiv> ''Default''"
abbreviation AdmissionFairSharingConfigurationCustom :: AdmissionFairSharingConfiguration where
  "AdmissionFairSharingConfigurationCustom \<equiv> ''Custom''"

record ResourceWeight =
  rw_Name :: string
  rw_Weight :: string

record AdmissionFairSharingCustom =
  afc_UsageHalfLifeTimeSeconds :: int32
  afc_UsageSamplingIntervalSeconds :: int32
  afc_ResourceWeights :: "ResourceWeight list"

record AdmissionFairSharing =
  afs_Configuration :: AdmissionFairSharingConfiguration
  afs_Custom :: AdmissionFairSharingCustom

section \<open>Gang scheduling\<close>

type_synonym GangSchedulingPolicy = string
abbreviation GangSchedulingPolicyByWorkload :: GangSchedulingPolicy where
  "GangSchedulingPolicyByWorkload \<equiv> ''ByWorkload''"
abbreviation GangSchedulingPolicyNone :: GangSchedulingPolicy where
  "GangSchedulingPolicyNone \<equiv> ''None''"
abbreviation GangSchedulingPolicyByWorkloadDefaults :: GangSchedulingPolicy where
  "GangSchedulingPolicyByWorkloadDefaults \<equiv> ''ByWorkloadDefaults''"

type_synonym GangSchedulingWorkloadAdmission = string
abbreviation GangSchedulingWorkloadAdmissionSequential :: GangSchedulingWorkloadAdmission where
  "GangSchedulingWorkloadAdmissionSequential \<equiv> ''Sequential''"
abbreviation GangSchedulingWorkloadAdmissionParallel :: GangSchedulingWorkloadAdmission where
  "GangSchedulingWorkloadAdmissionParallel \<equiv> ''Parallel''"

type_synonym RequeuingTimeReference = string
abbreviation EvictionTimestamp :: RequeuingTimeReference where "EvictionTimestamp \<equiv> ''Eviction''"
abbreviation CreationTimestamp :: RequeuingTimeReference where "CreationTimestamp \<equiv> ''Creation''"

record RequeuingStrategy =
  rs_TimeReference :: RequeuingTimeReference
  rs_RetryLimit :: int32
  rs_BackoffBaseSeconds :: int32
  rs_BackoffMaxSeconds :: int32

record ByWorkload =
  bw_Admission :: GangSchedulingWorkloadAdmission
  bw_TimeoutSeconds :: int32
  bw_RecoveryTimeoutSeconds :: "int32 option"
  bw_RequeuingStrategy :: RequeuingStrategy

record GangScheduling =
  gs_Policy :: GangSchedulingPolicy
  gs_ByWorkload :: "ByWorkload option"

section \<open>Workload management and preemption\<close>

type_synonym LabelPolicy = string
abbreviation LabelPolicyQueueName :: LabelPolicy where "LabelPolicyQueueName \<equiv> ''QueueName''"
abbreviation LabelPolicyNone :: LabelPolicy where "LabelPolicyNone \<equiv> ''None''"

record WorkloadManagement = wm_LabelPolicy :: LabelPolicy

type_synonym PreemptionPolicy = string
abbreviation PreemptionStrategyClassical :: PreemptionPolicy where
  "PreemptionStrategyClassical \<equiv> ''Classical''"
abbreviation PreemptionStrategyFairsharing :: PreemptionPolicy where
  "PreemptionStrategyFairsharing \<equiv> ''FairSharing''"

record Preemption = pr_PreemptionPolicy :: PreemptionPolicy

section \<open>Device classes (dynamic resource allocation)\<close>

type_synonym DeviceSelectorType = string
abbreviation DeviceSelectorTypeCEL :: DeviceSelectorType where "DeviceSelectorTypeCEL \<equiv> ''CEL''"

record CELDeviceSelector = cel_Expression :: string

record DeviceSelector =
  ds_Type :: DeviceSelectorType
  ds_CEL :: CELDeviceSelector

type_synonym DeviceClassSourceType = string
abbreviation DeviceClassSourceTypeCounter :: DeviceClassSourceType where
  "DeviceClassSourceTypeCounter \<equiv> ''Counter''"
abbreviation DeviceClassSourceTypeCapacity :: DeviceClassSourceType where
  "DeviceClassSourceTypeCapacity \<equiv> ''Capacity''"

record DeviceClassCounterSource =
  ctr_Name :: string
  ctr_Driver :: string
  ctr_DeviceSelector :: DeviceSelector

record DeviceClassCapacitySource =
  cap_Name :: string
  cap_Driver :: string
  cap_DeviceSelector :: DeviceSelector

record DeviceClassSourceConfig =
  dsc_Type :: DeviceClassSourceType
  dsc_Counter :: DeviceClassCounterSource
  dsc_Capacity :: DeviceClassCapacitySource

type_synonym DeviceClassName = string

record DeviceClassMapping =
  dcm_Name :: string
  dcm_DeviceClassNames :: "DeviceClassName list"
  dcm_Sources :: "DeviceClassSourceConfig list"

record Resources = res_DeviceClassMappings :: "DeviceClassMapping list"

section \<open>The custom resource\<close>

record KueueConfiguration =
  kc_Integrations :: Integrations
  kc_WorkloadManagement :: WorkloadManagement
  kc_GangScheduling :: GangScheduling
  kc_Preemption :: Preemption
  kc_Resources :: Resources
  kc_MultiKueue :: "MultiKueue option"
  kc_AdmissionFairSharing :: AdmissionFairSharing
  kc_ControllerManager :: ControllerManager

text \<open>\<^verbatim>\<open>operatorv1.LogLevel\<close>, \<^verbatim>\<open>operatorv1.OperatorSpec\<close> and \<^verbatim>\<open>operatorv1.OperatorStatus\<close>.\<close>
type_synonym LogLevel = string

record OperatorSpec =
  os_LogLevel :: LogLevel
  os_Rest :: opaque

record OperatorCondition =
  oc_Type :: string
  oc_Status :: string
  oc_LastTransitionTime :: nat
  oc_Reason :: string
  oc_Message :: string

record GenerationStatus =
  gen_Group :: string
  gen_Resource :: string
  gen_Namespace :: string
  gen_Name :: string
  gen_LastGeneration :: int
  gen_Hash :: string

record OperatorStatus =
  ost_Conditions :: "OperatorCondition list"
  ost_ReadyReplicas :: int32
  ost_Generations :: "GenerationStatus list"
  ost_Rest :: opaque

record KueueStatus = kst_OperatorStatus :: OperatorStatus

record KueueOperandSpec =
  ks_OperatorSpec :: OperatorSpec
  ks_Config :: KueueConfiguration

record Kueue =
  ku_ObjectMeta :: ObjectMeta
  ku_Spec :: KueueOperandSpec
  ku_Status :: KueueStatus

record KueueList = kl_Items :: "Kueue list"

text \<open>The configuration of a Kueue resource that only lists frameworks, and such a resource: Go's
  zero values everywhere else.\<close>
definition config_with_frameworks :: "KueueIntegration list \<Rightarrow> KueueConfiguration" where
  "config_with_frameworks fs = \<lparr>
     kc_Integrations = \<lparr>in_Frameworks = fs, in_ExternalFrameworks = [], in_LabelKeysToCopy = []\<rparr>,
     kc_WorkloadManagement = \<lparr>wm_LabelPolicy = []\<rparr>,
     kc_GangScheduling = \<lparr>gs_Policy = [], gs_ByWorkload = None\<rparr>,
     kc_Preemption = \<lparr>pr_PreemptionPolicy = []\<rparr>,
     kc_Resources = \<lparr>res_DeviceClassMappings = []\<rparr>,
     kc_MultiKueue = None,
     kc_AdmissionFairSharing = \<lparr>afs_Configuration = [],
       afs_Custom = \<lparr>afc_UsageHalfLifeTimeSeconds = 0, afc_UsageSamplingIntervalSeconds = 0,
         afc_ResourceWeights = []\<rparr>\<rparr>,
     kc_ControllerManager = \<lparr>cmg_Metrics = \<lparr>cmx_CustomLabels = []\<rparr>\<rparr>\<rparr>"

definition kueue_with_frameworks :: "KueueIntegration list \<Rightarrow> Kueue" where
  "kueue_with_frameworks fs = \<lparr>
     ku_ObjectMeta = empty_meta\<lparr>om_Name := ''cluster'', om_UID := ''1'', om_Generation := 1\<rparr>,
     ku_Spec = \<lparr>ks_OperatorSpec = \<lparr>os_LogLevel = [], os_Rest = []\<rparr>,
       ks_Config = config_with_frameworks fs\<rparr>,
     ku_Status = \<lparr>kst_OperatorStatus = \<lparr>ost_Conditions = [], ost_ReadyReplicas = 0,
       ost_Generations = [], ost_Rest = []\<rparr>\<rparr>\<rparr>"

section \<open>Admission by the API server\<close>

text \<open>
  The bounds and unions that the \<^verbatim>\<open>+kubebuilder:validation\<close> markers of \<^verbatim>\<open>types.go\<close> make the API
  server enforce on the fields whose values steer the operator: enumerations, item counts, integer
  ranges and discriminated unions. The string patterns (DNS names, qualified names, CEL
  expressions) are not restated.
\<close>

definition in_range :: "int \<Rightarrow> int32 \<Rightarrow> int \<Rightarrow> bool" where
  "in_range lo x hi = (lo \<le> sint x \<and> sint x \<le> hi)"

text \<open>An \<^verbatim>\<open>omitempty\<close> integer is validated only when it is present, that is, not zero.\<close>
definition opt_range :: "int \<Rightarrow> int32 \<Rightarrow> int \<Rightarrow> bool" where
  "opt_range lo x hi = (x = 0 \<or> in_range lo x hi)"

definition valid_Integrations :: "Integrations \<Rightarrow> bool" where
  "valid_Integrations i \<longleftrightarrow>
     1 \<le> length (in_Frameworks i) \<and> length (in_Frameworks i) \<le> 18 \<and>
     distinct (in_Frameworks i) \<and> list_all (\<lambda>f. f \<in> set KueueIntegration_Enum) (in_Frameworks i) \<and>
     length (in_ExternalFrameworks i) \<le> 32 \<and> distinct (map ef_Group (in_ExternalFrameworks i)) \<and>
     length (in_LabelKeysToCopy i) \<le> 64 \<and> distinct (map lk_Key (in_LabelKeysToCopy i))"

definition valid_RequeuingStrategy :: "RequeuingStrategy \<Rightarrow> bool" where
  "valid_RequeuingStrategy s \<longleftrightarrow>
     rs_TimeReference s \<in> {[], EvictionTimestamp, CreationTimestamp} \<and>
     opt_range 1 (rs_RetryLimit s) 200 \<and> opt_range 30 (rs_BackoffBaseSeconds s) 3600 \<and>
     opt_range 30 (rs_BackoffMaxSeconds s) 7200 \<and>
     (rs_BackoffBaseSeconds s = 0 \<or> rs_BackoffMaxSeconds s = 0 \<or>
      sint (rs_BackoffBaseSeconds s) \<le> sint (rs_BackoffMaxSeconds s))"

definition valid_ByWorkload :: "ByWorkload \<Rightarrow> bool" where
  "valid_ByWorkload b \<longleftrightarrow>
     bw_Admission b \<in> {[], GangSchedulingWorkloadAdmissionParallel,
                        GangSchedulingWorkloadAdmissionSequential} \<and>
     opt_range 30 (bw_TimeoutSeconds b) 86400 \<and>
     (case bw_RecoveryTimeoutSeconds b of None \<Rightarrow> True | Some r \<Rightarrow> in_range 0 r 86400) \<and>
     valid_RequeuingStrategy (bw_RequeuingStrategy b)"

definition valid_GangScheduling :: "GangScheduling \<Rightarrow> bool" where
  "valid_GangScheduling g \<longleftrightarrow>
     gs_Policy g \<in> {[], GangSchedulingPolicyByWorkload, GangSchedulingPolicyByWorkloadDefaults,
                     GangSchedulingPolicyNone} \<and>
     (gs_Policy g = GangSchedulingPolicyByWorkload \<longleftrightarrow> gs_ByWorkload g \<noteq> None) \<and>
     (case gs_ByWorkload g of None \<Rightarrow> True | Some b \<Rightarrow> valid_ByWorkload b)"

definition valid_DeviceClassMapping :: "DeviceClassMapping \<Rightarrow> bool" where
  "valid_DeviceClassMapping m \<longleftrightarrow>
     1 \<le> length (dcm_DeviceClassNames m) \<and> length (dcm_DeviceClassNames m) \<le> 8 \<and>
     distinct (dcm_DeviceClassNames m) \<and> length (dcm_Sources m) \<le> 1 \<and>
     list_all (\<lambda>s. dsc_Type s \<in> {DeviceClassSourceTypeCounter, DeviceClassSourceTypeCapacity})
       (dcm_Sources m)"

definition valid_Resources :: "Resources \<Rightarrow> bool" where
  "valid_Resources r \<longleftrightarrow>
     length (res_DeviceClassMappings r) \<le> 16 \<and>
     distinct (map dcm_Name (res_DeviceClassMappings r)) \<and>
     list_all valid_DeviceClassMapping (res_DeviceClassMappings r)"

definition valid_ControllerMetrics :: "ControllerMetrics \<Rightarrow> bool" where
  "valid_ControllerMetrics m \<longleftrightarrow>
     length (cmx_CustomLabels m) \<le> 18 \<and> distinct (map cl_Name (cmx_CustomLabels m)) \<and>
     list_all (\<lambda>k. length (filter (\<lambda>l. cl_SourceKind l = k) (cmx_CustomLabels m)) \<le> 6)
       [SourceKindClusterQueue, SourceKindLocalQueue, SourceKindCohort] \<and>
     list_all (\<lambda>l. cl_SourceKind l \<in> {SourceKindCohort, SourceKindLocalQueue,
         SourceKindClusterQueue} \<and>
       sk_SourceType (cl_SourceKey l) \<in> {SourceLabel, SourceAnnotation}) (cmx_CustomLabels m)"

end
