(* ===== verification/K8s_Objects.thy ===== *)
theory K8s_Objects
  imports API_Types
begin

text \<open>
  The Kubernetes objects the operator manages, one record per Go struct. Every field the operator
  or the vendored apply functions read or write is a field of its own; the others are kept
  together as one opaque value, so that an equality of two specifications (Go's
  \<^verbatim>\<open>equality.Semantic.DeepEqual\<close>) is the equality of the records. A map that is part of such a
  comparison is a HOL map, and an absent slice or byte string is the empty one, as
  \<^verbatim>\<open>Semantic.DeepEqual\<close> identifies the two. The sum \<open>robj\<close> stands for Go's \<^verbatim>\<open>runtime.Object\<close>.
\<close>

section \<open>Type metadata and untyped objects\<close>

record TypeMeta =
  tm_Kind :: string
  tm_APIVersion :: string

text \<open>An object built by a Go literal has no type metadata.\<close>
definition empty_type :: TypeMeta where
  "empty_type = \<lparr>tm_Kind = [], tm_APIVersion = []\<rparr>"

datatype json =
    JNull
  | JBool bool
  | JInt int
  | JStr string
  | JList "json list"
  | JObj "string \<Rightarrow> json option"

text \<open>A Go \<^verbatim>\<open>map[string]interface{}\<close>; equality of two is Go's deep equality.\<close>
type_synonym json_map = "string \<rightharpoonup> json"

record Unstructured = us_Object :: json_map

section \<open>Core\<close>

record ConfigMap =
  cm_TypeMeta :: TypeMeta
  cm_ObjectMeta :: ObjectMeta
  cm_Data :: "(string, string) gomap"
  cm_BinaryData :: "(string, string) gomap"

record ServiceAccount =
  sa_TypeMeta :: TypeMeta
  sa_ObjectMeta :: ObjectMeta
  sa_Rest :: opaque

record ServiceSpec =
  svs_Selector :: "string \<rightharpoonup> string"
  svs_Type :: string
  svs_Rest :: opaque

record Service =
  sv_TypeMeta :: TypeMeta
  sv_ObjectMeta :: ObjectMeta
  sv_Spec :: ServiceSpec

section \<open>RBAC\<close>

record PolicyRule =
  pol_Verbs :: "string list"
  pol_APIGroups :: "string list"
  pol_Resources :: "string list"
  pol_ResourceNames :: "string list"
  pol_NonResourceURLs :: "string list"

record Role =
  ro_TypeMeta :: TypeMeta
  ro_ObjectMeta :: ObjectMeta
  ro_Rules :: "PolicyRule list"

record ClusterRole =
  cro_TypeMeta :: TypeMeta
  cro_ObjectMeta :: ObjectMeta
  cro_Rules :: "PolicyRule list"
  cro_AggregationRule :: "opaque option"

record Subject =
  su_Kind :: string
  su_APIGroup :: string
  su_Name :: string
  su_Namespace :: string

record RoleRef =
  rr_APIGroup :: string
  rr_Kind :: string
  rr_Name :: string

record RoleBinding =
  rb_TypeMeta :: TypeMeta
  rb_ObjectMeta :: ObjectMeta
  rb_Subjects :: "Subject list"
  rb_RoleRef :: RoleRef

record ClusterRoleBinding =
  crb_TypeMeta :: TypeMeta
  crb_ObjectMeta :: ObjectMeta
  crb_Subjects :: "Subject list"
  crb_RoleRef :: RoleRef

section \<open>Admission webhooks\<close>

record ServiceReference =
  sr_Namespace :: string
  sr_Name :: string
  sr_Path :: "string option"
  sr_Port :: "int32 option"

record WebhookClientConfig =
  wc_URL :: "string option"
  wc_Service :: "ServiceReference option"
  wc_CABundle :: string

text \<open>\<^verbatim>\<open>MutatingWebhook\<close> and \<^verbatim>\<open>ValidatingWebhook\<close> differ only in fields the operator does not
  touch, and so do the two configuration types.\<close>
record Webhook =
  wh_Name :: string
  wh_ClientConfig :: WebhookClientConfig
  wh_NamespaceSelector :: "LabelSelector option"
  wh_Rest :: opaque

record MutatingWebhookConfiguration =
  mwc_TypeMeta :: TypeMeta
  mwc_ObjectMeta :: ObjectMeta
  mwc_Webhooks :: "Webhook list"

record ValidatingWebhookConfiguration =
  vwc_TypeMeta :: TypeMeta
  vwc_ObjectMeta :: ObjectMeta
  vwc_Webhooks :: "Webhook list"

section \<open>Networking and flow control\<close>

record NetworkPolicyPeer =
  npp_PodSelector :: "LabelSelector option"
  npp_NamespaceSelector :: "LabelSelector option"
  npp_IPBlock :: "opaque option"

record NetworkPolicyIngressRule =
  npi_Ports :: opaque
  npi_From :: "NetworkPolicyPeer list"

record NetworkPolicyEgressRule =
  npe_Ports :: opaque
  npe_To :: "NetworkPolicyPeer list"

record NetworkPolicySpec =
  nps_PodSelector :: LabelSelector
  nps_Ingress :: "NetworkPolicyIngressRule list"
  nps_Egress :: "NetworkPolicyEgressRule list"
  nps_PolicyTypes :: "string list"

record NetworkPolicy =
  np_TypeMeta :: TypeMeta
  np_ObjectMeta :: ObjectMeta
  np_Spec :: NetworkPolicySpec

record LimitedPriorityLevelConfiguration =
  lim_NominalConcurrencyShares :: "int32 option"
  lim_Rest :: opaque

record PriorityLevelConfigurationSpec =
  pls_Type :: string
  pls_Limited :: "LimitedPriorityLevelConfiguration option"
  pls_Exempt :: "opaque option"

record PriorityLevelConfiguration =
  plc_TypeMeta :: TypeMeta
  plc_ObjectMeta :: ObjectMeta
  plc_Spec :: PriorityLevelConfigurationSpec

record FlowSchema =
  fl_TypeMeta :: TypeMeta
  fl_ObjectMeta :: ObjectMeta
  fl_Spec :: opaque

section \<open>API extension\<close>

record CRDVersion =
  crv_Name :: string
  crv_Rest :: opaque

record WebhookConversion =
  wcv_ClientConfig :: "WebhookClientConfig option"
  wcv_ConversionReviewVersions :: "string list"

record CustomResourceConversion =
  ccv_Strategy :: string
  ccv_Webhook :: "WebhookConversion option"

record CRDNames =
  cnm_Kind :: string
  cnm_Singular :: string
  cnm_ListKind :: string
  cnm_Rest :: opaque

record CRDSpec =
  crs_Names :: CRDNames
  crs_Versions :: "CRDVersion list"
  crs_Conversion :: "CustomResourceConversion option"
  crs_Rest :: opaque

record CustomResourceDefinition =
  crd_TypeMeta :: TypeMeta
  crd_ObjectMeta :: ObjectMeta
  crd_Spec :: CRDSpec

record APIServiceSpec =
  ass_Service :: "ServiceReference option"
  ass_InsecureSkipTLSVerify :: bool
  ass_CABundle :: string
  ass_GroupPriorityMinimum :: int32
  ass_VersionPriority :: int32
  ass_Rest :: opaque

record APIService =
  as_TypeMeta :: TypeMeta
  as_ObjectMeta :: ObjectMeta
  as_Spec :: APIServiceSpec

section \<open>Deployments\<close>

record KeyToPath =
  ktp_Key :: string
  ktp_Path :: string

record SecretVolumeSource =
  svo_SecretName :: string
  svo_Items :: "KeyToPath list"
  svo_Optional :: "bool option"

record VolumeSource =
  vs_EmptyDir :: "opaque option"
  vs_Secret :: "SecretVolumeSource option"
  vs_Other :: opaque

record Volume =
  vo_Name :: string
  vo_VolumeSource :: VolumeSource

record VolumeMount =
  vm_Name :: string
  vm_MountPath :: string
  vm_ReadOnly :: bool
  vm_Rest :: opaque

record SecurityContext =
  scx_ReadOnlyRootFilesystem :: "bool option"
  scx_Rest :: opaque

text \<open>\<^verbatim>\<open>ResourceRequirements\<close>, with quantities as their textual form.\<close>
record ResourceRequirements =
  rq_Requests :: "string \<rightharpoonup> string"
  rq_Limits :: "string \<rightharpoonup> string"

record Container =
  co_Name :: string
  co_Image :: string
  co_Args :: "string list"
  co_Resources :: ResourceRequirements
  co_VolumeMounts :: "VolumeMount list"
  co_SecurityContext :: "SecurityContext option"
  co_Rest :: opaque

record WeightedPodAffinityTerm =
  wpt_Weight :: int32
  wpt_LabelSelector :: "LabelSelector option"
  wpt_TopologyKey :: string

record Affinity =
  af_PodAntiAffinity_Preferred :: "WeightedPodAffinityTerm list"
  af_Rest :: opaque

record PodSpec =
  ps_Volumes :: "Volume list"
  ps_Containers :: "Container list"
  ps_Affinity :: "Affinity option"
  ps_PriorityClassName :: string
  ps_Rest :: opaque

record PodTemplateSpec =
  pt_Labels :: "(string, string) gomap"
  pt_Annotations :: "(string, string) gomap"
  pt_Spec :: PodSpec

text \<open>A rolling update's \<^verbatim>\<open>MaxUnavailable\<close> and \<^verbatim>\<open>MaxSurge\<close>, in textual form.\<close>
record DeploymentStrategy =
  dst_Type :: string
  dst_MaxUnavailable :: "string option"
  dst_MaxSurge :: "string option"

record DeploymentSpec =
  dp_Replicas :: "int32 option"
  dp_Strategy :: DeploymentStrategy
  dp_Template :: PodTemplateSpec
  dp_Rest :: opaque

record DeploymentStatus =
  dps_ReadyReplicas :: int32
  dps_UnavailableReplicas :: int32
  dps_Rest :: opaque

record Deployment =
  de_TypeMeta :: TypeMeta
  de_ObjectMeta :: ObjectMeta
  de_Spec :: DeploymentSpec
  de_Status :: DeploymentStatus

section \<open>Any object\<close>

datatype robj =
    RConfigMap ConfigMap
  | RSecret Unstructured
  | RServiceAccount ServiceAccount
  | RService Service
  | RRole Role
  | RRoleBinding RoleBinding
  | RClusterRole ClusterRole
  | RClusterRoleBinding ClusterRoleBinding
  | RMutatingWebhook MutatingWebhookConfiguration
  | RValidatingWebhook ValidatingWebhookConfiguration
  | RNetworkPolicy NetworkPolicy
  | RPriorityLevel PriorityLevelConfiguration
  | RFlowSchema FlowSchema
  | RCRD CustomResourceDefinition
  | RAPIService APIService
  | RDeployment Deployment
  | RIssuer Unstructured
  | RCertificate Unstructured
  | RServiceMonitor Unstructured

datatype kind =
    KConfigMap | KSecret | KServiceAccount | KService | KRole | KRoleBinding | KClusterRole
  | KClusterRoleBinding | KMutatingWebhook | KValidatingWebhook | KNetworkPolicy
  | KPriorityLevel | KFlowSchema | KCRD | KAPIService | KDeployment | KIssuer | KCertificate
  | KServiceMonitor

fun kind_name :: "kind \<Rightarrow> string" where
  "kind_name KConfigMap = ''ConfigMap''"
| "kind_name KSecret = ''Secret''"
| "kind_name KServiceAccount = ''ServiceAccount''"
| "kind_name KService = ''Service''"
| "kind_name KRole = ''Role''"
| "kind_name KRoleBinding = ''RoleBinding''"
| "kind_name KClusterRole = ''ClusterRole''"
| "kind_name KClusterRoleBinding = ''ClusterRoleBinding''"
| "kind_name KMutatingWebhook = ''MutatingWebhookConfiguration''"
| "kind_name KValidatingWebhook = ''ValidatingWebhookConfiguration''"
| "kind_name KNetworkPolicy = ''NetworkPolicy''"
| "kind_name KPriorityLevel = ''PriorityLevelConfiguration''"
| "kind_name KFlowSchema = ''FlowSchema''"
| "kind_name KCRD = ''CustomResourceDefinition''"
| "kind_name KAPIService = ''APIService''"
| "kind_name KDeployment = ''Deployment''"
| "kind_name KIssuer = ''Issuer''"
| "kind_name KCertificate = ''Certificate''"
| "kind_name KServiceMonitor = ''ServiceMonitor''"

text \<open>What \<^verbatim>\<open>json.Marshal\<close> is applied to by the two hashing functions.\<close>
datatype hashable =
    HJson json
  | HData "(string, string) gomap"
  | HName string
  | HRules "PolicyRule list"
  | HBinding "Subject list" RoleRef
  | HService ServiceSpec
  | HWebhooks "Webhook list"
  | HNetworkPolicy NetworkPolicySpec
  | HPriorityLevel PriorityLevelConfigurationSpec
  | HFlowSchema opaque
  | HCRD CRDSpec
  | HAPIService APIServiceSpec
  | HDeployment DeploymentSpec

end
