(* ===== verification/Go_Monad.thy ===== *)
theory Go_Monad
  imports Go_Prelude
begin

text \<open>
  Go errors as values and the state-and-error monad. A Go function that calls the API server,
  records events or changes a cache is a function from the state to its result and the new state;
  the result is \<open>Inl\<close> of the returned error or \<open>Inr\<close> of the returned values. A panic is the error
  \<open>Panic\<close>: unlike the others it cannot be inspected and handled, so \<open>go_try\<close>, which models
  \<^verbatim>\<open>x, err := f()\<close> followed by code that looks at \<^verbatim>\<open>err\<close>, lets it through. The retry helpers
  of \<^verbatim>\<open>k8s.io/client-go/util/retry\<close> are here too. The second half is a Hoare calculus: triples
  with one postcondition for success and one for failure, and \<open>go_keeps\<close> for invariants.
\<close>

section \<open>Errors\<close>

datatype api_reason = NotFound | Conflict | TooManyRequests | AlreadyExists | OtherReason

datatype err =
    ApiError api_reason string
  | Errorf string
  | Wrap string err
  | Aggregate "err list"
  | Panic string

text \<open>\<^verbatim>\<open>apierrors.ReasonForError\<close> looks through wrapped errors but not into an aggregate.\<close>
fun reason_of :: "err \<Rightarrow> api_reason option" where
  "reason_of (ApiError r m) = Some r"
| "reason_of (Wrap m e) = reason_of e"
| "reason_of _ = None"

definition IsNotFound :: "err \<Rightarrow> bool" where "IsNotFound e = (reason_of e = Some NotFound)"
definition IsConflict :: "err \<Rightarrow> bool" where "IsConflict e = (reason_of e = Some Conflict)"
definition IsTooManyRequests :: "err \<Rightarrow> bool" where
  "IsTooManyRequests e = (reason_of e = Some TooManyRequests)"

fun is_panic :: "err \<Rightarrow> bool" where
  "is_panic (Panic m) = True"
| "is_panic _ = False"

lemma reason_not_panic [simp]: "IsNotFound e \<Longrightarrow> \<not> is_panic e" "IsConflict e \<Longrightarrow> \<not> is_panic e"
  "IsTooManyRequests e \<Longrightarrow> \<not> is_panic e"
  by (cases e; simp add: IsNotFound_def IsConflict_def IsTooManyRequests_def)+

text \<open>A call succeeded.\<close>
abbreviation is_ok :: "err + 'a \<Rightarrow> bool" where "is_ok r \<equiv> \<not> isl r"

section \<open>The monad\<close>

type_synonym ('s, 'a) go = "'s \<Rightarrow> (err + 'a) \<times> 's"

definition go_return :: "'a \<Rightarrow> ('s, 'a) go" where
  [go_defs]: "go_return x = (\<lambda>s. (Inr x, s))"

definition go_throw :: "err \<Rightarrow> ('s, 'a) go" where
  [go_defs]: "go_throw e = (\<lambda>s. (Inl e, s))"

definition go_bind :: "('s, 'a) go \<Rightarrow> ('a \<Rightarrow> ('s, 'b) go) \<Rightarrow> ('s, 'b) go" where
  [go_defs]: "go_bind m f = (\<lambda>s. case m s of (Inl e, s') \<Rightarrow> (Inl e, s') | (Inr x, s') \<Rightarrow> f x s')"

definition go_seq :: "('s, 'a) go \<Rightarrow> ('s, 'b) go \<Rightarrow> ('s, 'b) go" where
  [go_defs]: "go_seq m n = go_bind m (\<lambda>_. n)"

definition go_try :: "('s, 'a) go \<Rightarrow> ('s, err + 'a) go" where
  [go_defs]: "go_try m = (\<lambda>s. case m s of
      (Inl e, s') \<Rightarrow> if is_panic e then (Inl e, s') else (Inr (Inl e), s')
    | (Inr x, s') \<Rightarrow> (Inr (Inr x), s'))"

definition go_read :: "('s \<Rightarrow> 'a) \<Rightarrow> ('s, 'a) go" where
  [go_defs]: "go_read f = (\<lambda>s. (Inr (f s), s))"

definition go_modify :: "('s \<Rightarrow> 's) \<Rightarrow> ('s, unit) go" where
  [go_defs]: "go_modify f = (\<lambda>s. (Inr (), f s))"

definition go_when :: "bool \<Rightarrow> ('s, unit) go \<Rightarrow> ('s, unit) go" where
  [go_defs]: "go_when b m = (if b then m else go_return ())"

text \<open>Lifting a pure fallible function.\<close>
definition go_lift :: "err + 'a \<Rightarrow> ('s, 'a) go" where
  [go_defs]: "go_lift r = (\<lambda>s. (r, s))"

text \<open>\<^verbatim>\<open>for _, x := range xs { acc, err = f(acc, x); if err != nil { return err } }\<close>\<close>
fun go_foldM :: "('b \<Rightarrow> 'x \<Rightarrow> ('s, 'b) go) \<Rightarrow> 'x list \<Rightarrow> 'b \<Rightarrow> ('s, 'b) go" where
  "go_foldM f [] acc = go_return acc"
| "go_foldM f (x # xs) acc = go_bind (f acc x) (go_foldM f xs)"

fun go_foreach :: "('x \<Rightarrow> ('s, unit) go) \<Rightarrow> 'x list \<Rightarrow> ('s, unit) go" where
  "go_foreach f [] = go_return ()"
| "go_foreach f (x # xs) = go_seq (f x) (go_foreach f xs)"

text \<open>A loop that appends every error to \<^verbatim>\<open>errorList\<close> and goes on.\<close>
fun go_collect :: "('x \<Rightarrow> ('s, unit) go) \<Rightarrow> 'x list \<Rightarrow> ('s, err list) go" where
  "go_collect f [] = go_return []"
| "go_collect f (x # xs) = go_bind (go_try (f x)) (\<lambda>r. go_bind (go_collect f xs) (\<lambda>es.
     go_return (case r of Inl e \<Rightarrow> e # es | Inr _ \<Rightarrow> es)))"

text \<open>\<^verbatim>\<open>if len(errorList) > 0 { return utilerror.NewAggregate(errorList) }; return nil\<close>\<close>
definition return_aggregate :: "err list \<Rightarrow> ('s, unit) go" where
  [go_defs]: "return_aggregate es = (if es = [] then go_return () else go_throw (Aggregate es))"

text \<open>\<^verbatim>\<open>retry.OnError\<close> with a backoff of \<open>n\<close> steps: \<open>wait.ExponentialBackoff\<close> runs the function
  until it succeeds, fails with an error that is not retriable, or has run \<open>n\<close> times; in the last
  case the last retriable error is returned. (With no step at all the timeout error is.)\<close>
fun retry_OnError :: "nat \<Rightarrow> (err \<Rightarrow> bool) \<Rightarrow> ('s, 'a) go \<Rightarrow> ('s, 'a) go" where
  "retry_OnError 0 retriable m = go_throw (Errorf ''timed out waiting for the condition'')"
| "retry_OnError (Suc n) retriable m = (\<lambda>s. case m s of
      (Inr x, s') \<Rightarrow> (Inr x, s')
    | (Inl e, s') \<Rightarrow> if retriable e \<and> 0 < n then retry_OnError n retriable m s' else (Inl e, s'))"

abbreviation DefaultRetry_Steps :: nat where "DefaultRetry_Steps \<equiv> 5"
abbreviation DefaultBackoff_Steps :: nat where "DefaultBackoff_Steps \<equiv> 4"

definition RetryOnConflict :: "nat \<Rightarrow> ('s, 'a) go \<Rightarrow> ('s, 'a) go" where
  "RetryOnConflict n m = retry_OnError n IsConflict m"

section \<open>Hoare triples\<close>

definition go_triple ::
  "('s \<Rightarrow> bool) \<Rightarrow> ('s, 'a) go \<Rightarrow> ('a \<Rightarrow> 's \<Rightarrow> bool) \<Rightarrow> (err \<Rightarrow> 's \<Rightarrow> bool) \<Rightarrow> bool" where
  "go_triple P m Q R =
     (\<forall>s. P s \<longrightarrow> (case m s of (Inl e, s') \<Rightarrow> R e s' | (Inr x, s') \<Rightarrow> Q x s'))"

abbreviation go_keeps :: "('s \<Rightarrow> bool) \<Rightarrow> ('s, 'a) go \<Rightarrow> bool" where
  "go_keeps I m \<equiv> go_triple I m (\<lambda>_. I) (\<lambda>_. I)"

lemma go_triple_Inr: "go_triple P m Q R \<Longrightarrow> P s \<Longrightarrow> m s = (Inr x, s') \<Longrightarrow> Q x s'"
  by (fastforce simp: go_triple_def)

lemma go_triple_Inl: "go_triple P m Q R \<Longrightarrow> P s \<Longrightarrow> m s = (Inl e, s') \<Longrightarrow> R e s'"
  by (fastforce simp: go_triple_def)

lemma go_tripleI:
  assumes "\<And>s x s'. P s \<Longrightarrow> m s = (Inr x, s') \<Longrightarrow> Q x s'"
    and "\<And>s e s'. P s \<Longrightarrow> m s = (Inl e, s') \<Longrightarrow> R e s'"
  shows "go_triple P m Q R"
  using assms by (auto simp: go_triple_def split: prod.splits sum.splits)

lemma go_keeps_snd: "go_keeps I m \<Longrightarrow> I s \<Longrightarrow> I (snd (m s))"
  by (cases "m s"; cases "fst (m s)") (auto dest: go_triple_Inr go_triple_Inl)

lemma go_keepsI: "(\<And>s. I s \<Longrightarrow> I (snd (m s))) \<Longrightarrow> go_keeps I m"
  by (intro go_tripleI) (metis snd_conv)+

lemma go_triple_weaken:
  "go_triple P m Q R \<Longrightarrow> (\<And>s. P' s \<Longrightarrow> P s) \<Longrightarrow> (\<And>x s. Q x s \<Longrightarrow> Q' x s) \<Longrightarrow>
   (\<And>e s. R e s \<Longrightarrow> R' e s) \<Longrightarrow> go_triple P' m Q' R'"
  by (fastforce simp: go_triple_def split: prod.splits sum.splits)

lemma go_triple_conj:
  "go_triple P m Q R \<Longrightarrow> go_triple P' m Q' R' \<Longrightarrow>
   go_triple (\<lambda>s. P s \<and> P' s) m (\<lambda>x s. Q x s \<and> Q' x s) (\<lambda>e s. R e s \<and> R' e s)"
  by (intro go_tripleI) (blast dest: go_triple_Inr go_triple_Inl)+

lemma go_triple_pre: "go_triple P m Q R \<Longrightarrow> (\<And>s. P' s \<Longrightarrow> P s) \<Longrightarrow> go_triple P' m Q R"
  by (erule go_triple_weaken) auto

lemma go_return_wp [go_wp]: "go_triple (Q x) (go_return x) Q R"
  by (simp add: go_triple_def go_return_def)

lemma go_throw_wp [go_wp]: "go_triple (R e) (go_throw e) Q R"
  by (simp add: go_triple_def go_throw_def)

lemma go_bind_wp [go_wp]:
  "(\<And>x. go_triple (Q' x) (f x) Q R) \<Longrightarrow> go_triple P m Q' R \<Longrightarrow> go_triple P (go_bind m f) Q R"
  by (fastforce simp: go_triple_def go_bind_def split: prod.splits sum.splits)

lemma go_seq_wp [go_wp]:
  "go_triple P' n Q R \<Longrightarrow> go_triple P m (\<lambda>_. P') R \<Longrightarrow> go_triple P (go_seq m n) Q R"
  unfolding go_seq_def by (rule go_bind_wp)

lemma go_try_wp:
  "go_triple P m (\<lambda>x. Q (Inr x)) (\<lambda>e s. if is_panic e then R e s else Q (Inl e) s) \<Longrightarrow>
   go_triple P (go_try m) Q R"
  by (fastforce simp: go_triple_def go_try_def split: prod.splits sum.splits if_splits)

lemma go_read_wp [go_wp]: "go_triple (\<lambda>s. Q (f s) s) (go_read f) Q R"
  by (simp add: go_triple_def go_read_def)

lemma go_modify_wp [go_wp]: "go_triple (\<lambda>s. Q () (f s)) (go_modify f) Q R"
  by (simp add: go_triple_def go_modify_def)

lemma go_lift_wp [go_wp]:
  "go_triple (\<lambda>s. case r of Inl e \<Rightarrow> R e s | Inr x \<Rightarrow> Q x s) (go_lift r) Q R"
  by (simp add: go_triple_def go_lift_def)

text \<open>Invariants: every combinator keeps what its parts keep.\<close>

named_theorems go_keep \<open>rules that reduce \<^term>\<open>go_keeps\<close> of a program to its parts\<close>

lemma go_return_keeps [go_keep]: "go_keeps I (go_return x)" by (rule go_return_wp)
lemma go_throw_keeps [go_keep]: "go_keeps I (go_throw e)" by (rule go_throw_wp)
lemma go_read_keeps [go_keep]: "go_keeps I (go_read f)" by (rule go_read_wp)

lemma go_modify_keeps [go_keep]: "(\<And>s. I s \<Longrightarrow> I (f s)) \<Longrightarrow> go_keeps I (go_modify f)"
  by (simp add: go_triple_def go_modify_def)

lemma go_lift_keeps [go_keep]: "go_keeps I (go_lift r)"
  by (auto simp: go_triple_def go_lift_def split: sum.splits)

lemma go_bind_keeps [go_keep]: "go_keeps I m \<Longrightarrow> (\<And>x. go_keeps I (f x)) \<Longrightarrow> go_keeps I (go_bind m f)"
  by (rule go_bind_wp)

lemma go_seq_keeps [go_keep]: "go_keeps I m \<Longrightarrow> go_keeps I n \<Longrightarrow> go_keeps I (go_seq m n)"
  by (rule go_seq_wp)

lemma go_try_keeps [go_keep]: "go_keeps I m \<Longrightarrow> go_keeps I (go_try m)"
  by (rule go_try_wp) simp

lemma go_when_keeps [go_keep]: "(b \<Longrightarrow> go_keeps I m) \<Longrightarrow> go_keeps I (go_when b m)"
  unfolding go_when_def by (cases b) (simp_all add: go_return_keeps)

lemma go_if_keeps [go_keep]:
  "(b \<Longrightarrow> go_keeps I m) \<Longrightarrow> (\<not> b \<Longrightarrow> go_keeps I n) \<Longrightarrow> go_keeps I (if b then m else n)"
  by simp

lemma go_option_keeps [go_keep]:
  "(x = None \<Longrightarrow> go_keeps I m) \<Longrightarrow> (\<And>y. x = Some y \<Longrightarrow> go_keeps I (n y)) \<Longrightarrow>
   go_keeps I (case x of None \<Rightarrow> m | Some y \<Rightarrow> n y)"
  by (cases x) auto

lemma go_sum_keeps [go_keep]:
  "(\<And>e. x = Inl e \<Longrightarrow> go_keeps I (m e)) \<Longrightarrow> (\<And>y. x = Inr y \<Longrightarrow> go_keeps I (n y)) \<Longrightarrow>
   go_keeps I (case x of Inl e \<Rightarrow> m e | Inr y \<Rightarrow> n y)"
  by (cases x) auto

lemma go_prod_keeps [go_keep]:
  "(\<And>a b. x = (a, b) \<Longrightarrow> go_keeps I (m a b)) \<Longrightarrow> go_keeps I (case x of (a, b) \<Rightarrow> m a b)"
  by (cases x) auto

lemma go_foldM_keeps [go_keep]:
  "(\<And>acc x. x \<in> set xs \<Longrightarrow> go_keeps I (f acc x)) \<Longrightarrow> go_keeps I (go_foldM f xs acc)"
  by (induction xs arbitrary: acc) (auto intro!: go_keep)

lemma go_foreach_keeps [go_keep]:
  "(\<And>x. x \<in> set xs \<Longrightarrow> go_keeps I (f x)) \<Longrightarrow> go_keeps I (go_foreach f xs)"
  by (induction xs) (auto intro!: go_keep)

lemma go_collect_keeps [go_keep]:
  "(\<And>x. x \<in> set xs \<Longrightarrow> go_keeps I (f x)) \<Longrightarrow> go_keeps I (go_collect f xs)"
  by (induction xs) (auto intro!: go_keep)

lemma return_aggregate_keeps [go_keep]: "go_keeps I (return_aggregate es)"
  unfolding return_aggregate_def by (intro go_keep)

lemma retry_OnError_keeps [go_keep]: "go_keeps I m \<Longrightarrow> go_keeps I (retry_OnError n r m)"
proof (induction n)
  case 0
  then show ?case by (simp add: go_throw_keeps)
next
  case (Suc n)
  then have "I (snd (m s))" and "I (snd (retry_OnError n r m (snd (m s))))" if "I s" for s
    using that by (auto intro!: go_keeps_snd)
  then show ?case
    by (intro go_tripleI) (auto split: prod.splits sum.splits if_splits, (metis snd_conv)+)
qed

lemma RetryOnConflict_keeps [go_keep]: "go_keeps I m \<Longrightarrow> go_keeps I (RetryOnConflict n m)"
  unfolding RetryOnConflict_def by (rule retry_OnError_keeps)

section \<open>Facts about loops and retries\<close>

text \<open>A function that never fails with a retriable error runs once.\<close>
lemma retry_OnError_once:
  "m s = (Inr x, s') \<Longrightarrow> retry_OnError (Suc n) r m s = (Inr x, s')"
  "m s = (Inl e, s') \<Longrightarrow> \<not> r e \<Longrightarrow> retry_OnError (Suc n) r m s = (Inl e, s')"
  by simp_all

text \<open>If every run establishes \<open>Q\<close> on success, so does the retried function.\<close>
lemma retry_OnError_triple:
  "go_triple P m Q (\<lambda>e s. R e s \<and> (r e \<longrightarrow> P s)) \<Longrightarrow> (\<And>s. P s \<Longrightarrow> n = 0 \<Longrightarrow>
     R (Errorf ''timed out waiting for the condition'') s) \<Longrightarrow>
   go_triple P (retry_OnError n r m) Q R"
proof (induction n)
  case 0
  then show ?case by (simp add: go_triple_def go_throw_def)
next
  case (Suc n)
  have IH: "go_triple P (retry_OnError n r m) Q R" if "0 < n"
    using Suc that by simp
  note run = go_triple_Inr[OF Suc.prems(1)] go_triple_Inl[OF Suc.prems(1)]
  show ?case
    by (intro go_tripleI; simp split: prod.splits sum.splits if_splits)
      (metis run IH go_triple_Inr go_triple_Inl)+
qed

text \<open>A collecting loop reports no error exactly when each body succeeded; what every body
  establishes for its element and keeps for the others then holds for all.\<close>
lemma go_collect_ok:
  assumes body: "\<And>x. x \<in> set xs \<Longrightarrow> go_triple I (f x) (\<lambda>_ s. I s \<and> P x s) (\<lambda>_. I)"
    and keep: "\<And>x y. x \<in> set xs \<Longrightarrow> y \<in> set xs \<Longrightarrow> go_keeps (\<lambda>s. I s \<and> P y s) (f x)"
  shows "go_triple I (go_collect f xs)
           (\<lambda>es s. I s \<and> (es = [] \<longrightarrow> (\<forall>x \<in> set xs. P x s))) (\<lambda>_. I)"
  using assms
proof (induction xs)
  case Nil
  then show ?case by (simp add: go_triple_def go_return_def)
next
  case (Cons x xs)
  have IH: "go_triple I (go_collect f xs)
      (\<lambda>es s. I s \<and> (es = [] \<longrightarrow> (\<forall>x \<in> set xs. P x s))) (\<lambda>_. I)"
    using Cons by simp
  have keeps: "go_keeps (\<lambda>s. I s \<and> P x s) (go_collect f xs)"
    using Cons.prems(2) by (intro go_keep) auto
  have rest: "go_triple (\<lambda>s. I s \<and> P x s) (go_collect f xs)
      (\<lambda>es s. I s \<and> P x s \<and> (es = [] \<longrightarrow> (\<forall>x \<in> set xs. P x s))) (\<lambda>_. I)"
    by (rule go_triple_weaken[OF go_triple_conj[OF keeps IH]]) auto
  have tail: "go_triple (\<lambda>s. I s \<and> (\<forall>u. r = Inr u \<longrightarrow> P x s))
      (go_bind (go_collect f xs) (\<lambda>es. go_return (case r of Inl e \<Rightarrow> e # es | Inr _ \<Rightarrow> es)))
      (\<lambda>es s. I s \<and> (es = [] \<longrightarrow> (\<forall>x \<in> set (x # xs). P x s))) (\<lambda>_. I)" for r :: "err + unit"
  proof (cases r)
    case (Inl e)
    show ?thesis unfolding Inl
      by (rule go_bind_wp[OF go_return_wp]) (rule go_triple_weaken[OF IH], auto)
  next
    case (Inr u)
    show ?thesis unfolding Inr
      by (rule go_bind_wp[OF go_return_wp]) (rule go_triple_weaken[OF rest], auto)
  qed
  have "go_triple I (go_try (f x)) (\<lambda>r s. I s \<and> (\<forall>u. r = Inr u \<longrightarrow> P x s)) (\<lambda>_. I)"
    by (rule go_try_wp, rule go_triple_weaken[OF Cons.prems(1)]) auto
  then show ?case unfolding go_collect.simps by (rule go_bind_wp[OF tail])
qed

end
