(* ===== verification/Resource_Merge.thy ===== *)
theory Resource_Merge
  imports K8s_Objects Go_Monad "HOL-Library.Multiset"
begin

text \<open>
  Merging of object metadata: the vendored \<^verbatim>\<open>resourcemerge\<close> package of library-go
  (\<^verbatim>\<open>object_merger.go\<close>, the generation bookkeeping of \<^verbatim>\<open>apps.go\<close>) and \<^verbatim>\<open>controller/ownerref.go\<close>,
  on which every apply function of the operator rests. A Go function that takes
  \<^verbatim>\<open>modified *bool\<close> and a pointer to the value returns both here. A map is merged in the order
  of the association list; the lemmas show that the outcome is a function of the maps alone, so
  Go's random iteration order does not matter where the effective keys differ.
\<close>

section \<open>Group versions\<close>

text \<open>\<^verbatim>\<open>schema.ParseGroupVersion\<close>: the group and the version, \<^term>\<open>None\<close> for an error.\<close>
definition ParseGroupVersion :: "string \<Rightarrow> (string \<times> string) option" where
  "ParseGroupVersion gv =
     (if gv = [] \<or> gv = ''/'' then Some ([], [])
      else case length (filter (\<lambda>c. c = CHR ''/'') gv) of
          0 \<Rightarrow> Some ([], gv)
        | Suc 0 \<Rightarrow> Some (takeWhile (\<lambda>c. c \<noteq> CHR ''/'') gv, tl (dropWhile (\<lambda>c. c \<noteq> CHR ''/'') gv))
        | _ \<Rightarrow> None)"

section \<open>Maps and strings\<close>

definition SetStringIfSet :: "bool \<Rightarrow> string \<Rightarrow> string \<Rightarrow> bool \<times> string" where
  "SetStringIfSet modified existing required =
     (if required = [] then (modified, existing)
      else if required \<noteq> existing then (True, required) else (modified, existing))"

definition is_removal :: "string \<Rightarrow> bool" where
  "is_removal k = HasSuffix k ''-''"

definition actual_key :: "string \<Rightarrow> string" where
  "actual_key k = (if is_removal k then TrimRight k CHR ''-'' else k)"

definition wanted_value :: "string \<times> string \<Rightarrow> string option" where
  "wanted_value kv = (if is_removal (fst kv) then None else Some (snd kv))"

fun merge_entry ::
  "bool \<times> (string, string) gomap \<Rightarrow> string \<times> string \<Rightarrow> bool \<times> (string, string) gomap" where
  "merge_entry (modified, existing) (k, v) =
     (if is_removal k then
        (if map_of existing (actual_key k) = None then (modified, existing)
         else (True, AList.delete (actual_key k) existing))
      else if map_of existing k \<noteq> Some v then (True, AList.update k v existing)
      else (modified, existing))"

definition MergeMap ::
  "bool \<Rightarrow> (string, string) gomap \<Rightarrow> (string, string) gomap \<Rightarrow> bool \<times> (string, string) gomap" where
  "MergeMap modified existing required = foldl merge_entry (modified, existing) required"

section \<open>Owner references\<close>

definition ownerRefMatched :: "OwnerReference \<Rightarrow> OwnerReference \<Rightarrow> bool" where
  "ownerRefMatched existing required =
     (if or_Name existing \<noteq> or_Name required then False
      else if or_Kind existing \<noteq> or_Kind required then False
      else case ParseGroupVersion (or_APIVersion existing) of None \<Rightarrow> False
        | Some existingGV \<Rightarrow> (case ParseGroupVersion (or_APIVersion required) of None \<Rightarrow> False
            | Some requiredGV \<Rightarrow> fst existingGV = fst requiredGV))"

fun merge_owner ::
  "bool \<times> OwnerReference list \<Rightarrow> OwnerReference \<Rightarrow> bool \<times> OwnerReference list" where
  "merge_owner (modified, existing) o' =
     (let removeOwner = is_removal (or_UID o');
          before = takeWhile (\<lambda>e. \<not> ownerRefMatched o' e) existing
      in case dropWhile (\<lambda>e. \<not> ownerRefMatched o' e) existing of
           [] \<Rightarrow> if removeOwner then (modified, existing) else (True, existing @ [o'])
         | e # after \<Rightarrow> if removeOwner then (True, before @ after)
                      else if o' \<noteq> e then (True, before @ o' # after)
                      else (modified, existing))"

definition MergeOwnerRefs ::
  "bool \<Rightarrow> OwnerReference list \<Rightarrow> OwnerReference list \<Rightarrow> bool \<times> OwnerReference list" where
  "MergeOwnerRefs modified existing required = foldl merge_owner (modified, existing) required"

section \<open>Object metadata\<close>

definition EnsureObjectMeta :: "bool \<Rightarrow> ObjectMeta \<Rightarrow> ObjectMeta \<Rightarrow> bool \<times> ObjectMeta" where
  "EnsureObjectMeta modified existing required =
     (let (m1, ns) = SetStringIfSet modified (om_Namespace existing) (om_Namespace required);
          (m2, nm) = SetStringIfSet m1 (om_Name existing) (om_Name required);
          (m3, ls) = MergeMap m2 (om_Labels existing) (om_Labels required);
          (m4, as) = MergeMap m3 (om_Annotations existing) (om_Annotations required);
          (m5, os) = MergeOwnerRefs m4 (om_OwnerReferences existing) (om_OwnerReferences required)
      in (m5, existing\<lparr>om_Namespace := ns, om_Name := nm, om_Labels := ls, om_Annotations := as,
                om_OwnerReferences := os\<rparr>))"

definition cleanRemovalKeys :: "(string, string) gomap \<Rightarrow> (string, string) gomap" where
  "cleanRemovalKeys required = filter (\<lambda>kv. \<not> is_removal (fst kv)) required"

definition cleanRemovalOwnerRefs :: "OwnerReference list \<Rightarrow> OwnerReference list" where
  "cleanRemovalOwnerRefs required = filter (\<lambda>r. \<not> is_removal (or_UID r)) required"

definition WithCleanLabelsAndAnnotations :: "ObjectMeta \<Rightarrow> ObjectMeta" where
  "WithCleanLabelsAndAnnotations obj =
     obj\<lparr>om_Annotations := cleanRemovalKeys (om_Annotations obj),
         om_Labels := cleanRemovalKeys (om_Labels obj),
         om_OwnerReferences := cleanRemovalOwnerRefs (om_OwnerReferences obj)\<rparr>"

text \<open>\<^verbatim>\<open>controller.EnsureOwnerRef\<close>: whether the metadata changed, and the new references.\<close>
definition same_owner :: "OwnerReference \<Rightarrow> OwnerReference \<Rightarrow> bool" where
  "same_owner a b \<longleftrightarrow>
     or_APIVersion a = or_APIVersion b \<and> or_Kind a = or_Kind b \<and> or_Name a = or_Name b"

definition EnsureOwnerRef :: "OwnerReference list \<Rightarrow> OwnerReference \<Rightarrow> bool \<times> OwnerReference list" where
  "EnsureOwnerRef refs newOwnerRef =
     (case filter (\<lambda>r. same_owner r newOwnerRef) refs of
        [] \<Rightarrow> (True, refs @ [newOwnerRef])
      | r # _ \<Rightarrow> if r = newOwnerRef then (False, refs)
                else (True, newOwnerRef # filter (\<lambda>r. \<not> same_owner r newOwnerRef) refs))"

section \<open>Generations\<close>

definition same_generation_key :: "GenerationStatus \<Rightarrow> string \<Rightarrow> string \<Rightarrow> string \<Rightarrow> string \<Rightarrow> bool" where
  "same_generation_key g grp resource namespace name \<longleftrightarrow>
     gen_Namespace g = namespace \<and> gen_Name g = name \<and> gen_Group g = grp \<and>
     gen_Resource g = resource"

definition GenerationFor ::
  "GenerationStatus list \<Rightarrow> string \<Rightarrow> string \<Rightarrow> string \<Rightarrow> string \<Rightarrow> GenerationStatus option" where
  "GenerationFor generations grp resource namespace name =
     find (\<lambda>g. same_generation_key g grp resource namespace name) generations"

text \<open>\<^verbatim>\<open>SetGeneration\<close> writes through the pointer that \<^verbatim>\<open>GenerationFor\<close> returns, the first match.\<close>
fun update_generation :: "GenerationStatus \<Rightarrow> GenerationStatus list \<Rightarrow> GenerationStatus list" where
  "update_generation n [] = [n]"
| "update_generation n (g # gs) =
     (if same_generation_key g (gen_Group n) (gen_Resource n) (gen_Namespace n) (gen_Name n)
      then g\<lparr>gen_LastGeneration := gen_LastGeneration n, gen_Hash := gen_Hash n\<rparr> # gs
      else g # update_generation n gs)"

definition SetGeneration :: "GenerationStatus list \<Rightarrow> GenerationStatus \<Rightarrow> GenerationStatus list" where
  "SetGeneration generations newGeneration = update_generation newGeneration generations"

definition ExpectedDeploymentGeneration :: "Deployment \<Rightarrow> GenerationStatus list \<Rightarrow> int" where
  "ExpectedDeploymentGeneration required previous =
     (case GenerationFor previous ''apps'' ''deployments'' (om_Namespace (de_ObjectMeta required))
             (om_Name (de_ObjectMeta required)) of
        Some g \<Rightarrow> gen_LastGeneration g
      | None \<Rightarrow> - 1)"

definition SetDeploymentGeneration ::
  "GenerationStatus list \<Rightarrow> Deployment \<Rightarrow> GenerationStatus list" where
  "SetDeploymentGeneration generations actual =
     SetGeneration generations \<lparr>gen_Group = ''apps'', gen_Resource = ''deployments'',
       gen_Namespace = om_Namespace (de_ObjectMeta actual), gen_Name = om_Name (de_ObjectMeta actual),
       gen_LastGeneration = om_Generation (de_ObjectMeta actual), gen_Hash = []\<rparr>"

section \<open>What merging a map does\<close>

lemma merge_entry_lookup:
  "map_of (snd (merge_entry (md, ex) kv)) = (map_of ex)(actual_key (fst kv) := wanted_value kv)"
proof (cases kv)
  case (Pair k v)
  show ?thesis unfolding Pair
    by (rule ext)
      (auto simp: wanted_value_def actual_key_def AList.delete_conv' AList.update_conv')
qed

lemma merge_entry_modified:
  "fst (merge_entry (md, ex) kv) \<longleftrightarrow> md \<or> map_of ex (actual_key (fst kv)) \<noteq> wanted_value kv"
  by (cases kv) (auto simp: wanted_value_def actual_key_def)

text \<open>The keys a map of required entries talks about.\<close>
definition merge_keys :: "(string, string) gomap \<Rightarrow> string list" where
  "merge_keys required = map (\<lambda>kv. actual_key (fst kv)) required"

lemma MergeMap_Cons:
  "MergeMap md ex (kv # req) =
   MergeMap (fst (merge_entry (md, ex) kv)) (snd (merge_entry (md, ex) kv)) req"
  by (simp add: MergeMap_def)

lemma MergeMap_Nil [simp]: "MergeMap md ex [] = (md, ex)"
  by (simp add: MergeMap_def)

lemma MergeMap_other:
  "x \<notin> set (merge_keys req) \<Longrightarrow> map_of (snd (MergeMap md ex req)) x = map_of ex x"
  by (induction req arbitrary: md ex)
    (auto simp: MergeMap_Cons merge_keys_def merge_entry_lookup simp del: merge_entry.simps)

lemma MergeMap_lookup:
  "distinct (merge_keys req) \<Longrightarrow> kv \<in> set req \<Longrightarrow>
   map_of (snd (MergeMap md ex req)) (actual_key (fst kv)) = wanted_value kv"
proof (induction req arbitrary: md ex)
  case Nil
  then show ?case by simp
next
  case (Cons kv' req)
  then show ?case
    using MergeMap_other[of "actual_key (fst kv')" req]
    by (auto simp: MergeMap_Cons merge_keys_def merge_entry_lookup simp del: merge_entry.simps)
qed

lemma MergeMap_modified:
  "distinct (merge_keys req) \<Longrightarrow>
   fst (MergeMap md ex req) \<longleftrightarrow>
     md \<or> (\<exists>kv \<in> set req. map_of ex (actual_key (fst kv)) \<noteq> wanted_value kv)"
proof (induction req arbitrary: md ex)
  case Nil
  then show ?case by simp
next
  case (Cons kv req)
  have "actual_key (fst kv) \<notin> (\<lambda>kv. actual_key (fst kv)) ` set req"
    using Cons.prems by (simp add: merge_keys_def)
  then have "actual_key (fst kv') \<noteq> actual_key (fst kv)" if "kv' \<in> set req" for kv'
    using that by (metis image_eqI)
  with Cons show ?case
    by (auto simp: MergeMap_Cons merge_keys_def merge_entry_lookup merge_entry_modified
        simp del: merge_entry.simps)
qed

text \<open>Merging twice changes nothing the second time.\<close>
lemma MergeMap_idem:
  "distinct (merge_keys req) \<Longrightarrow> MergeMap False (snd (MergeMap md ex req)) req =
     (False, snd (MergeMap md ex req))"
proof -
  assume d: "distinct (merge_keys req)"
  let ?ex = "snd (MergeMap md ex req)"
  have same: "map_of ?ex (actual_key (fst kv)) = wanted_value kv" if "kv \<in> set req" for kv
    using MergeMap_lookup[OF d that] .
  have "\<forall>kv \<in> set r. map_of ?ex (actual_key (fst kv)) = wanted_value kv \<Longrightarrow>
      MergeMap False ?ex r = (False, ?ex)" for r
  proof (induction r)
    case (Cons kv r)
    have "merge_entry (False, ?ex) kv = (False, ?ex)"
      using Cons.prems by (cases kv) (auto simp: wanted_value_def actual_key_def split: if_splits)
    with Cons show ?case by (simp add: MergeMap_Cons)
  qed simp
  with same show ?thesis by blast
qed

text \<open>Two orders of the same required entries give the same map and the same verdict.\<close>
lemma MergeMap_order:
  assumes "distinct (merge_keys req)" and "mset req = mset req'"
  shows "map_of (snd (MergeMap md ex req)) = map_of (snd (MergeMap md ex req'))"
    and "fst (MergeMap md ex req) = fst (MergeMap md ex req')"
proof -
  have s: "set req = set req'" using assms(2) by (rule mset_eq_setD)
  have k: "mset (merge_keys req) = mset (merge_keys req')"
    using assms(2) by (simp add: merge_keys_def)
  then have d': "distinct (merge_keys req')"
    using assms(1) mset_eq_imp_distinct_iff by blast
  show "fst (MergeMap md ex req) = fst (MergeMap md ex req')"
    unfolding MergeMap_modified[OF assms(1)] MergeMap_modified[OF d'] s ..
  show "map_of (snd (MergeMap md ex req)) = map_of (snd (MergeMap md ex req'))"
  proof
    fix x
    show "map_of (snd (MergeMap md ex req)) x = map_of (snd (MergeMap md ex req')) x"
    proof (cases "x \<in> set (merge_keys req)")
      case True
      then obtain kv where "kv \<in> set req" "x = actual_key (fst kv)"
        by (auto simp: merge_keys_def)
      then show ?thesis
        using MergeMap_lookup[OF assms(1)] MergeMap_lookup[OF d'] s by auto
    next
      case False
      moreover have "x \<notin> set (merge_keys req')"
        using False mset_eq_setD[OF k] by simp
      ultimately show ?thesis by (simp add: MergeMap_other)
    qed
  qed
qed

section \<open>What merging owner references and metadata does\<close>

lemma ownerRefMatched_refl:
  "ownerRefMatched r r \<longleftrightarrow> ParseGroupVersion (or_APIVersion r) \<noteq> None"
  by (auto simp: ownerRefMatched_def split: option.splits)

lemma takeWhile_dropWhile_cases:
  "(\<forall>e \<in> set xs. \<not> P e) \<or> (\<exists>before e after. xs = before @ e # after \<and> P e \<and>
     (\<forall>b \<in> set before. \<not> P b))"
  by (metis split_list_first_prop)

lemma merge_owner_fresh:
  "\<forall>e \<in> set ex. \<not> ownerRefMatched r e \<Longrightarrow>
   merge_owner (md, ex) r = (if is_removal (or_UID r) then (md, ex) else (True, ex @ [r]))"
proof -
  assume "\<forall>e \<in> set ex. \<not> ownerRefMatched r e"
  then have "dropWhile (\<lambda>e. \<not> ownerRefMatched r e) ex = []" by (simp add: dropWhile_eq_Nil_conv)
  then show ?thesis unfolding merge_owner.simps Let_def by (simp only: list.case)
qed

lemma merge_owner_found:
  assumes "ex = before @ e # after" and "ownerRefMatched r e"
    and "\<forall>b \<in> set before. \<not> ownerRefMatched r b"
  shows "merge_owner (md, ex) r =
    (if is_removal (or_UID r) then (True, before @ after)
     else if r \<noteq> e then (True, before @ r # after) else (md, ex))"
proof -
  have "dropWhile (\<lambda>e. \<not> ownerRefMatched r e) ex = e # after"
    and "takeWhile (\<lambda>e. \<not> ownerRefMatched r e) ex = before"
    using assms by (simp_all add: dropWhile_append takeWhile_append)
  then show ?thesis unfolding merge_owner.simps Let_def by (simp only: list.case)
qed

lemma merge_owner_cases:
  obtains (fresh) "\<forall>e \<in> set ex. \<not> ownerRefMatched r e"
  | (found) before e after where "ex = before @ e # after" "ownerRefMatched r e"
      "\<forall>b \<in> set before. \<not> ownerRefMatched r b"
  using takeWhile_dropWhile_cases[of ex "ownerRefMatched r"] by blast

text \<open>A reference that is not a removal is present afterwards, the references it does not match are
  kept, and merging it a second time changes nothing.\<close>
lemma merge_owner_in:
  "\<not> is_removal (or_UID r) \<Longrightarrow> r \<in> set (snd (merge_owner (md, ex) r))"
  by (cases rule: merge_owner_cases[of ex r])
    (simp_all add: merge_owner_fresh merge_owner_found del: merge_owner.simps)

lemma merge_owner_keeps:
  "e \<in> set ex \<Longrightarrow> \<not> ownerRefMatched r e \<Longrightarrow> e \<in> set (snd (merge_owner (md, ex) r))"
  by (cases rule: merge_owner_cases[of ex r])
    (auto simp add: merge_owner_fresh merge_owner_found simp del: merge_owner.simps)

lemma merge_owner_idem:
  assumes "ParseGroupVersion (or_APIVersion r) \<noteq> None" and "\<not> is_removal (or_UID r)"
  shows "merge_owner (False, snd (merge_owner (md, ex) r)) r = (False, snd (merge_owner (md, ex) r))"
proof (cases rule: merge_owner_cases[of ex r])
  case fresh
  with assms show ?thesis
    using merge_owner_found[of "ex @ [r]" ex r "[]" r False]
    by (simp add: merge_owner_fresh ownerRefMatched_refl del: merge_owner.simps)
next
  case (found before e after)
  have "snd (merge_owner (md, ex) r) = before @ r # after"
    unfolding merge_owner_found[OF found] using assms(2) found(1) by auto
  moreover have "merge_owner (False, before @ r # after) r = (False, before @ r # after)"
    using assms found(3) merge_owner_found[of "before @ r # after" before r after r False]
    by (simp add: ownerRefMatched_refl del: merge_owner.simps)
  ultimately show ?thesis by (simp del: merge_owner.simps)
qed

lemma MergeOwnerRefs_singleton [simp]: "MergeOwnerRefs md ex [r] = merge_owner (md, ex) r"
  by (simp add: MergeOwnerRefs_def del: merge_owner.simps)

lemma MergeOwnerRefs_Nil [simp]: "MergeOwnerRefs md ex [] = (md, ex)"
  by (simp add: MergeOwnerRefs_def)

text \<open>Metadata that an apply function can settle on: keys whose effective names differ, and at most
  one owner reference, which has a well-formed API version and is not a removal. Everything the
  operator applies is of this form.\<close>
definition meta_settles :: "ObjectMeta \<Rightarrow> bool" where
  "meta_settles required \<longleftrightarrow>
     distinct (merge_keys (om_Labels required)) \<and> distinct (merge_keys (om_Annotations required)) \<and>
     (om_OwnerReferences required = [] \<or>
      (\<exists>r. om_OwnerReferences required = [r] \<and> ParseGroupVersion (or_APIVersion r) \<noteq> None \<and>
           \<not> is_removal (or_UID r)))"

lemma SetStringIfSet_idem:
  "SetStringIfSet False (snd (SetStringIfSet md ex req)) req = (False, snd (SetStringIfSet md ex req))"
  by (simp add: SetStringIfSet_def)

lemma fst_SetStringIfSet: "fst (SetStringIfSet md ex req) \<longleftrightarrow> md \<or> (req \<noteq> [] \<and> req \<noteq> ex)"
  by (auto simp: SetStringIfSet_def)

lemma snd_SetStringIfSet: "snd (SetStringIfSet md ex req) = (if req = [] then ex else req)"
  by (simp add: SetStringIfSet_def)

lemma MergeMap_snd: "snd (MergeMap md ex req) = snd (MergeMap False ex req)"
proof (induction req arbitrary: md ex)
  case (Cons kv req)
  have "snd (merge_entry (md, ex) kv) = snd (merge_entry (False, ex) kv)" by (cases kv) simp
  with Cons[of "fst (merge_entry (md, ex) kv)"] Cons[of "fst (merge_entry (False, ex) kv)"]
  show ?case by (simp add: MergeMap_Cons del: merge_entry.simps)
qed simp

lemma merge_owner_snd: "snd (merge_owner (md, ex) r) = snd (merge_owner (False, ex) r)"
proof (cases rule: merge_owner_cases[of ex r])
  case fresh
  then show ?thesis by (simp add: merge_owner_fresh del: merge_owner.simps)
next
  case (found before e after)
  show ?thesis unfolding merge_owner_found[OF found] by simp
qed

lemma EnsureObjectMeta_fields:
  "om_Namespace (snd (EnsureObjectMeta md ex req)) =
     (if om_Namespace req = [] then om_Namespace ex else om_Namespace req)"
  "om_Name (snd (EnsureObjectMeta md ex req)) = (if om_Name req = [] then om_Name ex else om_Name req)"
  "om_Labels (snd (EnsureObjectMeta md ex req)) = snd (MergeMap False (om_Labels ex) (om_Labels req))"
  "om_Annotations (snd (EnsureObjectMeta md ex req)) =
     snd (MergeMap False (om_Annotations ex) (om_Annotations req))"
  "om_UID (snd (EnsureObjectMeta md ex req)) = om_UID ex"
  "om_ResourceVersion (snd (EnsureObjectMeta md ex req)) = om_ResourceVersion ex"
  "om_Generation (snd (EnsureObjectMeta md ex req)) = om_Generation ex"
  "om_DeletionTimestamp (snd (EnsureObjectMeta md ex req)) = om_DeletionTimestamp ex"
  "om_Finalizers (snd (EnsureObjectMeta md ex req)) = om_Finalizers ex"
  by (simp_all add: EnsureObjectMeta_def Let_def case_prod_beta snd_SetStringIfSet
      MergeMap_snd[of "fst _"])

lemma EnsureObjectMeta_owner:
  "om_OwnerReferences req = [r] \<Longrightarrow>
   om_OwnerReferences (snd (EnsureObjectMeta md ex req)) =
     snd (merge_owner (False, om_OwnerReferences ex) r)"
  "om_OwnerReferences req = [] \<Longrightarrow>
   om_OwnerReferences (snd (EnsureObjectMeta md ex req)) = om_OwnerReferences ex"
  by (simp_all add: EnsureObjectMeta_def Let_def case_prod_beta merge_owner_snd[of "fst _"]
      del: merge_owner.simps)

lemma EnsureObjectMeta_idem:
  assumes "meta_settles req"
  shows "EnsureObjectMeta False (snd (EnsureObjectMeta md ex req)) req =
    (False, snd (EnsureObjectMeta md ex req))"
proof -
  let ?new = "snd (EnsureObjectMeta md ex req)"
  have ns: "SetStringIfSet False (om_Namespace ?new) (om_Namespace req) = (False, om_Namespace ?new)"
    and nm: "SetStringIfSet False (om_Name ?new) (om_Name req) = (False, om_Name ?new)"
    by (simp_all add: EnsureObjectMeta_fields SetStringIfSet_def)
  have ls: "MergeMap False (om_Labels ?new) (om_Labels req) = (False, om_Labels ?new)"
    and as: "MergeMap False (om_Annotations ?new) (om_Annotations req) = (False, om_Annotations ?new)"
    using assms unfolding meta_settles_def EnsureObjectMeta_fields by (simp_all add: MergeMap_idem)
  have os: "MergeOwnerRefs False (om_OwnerReferences ?new) (om_OwnerReferences req) =
      (False, om_OwnerReferences ?new)"
    using assms unfolding meta_settles_def
    by (auto simp: EnsureObjectMeta_owner merge_owner_idem simp del: merge_owner.simps)
  show ?thesis
    unfolding EnsureObjectMeta_def[of False ?new] ns nm ls as os Let_def case_prod_conv by simp
qed

text \<open>\<^verbatim>\<open>EnsureOwnerRef\<close> on the list that holds just the reference changes nothing.\<close>
lemma EnsureOwnerRef_singleton [simp]: "EnsureOwnerRef [r] r = (False, [r])"
  by (simp add: EnsureOwnerRef_def same_owner_def)

text \<open>A recorded generation is the one expected the next time.\<close>
lemma GenerationFor_update:
  "\<exists>g. GenerationFor (update_generation n gs) (gen_Group n) (gen_Resource n) (gen_Namespace n)
      (gen_Name n) = Some g \<and> gen_LastGeneration g = gen_LastGeneration n"
  by (induction gs) (auto simp: GenerationFor_def same_generation_key_def)

lemma Expected_after_Set:
  "om_Namespace (de_ObjectMeta required) = om_Namespace (de_ObjectMeta actual) \<Longrightarrow>
   om_Name (de_ObjectMeta required) = om_Name (de_ObjectMeta actual) \<Longrightarrow>
   ExpectedDeploymentGeneration required (SetDeploymentGeneration gs actual) =
     om_Generation (de_ObjectMeta actual)"
  using GenerationFor_update[of "\<lparr>gen_Group = ''apps'', gen_Resource = ''deployments'',
       gen_Namespace = om_Namespace (de_ObjectMeta actual), gen_Name = om_Name (de_ObjectMeta actual),
       gen_LastGeneration = om_Generation (de_ObjectMeta actual), gen_Hash = []\<rparr>" gs]
  by (auto simp: ExpectedDeploymentGeneration_def SetDeploymentGeneration_def SetGeneration_def)

end
