(* ===== verification/Unstructured_Objects.thy ===== *)
theory Unstructured_Objects
  imports Resource_Merge
begin

text \<open>
  Untyped objects: the accessors of \<^verbatim>\<open>k8s.io/apimachinery/.../unstructured\<close> that the operator and
  the apply functions use on cert-manager's and Prometheus' resources. A result
  \<^verbatim>\<open>(value, found, err)\<close> is \<^term>\<open>Inl\<close> of the error, \<^term>\<open>Inr None\<close> when the field is not there, and
  \<^term>\<open>Inr (Some v)\<close> otherwise.
\<close>

definition accessor_error :: "string list \<Rightarrow> err" where
  "accessor_error path = Errorf (''.'' @ Join path ''.'' @ '' accessor error'')"

fun nested_field :: "json \<Rightarrow> string list \<Rightarrow> err + json option" where
  "nested_field val [] = Inr (Some val)"
| "nested_field val (field # path) =
     (case val of
        JNull \<Rightarrow> Inr None
      | JObj m \<Rightarrow> (case m field of None \<Rightarrow> Inr None | Some v \<Rightarrow> nested_field v path)
      | _ \<Rightarrow> Inl (accessor_error [field]))"

definition NestedFieldNoCopy :: "json_map \<Rightarrow> string list \<Rightarrow> err + json option" where
  "NestedFieldNoCopy obj path = nested_field (JObj obj) path"

text \<open>The typed accessors: the field, if it is there, has to have the type.\<close>
definition nested_typed :: "(json \<Rightarrow> 'a option) \<Rightarrow> json_map \<Rightarrow> string list \<Rightarrow> err + 'a option" where
  "nested_typed as_type obj path =
     (case NestedFieldNoCopy obj path of
        Inl e \<Rightarrow> Inl e
      | Inr None \<Rightarrow> Inr None
      | Inr (Some v) \<Rightarrow> (case as_type v of
            None \<Rightarrow> Inl (accessor_error path) | Some x \<Rightarrow> Inr (Some x)))"

fun as_string :: "json \<Rightarrow> string option" where
  "as_string (JStr s) = Some s"
| "as_string _ = None"

fun as_bool :: "json \<Rightarrow> bool option" where
  "as_bool (JBool b) = Some b"
| "as_bool _ = None"

fun as_slice :: "json \<Rightarrow> json list option" where
  "as_slice (JList xs) = Some xs"
| "as_slice _ = None"

fun as_map :: "json \<Rightarrow> json_map option" where
  "as_map (JObj m) = Some m"
| "as_map _ = None"

definition NestedString :: "json_map \<Rightarrow> string list \<Rightarrow> err + string option" where
  "NestedString = nested_typed as_string"

definition NestedBool :: "json_map \<Rightarrow> string list \<Rightarrow> err + bool option" where
  "NestedBool = nested_typed as_bool"

definition NestedSlice :: "json_map \<Rightarrow> string list \<Rightarrow> err + json list option" where
  "NestedSlice = nested_typed as_slice"

definition NestedMap :: "json_map \<Rightarrow> string list \<Rightarrow> err + json_map option" where
  "NestedMap = nested_typed as_map"

definition getNestedString :: "json_map \<Rightarrow> string list \<Rightarrow> string" where
  "getNestedString obj path = (case NestedString obj path of Inr (Some s) \<Rightarrow> s | _ \<Rightarrow> [])"

text \<open>\<^verbatim>\<open>NestedBool\<close> read into a \<^verbatim>\<open>*bool\<close>.\<close>
definition nested_bool_ptr :: "json_map \<Rightarrow> string list \<Rightarrow> bool option" where
  "nested_bool_ptr obj path = (case NestedBool obj path of Inr r \<Rightarrow> r | Inl _ \<Rightarrow> None)"

definition extractOwnerReference :: "json_map \<Rightarrow> OwnerReference" where
  "extractOwnerReference v = \<lparr>or_APIVersion = getNestedString v [''apiVersion''],
     or_Kind = getNestedString v [''kind''], or_Name = getNestedString v [''name''],
     or_UID = getNestedString v [''uid''], or_Controller = nested_bool_ptr v [''controller''],
     or_BlockOwnerDeletion = nested_bool_ptr v [''blockOwnerDeletion'']\<rparr>"

fun all_maps :: "json list \<Rightarrow> json_map list option" where
  "all_maps [] = Some []"
| "all_maps (x # xs) = (case as_map x of None \<Rightarrow> None
     | Some m \<Rightarrow> map_option (\<lambda>ms. m # ms) (all_maps xs))"

definition GetOwnerReferences :: "Unstructured \<Rightarrow> OwnerReference list" where
  "GetOwnerReferences u =
     (case NestedFieldNoCopy (us_Object u) [''metadata'', ''ownerReferences''] of
        Inr (Some field) \<Rightarrow> (case as_slice field of None \<Rightarrow> []
          | Some original \<Rightarrow> (case all_maps original of None \<Rightarrow> []
              | Some ms \<Rightarrow> map extractOwnerReference ms))
      | _ \<Rightarrow> [])"

definition GetName :: "Unstructured \<Rightarrow> string" where
  "GetName u = getNestedString (us_Object u) [''metadata'', ''name'']"

definition GetNamespace :: "Unstructured \<Rightarrow> string" where
  "GetNamespace u = getNestedString (us_Object u) [''metadata'', ''namespace'']"

definition GetResourceVersion :: "Unstructured \<Rightarrow> string" where
  "GetResourceVersion u = getNestedString (us_Object u) [''metadata'', ''resourceVersion'']"

text \<open>\<^verbatim>\<open>GroupVersionKind\<close> is empty when the API version does not parse.\<close>
definition GetTypeMeta :: "Unstructured \<Rightarrow> TypeMeta" where
  "GetTypeMeta u = (let v = getNestedString (us_Object u) [''apiVersion''] in
     case ParseGroupVersion v of None \<Rightarrow> empty_type
     | Some _ \<Rightarrow> \<lparr>tm_Kind = getNestedString (us_Object u) [''kind''], tm_APIVersion = v\<rparr>)"

text \<open>The metadata of an untyped object, as far as it is read through the accessor interface.\<close>
definition unstructured_meta :: "Unstructured \<Rightarrow> ObjectMeta" where
  "unstructured_meta u = empty_meta\<lparr>om_Name := GetName u, om_Namespace := GetNamespace u,
     om_ResourceVersion := GetResourceVersion u, om_OwnerReferences := GetOwnerReferences u\<rparr>"

text \<open>\<^verbatim>\<open>SetNestedMap(obj, m, field)\<close> with a single field name.\<close>
definition SetNestedMap :: "json_map \<Rightarrow> json_map \<Rightarrow> string \<Rightarrow> json_map" where
  "SetNestedMap obj value field = obj(field \<mapsto> JObj value)"

lemmas nested_defs = NestedFieldNoCopy_def nested_typed_def NestedString_def NestedBool_def
  NestedSlice_def NestedMap_def getNestedString_def nested_bool_ptr_def extractOwnerReference_def
  GetOwnerReferences_def GetName_def GetNamespace_def GetResourceVersion_def

end
