(* ===== verification/Config_Api.thy ===== *)
theory Config_Api
  imports API_Types
begin

text \<open>
  The configuration file of the kueue controller manager, which the operator generates: the structs
  of the vendored package \<^verbatim>\<open>sigs.k8s.io/kueue/apis/config/v1beta2\<close> (file
  \<^verbatim>\<open>configuration_types.go\<close>) with the fields the operator sets. A field it never sets has its
  zero value and is left out. A \<^verbatim>\<open>float64\<close> is its 64-bit pattern.
\<close>

type_synonym float64 = "64 word"

record CfgCustomLabel =
  ccl_Name :: string
  ccl_SourceLabelKey :: string
  ccl_SourceAnnotationKey :: string
  ccl_SourceKind :: "string option"

record CfgControllerMetrics =
  ccm_BindAddress :: string
  ccm_EnableClusterQueueResources :: bool
  ccm_CustomLabels :: "CfgCustomLabel list"

record LeaderElectionConfiguration =
  le_LeaderElect :: "bool option"
  le_LeaseDuration :: Duration
  le_RenewDeadline :: Duration
  le_RetryPeriod :: Duration

record TLSOptions =
  tls_MinVersion :: string
  tls_CipherSuites :: "string list"
  tls_CurvePreferences :: "int32 list"

record CfgControllerManager =
  ccg_HealthProbeBindAddress :: string
  ccg_Metrics :: CfgControllerMetrics
  ccg_WebhookPort :: "int option"
  ccg_GroupKindConcurrency :: "string \<rightharpoonup> int"
  ccg_LeaderElection :: "LeaderElectionConfiguration option"
  ccg_TLS :: "TLSOptions option"

record CfgRequeuingStrategy =
  crs_Timestamp :: "string option"
  crs_BackoffLimitCount :: "int32 option"
  crs_BackoffBaseSeconds :: "int32 option"
  crs_BackoffMaxSeconds :: "int32 option"

record WaitForPodsReady =
  wf_Timeout :: Duration
  wf_BlockAdmission :: "bool option"
  wf_RequeuingStrategy :: "CfgRequeuingStrategy option"
  wf_RecoveryTimeout :: "Duration option"

record CfgIntegrations =
  cin_Frameworks :: "string list"
  cin_ExternalFrameworks :: "string list"
  cin_LabelKeysToCopy :: "string list"

record CfgMultiKueue = cmk_ExternalFrameworks :: "string list"

record FairSharing = fs_PreemptionStrategies :: "string list"

record CfgAdmissionFairSharing =
  caf_UsageHalfLifeTime :: Duration
  caf_UsageSamplingInterval :: Duration
  caf_ResourceWeights :: "string \<rightharpoonup> float64"

text \<open>\<^verbatim>\<open>DeviceClassCounterSource\<close> and \<^verbatim>\<open>DeviceClassCapacitySource\<close> have the same shape; the
  device selector is the CEL expression, absent when \<^verbatim>\<open>DeviceSelector.CEL\<close> is nil.\<close>
record CfgSource =
  cs_Name :: string
  cs_Driver :: string
  cs_CEL :: "string option"

record CfgSourceConfig =
  csc_Counter :: "CfgSource option"
  csc_Capacity :: "CfgSource option"

record CfgDeviceClassMapping =
  cdm_Name :: string
  cdm_DeviceClassNames :: "string list"
  cdm_Sources :: "CfgSourceConfig list"

record CfgResources = cr_DeviceClassMappings :: "CfgDeviceClassMapping list"

record ClientConnection =
  cc_QPS :: "int option"
  cc_Burst :: "int32 option"

record Configuration =
  cfg_Kind :: string
  cfg_APIVersion :: string
  cfg_Namespace :: "string option"
  cfg_ControllerManager :: CfgControllerManager
  cfg_ClientConnection :: "ClientConnection option"
  cfg_Integrations :: "CfgIntegrations option"
  cfg_InternalCertManagement_Enable :: "bool option"
  cfg_ManagedJobsNamespaceSelector :: "LabelSelector option"
  cfg_ManageJobsWithoutQueueName :: bool
  cfg_WaitForPodsReady :: "WaitForPodsReady option"
  cfg_FairSharing :: "FairSharing option"
  cfg_Resources :: "CfgResources option"
  cfg_FeatureGates :: "(string \<rightharpoonup> bool) option"
  cfg_MultiKueue :: "CfgMultiKueue option"
  cfg_AdmissionFairSharing :: "CfgAdmissionFairSharing option"

end
