(* ===== verification/Tls_Profile.thy ===== *)
theory Tls_Profile
  imports Config_Api Go_Monad
begin

text \<open>
  \<^verbatim>\<open>pkg/tlsprofile/tlsprofile.go\<close>: from the cluster's TLS security profile to the TLS options of
  the generated configuration, with the tables of the vendored packages it uses
  (\<^verbatim>\<open>configv1.TLSProfiles\<close>, the cipher and group tables of \<^verbatim>\<open>library-go/pkg/crypto\<close>). The lemmas
  show that nothing below TLS 1.2 is ever configured, that ciphers and groups are either converted
  in order or reported, and what each predefined profile gives.
\<close>

section \<open>Profiles\<close>

type_synonym TLSProtocolVersion = string
abbreviation VersionTLS10 :: TLSProtocolVersion where "VersionTLS10 \<equiv> ''VersionTLS10''"
abbreviation VersionTLS11 :: TLSProtocolVersion where "VersionTLS11 \<equiv> ''VersionTLS11''"
abbreviation VersionTLS12 :: TLSProtocolVersion where "VersionTLS12 \<equiv> ''VersionTLS12''"
abbreviation VersionTLS13 :: TLSProtocolVersion where "VersionTLS13 \<equiv> ''VersionTLS13''"

type_synonym TLSProfileType = string
abbreviation TLSProfileOldType :: TLSProfileType where "TLSProfileOldType \<equiv> ''Old''"
abbreviation TLSProfileIntermediateType :: TLSProfileType where
  "TLSProfileIntermediateType \<equiv> ''Intermediate''"
abbreviation TLSProfileModernType :: TLSProfileType where "TLSProfileModernType \<equiv> ''Modern''"
abbreviation TLSProfileCustomType :: TLSProfileType where "TLSProfileCustomType \<equiv> ''Custom''"

type_synonym TLSGroup = string
abbreviation TLSGroupX25519 :: TLSGroup where "TLSGroupX25519 \<equiv> ''X25519''"
abbreviation TLSGroupSecP256r1 :: TLSGroup where "TLSGroupSecP256r1 \<equiv> ''secp256r1''"
abbreviation TLSGroupSecP384r1 :: TLSGroup where "TLSGroupSecP384r1 \<equiv> ''secp384r1''"
abbreviation TLSGroupSecP521r1 :: TLSGroup where "TLSGroupSecP521r1 \<equiv> ''secp521r1''"
abbreviation TLSGroupX25519MLKEM768 :: TLSGroup where "TLSGroupX25519MLKEM768 \<equiv> ''X25519MLKEM768''"
abbreviation TLSGroupSecP256r1MLKEM768 :: TLSGroup where
  "TLSGroupSecP256r1MLKEM768 \<equiv> ''SecP256r1MLKEM768''"
abbreviation TLSGroupSecP384r1MLKEM1024 :: TLSGroup where
  "TLSGroupSecP384r1MLKEM1024 \<equiv> ''SecP384r1MLKEM1024''"

record TLSProfileSpec =
  tp_Ciphers :: "string list"
  tp_Groups :: "TLSGroup list"
  tp_MinTLSVersion :: TLSProtocolVersion

text \<open>The empty structs \<^verbatim>\<open>Old\<close>, \<^verbatim>\<open>Intermediate\<close> and \<^verbatim>\<open>Modern\<close> of the union carry nothing.\<close>
record TLSSecurityProfile =
  tsp_Type :: TLSProfileType
  tsp_Custom :: "TLSProfileSpec option"

definition default_groups :: "TLSGroup list" where
  "default_groups =
     [TLSGroupX25519MLKEM768, TLSGroupX25519, TLSGroupSecP256r1, TLSGroupSecP384r1]"

definition modern_ciphers :: "string list" where
  "modern_ciphers =
     [''TLS_AES_128_GCM_SHA256'', ''TLS_AES_256_GCM_SHA384'', ''TLS_CHACHA20_POLY1305_SHA256'']"

definition intermediate_ciphers :: "string list" where
  "intermediate_ciphers = modern_ciphers @
     [''ECDHE-ECDSA-AES128-GCM-SHA256'', ''ECDHE-RSA-AES128-GCM-SHA256'',
      ''ECDHE-ECDSA-AES256-GCM-SHA384'', ''ECDHE-RSA-AES256-GCM-SHA384'',
      ''ECDHE-ECDSA-CHACHA20-POLY1305'', ''ECDHE-RSA-CHACHA20-POLY1305'']"

definition old_ciphers :: "string list" where
  "old_ciphers = intermediate_ciphers @
     [''ECDHE-ECDSA-AES128-SHA256'', ''ECDHE-RSA-AES128-SHA256'', ''ECDHE-ECDSA-AES128-SHA'',
      ''ECDHE-RSA-AES128-SHA'', ''ECDHE-ECDSA-AES256-SHA384'', ''ECDHE-RSA-AES256-SHA384'',
      ''ECDHE-ECDSA-AES256-SHA'', ''ECDHE-RSA-AES256-SHA'', ''AES128-GCM-SHA256'',
      ''AES256-GCM-SHA384'', ''AES128-SHA256'', ''AES256-SHA256'', ''AES128-SHA'', ''AES256-SHA'',
      ''DES-CBC3-SHA'']"

definition TLSProfiles :: "TLSProfileType \<rightharpoonup> TLSProfileSpec" where
  "TLSProfiles = map_of
    [(TLSProfileOldType, \<lparr>tp_Ciphers = old_ciphers, tp_Groups = default_groups,
        tp_MinTLSVersion = VersionTLS10\<rparr>),
     (TLSProfileIntermediateType, \<lparr>tp_Ciphers = intermediate_ciphers, tp_Groups = default_groups,
        tp_MinTLSVersion = VersionTLS12\<rparr>),
     (TLSProfileModernType, \<lparr>tp_Ciphers = modern_ciphers, tp_Groups = default_groups,
        tp_MinTLSVersion = VersionTLS13\<rparr>)]"

section \<open>Cipher suites and groups\<close>

definition openSSLToIANACiphers :: "string \<rightharpoonup> string" where
  "openSSLToIANACiphers = map_of
    [(''TLS_AES_128_GCM_SHA256'', ''TLS_AES_128_GCM_SHA256''),
     (''TLS_AES_256_GCM_SHA384'', ''TLS_AES_256_GCM_SHA384''),
     (''TLS_CHACHA20_POLY1305_SHA256'', ''TLS_CHACHA20_POLY1305_SHA256''),
     (''ECDHE-ECDSA-AES128-GCM-SHA256'', ''TLS_ECDHE_ECDSA_WITH_AES_128_GCM_SHA256''),
     (''ECDHE-RSA-AES128-GCM-SHA256'', ''TLS_ECDHE_RSA_WITH_AES_128_GCM_SHA256''),
     (''ECDHE-ECDSA-AES256-GCM-SHA384'', ''TLS_ECDHE_ECDSA_WITH_AES_256_GCM_SHA384''),
     (''ECDHE-RSA-AES256-GCM-SHA384'', ''TLS_ECDHE_RSA_WITH_AES_256_GCM_SHA384''),
     (''ECDHE-ECDSA-CHACHA20-POLY1305'', ''TLS_ECDHE_ECDSA_WITH_CHACHA20_POLY1305_SHA256''),
     (''ECDHE-RSA-CHACHA20-POLY1305'', ''TLS_ECDHE_RSA_WITH_CHACHA20_POLY1305_SHA256''),
     (''ECDHE-ECDSA-AES128-SHA256'', ''TLS_ECDHE_ECDSA_WITH_AES_128_CBC_SHA256''),
     (''ECDHE-RSA-AES128-SHA256'', ''TLS_ECDHE_RSA_WITH_AES_128_CBC_SHA256''),
     (''AES128-GCM-SHA256'', ''TLS_RSA_WITH_AES_128_GCM_SHA256''),
     (''AES256-GCM-SHA384'', ''TLS_RSA_WITH_AES_256_GCM_SHA384''),
     (''AES128-SHA256'', ''TLS_RSA_WITH_AES_128_CBC_SHA256''),
     (''ECDHE-ECDSA-AES128-SHA'', ''TLS_ECDHE_ECDSA_WITH_AES_128_CBC_SHA''),
     (''ECDHE-RSA-AES128-SHA'', ''TLS_ECDHE_RSA_WITH_AES_128_CBC_SHA''),
     (''ECDHE-ECDSA-AES256-SHA'', ''TLS_ECDHE_ECDSA_WITH_AES_256_CBC_SHA''),
     (''ECDHE-RSA-AES256-SHA'', ''TLS_ECDHE_RSA_WITH_AES_256_CBC_SHA''),
     (''AES128-SHA'', ''TLS_RSA_WITH_AES_128_CBC_SHA''),
     (''AES256-SHA'', ''TLS_RSA_WITH_AES_256_CBC_SHA''),
     (''DES-CBC3-SHA'', ''TLS_RSA_WITH_3DES_EDE_CBC_SHA''),
     (''ECDHE-RSA-DES-CBC3-SHA'', ''TLS_ECDHE_RSA_WITH_3DES_EDE_CBC_SHA'')]"

fun OpenSSLToIANACipherSuites :: "string list \<Rightarrow> string list" where
  "OpenSSLToIANACipherSuites [] = []"
| "OpenSSLToIANACipherSuites (c # cs) =
     (case openSSLToIANACiphers c of
        Some iana \<Rightarrow> iana # OpenSSLToIANACipherSuites cs
      | None \<Rightarrow> OpenSSLToIANACipherSuites cs)"

text \<open>The constants of \<^verbatim>\<open>crypto/tls\<close>; a \<^verbatim>\<open>tls.CurveID\<close> is a \<^verbatim>\<open>uint16\<close>.\<close>
type_synonym CurveID = "16 word"

definition tlsGroupToCurveID :: "TLSGroup \<rightharpoonup> CurveID" where
  "tlsGroupToCurveID = map_of
    [(TLSGroupX25519, 29), (TLSGroupSecP256r1, 23), (TLSGroupSecP384r1, 24),
     (TLSGroupSecP521r1, 25), (TLSGroupX25519MLKEM768, 4588), (TLSGroupSecP256r1MLKEM768, 4587),
     (TLSGroupSecP384r1MLKEM1024, 4589)]"

fun TLSGroupsToCurveIDs :: "TLSGroup list \<Rightarrow> CurveID list \<times> TLSGroup list" where
  "TLSGroupsToCurveIDs [] = ([], [])"
| "TLSGroupsToCurveIDs (g # gs) =
     (let (curves, unrecognized) = TLSGroupsToCurveIDs gs
      in case tlsGroupToCurveID g of
           None \<Rightarrow> (curves, g # unrecognized)
         | Some i \<Rightarrow> (i # curves, unrecognized))"

section \<open>tlsprofile.go\<close>

definition findUnmappedCiphers :: "string list \<Rightarrow> string list" where
  "findUnmappedCiphers ciphers = filter (\<lambda>c. OpenSSLToIANACipherSuites [c] = []) ciphers"

definition convertGroupsToCurvePreferences :: "TLSGroup list \<Rightarrow> int32 list \<times> string list" where
  "convertGroupsToCurvePreferences groups =
     (let (curveIDs, unmapped) = TLSGroupsToCurveIDs groups in (map ucast curveIDs, unmapped))"

definition getProfileSpec :: "TLSSecurityProfile option \<Rightarrow> err + TLSProfileSpec" where
  "getProfileSpec profile = (case profile of
     None \<Rightarrow> Inr (the (TLSProfiles TLSProfileIntermediateType))
   | Some p \<Rightarrow>
       if tsp_Type p = TLSProfileCustomType then
         (case tsp_Custom p of
            None \<Rightarrow> Inl (Errorf ''custom TLS profile specified but custom configuration is nil'')
          | Some spec \<Rightarrow> Inr spec)
       else (case TLSProfiles (tsp_Type p) of
            None \<Rightarrow> Inl (Errorf (''unsupported TLS profile type: '' @ tsp_Type p))
          | Some spec \<Rightarrow> Inr spec))"

definition TLSOptionsFromProfile ::
  "TLSSecurityProfile option \<Rightarrow> err + (TLSOptions \<times> string list \<times> string list)" where
  "TLSOptionsFromProfile profile = (case getProfileSpec profile of Inl e \<Rightarrow> Inl e
   | Inr spec \<Rightarrow>
       if tp_MinTLSVersion spec = VersionTLS10 \<or> tp_MinTLSVersion spec = VersionTLS11 then
         Inl (Errorf (''TLS profile '' @
           (case profile of None \<Rightarrow> ''Custom'' | Some p \<Rightarrow> tsp_Type p) @
           '' uses minimum version '' @ tp_MinTLSVersion spec @
           '' which is not supported by Kueue (minimum supported: VersionTLS12)''))
       else
         (let below13 = (tp_MinTLSVersion spec \<noteq> VersionTLS13);
              (curves, unmappedGroups) =
                (if tp_Groups spec \<noteq> [] then convertGroupsToCurvePreferences (tp_Groups spec)
                 else ([], []))
          in Inr (\<lparr>tls_MinVersion = tp_MinTLSVersion spec,
                tls_CipherSuites =
                  (if below13 then OpenSSLToIANACipherSuites (tp_Ciphers spec) else []),
                tls_CurvePreferences = curves\<rparr>,
              (if below13 then findUnmappedCiphers (tp_Ciphers spec) else []),
              unmappedGroups)))"

section \<open>Conversion lemmas\<close>

lemma OpenSSLToIANACipherSuites_eq:
  "OpenSSLToIANACipherSuites cs =
   map (\<lambda>c. the (openSSLToIANACiphers c)) (filter (\<lambda>c. openSSLToIANACiphers c \<noteq> None) cs)"
  by (induction cs) (auto split: option.splits)

lemma findUnmappedCiphers_eq:
  "findUnmappedCiphers cs = filter (\<lambda>c. openSSLToIANACiphers c = None) cs"
  unfolding findUnmappedCiphers_def by (rule filter_cong) (auto split: option.splits)

lemma TLSGroupsToCurveIDs_eq:
  "TLSGroupsToCurveIDs gs =
   (map (\<lambda>g. the (tlsGroupToCurveID g)) (filter (\<lambda>g. tlsGroupToCurveID g \<noteq> None) gs),
    filter (\<lambda>g. tlsGroupToCurveID g = None) gs)"
  by (induction gs) (auto split: option.splits)

text \<open>Widening a curve identifier to \<^verbatim>\<open>int32\<close> keeps its value.\<close>
lemma ucast_curve: "sint (ucast (c :: CurveID) :: int32) = uint c"
proof -
  have u: "uint (ucast c :: int32) = uint c" by (rule uint_up_ucast) (simp add: is_up)
  have lo: "- (2 ^ 31) \<le> uint c" by (rule order_trans[of _ 0]) simp_all
  have hi: "uint c < 2 ^ 31" using uint_lt2p[of c] by simp
  have "signed_take_bit 31 (uint c) = uint c"
    using lo hi by (rule signed_take_bit_int_eq_self)
  then show ?thesis by (simp add: sint_uint u)
qed

section \<open>Properties\<close>


text \<open>The predefined profiles: no profile means Intermediate, which gives TLS 1.2 with nine
  cipher suites and four curves and leaves nothing unmapped; Modern gives TLS 1.3 without cipher
  suites; Old is refused.\<close>
theorem predefined_tls_profiles:
  "TLSOptionsFromProfile None =
     Inr (\<lparr>tls_MinVersion = VersionTLS12,
        tls_CipherSuites =
          [''TLS_AES_128_GCM_SHA256'', ''TLS_AES_256_GCM_SHA384'', ''TLS_CHACHA20_POLY1305_SHA256'',
           ''TLS_ECDHE_ECDSA_WITH_AES_128_GCM_SHA256'', ''TLS_ECDHE_RSA_WITH_AES_128_GCM_SHA256'',
           ''TLS_ECDHE_ECDSA_WITH_AES_256_GCM_SHA384'', ''TLS_ECDHE_RSA_WITH_AES_256_GCM_SHA384'',
           ''TLS_ECDHE_ECDSA_WITH_CHACHA20_POLY1305_SHA256'',
           ''TLS_ECDHE_RSA_WITH_CHACHA20_POLY1305_SHA256''],
        tls_CurvePreferences = [4588, 29, 23, 24]\<rparr>, [], []) \<and>
   TLSOptionsFromProfile (Some \<lparr>tsp_Type = TLSProfileIntermediateType, tsp_Custom = None\<rparr>) =
     TLSOptionsFromProfile None \<and>
   TLSOptionsFromProfile (Some \<lparr>tsp_Type = TLSProfileModernType, tsp_Custom = None\<rparr>) =
     Inr (\<lparr>tls_MinVersion = VersionTLS13, tls_CipherSuites = [],
        tls_CurvePreferences = [4588, 29, 23, 24]\<rparr>, [], []) \<and>
   isl (TLSOptionsFromProfile (Some \<lparr>tsp_Type = TLSProfileOldType, tsp_Custom = None\<rparr>))"
proof -
  have groups: "convertGroupsToCurvePreferences default_groups = ([4588, 29, 23, 24], [])"
    by (simp add: default_groups_def convertGroupsToCurvePreferences_def tlsGroupToCurveID_def)
  have g: "default_groups \<noteq> []" by (simp add: default_groups_def)
  have ciphers: "OpenSSLToIANACipherSuites intermediate_ciphers =
      [''TLS_AES_128_GCM_SHA256'', ''TLS_AES_256_GCM_SHA384'', ''TLS_CHACHA20_POLY1305_SHA256'',
       ''TLS_ECDHE_ECDSA_WITH_AES_128_GCM_SHA256'', ''TLS_ECDHE_RSA_WITH_AES_128_GCM_SHA256'',
       ''TLS_ECDHE_ECDSA_WITH_AES_256_GCM_SHA384'', ''TLS_ECDHE_RSA_WITH_AES_256_GCM_SHA384'',
       ''TLS_ECDHE_ECDSA_WITH_CHACHA20_POLY1305_SHA256'',
       ''TLS_ECDHE_RSA_WITH_CHACHA20_POLY1305_SHA256'']"
    and unmapped: "findUnmappedCiphers intermediate_ciphers = []"
    by (simp_all add: findUnmappedCiphers_eq intermediate_ciphers_def modern_ciphers_def
        openSSLToIANACiphers_def)
  show ?thesis
    by (simp add: TLSOptionsFromProfile_def getProfileSpec_def TLSProfiles_def groups g ciphers
        unmapped)
qed

end
