(* ===== verification/Kube_Api.thy ===== *)
theory Kube_Api
  imports Unstructured_Objects Config_Api Tls_Profile
begin

text \<open>
  The world the operator runs in. The state \<open>World\<close> holds the objects of the cluster, the requests
  made so far, the recorded events, the operator's in-memory state (the resource cache and the two
  flags of \<^verbatim>\<open>TargetConfigReconciler\<close> that survive a reconciliation) and the clock. What is not the
  operator's code is a field of \<open>Env\<close>, indexed by the number of requests made so far: which
  requests fail and how, what other actors do to the cluster before each request, what the
  informer caches show, what the API server makes of an object it stores, what discovery answers,
  the embedded assets in decoded form and the hash functions. Theorems quantify over all of it, so
  they hold for every schedule of failures and of interference.

  A client for a kind of object is a record of its store in the cluster, its accessors and the
  server's treatment of it; the requests \<open>api_Get\<close>, \<open>api_Create\<close>, \<open>api_Update\<close>, \<open>api_Delete\<close> and
  \<open>api_List\<close> and the lister are defined once over such a record. The locale \<open>api_store\<close> states
  what they rely on and is interpreted for every client.
\<close>

section \<open>State\<close>

type_synonym 'o store = "((string \<times> string) \<times> 'o) list"

record Cluster =
  c_ConfigMaps :: "ConfigMap store"
  c_Secrets :: "Unstructured store"
  c_ServiceAccounts :: "ServiceAccount store"
  c_Services :: "Service store"
  c_Roles :: "Role store"
  c_RoleBindings :: "RoleBinding store"
  c_ClusterRoles :: "ClusterRole store"
  c_ClusterRoleBindings :: "ClusterRoleBinding store"
  c_MutatingWebhooks :: "MutatingWebhookConfiguration store"
  c_ValidatingWebhooks :: "ValidatingWebhookConfiguration store"
  c_NetworkPolicies :: "NetworkPolicy store"
  c_PriorityLevels :: "PriorityLevelConfiguration store"
  c_FlowSchemas :: "FlowSchema store"
  c_CRDs :: "CustomResourceDefinition store"
  c_APIServices :: "APIService store"
  c_Deployments :: "Deployment store"
  c_Issuers :: "Unstructured store"
  c_Certificates :: "Unstructured store"
  c_ServiceMonitors :: "Unstructured store"
  c_Kueues :: "(string \<times> Kueue) list"

text \<open>\<^verbatim>\<open>OperatorConditionApplyConfiguration\<close>: every field is a pointer. Times are instants of the
  world's clock.\<close>
record ConditionApply =
  ca_Type :: "string option"
  ca_Status :: "string option"
  ca_LastTransitionTime :: "int option"
  ca_Reason :: "string option"
  ca_Message :: "string option"

text \<open>The status document of \<^verbatim>\<open>ApplyStatus\<close>: conditions and, when set, the ready replicas.\<close>
record StatusApply =
  sta_Conditions :: "ConditionApply list"
  sta_ReadyReplicas :: "int32 option"

text \<open>What a patch says of \<^verbatim>\<open>metadata.finalizers\<close>: nothing (\<^term>\<open>None\<close>), null
  (\<^term>\<open>Some None\<close>) or a list; and the two directives of a strategic merge patch that go with it,
  \<^verbatim>\<open>$deleteFromPrimitiveList/finalizers\<close> and \<^verbatim>\<open>$setElementOrder/finalizers\<close>.\<close>
record FinalizerPatch =
  fp_Finalizers :: "string list option option"
  fp_Delete :: "string list"
  fp_Order :: "string list"

datatype call =
    Get kind string string
  | ListAll kind string
  | Create robj
  | Update robj
  | Delete kind string string
  | GetKueue string
  | PatchKueue string FinalizerPatch
  | ApplyStatus StatusApply
  | Discover string
  | ServerVersion
  | GetFeatureGate
  | GetAPIServer
  | GetOperatorConfig string

text \<open>A request that changes the cluster.\<close>
fun is_write :: "call \<Rightarrow> bool" where
  "is_write (Create x) = True"
| "is_write (Update x) = True"
| "is_write (Delete k ns n) = True"
| "is_write (PatchKueue n fs) = True"
| "is_write (ApplyStatus s) = True"
| "is_write _ = False"

text \<open>\<^verbatim>\<open>cachedVersionKey\<close>: name, namespace, group and kind.\<close>
type_synonym cache_key = "string \<times> string \<times> string \<times> string"

record World =
  w_Cluster :: Cluster
  w_Calls :: nat
  w_Trace :: "call list"
  w_Events :: "string list"
  w_Cache :: "cache_key \<rightharpoonup> string \<times> string"
  w_draPartitionableDevicesEnabled :: bool
  w_draConsumableCapacityEnabled :: bool
  w_Now :: int

section \<open>Environment\<close>

record Server =
  srv_ConfigMap :: "nat \<Rightarrow> ConfigMap \<Rightarrow> ConfigMap"
  srv_ServiceAccount :: "nat \<Rightarrow> ServiceAccount \<Rightarrow> ServiceAccount"
  srv_Service :: "nat \<Rightarrow> Service \<Rightarrow> Service"
  srv_Role :: "nat \<Rightarrow> Role \<Rightarrow> Role"
  srv_RoleBinding :: "nat \<Rightarrow> RoleBinding \<Rightarrow> RoleBinding"
  srv_ClusterRole :: "nat \<Rightarrow> ClusterRole \<Rightarrow> ClusterRole"
  srv_ClusterRoleBinding :: "nat \<Rightarrow> ClusterRoleBinding \<Rightarrow> ClusterRoleBinding"
  srv_MutatingWebhook :: "nat \<Rightarrow> MutatingWebhookConfiguration \<Rightarrow> MutatingWebhookConfiguration"
  srv_ValidatingWebhook :: "nat \<Rightarrow> ValidatingWebhookConfiguration \<Rightarrow> ValidatingWebhookConfiguration"
  srv_NetworkPolicy :: "nat \<Rightarrow> NetworkPolicy \<Rightarrow> NetworkPolicy"
  srv_PriorityLevel :: "nat \<Rightarrow> PriorityLevelConfiguration \<Rightarrow> PriorityLevelConfiguration"
  srv_FlowSchema :: "nat \<Rightarrow> FlowSchema \<Rightarrow> FlowSchema"
  srv_CRD :: "nat \<Rightarrow> CustomResourceDefinition \<Rightarrow> CustomResourceDefinition"
  srv_APIService :: "nat \<Rightarrow> APIService \<Rightarrow> APIService"
  srv_Deployment :: "nat \<Rightarrow> Deployment \<Rightarrow> Deployment"
  srv_Unstructured :: "nat \<Rightarrow> Unstructured \<Rightarrow> Unstructured"
  srv_Kueue :: "nat \<Rightarrow> Kueue \<Rightarrow> Kueue"

text \<open>The embedded assets: \<^term>\<open>None\<close> is a file that is missing or does not decode.\<close>
record Assets =
  a_Dir :: "string \<Rightarrow> err + string list"
  a_ServiceAccount :: "string \<rightharpoonup> ServiceAccount"
  a_Service :: "string \<rightharpoonup> Service"
  a_Role :: "string \<rightharpoonup> Role"
  a_RoleBinding :: "string \<rightharpoonup> RoleBinding"
  a_ClusterRole :: "string \<rightharpoonup> ClusterRole"
  a_ClusterRoleBinding :: "string \<rightharpoonup> ClusterRoleBinding"
  a_MutatingWebhook :: "string \<rightharpoonup> MutatingWebhookConfiguration"
  a_ValidatingWebhook :: "string \<rightharpoonup> ValidatingWebhookConfiguration"
  a_NetworkPolicy :: "string \<rightharpoonup> NetworkPolicy"
  a_PriorityLevel :: "string \<rightharpoonup> PriorityLevelConfiguration"
  a_FlowSchema :: "string \<rightharpoonup> FlowSchema"
  a_CRD :: "string \<rightharpoonup> CustomResourceDefinition"
  a_APIService :: "string \<rightharpoonup> APIService"
  a_Deployment :: "string \<rightharpoonup> Deployment"

text \<open>An error that an API client returns.\<close>
type_synonym api_error = "api_reason \<times> string"

record FeatureGateSpec =
  fg_FeatureSet :: string
  fg_CustomNoUpgrade :: "string list option"

datatype cached_object = CacheError string | CacheAbsent | CacheOther | CacheKueue Kueue

text \<open>What is read of a discovered resource: its name and its kind.\<close>
type_synonym api_resource = "string \<times> string"

record Env =
  e_Fault :: "nat \<Rightarrow> api_error option"
  e_Interfere :: "nat \<Rightarrow> Cluster \<Rightarrow> Cluster"
  e_Informer :: "nat \<Rightarrow> Cluster"
  e_ListerFault :: "nat \<Rightarrow> api_error option"
  e_KueueInformer :: "nat \<Rightarrow> cached_object"
  e_Discovery :: "nat \<Rightarrow> string \<Rightarrow> api_error + api_resource list"
  e_ServerMinor :: "nat \<Rightarrow> api_error + string"
  e_FeatureGate :: "nat \<Rightarrow> api_error + FeatureGateSpec"
  e_APIServer :: "nat \<Rightarrow> api_error + TLSSecurityProfile option"
  e_OperatorConfig :: "nat \<Rightarrow> string \<Rightarrow> api_error option"
  e_ExtractKueueStatus :: "Kueue \<Rightarrow> err + ConditionApply list option"
  e_Server :: Server
  e_Assets :: Assets
  e_Marshal :: "hashable \<Rightarrow> err + string"
  e_Sha256 :: "string \<Rightarrow> string"
  e_StructHash :: "robj \<Rightarrow> string"
  e_YamlMarshal :: "Configuration \<Rightarrow> err + string"
  e_ParseFloat :: "string \<Rightarrow> err + float64"
  e_MetaFromUnstructured :: "json_map \<Rightarrow> err + ObjectMeta"
  e_MetaToUnstructured :: "ObjectMeta \<Rightarrow> err + json_map"
  e_RequestTime :: "nat \<Rightarrow> nat"
  e_OperatorNamespace :: string
  e_KueueImage :: string
  e_ServiceMonitorSupport :: bool
  e_IsOpenShift :: bool

end
