(* ===== verification/Kube_Client.thy ===== *)
theory Kube_Client
  imports Kube_Api
begin

text \<open>
  Requests to the API server, the informer-backed listers, the event recorder and the vendored
  resource cache (\<^verbatim>\<open>resource_cache.go\<close>). Everything is generic in the kind of object; the locales
  state the laws of a client, and each client of the operator is an instance.
\<close>

section \<open>Requests\<close>

record 'o client =
  cl_Kind :: kind
  cl_Store :: "Cluster \<Rightarrow> 'o store"
  cl_Put :: "('o store \<Rightarrow> 'o store) \<Rightarrow> Cluster \<Rightarrow> Cluster"
  cl_Meta :: "'o \<Rightarrow> ObjectMeta"
  cl_MetaUpdate :: "(ObjectMeta \<Rightarrow> ObjectMeta) \<Rightarrow> 'o \<Rightarrow> 'o"
  cl_TypeMeta :: "'o \<Rightarrow> TypeMeta"
  cl_CoreKind :: string
  cl_Object :: "'o \<Rightarrow> robj"
  cl_Admit :: "nat \<Rightarrow> 'o \<Rightarrow> 'o"

definition obj_name :: "'o client \<Rightarrow> 'o \<Rightarrow> string" where
  "obj_name cl x = om_Name (cl_Meta cl x)"

definition obj_namespace :: "'o client \<Rightarrow> 'o \<Rightarrow> string" where
  "obj_namespace cl x = om_Namespace (cl_Meta cl x)"

definition obj_version :: "'o client \<Rightarrow> 'o \<Rightarrow> string" where
  "obj_version cl x = om_ResourceVersion (cl_Meta cl x)"

text \<open>Time passes, other actors act, and the request is recorded, before the server answers it.\<close>
definition before_call :: "Env \<Rightarrow> call \<Rightarrow> World \<Rightarrow> World" where
  "before_call env c w =
     w\<lparr>w_Cluster := e_Interfere env (w_Calls w) (w_Cluster w),
       w_Calls := Suc (w_Calls w),
       w_Trace := w_Trace w @ [c],
       w_Now := w_Now w + int (e_RequestTime env (w_Calls w))\<rparr>"

text \<open>A request fails as the environment says, or the server answers it from the cluster.\<close>
definition api_call ::
  "Env \<Rightarrow> call \<Rightarrow> (nat \<Rightarrow> Cluster \<Rightarrow> (api_error + 'a) \<times> Cluster) \<Rightarrow> (World, 'a) go" where
  "api_call env c answer = (\<lambda>w.
     let w' = before_call env c w in
     case e_Fault env (w_Calls w) of
       Some (r, m) \<Rightarrow> (Inl (ApiError r m), w')
     | None \<Rightarrow> (case answer (w_Calls w) (w_Cluster w') of
           (Inl (r, m), c') \<Rightarrow> (Inl (ApiError r m), w'\<lparr>w_Cluster := c'\<rparr>)
         | (Inr x, c') \<Rightarrow> (Inr x, w'\<lparr>w_Cluster := c'\<rparr>)))"

definition api_Get :: "Env \<Rightarrow> 'o client \<Rightarrow> string \<Rightarrow> string \<Rightarrow> (World, 'o) go" where
  "api_Get env cl ns name = api_call env (Get (cl_Kind cl) ns name) (\<lambda>n c.
     (case map_of (cl_Store cl c) (ns, name) of
        None \<Rightarrow> Inl (NotFound, name) | Some x \<Rightarrow> Inr x, c))"

definition api_List :: "Env \<Rightarrow> 'o client \<Rightarrow> string \<Rightarrow> (World, 'o list) go" where
  "api_List env cl ns = api_call env (ListAll (cl_Kind cl) ns) (\<lambda>n c.
     (Inr (map snd (filter (\<lambda>((ns', _), _). ns = [] \<or> ns' = ns) (cl_Store cl c))), c))"

definition api_Create :: "Env \<Rightarrow> 'o client \<Rightarrow> string \<Rightarrow> 'o \<Rightarrow> (World, 'o) go" where
  "api_Create env cl ns x = api_call env (Create (cl_Object cl x)) (\<lambda>n c.
     case map_of (cl_Store cl c) (ns, obj_name cl x) of
       Some _ \<Rightarrow> (Inl (AlreadyExists, obj_name cl x), c)
     | None \<Rightarrow> (Inr (cl_Admit cl n x),
               cl_Put cl (AList.update (ns, obj_name cl x) (cl_Admit cl n x)) c))"

text \<open>An update carries the resource version it is based on; the server refuses it when the object
  has another one by now.\<close>
definition api_Update :: "Env \<Rightarrow> 'o client \<Rightarrow> string \<Rightarrow> 'o \<Rightarrow> (World, 'o) go" where
  "api_Update env cl ns x = api_call env (Update (cl_Object cl x)) (\<lambda>n c.
     case map_of (cl_Store cl c) (ns, obj_name cl x) of
       None \<Rightarrow> (Inl (NotFound, obj_name cl x), c)
     | Some old \<Rightarrow>
         if obj_version cl x \<noteq> [] \<and> obj_version cl x \<noteq> obj_version cl old
         then (Inl (Conflict, obj_name cl x), c)
         else (Inr (cl_Admit cl n x),
               cl_Put cl (AList.update (ns, obj_name cl x) (cl_Admit cl n x)) c))"

definition api_Delete :: "Env \<Rightarrow> 'o client \<Rightarrow> string \<Rightarrow> string \<Rightarrow> (World, unit) go" where
  "api_Delete env cl ns name = api_call env (Delete (cl_Kind cl) ns name) (\<lambda>n c.
     case map_of (cl_Store cl c) (ns, name) of
       None \<Rightarrow> (Inl (NotFound, name), c)
     | Some _ \<Rightarrow> (Inr (), cl_Put cl (AList.delete (ns, name)) c))"

text \<open>A lister reads an informer's cache: no request, and possibly stale.\<close>
definition lister_Get :: "Env \<Rightarrow> 'o client \<Rightarrow> string \<Rightarrow> string \<Rightarrow> (World, 'o) go" where
  "lister_Get env cl ns name = (\<lambda>w.
     (case e_ListerFault env (w_Calls w) of
        Some (r, m) \<Rightarrow> Inl (ApiError r m)
      | None \<Rightarrow> (case map_of (cl_Store cl (e_Informer env (w_Calls w))) (ns, name) of
            None \<Rightarrow> Inl (ApiError NotFound name) | Some x \<Rightarrow> Inr x), w))"

definition Eventf :: "string \<Rightarrow> (World, unit) go" where
  "Eventf reason = go_modify (\<lambda>w. w\<lparr>w_Events := w_Events w @ [reason]\<rparr>)"

text \<open>\<^verbatim>\<open>resourcehelper.ReportCreateEvent\<close> and \<^verbatim>\<open>ReportUpdateEvent\<close>; only the reason is kept.\<close>
definition ReportCreateEvent :: "kind \<Rightarrow> err + 'a \<Rightarrow> (World, unit) go" where
  "ReportCreateEvent k r =
     Eventf (kind_name k @ (case r of Inl _ \<Rightarrow> ''CreateFailed'' | Inr _ \<Rightarrow> ''Created''))"

definition ReportUpdateEvent :: "kind \<Rightarrow> err + 'a \<Rightarrow> (World, unit) go" where
  "ReportUpdateEvent k r =
     Eventf (kind_name k @ (case r of Inl _ \<Rightarrow> ''UpdateFailed'' | Inr _ \<Rightarrow> ''Updated''))"

section \<open>The resource cache\<close>

definition getResourceMetadata :: "Env \<Rightarrow> 'o client \<Rightarrow> 'o \<Rightarrow> (cache_key \<times> string) option" where
  "getResourceMetadata env cl obj =
     (let t = cl_TypeMeta cl obj;
          grp = (case ParseGroupVersion (tm_APIVersion t) of None \<Rightarrow> [] | Some (g, _) \<Rightarrow> g);
          hash = e_StructHash env (cl_Object cl obj)
      in if tm_Kind t \<noteq> [] then Some ((obj_name cl obj, obj_namespace cl obj, grp, tm_Kind t), hash)
         else if cl_CoreKind cl \<noteq> []
           then Some ((obj_name cl obj, obj_namespace cl obj, [], cl_CoreKind cl), hash)
         else None)"

definition getResourceVersion :: "'o client \<Rightarrow> 'o \<Rightarrow> string option" where
  "getResourceVersion cl obj = (if obj_version cl obj = [] then None else Some (obj_version cl obj))"

definition UpdateCachedResourceMetadata :: "Env \<Rightarrow> 'o client \<Rightarrow> 'o \<Rightarrow> 'o \<Rightarrow> (World, unit) go" where
  "UpdateCachedResourceMetadata env cl required actual =
     (case getResourceMetadata env cl required of None \<Rightarrow> go_return ()
      | Some (key, hash) \<Rightarrow> (case getResourceVersion cl actual of None \<Rightarrow> go_return ()
          | Some version \<Rightarrow> go_modify (\<lambda>w. w\<lparr>w_Cache := (w_Cache w)(key \<mapsto> (hash, version))\<rparr>)))"

definition safe_to_skip ::
  "(cache_key \<rightharpoonup> string \<times> string) \<Rightarrow> Env \<Rightarrow> 'o client \<Rightarrow> 'o \<Rightarrow> 'o \<Rightarrow> bool" where
  "safe_to_skip cache env cl required existing =
     (case getResourceMetadata env cl required of None \<Rightarrow> False
      | Some (key, hash) \<Rightarrow> (case getResourceVersion cl existing of None \<Rightarrow> False
          | Some version \<Rightarrow> cache key = Some (hash, version)))"

definition SafeToSkipApply :: "Env \<Rightarrow> 'o client \<Rightarrow> 'o \<Rightarrow> 'o \<Rightarrow> (World, bool) go" where
  "SafeToSkipApply env cl required existing =
     go_read (\<lambda>w. safe_to_skip (w_Cache w) env cl required existing)"

section \<open>The clients\<close>

definition ConfigMaps :: "Env \<Rightarrow> ConfigMap client" where
  "ConfigMaps env = \<lparr>cl_Kind = KConfigMap, cl_Store = c_ConfigMaps, cl_Put = c_ConfigMaps_update,
     cl_Meta = cm_ObjectMeta, cl_MetaUpdate = cm_ObjectMeta_update, cl_TypeMeta = cm_TypeMeta,
     cl_CoreKind = ''ConfigMap'', cl_Object = RConfigMap, cl_Admit = srv_ConfigMap (e_Server env)\<rparr>"

definition Secrets :: "Env \<Rightarrow> Unstructured client" where
  "Secrets env = \<lparr>cl_Kind = KSecret, cl_Store = c_Secrets, cl_Put = c_Secrets_update,
     cl_Meta = unstructured_meta, cl_MetaUpdate = (\<lambda>f x. x), cl_TypeMeta = GetTypeMeta,
     cl_CoreKind = ''Secret'', cl_Object = RSecret, cl_Admit = srv_Unstructured (e_Server env)\<rparr>"

definition ServiceAccounts :: "Env \<Rightarrow> ServiceAccount client" where
  "ServiceAccounts env = \<lparr>cl_Kind = KServiceAccount, cl_Store = c_ServiceAccounts,
     cl_Put = c_ServiceAccounts_update, cl_Meta = sa_ObjectMeta, cl_MetaUpdate = sa_ObjectMeta_update,
     cl_TypeMeta = sa_TypeMeta, cl_CoreKind = ''ServiceAccount'', cl_Object = RServiceAccount,
     cl_Admit = srv_ServiceAccount (e_Server env)\<rparr>"

definition Services :: "Env \<Rightarrow> Service client" where
  "Services env = \<lparr>cl_Kind = KService, cl_Store = c_Services, cl_Put = c_Services_update,
     cl_Meta = sv_ObjectMeta, cl_MetaUpdate = sv_ObjectMeta_update, cl_TypeMeta = sv_TypeMeta,
     cl_CoreKind = ''Service'', cl_Object = RService, cl_Admit = srv_Service (e_Server env)\<rparr>"

definition Roles :: "Env \<Rightarrow> Role client" where
  "Roles env = \<lparr>cl_Kind = KRole, cl_Store = c_Roles, cl_Put = c_Roles_update,
     cl_Meta = ro_ObjectMeta, cl_MetaUpdate = ro_ObjectMeta_update, cl_TypeMeta = ro_TypeMeta,
     cl_CoreKind = [], cl_Object = RRole, cl_Admit = srv_Role (e_Server env)\<rparr>"

definition RoleBindings :: "Env \<Rightarrow> RoleBinding client" where
  "RoleBindings env = \<lparr>cl_Kind = KRoleBinding, cl_Store = c_RoleBindings,
     cl_Put = c_RoleBindings_update, cl_Meta = rb_ObjectMeta, cl_MetaUpdate = rb_ObjectMeta_update,
     cl_TypeMeta = rb_TypeMeta, cl_CoreKind = [], cl_Object = RRoleBinding,
     cl_Admit = srv_RoleBinding (e_Server env)\<rparr>"

definition ClusterRoles :: "Env \<Rightarrow> ClusterRole client" where
  "ClusterRoles env = \<lparr>cl_Kind = KClusterRole, cl_Store = c_ClusterRoles,
     cl_Put = c_ClusterRoles_update, cl_Meta = cro_ObjectMeta, cl_MetaUpdate = cro_ObjectMeta_update,
     cl_TypeMeta = cro_TypeMeta, cl_CoreKind = [], cl_Object = RClusterRole,
     cl_Admit = srv_ClusterRole (e_Server env)\<rparr>"

definition ClusterRoleBindings :: "Env \<Rightarrow> ClusterRoleBinding client" where
  "ClusterRoleBindings env = \<lparr>cl_Kind = KClusterRoleBinding, cl_Store = c_ClusterRoleBindings,
     cl_Put = c_ClusterRoleBindings_update, cl_Meta = crb_ObjectMeta,
     cl_MetaUpdate = crb_ObjectMeta_update, cl_TypeMeta = crb_TypeMeta, cl_CoreKind = [],
     cl_Object = RClusterRoleBinding, cl_Admit = srv_ClusterRoleBinding (e_Server env)\<rparr>"

definition MutatingWebhookConfigurations :: "Env \<Rightarrow> MutatingWebhookConfiguration client" where
  "MutatingWebhookConfigurations env = \<lparr>cl_Kind = KMutatingWebhook, cl_Store = c_MutatingWebhooks,
     cl_Put = c_MutatingWebhooks_update, cl_Meta = mwc_ObjectMeta,
     cl_MetaUpdate = mwc_ObjectMeta_update, cl_TypeMeta = mwc_TypeMeta, cl_CoreKind = [],
     cl_Object = RMutatingWebhook, cl_Admit = srv_MutatingWebhook (e_Server env)\<rparr>"

definition ValidatingWebhookConfigurations :: "Env \<Rightarrow> ValidatingWebhookConfiguration client" where
  "ValidatingWebhookConfigurations env = \<lparr>cl_Kind = KValidatingWebhook,
     cl_Store = c_ValidatingWebhooks, cl_Put = c_ValidatingWebhooks_update, cl_Meta = vwc_ObjectMeta,
     cl_MetaUpdate = vwc_ObjectMeta_update, cl_TypeMeta = vwc_TypeMeta, cl_CoreKind = [],
     cl_Object = RValidatingWebhook, cl_Admit = srv_ValidatingWebhook (e_Server env)\<rparr>"

definition NetworkPolicies :: "Env \<Rightarrow> NetworkPolicy client" where
  "NetworkPolicies env = \<lparr>cl_Kind = KNetworkPolicy, cl_Store = c_NetworkPolicies,
     cl_Put = c_NetworkPolicies_update, cl_Meta = np_ObjectMeta, cl_MetaUpdate = np_ObjectMeta_update,
     cl_TypeMeta = np_TypeMeta, cl_CoreKind = [], cl_Object = RNetworkPolicy,
     cl_Admit = srv_NetworkPolicy (e_Server env)\<rparr>"

definition PriorityLevelConfigurations :: "Env \<Rightarrow> PriorityLevelConfiguration client" where
  "PriorityLevelConfigurations env = \<lparr>cl_Kind = KPriorityLevel, cl_Store = c_PriorityLevels,
     cl_Put = c_PriorityLevels_update, cl_Meta = plc_ObjectMeta,
     cl_MetaUpdate = plc_ObjectMeta_update, cl_TypeMeta = plc_TypeMeta, cl_CoreKind = [],
     cl_Object = RPriorityLevel, cl_Admit = srv_PriorityLevel (e_Server env)\<rparr>"

definition FlowSchemas :: "Env \<Rightarrow> FlowSchema client" where
  "FlowSchemas env = \<lparr>cl_Kind = KFlowSchema, cl_Store = c_FlowSchemas,
     cl_Put = c_FlowSchemas_update, cl_Meta = fl_ObjectMeta, cl_MetaUpdate = fl_ObjectMeta_update,
     cl_TypeMeta = fl_TypeMeta, cl_CoreKind = [], cl_Object = RFlowSchema,
     cl_Admit = srv_FlowSchema (e_Server env)\<rparr>"

definition CustomResourceDefinitions :: "Env \<Rightarrow> CustomResourceDefinition client" where
  "CustomResourceDefinitions env = \<lparr>cl_Kind = KCRD, cl_Store = c_CRDs, cl_Put = c_CRDs_update,
     cl_Meta = crd_ObjectMeta, cl_MetaUpdate = crd_ObjectMeta_update, cl_TypeMeta = crd_TypeMeta,
     cl_CoreKind = [], cl_Object = RCRD, cl_Admit = srv_CRD (e_Server env)\<rparr>"

definition APIServices :: "Env \<Rightarrow> APIService client" where
  "APIServices env = \<lparr>cl_Kind = KAPIService, cl_Store = c_APIServices,
     cl_Put = c_APIServices_update, cl_Meta = as_ObjectMeta, cl_MetaUpdate = as_ObjectMeta_update,
     cl_TypeMeta = as_TypeMeta, cl_CoreKind = [], cl_Object = RAPIService,
     cl_Admit = srv_APIService (e_Server env)\<rparr>"

definition Deployments :: "Env \<Rightarrow> Deployment client" where
  "Deployments env = \<lparr>cl_Kind = KDeployment, cl_Store = c_Deployments,
     cl_Put = c_Deployments_update, cl_Meta = de_ObjectMeta, cl_MetaUpdate = de_ObjectMeta_update,
     cl_TypeMeta = de_TypeMeta, cl_CoreKind = [], cl_Object = RDeployment,
     cl_Admit = srv_Deployment (e_Server env)\<rparr>"

definition Issuers :: "Env \<Rightarrow> Unstructured client" where
  "Issuers env = \<lparr>cl_Kind = KIssuer, cl_Store = c_Issuers, cl_Put = c_Issuers_update,
     cl_Meta = unstructured_meta, cl_MetaUpdate = (\<lambda>f x. x), cl_TypeMeta = GetTypeMeta,
     cl_CoreKind = [], cl_Object = RIssuer, cl_Admit = srv_Unstructured (e_Server env)\<rparr>"

definition Certificates :: "Env \<Rightarrow> Unstructured client" where
  "Certificates env = \<lparr>cl_Kind = KCertificate, cl_Store = c_Certificates,
     cl_Put = c_Certificates_update, cl_Meta = unstructured_meta, cl_MetaUpdate = (\<lambda>f x. x),
     cl_TypeMeta = GetTypeMeta, cl_CoreKind = [], cl_Object = RCertificate,
     cl_Admit = srv_Unstructured (e_Server env)\<rparr>"

definition ServiceMonitors :: "Env \<Rightarrow> Unstructured client" where
  "ServiceMonitors env = \<lparr>cl_Kind = KServiceMonitor, cl_Store = c_ServiceMonitors,
     cl_Put = c_ServiceMonitors_update, cl_Meta = unstructured_meta, cl_MetaUpdate = (\<lambda>f x. x),
     cl_TypeMeta = GetTypeMeta, cl_CoreKind = [], cl_Object = RServiceMonitor,
     cl_Admit = srv_Unstructured (e_Server env)\<rparr>"

lemmas client_defs = ConfigMaps_def Secrets_def ServiceAccounts_def Services_def Roles_def
  RoleBindings_def ClusterRoles_def ClusterRoleBindings_def MutatingWebhookConfigurations_def
  ValidatingWebhookConfigurations_def NetworkPolicies_def PriorityLevelConfigurations_def
  FlowSchemas_def CustomResourceDefinitions_def APIServices_def Deployments_def Issuers_def
  Certificates_def ServiceMonitors_def

section \<open>Objects of any kind\<close>

fun rkind :: "robj \<Rightarrow> kind" where
  "rkind (RConfigMap x) = KConfigMap"
| "rkind (RSecret x) = KSecret"
| "rkind (RServiceAccount x) = KServiceAccount"
| "rkind (RService x) = KService"
| "rkind (RRole x) = KRole"
| "rkind (RRoleBinding x) = KRoleBinding"
| "rkind (RClusterRole x) = KClusterRole"
| "rkind (RClusterRoleBinding x) = KClusterRoleBinding"
| "rkind (RMutatingWebhook x) = KMutatingWebhook"
| "rkind (RValidatingWebhook x) = KValidatingWebhook"
| "rkind (RNetworkPolicy x) = KNetworkPolicy"
| "rkind (RPriorityLevel x) = KPriorityLevel"
| "rkind (RFlowSchema x) = KFlowSchema"
| "rkind (RCRD x) = KCRD"
| "rkind (RAPIService x) = KAPIService"
| "rkind (RDeployment x) = KDeployment"
| "rkind (RIssuer x) = KIssuer"
| "rkind (RCertificate x) = KCertificate"
| "rkind (RServiceMonitor x) = KServiceMonitor"

fun rmeta :: "robj \<Rightarrow> ObjectMeta" where
  "rmeta (RConfigMap x) = cm_ObjectMeta x"
| "rmeta (RSecret x) = unstructured_meta x"
| "rmeta (RServiceAccount x) = sa_ObjectMeta x"
| "rmeta (RService x) = sv_ObjectMeta x"
| "rmeta (RRole x) = ro_ObjectMeta x"
| "rmeta (RRoleBinding x) = rb_ObjectMeta x"
| "rmeta (RClusterRole x) = cro_ObjectMeta x"
| "rmeta (RClusterRoleBinding x) = crb_ObjectMeta x"
| "rmeta (RMutatingWebhook x) = mwc_ObjectMeta x"
| "rmeta (RValidatingWebhook x) = vwc_ObjectMeta x"
| "rmeta (RNetworkPolicy x) = np_ObjectMeta x"
| "rmeta (RPriorityLevel x) = plc_ObjectMeta x"
| "rmeta (RFlowSchema x) = fl_ObjectMeta x"
| "rmeta (RCRD x) = crd_ObjectMeta x"
| "rmeta (RAPIService x) = as_ObjectMeta x"
| "rmeta (RDeployment x) = de_ObjectMeta x"
| "rmeta (RIssuer x) = unstructured_meta x"
| "rmeta (RCertificate x) = unstructured_meta x"
| "rmeta (RServiceMonitor x) = unstructured_meta x"

section \<open>Which requests a program makes\<close>

text \<open>\<open>sends P m\<close>: every request that \<open>m\<close> makes, whatever happens to it, satisfies \<open>P\<close>, and requests
  are only added to the trace.\<close>
definition trace_ext :: "(call \<Rightarrow> bool) \<Rightarrow> call list \<Rightarrow> World \<Rightarrow> bool" where
  "trace_ext P tr w \<longleftrightarrow> (\<exists>cs. w_Trace w = tr @ cs \<and> list_all P cs)"

definition sends :: "(call \<Rightarrow> bool) \<Rightarrow> (World, 'a) go \<Rightarrow> bool" where
  "sends P m \<longleftrightarrow> (\<forall>tr. go_keeps (trace_ext P tr) m)"

named_theorems sends_rules \<open>rules that reduce \<^term>\<open>sends\<close> of a program to its parts\<close>

lemma sendsD: "sends P m \<Longrightarrow> m w = (r, w') \<Longrightarrow> \<exists>cs. w_Trace w' = w_Trace w @ cs \<and> list_all P cs"
  using go_keeps_snd[of "trace_ext P (w_Trace w)" m w]
  by (fastforce simp: sends_def trace_ext_def)

lemma sends_weaken: "sends P m \<Longrightarrow> (\<And>c. P c \<Longrightarrow> Q c) \<Longrightarrow> sends Q m"
proof -
  assume m: "sends P m" and PQ: "\<And>c. P c \<Longrightarrow> Q c"
  have "\<exists>cs. w_Trace (snd (m w)) = w_Trace w @ cs \<and> list_all Q cs" for w
    using sendsD[OF m, of w "fst (m w)" "snd (m w)"] PQ by (auto simp: list_all_iff)
  then have "trace_ext Q tr (snd (m w))" if "trace_ext Q tr w" for tr w
    using that unfolding trace_ext_def by (metis append_assoc list_all_append)
  then show ?thesis unfolding sends_def by (intro allI go_keepsI)
qed

lemma sends_step:
  assumes "\<And>w. \<exists>cs. w_Trace (snd (m w)) = w_Trace w @ cs \<and> list_all P cs"
  shows "sends P m"
proof -
  have "trace_ext P tr (snd (m w))" if "trace_ext P tr w" for tr w
    using that assms[of w] unfolding trace_ext_def by (metis append_assoc list_all_append)
  then show ?thesis unfolding sends_def by (intro allI go_keepsI)
qed

lemma sends_return [sends_rules]: "sends P (go_return x)"
  by (simp add: sends_def go_return_keeps)
lemma sends_throw [sends_rules]: "sends P (go_throw e)"
  by (simp add: sends_def go_throw_keeps)
lemma sends_read [sends_rules]: "sends P (go_read f)"
  by (simp add: sends_def go_read_keeps)
lemma sends_lift [sends_rules]: "sends P (go_lift r)"
  by (simp add: sends_def go_lift_keeps)
lemma sends_modify [sends_rules]: "(\<And>w. w_Trace (f w) = w_Trace w) \<Longrightarrow> sends P (go_modify f)"
  by (rule sends_step) (simp add: go_modify_def)
lemma sends_bind [sends_rules]: "sends P m \<Longrightarrow> (\<And>x. sends P (f x)) \<Longrightarrow> sends P (go_bind m f)"
  by (simp add: sends_def go_bind_keeps)
lemma sends_seq [sends_rules]: "sends P m \<Longrightarrow> sends P n \<Longrightarrow> sends P (go_seq m n)"
  by (simp add: sends_def go_seq_keeps)
lemma sends_try [sends_rules]: "sends P m \<Longrightarrow> sends P (go_try m)"
  by (simp add: sends_def go_try_keeps)
lemma sends_when [sends_rules]: "(b \<Longrightarrow> sends P m) \<Longrightarrow> sends P (go_when b m)"
  by (simp add: sends_def go_when_keeps)
lemma sends_if [sends_rules]:
  "(b \<Longrightarrow> sends P m) \<Longrightarrow> (\<not> b \<Longrightarrow> sends P n) \<Longrightarrow> sends P (if b then m else n)"
  by simp
lemma sends_option [sends_rules]:
  "(x = None \<Longrightarrow> sends P m) \<Longrightarrow> (\<And>y. x = Some y \<Longrightarrow> sends P (n y)) \<Longrightarrow>
   sends P (case x of None \<Rightarrow> m | Some y \<Rightarrow> n y)"
  by (cases x) auto
lemma sends_sum [sends_rules]:
  "(\<And>e. x = Inl e \<Longrightarrow> sends P (m e)) \<Longrightarrow> (\<And>y. x = Inr y \<Longrightarrow> sends P (n y)) \<Longrightarrow>
   sends P (case x of Inl e \<Rightarrow> m e | Inr y \<Rightarrow> n y)"
  by (cases x) auto
lemma sends_prod [sends_rules]:
  "(\<And>a b. x = (a, b) \<Longrightarrow> sends P (m a b)) \<Longrightarrow> sends P (case x of (a, b) \<Rightarrow> m a b)"
  by (cases x) auto
lemma sends_list [sends_rules]:
  "(x = [] \<Longrightarrow> sends P m) \<Longrightarrow> (\<And>y ys. x = y # ys \<Longrightarrow> sends P (n y ys)) \<Longrightarrow>
   sends P (case x of [] \<Rightarrow> m | y # ys \<Rightarrow> n y ys)"
  by (cases x) auto
lemma sends_foldM [sends_rules]:
  "(\<And>acc x. x \<in> set xs \<Longrightarrow> sends P (f acc x)) \<Longrightarrow> sends P (go_foldM f xs acc)"
  by (simp add: sends_def go_foldM_keeps)
lemma sends_foreach [sends_rules]:
  "(\<And>x. x \<in> set xs \<Longrightarrow> sends P (f x)) \<Longrightarrow> sends P (go_foreach f xs)"
  by (simp add: sends_def go_foreach_keeps)
lemma sends_collect [sends_rules]:
  "(\<And>x. x \<in> set xs \<Longrightarrow> sends P (f x)) \<Longrightarrow> sends P (go_collect f xs)"
  by (simp add: sends_def go_collect_keeps)
lemma sends_aggregate [sends_rules]: "sends P (return_aggregate es)"
  by (simp add: sends_def return_aggregate_keeps)
lemma sends_retry [sends_rules]: "sends P m \<Longrightarrow> sends P (retry_OnError n r m)"
  by (simp add: sends_def retry_OnError_keeps)
lemma sends_conflict [sends_rules]: "sends P m \<Longrightarrow> sends P (RetryOnConflict n m)"
  by (simp add: sends_def RetryOnConflict_keeps)
lemma sends_Eventf [sends_rules]: "sends P (Eventf r)"
  unfolding Eventf_def by (rule sends_modify) simp
lemma sends_ReportCreate [sends_rules]: "sends P (ReportCreateEvent k r)"
  unfolding ReportCreateEvent_def by (rule sends_Eventf)
lemma sends_ReportUpdate [sends_rules]: "sends P (ReportUpdateEvent k r)"
  unfolding ReportUpdateEvent_def by (rule sends_Eventf)
lemma sends_lister [sends_rules]: "sends P (lister_Get env cl ns n)"
  unfolding lister_Get_def by (rule sends_step) simp
lemma sends_UpdateCached [sends_rules]: "sends P (UpdateCachedResourceMetadata env cl r a)"
  unfolding UpdateCachedResourceMetadata_def by (intro sends_rules) simp
lemma sends_SafeToSkip [sends_rules]: "sends P (SafeToSkipApply env cl r a)"
  unfolding SafeToSkipApply_def by (rule sends_read)

lemma api_call_trace: "w_Trace (snd (api_call env c f w)) = w_Trace w @ [c]"
  by (auto simp: api_call_def before_call_def Let_def split: option.splits prod.splits sum.splits)

lemma sends_api_call: "P c \<Longrightarrow> sends P (api_call env c f)"
  by (rule sends_step) (simp add: api_call_trace)

lemma sends_Get [sends_rules]: "P (Get (cl_Kind cl) ns n) \<Longrightarrow> sends P (api_Get env cl ns n)"
  unfolding api_Get_def by (rule sends_api_call)
lemma sends_List [sends_rules]: "P (ListAll (cl_Kind cl) ns) \<Longrightarrow> sends P (api_List env cl ns)"
  unfolding api_List_def by (rule sends_api_call)
lemma sends_Create [sends_rules]: "P (Create (cl_Object cl x)) \<Longrightarrow> sends P (api_Create env cl ns x)"
  unfolding api_Create_def by (rule sends_api_call)
lemma sends_Update [sends_rules]: "P (Update (cl_Object cl x)) \<Longrightarrow> sends P (api_Update env cl ns x)"
  unfolding api_Update_def by (rule sends_api_call)
lemma sends_Delete [sends_rules]: "P (Delete (cl_Kind cl) ns n) \<Longrightarrow> sends P (api_Delete env cl ns n)"
  unfolding api_Delete_def by (rule sends_api_call)

text \<open>A request never panics.\<close>
lemma api_call_not_panic: "api_call env c f w = (Inl e, w') \<Longrightarrow> \<not> is_panic e"
  by (auto simp: api_call_def Let_def split: option.splits prod.splits sum.splits)

text \<open>A lister answers from the informer and changes nothing.\<close>
lemma lister_run: "lister_Get env cl ns name w = ((case e_ListerFault env (w_Calls w) of
     Some (r, m) \<Rightarrow> Inl (ApiError r m)
   | None \<Rightarrow> (case map_of (cl_Store cl (e_Informer env (w_Calls w))) (ns, name) of
       None \<Rightarrow> Inl (ApiError NotFound name) | Some x \<Rightarrow> Inr x)), w)"
  by (simp add: lister_Get_def)

lemma api_call_shape:
  "\<exists>r w'. api_call env c f w = (r, w') \<and> \<not> (\<exists>e. r = Inl e \<and> is_panic e) \<and>
     w_Trace w' = w_Trace w @ [c]"
  using api_call_trace[of env c f w] api_call_not_panic[of env c f w]
  by (cases "api_call env c f w") auto

section \<open>Laws of a client\<close>

locale api_store =
  fixes cl :: "'o client"
  assumes store_put: "cl_Store cl (cl_Put cl f c) = f (cl_Store cl c)"
    and object_kind: "rkind (cl_Object cl x) = cl_Kind cl"
    and object_meta: "rmeta (cl_Object cl x) = cl_Meta cl x"
begin

lemma get_ok:
  "api_Get env cl ns name w = (Inr x, w') \<Longrightarrow>
   map_of (cl_Store cl (w_Cluster w')) (ns, name) = Some x"
  by (auto simp: api_Get_def api_call_def before_call_def Let_def
      split: option.splits prod.splits sum.splits)

lemma create_ok:
  "api_Create env cl ns x w = (Inr y, w') \<Longrightarrow>
   y = cl_Admit cl (w_Calls w) x \<and>
   map_of (cl_Store cl (w_Cluster w')) (ns, obj_name cl x) = Some y"
  by (auto simp: api_Create_def api_call_def before_call_def Let_def store_put AList.update_conv'
      split: option.splits prod.splits sum.splits)

lemma update_ok:
  "api_Update env cl ns x w = (Inr y, w') \<Longrightarrow>
   y = cl_Admit cl (w_Calls w) x \<and>
   map_of (cl_Store cl (w_Cluster w')) (ns, obj_name cl x) = Some y"
  by (auto simp: api_Update_def api_call_def before_call_def Let_def store_put AList.update_conv'
      split: option.splits prod.splits sum.splits if_splits)

lemma delete_ok:
  "api_Delete env cl ns name w = (Inr u, w') \<Longrightarrow>
   map_of (cl_Store cl (w_Cluster w')) (ns, name) = None"
  by (auto simp: api_Delete_def api_call_def before_call_def Let_def store_put AList.delete_conv'
      split: option.splits prod.splits sum.splits)

text \<open>Where nothing fails and nobody interferes, a request answers from the cluster as it is.\<close>
lemma get_quiet:
  assumes "e_Fault env (w_Calls w) = None"
    and "e_Interfere env (w_Calls w) (w_Cluster w) = w_Cluster w"
  shows "api_Get env cl ns name w =
    ((case map_of (cl_Store cl (w_Cluster w)) (ns, name) of
        None \<Rightarrow> Inl (ApiError NotFound name) | Some x \<Rightarrow> Inr x),
     before_call env (Get (cl_Kind cl) ns name) w)"
  using assms by (auto simp: api_Get_def api_call_def before_call_def Let_def split: option.splits)

end

locale typed_client = api_store +
  assumes meta_update: "cl_Meta cl (cl_MetaUpdate cl f x) = f (cl_Meta cl x)"

interpretation secrets: api_store "Secrets env" for env
  by unfold_locales (simp_all add: Secrets_def)
interpretation issuers: api_store "Issuers env" for env
  by unfold_locales (simp_all add: Issuers_def)
interpretation certificates: api_store "Certificates env" for env
  by unfold_locales (simp_all add: Certificates_def)
interpretation service_monitors: api_store "ServiceMonitors env" for env
  by unfold_locales (simp_all add: ServiceMonitors_def)
interpretation config_maps: typed_client "ConfigMaps env" for env
  by unfold_locales (simp_all add: ConfigMaps_def)
interpretation service_accounts: typed_client "ServiceAccounts env" for env
  by unfold_locales (simp_all add: ServiceAccounts_def)
interpretation services: typed_client "Services env" for env
  by unfold_locales (simp_all add: Services_def)
interpretation roles: typed_client "Roles env" for env
  by unfold_locales (simp_all add: Roles_def)
interpretation role_bindings: typed_client "RoleBindings env" for env
  by unfold_locales (simp_all add: RoleBindings_def)
interpretation cluster_roles: typed_client "ClusterRoles env" for env
  by unfold_locales (simp_all add: ClusterRoles_def)
interpretation cluster_role_bindings: typed_client "ClusterRoleBindings env" for env
  by unfold_locales (simp_all add: ClusterRoleBindings_def)
interpretation mutating_webhooks: typed_client "MutatingWebhookConfigurations env" for env
  by unfold_locales (simp_all add: MutatingWebhookConfigurations_def)
interpretation validating_webhooks: typed_client "ValidatingWebhookConfigurations env" for env
  by unfold_locales (simp_all add: ValidatingWebhookConfigurations_def)
interpretation network_policies: typed_client "NetworkPolicies env" for env
  by unfold_locales (simp_all add: NetworkPolicies_def)
interpretation priority_levels: typed_client "PriorityLevelConfigurations env" for env
  by unfold_locales (simp_all add: PriorityLevelConfigurations_def)
interpretation flow_schemas: typed_client "FlowSchemas env" for env
  by unfold_locales (simp_all add: FlowSchemas_def)
interpretation crds: typed_client "CustomResourceDefinitions env" for env
  by unfold_locales (simp_all add: CustomResourceDefinitions_def)
interpretation api_services: typed_client "APIServices env" for env
  by unfold_locales (simp_all add: APIServices_def)
interpretation deployments: typed_client "Deployments env" for env
  by unfold_locales (simp_all add: Deployments_def)

section \<open>What the resource cache promises\<close>

text \<open>An apply is skipped only if the same manifest was recorded for the same object at the version
  that is seen now.\<close>
lemma safe_to_skip_after_update:
  "getResourceMetadata env cl required = Some (key, hash) \<Longrightarrow> obj_version cl actual \<noteq> [] \<Longrightarrow>
   UpdateCachedResourceMetadata env cl required actual w = (Inr (), w') \<Longrightarrow>
   obj_version cl existing = obj_version cl actual \<Longrightarrow>
   safe_to_skip (w_Cache w') env cl required existing"
  by (auto simp: UpdateCachedResourceMetadata_def getResourceVersion_def safe_to_skip_def
      go_modify_def)

lemma safe_to_skipD:
  "safe_to_skip cache env cl required existing \<Longrightarrow>
   \<exists>key hash. getResourceMetadata env cl required = Some (key, hash) \<and>
     cache key = Some (hash, obj_version cl existing) \<and> obj_version cl existing \<noteq> []"
  by (auto simp: safe_to_skip_def getResourceVersion_def split: option.splits if_splits)

section \<open>A calm environment\<close>

text \<open>For concrete runs: nothing fails, nobody interferes, the informers show the given cluster, the
  server stores what it is sent, discovery finds no resources and there are no assets.\<close>
definition empty_cluster :: Cluster where
  "empty_cluster = \<lparr>c_ConfigMaps = [], c_Secrets = [], c_ServiceAccounts = [], c_Services = [],
     c_Roles = [], c_RoleBindings = [], c_ClusterRoles = [], c_ClusterRoleBindings = [],
     c_MutatingWebhooks = [], c_ValidatingWebhooks = [], c_NetworkPolicies = [],
     c_PriorityLevels = [], c_FlowSchemas = [], c_CRDs = [], c_APIServices = [],
     c_Deployments = [], c_Issuers = [], c_Certificates = [], c_ServiceMonitors = [],
     c_Kueues = []\<rparr>"

definition identity_server :: Server where
  "identity_server = \<lparr>srv_ConfigMap = (\<lambda>n x. x), srv_ServiceAccount = (\<lambda>n x. x),
     srv_Service = (\<lambda>n x. x), srv_Role = (\<lambda>n x. x), srv_RoleBinding = (\<lambda>n x. x),
     srv_ClusterRole = (\<lambda>n x. x), srv_ClusterRoleBinding = (\<lambda>n x. x),
     srv_MutatingWebhook = (\<lambda>n x. x), srv_ValidatingWebhook = (\<lambda>n x. x),
     srv_NetworkPolicy = (\<lambda>n x. x), srv_PriorityLevel = (\<lambda>n x. x), srv_FlowSchema = (\<lambda>n x. x),
     srv_CRD = (\<lambda>n x. x), srv_APIService = (\<lambda>n x. x), srv_Deployment = (\<lambda>n x. x),
     srv_Unstructured = (\<lambda>n x. x), srv_Kueue = (\<lambda>n x. x)\<rparr>"

definition no_assets :: Assets where
  "no_assets = \<lparr>a_Dir = (\<lambda>d. Inr []), a_ServiceAccount = Map.empty, a_Service = Map.empty,
     a_Role = Map.empty, a_RoleBinding = Map.empty, a_ClusterRole = Map.empty,
     a_ClusterRoleBinding = Map.empty, a_MutatingWebhook = Map.empty,
     a_ValidatingWebhook = Map.empty, a_NetworkPolicy = Map.empty, a_PriorityLevel = Map.empty,
     a_FlowSchema = Map.empty, a_CRD = Map.empty, a_APIService = Map.empty,
     a_Deployment = Map.empty\<rparr>"

definition calm_env :: "Cluster \<Rightarrow> Env" where
  "calm_env c = \<lparr>e_Fault = (\<lambda>n. None), e_Interfere = (\<lambda>n x. x), e_Informer = (\<lambda>n. c),
     e_ListerFault = (\<lambda>n. None), e_KueueInformer = (\<lambda>n. CacheAbsent),
     e_Discovery = (\<lambda>n gv. Inr []), e_ServerMinor = (\<lambda>n. Inr ''36''),
     e_FeatureGate = (\<lambda>n. Inr \<lparr>fg_FeatureSet = [], fg_CustomNoUpgrade = None\<rparr>),
     e_APIServer = (\<lambda>n. Inr None), e_OperatorConfig = (\<lambda>n name. None),
     e_ExtractKueueStatus = (\<lambda>k. Inr None), e_Server = identity_server, e_Assets = no_assets, e_Marshal = (\<lambda>h. Inr []),
     e_Sha256 = (\<lambda>s. s), e_StructHash = (\<lambda>x. []), e_YamlMarshal = (\<lambda>c. Inr []),
     e_ParseFloat = (\<lambda>s. Inr 0), e_MetaFromUnstructured = (\<lambda>m. Inr empty_meta),
     e_MetaToUnstructured = (\<lambda>m. Inr Map.empty), e_RequestTime = (\<lambda>n. 0),
     e_OperatorNamespace = ''openshift-kueue-operator'', e_KueueImage = ''kueue:latest'',
     e_ServiceMonitorSupport = False, e_IsOpenShift = True\<rparr>"

definition initial_world :: "Cluster \<Rightarrow> World" where
  "initial_world c = \<lparr>w_Cluster = c, w_Calls = 0, w_Trace = [], w_Events = [],
     w_Cache = Map.empty, w_draPartitionableDevicesEnabled = False,
     w_draConsumableCapacityEnabled = False, w_Now = 0\<rparr>"

lemma calm_env_simps [simp]:
  "e_Fault (calm_env c) n = None" "e_Interfere (calm_env c) n x = x" "e_Informer (calm_env c) n = c"
  "e_ListerFault (calm_env c) n = None" "e_KueueInformer (calm_env c) n = CacheAbsent"
  "e_Discovery (calm_env c) n gv = Inr []" "e_ServerMinor (calm_env c) n = Inr ''36''"
  "e_FeatureGate (calm_env c) n = Inr \<lparr>fg_FeatureSet = [], fg_CustomNoUpgrade = None\<rparr>"
  "e_APIServer (calm_env c) n = Inr None" "e_OperatorConfig (calm_env c) n name = None"
  "e_ExtractKueueStatus (calm_env c) k = Inr None"
  "e_Server (calm_env c) = identity_server" "e_Assets (calm_env c) = no_assets"
  "e_Marshal (calm_env c) h = Inr []" "e_Sha256 (calm_env c) s = s" "e_StructHash (calm_env c) o' = []"
  "e_RequestTime (calm_env c) n = 0"
  "e_OperatorNamespace (calm_env c) = ''openshift-kueue-operator''"
  "e_ServiceMonitorSupport (calm_env c) = False" "e_IsOpenShift (calm_env c) = True"
  by (simp_all add: calm_env_def)

lemma initial_world_simps [simp]:
  "w_Cluster (initial_world c) = c" "w_Calls (initial_world c) = 0" "w_Trace (initial_world c) = []"
  "w_Events (initial_world c) = []" "w_Cache (initial_world c) = Map.empty"
  "w_draPartitionableDevicesEnabled (initial_world c) = False"
  "w_draConsumableCapacityEnabled (initial_world c) = False" "w_Now (initial_world c) = 0"
  by (simp_all add: initial_world_def)

end
