(* ===== verification/Resource_Apply.thy ===== *)
theory Resource_Apply
  imports Kube_Client
begin

text \<open>
  Applying objects: \<^verbatim>\<open>pkg/util/resourceapply\<close> of the operator and the functions of library-go's
  \<^verbatim>\<open>resourceapply\<close> package that it calls. They share one shape: get the object; create it when it is
  not there; otherwise merge what is required into it and update it when the merge changed
  something. The shape is written once (\<open>apply_object\<close>, and \<open>apply_object_cached\<close> with the resource
  cache), each function is it with its own merge; the locale \<open>apply_kind\<close> states what a merge has to
  satisfy for an apply to converge.
\<close>

section \<open>Hashes\<close>

text \<open>\<^verbatim>\<open>computeSpecHash\<close> of the reconciler: JSON, SHA-256, hexadecimal.\<close>
definition computeSpecHash :: "Env \<Rightarrow> hashable \<Rightarrow> err + string" where
  "computeSpecHash env obj = (case e_Marshal env obj of
     Inl e \<Rightarrow> Inl e | Inr jsonBytes \<Rightarrow> Inr (e_Sha256 env jsonBytes))"

abbreviation specHashAnnotation :: string where
  "specHashAnnotation \<equiv> ''operator.openshift.io/spec-hash''"

definition SetSpecHashAnnotation :: "Env \<Rightarrow> ObjectMeta \<Rightarrow> hashable \<Rightarrow> err + ObjectMeta" where
  "SetSpecHashAnnotation env objMeta spec = (case e_Marshal env spec of
     Inl e \<Rightarrow> Inl e
   | Inr jsonBytes \<Rightarrow> Inr (objMeta\<lparr>om_Annotations :=
       AList.update specHashAnnotation (e_Sha256 env jsonBytes) (om_Annotations objMeta)\<rparr>))"

section \<open>The shape of an apply\<close>

definition create_and_report ::
  "Env \<Rightarrow> 'o client \<Rightarrow> string \<Rightarrow> 'o \<Rightarrow> bool \<Rightarrow> (World, 'o \<times> bool) go" where
  "create_and_report env cl ns x changed =
     go_bind (go_try (api_Create env cl ns x)) (\<lambda>r.
       go_seq (ReportCreateEvent (cl_Kind cl) r)
         (case r of Inl e \<Rightarrow> go_throw e | Inr actual \<Rightarrow> go_return (actual, changed)))"

definition update_and_report :: "Env \<Rightarrow> 'o client \<Rightarrow> string \<Rightarrow> 'o \<Rightarrow> (World, 'o \<times> bool) go" where
  "update_and_report env cl ns x =
     go_bind (go_try (api_Update env cl ns x)) (\<lambda>r.
       go_seq (ReportUpdateEvent (cl_Kind cl) r)
         (case r of Inl e \<Rightarrow> go_throw e | Inr actual \<Rightarrow> go_return (actual, True)))"

text \<open>\<open>merge existing\<close> is whether an update is needed and the object to write (or to return).\<close>
definition apply_object ::
  "Env \<Rightarrow> 'o client \<Rightarrow> string \<Rightarrow> string \<Rightarrow> 'o \<Rightarrow> bool \<Rightarrow> ('o \<Rightarrow> bool \<times> 'o) \<Rightarrow> (World, 'o \<times> bool) go" where
  "apply_object env cl ns name toCreate createdIsChange merge =
     go_bind (go_try (api_Get env cl ns name)) (\<lambda>r. case r of
        Inl err \<Rightarrow> if IsNotFound err then create_and_report env cl ns toCreate createdIsChange
                  else go_throw err
      | Inr existing \<Rightarrow> (case merge existing of (modified, toWrite) \<Rightarrow>
          if \<not> modified then go_return (toWrite, False)
          else update_and_report env cl ns toWrite))"

definition remember :: "Env \<Rightarrow> 'o client \<Rightarrow> 'o \<Rightarrow> (World, 'o \<times> bool) go \<Rightarrow> (World, 'o \<times> bool) go" where
  "remember env cl required m =
     go_bind m (\<lambda>r. go_seq (UpdateCachedResourceMetadata env cl required (fst r)) (go_return r))"

text \<open>With the cache: what was applied before and has not changed since is left alone. A failed
  request leaves an object without a resource version, which is not remembered.\<close>
definition apply_object_cached ::
  "Env \<Rightarrow> 'o client \<Rightarrow> string \<Rightarrow> string \<Rightarrow> 'o \<Rightarrow> 'o \<Rightarrow> ('o \<Rightarrow> bool \<times> 'o) \<Rightarrow> (World, 'o \<times> bool) go" where
  "apply_object_cached env cl ns name required toCreate merge =
     go_bind (go_try (api_Get env cl ns name)) (\<lambda>r. case r of
        Inl err \<Rightarrow> if IsNotFound err
                  then remember env cl required (create_and_report env cl ns toCreate True)
                  else go_throw err
      | Inr existing \<Rightarrow> go_bind (SafeToSkipApply env cl required existing) (\<lambda>skip.
          if skip then go_return (existing, False)
          else (case merge existing of (modified, toWrite) \<Rightarrow>
            remember env cl required
              (if \<not> modified then go_return (toWrite, False)
               else update_and_report env cl ns toWrite))))"

definition clean :: "'o client \<Rightarrow> 'o \<Rightarrow> 'o" where
  "clean cl x = cl_MetaUpdate cl WithCleanLabelsAndAnnotations x"

section \<open>RBAC\<close>

definition merge_ClusterRole :: "ClusterRole \<Rightarrow> ClusterRole \<Rightarrow> bool \<times> ClusterRole" where
  "merge_ClusterRole required existing =
     (let (modified, meta) =
            EnsureObjectMeta False (cro_ObjectMeta existing) (cro_ObjectMeta required);
          existingCopy = existing\<lparr>cro_ObjectMeta := meta\<rparr>;
          rulesContentSame = (cro_Rules existing = cro_Rules required);
          aggregationRuleContentSame =
            (cro_AggregationRule existing = cro_AggregationRule required)
      in if aggregationRuleContentSame \<and> rulesContentSame \<and> \<not> modified then (False, existingCopy)
         else (True, existingCopy\<lparr>
           cro_AggregationRule := cro_AggregationRule required,
           cro_Rules := (if \<not> rulesContentSame \<and> cro_AggregationRule required = None
                         then cro_Rules required else cro_Rules existing)\<rparr>))"

definition ApplyClusterRole :: "Env \<Rightarrow> ClusterRole \<Rightarrow> (World, ClusterRole \<times> bool) go" where
  "ApplyClusterRole env required =
     apply_object env (ClusterRoles env) [] (om_Name (cro_ObjectMeta required))
       (clean (ClusterRoles env) required) True (merge_ClusterRole required)"

definition enforce_api_group :: "Subject list \<Rightarrow> Subject list" where
  "enforce_api_group subjects =
     map (\<lambda>s. if su_Kind s = ''User'' then s\<lparr>su_APIGroup := ''rbac.authorization.k8s.io''\<rparr> else s)
       subjects"

definition enforce_role_ref :: "RoleRef \<Rightarrow> RoleRef" where
  "enforce_role_ref r = r\<lparr>rr_APIGroup := ''rbac.authorization.k8s.io''\<rparr>"

definition merge_ClusterRoleBinding ::
  "ClusterRoleBinding \<Rightarrow> ClusterRoleBinding \<Rightarrow> bool \<times> ClusterRoleBinding" where
  "merge_ClusterRoleBinding required existing =
     (let existingCopy = existing\<lparr>crb_RoleRef := enforce_role_ref (crb_RoleRef existing),
            crb_Subjects := enforce_api_group (crb_Subjects existing)\<rparr>;
          requiredCopy = required\<lparr>crb_RoleRef := enforce_role_ref (crb_RoleRef required),
            crb_Subjects := enforce_api_group (crb_Subjects required)\<rparr>;
          (modified, meta) =
            EnsureObjectMeta False (crb_ObjectMeta existing) (crb_ObjectMeta required)
      in if crb_Subjects existingCopy = crb_Subjects requiredCopy \<and>
            crb_RoleRef existingCopy = crb_RoleRef requiredCopy \<and> \<not> modified
         then (False, existingCopy\<lparr>crb_ObjectMeta := meta\<rparr>)
         else (True, existingCopy\<lparr>crb_ObjectMeta := meta,
                crb_Subjects := crb_Subjects requiredCopy, crb_RoleRef := crb_RoleRef requiredCopy\<rparr>))"

definition ApplyClusterRoleBinding ::
  "Env \<Rightarrow> ClusterRoleBinding \<Rightarrow> (World, ClusterRoleBinding \<times> bool) go" where
  "ApplyClusterRoleBinding env required =
     apply_object env (ClusterRoleBindings env) [] (om_Name (crb_ObjectMeta required))
       (clean (ClusterRoleBindings env) required) True (merge_ClusterRoleBinding required)"

definition merge_Role :: "Role \<Rightarrow> Role \<Rightarrow> bool \<times> Role" where
  "merge_Role required existing =
     (let (modified, meta) = EnsureObjectMeta False (ro_ObjectMeta existing) (ro_ObjectMeta required);
          existingCopy = existing\<lparr>ro_ObjectMeta := meta\<rparr>
      in if ro_Rules existing = ro_Rules required \<and> \<not> modified then (False, existingCopy)
         else (True, existingCopy\<lparr>ro_Rules := ro_Rules required\<rparr>))"

definition ApplyRole :: "Env \<Rightarrow> Role \<Rightarrow> (World, Role \<times> bool) go" where
  "ApplyRole env required =
     apply_object env (Roles env) (om_Namespace (ro_ObjectMeta required))
       (om_Name (ro_ObjectMeta required)) (clean (Roles env) required) True (merge_Role required)"

definition merge_RoleBinding :: "RoleBinding \<Rightarrow> RoleBinding \<Rightarrow> bool \<times> RoleBinding" where
  "merge_RoleBinding required existing =
     (let existingCopy = existing\<lparr>rb_RoleRef := enforce_role_ref (rb_RoleRef existing),
            rb_Subjects := enforce_api_group (rb_Subjects existing)\<rparr>;
          requiredCopy = required\<lparr>rb_RoleRef := enforce_role_ref (rb_RoleRef required),
            rb_Subjects := enforce_api_group (rb_Subjects required)\<rparr>;
          (modified, meta) = EnsureObjectMeta False (rb_ObjectMeta existing) (rb_ObjectMeta required)
      in if rb_Subjects existingCopy = rb_Subjects requiredCopy \<and>
            rb_RoleRef existingCopy = rb_RoleRef requiredCopy \<and> \<not> modified
         then (False, existingCopy\<lparr>rb_ObjectMeta := meta\<rparr>)
         else (True, existingCopy\<lparr>rb_ObjectMeta := meta,
                rb_Subjects := rb_Subjects requiredCopy, rb_RoleRef := rb_RoleRef requiredCopy\<rparr>))"

definition ApplyRoleBinding :: "Env \<Rightarrow> RoleBinding \<Rightarrow> (World, RoleBinding \<times> bool) go" where
  "ApplyRoleBinding env required =
     apply_object env (RoleBindings env) (om_Namespace (rb_ObjectMeta required))
       (om_Name (rb_ObjectMeta required)) (clean (RoleBindings env) required) True
       (merge_RoleBinding required)"

section \<open>Core\<close>

definition merge_ServiceAccount :: "ServiceAccount \<Rightarrow> ServiceAccount \<Rightarrow> bool \<times> ServiceAccount" where
  "merge_ServiceAccount required existing =
     (let (modified, meta) = EnsureObjectMeta False (sa_ObjectMeta existing) (sa_ObjectMeta required)
      in (modified, existing\<lparr>sa_ObjectMeta := meta\<rparr>))"

definition ApplyServiceAccountImproved ::
  "Env \<Rightarrow> ServiceAccount \<Rightarrow> (World, ServiceAccount \<times> bool) go" where
  "ApplyServiceAccountImproved env required =
     apply_object_cached env (ServiceAccounts env) (om_Namespace (sa_ObjectMeta required))
       (om_Name (sa_ObjectMeta required)) required (clean (ServiceAccounts env) required)
       (merge_ServiceAccount required)"

definition merge_Service :: "Service \<Rightarrow> Service \<Rightarrow> bool \<times> Service" where
  "merge_Service required existing =
     (let (modified, meta) = EnsureObjectMeta False (sv_ObjectMeta existing) (sv_ObjectMeta required);
          existingCopy = existing\<lparr>sv_ObjectMeta := meta\<rparr>;
          selectorSame = (svs_Selector (sv_Spec existing) = svs_Selector (sv_Spec required));
          requiredIsEmpty = (svs_Type (sv_Spec required) = []);
          existingCopyIsCluster = (svs_Type (sv_Spec existing) = ''ClusterIP'');
          typeSame = (requiredIsEmpty \<and> existingCopyIsCluster \<or>
                      svs_Type (sv_Spec existing) = svs_Type (sv_Spec required))
      in if selectorSame \<and> typeSame \<and> \<not> modified then (False, existingCopy)
         else (True, existingCopy\<lparr>sv_Spec := sv_Spec required\<rparr>))"

definition ApplyServiceImproved :: "Env \<Rightarrow> Service \<Rightarrow> (World, Service \<times> bool) go" where
  "ApplyServiceImproved env requiredOriginal =
     go_bind (go_lift (SetSpecHashAnnotation env (sv_ObjectMeta requiredOriginal)
                         (HService (sv_Spec requiredOriginal)))) (\<lambda>meta.
       let required = requiredOriginal\<lparr>sv_ObjectMeta := meta\<rparr> in
       apply_object_cached env (Services env) (om_Namespace (sv_ObjectMeta required))
         (om_Name (sv_ObjectMeta required)) required (clean (Services env) required)
         (merge_Service required))"

text \<open>The keys of \<^verbatim>\<open>modifiedKeys\<close>: entries of the existing map that differ, and required keys that
  are missing.\<close>
definition data_modified ::
  "(string \<Rightarrow> bool) \<Rightarrow> (string, string) gomap \<Rightarrow> (string, string) gomap \<Rightarrow> bool" where
  "data_modified ignored existing required =
     (list_ex (\<lambda>(k, v). \<not> ignored k \<and> map_of required k \<noteq> Some v) existing \<or>
      list_ex (\<lambda>(k, v). map_of existing k = None) required)"

abbreviation caBundleKey :: string where "caBundleKey \<equiv> ''ca-bundle.crt''"
abbreviation serviceCAKey :: string where "serviceCAKey \<equiv> ''service-ca.crt''"

definition merge_ConfigMap :: "ConfigMap \<Rightarrow> ConfigMap \<Rightarrow> bool \<times> ConfigMap" where
  "merge_ConfigMap required existing =
     (let (modified, meta) = EnsureObjectMeta False (cm_ObjectMeta existing) (cm_ObjectMeta required);
          existingCopy = existing\<lparr>cm_ObjectMeta := meta\<rparr>;
          caBundleInjected = (map_of (om_Labels (cm_ObjectMeta required))
             ''config.openshift.io/inject-trusted-cabundle'' = Some ''true'');
          newCABundleRequired = (map_of (cm_Data required) caBundleKey \<noteq> None);
          serviceCAInjected = (map_of (om_Annotations (cm_ObjectMeta required))
             ''service.beta.openshift.io/inject-cabundle'' = Some ''true'');
          newServiceCARequired = (map_of (cm_Data required) serviceCAKey \<noteq> None);
          ignored = (\<lambda>k. caBundleInjected \<and> \<not> newCABundleRequired \<and> k = caBundleKey \<or>
                         serviceCAInjected \<and> \<not> newServiceCARequired \<and> k = serviceCAKey);
          dataSame = (\<not> data_modified ignored (cm_Data existing) (cm_Data required) \<and>
                      \<not> data_modified (\<lambda>k. False) (cm_BinaryData existing) (cm_BinaryData required))
      in if dataSame \<and> \<not> modified then (False, existingCopy)
         else (True, existingCopy\<lparr>
           cm_Data := (case map_of (cm_Data existing) caBundleKey of
              Some bundle \<Rightarrow> if caBundleInjected \<and> \<not> newCABundleRequired
                 then AList.update caBundleKey bundle (cm_Data required) else cm_Data required
            | None \<Rightarrow> cm_Data required),
           cm_BinaryData := cm_BinaryData required\<rparr>))"

definition ApplyConfigMapImproved :: "Env \<Rightarrow> ConfigMap \<Rightarrow> (World, ConfigMap \<times> bool) go" where
  "ApplyConfigMapImproved env required =
     apply_object_cached env (ConfigMaps env) (om_Namespace (cm_ObjectMeta required))
       (om_Name (cm_ObjectMeta required)) required (clean (ConfigMaps env) required)
       (merge_ConfigMap required)"

section \<open>Webhook configurations\<close>

text \<open>The copies of CA bundles of webhooks with the same name (the last one, where a name is
  repeated) into webhooks that have none.\<close>
definition copy_ca_bundles :: "Webhook list \<Rightarrow> Webhook list \<Rightarrow> Webhook list" where
  "copy_ca_bundles from to =
     (let fromMap = map_of (rev (map (\<lambda>wh. (wh_Name wh, wh)) from)) in
      map (\<lambda>wh. case fromMap (wh_Name wh) of
             Some existing \<Rightarrow> if wc_CABundle (wh_ClientConfig wh) = []
               then wh\<lparr>wh_ClientConfig := (wh_ClientConfig wh)\<lparr>
                      wc_CABundle := wc_CABundle (wh_ClientConfig existing)\<rparr>\<rparr>
               else wh
           | None \<Rightarrow> wh) to)"

definition copyMutatingWebhookCABundle ::
  "MutatingWebhookConfiguration \<Rightarrow> MutatingWebhookConfiguration \<Rightarrow> MutatingWebhookConfiguration" where
  "copyMutatingWebhookCABundle from to =
     to\<lparr>mwc_Webhooks := copy_ca_bundles (mwc_Webhooks from) (mwc_Webhooks to)\<rparr>"

definition copyValidatingWebhookCABundle ::
  "ValidatingWebhookConfiguration \<Rightarrow> ValidatingWebhookConfiguration \<Rightarrow> ValidatingWebhookConfiguration" where
  "copyValidatingWebhookCABundle from to =
     to\<lparr>vwc_Webhooks := copy_ca_bundles (vwc_Webhooks from) (vwc_Webhooks to)\<rparr>"

definition merge_MutatingWebhook ::
  "MutatingWebhookConfiguration \<Rightarrow> MutatingWebhookConfiguration \<Rightarrow>
   bool \<times> MutatingWebhookConfiguration" where
  "merge_MutatingWebhook requiredOriginal existing =
     (let (modified, meta) =
            EnsureObjectMeta False (mwc_ObjectMeta existing) (mwc_ObjectMeta requiredOriginal);
          existingCopy = existing\<lparr>mwc_ObjectMeta := meta\<rparr>;
          required = copyMutatingWebhookCABundle existing requiredOriginal
      in if mwc_Webhooks existing = mwc_Webhooks required \<and> \<not> modified then (False, existingCopy)
         else (True, existingCopy\<lparr>mwc_Webhooks := mwc_Webhooks required\<rparr>))"

definition ApplyMutatingWebhookConfigurationImproved ::
  "Env \<Rightarrow> MutatingWebhookConfiguration \<Rightarrow> (World, MutatingWebhookConfiguration \<times> bool) go" where
  "ApplyMutatingWebhookConfigurationImproved env required =
     apply_object_cached env (MutatingWebhookConfigurations env) []
       (om_Name (mwc_ObjectMeta required)) required
       (clean (MutatingWebhookConfigurations env) required) (merge_MutatingWebhook required)"

definition merge_ValidatingWebhook ::
  "ValidatingWebhookConfiguration \<Rightarrow> ValidatingWebhookConfiguration \<Rightarrow>
   bool \<times> ValidatingWebhookConfiguration" where
  "merge_ValidatingWebhook requiredOriginal existing =
     (let (modified, meta) =
            EnsureObjectMeta False (vwc_ObjectMeta existing) (vwc_ObjectMeta requiredOriginal);
          existingCopy = existing\<lparr>vwc_ObjectMeta := meta\<rparr>;
          required = copyValidatingWebhookCABundle existing requiredOriginal
      in if vwc_Webhooks existing = vwc_Webhooks required \<and> \<not> modified then (False, existingCopy)
         else (True, existingCopy\<lparr>vwc_Webhooks := vwc_Webhooks required\<rparr>))"

definition ApplyValidatingWebhookConfigurationImproved ::
  "Env \<Rightarrow> ValidatingWebhookConfiguration \<Rightarrow> (World, ValidatingWebhookConfiguration \<times> bool) go" where
  "ApplyValidatingWebhookConfigurationImproved env required =
     apply_object_cached env (ValidatingWebhookConfigurations env) []
       (om_Name (vwc_ObjectMeta required)) required
       (clean (ValidatingWebhookConfigurations env) required) (merge_ValidatingWebhook required)"

section \<open>Network policies and flow control\<close>

definition merge_NetworkPolicy :: "NetworkPolicy \<Rightarrow> NetworkPolicy \<Rightarrow> bool \<times> NetworkPolicy" where
  "merge_NetworkPolicy want current =
     (let (diff, meta) = EnsureObjectMeta False (np_ObjectMeta current) (np_ObjectMeta want)
      in if \<not> diff \<and> np_Spec current = np_Spec want then (False, current)
         else (True, current\<lparr>np_ObjectMeta := meta, np_Spec := np_Spec want\<rparr>))"

text \<open>Unlike the vendored functions, the three of \<^verbatim>\<open>pkg/util/resourceapply\<close> report no difference when
  they create the object.\<close>
definition ApplyNetworkPolicy :: "Env \<Rightarrow> NetworkPolicy \<Rightarrow> (World, NetworkPolicy \<times> bool) go" where
  "ApplyNetworkPolicy env want =
     apply_object env (NetworkPolicies env) (om_Namespace (np_ObjectMeta want))
       (om_Name (np_ObjectMeta want)) (clean (NetworkPolicies env) want) False
       (merge_NetworkPolicy want)"

definition merge_FlowSchema :: "FlowSchema \<Rightarrow> FlowSchema \<Rightarrow> bool \<times> FlowSchema" where
  "merge_FlowSchema want current =
     (let (diff, meta) = EnsureObjectMeta False (fl_ObjectMeta current) (fl_ObjectMeta want)
      in if \<not> diff \<and> fl_Spec current = fl_Spec want then (False, current)
         else (True, current\<lparr>fl_ObjectMeta := meta, fl_Spec := fl_Spec want\<rparr>))"

definition ApplyFlowSchema :: "Env \<Rightarrow> FlowSchema \<Rightarrow> (World, FlowSchema \<times> bool) go" where
  "ApplyFlowSchema env want =
     apply_object env (FlowSchemas env) [] (om_Name (fl_ObjectMeta want))
       (clean (FlowSchemas env) want) False (merge_FlowSchema want)"

abbreviation annotationAllowNominalConcurrencySharesUpdate :: string where
  "annotationAllowNominalConcurrencySharesUpdate \<equiv>
     ''kueue.openshift.io/allow-nominal-concurrency-shares-update''"

text \<open>The shares that \<^verbatim>\<open>*x.Spec.Limited.NominalConcurrencyShares\<close> reads; \<^term>\<open>None\<close> is a nil
  dereference.\<close>
definition concurrency_shares :: "PriorityLevelConfiguration \<Rightarrow> int32 option" where
  "concurrency_shares p = Option.bind (pls_Limited (plc_Spec p)) lim_NominalConcurrencyShares"

text \<open>Whether the user's own number of shares is to be kept: the annotation allows it, and the number
  is zero or between the required one and five. Go evaluates the current shares first, then the
  wanted ones.\<close>
definition keeps_user_shares ::
  "PriorityLevelConfiguration \<Rightarrow> PriorityLevelConfiguration \<Rightarrow> err + bool" where
  "keeps_user_shares want current =
     (if map_of (om_Annotations (plc_ObjectMeta current))
           annotationAllowNominalConcurrencySharesUpdate \<noteq> Some ''true'' then Inr False
      else case concurrency_shares current of
        None \<Rightarrow> Inl (Panic ''nil pointer dereference'')
      | Some n \<Rightarrow> (case concurrency_shares want of
          None \<Rightarrow> Inl (Panic ''nil pointer dereference'')
        | Some m \<Rightarrow> Inr ((sint m \<le> sint n \<and> sint n \<le> 5) \<or> n = 0)))"

definition ApplyPriorityLevelConfiguration ::
  "Env \<Rightarrow> PriorityLevelConfiguration \<Rightarrow> (World, PriorityLevelConfiguration \<times> bool) go" where
  "ApplyPriorityLevelConfiguration env want =
     go_bind (go_try (api_Get env (PriorityLevelConfigurations env) []
                        (om_Name (plc_ObjectMeta want)))) (\<lambda>r. case r of
        Inl err \<Rightarrow> if IsNotFound err
          then create_and_report env (PriorityLevelConfigurations env) []
                 (clean (PriorityLevelConfigurations env) want) False
          else go_throw err
      | Inr current \<Rightarrow>
          (let (diff, meta) = EnsureObjectMeta False (plc_ObjectMeta current) (plc_ObjectMeta want)
           in if \<not> diff \<and> plc_Spec current = plc_Spec want then go_return (current, False)
              else go_bind (go_lift (keeps_user_shares want current)) (\<lambda>keep.
                if keep then go_return (current, False)
                else update_and_report env (PriorityLevelConfigurations env) []
                       (current\<lparr>plc_ObjectMeta := meta, plc_Spec := plc_Spec want\<rparr>))))"

section \<open>API extension\<close>

definition crd_SetDefaults :: "CRDSpec \<Rightarrow> CRDSpec" where
  "crd_SetDefaults obj =
     (let names = crs_Names obj;
          names1 = (if cnm_Singular names = [] then names\<lparr>cnm_Singular := ToLower (cnm_Kind names)\<rparr>
                    else names);
          names2 = (if cnm_ListKind names1 = [] \<and> cnm_Kind names1 \<noteq> []
                    then names1\<lparr>cnm_ListKind := cnm_Kind names1 @ ''List''\<rparr> else names1)
      in obj\<lparr>crs_Names := names2,
             crs_Conversion := (case crs_Conversion obj of
                None \<Rightarrow> Some \<lparr>ccv_Strategy = ''None'', ccv_Webhook = None\<rparr> | Some c \<Rightarrow> Some c)\<rparr>)"

definition crd_SetDefaults_ServiceReference :: "ServiceReference \<Rightarrow> ServiceReference" where
  "crd_SetDefaults_ServiceReference obj =
     (if sr_Port obj = None then obj\<lparr>sr_Port := Some 443\<rparr> else obj)"

definition conversion_service ::
  "(ServiceReference \<Rightarrow> ServiceReference) \<Rightarrow> CustomResourceConversion \<Rightarrow> CustomResourceConversion" where
  "conversion_service f c =
     c\<lparr>ccv_Webhook := map_option (\<lambda>wh. wh\<lparr>wcv_ClientConfig := map_option (\<lambda>cc.
          cc\<lparr>wc_Service := map_option f (wc_Service cc)\<rparr>) (wcv_ClientConfig wh)\<rparr>) (ccv_Webhook c)\<rparr>"

definition mimicCRDV1Defaulting :: "CustomResourceDefinition \<Rightarrow> CustomResourceDefinition" where
  "mimicCRDV1Defaulting required =
     (let spec = crd_SetDefaults (crd_Spec required)
      in required\<lparr>crd_Spec := spec\<lparr>crs_Conversion :=
           map_option (conversion_service crd_SetDefaults_ServiceReference) (crs_Conversion spec)\<rparr>\<rparr>)"

definition EnsureCustomResourceDefinitionV1 ::
  "CustomResourceDefinition \<Rightarrow> CustomResourceDefinition \<Rightarrow> bool \<times> CustomResourceDefinition" where
  "EnsureCustomResourceDefinitionV1 required existing =
     (let (modified, meta) =
            EnsureObjectMeta False (crd_ObjectMeta existing) (crd_ObjectMeta required);
          spec = crd_Spec (mimicCRDV1Defaulting required)
      in if crd_Spec existing \<noteq> spec
         then (True, existing\<lparr>crd_ObjectMeta := meta, crd_Spec := spec\<rparr>)
         else (modified, existing\<lparr>crd_ObjectMeta := meta\<rparr>))"

text \<open>Where nothing changed, the object as it was read is returned.\<close>
definition merge_CRD ::
  "CustomResourceDefinition \<Rightarrow> CustomResourceDefinition \<Rightarrow> bool \<times> CustomResourceDefinition" where
  "merge_CRD required existing =
     (let (modified, existingCopy) = EnsureCustomResourceDefinitionV1 required existing
      in if \<not> modified then (False, existing) else (True, existingCopy))"

definition ApplyCustomResourceDefinitionV1 ::
  "Env \<Rightarrow> CustomResourceDefinition \<Rightarrow> (World, CustomResourceDefinition \<times> bool) go" where
  "ApplyCustomResourceDefinitionV1 env required =
     apply_object env (CustomResourceDefinitions env) [] (om_Name (crd_ObjectMeta required))
       (clean (CustomResourceDefinitions env) required) True (merge_CRD required)"

definition merge_APIService :: "APIService \<Rightarrow> APIService \<Rightarrow> bool \<times> APIService" where
  "merge_APIService required existing =
     (let (modified, meta) = EnsureObjectMeta False (as_ObjectMeta existing) (as_ObjectMeta required);
          existingCopy = existing\<lparr>as_ObjectMeta := meta\<rparr>;
          e = as_Spec existing; r = as_Spec required;
          serviceSame = (ass_Service e = ass_Service r);
          prioritySame = (ass_VersionPriority e = ass_VersionPriority r \<and>
                          ass_GroupPriorityMinimum e = ass_GroupPriorityMinimum r);
          insecureSame = (ass_InsecureSkipTLSVerify e = ass_InsecureSkipTLSVerify r)
      in if \<not> modified \<and> serviceSame \<and> prioritySame \<and> insecureSame then (False, existingCopy)
         else (True, existingCopy\<lparr>as_Spec := r\<rparr>))"

definition ApplyAPIService :: "Env \<Rightarrow> APIService \<Rightarrow> (World, APIService \<times> bool) go" where
  "ApplyAPIService env required =
     apply_object env (APIServices env) [] (om_Name (as_ObjectMeta required))
       (clean (APIServices env) required) True (merge_APIService required)"

section \<open>Deployments\<close>

definition merge_Deployment :: "Deployment \<Rightarrow> int \<Rightarrow> Deployment \<Rightarrow> bool \<times> Deployment" where
  "merge_Deployment required expectedGeneration existing =
     (let (modified, meta) = EnsureObjectMeta False (de_ObjectMeta existing) (de_ObjectMeta required);
          existingCopy = existing\<lparr>de_ObjectMeta := meta\<rparr>
      in if \<not> modified \<and> om_Generation meta = expectedGeneration then (False, existingCopy)
         else (True, existingCopy\<lparr>de_Spec := de_Spec required\<rparr>))"

text \<open>\<^verbatim>\<open>ApplyDeploymentWithForce\<close> with \<^verbatim>\<open>forceRollout\<close> false, the only way it is called. A deployment
  without the spec hash gets its first container's image as an annotation (a panic, if it has no
  container). The object is created as it is, without removing keys.\<close>
definition ApplyDeploymentWithForce ::
  "Env \<Rightarrow> Deployment \<Rightarrow> int \<Rightarrow> (World, Deployment \<times> bool) go" where
  "ApplyDeploymentWithForce env requiredOriginal expectedGeneration =
     go_bind
       (if map_of (om_Annotations (de_ObjectMeta requiredOriginal)) specHashAnnotation \<noteq> None
        then go_return requiredOriginal
        else (case ps_Containers (pt_Spec (dp_Template (de_Spec requiredOriginal))) of
                [] \<Rightarrow> go_throw (Panic ''index out of range'')
              | c # _ \<Rightarrow> go_return (requiredOriginal\<lparr>de_ObjectMeta := (de_ObjectMeta requiredOriginal)
                    \<lparr>om_Annotations := AList.update ''operator.openshift.io/pull-spec'' (co_Image c)
                        (om_Annotations (de_ObjectMeta requiredOriginal))\<rparr>\<rparr>)))
       (\<lambda>required.
          apply_object env (Deployments env) (om_Namespace (de_ObjectMeta required))
            (om_Name (de_ObjectMeta required)) required True
            (merge_Deployment required expectedGeneration))"

definition ApplyDeployment :: "Env \<Rightarrow> Deployment \<Rightarrow> int \<Rightarrow> (World, Deployment \<times> bool) go" where
  "ApplyDeployment env requiredOriginal expectedGeneration =
     go_bind (go_lift (SetSpecHashAnnotation env (de_ObjectMeta requiredOriginal)
                         (HDeployment (de_Spec requiredOriginal)))) (\<lambda>meta.
       ApplyDeploymentWithForce env (requiredOriginal\<lparr>de_ObjectMeta := meta\<rparr>) expectedGeneration)"

section \<open>Untyped objects\<close>

definition EnsureObjectMetaForUnstructured ::
  "Env \<Rightarrow> Unstructured \<Rightarrow> Unstructured \<Rightarrow> err + bool \<times> Unstructured" where
  "EnsureObjectMetaForUnstructured env existing required =
     (case NestedMap (us_Object existing) [''metadata''] of
        Inl e \<Rightarrow> Inl e
      | Inr None \<Rightarrow> Inl (Errorf ''metadata not found in the existing object'')
      | Inr (Some existingMeta) \<Rightarrow> (case NestedMap (us_Object required) [''metadata''] of
          Inl e \<Rightarrow> Inl e
        | Inr None \<Rightarrow> Inl (Errorf ''metadata not found in the required object'')
        | Inr (Some requiredMeta) \<Rightarrow> (case e_MetaFromUnstructured env existingMeta of
            Inl e \<Rightarrow> Inl e
          | Inr existingTyped \<Rightarrow> (case e_MetaFromUnstructured env requiredMeta of
              Inl e \<Rightarrow> Inl e
            | Inr requiredTyped \<Rightarrow>
                (case EnsureObjectMeta False existingTyped requiredTyped of (modified, merged) \<Rightarrow>
                   if modified then (case e_MetaToUnstructured env merged of
                       Inl e \<Rightarrow> Inl e
                     | Inr m \<Rightarrow> Inr (True, existing\<lparr>us_Object :=
                          (us_Object existing)(''metadata'' \<mapsto> JObj m)\<rparr>))
                   else Inr (False, existing))))))"

text \<open>A missing \<^verbatim>\<open>spec\<close> reads as the empty map.\<close>
definition nested_spec :: "Unstructured \<Rightarrow> err + json_map" where
  "nested_spec u = (case NestedMap (us_Object u) [''spec''] of
     Inl e \<Rightarrow> Inl e | Inr None \<Rightarrow> Inr Map.empty | Inr (Some m) \<Rightarrow> Inr m)"

definition ensureGenericSpec :: "Unstructured \<Rightarrow> Unstructured \<Rightarrow> err + bool \<times> Unstructured" where
  "ensureGenericSpec required existing =
     (case nested_spec required of Inl e \<Rightarrow> Inl e
      | Inr requiredSpec \<Rightarrow> (case nested_spec existing of Inl e \<Rightarrow> Inl e
          | Inr existingSpec \<Rightarrow>
              if existingSpec = requiredSpec then Inr (False, existing)
              else Inr (True, existing\<lparr>us_Object :=
                     SetNestedMap (us_Object existing) requiredSpec ''spec''\<rparr>)))"

definition merge_Unstructured ::
  "Env \<Rightarrow> Unstructured \<Rightarrow> Unstructured \<Rightarrow> err + bool \<times> Unstructured" where
  "merge_Unstructured env required existing =
     (case EnsureObjectMetaForUnstructured env existing required of Inl e \<Rightarrow> Inl e
      | Inr (didMetadataModify, e1) \<Rightarrow> (case ensureGenericSpec required e1 of Inl e \<Rightarrow> Inl e
          | Inr (didSpecModify, e2) \<Rightarrow> Inr (didSpecModify \<or> didMetadataModify, e2)))"

text \<open>\<open>cached\<close> is false for the functions that pass no cache. After an update the merged object,
  not the required one, is remembered.\<close>
definition ApplyUnstructuredResourceImproved ::
  "Env \<Rightarrow> Unstructured client \<Rightarrow> bool \<Rightarrow> Unstructured \<Rightarrow> (World, Unstructured \<times> bool) go" where
  "ApplyUnstructuredResourceImproved env cl cached required =
     (let remember' = (\<lambda>r m. if cached then remember env cl r m else m) in
      go_bind (go_try (api_Get env cl (GetNamespace required) (GetName required))) (\<lambda>r. case r of
        Inl err \<Rightarrow> if IsNotFound err
                  then remember' required (create_and_report env cl (GetNamespace required) required True)
                  else go_throw err
      | Inr existing \<Rightarrow> go_bind (if cached then SafeToSkipApply env cl required existing
                                else go_return False) (\<lambda>skip.
          if skip then go_return (existing, False)
          else go_bind (go_lift (merge_Unstructured env required existing)) (\<lambda>(modified, toWrite).
            if \<not> modified then remember' required (go_return (toWrite, False))
            else remember' toWrite (update_and_report env cl (GetNamespace required) toWrite)))))"

definition ApplyServiceMonitor :: "Env \<Rightarrow> Unstructured \<Rightarrow> (World, Unstructured \<times> bool) go" where
  "ApplyServiceMonitor env required =
     ApplyUnstructuredResourceImproved env (ServiceMonitors env) False required"

end
