(* ===== verification/Cert_Manager.thy ===== *)
theory Cert_Manager
  imports Kube_Client
begin

text \<open>
  \<^verbatim>\<open>pkg/cert/cert.go\<close>: the annotation that makes cert-manager inject its CA, and the loop that waits
  for a certificate. The loop polls and sleeps for two seconds between polls until a deadline; it
  is written with fuel, and the lemmas show that the fuel it is given is never used up, because
  every unsuccessful poll takes at least two seconds.
\<close>

abbreviation inject_ca_key :: string where "inject_ca_key \<equiv> ''cert-manager.io/inject-ca-from''"

definition InjectCertAnnotation :: "(string, string) gomap \<Rightarrow> string \<Rightarrow> (string, string) gomap" where
  "InjectCertAnnotation annotation namespace =
     AList.update inject_ca_key (namespace @ ''/webhook-cert'') annotation"

section \<open>One poll\<close>

text \<open>The loop over the conditions: whether a condition says ready and whether one says issuing.\<close>
fun scan_conditions :: "json list \<Rightarrow> bool \<times> bool \<Rightarrow> bool \<times> bool" where
  "scan_conditions [] acc = acc"
| "scan_conditions (raw # rest) (ready, issuing) =
     (case as_map raw of
        None \<Rightarrow> scan_conditions rest (ready, issuing)
      | Some condition \<Rightarrow>
          (let condType = getNestedString condition [''type''];
               condStatus = getNestedString condition [''status'']
           in if condType = ''Ready'' then
                scan_conditions rest (if condStatus = ''True'' then True else ready, issuing)
              else if condType = ''Issuing'' then
                scan_conditions rest (ready, if condStatus = ''True'' then True else issuing)
              else scan_conditions rest (ready, issuing)))"

text \<open>The name of the secret of a certificate that is ready and not being issued; \<^term>\<open>None\<close> is
  every reason to retry.\<close>
definition certificate_ready :: "Unstructured \<Rightarrow> string option" where
  "certificate_ready certificate =
     (case NestedSlice (us_Object certificate) [''status'', ''conditions''] of
        Inr (Some conditions) \<Rightarrow>
          (let (ready, issuing) = scan_conditions conditions (False, False)
           in if issuing then None
              else if \<not> ready then None
              else (case NestedString (us_Object certificate) [''spec'', ''secretName''] of
                      Inr (Some secretName) \<Rightarrow> if secretName = [] then None else Some secretName
                    | _ \<Rightarrow> None))
      | _ \<Rightarrow> None)"

definition nonempty_string :: "json_map \<Rightarrow> string \<Rightarrow> bool" where
  "nonempty_string data key = (case data key of
     Some (JStr s) \<Rightarrow> s \<noteq> [] | _ \<Rightarrow> False)"

definition secret_ready :: "Unstructured \<Rightarrow> bool" where
  "secret_ready secret = (case NestedMap (us_Object secret) [''data''] of
     Inr (Some data) \<Rightarrow> nonempty_string data ''tls.crt'' \<and> nonempty_string data ''tls.key''
   | _ \<Rightarrow> False)"

text \<open>One pass through the body of the loop: true is \<^verbatim>\<open>return nil\<close>, false is
  \<^verbatim>\<open>time.Sleep; continue\<close>.\<close>
definition poll_certificate :: "Env \<Rightarrow> string \<Rightarrow> string \<Rightarrow> (World, bool) go" where
  "poll_certificate env namespace certificateName =
     go_bind (go_try (api_Get env (Certificates env) namespace certificateName)) (\<lambda>r. case r of
        Inl err \<Rightarrow> if IsNotFound err then go_return False
                  else go_throw (Wrap (''failed to get certificate '' @ namespace @ ''/'' @
                                       certificateName) err)
      | Inr certificate \<Rightarrow> (case certificate_ready certificate of
          None \<Rightarrow> go_return False
        | Some secretName \<Rightarrow>
            go_bind (go_try (api_Get env (Secrets env) namespace secretName)) (\<lambda>r. case r of
               Inl err \<Rightarrow> if IsNotFound err then go_return False
                         else go_throw (Wrap (''failed to get certificate secret '' @ namespace @
                                              ''/'' @ secretName) err)
             | Inr secret \<Rightarrow> go_return (secret_ready secret))))"

section \<open>The loop\<close>

abbreviation poll_interval :: int where "poll_interval \<equiv> 2000000000"

definition time_Sleep :: "int \<Rightarrow> (World, unit) go" where
  "time_Sleep d = go_modify (\<lambda>w. w\<lparr>w_Now := w_Now w + d\<rparr>)"

fun wait_loop :: "Env \<Rightarrow> string \<Rightarrow> string \<Rightarrow> int \<Rightarrow> nat \<Rightarrow> (World, unit) go" where
  "wait_loop env namespace certificateName deadline 0 = go_throw (Panic ''out of fuel'')"
| "wait_loop env namespace certificateName deadline (Suc n) =
     go_bind (go_read w_Now) (\<lambda>now.
       if deadline < now then
         go_throw (Errorf (''timeout waiting for certificate '' @ namespace @ ''/'' @ certificateName @
                           '' to be ready''))
       else go_bind (poll_certificate env namespace certificateName) (\<lambda>ready.
         if ready then go_return ()
         else go_seq (time_Sleep poll_interval)
                (wait_loop env namespace certificateName deadline n)))"

definition poll_fuel :: "int \<Rightarrow> nat" where
  "poll_fuel timeout = nat (timeout div poll_interval) + 2"

definition WaitForCertificateReady ::
  "Env \<Rightarrow> string \<Rightarrow> string \<Rightarrow> int \<Rightarrow> (World, unit) go" where
  "WaitForCertificateReady env namespace certificateName timeout =
     go_bind (go_read w_Now) (\<lambda>now.
       wait_loop env namespace certificateName (now + timeout) (poll_fuel timeout))"

section \<open>Lemmas\<close>

lemma api_call_now: "w_Now w \<le> w_Now (snd (api_call env c f w))"
  by (auto simp: api_call_def before_call_def Let_def split: option.splits prod.splits sum.splits)

text \<open>Time never runs backwards.\<close>
lemma api_Get_now: "go_keeps (\<lambda>w. t \<le> w_Now w) (api_Get env cl ns n)"
  unfolding api_Get_def by (rule go_keepsI, erule order_trans, rule api_call_now)

lemma poll_certificate_now: "go_keeps (\<lambda>w. t \<le> w_Now w) (poll_certificate env ns n)"
  unfolding poll_certificate_def by (intro go_keep api_Get_now)

lemma poll_certificate_not_panic: "poll_certificate env ns n w = (Inl e, w') \<Longrightarrow> \<not> is_panic e"
  by (auto simp: poll_certificate_def api_Get_def go_defs split: prod.splits sum.splits if_splits
      option.splits dest: api_call_not_panic)

lemma poll_certificate_true:
  "poll_certificate env ns n w = (Inr True, w') \<Longrightarrow>
   \<exists>secretName secret. map_of (c_Secrets (w_Cluster w')) (ns, secretName) = Some secret \<and>
     secret_ready secret"
  using secrets.get_ok[where env = env]
  by (fastforce simp: poll_certificate_def go_defs Secrets_def split: prod.splits sum.splits
      if_splits option.splits)

text \<open>Between two polls at least the interval passes, so \<open>n\<close> turns of the loop suffice once the
  deadline is less than \<open>n - 1\<close> intervals away.\<close>
lemma wait_loop_not_panic:
  "deadline + poll_interval < w_Now w + int n * poll_interval \<Longrightarrow> 0 < n \<Longrightarrow>
   wait_loop env ns c deadline n w = (Inl e, w') \<Longrightarrow> \<not> is_panic e"
proof (induction n arbitrary: w)
  case (Suc n)
  show ?case
  proof (cases "deadline < w_Now w")
    case True
    with Suc.prems show ?thesis by (auto simp: go_defs)
  next
    case False
    obtain r w1 where poll: "poll_certificate env ns c w = (r, w1)" by (meson surj_pair)
    have now: "w_Now w \<le> w_Now w1"
      using go_keeps_snd[OF poll_certificate_now, of "w_Now w" w env ns c] poll by simp
    show ?thesis
    proof (cases r)
      case (Inl e')
      with Suc.prems False poll show ?thesis
        using poll_certificate_not_panic by (auto simp: go_defs)
    next
      case (Inr ready)
      let ?w2 = "w1\<lparr>w_Now := w_Now w1 + poll_interval\<rparr>"
      have run: "wait_loop env ns c deadline n ?w2 = (Inl e, w')" and "\<not> ready"
        using Suc.prems(3) False poll Inr by (auto simp: go_defs time_Sleep_def split: if_splits)
      moreover have less: "deadline + poll_interval < w_Now ?w2 + int n * poll_interval"
        using Suc.prems(1) now by (simp add: algebra_simps)
      moreover have "0 < n"
      proof (rule ccontr)
        assume "\<not> 0 < n"
        with less False now Suc.prems(1) show False by simp
      qed
      ultimately show ?thesis using Suc.IH by blast
    qed
  qed
qed simp

lemma poll_fuel_enough:
  "0 \<le> timeout \<Longrightarrow> timeout + poll_interval < int (poll_fuel timeout) * poll_interval"
proof -
  assume "0 \<le> timeout"
  then have "int (poll_fuel timeout) = timeout div poll_interval + 2"
    by (simp add: poll_fuel_def pos_imp_zdiv_nonneg_iff)
  moreover have "timeout < (timeout div poll_interval + 1) * poll_interval"
  proof -
    have "timeout mod poll_interval < poll_interval" by (rule pos_mod_bound) simp
    with mult_div_mod_eq[of poll_interval timeout] show ?thesis by (simp add: algebra_simps)
  qed
  ultimately show ?thesis by linarith
qed

text \<open>More fuel does not change a run that did not use it up.\<close>
lemma wait_loop_fuel:
  "wait_loop env ns c deadline n w = (r, w') \<Longrightarrow> (\<And>e. r = Inl e \<Longrightarrow> \<not> is_panic e) \<Longrightarrow>
   wait_loop env ns c deadline (n + k) w = (r, w')"
proof (induction n arbitrary: w)
  case 0
  then show ?case by (auto simp: go_defs)
next
  case (Suc n)
  show ?case
  proof (cases "deadline < w_Now w")
    case True
    with Suc.prems show ?thesis by (auto simp: go_defs)
  next
    case False
    obtain q w1 where poll: "poll_certificate env ns c w = (q, w1)" by (meson surj_pair)
    show ?thesis
      using Suc.prems Suc.IH False poll
      by (auto simp: go_defs time_Sleep_def split: sum.splits if_splits)
  qed
qed

text \<open>A successful wait ends with a poll that found the secret; an unsuccessful one has passed the
  deadline or met an error of the API.\<close>
lemma wait_loop_success:
  "wait_loop env ns c deadline n w = (Inr u, w') \<Longrightarrow>
   \<exists>secretName secret. map_of (c_Secrets (w_Cluster w')) (ns, secretName) = Some secret \<and>
     secret_ready secret"
proof (induction n arbitrary: w)
  case (Suc n)
  then show ?case
    using poll_certificate_true[of env ns c w]
    by (auto simp: go_defs time_Sleep_def split: prod.splits sum.splits if_splits)
qed (simp add: go_defs)

lemma poll_certificate_error:
  "poll_certificate env ns n w = (Inl e, w') \<Longrightarrow> \<exists>m r t. e = Wrap m (ApiError r t) \<and> r \<noteq> NotFound"
proof -
  assume a: "poll_certificate env ns n w = (Inl e, w')"
  have get: "\<exists>r t. err = ApiError r t" if "api_Get env cl ns' n' v = (Inl err, v')"
    for cl :: "Unstructured client" and ns' n' v v' err
    using that by (auto simp: api_Get_def api_call_def Let_def split: option.splits prod.splits sum.splits)
  show ?thesis using a
    by (auto simp: poll_certificate_def go_defs IsNotFound_def split: prod.splits sum.splits if_splits
        option.splits dest!: get)
qed

lemma wait_loop_error:
  "wait_loop env ns c deadline n w = (Inl e, w') \<Longrightarrow> \<not> is_panic e \<Longrightarrow>
   deadline < w_Now w' \<or> (\<exists>m r t. e = Wrap m (ApiError r t) \<and> r \<noteq> NotFound)"
proof (induction n arbitrary: w)
  case (Suc n)
  then show ?case
    using poll_certificate_error[of env ns c w]
    by (auto simp: go_defs time_Sleep_def split: prod.splits sum.splits if_splits)
qed (auto simp: go_defs)

lemma sends_wait [sends_rules]:
  "P (Get KCertificate ns c) \<Longrightarrow> (\<And>n. P (Get KSecret ns n)) \<Longrightarrow>
   sends P (WaitForCertificateReady env ns c timeout)"
proof -
  assume P: "P (Get KCertificate ns c)" "\<And>n. P (Get KSecret ns n)"
  have poll: "sends P (poll_certificate env ns c)"
    unfolding poll_certificate_def
    by (intro sends_rules) (simp_all add: P Certificates_def Secrets_def)
  have "sends P (wait_loop env ns c d n)" for d n
    by (induction n) (auto intro!: sends_rules poll simp: time_Sleep_def)
  then show ?thesis unfolding WaitForCertificateReady_def by (intro sends_rules)
qed

section \<open>Properties\<close>



end
