(* ===== verification/Pod_Webhook.thy ===== *)
theory Pod_Webhook
  imports K8s_Objects Go_Monad "HOL-Library.Multiset"
begin

text \<open>
  \<^verbatim>\<open>pkg/webhook/pod_webhook.go\<close>: which admission webhooks are installed, and for which
  namespaces. The Go code handles the validating and the mutating configuration in two copies;
  both are translated, and a locale states once what they have in common. A
  webhook with a name outside of \<^verbatim>\<open>webhooksList\<close> makes the code panic.
\<close>

section \<open>Translation\<close>

abbreviation kueueManagedLabel :: string where "kueueManagedLabel \<equiv> ''kueue.openshift.io/managed''"
abbreviation annotationWorkload :: string where "annotationWorkload \<equiv> ''kueue.x-k8s.io/workload''"
abbreviation annotationClusterQueue :: string where
  "annotationClusterQueue \<equiv> ''kueue.x-k8s.io/clusterqueue''"
abbreviation annotationResourceFlavor :: string where
  "annotationResourceFlavor \<equiv> ''kueue.x-k8s.io/resourceflavor''"
abbreviation annotationCohort :: string where "annotationCohort \<equiv> ''kueue.x-k8s.io/cohort''"

definition webhooksList :: "(string, string) gomap" where
  "webhooksList =
    [(KueueIntegrationBatchJob, ''job''),
     (KueueIntegrationMPIJob, ''mpijob''),
     (KueueIntegrationRayJob, ''rayjob''),
     (KueueIntegrationRayCluster, ''raycluster''),
     (KueueIntegrationRayService, ''rayservice''),
     (KueueIntegrationJobSet, ''jobset''),
     (KueueIntegrationPaddleJob, ''paddlejob''),
     (KueueIntegrationPyTorchJob, ''pytorchjob''),
     (KueueIntegrationTFJob, ''tfjob''),
     (KueueIntegrationXGBoostJob, ''xgboostjob''),
     (KueueIntegrationJaxJob, ''jaxjob''),
     (KueueIntegrationPod, ''pod''),
     (KueueIntegrationDeployment, ''deployment''),
     (KueueIntegrationStatefulSet, ''statefulset''),
     (KueueIntegrationTrainJob, ''trainjob''),
     (KueueIntegrationLeaderWorkerSet, ''leaderworkerset''),
     (annotationClusterQueue, ''clusterqueue''),
     (annotationWorkload, ''workload''),
     (annotationResourceFlavor, ''resourceflavor''),
     (annotationCohort, ''cohort''),
     (KueueIntegrationAppWrapper, ''appwrapper''),
     (KueueIntegrationSparkApplication, ''sparkapplication'')]"

definition isClusterScopedFramework :: "string \<Rightarrow> bool" where
  "isClusterScopedFramework framework \<longleftrightarrow>
     framework = annotationClusterQueue \<or> framework = annotationResourceFlavor \<or>
     framework = annotationCohort"

text \<open>The loop over \<^verbatim>\<open>webhooksList\<close>; \<open>table\<close> is the map in the order it is iterated.\<close>
definition find_framework :: "(string, string) gomap \<Rightarrow> string \<Rightarrow> string option" where
  "find_framework table suffix = map_option fst (find (\<lambda>(framework, s). s = suffix) table)"

definition framework_or_panic :: "string \<Rightarrow> string option \<Rightarrow> err + string" where
  "framework_or_panic name r = (case r of
     None \<Rightarrow> Inl (Panic (''unregistered framework: '' @ name)) | Some f \<Rightarrow> Inr f)"

definition getFrameworkForValidatingWebhook :: "string \<Rightarrow> err + string" where
  "getFrameworkForValidatingWebhook name =
     framework_or_panic name
       (find_framework webhooksList (TrimSuffix (TrimPrefix name ''v'') ''.kb.io''))"

definition getFrameworkForMutatingWebhook :: "string \<Rightarrow> err + string" where
  "getFrameworkForMutatingWebhook name =
     framework_or_panic name
       (find_framework webhooksList (TrimSuffix (TrimPrefix name ''m'') ''.kb.io''))"

fun dedup_keys :: "LabelSelectorRequirement list \<Rightarrow> string list \<Rightarrow> LabelSelectorRequirement list" where
  "dedup_keys [] seenKeys = []"
| "dedup_keys (expr # exprs) seenKeys =
     (if lsr_Key expr \<in> set seenKeys then dedup_keys exprs seenKeys
      else expr # dedup_keys exprs (lsr_Key expr # seenKeys))"

definition mergeSelectors :: "LabelSelector option \<Rightarrow> LabelSelector option \<Rightarrow> LabelSelector option" where
  "mergeSelectors crSelector existingSelector =
     (case crSelector of None \<Rightarrow> existingSelector
      | Some cr \<Rightarrow> (case existingSelector of None \<Rightarrow> crSelector
          | Some ex \<Rightarrow> Some \<lparr>ls_MatchLabels = ls_MatchLabels ex ++ ls_MatchLabels cr,
                ls_MatchExpressions =
                  dedup_keys (ls_MatchExpressions cr @ ls_MatchExpressions ex) []\<rparr>))"

abbreviation LabelSelectorOpIn :: string where "LabelSelectorOpIn \<equiv> ''In''"
abbreviation LabelSelectorOpNotIn :: string where "LabelSelectorOpNotIn \<equiv> ''NotIn''"
abbreviation LabelSelectorOpExists :: string where "LabelSelectorOpExists \<equiv> ''Exists''"
abbreviation LabelSelectorOpDoesNotExist :: string where
  "LabelSelectorOpDoesNotExist \<equiv> ''DoesNotExist''"

definition defaultLabelSelector :: LabelSelector where
  "defaultLabelSelector = \<lparr>ls_MatchLabels = Map.empty, ls_MatchExpressions =
     [\<lparr>lsr_Key = kueueManagedLabel, lsr_Operator = LabelSelectorOpIn, lsr_Values = [''true'']\<rparr>]\<rparr>"

definition buildEnabledFrameworks :: "KueueConfiguration \<Rightarrow> string \<Rightarrow> bool" where
  "buildEnabledFrameworks kueueCfg =
     (let requested = set (in_Frameworks (kc_Integrations kueueCfg));
          pod = (if KueueIntegrationLeaderWorkerSet \<in> requested \<or>
                    KueueIntegrationStatefulSet \<in> requested \<or>
                    KueueIntegrationDeployment \<in> requested
                 then {KueueIntegrationPod} else {});
          core = set (filter (\<lambda>key. HasPrefix key ''kueue.x-k8s.io/'') (map fst webhooksList))
      in (\<lambda>fw. fw \<in> requested \<or> fw \<in> pod \<or> fw \<in> core))"

text \<open>The two loops of \<^verbatim>\<open>ModifyPodBased...Webhook\<close>: keep the webhooks of enabled frameworks, then
  merge the selectors in place.\<close>
fun keep_enabled ::
  "(string \<Rightarrow> err + string) \<Rightarrow> (string \<Rightarrow> bool) \<Rightarrow> Webhook list \<Rightarrow> err + Webhook list" where
  "keep_enabled getFramework enabled [] = Inr []"
| "keep_enabled getFramework enabled (wh # whs) =
     (case getFramework (wh_Name wh) of Inl e \<Rightarrow> Inl e
      | Inr framework \<Rightarrow> (case keep_enabled getFramework enabled whs of Inl e \<Rightarrow> Inl e
          | Inr kept \<Rightarrow> Inr (if enabled framework then wh # kept else kept)))"

fun mergeNamespaceSelectors ::
  "(string \<Rightarrow> err + string) \<Rightarrow> LabelSelector \<Rightarrow> Webhook list \<Rightarrow> err + Webhook list" where
  "mergeNamespaceSelectors getFramework podSelector [] = Inr []"
| "mergeNamespaceSelectors getFramework podSelector (wh # whs) =
     (case getFramework (wh_Name wh) of Inl e \<Rightarrow> Inl e
      | Inr framework \<Rightarrow>
          (case mergeNamespaceSelectors getFramework podSelector whs of Inl e \<Rightarrow> Inl e
           | Inr rest \<Rightarrow> Inr ((if isClusterScopedFramework framework then wh
               else wh\<lparr>wh_NamespaceSelector :=
                     mergeSelectors (Some podSelector) (wh_NamespaceSelector wh)\<rparr>) # rest)))"

definition modify_webhooks ::
  "(string \<Rightarrow> err + string) \<Rightarrow> KueueConfiguration \<Rightarrow> Webhook list \<Rightarrow> err + Webhook list" where
  "modify_webhooks getFramework kueueCfg whs =
     (case keep_enabled getFramework (buildEnabledFrameworks kueueCfg) whs of Inl e \<Rightarrow> Inl e
      | Inr kept \<Rightarrow> mergeNamespaceSelectors getFramework defaultLabelSelector kept)"

definition ModifyPodBasedValidatingWebhook ::
  "KueueConfiguration \<Rightarrow> ValidatingWebhookConfiguration \<Rightarrow> err + ValidatingWebhookConfiguration" where
  "ModifyPodBasedValidatingWebhook kueueCfg currentWebhook =
     (case modify_webhooks getFrameworkForValidatingWebhook kueueCfg (vwc_Webhooks currentWebhook) of
        Inl e \<Rightarrow> Inl e
      | Inr whs \<Rightarrow> Inr (currentWebhook\<lparr>vwc_Webhooks := whs\<rparr>))"

definition ModifyPodBasedMutatingWebhook ::
  "KueueConfiguration \<Rightarrow> MutatingWebhookConfiguration \<Rightarrow> err + MutatingWebhookConfiguration" where
  "ModifyPodBasedMutatingWebhook kueueCfg currentWebhook =
     (case modify_webhooks getFrameworkForMutatingWebhook kueueCfg (mwc_Webhooks currentWebhook) of
        Inl e \<Rightarrow> Inl e
      | Inr whs \<Rightarrow> Inr (currentWebhook\<lparr>mwc_Webhooks := whs\<rparr>))"

section \<open>Label selectors\<close>

text \<open>What a label selector means to the API server: every label must be present with its value,
  and every requirement must hold.\<close>
definition requirement_matches :: "LabelSelectorRequirement \<Rightarrow> (string \<rightharpoonup> string) \<Rightarrow> bool" where
  "requirement_matches r labels =
     (if lsr_Operator r = LabelSelectorOpIn then
        (case labels (lsr_Key r) of None \<Rightarrow> False | Some v \<Rightarrow> v \<in> set (lsr_Values r))
      else if lsr_Operator r = LabelSelectorOpNotIn then
        (case labels (lsr_Key r) of None \<Rightarrow> True | Some v \<Rightarrow> v \<notin> set (lsr_Values r))
      else if lsr_Operator r = LabelSelectorOpExists then labels (lsr_Key r) \<noteq> None
      else if lsr_Operator r = LabelSelectorOpDoesNotExist then labels (lsr_Key r) = None
      else False)"

definition selector_matches :: "LabelSelector \<Rightarrow> (string \<rightharpoonup> string) \<Rightarrow> bool" where
  "selector_matches s labels \<longleftrightarrow>
     ls_MatchLabels s \<subseteq>\<^sub>m labels \<and>
     list_all (\<lambda>r. requirement_matches r labels) (ls_MatchExpressions s)"

text \<open>An absent namespace selector matches every namespace.\<close>
definition namespace_matches :: "LabelSelector option \<Rightarrow> (string \<rightharpoonup> string) \<Rightarrow> bool" where
  "namespace_matches s labels = (case s of None \<Rightarrow> True | Some sel \<Rightarrow> selector_matches sel labels)"

text \<open>A selector that does not itself constrain the opt-in label and has one requirement per key.\<close>
definition plain_selector :: "LabelSelector option \<Rightarrow> bool" where
  "plain_selector s = (case s of None \<Rightarrow> True
     | Some sel \<Rightarrow> distinct (map lsr_Key (ls_MatchExpressions sel)) \<and>
                   kueueManagedLabel \<notin> set (map lsr_Key (ls_MatchExpressions sel)))"

lemma dedup_keys_distinct:
  "distinct (map lsr_Key es) \<Longrightarrow> set (map lsr_Key es) \<inter> set seen = {} \<Longrightarrow> dedup_keys es seen = es"
  by (induction es arbitrary: seen) auto

lemma dedup_keys_sub: "set (dedup_keys es seen) \<subseteq> set es"
  by (induction es arbitrary: seen) auto

lemma managed_requirement:
  "list_all (\<lambda>r. requirement_matches r labels) (ls_MatchExpressions defaultLabelSelector) \<longleftrightarrow>
   labels kueueManagedLabel = Some ''true''"
  by (simp add: defaultLabelSelector_def requirement_matches_def split: option.splits)

lemma mergeSelectors_default:
  "plain_selector (Some ex) \<Longrightarrow> mergeSelectors (Some defaultLabelSelector) (Some ex) =
     Some \<lparr>ls_MatchLabels = ls_MatchLabels ex,
           ls_MatchExpressions = ls_MatchExpressions defaultLabelSelector @ ls_MatchExpressions ex\<rparr>"
  using dedup_keys_distinct[of "ls_MatchExpressions ex" "[kueueManagedLabel]"]
  by (simp add: mergeSelectors_def plain_selector_def defaultLabelSelector_def)

lemma mergeSelectors_matches:
  "plain_selector s \<Longrightarrow>
   namespace_matches (mergeSelectors (Some defaultLabelSelector) s) labels \<longleftrightarrow>
   labels kueueManagedLabel = Some ''true'' \<and> namespace_matches s labels"
proof (cases s)
  case None
  then show ?thesis
    using managed_requirement[of labels]
    by (simp add: mergeSelectors_def namespace_matches_def selector_matches_def
        defaultLabelSelector_def)
next
  case (Some ex)
  assume "plain_selector s"
  then show ?thesis
    using managed_requirement[of labels]
    by (auto simp: Some mergeSelectors_default namespace_matches_def selector_matches_def)
qed

text \<open>Whatever the existing selector is, the opt-in requirement is the first one of the merged
  selector, so a namespace that has not opted in never matches.\<close>
lemma mergeSelectors_opt_in:
  "namespace_matches (mergeSelectors (Some defaultLabelSelector) s) labels \<Longrightarrow>
   labels kueueManagedLabel = Some ''true''"
  by (cases s)
    (auto simp: mergeSelectors_def namespace_matches_def selector_matches_def
      defaultLabelSelector_def requirement_matches_def split: option.splits)

section \<open>The frameworks of webhooks\<close>

lemma webhooksList_distinct: "distinct (map fst webhooksList)" "distinct (map snd webhooksList)"
  by (simp_all add: webhooksList_def)

lemma find_framework_Some:
  "distinct (map snd table) \<Longrightarrow> find_framework table suffix = Some f \<longleftrightarrow> (f, suffix) \<in> set table"
  by (induction table) (force simp: find_framework_def)+

lemma find_framework_order:
  assumes "distinct (map snd table)" and "mset table = mset table'"
  shows "find_framework table suffix = find_framework table' suffix"
proof -
  have "distinct (map snd table')"
    using assms by (metis mset_map mset_eq_imp_distinct_iff)
  then have "find_framework table suffix = Some f \<longleftrightarrow> find_framework table' suffix = Some f" for f
    using assms(1) mset_eq_setD[OF assms(2)] by (simp add: find_framework_Some)
  then show ?thesis by (metis not_None_eq)
qed

locale webhook_kind =
  fixes getFramework :: "string \<Rightarrow> err + string"
  assumes framework_known: "getFramework name = Inr f \<Longrightarrow> f \<in> set (map fst webhooksList)"
    and unknown_panics: "getFramework name = Inl e \<Longrightarrow> is_panic e"
begin

text \<open>The framework of a webhook whose name is registered.\<close>
definition framework_of :: "Webhook \<Rightarrow> string" where
  "framework_of wh = projr (getFramework (wh_Name wh))"

definition registered :: "Webhook \<Rightarrow> bool" where
  "registered wh = is_ok (getFramework (wh_Name wh))"

lemma registeredD: "registered wh \<Longrightarrow> getFramework (wh_Name wh) = Inr (framework_of wh)"
  by (cases "getFramework (wh_Name wh)") (auto simp: registered_def framework_of_def)

lemma keep_enabled_ok:
  "list_all registered whs \<Longrightarrow>
   keep_enabled getFramework en whs = Inr (filter (\<lambda>wh. en (framework_of wh)) whs)"
  by (induction whs) (auto dest: registeredD)

lemma merge_ok:
  "list_all registered whs \<Longrightarrow> mergeNamespaceSelectors getFramework sel whs =
   Inr (map (\<lambda>wh. if isClusterScopedFramework (framework_of wh) then wh
      else wh\<lparr>wh_NamespaceSelector := mergeSelectors (Some sel) (wh_NamespaceSelector wh)\<rparr>) whs)"
  by (induction whs) (auto dest: registeredD)

lemma modify_ok:
  "list_all registered whs \<Longrightarrow> modify_webhooks getFramework cfg whs =
   Inr (map (\<lambda>wh. if isClusterScopedFramework (framework_of wh) then wh
      else wh\<lparr>wh_NamespaceSelector :=
             mergeSelectors (Some defaultLabelSelector) (wh_NamespaceSelector wh)\<rparr>)
     (filter (\<lambda>wh. buildEnabledFrameworks cfg (framework_of wh)) whs))"
  unfolding modify_webhooks_def
  by (subst keep_enabled_ok, assumption, simp, rule merge_ok) (simp add: list_all_iff)

lemma keep_enabled_panics:
  "\<not> list_all registered whs \<Longrightarrow> \<exists>e. keep_enabled getFramework en whs = Inl e \<and> is_panic e"
  by (induction whs)
    (auto simp: registered_def split: sum.splits dest: unknown_panics)

lemma modify_panics:
  "\<not> list_all registered whs \<Longrightarrow> \<exists>e. modify_webhooks getFramework cfg whs = Inl e \<and> is_panic e"
  using keep_enabled_panics[of whs "buildEnabledFrameworks cfg"]
  by (auto simp: modify_webhooks_def)

text \<open>A webhook that is installed for namespaced objects selects exactly the namespaces that opted
  in, among the ones it selected before.\<close>
lemma modify_namespaces:
  assumes "modify_webhooks getFramework cfg whs = Inr out" and "wh' \<in> set out"
    and "\<not> isClusterScopedFramework (framework_of wh')"
  shows "namespace_matches (wh_NamespaceSelector wh') labels \<Longrightarrow>
      labels kueueManagedLabel = Some ''true''"
    and "list_all (\<lambda>wh. plain_selector (wh_NamespaceSelector wh)) whs \<Longrightarrow>
      \<exists>wh \<in> set whs. wh_Name wh = wh_Name wh' \<and>
        (namespace_matches (wh_NamespaceSelector wh') labels \<longleftrightarrow>
         labels kueueManagedLabel = Some ''true'' \<and>
         namespace_matches (wh_NamespaceSelector wh) labels)"
proof -
  have reg: "list_all registered whs"
    using assms(1) modify_panics[of whs cfg] by auto
  obtain wh where wh: "wh \<in> set whs"
    "wh' = (if isClusterScopedFramework (framework_of wh) then wh
       else wh\<lparr>wh_NamespaceSelector :=
              mergeSelectors (Some defaultLabelSelector) (wh_NamespaceSelector wh)\<rparr>)"
    using assms(1,2) unfolding modify_ok[OF reg] by auto
  have "framework_of wh' = framework_of wh"
    unfolding framework_of_def by (subst wh(2)) simp
  with assms(3) have "\<not> isClusterScopedFramework (framework_of wh)" by metis
  then have sel: "wh_Name wh' = wh_Name wh" "wh_NamespaceSelector wh' =
      mergeSelectors (Some defaultLabelSelector) (wh_NamespaceSelector wh)"
    by (subst wh(2), simp)+
  show "namespace_matches (wh_NamespaceSelector wh') labels \<Longrightarrow>
      labels kueueManagedLabel = Some ''true''"
    unfolding sel by (rule mergeSelectors_opt_in)
  show "\<exists>wh \<in> set whs. wh_Name wh = wh_Name wh' \<and>
        (namespace_matches (wh_NamespaceSelector wh') labels \<longleftrightarrow>
         labels kueueManagedLabel = Some ''true'' \<and>
         namespace_matches (wh_NamespaceSelector wh) labels)"
    if "list_all (\<lambda>wh. plain_selector (wh_NamespaceSelector wh)) whs"
  proof -
    have "plain_selector (wh_NamespaceSelector wh)"
      using that wh(1) by (simp add: list_all_iff)
    from mergeSelectors_matches[OF this] sel wh(1) show ?thesis
      by (intro bexI[of _ wh]) (simp_all only:)
  qed
qed

end

lemma framework_or_panic_find:
  "framework_or_panic n (find_framework webhooksList s) = Inr f \<Longrightarrow> f \<in> set (map fst webhooksList)"
  "framework_or_panic n r = Inl e \<Longrightarrow> is_panic e"
  using find_framework_Some[OF webhooksList_distinct(2)]
  by (auto simp: framework_or_panic_def split: option.splits intro: rev_image_eqI)

interpretation validating: webhook_kind getFrameworkForValidatingWebhook
  by unfold_locales
    (simp_all only: getFrameworkForValidatingWebhook_def framework_or_panic_find)

interpretation mutating: webhook_kind getFrameworkForMutatingWebhook
  by unfold_locales
    (simp_all only: getFrameworkForMutatingWebhook_def framework_or_panic_find)

section \<open>Properties\<close>

text \<open>The names in the shipped manifests \<^verbatim>\<open>mutatingwebhook.yaml\<close> and \<^verbatim>\<open>validatingwebhook.yaml\<close>.\<close>
definition mutating_manifest_names :: "string list" where
  "mutating_manifest_names =
    [''mappwrapper.kb.io'', ''mclusterqueue.kb.io'', ''mdeployment.kb.io'', ''mjaxjob.kb.io'',
     ''mjob.kb.io'', ''mjobset.kb.io'', ''mleaderworkerset.kb.io'', ''mmpijob.kb.io'',
     ''mpaddlejob.kb.io'', ''mpod.kb.io'', ''mpytorchjob.kb.io'', ''mraycluster.kb.io'',
     ''mrayjob.kb.io'', ''mrayservice.kb.io'', ''mresourceflavor.kb.io'', ''msparkapplication.kb.io'',
     ''mstatefulset.kb.io'', ''mtfjob.kb.io'', ''mtrainjob.kb.io'', ''mworkload.kb.io'',
     ''mxgboostjob.kb.io'']"

definition validating_manifest_names :: "string list" where
  "validating_manifest_names =
    [''vpod.kb.io'', ''vappwrapper.kb.io'', ''vclusterqueue.kb.io'', ''vcohort.kb.io'',
     ''vdeployment.kb.io'', ''vjaxjob.kb.io'', ''vjob.kb.io'', ''vjobset.kb.io'',
     ''vleaderworkerset.kb.io'', ''vmpijob.kb.io'', ''vpaddlejob.kb.io'', ''vpytorchjob.kb.io'',
     ''vraycluster.kb.io'', ''vrayjob.kb.io'', ''vrayservice.kb.io'', ''vresourceflavor.kb.io'',
     ''vsparkapplication.kb.io'', ''vstatefulset.kb.io'', ''vtfjob.kb.io'', ''vtrainjob.kb.io'',
     ''vworkload.kb.io'', ''vxgboostjob.kb.io'']"

lemmas framework_eval = framework_or_panic_def find_framework_def webhooksList_def string_defs

lemma mutating_manifest_registered:
  "list_all (\<lambda>n. is_ok (getFrameworkForMutatingWebhook n)) mutating_manifest_names"
  by (simp add: mutating_manifest_names_def getFrameworkForMutatingWebhook_def framework_eval)

lemma validating_manifest_registered:
  "list_all (\<lambda>n. is_ok (getFrameworkForValidatingWebhook n)) validating_manifest_names"
  by (simp add: validating_manifest_names_def getFrameworkForValidatingWebhook_def framework_eval)

text \<open>Preparing the webhook configurations of the shipped manifests never panics: every webhook
  in them belongs to a registered framework, so both functions return, whatever the Kueue
  configuration is.\<close>
theorem manifest_webhooks_never_panic:
  assumes "map wh_Name (mwc_Webhooks m) = mutating_manifest_names"
    and "map wh_Name (vwc_Webhooks v) = validating_manifest_names"
  shows "is_ok (ModifyPodBasedMutatingWebhook cfg m) \<and> is_ok (ModifyPodBasedValidatingWebhook cfg v)"
proof -
  have "list_all mutating.registered (mwc_Webhooks m)"
    using mutating_manifest_registered
    unfolding assms(1)[symmetric] mutating.registered_def by (simp add: list_all_iff)
  moreover have "list_all validating.registered (vwc_Webhooks v)"
    using validating_manifest_registered
    unfolding assms(2)[symmetric] validating.registered_def by (simp add: list_all_iff)
  ultimately show ?thesis
    by (simp add: ModifyPodBasedMutatingWebhook_def ModifyPodBasedValidatingWebhook_def
        mutating.modify_ok validating.modify_ok)
qed

text \<open>A webhook with the given name and no selector.\<close>
definition bare_webhook :: "string \<Rightarrow> Webhook" where
  "bare_webhook n = \<lparr>wh_Name = n,
     wh_ClientConfig = \<lparr>wc_URL = None, wc_Service = None, wc_CABundle = []\<rparr>,
     wh_NamespaceSelector = None, wh_Rest = []\<rparr>"

theorem manifest_webhooks_never_panic_witness:
  "is_ok (ModifyPodBasedMutatingWebhook (config_with_frameworks []) \<lparr>mwc_TypeMeta = empty_type,
       mwc_ObjectMeta = empty_meta, mwc_Webhooks = map bare_webhook mutating_manifest_names\<rparr>) \<and>
     is_ok (ModifyPodBasedValidatingWebhook (config_with_frameworks []) \<lparr>vwc_TypeMeta = empty_type,
       vwc_ObjectMeta = empty_meta, vwc_Webhooks = map bare_webhook validating_manifest_names\<rparr>)"
  by (rule manifest_webhooks_never_panic)
    (simp_all add: bare_webhook_def comp_def)


text \<open>Which frameworks are enabled.\<close>
theorem buildEnabledFrameworks_iff:
  "buildEnabledFrameworks cfg fw \<longleftrightarrow>
     fw \<in> set (in_Frameworks (kc_Integrations cfg)) \<or>
     fw = KueueIntegrationPod \<and>
       {KueueIntegrationLeaderWorkerSet, KueueIntegrationStatefulSet, KueueIntegrationDeployment} \<inter>
         set (in_Frameworks (kc_Integrations cfg)) \<noteq> {} \<or>
     fw \<in> {annotationClusterQueue, annotationWorkload, annotationResourceFlavor, annotationCohort}"
  by (auto simp: buildEnabledFrameworks_def Let_def webhooksList_def HasPrefix_def)



text \<open>Go iterates a map in a random order; the framework found for a webhook does not depend
  on it.\<close>
theorem webhook_framework_order_independent:
  assumes "mset table = mset webhooksList"
  shows "find_framework table suffix = find_framework webhooksList suffix"
  using find_framework_order[OF webhooksList_distinct(2)] assms by metis

theorem webhook_framework_order_independent_witness:
  "find_framework (rev webhooksList) ''job'' = Some KueueIntegrationBatchJob"
  using webhook_framework_order_independent[of "rev webhooksList" "''job''"]
  by (simp add: find_framework_def webhooksList_def)

end
