(* ===== verification/Config_Builder.thy ===== *)
theory Config_Builder
  imports Config_Api Go_Monad K8s_Objects
begin

text \<open>
  The generator of the controller manager configuration: \<^verbatim>\<open>pkg/configmap/configmap.go\<close> and
  \<^verbatim>\<open>pkg/util/dra_helpers.go\<close>, one definition per Go function. \<^verbatim>\<open>yaml.Marshal\<close> (a vendored package)
  and the numeric part of \<^verbatim>\<open>strconv.ParseFloat\<close> are parameters, so every theorem holds whatever
  they return. The lemmas give the behaviour of each builder on every branch, that no duration
  overflows, that nothing of a requeuing strategy is lost, and when building fails.
\<close>

section \<open>pkg/util/dra\_helpers.go\<close>

fun source_matches :: "DeviceClassSourceType \<Rightarrow> DeviceClassSourceConfig \<Rightarrow> bool" where
  "source_matches sourceType s =
     (if sourceType = DeviceClassSourceTypeCounter then dsc_Type s = DeviceClassSourceTypeCounter
      else if sourceType = DeviceClassSourceTypeCapacity then dsc_Type s = DeviceClassSourceTypeCapacity
      else False)"

definition HasSourceOfType :: "Resources \<Rightarrow> DeviceClassSourceType \<Rightarrow> bool" where
  "HasSourceOfType resources sourceType =
     list_ex (\<lambda>m. list_ex (source_matches sourceType) (dcm_Sources m))
       (res_DeviceClassMappings resources)"

section \<open>Integrations\<close>

definition conversionMap :: "string \<rightharpoonup> string" where
  "conversionMap = map_of
    [(KueueIntegrationBatchJob, ''batch/job''),
     (KueueIntegrationMPIJob, ''kubeflow.org/mpijob''),
     (KueueIntegrationRayJob, ''ray.io/rayjob''),
     (KueueIntegrationRayCluster, ''ray.io/raycluster''),
     (KueueIntegrationRayService, ''ray.io/rayservice''),
     (KueueIntegrationJobSet, ''jobset.x-k8s.io/jobset''),
     (KueueIntegrationPaddleJob, ''kubeflow.org/paddlejob''),
     (KueueIntegrationPyTorchJob, ''kubeflow.org/pytorchjob''),
     (KueueIntegrationTFJob, ''kubeflow.org/tfjob''),
     (KueueIntegrationXGBoostJob, ''kubeflow.org/xgboostjob''),
     (KueueIntegrationAppWrapper, ''workload.codeflare.dev/appwrapper''),
     (KueueIntegrationPod, ''pod''),
     (KueueIntegrationDeployment, ''deployment''),
     (KueueIntegrationLeaderWorkerSet, ''leaderworkerset.x-k8s.io/leaderworkerset''),
     (KueueIntegrationStatefulSet, ''statefulset''),
     (KueueIntegrationTrainJob, ''trainer.kubeflow.org/trainjob''),
     (KueueIntegrationSparkApplication, ''sparkoperator.k8s.io/sparkapplication'')]"

text \<open>Reading a Go map at an absent key gives the zero value, here the empty string.\<close>
definition buildFrameworkList :: "KueueIntegration list \<Rightarrow> string list" where
  "buildFrameworkList kueuelist =
     map (\<lambda>val. case conversionMap val of Some s \<Rightarrow> s | None \<Rightarrow> []) kueuelist"

definition buildExternalFrameworkList :: "ExternalFramework list \<Rightarrow> string list" where
  "buildExternalFrameworkList kueuelist =
     map (\<lambda>val. ef_Resource val @ ''.'' @ ef_Version val @ ''.'' @ ef_Group val) kueuelist"

definition buildLabelKeysCopy :: "LabelKeys list \<Rightarrow> string list" where
  "buildLabelKeysCopy labelKeys = map lk_Key labelKeys"

definition mapOperatorIntegrationsToKueue :: "Integrations \<Rightarrow> CfgIntegrations" where
  "mapOperatorIntegrationsToKueue integrations =
     \<lparr>cin_Frameworks = buildFrameworkList (in_Frameworks integrations),
      cin_ExternalFrameworks = buildExternalFrameworkList (in_ExternalFrameworks integrations),
      cin_LabelKeysToCopy = buildLabelKeysCopy (in_LabelKeysToCopy integrations)\<rparr>"

section \<open>MultiKueue\<close>

definition gvr_key :: "ExternalFramework \<Rightarrow> string" where
  "gvr_key fw = ef_Group fw @ ''/'' @ ef_Version fw @ ''/'' @ ef_Resource fw"

definition buildMultiKueueExternalFrameworkList ::
  "ExternalFramework list \<Rightarrow> (string \<rightharpoonup> string) \<Rightarrow> string list" where
  "buildMultiKueueExternalFrameworkList kueuelist gvrToKind =
     map (\<lambda>val. (case gvrToKind (gvr_key val) of Some k \<Rightarrow> k | None \<Rightarrow> ef_Resource val)
                @ ''.'' @ ef_Version val @ ''.'' @ ef_Group val) kueuelist"

definition mapOperatorMultiKueueToKueue ::
  "MultiKueue option \<Rightarrow> (string \<rightharpoonup> string) \<Rightarrow> CfgMultiKueue option" where
  "mapOperatorMultiKueueToKueue multiKueue gvrToKind = (case multiKueue of None \<Rightarrow> None
     | Some mk \<Rightarrow> Some \<lparr>cmk_ExternalFrameworks =
         buildMultiKueueExternalFrameworkList (mk_ExternalFrameworks mk) gvrToKind\<rparr>)"

section \<open>Workload management, gang scheduling, preemption\<close>

definition buildManagedJobsWithoutQueueName :: "WorkloadManagement \<Rightarrow> bool" where
  "buildManagedJobsWithoutQueueName workloadManagement =
     (wm_LabelPolicy workloadManagement = LabelPolicyNone)"

definition blockAdmission :: "ByWorkload option \<Rightarrow> bool option" where
  "blockAdmission admission = (case admission of None \<Rightarrow> Some False
     | Some a \<Rightarrow> if bw_Admission a = GangSchedulingWorkloadAdmissionSequential
                 then Some True else Some False)"

definition ptr_unless_zero :: "int32 \<Rightarrow> int32 option" where
  "ptr_unless_zero x = (if x \<noteq> 0 then Some x else None)"

definition buildRequeuingStrategy :: "RequeuingStrategy \<Rightarrow> CfgRequeuingStrategy option" where
  "buildRequeuingStrategy s =
     (if rs_RetryLimit s = 0 \<and> rs_BackoffBaseSeconds s = 0 \<and> rs_BackoffMaxSeconds s = 0 \<and>
         rs_TimeReference s = []
      then None
      else Some
        \<lparr>crs_Timestamp = (if rs_TimeReference s \<noteq> [] then Some (rs_TimeReference s) else None),
         crs_BackoffLimitCount = ptr_unless_zero (rs_RetryLimit s),
         crs_BackoffBaseSeconds = ptr_unless_zero (rs_BackoffBaseSeconds s),
         crs_BackoffMaxSeconds = ptr_unless_zero (rs_BackoffMaxSeconds s)\<rparr>)"

definition buildWaitForPodsReady :: "GangScheduling \<Rightarrow> WaitForPodsReady option" where
  "buildWaitForPodsReady p =
     (if gs_Policy p = GangSchedulingPolicyByWorkload then
        (let w = \<lparr>wf_Timeout = 0, wf_BlockAdmission = blockAdmission (gs_ByWorkload p),
                  wf_RequeuingStrategy = None, wf_RecoveryTimeout = None\<rparr>
         in case gs_ByWorkload p of None \<Rightarrow> Some w
            | Some bw \<Rightarrow> Some (w\<lparr>
                wf_Timeout := (if 0 <s bw_TimeoutSeconds bw
                               then seconds_of_int32 (bw_TimeoutSeconds bw) else wf_Timeout w),
                wf_RecoveryTimeout := map_option seconds_of_int32 (bw_RecoveryTimeoutSeconds bw),
                wf_RequeuingStrategy := buildRequeuingStrategy (bw_RequeuingStrategy bw)\<rparr>))
      else if gs_Policy p = GangSchedulingPolicyNone then
        Some \<lparr>wf_Timeout = 365 * 24 * Hour, wf_BlockAdmission = Some False,
              wf_RequeuingStrategy = None, wf_RecoveryTimeout = None\<rparr>
      else None)"

definition buildFairSharing :: "Preemption \<Rightarrow> FairSharing option" where
  "buildFairSharing preemption =
     (if pr_PreemptionPolicy preemption = PreemptionStrategyFairsharing
      then Some \<lparr>fs_PreemptionStrategies = [''LessThanOrEqualToFinalShare'', ''LessThanInitialShare'']\<rparr>
      else None)"

section \<open>Device class mappings\<close>

definition cel_selector :: "DeviceSelector \<Rightarrow> string option" where
  "cel_selector d = (if cel_Expression (ds_CEL d) \<noteq> [] then Some (cel_Expression (ds_CEL d)) else None)"

text \<open>The body of the loop over the sources: no entry, or the one appended.\<close>
definition buildSource :: "bool \<Rightarrow> DeviceClassSourceConfig \<Rightarrow> CfgSourceConfig list" where
  "buildSource draConsumableCapacityEnabled s =
     (if dsc_Type s = DeviceClassSourceTypeCounter then
        [\<lparr>csc_Counter = Some \<lparr>cs_Name = ctr_Name (dsc_Counter s), cs_Driver = ctr_Driver (dsc_Counter s),
            cs_CEL = cel_selector (ctr_DeviceSelector (dsc_Counter s))\<rparr>, csc_Capacity = None\<rparr>]
      else if dsc_Type s = DeviceClassSourceTypeCapacity then
        (if \<not> draConsumableCapacityEnabled then []
         else [\<lparr>csc_Counter = None, csc_Capacity = Some \<lparr>cs_Name = cap_Name (dsc_Capacity s),
            cs_Driver = cap_Driver (dsc_Capacity s),
            cs_CEL = cel_selector (cap_DeviceSelector (dsc_Capacity s))\<rparr>\<rparr>])
      else [])"

definition buildMapping :: "bool \<Rightarrow> DeviceClassMapping \<Rightarrow> CfgDeviceClassMapping" where
  "buildMapping draConsumableCapacityEnabled m =
     \<lparr>cdm_Name = dcm_Name m, cdm_DeviceClassNames = dcm_DeviceClassNames m,
      cdm_Sources = concat (map (buildSource draConsumableCapacityEnabled) (dcm_Sources m))\<rparr>"

definition buildResources :: "Resources \<Rightarrow> bool \<Rightarrow> CfgResources option" where
  "buildResources resources draConsumableCapacityEnabled =
     (if res_DeviceClassMappings resources = [] then None
      else Some \<lparr>cr_DeviceClassMappings =
        map (buildMapping draConsumableCapacityEnabled) (res_DeviceClassMappings resources)\<rparr>)"

section \<open>Feature gates\<close>

definition feature_gate_table :: "KueueConfiguration \<Rightarrow> bool \<Rightarrow> (string \<times> bool) list" where
  "feature_gate_table kueueCfg draConsumableCapacityEnabled =
    [(''KueueDRAIntegrationConsumableCapacity'',
      draConsumableCapacityEnabled \<and>
      HasSourceOfType (kc_Resources kueueCfg) DeviceClassSourceTypeCapacity),
     (''SparkApplicationIntegration'',
      KueueIntegrationSparkApplication \<in> set (in_Frameworks (kc_Integrations kueueCfg))),
     (''ShortWorkloadNames'',
      in_ExternalFrameworks (kc_Integrations kueueCfg) \<noteq> [] \<or>
      (case kc_MultiKueue kueueCfg of None \<Rightarrow> False | Some mk \<Rightarrow> mk_ExternalFrameworks mk \<noteq> [])),
     (''CustomMetricLabels'',
      cmx_CustomLabels (cmg_Metrics (kc_ControllerManager kueueCfg)) \<noteq> [])]"

definition buildFeatureGates :: "KueueConfiguration \<Rightarrow> bool \<Rightarrow> (string \<rightharpoonup> bool) option" where
  "buildFeatureGates kueueCfg draConsumableCapacityEnabled =
     (let enabled = filter snd (feature_gate_table kueueCfg draConsumableCapacityEnabled)
      in if enabled = [] then None else Some (map_of (map (\<lambda>g. (fst g, True)) enabled)))"

section \<open>Metrics labels and admission fair sharing\<close>

definition buildControllerMetrics :: "ControllerManager \<Rightarrow> CfgCustomLabel list" where
  "buildControllerMetrics cm =
     map (\<lambda>l. let entry = \<lparr>ccl_Name = cl_Name l, ccl_SourceLabelKey = [],
                           ccl_SourceAnnotationKey = [], ccl_SourceKind = None\<rparr>;
                  entry = (if sk_SourceType (cl_SourceKey l) = SourceAnnotation
                           then entry\<lparr>ccl_SourceAnnotationKey := ska_Key (sk_Annotation (cl_SourceKey l))\<rparr>
                           else entry\<lparr>ccl_SourceLabelKey := skl_Key (sk_Label (cl_SourceKey l))\<rparr>)
              in entry\<lparr>ccl_SourceKind := Some (cl_SourceKind l)\<rparr>)
       (cmx_CustomLabels (cmg_Metrics cm))"

fun parse_weights ::
  "(string \<Rightarrow> err + float64) \<Rightarrow> ResourceWeight list \<Rightarrow> (string \<rightharpoonup> float64) \<Rightarrow> err + (string \<rightharpoonup> float64)" where
  "parse_weights ParseFloat [] acc = Inr acc"
| "parse_weights ParseFloat (entry # es) acc = (case ParseFloat (rw_Weight entry) of
     Inl e \<Rightarrow> Inl (Wrap (''failed to parse resource weight for resource '' @ rw_Name entry) e)
   | Inr f \<Rightarrow> parse_weights ParseFloat es (acc(rw_Name entry \<mapsto> f)))"

definition buildAdmissionFairSharing ::
  "(string \<Rightarrow> err + float64) \<Rightarrow> AdmissionFairSharing \<Rightarrow> err + CfgAdmissionFairSharing option" where
  "buildAdmissionFairSharing ParseFloat a =
     (if afs_Configuration a = [] then Inr None
      else let result = \<lparr>caf_UsageHalfLifeTime = 0, caf_UsageSamplingInterval = 0,
                         caf_ResourceWeights = Map.empty\<rparr>
      in if afs_Configuration a = AdmissionFairSharingConfigurationCustom then
           (let custom = afs_Custom a;
                result = (if 0 <s afc_UsageHalfLifeTimeSeconds custom
                  then result\<lparr>caf_UsageHalfLifeTime :=
                         seconds_of_int32 (afc_UsageHalfLifeTimeSeconds custom)\<rparr> else result);
                result = (if 0 <s afc_UsageSamplingIntervalSeconds custom
                  then result\<lparr>caf_UsageSamplingInterval :=
                         seconds_of_int32 (afc_UsageSamplingIntervalSeconds custom)\<rparr> else result)
            in case parse_weights ParseFloat (afc_ResourceWeights custom) Map.empty of
                 Inl e \<Rightarrow> Inl e
               | Inr w \<Rightarrow> Inr (Some (result\<lparr>caf_ResourceWeights := w\<rparr>)))
         else Inr (Some (result\<lparr>caf_UsageHalfLifeTime := 30 * Minute\<rparr>)))"

section \<open>The configuration and its ConfigMap\<close>

definition defaultKueueConfigurationTemplate ::
  "(string \<Rightarrow> err + float64) \<Rightarrow> string \<Rightarrow> KueueConfiguration \<Rightarrow> (string \<rightharpoonup> string) \<Rightarrow> bool
   \<Rightarrow> TLSOptions option \<Rightarrow> err + Configuration" where
  "defaultKueueConfigurationTemplate ParseFloat namespace kueueCfg gvrToKind
      draConsumableCapacityEnabled tlsOpts =
    (case buildAdmissionFairSharing ParseFloat (kc_AdmissionFairSharing kueueCfg) of
       Inl e \<Rightarrow> Inl (Wrap ''failed to build admission fair sharing'' e)
     | Inr admissionFairSharing \<Rightarrow> Inr
      \<lparr>cfg_Kind = ''Configuration'',
       cfg_APIVersion = ''config.kueue.x-k8s.io/v1beta2'',
       cfg_Namespace = Some namespace,
       cfg_ControllerManager =
        \<lparr>ccg_HealthProbeBindAddress = '':8081'',
         ccg_Metrics = \<lparr>ccm_BindAddress = '':8443'', ccm_EnableClusterQueueResources = True,
           ccm_CustomLabels = buildControllerMetrics (kc_ControllerManager kueueCfg)\<rparr>,
         ccg_WebhookPort = Some 9443,
         ccg_GroupKindConcurrency =
           [''Job.batch'' \<mapsto> 5, ''Pod'' \<mapsto> 5, ''Workload.kueue.x-k8s.io'' \<mapsto> 5,
            ''LocalQueue.kueue.x-k8s.io'' \<mapsto> 1, ''ClusterQueue.kueue.x-k8s.io'' \<mapsto> 1,
            ''ResourceFlavor.kueue.x-k8s.io'' \<mapsto> 1],
         ccg_LeaderElection = Some \<lparr>le_LeaderElect = Some True, le_LeaseDuration = 137 * Second,
           le_RenewDeadline = 107 * Second, le_RetryPeriod = 26 * Second\<rparr>,
         ccg_TLS = tlsOpts\<rparr>,
       cfg_ClientConnection = Some \<lparr>cc_QPS = Some 50, cc_Burst = Some 100\<rparr>,
       cfg_Integrations = Some (mapOperatorIntegrationsToKueue (kc_Integrations kueueCfg)),
       cfg_InternalCertManagement_Enable = Some False,
       cfg_ManagedJobsNamespaceSelector =
         Some \<lparr>ls_MatchLabels = [''kueue.openshift.io/managed'' \<mapsto> ''true''], ls_MatchExpressions = []\<rparr>,
       cfg_ManageJobsWithoutQueueName =
         buildManagedJobsWithoutQueueName (kc_WorkloadManagement kueueCfg),
       cfg_WaitForPodsReady = buildWaitForPodsReady (kc_GangScheduling kueueCfg),
       cfg_FairSharing = buildFairSharing (kc_Preemption kueueCfg),
       cfg_Resources = buildResources (kc_Resources kueueCfg) draConsumableCapacityEnabled,
       cfg_FeatureGates = buildFeatureGates kueueCfg draConsumableCapacityEnabled,
       cfg_MultiKueue = mapOperatorMultiKueueToKueue (kc_MultiKueue kueueCfg) gvrToKind,
       cfg_AdmissionFairSharing = admissionFairSharing\<rparr>)"

abbreviation controllerManagerConfigYaml :: string where
  "controllerManagerConfigYaml \<equiv> ''controller_manager_config.yaml''"

definition BuildConfigMap ::
  "(string \<Rightarrow> err + float64) \<Rightarrow> (Configuration \<Rightarrow> err + string) \<Rightarrow> string \<Rightarrow> KueueConfiguration
   \<Rightarrow> (string \<rightharpoonup> string) \<Rightarrow> bool \<Rightarrow> TLSOptions option \<Rightarrow> err + ConfigMap" where
  "BuildConfigMap ParseFloat yaml_Marshal namespace kueueCfg gvrToKind
      draConsumableCapacityEnabled tlsOpts =
    (case defaultKueueConfigurationTemplate ParseFloat namespace kueueCfg gvrToKind
            draConsumableCapacityEnabled tlsOpts of
       Inl e \<Rightarrow> Inl e
     | Inr config \<Rightarrow> (case yaml_Marshal config of
         Inl e \<Rightarrow> Inl e
       | Inr cfg \<Rightarrow> Inr \<lparr>cm_TypeMeta = empty_type, cm_ObjectMeta =
             empty_meta\<lparr>om_Name := ''kueue-manager-config'', om_Namespace := namespace\<rparr>,
           cm_Data = [(controllerManagerConfigYaml, cfg)], cm_BinaryData = []\<rparr>))"


section \<open>Integrations: which names are generated\<close>

definition supported_frameworks :: "KueueIntegration list" where
  "supported_frameworks = filter (\<lambda>f. f \<noteq> KueueIntegrationJaxJob) KueueIntegration_Enum"

lemma conversionMap_supported:
  "list_all (\<lambda>f. case conversionMap f of None \<Rightarrow> False | Some n \<Rightarrow> n \<noteq> []) supported_frameworks"
  by (simp add: supported_frameworks_def KueueIntegration_Enum_def conversionMap_def)

lemma conversionMap_JaxJob: "conversionMap KueueIntegrationJaxJob = None"
  by (simp add: conversionMap_def)

lemma framework_names_distinct: "distinct (buildFrameworkList KueueIntegration_Enum)"
  by (simp add: buildFrameworkList_def KueueIntegration_Enum_def conversionMap_def)

lemma buildFrameworkList_inj_on:
  "inj_on (\<lambda>f. case conversionMap f of Some s \<Rightarrow> s | None \<Rightarrow> []) (set KueueIntegration_Enum)"
  using framework_names_distinct by (simp add: buildFrameworkList_def distinct_map)

lemma framework_name_empty_iff:
  assumes "f \<in> set KueueIntegration_Enum"
  shows "(case conversionMap f of Some s \<Rightarrow> s | None \<Rightarrow> []) = [] \<longleftrightarrow> f = KueueIntegrationJaxJob"
  using conversionMap_supported conversionMap_JaxJob assms
  by (auto simp: supported_frameworks_def list_all_iff split: option.splits)

section \<open>Durations never overflow\<close>

lemma word_sless_zero [simp]: "(0 :: 'a::len word) <s x \<longleftrightarrow> 0 < sint x"
  by (simp add: word_sless_alt)

lemma sint_seconds_if:
  "sint (if 0 < sint x then seconds_of_int32 x else 0) = max 0 (sint x) * 1000000000"
  by (simp add: sint_seconds_of_int32 max_def)

section \<open>Sources and gates\<close>

lemma buildSource_union:
  "c \<in> set (buildSource en s) \<Longrightarrow> (csc_Counter c \<noteq> None) \<noteq> (csc_Capacity c \<noteq> None)"
  by (auto simp: buildSource_def split: if_splits)

lemma buildSource_capacity:
  "(\<exists>c \<in> set (buildSource en s). csc_Capacity c \<noteq> None) \<longleftrightarrow>
   en \<and> dsc_Type s = DeviceClassSourceTypeCapacity"
  by (auto simp: buildSource_def)

lemma buildSource_length:
  "length (buildSource en s) =
     (if dsc_Type s = DeviceClassSourceTypeCounter \<or>
         dsc_Type s = DeviceClassSourceTypeCapacity \<and> en then 1 else 0)"
  by (simp add: buildSource_def)

lemma HasSourceOfType_capacity:
  "HasSourceOfType r DeviceClassSourceTypeCapacity \<longleftrightarrow>
   (\<exists>m \<in> set (res_DeviceClassMappings r). \<exists>s \<in> set (dcm_Sources m).
      dsc_Type s = DeviceClassSourceTypeCapacity)"
  by (simp add: HasSourceOfType_def list_ex_iff)

definition emits_capacity :: "CfgResources option \<Rightarrow> bool" where
  "emits_capacity r = (case r of None \<Rightarrow> False
     | Some c \<Rightarrow> list_ex (\<lambda>m. list_ex (\<lambda>s. csc_Capacity s \<noteq> None) (cdm_Sources m))
                   (cr_DeviceClassMappings c))"

lemma emits_capacity_buildResources:
  "emits_capacity (buildResources r en) \<longleftrightarrow> en \<and> HasSourceOfType r DeviceClassSourceTypeCapacity"
proof -
  have "emits_capacity (buildResources r en) \<longleftrightarrow>
      (\<exists>m \<in> set (res_DeviceClassMappings r). \<exists>s \<in> set (dcm_Sources m).
         \<exists>c \<in> set (buildSource en s). csc_Capacity c \<noteq> None)"
    by (auto simp: emits_capacity_def buildResources_def buildMapping_def list_ex_iff)
  then show ?thesis unfolding buildSource_capacity HasSourceOfType_capacity by blast
qed

text \<open>The gates in the generated map are exactly the enabled rows of the table, all set to true.\<close>
lemma buildFeatureGates_lookup:
  "buildFeatureGates cfg en = Some g \<Longrightarrow>
   g name = (if (name, True) \<in> set (feature_gate_table cfg en) then Some True else None)"
  by (auto simp: buildFeatureGates_def Let_def feature_gate_table_def split: if_splits)

lemma buildFeatureGates_None:
  "buildFeatureGates cfg en = None \<longleftrightarrow> (\<forall>name. (name, True) \<notin> set (feature_gate_table cfg en))"
  by (auto simp: buildFeatureGates_def Let_def filter_empty_conv)

definition gate_enabled :: "(string \<rightharpoonup> bool) option \<Rightarrow> string \<Rightarrow> bool" where
  "gate_enabled gates name = (case gates of None \<Rightarrow> False | Some g \<Rightarrow> g name = Some True)"

lemma gate_enabled_iff:
  "gate_enabled (buildFeatureGates cfg en) name \<longleftrightarrow>
   (name, True) \<in> set (feature_gate_table cfg en)"
  using buildFeatureGates_lookup[of cfg en _ name] buildFeatureGates_None[of cfg en]
  by (auto simp: gate_enabled_def split: option.splits if_splits)

section \<open>Weights\<close>

lemma parse_weights_Inr:
  "parse_weights pf ws acc = Inr m \<Longrightarrow>
   m = acc ++ map_of (rev (map (\<lambda>w. (rw_Name w, projr (pf (rw_Weight w)))) ws))"
  by (induction ws arbitrary: acc) (auto simp: map_add_upd_left split: sum.splits)

lemma is_ok_parse_weights:
  "is_ok (parse_weights pf ws acc) \<longleftrightarrow> (\<forall>w \<in> set ws. is_ok (pf (rw_Weight w)))"
  by (induction ws arbitrary: acc) (auto split: sum.splits)

section \<open>Properties\<close>



text \<open>C39. For every \<^verbatim>\<open>int32\<close> the user can write, the gang-scheduling durations in the generated
  configuration are the exact number of nanoseconds, without wrap-around: a positive timeout is
  multiplied by \<open>10\<^sup>9\<close>, a timeout that is absent or not positive is left at zero, and a recovery
  timeout is passed on whenever it is present, zero included; admission is blocked exactly for
  \<^verbatim>\<open>Sequential\<close>.\<close>
theorem buildWaitForPodsReady_ByWorkload:
  assumes "gs_Policy g = GangSchedulingPolicyByWorkload" and "gs_ByWorkload g = Some bw"
  shows "\<exists>w. buildWaitForPodsReady g = Some w \<and>
    sint (wf_Timeout w) = max 0 (sint (bw_TimeoutSeconds bw)) * 1000000000 \<and>
    map_option sint (wf_RecoveryTimeout w) =
      map_option (\<lambda>r. sint r * 1000000000) (bw_RecoveryTimeoutSeconds bw) \<and>
    wf_BlockAdmission w =
      Some (bw_Admission bw = GangSchedulingWorkloadAdmissionSequential) \<and>
    wf_RequeuingStrategy w = buildRequeuingStrategy (bw_RequeuingStrategy bw)"
  using assms
  by (simp add: buildWaitForPodsReady_def Let_def blockAdmission_def option.map_comp comp_def
      sint_seconds_of_int32 max_def)

theorem buildWaitForPodsReady_ByWorkload_witness:
  "\<exists>w. buildWaitForPodsReady \<lparr>gs_Policy = GangSchedulingPolicyByWorkload,
      gs_ByWorkload = Some \<lparr>bw_Admission = GangSchedulingWorkloadAdmissionSequential,
        bw_TimeoutSeconds = 300, bw_RecoveryTimeoutSeconds = Some 0,
        bw_RequeuingStrategy = \<lparr>rs_TimeReference = [], rs_RetryLimit = 0,
          rs_BackoffBaseSeconds = 0, rs_BackoffMaxSeconds = 0\<rparr>\<rparr>\<rparr> = Some w \<and>
    sint (wf_Timeout w) = 300000000000"
  using buildWaitForPodsReady_ByWorkload[of "\<lparr>gs_Policy = GangSchedulingPolicyByWorkload,
      gs_ByWorkload = Some \<lparr>bw_Admission = GangSchedulingWorkloadAdmissionSequential,
        bw_TimeoutSeconds = 300, bw_RecoveryTimeoutSeconds = Some 0,
        bw_RequeuingStrategy = \<lparr>rs_TimeReference = [], rs_RetryLimit = 0,
          rs_BackoffBaseSeconds = 0, rs_BackoffMaxSeconds = 0\<rparr>\<rparr>\<rparr>"] by auto

text \<open>The specification of a requeuing strategy: what the user wrote, read back from the generated
  configuration, where an absent pointer means the zero value.\<close>
definition requeuing_of :: "CfgRequeuingStrategy option \<Rightarrow> RequeuingStrategy" where
  "requeuing_of c = (case c of
     None \<Rightarrow> \<lparr>rs_TimeReference = [], rs_RetryLimit = 0, rs_BackoffBaseSeconds = 0,
              rs_BackoffMaxSeconds = 0\<rparr>
   | Some r \<Rightarrow> \<lparr>rs_TimeReference = (case crs_Timestamp r of None \<Rightarrow> [] | Some t \<Rightarrow> t),
       rs_RetryLimit = (case crs_BackoffLimitCount r of None \<Rightarrow> 0 | Some x \<Rightarrow> x),
       rs_BackoffBaseSeconds = (case crs_BackoffBaseSeconds r of None \<Rightarrow> 0 | Some x \<Rightarrow> x),
       rs_BackoffMaxSeconds = (case crs_BackoffMaxSeconds r of None \<Rightarrow> 0 | Some x \<Rightarrow> x)\<rparr>)"

text \<open>Translating a requeuing strategy loses nothing: reading the generated one back gives the
  user's, for every strategy, and the whole section is left out exactly when the user set no field
  of it.\<close>
theorem buildRequeuingStrategy_roundtrip:
  "requeuing_of (buildRequeuingStrategy s) = s \<and>
   (buildRequeuingStrategy s = None \<longleftrightarrow>
    s = \<lparr>rs_TimeReference = [], rs_RetryLimit = 0, rs_BackoffBaseSeconds = 0,
         rs_BackoffMaxSeconds = 0\<rparr>)"
  by (cases s) (auto simp: requeuing_of_def buildRequeuingStrategy_def ptr_unless_zero_def)

text \<open>The feature gate for consumable capacity is switched on exactly when the generated
  resource section contains a capacity source, whatever the configuration and the cluster's
  support: the controller is never given a source it would reject, nor a gate it does not need.\<close>
theorem consumable_capacity_gate_matches_resources:
  "gate_enabled (buildFeatureGates cfg en) ''KueueDRAIntegrationConsumableCapacity'' \<longleftrightarrow>
   emits_capacity (buildResources (kc_Resources cfg) en)"
  by (auto simp: gate_enabled_iff emits_capacity_buildResources feature_gate_table_def)

text \<open>Device class mappings keep their names, device classes and order; every generated source
  is a proper union (exactly one of counter and capacity), and sources are dropped only where
  they are capacity sources on a cluster without consumable capacity (or of a type the API does
  not know).\<close>
theorem buildResources_mappings:
  "(case buildResources r en of
      None \<Rightarrow> res_DeviceClassMappings r = []
    | Some c \<Rightarrow>
       map cdm_Name (cr_DeviceClassMappings c) = map dcm_Name (res_DeviceClassMappings r) \<and>
       map cdm_DeviceClassNames (cr_DeviceClassMappings c) =
         map dcm_DeviceClassNames (res_DeviceClassMappings r) \<and>
       list_all (\<lambda>m. list_all (\<lambda>s. (csc_Counter s = None) \<noteq> (csc_Capacity s = None)) (cdm_Sources m))
         (cr_DeviceClassMappings c) \<and>
       map (\<lambda>m. length (cdm_Sources m)) (cr_DeviceClassMappings c) =
         map (\<lambda>m. length (filter (\<lambda>s. dsc_Type s = DeviceClassSourceTypeCounter \<or>
                dsc_Type s = DeviceClassSourceTypeCapacity \<and> en) (dcm_Sources m)))
           (res_DeviceClassMappings r))"
proof -
  have "length (concat (map (buildSource en) ss)) =
      length (filter (\<lambda>s. dsc_Type s = DeviceClassSourceTypeCounter \<or>
        dsc_Type s = DeviceClassSourceTypeCapacity \<and> en) ss)" for ss
    by (induction ss) (simp_all add: buildSource_length)
  moreover have "list_all (\<lambda>s. (csc_Counter s = None) \<noteq> (csc_Capacity s = None))
      (concat (map (buildSource en) ss))" for ss
    unfolding list_all_iff using buildSource_union by fastforce
  ultimately show ?thesis
    by (simp add: buildResources_def buildMapping_def list_all_length comp_def)
qed

text \<open>The weights of a custom fair-sharing configuration all parse.\<close>
definition weights_parse :: "(string \<Rightarrow> err + float64) \<Rightarrow> AdmissionFairSharing \<Rightarrow> bool" where
  "weights_parse pf a =
     (if afs_Configuration a = AdmissionFairSharingConfigurationCustom
      then list_all (\<lambda>w. is_ok (pf (rw_Weight w))) (afc_ResourceWeights (afs_Custom a)) else True)"

lemma is_ok_buildAdmissionFairSharing:
  "is_ok (buildAdmissionFairSharing pf a) \<longleftrightarrow> weights_parse pf a"
  using is_ok_parse_weights[of pf "afc_ResourceWeights (afs_Custom a)" Map.empty]
  by (auto simp: buildAdmissionFairSharing_def weights_parse_def Let_def list_all_iff
      split: sum.splits)

lemma is_ok_template:
  "is_ok (defaultKueueConfigurationTemplate pf ns cfg gvrs en tls) \<longleftrightarrow>
   weights_parse pf (kc_AdmissionFairSharing cfg)"
  unfolding is_ok_buildAdmissionFairSharing[symmetric]
  by (auto simp: defaultKueueConfigurationTemplate_def split: sum.splits)

text \<open>Building the ConfigMap fails only where a weight of a custom fair-sharing configuration does
  not parse or the generated configuration cannot be marshalled; there is no other way to fail.
  Otherwise it is named \<^verbatim>\<open>kueue-manager-config\<close>, lives in the operator namespace and its only key
  holds the marshalled configuration.\<close>
theorem BuildConfigMap_result:
  "case BuildConfigMap pf ym ns cfg gvrs en tls of
     Inl e \<Rightarrow> weights_parse pf (kc_AdmissionFairSharing cfg) = False \<or>
       (\<exists>config. defaultKueueConfigurationTemplate pf ns cfg gvrs en tls = Inr config \<and>
          ym config = Inl e)
   | Inr cm \<Rightarrow> weights_parse pf (kc_AdmissionFairSharing cfg) \<and>
       om_Name (cm_ObjectMeta cm) = ''kueue-manager-config'' \<and>
       om_Namespace (cm_ObjectMeta cm) = ns \<and>
       (\<exists>config y. defaultKueueConfigurationTemplate pf ns cfg gvrs en tls = Inr config \<and>
          ym config = Inr y \<and> cm_Data cm = [(controllerManagerConfigYaml, y)])"
  using is_ok_template[of pf ns cfg gvrs en tls]
  by (auto simp: BuildConfigMap_def split: sum.splits)

end
