(* ===== verification/Managed_Resources.thy ===== *)
theory Managed_Resources
  imports Resource_Apply Cert_Manager Pod_Webhook Config_Builder
begin

text \<open>
  The resources the reconciler manages, one definition per \<^verbatim>\<open>manage...\<close>, \<^verbatim>\<open>adjust...\<close> and
  \<^verbatim>\<open>apply...WithCache\<close> method of \<^verbatim>\<open>target_config_reconciler.go\<close>. A method that writes into
  \<^verbatim>\<open>specAnnotations\<close> takes the map and returns the new one. The embedded assets are fields of the
  environment, and reading one that is missing is a panic (\<^verbatim>\<open>MustAsset\<close>, \<^verbatim>\<open>Read...OrDie\<close>).
\<close>

section \<open>Names\<close>

abbreviation KueueConfigMap :: string where "KueueConfigMap \<equiv> ''kueue-manager-config''"
abbreviation KueueFinalizer :: string where "KueueFinalizer \<equiv> ''kueue.openshift.io/finalizer''"
abbreviation groupCertManager :: string where "groupCertManager \<equiv> ''cert-manager.io''"
abbreviation kindIssuer :: string where "kindIssuer \<equiv> ''Issuer''"
abbreviation certManagerAPIVersion :: string where "certManagerAPIVersion \<equiv> ''cert-manager.io/v1''"
abbreviation kueueAPIVersion :: string where "kueueAPIVersion \<equiv> ''kueue.openshift.io/v1''"
abbreviation kindKueue :: string where "kindKueue \<equiv> ''Kueue''"
abbreviation secretMetricsServerCert :: string where "secretMetricsServerCert \<equiv> ''metrics-server-cert''"
abbreviation certMetricsCerts :: string where "certMetricsCerts \<equiv> ''metrics-certs''"
abbreviation secretKueueVisibilityServerCert :: string where
  "secretKueueVisibilityServerCert \<equiv> ''kueue-visibility-server-cert''"
abbreviation appLabelName :: string where "appLabelName \<equiv> ''app.kubernetes.io/name''"
abbreviation appLabelComponent :: string where "appLabelComponent \<equiv> ''app.kubernetes.io/component''"
abbreviation keyCaCrt :: string where "keyCaCrt \<equiv> ''ca.crt''"
abbreviation keyTlsCrt :: string where "keyTlsCrt \<equiv> ''tls.crt''"
abbreviation keyTlsKey :: string where "keyTlsKey \<equiv> ''tls.key''"
abbreviation kueueManagerRoleName :: string where "kueueManagerRoleName \<equiv> ''kueue-manager-role''"
abbreviation kueueMutatingWebhookConfigurationName :: string where
  "kueueMutatingWebhookConfigurationName \<equiv> ''kueue-mutating-webhook-configuration''"
abbreviation kueueValidatingWebhookConfigurationName :: string where
  "kueueValidatingWebhookConfigurationName \<equiv> ''kueue-validating-webhook-configuration''"
abbreviation OperandName :: string where "OperandName \<equiv> ''kueue-controller-manager''"

definition asset :: "string \<Rightarrow> string" where
  "asset file = ''assets/kueue-operator/'' @ file"

text \<open>\<^verbatim>\<open>resourceread.Read...OrDie(bindata.MustAsset(path))\<close>.\<close>
definition read_asset :: "(string \<rightharpoonup> 'a) \<Rightarrow> string \<Rightarrow> (World, 'a) go" where
  "read_asset assets path = (case assets path of
     None \<Rightarrow> go_throw (Panic (''asset: '' @ path)) | Some x \<Rightarrow> go_return x)"

definition hash_go :: "Env \<Rightarrow> hashable \<Rightarrow> string \<Rightarrow> (World, string) go" where
  "hash_go env obj msg = (case computeSpecHash env obj of
     Inl e \<Rightarrow> go_throw (Wrap msg e) | Inr h \<Rightarrow> go_return h)"

type_synonym annotations = "(string, string) gomap"

section \<open>Applying through the informer cache\<close>

definition apply_with_cache ::
  "Env \<Rightarrow> 'o client \<Rightarrow> string \<Rightarrow> 'o \<Rightarrow> (World, 'o \<times> bool) go \<Rightarrow> (World, 'o \<times> bool) go" where
  "apply_with_cache env cl ns required apply_required =
     go_bind (go_try (lister_Get env cl ns (obj_name cl required))) (\<lambda>r. case r of
        Inl err \<Rightarrow> if \<not> IsNotFound err then go_throw err else remember env cl required apply_required
      | Inr existing \<Rightarrow> go_bind (SafeToSkipApply env cl required existing) (\<lambda>skip.
          if skip then go_return (existing, False) else remember env cl required apply_required))"

definition applyClusterRoleWithCache :: "Env \<Rightarrow> ClusterRole \<Rightarrow> (World, ClusterRole \<times> bool) go" where
  "applyClusterRoleWithCache env required =
     apply_with_cache env (ClusterRoles env) [] required (ApplyClusterRole env required)"

definition applyClusterRoleBindingWithCache ::
  "Env \<Rightarrow> ClusterRoleBinding \<Rightarrow> (World, ClusterRoleBinding \<times> bool) go" where
  "applyClusterRoleBindingWithCache env required =
     apply_with_cache env (ClusterRoleBindings env) [] required (ApplyClusterRoleBinding env required)"

definition applyRoleWithCache :: "Env \<Rightarrow> Role \<Rightarrow> (World, Role \<times> bool) go" where
  "applyRoleWithCache env required =
     apply_with_cache env (Roles env) (om_Namespace (ro_ObjectMeta required)) required
       (ApplyRole env required)"

definition applyRoleBindingWithCache :: "Env \<Rightarrow> RoleBinding \<Rightarrow> (World, RoleBinding \<times> bool) go" where
  "applyRoleBindingWithCache env required =
     apply_with_cache env (RoleBindings env) (om_Namespace (rb_ObjectMeta required)) required
       (ApplyRoleBinding env required)"

definition applyNetworkPolicyWithCache ::
  "Env \<Rightarrow> NetworkPolicy \<Rightarrow> (World, NetworkPolicy \<times> bool) go" where
  "applyNetworkPolicyWithCache env required =
     apply_with_cache env (NetworkPolicies env) (om_Namespace (np_ObjectMeta required)) required
       (ApplyNetworkPolicy env required)"

definition applyDeploymentWithCache ::
  "Env \<Rightarrow> Deployment \<Rightarrow> int \<Rightarrow> (World, Deployment \<times> bool) go" where
  "applyDeploymentWithCache env required expectedGeneration =
     apply_with_cache env (Deployments env) (om_Namespace (de_ObjectMeta required)) required
       (ApplyDeployment env required expectedGeneration)"

definition applyPriorityLevelConfigurationWithCache ::
  "Env \<Rightarrow> PriorityLevelConfiguration \<Rightarrow> (World, PriorityLevelConfiguration \<times> bool) go" where
  "applyPriorityLevelConfigurationWithCache env required =
     apply_with_cache env (PriorityLevelConfigurations env) [] required
       (ApplyPriorityLevelConfiguration env required)"

definition conversion_client_config :: "CustomResourceDefinition \<Rightarrow> WebhookClientConfig option" where
  "conversion_client_config crd =
     Option.bind (crs_Conversion (crd_Spec crd)) (\<lambda>c. Option.bind (ccv_Webhook c) wcv_ClientConfig)"

definition set_conversion_ca_bundle :: "string \<Rightarrow> CustomResourceDefinition \<Rightarrow> CustomResourceDefinition" where
  "set_conversion_ca_bundle bundle crd =
     crd\<lparr>crd_Spec := (crd_Spec crd)\<lparr>crs_Conversion := map_option (\<lambda>c.
       c\<lparr>ccv_Webhook := map_option (\<lambda>wh. wh\<lparr>wcv_ClientConfig := map_option (\<lambda>cc.
          cc\<lparr>wc_CABundle := bundle\<rparr>) (wcv_ClientConfig wh)\<rparr>) (ccv_Webhook c)\<rparr>)
       (crs_Conversion (crd_Spec crd))\<rparr>\<rparr>"

text \<open>The caBundle that cert-manager injected into the existing definition is kept.\<close>
definition preserve_ca_bundle ::
  "CustomResourceDefinition \<Rightarrow> CustomResourceDefinition \<Rightarrow> CustomResourceDefinition" where
  "preserve_ca_bundle existing required =
     (case (conversion_client_config existing, conversion_client_config required) of
        (Some ex, Some _) \<Rightarrow> set_conversion_ca_bundle (wc_CABundle ex) required
      | _ \<Rightarrow> required)"

definition applyCustomResourceDefinitionWithCache ::
  "Env \<Rightarrow> CustomResourceDefinition \<Rightarrow> (World, CustomResourceDefinition \<times> bool) go" where
  "applyCustomResourceDefinitionWithCache env required =
     go_bind (go_try (lister_Get env (CustomResourceDefinitions env) []
                        (om_Name (crd_ObjectMeta required)))) (\<lambda>r. case r of
        Inl err \<Rightarrow> if \<not> IsNotFound err then go_throw err
                  else remember env (CustomResourceDefinitions env) required
                         (ApplyCustomResourceDefinitionV1 env required)
      | Inr existing \<Rightarrow>
          (let required = preserve_ca_bundle existing required in
           go_bind (SafeToSkipApply env (CustomResourceDefinitions env) required existing) (\<lambda>skip.
             if skip then go_return (existing, False)
             else remember env (CustomResourceDefinitions env) required
                    (ApplyCustomResourceDefinitionV1 env required))))"

section \<open>Configuration and accounts\<close>

text \<open>\<^verbatim>\<open>ServerResourcesForGroupVersion\<close>.\<close>
definition discover :: "Env \<Rightarrow> string \<Rightarrow> (World, api_resource list) go" where
  "discover env gv = api_call env (Discover gv) (\<lambda>n c. (e_Discovery env n gv, c))"

definition resolveGVRsToKinds :: "Env \<Rightarrow> ExternalFramework list \<Rightarrow> (World, string \<rightharpoonup> string) go" where
  "resolveGVRsToKinds env frameworks =
     go_foldM (\<lambda>mapping fw.
       go_bind (go_try (discover env (ef_Group fw @ ''/'' @ ef_Version fw))) (\<lambda>r. case r of
          Inl err \<Rightarrow> go_return mapping
        | Inr resources \<Rightarrow> go_return (case find (\<lambda>(name, k). name = ef_Resource fw) resources of
              Some (name, k) \<Rightarrow> mapping(gvr_key fw \<mapsto> k)
            | None \<Rightarrow> mapping))) frameworks Map.empty"

definition buildAndApplyConfigMap ::
  "Env \<Rightarrow> ConfigMap option \<Rightarrow> KueueConfiguration \<Rightarrow> (string \<rightharpoonup> string) \<Rightarrow> TLSOptions option
   \<Rightarrow> (World, ConfigMap \<times> bool) go" where
  "buildAndApplyConfigMap env oldCfgMap kueueCfg gvrToKind tlsOpts =
     go_bind (go_read w_draConsumableCapacityEnabled) (\<lambda>enabled.
     go_bind (go_lift (BuildConfigMap (e_ParseFloat env) (e_YamlMarshal env) (e_OperatorNamespace env)
                kueueCfg gvrToKind enabled tlsOpts)) (\<lambda>cfgMap.
       let apply_it = ApplyConfigMapImproved env cfgMap in
       case oldCfgMap of
         None \<Rightarrow> apply_it
       | Some old \<Rightarrow>
           if (case map_of (cm_Data old) ''controller_manager_config.yaml'' of None \<Rightarrow> [] | Some v \<Rightarrow> v) =
              (case map_of (cm_Data cfgMap) ''controller_manager_config.yaml'' of None \<Rightarrow> [] | Some v \<Rightarrow> v)
           then go_return (old, False)
           else apply_it))"

definition manageConfigMap ::
  "Env \<Rightarrow> Kueue \<Rightarrow> TLSOptions option \<Rightarrow> (World, ConfigMap \<times> bool) go" where
  "manageConfigMap env kueue tlsOpts =
     go_bind (go_try (api_Get env (ConfigMaps env) (e_OperatorNamespace env) KueueConfigMap)) (\<lambda>required.
     go_bind (case kc_MultiKueue (ks_Config (ku_Spec kueue)) of
                None \<Rightarrow> go_return Map.empty
              | Some mk \<Rightarrow> resolveGVRsToKinds env (mk_ExternalFrameworks mk)) (\<lambda>gvrToKind.
       case required of
         Inl err \<Rightarrow> if IsNotFound err
           then buildAndApplyConfigMap env None (ks_Config (ku_Spec kueue)) gvrToKind tlsOpts
           else go_throw err
       | Inr cm \<Rightarrow> buildAndApplyConfigMap env (Some cm) (ks_Config (ku_Spec kueue)) gvrToKind tlsOpts))"

definition owned_meta :: "ObjectMeta \<Rightarrow> OwnerReference \<Rightarrow> ObjectMeta" where
  "owned_meta m r = m\<lparr>om_OwnerReferences := [r]\<rparr>"

definition ensure_owned :: "ObjectMeta \<Rightarrow> OwnerReference \<Rightarrow> ObjectMeta" where
  "ensure_owned m r = m\<lparr>om_OwnerReferences := snd (EnsureOwnerRef (om_OwnerReferences m) r)\<rparr>"

definition manageServiceAccount ::
  "Env \<Rightarrow> OwnerReference \<Rightarrow> (World, ServiceAccount \<times> bool) go" where
  "manageServiceAccount env ownerReference =
     go_bind (read_asset (a_ServiceAccount (e_Assets env)) (asset ''serviceaccount.yaml'')) (\<lambda>required.
       ApplyServiceAccountImproved env (required\<lparr>sa_ObjectMeta :=
         ensure_owned (owned_meta ((sa_ObjectMeta required)\<lparr>om_Namespace := e_OperatorNamespace env\<rparr>)
           ownerReference) ownerReference\<rparr>))"

section \<open>Flow control\<close>

definition manageFlowSchema ::
  "Env \<Rightarrow> annotations \<Rightarrow> OwnerReference \<Rightarrow> (World, annotations) go" where
  "manageFlowSchema env specAnnotations ownerReference =
     go_bind (read_asset (a_FlowSchema (e_Assets env)) (asset ''flowschema.yaml'')) (\<lambda>want.
     go_bind (ApplyFlowSchema env (want\<lparr>fl_ObjectMeta := owned_meta (fl_ObjectMeta want) ownerReference\<rparr>))
       (\<lambda>(flowSchema, _).
     go_bind (hash_go env (HFlowSchema (fl_Spec flowSchema)) ''failed to hash FlowSchema spec'') (\<lambda>hash.
       go_return (AList.update (''flowschema/'' @ om_Name (fl_ObjectMeta flowSchema)) hash
         specAnnotations))))"

definition managePriorityLevelConfiguration ::
  "Env \<Rightarrow> annotations \<Rightarrow> OwnerReference \<Rightarrow> (World, annotations) go" where
  "managePriorityLevelConfiguration env specAnnotations ownerReference =
     go_bind (read_asset (a_PriorityLevel (e_Assets env)) (asset ''prioritylevelconfiguration.yaml''))
       (\<lambda>want.
     go_bind (applyPriorityLevelConfigurationWithCache env
                (want\<lparr>plc_ObjectMeta := owned_meta (plc_ObjectMeta want) ownerReference\<rparr>)) (\<lambda>(plc, _).
     go_bind (hash_go env (HPriorityLevel (plc_Spec plc))
                ''failed to hash PriorityLevelConfiguration spec'') (\<lambda>hash.
       go_return (AList.update (''prioritylevelconfiguration/'' @ om_Name (plc_ObjectMeta plc)) hash
         specAnnotations))))"

section \<open>Webhooks\<close>

text \<open>\<^verbatim>\<open>newWebhook.Webhooks[i].ClientConfig.Service.Namespace = ns\<close> for all \<open>i\<close>: a webhook without a
  service is a nil dereference.\<close>
fun set_service_namespace :: "string \<Rightarrow> Webhook list \<Rightarrow> err + Webhook list" where
  "set_service_namespace ns [] = Inr []"
| "set_service_namespace ns (wh # whs) = (case wc_Service (wh_ClientConfig wh) of
     None \<Rightarrow> Inl (Panic ''nil pointer dereference'')
   | Some svc \<Rightarrow> (case set_service_namespace ns whs of Inl e \<Rightarrow> Inl e
       | Inr rest \<Rightarrow> Inr (wh\<lparr>wh_ClientConfig := (wh_ClientConfig wh)\<lparr>
             wc_Service := Some (svc\<lparr>sr_Namespace := ns\<rparr>)\<rparr>\<rparr> # rest)))"

definition manageMutatingWebhook ::
  "Env \<Rightarrow> Kueue \<Rightarrow> OwnerReference \<Rightarrow> (World, MutatingWebhookConfiguration \<times> bool) go" where
  "manageMutatingWebhook env kueue ownerReference =
     go_bind (read_asset (a_MutatingWebhook (e_Assets env)) (asset ''mutatingwebhook.yaml'')) (\<lambda>asset'.
     go_bind (go_lift (ModifyPodBasedMutatingWebhook (ks_Config (ku_Spec kueue))
                (asset'\<lparr>mwc_ObjectMeta := owned_meta (mwc_ObjectMeta asset') ownerReference\<rparr>)))
       (\<lambda>newWebhook.
     go_bind (go_lift (set_service_namespace (e_OperatorNamespace env) (mwc_Webhooks newWebhook)))
       (\<lambda>whs.
       ApplyMutatingWebhookConfigurationImproved env (newWebhook\<lparr>mwc_Webhooks := whs,
         mwc_ObjectMeta := (mwc_ObjectMeta newWebhook)\<lparr>om_Annotations :=
           InjectCertAnnotation (om_Annotations (mwc_ObjectMeta newWebhook))
             (e_OperatorNamespace env)\<rparr>\<rparr>))))"

definition manageValidatingWebhook ::
  "Env \<Rightarrow> Kueue \<Rightarrow> OwnerReference \<Rightarrow> (World, ValidatingWebhookConfiguration \<times> bool) go" where
  "manageValidatingWebhook env kueue ownerReference =
     go_bind (read_asset (a_ValidatingWebhook (e_Assets env)) (asset ''validatingwebhook.yaml''))
       (\<lambda>asset'.
     go_bind (go_lift (ModifyPodBasedValidatingWebhook (ks_Config (ku_Spec kueue))
                (asset'\<lparr>vwc_ObjectMeta :=
                   ensure_owned (owned_meta (vwc_ObjectMeta asset') ownerReference) ownerReference\<rparr>)))
       (\<lambda>newWebhook.
     go_bind (go_lift (set_service_namespace (e_OperatorNamespace env) (vwc_Webhooks newWebhook)))
       (\<lambda>whs.
       ApplyValidatingWebhookConfigurationImproved env (newWebhook\<lparr>vwc_Webhooks := whs,
         vwc_ObjectMeta := (vwc_ObjectMeta newWebhook)\<lparr>om_Annotations :=
           InjectCertAnnotation (om_Annotations (vwc_ObjectMeta newWebhook))
             (e_OperatorNamespace env)\<rparr>\<rparr>))))"

end
