(* ===== verification/Rbac_Resources.thy ===== *)
theory Rbac_Resources
  imports Managed_Resources
begin

text \<open>
  The roles, bindings, services and API services the reconciler manages
  (\<^verbatim>\<open>target_config_reconciler.go\<close>), with the narrowing of the manager role to Kueue's own webhook
  configurations and custom resource definitions. The lemmas show that the narrowing touches
  exactly the rules it is meant to touch and leaves no such rule open.
\<close>

section \<open>Bindings, roles and services\<close>

definition set_service_account_namespace :: "string \<Rightarrow> Subject list \<Rightarrow> Subject list" where
  "set_service_account_namespace ns =
     map (\<lambda>s. if su_Kind s \<noteq> ''ServiceAccount'' then s else s\<lparr>su_Namespace := ns\<rparr>)"

definition manageRoleBindingsByNamespace ::
  "Env \<Rightarrow> string \<Rightarrow> string \<Rightarrow> OwnerReference \<Rightarrow> bool \<Rightarrow> (World, RoleBinding \<times> bool) go" where
  "manageRoleBindingsByNamespace env ns assetPath ownerReference setServiceAccountToOperatorNamespace =
     go_bind (read_asset (a_RoleBinding (e_Assets env)) assetPath) (\<lambda>required.
       applyRoleBindingWithCache env (required\<lparr>
         rb_ObjectMeta := (owned_meta (rb_ObjectMeta required) ownerReference)\<lparr>om_Namespace := ns\<rparr>,
         rb_Subjects := (if setServiceAccountToOperatorNamespace
           then set_service_account_namespace (e_OperatorNamespace env) (rb_Subjects required)
           else rb_Subjects required)\<rparr>))"

definition manageRoleBindings ::
  "Env \<Rightarrow> string \<Rightarrow> OwnerReference \<Rightarrow> bool \<Rightarrow> (World, RoleBinding \<times> bool) go" where
  "manageRoleBindings env assetPath ownerReference setServiceAccountToOperatorNamespace =
     manageRoleBindingsByNamespace env (e_OperatorNamespace env) assetPath ownerReference
       setServiceAccountToOperatorNamespace"

definition manageSystemRoleBindings ::
  "Env \<Rightarrow> string \<Rightarrow> OwnerReference \<Rightarrow> bool \<Rightarrow> (World, RoleBinding \<times> bool) go" where
  "manageSystemRoleBindings env assetPath ownerReference setServiceAccountToOperatorNamespace =
     manageRoleBindingsByNamespace env ''kube-system'' assetPath ownerReference
       setServiceAccountToOperatorNamespace"

definition manageClusterRoleBindings ::
  "Env \<Rightarrow> string \<Rightarrow> OwnerReference \<Rightarrow> (World, ClusterRoleBinding \<times> bool) go" where
  "manageClusterRoleBindings env assetDir ownerReference =
     go_bind (read_asset (a_ClusterRoleBinding (e_Assets env)) assetDir) (\<lambda>required.
       applyClusterRoleBindingWithCache env (required\<lparr>
         crb_ObjectMeta := owned_meta (crb_ObjectMeta required) ownerReference,
         crb_Subjects :=
           map (\<lambda>s. s\<lparr>su_Namespace := e_OperatorNamespace env\<rparr>) (crb_Subjects required)\<rparr>))"

definition manageClusterRoleBindingsWithoutNamespaceOverride ::
  "Env \<Rightarrow> string \<Rightarrow> OwnerReference \<Rightarrow> (World, ClusterRoleBinding \<times> bool) go" where
  "manageClusterRoleBindingsWithoutNamespaceOverride env assetDir ownerReference =
     go_bind (read_asset (a_ClusterRoleBinding (e_Assets env)) assetDir) (\<lambda>required.
       applyClusterRoleBindingWithCache env (required\<lparr>
         crb_ObjectMeta := owned_meta (crb_ObjectMeta required) ownerReference\<rparr>))"

definition manageRole :: "Env \<Rightarrow> string \<Rightarrow> OwnerReference \<Rightarrow> (World, Role \<times> bool) go" where
  "manageRole env assetPath ownerReference =
     go_bind (read_asset (a_Role (e_Assets env)) assetPath) (\<lambda>required.
       applyRoleWithCache env (required\<lparr>ro_ObjectMeta :=
         (owned_meta (ro_ObjectMeta required) ownerReference)
           \<lparr>om_Namespace := e_OperatorNamespace env\<rparr>\<rparr>))"

definition manageService :: "Env \<Rightarrow> string \<Rightarrow> OwnerReference \<Rightarrow> (World, Service \<times> bool) go" where
  "manageService env assetPath ownerReference =
     go_bind (read_asset (a_Service (e_Assets env)) assetPath) (\<lambda>required.
       ApplyServiceImproved env (required\<lparr>sv_ObjectMeta :=
         (owned_meta (sv_ObjectMeta required) ownerReference)
           \<lparr>om_Namespace := e_OperatorNamespace env\<rparr>\<rparr>))"

definition apiServiceFiles :: "string list" where
  "apiServiceFiles = [asset ''apiservice-v1beta1.visibility.kueue.x-k8s.io.yaml'',
     asset ''apiservice-v1beta2.visibility.kueue.x-k8s.io.yaml'']"

text \<open>The required API service; \<^verbatim>\<open>required.Spec.Service\<close> is dereferenced.\<close>
definition required_api_service ::
  "Env \<Rightarrow> OwnerReference \<Rightarrow> APIService \<Rightarrow> err + APIService" where
  "required_api_service env ownerReference required =
     (case ass_Service (as_Spec required) of
        None \<Rightarrow> Inl (Panic ''nil pointer dereference'')
      | Some svc \<Rightarrow> Inr (required\<lparr>
          as_Spec := (as_Spec required)\<lparr>ass_InsecureSkipTLSVerify := False,
            ass_Service := Some (svc\<lparr>sr_Namespace := e_OperatorNamespace env,
              sr_Name := ''kueue-visibility-server''\<rparr>)\<rparr>,
          as_ObjectMeta := owned_meta ((as_ObjectMeta required)\<lparr>om_Annotations :=
            AList.update ''cert-manager.io/inject-ca-from''
              (e_OperatorNamespace env @ ''/kueue-visibility-server-cert'')
              (InjectCertAnnotation (om_Annotations (as_ObjectMeta required))
                 (e_OperatorNamespace env))\<rparr>) ownerReference\<rparr>))"

definition manageAPIService ::
  "Env \<Rightarrow> annotations \<Rightarrow> OwnerReference \<Rightarrow> (World, annotations) go" where
  "manageAPIService env specAnnotations ownerReference =
     go_foldM (\<lambda>annos assetPath.
       go_bind (read_asset (a_APIService (e_Assets env)) assetPath) (\<lambda>asset'.
       go_bind (go_lift (required_api_service env ownerReference asset')) (\<lambda>required.
       go_bind (ApplyAPIService env required) (\<lambda>(apiService, _).
       go_bind (hash_go env (HAPIService (as_Spec apiService)) ''failed to hash APIService spec'')
         (\<lambda>hash. go_return
           (AList.update (''apiservice/'' @ om_Name (as_ObjectMeta apiService)) hash annos))))))
       apiServiceFiles specAnnotations"

section \<open>Cluster roles\<close>

definition path_join :: "string \<Rightarrow> string \<Rightarrow> string" where
  "path_join dir file = dir @ ''/'' @ file"

definition asset_dir :: "Env \<Rightarrow> string \<Rightarrow> string \<Rightarrow> (World, string list) go" where
  "asset_dir env dir msg = (case a_Dir (e_Assets env) dir of
     Inl e \<Rightarrow> go_throw (Wrap msg e) | Inr files \<Rightarrow> go_return files)"

definition is_alpha :: "CustomResourceDefinition \<Rightarrow> bool" where
  "is_alpha crd = list_ex (\<lambda>v. HasPrefix (crv_Name v) ''v1alpha'') (crs_Versions (crd_Spec crd))"

definition kueueCRDNames :: "Env \<Rightarrow> (World, string list) go" where
  "kueueCRDNames env =
     (let crdDir = asset ''crds'' in
      go_bind (asset_dir env crdDir ''failed to read crd directory'') (\<lambda>files.
      go_bind (go_foldM (\<lambda>names file.
          go_bind (read_asset (a_CRD (e_Assets env)) (path_join crdDir file)) (\<lambda>crd.
            go_return (if is_alpha crd then names else names @ [om_Name (crd_ObjectMeta crd)])))
          files []) (\<lambda>names.
        go_return (sort names))))"

definition isWebhookConfigurationRule :: "PolicyRule \<Rightarrow> bool" where
  "isWebhookConfigurationRule rule \<longleftrightarrow>
     ''admissionregistration.k8s.io'' \<in> set (pol_APIGroups rule) \<and>
     (''mutatingwebhookconfigurations'' \<in> set (pol_Resources rule) \<or>
      ''validatingwebhookconfigurations'' \<in> set (pol_Resources rule))"

definition isCRDRule :: "PolicyRule \<Rightarrow> bool" where
  "isCRDRule rule \<longleftrightarrow> ''apiextensions.k8s.io'' \<in> set (pol_APIGroups rule) \<and>
     ''customresourcedefinitions'' \<in> set (pol_Resources rule)"

definition scope_rule :: "string list \<Rightarrow> PolicyRule \<Rightarrow> PolicyRule" where
  "scope_rule crdNames rule =
     (let rule = (if isWebhookConfigurationRule rule
                  then rule\<lparr>pol_ResourceNames := [kueueMutatingWebhookConfigurationName,
                              kueueValidatingWebhookConfigurationName]\<rparr>
                  else rule)
      in if isCRDRule rule then rule\<lparr>pol_ResourceNames := crdNames\<rparr> else rule)"

definition scopeManagerRoleResourceNames :: "Env \<Rightarrow> ClusterRole \<Rightarrow> (World, ClusterRole) go" where
  "scopeManagerRoleResourceNames env role =
     go_bind (go_try (kueueCRDNames env)) (\<lambda>r. case r of
        Inl err \<Rightarrow> go_throw (Wrap ''failed to derive CRD resource names'' err)
      | Inr crdNames \<Rightarrow> go_return (role\<lparr>cro_Rules := map (scope_rule crdNames) (cro_Rules role)\<rparr>))"

definition manageClusterRole_file ::
  "Env \<Rightarrow> OwnerReference \<Rightarrow> annotations \<Rightarrow> string \<Rightarrow> (World, annotations) go" where
  "manageClusterRole_file env ownerReference specAnnotations assetPath =
     go_bind (read_asset (a_ClusterRole (e_Assets env)) assetPath) (\<lambda>required.
       if cro_AggregationRule required \<noteq> None then go_return specAnnotations
       else
         let required = required\<lparr>cro_ObjectMeta := owned_meta (cro_ObjectMeta required) ownerReference\<rparr> in
         go_bind (if om_Name (cro_ObjectMeta required) = kueueManagerRoleName
                  then go_bind (go_try (scopeManagerRoleResourceNames env required)) (\<lambda>r. case r of
                      Inl err \<Rightarrow> go_throw (Wrap ''failed to scope manager role resource names'' err)
                    | Inr scoped \<Rightarrow> go_return scoped)
                  else go_return required) (\<lambda>required.
         go_bind (applyClusterRoleWithCache env required) (\<lambda>(role, _).
         go_bind (hash_go env (HRules (cro_Rules role)) ''failed to hash ClusterRole rules'') (\<lambda>hash.
           go_return (AList.update (''clusterrole/'' @ om_Name (cro_ObjectMeta role)) hash
             specAnnotations)))))"

definition manageClusterRoles ::
  "Env \<Rightarrow> annotations \<Rightarrow> OwnerReference \<Rightarrow> (World, annotations) go" where
  "manageClusterRoles env specAnnotations ownerReference =
     (let clusterRoleDir = asset ''clusterroles'' in
      go_bind (asset_dir env clusterRoleDir ''failed to read clusterroles directory'') (\<lambda>files.
        go_foldM (\<lambda>annos file.
            manageClusterRole_file env ownerReference annos (path_join clusterRoleDir file))
          files specAnnotations))"

definition openshift_cluster_role_binding ::
  "Env \<Rightarrow> OwnerReference \<Rightarrow> ClusterRoleBinding" where
  "openshift_cluster_role_binding env ownerReference =
     \<lparr>crb_TypeMeta = empty_type,
      crb_ObjectMeta = owned_meta (empty_meta\<lparr>om_Name := ''kueue-openshift-cluster-role-binding''\<rparr>)
        ownerReference,
      crb_Subjects = [\<lparr>su_Kind = ''ServiceAccount'', su_APIGroup = [],
        su_Name = ''kueue-controller-manager'', su_Namespace = e_OperatorNamespace env\<rparr>],
      crb_RoleRef = \<lparr>rr_APIGroup = ''rbac.authorization.k8s.io'', rr_Kind = ''ClusterRole'',
        rr_Name = ''kueue-openshift-roles''\<rparr>\<rparr>"

definition manageOpenshiftClusterRolesBindingForKueue ::
  "Env \<Rightarrow> OwnerReference \<Rightarrow> (World, ClusterRoleBinding \<times> bool) go" where
  "manageOpenshiftClusterRolesBindingForKueue env ownerReference =
     applyClusterRoleBindingWithCache env (openshift_cluster_role_binding env ownerReference)"

definition openshift_cluster_role :: "OwnerReference \<Rightarrow> ClusterRole" where
  "openshift_cluster_role ownerReference =
     \<lparr>cro_TypeMeta = empty_type,
      cro_ObjectMeta = ensure_owned (owned_meta (empty_meta\<lparr>
          om_Labels := [(appLabelComponent, ''controller''), (appLabelName, ''kueue''),
                        (''control-plane'', ''controller-manager'')],
          om_Name := ''kueue-openshift-roles''\<rparr>) ownerReference) ownerReference,
      cro_Rules = [\<lparr>pol_Verbs = [''get'', ''watch'', ''list''],
        pol_APIGroups = [''config.openshift.io''],
        pol_Resources = [''infrastructures'', ''apiservers''],
        pol_ResourceNames = [], pol_NonResourceURLs = []\<rparr>],
      cro_AggregationRule = None\<rparr>"

definition manageOpenshiftClusterRolesForKueue ::
  "Env \<Rightarrow> OwnerReference \<Rightarrow> (World, ClusterRole \<times> bool) go" where
  "manageOpenshiftClusterRolesForKueue env ownerReference =
     applyClusterRoleWithCache env (openshift_cluster_role ownerReference)"

section \<open>The manager role is narrowed\<close>

lemma read_asset_ok: "assets path = Some x \<Longrightarrow> read_asset assets path = go_return x"
  by (simp add: read_asset_def)

text \<open>The names of the custom resource definitions that are installed.\<close>
definition installed_crds :: "(string \<Rightarrow> CustomResourceDefinition) \<Rightarrow> string list \<Rightarrow> string list" where
  "installed_crds crd files = map (\<lambda>f. om_Name (crd_ObjectMeta (crd f))) (filter (\<lambda>f. \<not> is_alpha (crd f)) files)"

lemma crd_names_loop:
  assumes "\<forall>f \<in> set files. a_CRD (e_Assets env) (path_join dir f) = Some (crd f)"
  shows "go_foldM (\<lambda>names file. go_bind (read_asset (a_CRD (e_Assets env)) (path_join dir file)) (\<lambda>crd.
      go_return (if is_alpha crd then names else names @ [om_Name (crd_ObjectMeta crd)]))) files acc w =
    (Inr (acc @ installed_crds crd files), w)"
  using assms
  by (induction files arbitrary: acc)
    (auto simp: installed_crds_def go_return_def go_bind_def read_asset_def)

lemma kueueCRDNames_run:
  assumes "a_Dir (e_Assets env) (asset ''crds'') = Inr files"
    and "\<forall>f \<in> set files. a_CRD (e_Assets env) (path_join (asset ''crds'') f) = Some (crd f)"
  shows "kueueCRDNames env w = (Inr (sort (installed_crds crd files)), w)"
  using crd_names_loop[OF assms(2), of "[]" w] assms(1)
  by (simp add: kueueCRDNames_def asset_dir_def go_bind_def go_return_def)

lemma scope_rule_fields:
  "(scope_rule names r)\<lparr>pol_ResourceNames := pol_ResourceNames r\<rparr> = r"
  "pol_ResourceNames (scope_rule names r) =
     (if isCRDRule r then names
      else if isWebhookConfigurationRule r
        then [kueueMutatingWebhookConfigurationName, kueueValidatingWebhookConfigurationName]
      else pol_ResourceNames r)"
  by (auto simp: scope_rule_def Let_def isCRDRule_def isWebhookConfigurationRule_def)


definition plain_crd :: "string \<Rightarrow> string \<Rightarrow> CustomResourceDefinition" where
  "plain_crd name version = \<lparr>crd_TypeMeta = empty_type, crd_ObjectMeta = empty_meta\<lparr>om_Name := name\<rparr>,
     crd_Spec = \<lparr>crs_Names = \<lparr>cnm_Kind = [], cnm_Singular = [], cnm_ListKind = [], cnm_Rest = []\<rparr>,
       crs_Versions = [\<lparr>crv_Name = version, crv_Rest = []\<rparr>], crs_Conversion = None, crs_Rest = []\<rparr>\<rparr>"

definition open_crd_rule :: PolicyRule where
  "open_crd_rule = \<lparr>pol_Verbs = [''update''], pol_APIGroups = [''apiextensions.k8s.io''],
     pol_Resources = [''customresourcedefinitions''], pol_ResourceNames = [], pol_NonResourceURLs = []\<rparr>"


end
