(* ===== verification/Apply_Laws.thy ===== *)
theory Apply_Laws
  imports Resource_Apply
begin

text \<open>
  What applying an object guarantees. The locale \<open>apply_kind\<close> has the laws of a merge: its metadata
  is the merged metadata, merging again changes nothing, and the server's own bookkeeping (UID,
  resource version, generation) does not make it change anything either. Under them an apply
  converges: after a successful one the next makes a single read request and changes nothing. The
  locale is interpreted for every kind the operator applies with such a merge.
\<close>

section \<open>Bookkeeping of the server\<close>

definition bookkeeping :: "string \<Rightarrow> string \<Rightarrow> int \<Rightarrow> ObjectMeta \<Rightarrow> ObjectMeta" where
  "bookkeeping u v g m = m\<lparr>om_UID := u, om_ResourceVersion := v, om_Generation := g\<rparr>"

lemma bookkeeping_simps [simp]:
  "om_Name (bookkeeping u v g m) = om_Name m" "om_Namespace (bookkeeping u v g m) = om_Namespace m"
  "om_Labels (bookkeeping u v g m) = om_Labels m"
  "om_Annotations (bookkeeping u v g m) = om_Annotations m"
  "om_OwnerReferences (bookkeeping u v g m) = om_OwnerReferences m"
  "om_ResourceVersion (bookkeeping u v g m) = v"
  by (simp_all add: bookkeeping_def)

lemma EnsureObjectMeta_bookkeeping:
  "EnsureObjectMeta md (bookkeeping u v g m) req =
   (fst (EnsureObjectMeta md m req), bookkeeping u v g (snd (EnsureObjectMeta md m req)))"
  by (simp add: EnsureObjectMeta_def bookkeeping_def Let_def case_prod_beta)

text \<open>A fold of steps that report every change reports every change.\<close>
lemma foldl_unmodified:
  assumes step: "\<And>md ex x. \<not> fst (f (md, ex) x) \<Longrightarrow> f (md, ex) x = (md, ex) \<and> \<not> md"
  shows "\<not> fst (foldl f (md, ex) xs) \<Longrightarrow> foldl f (md, ex) xs = (md, ex) \<and> \<not> md"
proof (induction xs arbitrary: md ex)
  case (Cons x xs)
  obtain md' ex' where f: "f (md, ex) x = (md', ex')" by (meson surj_pair)
  have "foldl f (md', ex') xs = (md', ex') \<and> \<not> md'"
    using Cons.IH[of md' ex'] Cons.prems f by (metis foldl_Cons)
  with step[of md ex x] f show ?case by auto
qed simp

lemma MergeMap_unmodified: "\<not> fst (MergeMap md ex req) \<Longrightarrow> MergeMap md ex req = (md, ex) \<and> \<not> md"
  unfolding MergeMap_def by (rule foldl_unmodified) (auto split: if_splits)

lemma merge_owner_unmodified:
  "\<not> fst (merge_owner (md, ex) r) \<Longrightarrow> merge_owner (md, ex) r = (md, ex) \<and> \<not> md"
proof (cases rule: merge_owner_cases[of ex r])
  case fresh
  then show "\<not> fst (merge_owner (md, ex) r) \<Longrightarrow> ?thesis"
    by (simp add: merge_owner_fresh del: merge_owner.simps split: if_splits)
next
  case (found before e after)
  show "\<not> fst (merge_owner (md, ex) r) \<Longrightarrow> ?thesis"
    unfolding merge_owner_found[OF found] by (simp split: if_splits)
qed

lemma MergeOwnerRefs_unmodified:
  "\<not> fst (MergeOwnerRefs md ex req) \<Longrightarrow> MergeOwnerRefs md ex req = (md, ex) \<and> \<not> md"
  unfolding MergeOwnerRefs_def by (rule foldl_unmodified) (rule merge_owner_unmodified)

text \<open>Metadata that is not reported as modified is not modified.\<close>
lemma EnsureObjectMeta_unmodified:
  assumes "\<not> fst (EnsureObjectMeta md ex req)"
  shows "snd (EnsureObjectMeta md ex req) = ex"
proof -
  define m1 where "m1 = SetStringIfSet md (om_Namespace ex) (om_Namespace req)"
  define m2 where "m2 = SetStringIfSet (fst m1) (om_Name ex) (om_Name req)"
  define m3 where "m3 = MergeMap (fst m2) (om_Labels ex) (om_Labels req)"
  define m4 where "m4 = MergeMap (fst m3) (om_Annotations ex) (om_Annotations req)"
  define m5 where "m5 = MergeOwnerRefs (fst m4) (om_OwnerReferences ex) (om_OwnerReferences req)"
  have eq: "EnsureObjectMeta md ex req = (fst m5, ex\<lparr>om_Namespace := snd m1, om_Name := snd m2,
      om_Labels := snd m3, om_Annotations := snd m4, om_OwnerReferences := snd m5\<rparr>)"
    by (simp add: EnsureObjectMeta_def Let_def case_prod_beta m1_def m2_def m3_def m4_def m5_def)
  have s5: "snd m5 = om_OwnerReferences ex" "\<not> fst m4"
    using assms MergeOwnerRefs_unmodified unfolding eq m5_def by (metis fst_conv snd_conv)+
  have s4: "snd m4 = om_Annotations ex" "\<not> fst m3"
    using s5 MergeMap_unmodified unfolding m4_def by (metis snd_conv)+
  have s3: "snd m3 = om_Labels ex" "\<not> fst m2"
    using s4 MergeMap_unmodified unfolding m3_def by (metis snd_conv)+
  have s2: "snd m2 = om_Name ex" "\<not> fst m1"
    using s3 by (auto simp: m2_def SetStringIfSet_def split: if_splits)
  have s1: "snd m1 = om_Namespace ex"
    using s2 by (auto simp: m1_def SetStringIfSet_def split: if_splits)
  show ?thesis unfolding eq using s1 s2 s3 s4 s5 by simp
qed

text \<open>Removing the removal keys leaves metadata that merging does not change.\<close>
lemma MergeMap_clean:
  assumes "distinct (merge_keys req)"
  shows "MergeMap False (cleanRemovalKeys req) req = (False, cleanRemovalKeys req)"
proof -
  have look: "map_of (cleanRemovalKeys req) (actual_key (fst kv)) = wanted_value kv"
    if kv: "kv \<in> set req" for kv
    using assms kv
  proof (induction req)
    case (Cons kv' req)
    have notin: "actual_key (fst kv') \<notin> set (merge_keys req)" and d: "distinct (merge_keys req)"
      using Cons.prems(1) by (simp_all add: merge_keys_def)
    have none: "map_of (cleanRemovalKeys req) x = None" if "x \<notin> set (merge_keys req)" for x
    proof -
      have "x \<notin> fst ` set (cleanRemovalKeys req)"
        using that by (auto simp: cleanRemovalKeys_def merge_keys_def actual_key_def)
      then show ?thesis by (simp add: map_of_eq_None_iff)
    qed
    show ?case
    proof (cases "kv = kv'")
      case True
      then show ?thesis
        using none[OF notin]
        by (cases kv') (auto simp: cleanRemovalKeys_def wanted_value_def actual_key_def)
    next
      case False
      then have "kv \<in> set req" using Cons.prems by simp
      moreover from this have "actual_key (fst kv) \<noteq> actual_key (fst kv')"
        using notin by (metis (no_types, lifting) image_eqI list.set_map merge_keys_def)
      ultimately show ?thesis
        using Cons.IH[OF d] by (cases kv') (auto simp: cleanRemovalKeys_def actual_key_def)
    qed
  qed simp
  have "\<not> fst (MergeMap False (cleanRemovalKeys req) req)"
    using MergeMap_modified[OF assms] look by simp
  from MergeMap_unmodified[OF this] show ?thesis by simp
qed

lemma EnsureObjectMeta_clean:
  assumes "meta_settles req"
  shows "\<not> fst (EnsureObjectMeta False (WithCleanLabelsAndAnnotations req) req)"
proof -
  let ?c = "WithCleanLabelsAndAnnotations req"
  have ls: "MergeMap False (om_Labels ?c) (om_Labels req) = (False, om_Labels ?c)"
    and as: "MergeMap False (om_Annotations ?c) (om_Annotations req) = (False, om_Annotations ?c)"
    using assms by (simp_all add: WithCleanLabelsAndAnnotations_def meta_settles_def MergeMap_clean)
  have st: "SetStringIfSet False (om_Namespace ?c) (om_Namespace req) = (False, om_Namespace ?c)"
    "SetStringIfSet False (om_Name ?c) (om_Name req) = (False, om_Name ?c)"
    by (simp_all add: SetStringIfSet_def WithCleanLabelsAndAnnotations_def)
  have os: "MergeOwnerRefs False (om_OwnerReferences ?c) (om_OwnerReferences req) =
      (False, om_OwnerReferences ?c)"
  proof (cases "om_OwnerReferences req = []")
    case False
    then obtain r where r: "om_OwnerReferences req = [r]"
        "ParseGroupVersion (or_APIVersion r) \<noteq> None" "\<not> is_removal (or_UID r)"
      using assms by (auto simp: meta_settles_def)
    then show ?thesis
      using merge_owner_found[of "[r]" "[]" r "[]" r False]
      by (simp add: WithCleanLabelsAndAnnotations_def cleanRemovalOwnerRefs_def
          ownerRefMatched_refl del: merge_owner.simps)
  qed (simp add: WithCleanLabelsAndAnnotations_def cleanRemovalOwnerRefs_def)
  show ?thesis unfolding EnsureObjectMeta_def ls as st os Let_def case_prod_conv by simp
qed

section \<open>Requests of an apply\<close>

definition owned_by :: "OwnerReference \<Rightarrow> robj \<Rightarrow> bool" where
  "owned_by r x \<longleftrightarrow> r \<in> set (om_OwnerReferences (rmeta x))"

text \<open>A request that deletes nothing and writes only objects that carry the owner reference.\<close>
fun owned_write :: "OwnerReference \<Rightarrow> call \<Rightarrow> bool" where
  "owned_write r (Create x) = owned_by r x"
| "owned_write r (Update x) = owned_by r x"
| "owned_write r (Delete k ns n) = False"
| "owned_write r (PatchKueue n p) = False"
| "owned_write r _ = True"

lemma sends_bind_lift: "(\<And>x. r = Inr x \<Longrightarrow> sends P (f x)) \<Longrightarrow> sends P (go_bind (go_lift r) f)"
  by (cases r) (auto simp: go_bind_def go_lift_def intro!: sends_step)

lemma sends_create_and_report [sends_rules]:
  "P (Create (cl_Object cl x)) \<Longrightarrow> sends P (create_and_report env cl ns x b)"
  unfolding create_and_report_def by (intro sends_rules)

lemma sends_update_and_report [sends_rules]:
  "P (Update (cl_Object cl x)) \<Longrightarrow> sends P (update_and_report env cl ns x)"
  unfolding update_and_report_def by (intro sends_rules)

lemma sends_remember [sends_rules]: "sends P m \<Longrightarrow> sends P (remember env cl required m)"
  unfolding remember_def by (intro sends_rules)

lemma sends_apply_object:
  "P (Get (cl_Kind cl) ns name) \<Longrightarrow> P (Create (cl_Object cl toCreate)) \<Longrightarrow>
   (\<And>existing. P (Update (cl_Object cl (snd (merge existing))))) \<Longrightarrow>
   sends P (apply_object env cl ns name toCreate b merge)"
  unfolding apply_object_def
  by (intro sends_rules) (auto, metis snd_conv)

lemma sends_apply_object_cached:
  "P (Get (cl_Kind cl) ns name) \<Longrightarrow> P (Create (cl_Object cl toCreate)) \<Longrightarrow>
   (\<And>existing. P (Update (cl_Object cl (snd (merge existing))))) \<Longrightarrow>
   sends P (apply_object_cached env cl ns name required toCreate merge)"
  unfolding apply_object_cached_def
  by (intro sends_rules) (auto, metis snd_conv)

section \<open>Laws of a merge\<close>

locale merge_kind = typed_client cl for cl :: "'o client" +
  fixes merge :: "'o \<Rightarrow> 'o \<Rightarrow> bool \<times> 'o"
  assumes merge_meta: "cl_Meta cl (snd (merge required existing)) =
      snd (EnsureObjectMeta False (cl_Meta cl existing) (cl_Meta cl required))"
begin

text \<open>Every object an apply writes carries the owner reference of the required one.\<close>
lemma merge_owned:
  "om_OwnerReferences (cl_Meta cl required) = [r] \<Longrightarrow> \<not> is_removal (or_UID r) \<Longrightarrow>
   owned_by r (cl_Object cl (snd (merge required existing)))"
  unfolding owned_by_def object_meta merge_meta
  by (simp add: EnsureObjectMeta_owner merge_owner_in del: merge_owner.simps)

lemma clean_owned:
  "om_OwnerReferences (cl_Meta cl required) = [r] \<Longrightarrow> \<not> is_removal (or_UID r) \<Longrightarrow>
   owned_by r (cl_Object cl (clean cl required))"
  unfolding owned_by_def object_meta clean_def meta_update
  by (simp add: WithCleanLabelsAndAnnotations_def cleanRemovalOwnerRefs_def)

lemma merge_name:
  "obj_name cl required = name \<Longrightarrow> obj_name cl existing = name \<Longrightarrow>
   obj_name cl (snd (merge required existing)) = name"
  by (simp add: obj_name_def merge_meta EnsureObjectMeta_fields)

lemma clean_name: "obj_name cl (clean cl required) = obj_name cl required"
  by (simp add: obj_name_def clean_def meta_update WithCleanLabelsAndAnnotations_def)

lemma sends_owned:
  assumes "om_OwnerReferences (cl_Meta cl required) = [r]" and "\<not> is_removal (or_UID r)"
  shows "sends (owned_write r) (apply_object env cl ns name (clean cl required) b (merge required))"
    and "sends (owned_write r)
      (apply_object_cached env cl ns name required (clean cl required) (merge required))"
  by (rule sends_apply_object sends_apply_object_cached;
      simp add: merge_owned[OF assms] clean_owned[OF assms])+

end

locale apply_kind = merge_kind cl merge
  for cl :: "'o client" and merge :: "'o \<Rightarrow> 'o \<Rightarrow> bool \<times> 'o" +
  fixes settles :: "'o \<Rightarrow> bool"
  assumes merge_idem: "settles required \<Longrightarrow>
      \<not> fst (merge required (cl_MetaUpdate cl (bookkeeping u v g) (snd (merge required existing))))"
    and merge_clean: "settles required \<Longrightarrow>
      \<not> fst (merge required (cl_MetaUpdate cl (bookkeeping u v g) (clean cl required)))"
begin

text \<open>A server that stores what it is sent up to its bookkeeping, and keys objects by name.\<close>
definition storing_server :: bool where
  "storing_server \<longleftrightarrow> (\<forall>n x. \<exists>u v g. cl_Admit cl n x = cl_MetaUpdate cl (bookkeeping u v g) x)"

definition named_store :: "string \<Rightarrow> Cluster \<Rightarrow> bool" where
  "named_store ns c \<longleftrightarrow>
     (\<forall>name x. map_of (cl_Store cl c) (ns, name) = Some x \<longrightarrow> obj_name cl x = name)"

definition settled_in :: "string \<Rightarrow> string \<Rightarrow> 'o \<Rightarrow> Cluster \<Rightarrow> bool" where
  "settled_in ns name required c \<longleftrightarrow>
     (\<exists>x. map_of (cl_Store cl c) (ns, name) = Some x \<and> \<not> fst (merge required x))"

lemma create_settles:
  assumes "create_and_report env cl ns (clean cl required) b w = (Inr r, w')"
    and "settles required" and "storing_server"
  shows "settled_in ns (obj_name cl required) required (w_Cluster w')"
proof -
  obtain y w1 where c: "api_Create env cl ns (clean cl required) w = (Inr y, w1)"
      and w': "w_Cluster w' = w_Cluster w1"
    using assms(1)
    by (auto simp: create_and_report_def go_defs ReportCreateEvent_def Eventf_def
        split: prod.splits sum.splits if_splits)
  obtain u v g where "cl_Admit cl (w_Calls w) (clean cl required) =
      cl_MetaUpdate cl (bookkeeping u v g) (clean cl required)"
    using assms(3) unfolding storing_server_def by blast
  with create_ok[OF c] merge_clean[OF assms(2)] show ?thesis
    unfolding settled_in_def w' by (auto simp: clean_name)
qed

lemma update_settles:
  assumes "update_and_report env cl ns (snd (merge required existing)) w = (Inr r, w')"
    and "settles required" and "storing_server"
    and "obj_name cl required = name" "obj_name cl existing = name"
  shows "settled_in ns name required (w_Cluster w')"
proof -
  obtain y w1 where c: "api_Update env cl ns (snd (merge required existing)) w = (Inr y, w1)"
      and w': "w_Cluster w' = w_Cluster w1"
    using assms(1)
    by (auto simp: update_and_report_def go_defs ReportUpdateEvent_def Eventf_def
        split: prod.splits sum.splits if_splits)
  obtain u v g where "cl_Admit cl (w_Calls w) (snd (merge required existing)) =
      cl_MetaUpdate cl (bookkeeping u v g) (snd (merge required existing))"
    using assms(3) unfolding storing_server_def by blast
  with update_ok[OF c] merge_idem[OF assms(2)] show ?thesis
    unfolding settled_in_def w' by (auto simp: merge_name[OF assms(4,5)])
qed

text \<open>A successful apply leaves a settled object behind, whatever other actors did before.\<close>
lemma apply_settles:
  assumes run: "apply_object env cl ns name (clean cl required) b (merge required) w = (Inr r, w')"
    and "settles required" and "storing_server" and name: "obj_name cl required = name"
    and names: "\<And>n c. named_store ns c \<Longrightarrow> named_store ns (e_Interfere env n c)"
    and "named_store ns (w_Cluster w)"
  shows "settled_in ns name required (w_Cluster w')"
proof -
  obtain g w1 where get: "api_Get env cl ns name w = (g, w1)" by (meson surj_pair)
  have ns1: "named_store ns (w_Cluster w1)"
    using names[OF assms(6)] get
    by (auto simp: api_Get_def api_call_def before_call_def Let_def
        split: option.splits prod.splits sum.splits)
  show ?thesis
  proof (cases g)
    case (Inl e)
    then have "create_and_report env cl ns (clean cl required) b w1 = (Inr r, w')"
      using run get by (auto simp: apply_object_def go_defs split: if_splits)
    from create_settles[OF this] assms(2,3) name show ?thesis by simp
  next
    case (Inr existing)
    have found: "map_of (cl_Store cl (w_Cluster w1)) (ns, name) = Some existing"
      using get_ok get Inr by blast
    then have nm: "obj_name cl existing = name" using ns1 unfolding named_store_def by blast
    show ?thesis
    proof (cases "fst (merge required existing)")
      case True
      then have "update_and_report env cl ns (snd (merge required existing)) w1 = (Inr r, w')"
        using run get Inr by (auto simp: apply_object_def go_defs case_prod_beta)
      from update_settles[OF this assms(2,3) name nm] show ?thesis .
    next
      case False
      then have "w' = w1" using run get Inr by (auto simp: apply_object_def go_defs case_prod_beta)
      with False found show ?thesis by (auto simp: settled_in_def)
    qed
  qed
qed

text \<open>Applying a settled object again, undisturbed, is one read and no change.\<close>
lemma apply_settled:
  assumes "settled_in ns name required (w_Cluster w)"
    and "e_Fault env (w_Calls w) = None"
    and "e_Interfere env (w_Calls w) (w_Cluster w) = w_Cluster w"
  shows "\<exists>x. apply_object env cl ns name toCreate b (merge required) w =
    (Inr (x, False), before_call env (Get (cl_Kind cl) ns name) w)"
  using assms get_quiet[OF assms(2,3), of ns name]
  by (auto simp: settled_in_def apply_object_def go_defs case_prod_beta)

lemma apply_converges:
  assumes "apply_object env cl ns name (clean cl required) b (merge required) w = (Inr r, w')"
    and "settles required" and "storing_server" and "obj_name cl required = name"
    and "\<And>n c. named_store ns c \<Longrightarrow> named_store ns (e_Interfere env n c)"
    and "named_store ns (w_Cluster w)"
    and "e_Fault env (w_Calls w') = None"
    and "e_Interfere env (w_Calls w') (w_Cluster w') = w_Cluster w'"
  shows "\<exists>x. apply_object env cl ns name (clean cl required) b (merge required) w' =
    (Inr (x, False), before_call env (Get (cl_Kind cl) ns name) w')"
  by (rule apply_settled[OF apply_settles[OF assms(1-6)] assms(7,8)])

end

section \<open>The kinds the operator applies\<close>

lemma enforce_idem [simp]:
  "enforce_api_group (enforce_api_group ss) = enforce_api_group ss"
  "enforce_role_ref (enforce_role_ref r) = enforce_role_ref r"
  by (auto simp: enforce_api_group_def enforce_role_ref_def)

text \<open>How a merge treats metadata.\<close>
lemmas merge_laws = Let_def case_prod_beta clean_def EnsureObjectMeta_unmodified
  EnsureObjectMeta_bookkeeping EnsureObjectMeta_idem EnsureObjectMeta_clean

interpretation role: apply_kind "Roles env" merge_Role "\<lambda>r. meta_settles (ro_ObjectMeta r)" for env
  by unfold_locales (simp_all add: Roles_def merge_Role_def merge_laws)

interpretation role_binding: apply_kind "RoleBindings env" merge_RoleBinding
    "\<lambda>r. meta_settles (rb_ObjectMeta r)" for env
  by unfold_locales (simp_all add: RoleBindings_def merge_RoleBinding_def merge_laws)

text \<open>A cluster role with an aggregation rule does not settle: its rules are never written, so they
  differ forever. The operator applies none.\<close>
interpretation cluster_role: apply_kind "ClusterRoles env" merge_ClusterRole
    "\<lambda>r. meta_settles (cro_ObjectMeta r) \<and> cro_AggregationRule r = None" for env
  by unfold_locales (simp_all add: ClusterRoles_def merge_ClusterRole_def merge_laws)

interpretation cluster_role_binding: apply_kind "ClusterRoleBindings env" merge_ClusterRoleBinding
    "\<lambda>r. meta_settles (crb_ObjectMeta r)" for env
  by unfold_locales (simp_all add: ClusterRoleBindings_def merge_ClusterRoleBinding_def merge_laws)

interpretation service_account: apply_kind "ServiceAccounts env" merge_ServiceAccount
    "\<lambda>r. meta_settles (sa_ObjectMeta r)" for env
  by unfold_locales (simp_all add: ServiceAccounts_def merge_ServiceAccount_def merge_laws)

interpretation service: apply_kind "Services env" merge_Service
    "\<lambda>r. meta_settles (sv_ObjectMeta r)" for env
  by unfold_locales (simp_all add: Services_def merge_Service_def merge_laws)

interpretation network_policy: apply_kind "NetworkPolicies env" merge_NetworkPolicy
    "\<lambda>r. meta_settles (np_ObjectMeta r)" for env
  by unfold_locales (simp_all add: NetworkPolicies_def merge_NetworkPolicy_def merge_laws)

interpretation flow_schema: apply_kind "FlowSchemas env" merge_FlowSchema
    "\<lambda>r. meta_settles (fl_ObjectMeta r)" for env
  by unfold_locales (simp_all add: FlowSchemas_def merge_FlowSchema_def merge_laws)

interpretation api_service: apply_kind "APIServices env" merge_APIService
    "\<lambda>r. meta_settles (as_ObjectMeta r)" for env
  by unfold_locales (simp_all add: APIServices_def merge_APIService_def merge_laws)

text \<open>Kinds whose merge may start over after a change: a webhook configuration, because of the CA
  bundles that others write, and a deployment, because of the expected generation.\<close>
interpretation mutating_webhook: merge_kind "MutatingWebhookConfigurations env" merge_MutatingWebhook
  for env
  by unfold_locales (simp_all add: MutatingWebhookConfigurations_def merge_MutatingWebhook_def merge_laws)

interpretation validating_webhook: merge_kind "ValidatingWebhookConfigurations env"
    merge_ValidatingWebhook for env
  by unfold_locales
    (simp_all add: ValidatingWebhookConfigurations_def merge_ValidatingWebhook_def merge_laws)

interpretation deployment: merge_kind "Deployments env" "\<lambda>required. merge_Deployment required g" for env g
  by unfold_locales (simp_all add: Deployments_def merge_Deployment_def merge_laws)

end
