(* ===== verification/Network_Resources.thy ===== *)
theory Network_Resources
  imports Rbac_Resources Apply_Laws
begin

text \<open>
  The network policies and their adjustment to the platform. On OpenShift the manifests are applied
  as they are. Elsewhere the API server runs on the host network, so the two policies that admit it
  lose their peers, and cluster DNS is looked for in \<^verbatim>\<open>kube-system\<close>.
\<close>

section \<open>Adjusting a policy\<close>

text \<open>\<^verbatim>\<open>if len(xs) > 0 { xs[0] = f(xs[0]) }\<close>\<close>
fun update_first :: "('a \<Rightarrow> 'a) \<Rightarrow> 'a list \<Rightarrow> 'a list" where
  "update_first f [] = []"
| "update_first f (x # xs) = f x # xs"

definition set_match_labels :: "string \<Rightarrow> string \<Rightarrow> LabelSelector option \<Rightarrow> LabelSelector option" where
  "set_match_labels k v = map_option (\<lambda>sel. sel\<lparr>ls_MatchLabels := [k \<mapsto> v]\<rparr>)"

definition adjustDNSNetworkPolicyForPlatform :: "bool \<Rightarrow> NetworkPolicy \<Rightarrow> NetworkPolicy" where
  "adjustDNSNetworkPolicyForPlatform isOpenShift policy =
     (if isOpenShift then policy
      else policy\<lparr>np_Spec := (np_Spec policy)\<lparr>nps_Egress := update_first (\<lambda>rule.
        rule\<lparr>npe_To := update_first (\<lambda>peer. peer\<lparr>
          npp_NamespaceSelector :=
            set_match_labels ''kubernetes.io/metadata.name'' ''kube-system'' (npp_NamespaceSelector peer),
          npp_PodSelector := set_match_labels ''k8s-app'' ''kube-dns'' (npp_PodSelector peer)\<rparr>)
          (npe_To rule)\<rparr>) (nps_Egress (np_Spec policy))\<rparr>\<rparr>)"

definition open_first_rules :: "NetworkPolicySpec \<Rightarrow> NetworkPolicySpec" where
  "open_first_rules spec = spec\<lparr>
     nps_Ingress := update_first (\<lambda>rule. rule\<lparr>npi_From := []\<rparr>) (nps_Ingress spec),
     nps_Egress := update_first (\<lambda>rule. rule\<lparr>npe_To := []\<rparr>) (nps_Egress spec)\<rparr>"

definition adjustVisibilityNetworkPolicyForPlatform :: "bool \<Rightarrow> NetworkPolicy \<Rightarrow> NetworkPolicy" where
  "adjustVisibilityNetworkPolicyForPlatform isOpenShift policy =
     (if isOpenShift then policy else policy\<lparr>np_Spec := open_first_rules (np_Spec policy)\<rparr>)"

definition adjustWebhookNetworkPolicyForPlatform :: "bool \<Rightarrow> NetworkPolicy \<Rightarrow> NetworkPolicy" where
  "adjustWebhookNetworkPolicyForPlatform isOpenShift policy =
     (if isOpenShift then policy else policy\<lparr>np_Spec := open_first_rules (np_Spec policy)\<rparr>)"

text \<open>The policy that is wanted for an asset.\<close>
definition wanted_network_policy :: "Env \<Rightarrow> OwnerReference \<Rightarrow> NetworkPolicy \<Rightarrow> NetworkPolicy" where
  "wanted_network_policy env ownerReference asset' =
     (let want = asset'\<lparr>np_ObjectMeta := owned_meta
            ((np_ObjectMeta asset')\<lparr>om_Namespace := e_OperatorNamespace env\<rparr>) ownerReference\<rparr>;
          want = (if om_Name (np_ObjectMeta want) = ''kueue-allow-egress-cluster-dns''
                  then adjustDNSNetworkPolicyForPlatform (e_IsOpenShift env) want else want);
          want = (if om_Name (np_ObjectMeta want) = ''kueue-allow-ingress-egress-visibility''
                  then adjustVisibilityNetworkPolicyForPlatform (e_IsOpenShift env) want else want)
      in if om_Name (np_ObjectMeta want) = ''kueue-allow-ingress-egress-webhook''
         then adjustWebhookNetworkPolicyForPlatform (e_IsOpenShift env) want else want)"

definition manageNetworkPolicies ::
  "Env \<Rightarrow> annotations \<Rightarrow> OwnerReference \<Rightarrow> (World, annotations) go" where
  "manageNetworkPolicies env specAnnotations ownerReference =
     (let networkPolicyDir = asset ''networkpolicy'' in
      go_bind (asset_dir env networkPolicyDir ''failed to read networkpolicy from directory'') (\<lambda>files.
        go_foldM (\<lambda>annos file.
          go_bind (read_asset (a_NetworkPolicy (e_Assets env)) (path_join networkPolicyDir file))
            (\<lambda>asset'.
          go_bind (applyNetworkPolicyWithCache env (wanted_network_policy env ownerReference asset'))
            (\<lambda>(policy, _).
          go_bind (hash_go env (HNetworkPolicy (np_Spec policy)) ''failed to hash NetworkPolicy spec'')
            (\<lambda>hash. go_return
              (AList.update (''networkpolicy/'' @ om_Name (np_ObjectMeta policy)) hash annos)))))
          files specAnnotations))"

section \<open>What the adjustment changes\<close>

lemma update_first_map: "(\<And>x. g (f x) = g x) \<Longrightarrow> map g (update_first f xs) = map g xs"
  by (cases xs) auto

lemma update_first_tl: "tl (update_first f xs) = tl xs"
  by (cases xs) auto

lemmas adjust_defs = adjustDNSNetworkPolicyForPlatform_def adjustVisibilityNetworkPolicyForPlatform_def
  adjustWebhookNetworkPolicyForPlatform_def open_first_rules_def update_first_map update_first_tl

text \<open>The policy that is applied for a manifest is the manifest itself, in the operator's
  namespace and owned by the Kueue resource. On OpenShift its specification is untouched. Elsewhere
  at most the first egress and ingress rules of the three policies that mention the platform
  change: pods, policy types, ports and all further rules are those of the manifest, and every
  other policy is untouched.\<close>
theorem wanted_network_policy_spec:
  "om_Namespace (np_ObjectMeta (wanted_network_policy env r p)) = e_OperatorNamespace env \<and>
   om_OwnerReferences (np_ObjectMeta (wanted_network_policy env r p)) = [r] \<and>
   om_Name (np_ObjectMeta (wanted_network_policy env r p)) = om_Name (np_ObjectMeta p) \<and>
   np_Spec (wanted_network_policy env r p) =
     (if e_IsOpenShift env then np_Spec p
      else if om_Name (np_ObjectMeta p) = ''kueue-allow-egress-cluster-dns''
        then np_Spec (adjustDNSNetworkPolicyForPlatform False p)
      else if om_Name (np_ObjectMeta p) \<in>
          {''kueue-allow-ingress-egress-visibility'', ''kueue-allow-ingress-egress-webhook''}
        then open_first_rules (np_Spec p)
      else np_Spec p) \<and>
   (let spec = np_Spec (wanted_network_policy env r p) in
     nps_PodSelector spec = nps_PodSelector (np_Spec p) \<and>
     nps_PolicyTypes spec = nps_PolicyTypes (np_Spec p) \<and>
     map npe_Ports (nps_Egress spec) = map npe_Ports (nps_Egress (np_Spec p)) \<and>
     map npi_Ports (nps_Ingress spec) = map npi_Ports (nps_Ingress (np_Spec p)) \<and>
     tl (nps_Egress spec) = tl (nps_Egress (np_Spec p)) \<and>
     tl (nps_Ingress spec) = tl (nps_Ingress (np_Spec p)))"
  by (simp add: wanted_network_policy_def owned_meta_def adjust_defs Let_def)

section \<open>Convergence\<close>

text \<open>Objects are stored under their own name.\<close>
definition policies_named :: "string \<Rightarrow> Cluster \<Rightarrow> bool" where
  "policies_named ns c \<longleftrightarrow> (\<forall>name x. map_of (c_NetworkPolicies c) (ns, name) = Some x \<longrightarrow>
     om_Name (np_ObjectMeta x) = name)"

text \<open>The server changes nothing of a policy but its UID, resource version and generation.\<close>
definition stores_policies :: "Env \<Rightarrow> bool" where
  "stores_policies env \<longleftrightarrow> (\<forall>n x. \<exists>u v g. srv_NetworkPolicy (e_Server env) n x =
     np_ObjectMeta_update (bookkeeping u v g) x)"

lemma network_policy_locale_preds:
  "network_policy.storing_server env \<longleftrightarrow> stores_policies env"
  "network_policy.named_store env ns c \<longleftrightarrow> policies_named ns c"
  unfolding network_policy.storing_server_def network_policy.named_store_def stores_policies_def
      policies_named_def
  by (simp_all add: NetworkPolicies_def obj_name_def)


definition plain_policy :: "string \<Rightarrow> NetworkPolicy" where
  "plain_policy name = \<lparr>np_TypeMeta = empty_type,
     np_ObjectMeta = empty_meta\<lparr>om_Name := name, om_Namespace := ''ns''\<rparr>,
     np_Spec = \<lparr>nps_PodSelector = \<lparr>ls_MatchLabels = Map.empty, ls_MatchExpressions = []\<rparr>,
       nps_Ingress = [], nps_Egress = [], nps_PolicyTypes = []\<rparr>\<rparr>"


end
