(* ===== verification/Workload_Resources.thy ===== *)
theory Workload_Resources
  imports Network_Resources
begin

text \<open>
  Custom resource definitions, the operand's deployment and the resources of cert-manager and
  Prometheus. The deployment is the embedded manifest with certificates, high availability, log
  level and the hashes of everything it depends on written into it. Issuer, certificate and
  service monitor are untyped objects.
\<close>

section \<open>Custom resource definitions\<close>

definition set_conversion_namespace ::
  "string \<Rightarrow> CustomResourceDefinition \<Rightarrow> CustomResourceDefinition" where
  "set_conversion_namespace ns crd =
     crd\<lparr>crd_Spec := (crd_Spec crd)\<lparr>crs_Conversion := map_option (\<lambda>c.
       if ccv_Strategy c = ''Webhook''
       then c\<lparr>ccv_Webhook := map_option (\<lambda>wh. wh\<lparr>wcv_ClientConfig := map_option (\<lambda>cc.
              cc\<lparr>wc_Service := map_option (\<lambda>svc. svc\<lparr>sr_Namespace := ns\<rparr>) (wc_Service cc)\<rparr>)
            (wcv_ClientConfig wh)\<rparr>) (ccv_Webhook c)\<rparr>
       else c) (crs_Conversion (crd_Spec crd))\<rparr>\<rparr>"

definition required_crd :: "Env \<Rightarrow> CustomResourceDefinition \<Rightarrow> CustomResourceDefinition" where
  "required_crd env crd = set_conversion_namespace (e_OperatorNamespace env)
     (crd\<lparr>crd_ObjectMeta := (crd_ObjectMeta crd)\<lparr>om_Annotations :=
        InjectCertAnnotation (om_Annotations (crd_ObjectMeta crd)) (e_OperatorNamespace env)\<rparr>\<rparr>)"

definition manageCustomResources :: "Env \<Rightarrow> annotations \<Rightarrow> (World, annotations) go" where
  "manageCustomResources env specAnnotations =
     (let crdDir = asset ''crds'' in
      go_bind (asset_dir env crdDir ''failed to read crd directory'') (\<lambda>files.
        go_foldM (\<lambda>annos file.
          go_bind (read_asset (a_CRD (e_Assets env)) (path_join crdDir file)) (\<lambda>required.
            if is_alpha required then go_return annos
            else
              go_bind (applyCustomResourceDefinitionWithCache env (required_crd env required))
                (\<lambda>(crd, _).
              go_bind (hash_go env (HCRD (crd_Spec crd)) ''failed to hash CRD spec'') (\<lambda>hash.
                go_return (AList.update (''crd/'' @ om_Name (crd_ObjectMeta crd)) hash annos)))))
          files specAnnotations))"

section \<open>The operand's deployment\<close>

definition secret_source :: "SecretVolumeSource \<Rightarrow> VolumeSource" where
  "secret_source s = \<lparr>vs_EmptyDir = None, vs_Secret = Some s, vs_Other = []\<rparr>"

definition metricsCertVolume :: Volume where
  "metricsCertVolume = \<lparr>vo_Name = certMetricsCerts, vo_VolumeSource = secret_source
     \<lparr>svo_SecretName = secretMetricsServerCert, svo_Items = [], svo_Optional = None\<rparr>\<rparr>"

definition visibility_source :: VolumeSource where
  "visibility_source = secret_source \<lparr>svo_SecretName = secretKueueVisibilityServerCert,
     svo_Items = map (\<lambda>k. \<lparr>ktp_Key = k, ktp_Path = k\<rparr>) [keyCaCrt, keyTlsCrt, keyTlsKey],
     svo_Optional = Some False\<rparr>"

text \<open>The loop over the volumes stops at the first volume called visibility.\<close>
fun replace_visibility_volume :: "Volume list \<Rightarrow> Volume list" where
  "replace_visibility_volume [] = []"
| "replace_visibility_volume (v # vs) =
     (if vo_Name v = ''visibility'' then v\<lparr>vo_VolumeSource := visibility_source\<rparr> # vs
      else v # replace_visibility_volume vs)"

definition metricsCertVolumeMount :: VolumeMount where
  "metricsCertVolumeMount = \<lparr>vm_Name = certMetricsCerts, vm_MountPath = ''/etc/kueue/metrics/certs'',
     vm_ReadOnly = True, vm_Rest = []\<rparr>"

definition zap_log_level :: "LogLevel \<Rightarrow> int" where
  "zap_log_level l = (if l = ''Normal'' then 2 else if l = ''Debug'' then 4
     else if l = ''Trace'' then 6 else if l = ''TraceAll'' then 8 else 2)"

abbreviation zap_flag :: string where "zap_flag \<equiv> ''--zap-log-level=''"

fun set_zap_arg :: "string \<Rightarrow> string list \<Rightarrow> string list" where
  "set_zap_arg zapLogArg [] = [zapLogArg]"
| "set_zap_arg zapLogArg (arg # args) =
     (if HasPrefix arg zap_flag then zapLogArg # args else arg # set_zap_arg zapLogArg args)"

text \<open>\<^verbatim>\<open>Containers[0]\<close>: its security context is dereferenced.\<close>
definition manager_container :: "Env \<Rightarrow> LogLevel \<Rightarrow> Container \<Rightarrow> err + Container" where
  "manager_container env logLevel c = (case co_SecurityContext c of
     None \<Rightarrow> Inl (Panic ''nil pointer dereference'')
   | Some sc \<Rightarrow> Inr (c\<lparr>
       co_VolumeMounts := co_VolumeMounts c @ [metricsCertVolumeMount],
       co_SecurityContext := Some (sc\<lparr>scx_ReadOnlyRootFilesystem := Some True\<rparr>),
       co_Resources := \<lparr>rq_Requests = [''cpu'' \<mapsto> ''500m'', ''memory'' \<mapsto> ''512Mi''],
                         rq_Limits = Map.empty\<rparr>,
       co_Image := e_KueueImage env,
       co_Args := set_zap_arg (zap_flag @ FormatInt (zap_log_level logLevel)) (co_Args c)\<rparr>))"

definition ha_strategy :: DeploymentStrategy where
  "ha_strategy = \<lparr>dst_Type = ''RollingUpdate'', dst_MaxUnavailable = Some ''1'', dst_MaxSurge = None\<rparr>"

definition ha_affinity :: Affinity where
  "ha_affinity = \<lparr>af_PodAntiAffinity_Preferred = [\<lparr>wpt_Weight = 100,
       wpt_LabelSelector = Some \<lparr>ls_MatchLabels =
         [''control-plane'' \<mapsto> ''controller-manager'', appLabelName \<mapsto> ''kueue''],
         ls_MatchExpressions = []\<rparr>,
       wpt_TopologyKey = ''kubernetes.io/hostname''\<rparr>], af_Rest = []\<rparr>"

definition required_deployment ::
  "Env \<Rightarrow> LogLevel \<Rightarrow> annotations \<Rightarrow> OwnerReference \<Rightarrow> Deployment \<Rightarrow> err + Deployment" where
  "required_deployment env logLevel specAnnotations ownerReference asset' =
     (let template = dp_Template (de_Spec asset'); pod = pt_Spec template in
      case ps_Containers pod of
        [] \<Rightarrow> Inl (Panic ''index out of range'')
      | c # cs \<Rightarrow> (case manager_container env logLevel c of
          Inl e \<Rightarrow> Inl e
        | Inr manager \<Rightarrow> Inr (asset'\<lparr>
            de_ObjectMeta := owned_meta ((de_ObjectMeta asset')\<lparr>om_Name := OperandName,
              om_Namespace := e_OperatorNamespace env\<rparr>) ownerReference,
            de_Spec := (de_Spec asset')\<lparr>
              dp_Replicas := Some 2,
              dp_Strategy := ha_strategy,
              dp_Template := template\<lparr>
                pt_Annotations := snd (MergeMap False (pt_Annotations template) specAnnotations),
                pt_Spec := pod\<lparr>
                  ps_Volumes := replace_visibility_volume (ps_Volumes pod) @ [metricsCertVolume],
                  ps_Containers := manager # cs,
                  ps_Affinity := Some ha_affinity,
                  ps_PriorityClassName := ''system-cluster-critical''\<rparr>\<rparr>\<rparr>\<rparr>)))"

text \<open>The recorded generation goes into the status of the Kueue object that was passed in, which is
  returned with the deployment.\<close>
definition manageDeployment ::
  "Env \<Rightarrow> Kueue \<Rightarrow> annotations \<Rightarrow> OwnerReference \<Rightarrow> (World, Deployment \<times> bool \<times> Kueue) go" where
  "manageDeployment env kueueoperator specAnnotations ownerReference =
     (let status = ku_Status kueueoperator; ost = kst_OperatorStatus status in
      go_bind (read_asset (a_Deployment (e_Assets env)) (asset ''deployment.yaml'')) (\<lambda>asset'.
      go_bind (go_lift (required_deployment env
                 (os_LogLevel (ks_OperatorSpec (ku_Spec kueueoperator))) specAnnotations
                 ownerReference asset')) (\<lambda>required.
      go_bind (applyDeploymentWithCache env required
                 (ExpectedDeploymentGeneration required (ost_Generations ost))) (\<lambda>(deploy, updated).
        go_return (deploy, updated,
          if updated then kueueoperator\<lparr>ku_Status := status\<lparr>kst_OperatorStatus := ost\<lparr>
              ost_Generations := SetDeploymentGeneration (ost_Generations ost) deploy\<rparr>\<rparr>\<rparr>
          else kueueoperator)))))"

section \<open>Certificates\<close>

definition jobj :: "(string \<times> json) list \<Rightarrow> json" where
  "jobj kvs = JObj (map_of kvs)"

definition unstructured :: "(string \<times> json) list \<Rightarrow> Unstructured" where
  "unstructured kvs = \<lparr>us_Object = map_of kvs\<rparr>"

definition kueue_owner_json :: "Kueue \<Rightarrow> json" where
  "kueue_owner_json kueue = jobj [
     (''apiVersion'', JStr kueueAPIVersion),
     (''kind'', JStr kindKueue),
     (''name'', JStr (om_Name (ku_ObjectMeta kueue))),
     (''uid'', JStr (om_UID (ku_ObjectMeta kueue))),
     (''controller'', JBool False),
     (''blockOwnerDeletion'', JBool False)]"

definition required_issuer :: "Env \<Rightarrow> Kueue \<Rightarrow> Unstructured" where
  "required_issuer env kueue = unstructured [
     (''apiVersion'', JStr certManagerAPIVersion),
     (''kind'', JStr kindIssuer),
     (''metadata'', jobj [
        (''ownerReferences'', JList [kueue_owner_json kueue]),
        (''name'', JStr ''selfsigned''),
        (''namespace'', JStr (e_OperatorNamespace env))]),
     (''spec'', jobj [(''selfSigned'', jobj [])])]"

definition manageIssuerCR :: "Env \<Rightarrow> Kueue \<Rightarrow> (World, Unstructured \<times> bool) go" where
  "manageIssuerCR env kueue =
     ApplyUnstructuredResourceImproved env (Issuers env) True (required_issuer env kueue)"

definition required_certificate ::
  "Env \<Rightarrow> Kueue \<Rightarrow> string list \<Rightarrow> string \<Rightarrow> string \<Rightarrow> string \<Rightarrow> Unstructured" where
  "required_certificate env kueue dnsNames commonName secretName certificateName = unstructured [
     (''apiVersion'', JStr certManagerAPIVersion),
     (''kind'', JStr ''Certificate''),
     (''metadata'', jobj [
        (''ownerReferences'', JList [kueue_owner_json kueue]),
        (''name'', JStr certificateName),
        (''namespace'', JStr (e_OperatorNamespace env))]),
     (''spec'', jobj ((if commonName \<noteq> [] then [(''commonName'', JStr commonName)] else []) @ [
        (''dnsNames'', JList (map JStr dnsNames)),
        (''issuerRef'', jobj [(''kind'', JStr kindIssuer), (''name'', JStr ''selfsigned'')]),
        (''secretName'', JStr secretName)]))]"

definition manageCertificateCR ::
  "Env \<Rightarrow> Kueue \<Rightarrow> string list \<Rightarrow> string \<Rightarrow> string \<Rightarrow> string \<Rightarrow> (World, Unstructured \<times> bool) go" where
  "manageCertificateCR env kueue dnsNames commonName secretName certificateName =
     ApplyUnstructuredResourceImproved env (Certificates env) True
       (required_certificate env kueue dnsNames commonName secretName certificateName)"

section \<open>The service monitor\<close>

definition metrics_secret_key :: "string \<Rightarrow> json" where
  "metrics_secret_key key = jobj [(''name'', JStr secretMetricsServerCert), (''key'', JStr key)]"

text \<open>\<^verbatim>\<open>convertObj2Unstructured\<close> of the typed object: its JSON form, in which fields marked
  \<^verbatim>\<open>omitempty\<close> or \<^verbatim>\<open>omitzero\<close> are left out when they are not set.\<close>
definition required_service_monitor :: "Env \<Rightarrow> Kueue \<Rightarrow> Unstructured" where
  "required_service_monitor env kueue = unstructured [
     (''kind'', JStr ''ServiceMonitor''),
     (''apiVersion'', JStr ''monitoring.coreos.com/v1''),
     (''metadata'', jobj [
        (''name'', JStr ''kueue-metrics''),
        (''namespace'', JStr (e_OperatorNamespace env)),
        (''ownerReferences'', JList [jobj [
           (''apiVersion'', JStr ''kueue.openshift.io/v1''), (''kind'', JStr ''Kueue''),
           (''name'', JStr (om_Name (ku_ObjectMeta kueue))),
           (''uid'', JStr (om_UID (ku_ObjectMeta kueue)))]])]),
     (''spec'', jobj [
        (''selector'', jobj [(''matchLabels'', jobj [
           (''app.kubernetes.io/component'', JStr ''metrics-service''),
           (appLabelName, JStr ''kueue'')])]),
        (''namespaceSelector'', jobj []),
        (''endpoints'', JList [jobj [
           (''interval'', JStr ''30s''),
           (''path'', JStr ''/metrics''),
           (''port'', JStr ''https''),
           (''scheme'', JStr ''https''),
           (''bearerTokenFile'', JStr ''/var/run/secrets/kubernetes.io/serviceaccount/token''),
           (''tlsConfig'', jobj [
              (''insecureSkipVerify'', JBool False),
              (''ca'', jobj [(''secret'', metrics_secret_key keyCaCrt)]),
              (''cert'', jobj [(''secret'', metrics_secret_key keyTlsCrt)]),
              (''keySecret'', metrics_secret_key keyTlsKey),
              (''serverName'',
                 JStr ''kueue-controller-manager-metrics-service.openshift-kueue-operator.svc'')])]])])]"

definition manageServiceMonitor :: "Env \<Rightarrow> Kueue \<Rightarrow> (World, Unstructured \<times> bool) go" where
  "manageServiceMonitor env kueue = ApplyServiceMonitor env (required_service_monitor env kueue)"

section \<open>The deployment that results\<close>

lemma set_zap_arg_filter:
  "HasPrefix new zap_flag \<Longrightarrow>
   filter (\<lambda>a. HasPrefix a zap_flag) (set_zap_arg new args) =
     new # drop 1 (filter (\<lambda>a. HasPrefix a zap_flag) args)"
  "HasPrefix new zap_flag \<Longrightarrow>
   filter (\<lambda>a. \<not> HasPrefix a zap_flag) (set_zap_arg new args) =
     filter (\<lambda>a. \<not> HasPrefix a zap_flag) args"
  by (induction args) auto

text \<open>The operand's container runs with exactly one log level argument, the one of the Kueue
  resource (2, 4, 6 or 8), and otherwise with the arguments of the manifest in their order, provided
  the manifest has at most one log level argument; its image is the configured one and its root file
  system is read-only.\<close>
theorem manager_container_arguments:
  assumes "manager_container env level c = Inr c'"
    and "length (filter (\<lambda>a. HasPrefix a zap_flag) (co_Args c)) \<le> 1"
  shows "filter (\<lambda>a. HasPrefix a zap_flag) (co_Args c') = [zap_flag @ FormatInt (zap_log_level level)] \<and>
    filter (\<lambda>a. \<not> HasPrefix a zap_flag) (co_Args c') = filter (\<lambda>a. \<not> HasPrefix a zap_flag) (co_Args c) \<and>
    zap_log_level level \<in> {2, 4, 6, 8} \<and> co_Image c' = e_KueueImage env \<and>
    Option.bind (co_SecurityContext c') scx_ReadOnlyRootFilesystem = Some True"
proof -
  let ?new = "zap_flag @ FormatInt (zap_log_level level)"
  have c': "co_Args c' = set_zap_arg ?new (co_Args c)" "co_Image c' = e_KueueImage env"
    "Option.bind (co_SecurityContext c') scx_ReadOnlyRootFilesystem = Some True"
    using assms(1) by (auto simp: manager_container_def split: option.splits)
  have "zap_log_level level \<in> {2, 4, 6, 8}" by (simp add: zap_log_level_def)
  then show ?thesis
    using set_zap_arg_filter[OF HasPrefix_append, of "FormatInt (zap_log_level level)" "co_Args c"] assms(2)
    by (simp add: c')
qed

definition plain_container :: "string list \<Rightarrow> Container" where
  "plain_container args = \<lparr>co_Name = ''manager'', co_Image = [], co_Args = args,
     co_Resources = \<lparr>rq_Requests = Map.empty, rq_Limits = Map.empty\<rparr>, co_VolumeMounts = [],
     co_SecurityContext = Some \<lparr>scx_ReadOnlyRootFilesystem = None, scx_Rest = []\<rparr>, co_Rest = []\<rparr>"

theorem manager_container_arguments_witness:
  "\<exists>c'. manager_container (calm_env empty_cluster) ''Debug''
      (plain_container [''--config=x'', ''--zap-log-level=2'']) = Inr c' \<and>
    filter (\<lambda>a. HasPrefix a zap_flag) (co_Args c') = [''--zap-log-level=4'']"
proof -
  obtain c' where c': "manager_container (calm_env empty_cluster) ''Debug''
      (plain_container [''--config=x'', ''--zap-log-level=2'']) = Inr c'"
    by (simp add: manager_container_def plain_container_def)
  moreover have "FormatInt 4 = ''4''" by code_simp
  ultimately show ?thesis
    using manager_container_arguments[OF c']
    by (simp add: plain_container_def HasPrefix_def zap_log_level_def)
qed

text \<open>Keys as the reconciler builds them: distinct, and none that asks for a removal.\<close>
definition plain_keys :: "annotations \<Rightarrow> bool" where
  "plain_keys annos \<longleftrightarrow> distinct (map fst annos) \<and> (\<forall>k \<in> fst ` set annos. \<not> is_removal k)"

lemma plain_keys_merge: "plain_keys annos \<Longrightarrow> distinct (merge_keys annos)"
proof -
  assume p: "plain_keys annos"
  then have "merge_keys annos = map fst annos"
    by (auto simp: plain_keys_def merge_keys_def actual_key_def)
  then show ?thesis using p by (simp add: plain_keys_def)
qed

lemma deployment_annotation:
  assumes "required_deployment env level annos r manifest = Inr d" and "plain_keys annos"
    and "(k, h) \<in> set annos"
  shows "map_of (pt_Annotations (dp_Template (de_Spec d))) k = Some h"
proof -
  have "pt_Annotations (dp_Template (de_Spec d)) =
      snd (MergeMap False (pt_Annotations (dp_Template (de_Spec manifest))) annos)"
    using assms(1) by (auto simp: required_deployment_def Let_def split: list.splits sum.splits)
  moreover have "\<not> is_removal k" using assms(2,3) by (force simp: plain_keys_def)
  ultimately show ?thesis
    using MergeMap_lookup[OF plain_keys_merge[OF assms(2)] assms(3), of False
        "pt_Annotations (dp_Template (de_Spec manifest))"]
    by (simp add: actual_key_def wanted_value_def)
qed

text \<open>C16. Every recorded hash reaches the pods: the pod template of the deployment carries each of
  them as an annotation, so that two reconciliations whose recorded hashes differ at some key require
  different pod templates, and the operand is rolled out again.\<close>
theorem hash_change_rolls_out:
  assumes "required_deployment env level annos1 r manifest = Inr d1"
    and "required_deployment env level annos2 r manifest = Inr d2"
    and "plain_keys annos1" and "plain_keys annos2"
    and "(k, h1) \<in> set annos1" and "(k, h2) \<in> set annos2" and "h1 \<noteq> h2"
  shows "map_of (pt_Annotations (dp_Template (de_Spec d1))) k = Some h1 \<and>
    dp_Template (de_Spec d1) \<noteq> dp_Template (de_Spec d2)"
  using deployment_annotation[OF assms(1,3,5)] deployment_annotation[OF assms(2,4,6)] assms(7)
  by auto

definition plain_deployment :: Deployment where
  "plain_deployment = \<lparr>de_TypeMeta = empty_type, de_ObjectMeta = empty_meta,
     de_Spec = \<lparr>dp_Replicas = None,
       dp_Strategy = \<lparr>dst_Type = [], dst_MaxUnavailable = None, dst_MaxSurge = None\<rparr>,
       dp_Template = \<lparr>pt_Labels = [], pt_Annotations = [],
         pt_Spec = \<lparr>ps_Volumes = [], ps_Containers = [plain_container []], ps_Affinity = None,
           ps_PriorityClassName = [], ps_Rest = []\<rparr>\<rparr>, dp_Rest = []\<rparr>,
     de_Status = \<lparr>dps_ReadyReplicas = 0, dps_UnavailableReplicas = 0, dps_Rest = []\<rparr>\<rparr>"

definition some_owner :: OwnerReference where
  "some_owner = \<lparr>or_APIVersion = ''v1'', or_Kind = ''Kueue'', or_Name = ''cluster'', or_UID = ''1'',
     or_Controller = None, or_BlockOwnerDeletion = None\<rparr>"

theorem hash_change_rolls_out_witness:
  "\<exists>d1 d2. required_deployment (calm_env empty_cluster) [] [(''role/a'', ''x'')] some_owner plain_deployment = Inr d1 \<and>
    required_deployment (calm_env empty_cluster) [] [(''role/a'', ''y'')] some_owner plain_deployment = Inr d2 \<and>
    dp_Template (de_Spec d1) \<noteq> dp_Template (de_Spec d2)"
proof -
  obtain d1 d2 where
    d: "required_deployment (calm_env empty_cluster) [] [(''role/a'', ''x'')] some_owner plain_deployment = Inr d1"
       "required_deployment (calm_env empty_cluster) [] [(''role/a'', ''y'')] some_owner plain_deployment = Inr d2"
    by (simp add: required_deployment_def plain_deployment_def manager_container_def plain_container_def Let_def)
  have "plain_keys [(''role/a'', v)]" for v by (simp add: plain_keys_def is_removal_def HasSuffix_def)
  from hash_change_rolls_out[OF d this this, of "''role/a''" "''x''" "''y''"] d show ?thesis by auto
qed

section \<open>Owners of untyped objects\<close>

lemma jobj_field [simp]: "nested_field (jobj kvs) (f # path) =
   (case map_of kvs f of None \<Rightarrow> Inr None | Some v \<Rightarrow> nested_field v path)"
  by (simp add: jobj_def)

text \<open>The issuer and the certificates are owned by the Kueue resource they were made for and by
  nothing else, as the accessor of the untyped object reads it back, and they live under the
  requested name in the operator's namespace.\<close>
theorem cert_manager_objects_owned:
  "GetOwnerReferences (required_issuer env kueue) =
     [\<lparr>or_APIVersion = kueueAPIVersion, or_Kind = kindKueue, or_Name = om_Name (ku_ObjectMeta kueue),
       or_UID = om_UID (ku_ObjectMeta kueue), or_Controller = Some False,
       or_BlockOwnerDeletion = Some False\<rparr>] \<and>
   GetOwnerReferences (required_certificate env kueue dns cn secret name) =
     GetOwnerReferences (required_issuer env kueue) \<and>
   GetName (required_certificate env kueue dns cn secret name) = name \<and>
   GetNamespace (required_certificate env kueue dns cn secret name) = e_OperatorNamespace env \<and>
   GetName (required_issuer env kueue) = ''selfsigned'' \<and>
   GetNamespace (required_issuer env kueue) = e_OperatorNamespace env"
  by (simp add: required_issuer_def required_certificate_def kueue_owner_json_def unstructured_def
      nested_defs jobj_def)

end
