(* ===== verification/Operator_Status.thy ===== *)
theory Operator_Status
  imports Workload_Resources
begin

text \<open>
  The status of the Kueue resource: the three condition builders and \<^verbatim>\<open>updateKueueStatus\<close> of
  \<^verbatim>\<open>target_config_reconciler.go\<close>, and library-go's \<^verbatim>\<open>SetApplyConditionsLastTransitionTime\<close>. The
  lemmas show what the conditions say about the deployment (availability and progress exclude one
  another and are decided by the ready replicas alone), that each builder reports one condition per
  type, and that a transition time moves exactly when the status of its condition does.
\<close>

section \<open>Rendering errors\<close>

text \<open>\<^verbatim>\<open>err.Error()\<close>; an aggregate lists its distinct messages in brackets.\<close>
fun error_string :: "err \<Rightarrow> string" where
  "error_string (ApiError r m) = m"
| "error_string (Errorf m) = m"
| "error_string (Wrap m e) = m @ '': '' @ error_string e"
| "error_string (Panic m) = m"
| "error_string (Aggregate es) = (case es of [] \<Rightarrow> [] | [e] \<Rightarrow> error_string e
     | _ \<Rightarrow> (case remdups (map error_string es) of [m] \<Rightarrow> m
          | ms \<Rightarrow> ''['' @ Join ms '', '' @ '']''))"

section \<open>Conditions\<close>

abbreviation ConditionTrue :: string where "ConditionTrue \<equiv> ''True''"
abbreviation ConditionFalse :: string where "ConditionFalse \<equiv> ''False''"

text \<open>\<^verbatim>\<open>OperatorCondition().WithType(t).WithStatus(s).WithReason(r).WithMessage(m)\<close>\<close>
definition condition :: "string \<Rightarrow> string \<Rightarrow> string \<Rightarrow> string \<Rightarrow> ConditionApply" where
  "condition t s r m = \<lparr>ca_Type = Some t, ca_Status = Some s, ca_LastTransitionTime = None,
     ca_Reason = Some r, ca_Message = Some m\<rparr>"

definition format_int32 :: "int32 \<Rightarrow> string" where
  "format_int32 x = FormatInt (sint x)"

definition desired_replicas :: "Deployment \<Rightarrow> int32" where
  "desired_replicas deployment = (case dp_Replicas (de_Spec deployment) of None \<Rightarrow> 1 | Some n \<Rightarrow> n)"

definition all_ready :: "Deployment \<Rightarrow> bool" where
  "all_ready deployment \<longleftrightarrow>
     dps_ReadyReplicas (de_Status deployment) = desired_replicas deployment \<and>
     0 <s dps_ReadyReplicas (de_Status deployment)"

definition availableCond :: "Deployment \<Rightarrow> ConditionApply" where
  "availableCond deployment =
     (let desired = desired_replicas deployment; ready = dps_ReadyReplicas (de_Status deployment) in
      if all_ready deployment
      then condition ''Available'' ConditionTrue ''AllReplicasReady''
             (''All '' @ format_int32 ready @ '' replicas are ready'')
      else condition ''Available'' ConditionFalse ''NotEnoughReplicas''
             (format_int32 ready @ ''/'' @ format_int32 desired @ '' replicas are ready''))"

definition progressingCond :: "Deployment \<Rightarrow> ConditionApply" where
  "progressingCond deployment =
     (if all_ready deployment
      then condition ''Progressing'' ConditionFalse ''AsExpected'' ''Deployment is up to date''
      else condition ''Progressing'' ConditionTrue ''Reconciling'' ''Deployment is reconciling'')"

definition degradedCond :: "Deployment \<Rightarrow> ConditionApply option \<Rightarrow> ConditionApply" where
  "degradedCond deployment dependencyCondition =
     (let desired = desired_replicas deployment; ready = dps_ReadyReplicas (de_Status deployment);
          unavailable = dps_UnavailableReplicas (de_Status deployment)
      in case dependencyCondition of Some c \<Rightarrow> c
       | None \<Rightarrow>
           if 0 <s unavailable
           then condition ''Degraded'' ConditionTrue ''UnavailableReplicas''
                  (format_int32 unavailable @ '' replicas unavailable'')
           else if ready = 0 \<and> 0 <s desired
           then condition ''Degraded'' ConditionTrue ''NoReplicasReady''
                  (''No replicas ready (desired: '' @ format_int32 desired @ '')'')
           else condition ''Degraded'' ConditionFalse ''AsExpected'' [])"

definition certManagerCond :: ConditionApply where
  "certManagerCond = condition ''CertManagerAvailable'' ConditionTrue ''CertManagerInstalled''
     ''cert-manager is installed''"

definition buildOperatorConditions :: "Deployment \<Rightarrow> ConditionApply option \<Rightarrow> ConditionApply list" where
  "buildOperatorConditions deployment dependencyCondition =
     [availableCond deployment, progressingCond deployment,
      degradedCond deployment dependencyCondition, certManagerCond]"

definition buildCertManagerMissingConditions :: "ConditionApply list" where
  "buildCertManagerMissingConditions =
     [condition ''Available'' ConditionFalse ''MissingDependency''
        ''cert-manager is required but not installed'',
      condition ''Progressing'' ConditionFalse ''MissingDependency''
        ''waiting for cert-manager to be installed'',
      condition ''Degraded'' ConditionTrue ''MissingDependency''
        ''please make sure that cert-manager is installed on your cluster'']"

definition buildUnsupportedTLSProfileConditions :: "err \<Rightarrow> ConditionApply list" where
  "buildUnsupportedTLSProfileConditions tlsErr =
     [condition ''Available'' ConditionFalse ''UnsupportedTLSProfile''
        ''Kueue cannot be configured with the current cluster TLS profile'',
      condition ''Progressing'' ConditionFalse ''UnsupportedTLSProfile''
        ''waiting for a supported TLS profile to be configured'',
      condition ''Degraded'' ConditionTrue ''UnsupportedTLSProfile''
        (''The cluster TLS security profile is not supported: '' @ error_string tlsErr @
         ''. Kueue requires a minimum TLS version of 1.2. Please use Intermediate, Modern, or a Custom profile with at least VersionTLS12.'')]"

section \<open>Transition times\<close>

definition FindApplyCondition :: "ConditionApply list \<Rightarrow> string option \<Rightarrow> ConditionApply option" where
  "FindApplyCondition haystack conditionType = find (\<lambda>curr. ca_Type curr = conditionType) haystack"

definition set_transition_time ::
  "int \<Rightarrow> ConditionApply list \<Rightarrow> ConditionApply \<Rightarrow> ConditionApply" where
  "set_transition_time now oldConditions newCondition =
     (let carried = (case FindApplyCondition oldConditions (ca_Type newCondition) of
            Some existing \<Rightarrow> if ca_Status existing = ca_Status newCondition
              then newCondition\<lparr>ca_LastTransitionTime := ca_LastTransitionTime existing\<rparr>
              else newCondition
          | None \<Rightarrow> newCondition)
      in if ca_LastTransitionTime carried = None
         then carried\<lparr>ca_LastTransitionTime := Some now\<rparr> else carried)"

definition SetApplyConditionsLastTransitionTime ::
  "int \<Rightarrow> ConditionApply list \<Rightarrow> ConditionApply list \<Rightarrow> ConditionApply list" where
  "SetApplyConditionsLastTransitionTime now newConditions oldConditions =
     map (set_transition_time now oldConditions) newConditions"

section \<open>Writing the status\<close>

text \<open>The server replaces the status fields that this field manager owns. The conditions that the
  manager applied before are read back with \<^verbatim>\<open>ExtractKueueStatus\<close>, a parameter of the environment.\<close>
definition apply_status :: "StatusApply \<Rightarrow> Kueue \<Rightarrow> Kueue" where
  "apply_status st k = k\<lparr>ku_Status := (ku_Status k)\<lparr>kst_OperatorStatus :=
     (kst_OperatorStatus (ku_Status k))\<lparr>
       ost_Conditions := map (\<lambda>c. \<lparr>
         oc_Type = (case ca_Type c of None \<Rightarrow> [] | Some x \<Rightarrow> x),
         oc_Status = (case ca_Status c of None \<Rightarrow> [] | Some x \<Rightarrow> x),
         oc_LastTransitionTime = (case ca_LastTransitionTime c of None \<Rightarrow> 0 | Some x \<Rightarrow> nat x),
         oc_Reason = (case ca_Reason c of None \<Rightarrow> [] | Some x \<Rightarrow> x),
         oc_Message = (case ca_Message c of None \<Rightarrow> [] | Some x \<Rightarrow> x)\<rparr>) (sta_Conditions st),
       ost_ReadyReplicas := (case sta_ReadyReplicas st of None \<Rightarrow> 0 | Some n \<Rightarrow> n)\<rparr>\<rparr>\<rparr>"

abbreviation OperatorConfigName :: string where "OperatorConfigName \<equiv> ''cluster''"

definition api_ApplyStatus :: "Env \<Rightarrow> StatusApply \<Rightarrow> (World, unit) go" where
  "api_ApplyStatus env st = api_call env (ApplyStatus st) (\<lambda>n c.
     case map_of (c_Kueues c) OperatorConfigName of
       None \<Rightarrow> (Inl (NotFound, OperatorConfigName), c)
     | Some k \<Rightarrow> (Inr (), c\<lparr>c_Kueues :=
         AList.update OperatorConfigName (srv_Kueue (e_Server env) n (apply_status st k)) (c_Kueues c)\<rparr>))"

definition existing_conditions :: "Env \<Rightarrow> Kueue \<Rightarrow> ConditionApply list" where
  "existing_conditions env kueue =
     (if ost_Conditions (kst_OperatorStatus (ku_Status kueue)) \<noteq> []
      then (case e_ExtractKueueStatus env kueue of Inr (Some cs) \<Rightarrow> cs | _ \<Rightarrow> [])
      else [])"

definition updateKueueStatus ::
  "Env \<Rightarrow> Kueue \<Rightarrow> ConditionApply list \<Rightarrow> int32 option \<Rightarrow> (World, unit) go" where
  "updateKueueStatus env kueue conditions readyReplicas =
     go_bind (go_read w_Now) (\<lambda>now.
       api_ApplyStatus env \<lparr>sta_Conditions = SetApplyConditionsLastTransitionTime now conditions
            (existing_conditions env kueue),
          sta_ReadyReplicas = readyReplicas\<rparr>)"

section \<open>What the conditions say\<close>

definition condition_status :: "ConditionApply list \<Rightarrow> string \<Rightarrow> string option" where
  "condition_status cs t = Option.bind (FindApplyCondition cs (Some t)) ca_Status"

lemma condition_sel [simp]:
  "ca_Type (condition t s r m) = Some t" "ca_Status (condition t s r m) = Some s"
  "ca_LastTransitionTime (condition t s r m) = None" "ca_Reason (condition t s r m) = Some r"
  "ca_Message (condition t s r m) = Some m"
  by (simp_all add: condition_def)

lemma condition_types [simp]:
  "ca_Type (availableCond d) = Some ''Available''"
  "ca_Type (progressingCond d) = Some ''Progressing''"
  "ca_Type (degradedCond d None) = Some ''Degraded''"
  "ca_Type certManagerCond = Some ''CertManagerAvailable''"
  by (simp_all add: availableCond_def progressingCond_def degradedCond_def certManagerCond_def Let_def)

lemma all_ready_iff:
  "all_ready d \<longleftrightarrow> dps_ReadyReplicas (de_Status d) = desired_replicas d \<and>
     0 < sint (dps_ReadyReplicas (de_Status d))"
  by (simp add: all_ready_def word_sless_alt)

lemma condition_status_parts:
  "condition_status (buildOperatorConditions d dep) ''Available'' = ca_Status (availableCond d)"
  "condition_status (buildOperatorConditions d dep) ''Progressing'' = ca_Status (progressingCond d)"
  "condition_status (buildOperatorConditions d None) ''Degraded'' = ca_Status (degradedCond d None)"
  "condition_status (buildOperatorConditions d (Some (condition ''Degraded'' s r m))) ''Degraded'' = Some s"
  by (simp_all add: condition_status_def FindApplyCondition_def buildOperatorConditions_def)
    (simp add: degradedCond_def)

lemma condition_status_values:
  "ca_Status (availableCond d) = Some (if all_ready d then ConditionTrue else ConditionFalse)"
  "ca_Status (progressingCond d) = Some (if all_ready d then ConditionFalse else ConditionTrue)"
  "ca_Status (degradedCond d None) = Some (if 0 < sint (dps_UnavailableReplicas (de_Status d)) \<or>
     dps_ReadyReplicas (de_Status d) = 0 \<and> 0 < sint (desired_replicas d)
     then ConditionTrue else ConditionFalse)"
  by (simp_all add: availableCond_def progressingCond_def degradedCond_def Let_def word_sless_alt)

text \<open>C13. The conditions that follow a reconciliation: Kueue is reported available exactly when all
  desired replicas (one, if the deployment does not say) are ready and there is at least one; it is
  reported progressing exactly when it is not available; it is degraded exactly when some replica
  is unavailable or none of a positive number of desired replicas is ready, and whenever a missing
  dependency is reported.\<close>
theorem buildOperatorConditions_status:
  "condition_status (buildOperatorConditions d dep) ''Available'' =
     Some (if dps_ReadyReplicas (de_Status d) = desired_replicas d \<and>
              0 < sint (dps_ReadyReplicas (de_Status d)) then ConditionTrue else ConditionFalse) \<and>
   (condition_status (buildOperatorConditions d dep) ''Progressing'' = Some ConditionTrue \<longleftrightarrow>
     condition_status (buildOperatorConditions d dep) ''Available'' = Some ConditionFalse) \<and>
   (condition_status (buildOperatorConditions d None) ''Degraded'' = Some ConditionTrue \<longleftrightarrow>
     0 < sint (dps_UnavailableReplicas (de_Status d)) \<or>
     dps_ReadyReplicas (de_Status d) = 0 \<and> 0 < sint (desired_replicas d)) \<and>
   condition_status (buildOperatorConditions d (Some (condition ''Degraded'' ConditionTrue r m)))
     ''Degraded'' = Some ConditionTrue"
  by (auto simp: condition_status_parts condition_status_values all_ready_iff)

section \<open>Stability of transition times\<close>

lemma set_transition_time_keeps [simp]:
  "ca_Type (set_transition_time now old c) = ca_Type c"
  "ca_Status (set_transition_time now old c) = ca_Status c"
  "ca_LastTransitionTime (set_transition_time now old c) \<noteq> None"
  by (auto simp: set_transition_time_def Let_def split: option.splits if_splits)

lemma set_transition_time_again:
  assumes "ca_LastTransitionTime c = None"
    and "FindApplyCondition old' (ca_Type c) = Some (set_transition_time now old c)"
  shows "set_transition_time now' old' c = set_transition_time now old c"
  using assms
  by (cases c) (auto simp: set_transition_time_def Let_def split: option.splits if_splits)

lemma find_applied:
  "distinct (map ca_Type cs) \<Longrightarrow> c \<in> set cs \<Longrightarrow>
   FindApplyCondition (SetApplyConditionsLastTransitionTime now cs old) (ca_Type c) =
     Some (set_transition_time now old c)"
  by (induction cs)
    (auto simp: FindApplyCondition_def SetApplyConditionsLastTransitionTime_def rev_image_eqI)

lemma transition_times_stable:
  assumes "distinct (map ca_Type cs)" and "\<forall>c \<in> set cs. ca_LastTransitionTime c = None"
  shows "SetApplyConditionsLastTransitionTime now' cs
           (SetApplyConditionsLastTransitionTime now cs old) =
         SetApplyConditionsLastTransitionTime now cs old"
proof -
  have "set_transition_time now' (SetApplyConditionsLastTransitionTime now cs old) c =
        set_transition_time now old c" if "c \<in> set cs" for c
    using assms that by (intro set_transition_time_again) (simp_all add: find_applied)
  then show ?thesis
    by (simp add: SetApplyConditionsLastTransitionTime_def)
qed

lemma condition_times [simp]:
  "ca_LastTransitionTime (availableCond d) = None" "ca_LastTransitionTime (progressingCond d) = None"
  "ca_LastTransitionTime (degradedCond d None) = None" "ca_LastTransitionTime certManagerCond = None"
  by (simp_all add: availableCond_def progressingCond_def degradedCond_def certManagerCond_def Let_def)

text \<open>Reporting the same state again does not touch the transition times: whatever the conditions
  were before, applying the conditions of a deployment once (at time \<open>now\<close>) and then again (at
  any other time \<open>now'\<close>) yields the same document, for each of the three condition builders.\<close>
theorem status_document_stable:
  "SetApplyConditionsLastTransitionTime now' (buildOperatorConditions d None)
     (SetApplyConditionsLastTransitionTime now (buildOperatorConditions d None) old) =
   SetApplyConditionsLastTransitionTime now (buildOperatorConditions d None) old \<and>
   SetApplyConditionsLastTransitionTime now' buildCertManagerMissingConditions
     (SetApplyConditionsLastTransitionTime now buildCertManagerMissingConditions old) =
   SetApplyConditionsLastTransitionTime now buildCertManagerMissingConditions old \<and>
   SetApplyConditionsLastTransitionTime now' (buildUnsupportedTLSProfileConditions e)
     (SetApplyConditionsLastTransitionTime now (buildUnsupportedTLSProfileConditions e) old) =
   SetApplyConditionsLastTransitionTime now (buildUnsupportedTLSProfileConditions e) old"
  by (intro conjI transition_times_stable)
    (simp_all add: buildOperatorConditions_def buildCertManagerMissingConditions_def
      buildUnsupportedTLSProfileConditions_def)

text \<open>A transition time moves exactly when the status does: with the condition of the same type
  in the previous document at hand, carrying a time, the new document has that very time if the
  status is the same and the current time otherwise.\<close>
theorem transition_time_moves:
  assumes "FindApplyCondition old (ca_Type c) = Some previous"
    and "ca_LastTransitionTime previous = Some t" and "ca_LastTransitionTime c = None"
  shows "map ca_LastTransitionTime (SetApplyConditionsLastTransitionTime now [c] old) =
    [Some (if ca_Status previous = ca_Status c then t else now)]"
  using assms by (simp add: SetApplyConditionsLastTransitionTime_def set_transition_time_def Let_def)

theorem transition_time_moves_witness:
  "map ca_LastTransitionTime (SetApplyConditionsLastTransitionTime 9
     [condition ''Available'' ConditionTrue ''AllReplicasReady'' []]
     [(condition ''Available'' ConditionFalse ''NotEnoughReplicas'' [])\<lparr>ca_LastTransitionTime := Some 4\<rparr>])
   = [Some 9]"
  using transition_time_moves[of
      "[(condition ''Available'' ConditionFalse ''NotEnoughReplicas'' [])\<lparr>ca_LastTransitionTime := Some 4\<rparr>]"
      "condition ''Available'' ConditionTrue ''AllReplicasReady'' []"
      "(condition ''Available'' ConditionFalse ''NotEnoughReplicas'' [])\<lparr>ca_LastTransitionTime := Some 4\<rparr>"
      4 9]
  by (simp add: FindApplyCondition_def)

end
