(* ===== verification/Finalizer.thy ===== *)
theory Finalizer
  imports Operator_Status "HOL-Library.Multiset"
begin

text \<open>
  The finalizer of the Kueue resource: \<^verbatim>\<open>updateFinalizer\<close> with its read-modify-patch loop
  (\<^verbatim>\<open>target_config_reconciler.go\<close>), the helpers of controller-runtime's \<^verbatim>\<open>controllerutil\<close>, and
  the part of \<^verbatim>\<open>strategicpatch.CreateTwoWayMergePatch\<close> that a difference in
  \<^verbatim>\<open>metadata.finalizers\<close> goes through. The patch that is built is a strategic merge patch; it is
  sent as a JSON merge patch, in which a list replaces the stored list and the strategic directives
  are unknown fields that the server drops. The lemmas say what becomes of the finalizers.
\<close>

section \<open>Finalizers of an object\<close>

definition finalizers :: "Kueue \<Rightarrow> string list" where
  "finalizers k = om_Finalizers (ku_ObjectMeta k)"

definition SetFinalizers :: "Kueue \<Rightarrow> string list \<Rightarrow> Kueue" where
  "SetFinalizers k fs = k\<lparr>ku_ObjectMeta := (ku_ObjectMeta k)\<lparr>om_Finalizers := fs\<rparr>\<rparr>"

definition ContainsFinalizer :: "Kueue \<Rightarrow> string \<Rightarrow> bool" where
  "ContainsFinalizer k f \<longleftrightarrow> f \<in> set (finalizers k)"

definition AddFinalizer :: "string \<Rightarrow> string list \<Rightarrow> string list" where
  "AddFinalizer finalizer f = (if finalizer \<in> set f then f else f @ [finalizer])"

definition RemoveFinalizer :: "string \<Rightarrow> string list \<Rightarrow> string list" where
  "RemoveFinalizer finalizer f = filter (\<lambda>x. x \<noteq> finalizer) f"

section \<open>The patch\<close>

text \<open>\<^verbatim>\<open>diffListsOfScalars\<close> on the sorted lists: what is only in the second, what is only in the
  first.\<close>
fun diff_sorted :: "string list \<Rightarrow> string list \<Rightarrow> string list \<times> string list" where
  "diff_sorted [] ms = (ms, [])"
| "diff_sorted os [] = ([], os)"
| "diff_sorted (x # os) (m # ms) =
     (if x = m then diff_sorted os ms
      else if m < x then (case diff_sorted (x # os) ms of (add, del) \<Rightarrow> (m # add, del))
      else (case diff_sorted os (m # ms) of (add, del) \<Rightarrow> (add, x # del)))"

definition list_index :: "string list \<Rightarrow> string \<Rightarrow> nat" where
  "list_index xs x = length (takeWhile (\<lambda>y. y \<noteq> x) xs)"

text \<open>\<^verbatim>\<open>diffMaps\<close> on the key \<^verbatim>\<open>finalizers\<close>, which is absent when the list is empty
  (\<^verbatim>\<open>omitempty\<close>), with \<^verbatim>\<open>handleSliceDiff\<close> for the patch strategy merge when both are there.\<close>
definition CreateTwoWayMergePatch :: "string list \<Rightarrow> string list \<Rightarrow> FinalizerPatch" where
  "CreateTwoWayMergePatch original modified =
     (if original = [] then \<lparr>fp_Finalizers = (if modified = [] then None else Some (Some modified)),
                            fp_Delete = [], fp_Order = []\<rparr>
      else if modified = [] then \<lparr>fp_Finalizers = Some None, fp_Delete = [], fp_Order = []\<rparr>
      else (case diff_sorted (sort original) (sort modified) of (add, del) \<Rightarrow>
        \<lparr>fp_Finalizers = (if add = [] then None else Some (Some (sort_key (list_index modified) add))),
         fp_Delete = remdups del,
         fp_Order = (if del \<noteq> [] \<or> sort original \<noteq> modified then modified else [])\<rparr>))"

text \<open>A JSON merge patch: null removes the field, a value replaces it, an absent field is kept.\<close>
definition json_merge :: "FinalizerPatch \<Rightarrow> string list \<Rightarrow> string list" where
  "json_merge p old = (case fp_Finalizers p of None \<Rightarrow> old | Some None \<Rightarrow> [] | Some (Some fs) \<Rightarrow> fs)"

section \<open>Requests for the Kueue resource\<close>

definition api_GetKueue :: "Env \<Rightarrow> string \<Rightarrow> (World, Kueue) go" where
  "api_GetKueue env name = api_call env (GetKueue name) (\<lambda>n c.
     (case map_of (c_Kueues c) name of None \<Rightarrow> Inl (NotFound, name) | Some k \<Rightarrow> Inr k, c))"

text \<open>The server refuses new finalizers on an object that is being deleted, and removes such an
  object once its last finalizer is gone.\<close>
definition api_PatchKueue :: "Env \<Rightarrow> string \<Rightarrow> FinalizerPatch \<Rightarrow> (World, Kueue) go" where
  "api_PatchKueue env name patch = api_call env (PatchKueue name patch) (\<lambda>n c.
     case map_of (c_Kueues c) name of
       None \<Rightarrow> (Inl (NotFound, name), c)
     | Some k \<Rightarrow>
         (let fs = json_merge patch (finalizers k); k' = srv_Kueue (e_Server env) n (SetFinalizers k fs) in
          if om_DeletionTimestamp (ku_ObjectMeta k) \<noteq> None \<and> \<not> set fs \<subseteq> set (finalizers k)
          then (Inl (OtherReason, ''no new finalizers can be added if the object is being deleted''), c)
          else if om_DeletionTimestamp (ku_ObjectMeta k) \<noteq> None \<and> fs = []
          then (Inr k', c\<lparr>c_Kueues := AList.delete name (c_Kueues c)\<rparr>)
          else (Inr k', c\<lparr>c_Kueues := AList.update name k' (c_Kueues c)\<rparr>)))"

section \<open>Adding and removing the finalizer\<close>

definition update_finalizer_once :: "Env \<Rightarrow> Kueue \<Rightarrow> bool \<Rightarrow> (World, Kueue) go" where
  "update_finalizer_once env kueue add =
     go_bind (api_GetKueue env (om_Name (ku_ObjectMeta kueue))) (\<lambda>original.
       if add = ContainsFinalizer original KueueFinalizer then go_return kueue
       else
         let mutator = (if add then AddFinalizer else RemoveFinalizer);
             modified = mutator KueueFinalizer (finalizers original);
             patch = CreateTwoWayMergePatch (finalizers original) modified
         in api_PatchKueue env (om_Name (ku_ObjectMeta original)) patch)"

text \<open>The result is the Kueue object that the caller's pointer refers to afterwards.\<close>
definition updateFinalizer :: "Env \<Rightarrow> Kueue \<Rightarrow> bool \<Rightarrow> (World, Kueue) go" where
  "updateFinalizer env kueue add =
     (if add = ContainsFinalizer kueue KueueFinalizer then go_return kueue
      else RetryOnConflict DefaultRetry_Steps (update_finalizer_once env kueue add))"

definition addFinalizerToKueueInstance :: "Env \<Rightarrow> Kueue \<Rightarrow> (World, Kueue) go" where
  "addFinalizerToKueueInstance env kueue = updateFinalizer env kueue True"

definition removeFinalizerFromKueueInstance :: "Env \<Rightarrow> Kueue \<Rightarrow> (World, Kueue) go" where
  "removeFinalizerFromKueueInstance env kueue = updateFinalizer env kueue False"

section \<open>What a patch does to the stored list\<close>

lemma mset_diff_absent:
  "x \<notin># B \<Longrightarrow> add_mset x A - B = add_mset x (A - B) \<and> B - add_mset x A = B - A"
  by (simp add: diff_add_mset_swap)

lemma diff_sorted_mset:
  "sorted xs \<Longrightarrow> sorted ms \<Longrightarrow> diff_sorted xs ms = (add, del) \<Longrightarrow>
   mset add = mset ms - mset xs \<and> mset del = mset xs - mset ms"
proof (induction xs ms arbitrary: add del rule: diff_sorted.induct)
  case (3 x xs m ms)
  consider (same) "x = m" | (new) "m < x" | (old) "x < m" by fastforce
  then show ?case
  proof cases
    case same
    then show ?thesis using 3 by simp
  next
    case new
    then obtain a where r: "diff_sorted (x # xs) ms = (a, del)" and a: "add = m # a"
      using "3.prems"(3) less_imp_neq[OF new] by (cases "diff_sorted (x # xs) ms") auto
    have "m \<notin># mset (x # xs)" using new "3.prems"(1) by auto
    moreover have "mset a = mset ms - mset (x # xs) \<and> mset del = mset (x # xs) - mset ms"
      using new "3.prems" r by (intro "3.IH"(2)) auto
    ultimately show ?thesis using a mset_diff_absent[of m "mset (x # xs)" "mset ms"] by simp
  next
    case old
    then obtain d where r: "diff_sorted xs (m # ms) = (add, d)" and d: "del = x # d"
      using "3.prems"(3) less_imp_neq[OF old] less_imp_not_less[OF old]
      by (cases "diff_sorted xs (m # ms)") auto
    have "x \<notin># mset (m # ms)" using old "3.prems"(2) by auto
    moreover have "mset add = mset (m # ms) - mset xs \<and> mset d = mset xs - mset (m # ms)"
      using old "3.prems" r by (intro "3.IH"(3)) auto
    ultimately show ?thesis using d mset_diff_absent[of x "mset (m # ms)" "mset xs"] by simp
  qed
qed auto

lemma diff_sort_add: "f \<notin> set fs \<Longrightarrow> diff_sorted (sort fs) (sort (fs @ [f])) = ([f], [])"
  using diff_sorted_mset[OF sorted_sort sorted_sort, of fs "fs @ [f]"]
  by (cases "diff_sorted (sort fs) (sort (fs @ [f]))") (auto simp: mset_single_iff_right)

lemma diff_sort_remove:
  "fst (diff_sorted (sort fs) (sort (filter (\<lambda>x. x \<noteq> f) fs))) = []"
  using diff_sorted_mset[OF sorted_sort sorted_sort, of fs "filter (\<lambda>x. x \<noteq> f) fs"]
  by (cases "diff_sorted (sort fs) (sort (filter (\<lambda>x. x \<noteq> f) fs))")
    (simp add: Diff_eq_empty_iff_mset[THEN iffD2, OF multiset_filter_subset])

text \<open>Adding replaces the stored list, whatever it held, by the one finalizer; removing works only
  if the list holds nothing else.\<close>
lemma json_merge_add:
  "f \<notin> set fs \<Longrightarrow> json_merge (CreateTwoWayMergePatch fs (AddFinalizer f fs)) old = [f]"
  by (simp add: json_merge_def CreateTwoWayMergePatch_def AddFinalizer_def diff_sort_add)

lemma json_merge_remove:
  assumes "f \<in> set fs"
  shows "json_merge (CreateTwoWayMergePatch fs (RemoveFinalizer f fs)) old =
     (if set fs \<subseteq> {f} then [] else old)"
proof (cases "RemoveFinalizer f fs = []")
  case True
  moreover have "set fs \<subseteq> {f}" using True by (auto simp: RemoveFinalizer_def filter_empty_conv)
  ultimately show ?thesis using assms
    by (auto simp: json_merge_def CreateTwoWayMergePatch_def)
next
  case False
  moreover have "\<not> set fs \<subseteq> {f}" using False by (auto simp: RemoveFinalizer_def filter_empty_conv)
  moreover obtain del where "diff_sorted (sort fs) (sort (RemoveFinalizer f fs)) = ([], del)"
    using diff_sort_remove[of fs f] by (metis RemoveFinalizer_def prod.collapse)
  ultimately show ?thesis using assms
    by (auto simp: json_merge_def CreateTwoWayMergePatch_def)
qed

section \<open>Guarantees\<close>

text \<open>The server stores a Kueue resource under its name, and keeps the finalizers it is sent.\<close>
definition kueues_named :: "Env \<Rightarrow> bool" where
  "kueues_named env \<longleftrightarrow> (\<forall>n c name k. map_of (c_Kueues (e_Interfere env n c)) name = Some k \<longrightarrow>
     om_Name (ku_ObjectMeta k) = name)"

definition keeps_finalizers :: "Env \<Rightarrow> bool" where
  "keeps_finalizers env \<longleftrightarrow> (\<forall>n k. finalizers (srv_Kueue (e_Server env) n k) = finalizers k)"

definition protected :: "string \<Rightarrow> World \<Rightarrow> bool" where
  "protected name w \<longleftrightarrow> (\<exists>k. map_of (c_Kueues (w_Cluster w)) name = Some k \<and>
     KueueFinalizer \<in> set (finalizers k))"

lemma finalizers_Set [simp]: "finalizers (SetFinalizers k fs) = fs"
  by (simp add: finalizers_def SetFinalizers_def)

lemma get_kueue_ok:
  "api_GetKueue env name w = (Inr k, w') \<Longrightarrow> map_of (c_Kueues (w_Cluster w')) name = Some k \<and>
   (kueues_named env \<longrightarrow> om_Name (ku_ObjectMeta k) = name)"
  by (auto simp: api_GetKueue_def api_call_def before_call_def Let_def kueues_named_def
      split: option.splits prod.splits sum.splits)

lemma patch_kueue_ok:
  "api_PatchKueue env name p w = (Inr k, w') \<Longrightarrow>
   (\<forall>old. json_merge p old = [f]) \<Longrightarrow> keeps_finalizers env \<Longrightarrow>
   \<exists>k. map_of (c_Kueues (w_Cluster w')) name = Some k \<and> f \<in> set (finalizers k)"
  by (auto simp: api_PatchKueue_def api_call_def before_call_def Let_def keeps_finalizers_def
      AList.update_conv' split: option.splits prod.splits sum.splits if_splits)

lemma add_once_protects:
  assumes "kueues_named env" and "keeps_finalizers env"
  shows "go_triple (\<lambda>_. True) (update_finalizer_once env kueue True)
    (\<lambda>_. protected (om_Name (ku_ObjectMeta kueue))) (\<lambda>_ _. True)"
proof (rule go_tripleI)
  fix s k' s'
  assume run: "update_finalizer_once env kueue True s = (Inr k', s')"
  let ?name = "om_Name (ku_ObjectMeta kueue)"
  obtain original s1 where get: "api_GetKueue env ?name s = (Inr original, s1)"
    using run by (auto simp: update_finalizer_once_def go_bind_def split: prod.splits sum.splits)
  note stored = get_kueue_ok[OF get]
  show "protected ?name s'"
  proof (cases "KueueFinalizer \<in> set (finalizers original)")
    case True
    then have "s' = s1" using run get
      by (simp add: update_finalizer_once_def go_bind_def go_return_def ContainsFinalizer_def)
    then show ?thesis using True stored by (auto simp: protected_def)
  next
    case False
    then have "api_PatchKueue env ?name (CreateTwoWayMergePatch (finalizers original)
        (AddFinalizer KueueFinalizer (finalizers original))) s1 = (Inr k', s')"
      using run get stored assms(1)
      by (simp add: update_finalizer_once_def go_bind_def ContainsFinalizer_def)
    then show ?thesis unfolding protected_def
      by (rule patch_kueue_ok) (simp_all add: json_merge_add False assms(2))
  qed
qed simp


lemma before_call_sel [simp]:
  "w_Cluster (before_call env c w) = e_Interfere env (w_Calls w) (w_Cluster w)"
  "w_Calls (before_call env c w) = Suc (w_Calls w)"
  "w_Trace (before_call env c w) = w_Trace w @ [c]"
  by (simp_all add: before_call_def)

lemma patch_kueue_quiet:
  assumes "e_Fault env (w_Calls w) = None" and "e_Interfere env (w_Calls w) (w_Cluster w) = w_Cluster w"
    and "map_of (c_Kueues (w_Cluster w)) name = Some k"
    and "om_DeletionTimestamp (ku_ObjectMeta k) \<noteq> None"
    and "json_merge p (finalizers k) = fs" and "set fs \<subseteq> set (finalizers k)"
  shows "api_PatchKueue env name p w =
    (let k' = srv_Kueue (e_Server env) (w_Calls w) (SetFinalizers k fs) in
     (Inr k', (before_call env (PatchKueue name p) w)\<lparr>w_Cluster := (w_Cluster w)\<lparr>c_Kueues :=
        (if fs = [] then AList.delete name else AList.update name k') (c_Kueues (w_Cluster w))\<rparr>\<rparr>))"
  using assms by (simp add: api_PatchKueue_def api_call_def Let_def)


text \<open>C34. Removing the finalizer from a resource that is being deleted, when nothing fails and
  nobody interferes: the call succeeds. If the operator's finalizer was the only one, the
  resource is gone afterwards. If another finalizer is still there, the patch changes nothing and
  the resource keeps the operator's finalizer, although no error is reported: the strategic
  directive that deletes one element means nothing in a JSON merge patch.\<close>
theorem removeFinalizer_result:
  assumes "\<forall>n. e_Fault env n = None" and "\<forall>n c. e_Interfere env n c = c" and "keeps_finalizers env"
    and "map_of (c_Kueues (w_Cluster w)) name = Some k"
    and "om_Name (ku_ObjectMeta k) = name" and "om_Name (ku_ObjectMeta kueue) = name"
    and "KueueFinalizer \<in> set (finalizers k)" and "KueueFinalizer \<in> set (finalizers kueue)"
    and "om_DeletionTimestamp (ku_ObjectMeta k) \<noteq> None"
  shows "\<exists>k' w'. removeFinalizerFromKueueInstance env kueue w = (Inr k', w') \<and>
    (if set (finalizers k) \<subseteq> {KueueFinalizer} then map_of (c_Kueues (w_Cluster w')) name = None
     else (\<exists>k''. map_of (c_Kueues (w_Cluster w')) name = Some k'' \<and> finalizers k'' = finalizers k))"
proof -
  have get: "api_GetKueue env name w = (Inr k, before_call env (GetKueue name) w)"
    using assms(1,2,4) by (simp add: api_GetKueue_def api_call_def before_call_def Let_def)
  let ?p = "CreateTwoWayMergePatch (finalizers k) (RemoveFinalizer KueueFinalizer (finalizers k))"
  let ?w = "before_call env (GetKueue name) w"
  have once: "update_finalizer_once env kueue False w = api_PatchKueue env name ?p ?w"
    using assms(5-7) get by (simp add: update_finalizer_once_def go_bind_def ContainsFinalizer_def)
  have "finalizers k \<noteq> []" using assms(7) by auto
  then obtain k' w' where patch: "api_PatchKueue env name ?p ?w = (Inr k', w')" and
    stored: "if set (finalizers k) \<subseteq> {KueueFinalizer} then map_of (c_Kueues (w_Cluster w')) name = None
     else (\<exists>k''. map_of (c_Kueues (w_Cluster w')) name = Some k'' \<and> finalizers k'' = finalizers k)"
    using patch_kueue_quiet[of env ?w name k ?p
        "if set (finalizers k) \<subseteq> {KueueFinalizer} then [] else finalizers k"] assms(1-4,7,9)
    by (cases "set (finalizers k) \<subseteq> {KueueFinalizer}")
      (auto simp: Let_def json_merge_remove AList.delete_conv' AList.update_conv' keeps_finalizers_def)
  then show ?thesis using assms(8) once
    by (simp add: removeFinalizerFromKueueInstance_def updateFinalizer_def ContainsFinalizer_def
        RetryOnConflict_def numeral_eq_Suc)
qed

theorem removeFinalizer_result_witness:
  "\<exists>k' w' k''. removeFinalizerFromKueueInstance (calm_env empty_cluster)
     ((SetFinalizers (kueue_with_frameworks []) [KueueFinalizer]))
     (initial_world (empty_cluster\<lparr>c_Kueues := [(''cluster'',
        (kueue_with_frameworks [])\<lparr>ku_ObjectMeta := (ku_ObjectMeta (kueue_with_frameworks []))\<lparr>
          om_DeletionTimestamp := Some 1, om_Finalizers := [KueueFinalizer, ''foregroundDeletion'']\<rparr>\<rparr>)]\<rparr>))
     = (Inr k', w') \<and> map_of (c_Kueues (w_Cluster w')) ''cluster'' = Some k'' \<and>
       finalizers k'' = [KueueFinalizer, ''foregroundDeletion'']"
proof -
  let ?k = "(kueue_with_frameworks [])\<lparr>ku_ObjectMeta := (ku_ObjectMeta (kueue_with_frameworks []))\<lparr>
          om_DeletionTimestamp := Some 1, om_Finalizers := [KueueFinalizer, ''foregroundDeletion'']\<rparr>\<rparr>"
  have keeps: "keeps_finalizers (calm_env empty_cluster)"
    by (simp add: keeps_finalizers_def identity_server_def)
  show ?thesis
    using removeFinalizer_result[OF _ _ keeps, of
        "initial_world (empty_cluster\<lparr>c_Kueues := [(''cluster'', ?k)]\<rparr>)" "''cluster''" ?k
        "SetFinalizers (kueue_with_frameworks []) [KueueFinalizer]"]
    by (auto simp: finalizers_def SetFinalizers_def kueue_with_frameworks_def)
qed

end
