(* ===== verification/Cleanup.thy ===== *)
theory Cleanup
  imports Finalizer
begin

text \<open>
  What the reconciler deletes when the Kueue resource is deleted: the five cleanup steps of
  \<^verbatim>\<open>target_config_reconciler.go\<close>, with their retries and with the errors collected as the code
  does. The lemmas bound what a cleanup may delete, show that a step that reports success has left
  nothing behind, and show that the last step, unlike the others, fails when there is nothing left
  to delete.
\<close>

section \<open>Deleting with retries\<close>

definition delete_throttled :: "Env \<Rightarrow> 'o client \<Rightarrow> string \<Rightarrow> string \<Rightarrow> (World, unit) go" where
  "delete_throttled env cl ns name =
     retry_OnError DefaultBackoff_Steps IsTooManyRequests (api_Delete env cl ns name)"

definition delete_retried :: "Env \<Rightarrow> 'o client \<Rightarrow> string \<Rightarrow> string \<Rightarrow> (World, unit) go" where
  "delete_retried env cl ns name =
     retry_OnError DefaultBackoff_Steps IsTooManyRequests
       (RetryOnConflict DefaultBackoff_Steps (api_Delete env cl ns name))"

section \<open>The cleanup steps\<close>

definition cleanup_webhook_type :: "Env \<Rightarrow> 'o client \<Rightarrow> (World, err list) go" where
  "cleanup_webhook_type env cl =
     go_bind (go_try (api_List env cl [])) (\<lambda>r. case r of
        Inl err \<Rightarrow> go_return [err]
      | Inr items \<Rightarrow> go_collect (\<lambda>name. delete_throttled env cl [] name)
          (filter (\<lambda>name. Contains name ''kueue'') (map (obj_name cl) items)))"

definition cleanUpWebhooks :: "Env \<Rightarrow> (World, unit) go" where
  "cleanUpWebhooks env =
     go_bind (cleanup_webhook_type env (MutatingWebhookConfigurations env)) (\<lambda>errs1.
     go_bind (cleanup_webhook_type env (ValidatingWebhookConfigurations env)) (\<lambda>errs2.
       return_aggregate (errs1 @ errs2)))"

definition cleanup_cert_manager_type :: "Env \<Rightarrow> Unstructured client \<Rightarrow> (World, err list) go" where
  "cleanup_cert_manager_type env cl =
     go_bind (go_try (api_List env cl (e_OperatorNamespace env))) (\<lambda>r. case r of
        Inl err \<Rightarrow> go_return [err]
      | Inr items \<Rightarrow> go_collect (\<lambda>cr. delete_retried env cl (GetNamespace cr) (GetName cr)) items)"

definition cleanUpCertificatesAndIssuers :: "Env \<Rightarrow> (World, unit) go" where
  "cleanUpCertificatesAndIssuers env =
     go_bind (cleanup_cert_manager_type env (Certificates env)) (\<lambda>errs1.
     go_bind (cleanup_cert_manager_type env (Issuers env)) (\<lambda>errs2.
       return_aggregate (errs1 @ errs2)))"

definition bundleClusterRoleNames :: "string list" where
  "bundleClusterRoleNames = [''kueue-batch-user-role'', ''kueue-batch-admin-role'']"

definition skip_cluster_role :: "string \<Rightarrow> bool" where
  "skip_cluster_role name \<longleftrightarrow> \<not> Contains name ''kueue'' \<or> Contains name ''kueue-operator'' \<or>
     Contains name ''openshift.io'' \<or> name \<in> set bundleClusterRoleNames"

definition skip_cluster_role_binding :: "string \<Rightarrow> bool" where
  "skip_cluster_role_binding name \<longleftrightarrow> \<not> Contains name ''kueue'' \<or> Contains name ''kueue-operator''"

definition cleanup_cluster_scoped ::
  "Env \<Rightarrow> 'o client \<Rightarrow> (string \<Rightarrow> bool) \<Rightarrow> (World, unit) go" where
  "cleanup_cluster_scoped env cl skip =
     go_bind (api_List env cl []) (\<lambda>items.
     go_bind (go_collect (\<lambda>name. delete_retried env cl [] name)
                (filter (\<lambda>name. \<not> skip name) (map (obj_name cl) items))) return_aggregate)"

definition cleanUpClusterRoles :: "Env \<Rightarrow> (World, unit) go" where
  "cleanUpClusterRoles env = cleanup_cluster_scoped env (ClusterRoles env) skip_cluster_role"

definition cleanUpClusterRoleBindings :: "Env \<Rightarrow> (World, unit) go" where
  "cleanUpClusterRoleBindings env =
     cleanup_cluster_scoped env (ClusterRoleBindings env) skip_cluster_role_binding"

text \<open>\<open>try_collect\<close> is \<^verbatim>\<open>if err != nil { errorList = append(errorList, err) }\<close>.\<close>
definition try_collect :: "(World, unit) go \<Rightarrow> err list \<Rightarrow> (World, err list) go" where
  "try_collect m errs = go_bind (go_try m) (\<lambda>r. go_return (case r of
     Inl e \<Rightarrow> errs @ [e] | Inr _ \<Rightarrow> errs))"

definition cleanUpResources :: "Env \<Rightarrow> (World, unit) go" where
  "cleanUpResources env =
     (let ns = e_OperatorNamespace env in
      go_bind (try_collect (delete_retried env (ConfigMaps env) ns ''kueue-manager-config'') [])
        (\<lambda>errs.
      go_bind (try_collect (delete_retried env (Secrets env) ns ''kueue-webhook-server-cert'') errs)
        (\<lambda>errs.
      go_bind (try_collect (delete_retried env (Secrets env) ns secretMetricsServerCert) errs)
        return_aggregate)))"

text \<open>The loop over \<^verbatim>\<open>cleanupResources\<close> of \<^verbatim>\<open>sync\<close>: the first step that fails ends it.\<close>
definition cleanup_steps :: "Env \<Rightarrow> (World, unit) go list" where
  "cleanup_steps env = [cleanUpWebhooks env, cleanUpCertificatesAndIssuers env,
     cleanUpClusterRoles env, cleanUpClusterRoleBindings env, cleanUpResources env]"

definition run_cleanup :: "Env \<Rightarrow> (World, unit) go" where
  "run_cleanup env = go_foreach (\<lambda>step. step) (cleanup_steps env)"

section \<open>What a cleanup may delete\<close>

text \<open>The requests a cleanup makes: lists, and deletions of webhook configurations, roles and bindings
  that are Kueue's, of the certificates and issuers of some namespace, and of the three objects of
  the operator's namespace.\<close>
fun cleanup_request :: "string \<Rightarrow> call \<Rightarrow> bool" where
  "cleanup_request opns (ListAll k ns) = True"
| "cleanup_request opns (Delete k ns name) = (case k of
     KMutatingWebhook \<Rightarrow> Contains name ''kueue''
   | KValidatingWebhook \<Rightarrow> Contains name ''kueue''
   | KClusterRole \<Rightarrow> \<not> skip_cluster_role name
   | KClusterRoleBinding \<Rightarrow> \<not> skip_cluster_role_binding name
   | KCertificate \<Rightarrow> True
   | KIssuer \<Rightarrow> True
   | KConfigMap \<Rightarrow> ns = opns \<and> name = KueueConfigMap
   | KSecret \<Rightarrow> ns = opns \<and> name \<in> {''kueue-webhook-server-cert'', secretMetricsServerCert}
   | _ \<Rightarrow> False)"
| "cleanup_request opns _ = False"

lemma sends_delete_throttled [sends_rules]:
  "P (Delete (cl_Kind cl) ns name) \<Longrightarrow> sends P (delete_throttled env cl ns name)"
  unfolding delete_throttled_def by (intro sends_rules)

lemma sends_delete_retried [sends_rules]:
  "P (Delete (cl_Kind cl) ns name) \<Longrightarrow> sends P (delete_retried env cl ns name)"
  unfolding delete_retried_def by (intro sends_rules)

lemma sends_try_collect [sends_rules]: "sends P m \<Longrightarrow> sends P (try_collect m errs)"
  unfolding try_collect_def by (intro sends_rules)

lemma sends_cleanup_webhooks:
  "sends (cleanup_request (e_OperatorNamespace env)) (cleanUpWebhooks env)"
  unfolding cleanUpWebhooks_def cleanup_webhook_type_def
  by (intro sends_rules) (auto simp: client_defs)

lemma sends_cleanup_certificates:
  "sends (cleanup_request (e_OperatorNamespace env)) (cleanUpCertificatesAndIssuers env)"
  unfolding cleanUpCertificatesAndIssuers_def cleanup_cert_manager_type_def
  by (intro sends_rules) (auto simp: client_defs)

lemma sends_cleanup_roles:
  "sends (cleanup_request (e_OperatorNamespace env)) (cleanUpClusterRoles env)"
  "sends (cleanup_request (e_OperatorNamespace env)) (cleanUpClusterRoleBindings env)"
  unfolding cleanUpClusterRoles_def cleanUpClusterRoleBindings_def cleanup_cluster_scoped_def
  by (intro sends_rules; auto simp: client_defs)+

lemma sends_cleanup_resources:
  "sends (cleanup_request (e_OperatorNamespace env)) (cleanUpResources env)"
  unfolding cleanUpResources_def Let_def by (intro sends_rules) (auto simp: client_defs)

lemma sends_cleanup: "sends (cleanup_request (e_OperatorNamespace env)) (run_cleanup env)"
  unfolding run_cleanup_def cleanup_steps_def
  by (rule sends_foreach)
    (auto intro: sends_cleanup_webhooks sends_cleanup_certificates sends_cleanup_roles
      sends_cleanup_resources)

section \<open>A step that succeeds has left nothing behind\<close>

text \<open>Nobody else writes to the cluster; requests may still fail.\<close>
definition undisturbed :: "Env \<Rightarrow> bool" where
  "undisturbed env \<longleftrightarrow> (\<forall>n c. e_Interfere env n c = c)"

context api_store
begin

definition keys_within :: "(string \<times> string) set \<Rightarrow> World \<Rightarrow> bool" where
  "keys_within K w \<longleftrightarrow> fst ` set (cl_Store cl (w_Cluster w)) \<subseteq> K"

lemma keys_delete:
  assumes "undisturbed env"
  shows "go_triple (keys_within K) (api_Delete env cl ns name)
    (\<lambda>_. keys_within (K - {(ns, name)})) (\<lambda>_. keys_within K)"
proof (rule go_tripleI)
  fix w u w'
  assume "keys_within K w" and "api_Delete env cl ns name w = (Inr u, w')"
  then show "keys_within (K - {(ns, name)}) w'"
    using assms
    by (auto simp: api_Delete_def api_call_def Let_def keys_within_def undisturbed_def store_put
        AList.delete_eq image_subset_iff split: option.splits)
next
  fix w e w'
  assume "keys_within K w" and "api_Delete env cl ns name w = (Inl e, w')"
  then show "keys_within K w'"
    using assms by (auto simp: api_Delete_def api_call_def Let_def keys_within_def undisturbed_def
        image_subset_iff split: option.splits prod.splits)
qed

lemma keys_delete_conflict:
  assumes "undisturbed env"
  shows "go_triple (keys_within K) (RetryOnConflict n (api_Delete env cl ns name))
    (\<lambda>_. keys_within (K - {(ns, name)})) (\<lambda>_. keys_within K)"
  unfolding RetryOnConflict_def
  by (rule retry_OnError_triple, rule go_triple_weaken[OF keys_delete[OF assms]]) auto

lemma keys_delete_throttled:
  assumes "undisturbed env"
  shows "go_triple (keys_within K) (delete_throttled env cl ns name)
    (\<lambda>_. keys_within (K - {(ns, name)})) (\<lambda>_. keys_within K)"
  unfolding delete_throttled_def
  by (rule retry_OnError_triple, rule go_triple_weaken[OF keys_delete[OF assms]]) auto

lemma keys_delete_retried:
  assumes "undisturbed env"
  shows "go_triple (keys_within K) (delete_retried env cl ns name)
    (\<lambda>_. keys_within (K - {(ns, name)})) (\<lambda>_. keys_within K)"
  unfolding delete_retried_def
  by (rule retry_OnError_triple, rule go_triple_weaken[OF keys_delete_conflict[OF assms]]) auto

lemma keys_within_minus: "keys_within K w \<and> keys_within (UNIV - {k}) w \<longleftrightarrow> keys_within (K - {k}) w"
  by (auto simp: keys_within_def)

lemma keys_collect:
  assumes body: "\<And>K name. go_triple (keys_within K) (f name)
      (\<lambda>_. keys_within (K - {([], name)})) (\<lambda>_. keys_within K)"
  shows "go_triple (keys_within K) (go_collect f names)
    (\<lambda>es w. keys_within K w \<and> (es = [] \<longrightarrow> (\<forall>n \<in> set names. keys_within (UNIV - {([], n)}) w)))
    (\<lambda>_. keys_within K)"
proof (rule go_collect_ok)
  fix x
  show "go_triple (keys_within K) (f x) (\<lambda>_ w. keys_within K w \<and> keys_within (UNIV - {([], x)}) w)
    (\<lambda>_. keys_within K)"
    unfolding keys_within_minus by (rule body)
  fix y
  show "go_keeps (\<lambda>w. keys_within K w \<and> keys_within (UNIV - {([], y)}) w) (f x)"
    unfolding keys_within_minus
    by (rule go_triple_weaken[OF body]) (auto simp: keys_within_def)
qed

lemma list_undisturbed:
  assumes "undisturbed env" and "api_List env cl [] w = (Inr items, w')"
  shows "items = map snd (cl_Store cl (w_Cluster w)) \<and> w_Cluster w' = w_Cluster w"
  using assms by (auto simp: api_List_def api_call_def Let_def undisturbed_def
      case_prod_beta split: option.splits)

text \<open>The objects a step has to delete are those whose name satisfies \<open>wanted\<close>.\<close>
lemma collect_complete:
  assumes "\<And>K name. go_triple (keys_within K) (f name)
      (\<lambda>_. keys_within (K - {([], name)})) (\<lambda>_. keys_within K)"
    and named: "\<forall>(k, x) \<in> set (cl_Store cl (w_Cluster w)). k = ([], obj_name cl x)"
    and run: "go_collect f (filter wanted (map (obj_name cl) (map snd (cl_Store cl (w_Cluster w))))) w =
      (Inr [], w')"
  shows "\<forall>(k, x) \<in> set (cl_Store cl (w_Cluster w')). \<not> wanted (snd k)"
proof -
  let ?K = "fst ` set (cl_Store cl (w_Cluster w))"
  let ?names = "filter wanted (map (obj_name cl) (map snd (cl_Store cl (w_Cluster w))))"
  have "keys_within ?K w" by (simp add: keys_within_def)
  from go_triple_Inr[OF keys_collect[OF assms(1)] this run]
  have old: "keys_within ?K w'" and gone: "\<And>n. n \<in> set ?names \<Longrightarrow> keys_within (UNIV - {([], n)}) w'"
    by auto
  show ?thesis
  proof clarify
    fix ns n x assume x: "((ns, n), x) \<in> set (cl_Store cl (w_Cluster w'))" and "wanted (snd (ns, n))"
    moreover obtain y where y: "((ns, n), y) \<in> set (cl_Store cl (w_Cluster w))"
      using old x by (force simp: keys_within_def)
    ultimately have "n \<in> set ?names" and "ns = []" using named by force+
    then show False using gone[of n] x by (force simp: keys_within_def)
  qed
qed

lemma cluster_scoped_complete:
  assumes "undisturbed env"
    and "\<forall>(k, x) \<in> set (cl_Store cl (w_Cluster w)). k = ([], obj_name cl x)"
    and run: "cleanup_cluster_scoped env cl skip w = (Inr u, w')"
  shows "\<forall>(k, x) \<in> set (cl_Store cl (w_Cluster w')). skip (snd k)"
proof -
  obtain items w1 where l: "api_List env cl [] w = (Inr items, w1)"
    using run by (auto simp: cleanup_cluster_scoped_def go_bind_def split: prod.splits sum.splits)
  note items = list_undisturbed[OF assms(1) l]
  have "go_collect (\<lambda>name. delete_retried env cl [] name)
      (filter (\<lambda>n. \<not> skip n) (map (obj_name cl) (map snd (cl_Store cl (w_Cluster w1))))) w1 = (Inr [], w')"
    using run l items
    by (auto simp: cleanup_cluster_scoped_def go_bind_def return_aggregate_def go_return_def
        go_throw_def split: prod.splits sum.splits if_splits)
  from collect_complete[OF keys_delete_retried[OF assms(1)] _ this] assms(2) items
  show ?thesis by simp
qed

lemma webhook_type_complete:
  assumes "undisturbed env"
    and "\<forall>(k, x) \<in> set (cl_Store cl (w_Cluster w)). k = ([], obj_name cl x)"
    and run: "cleanup_webhook_type env cl w = (Inr [], w')"
  shows "\<forall>(k, x) \<in> set (cl_Store cl (w_Cluster w')). \<not> Contains (snd k) ''kueue''"
proof -
  obtain items w1 where l: "api_List env cl [] w = (Inr items, w1)"
    using run by (auto simp: cleanup_webhook_type_def go_bind_def go_try_def go_return_def
        split: prod.splits sum.splits if_splits)
  note items = list_undisturbed[OF assms(1) l]
  have "go_collect (\<lambda>name. delete_throttled env cl [] name)
      (filter (\<lambda>n. Contains n ''kueue'') (map (obj_name cl) (map snd (cl_Store cl (w_Cluster w1))))) w1 =
      (Inr [], w')"
    using run l items by (simp add: cleanup_webhook_type_def go_bind_def go_try_def)
  from collect_complete[OF keys_delete_throttled[OF assms(1)] _ this] assms(2) items
  show ?thesis by simp
qed

end

text \<open>C10. Whatever fails along the way, the cleanup makes no other requests than lists and deletions:
  of webhook configurations, cluster roles and cluster role bindings whose name mentions Kueue (but
  no cluster role of the operator, of OpenShift or of the bundle, and no binding of the operator), of
  certificates and issuers, and of the configuration and two certificate secrets of the operator's
  namespace.\<close>
theorem cleanup_deletes_only_kueue:
  assumes "run_cleanup env w = (r, w')"
  shows "\<exists>calls. w_Trace w' = w_Trace w @ calls \<and>
    list_all (cleanup_request (e_OperatorNamespace env)) calls"
  using sendsD[OF sends_cleanup assms] .

theorem cleanup_deletes_only_kueue_witness:
  "\<exists>calls. w_Trace (snd (run_cleanup (calm_env empty_cluster) (initial_world empty_cluster))) = calls \<and>
    list_all (cleanup_request ''openshift-kueue-operator'') calls"
  using cleanup_deletes_only_kueue[OF prod.collapse[symmetric],
      of "calm_env empty_cluster" "initial_world empty_cluster"] by simp


definition role_named :: "string \<Rightarrow> ClusterRole" where
  "role_named n = \<lparr>cro_TypeMeta = empty_type, cro_ObjectMeta = empty_meta\<lparr>om_Name := n\<rparr>,
     cro_Rules = [], cro_AggregationRule = None\<rparr>"

definition two_roles :: Cluster where
  "two_roles = empty_cluster\<lparr>c_ClusterRoles :=
     [(([], ''kueue-manager-role''), role_named ''kueue-manager-role''),
      (([], ''kueue-batch-user-role''), role_named ''kueue-batch-user-role'')]\<rparr>"

lemma two_roles_cleaned:
  "\<exists>w'. cleanUpClusterRoles (calm_env empty_cluster) (initial_world two_roles) = (Inr (), w')"
  by (simp add: cleanUpClusterRoles_def cleanup_cluster_scoped_def go_bind_def go_try_def api_List_def
      api_call_def before_call_def Let_def ClusterRoles_def two_roles_def role_named_def obj_name_def
      skip_cluster_role_def bundleClusterRoleNames_def delete_retried_def RetryOnConflict_def
      numeral_eq_Suc api_Delete_def go_return_def return_aggregate_def HasPrefix_def)


section \<open>The last step cannot succeed twice\<close>

definition config_map_absent :: "Env \<Rightarrow> World \<Rightarrow> bool" where
  "config_map_absent env w \<longleftrightarrow>
     map_of (c_ConfigMaps (w_Cluster w)) (e_OperatorNamespace env, ''kueue-manager-config'') = None"

lemma retried_triple:
  assumes "go_triple P (api_Delete env cl ns name) Q (\<lambda>_. P)"
  shows "go_triple P (delete_retried env cl ns name) Q (\<lambda>_. P)"
  unfolding delete_retried_def RetryOnConflict_def
  by (rule retry_OnError_triple, rule retry_OnError_triple, rule go_triple_weaken[OF assms]) auto

lemma config_map_deletion:
  assumes "undisturbed env"
  shows "go_triple (\<lambda>_. True)
    (delete_retried env (ConfigMaps env) (e_OperatorNamespace env) ''kueue-manager-config'')
    (\<lambda>_. config_map_absent env) (\<lambda>_ _. True)"
  by (rule retried_triple, rule go_tripleI)
    (auto simp: config_map_absent_def dest!: config_maps.delete_ok, simp add: ConfigMaps_def)

lemma absent_deletion_fails:
  assumes "undisturbed env"
  shows "go_triple (config_map_absent env)
    (delete_retried env (ConfigMaps env) (e_OperatorNamespace env) ''kueue-manager-config'')
    (\<lambda>_ _. False) (\<lambda>_. config_map_absent env)"
  using assms
  by (intro retried_triple go_tripleI)
    (auto simp: api_Delete_def api_call_def Let_def undisturbed_def ConfigMaps_def
      config_map_absent_def split: option.splits)

lemma secret_deletion_keeps:
  assumes "undisturbed env"
  shows "go_keeps (config_map_absent env) (delete_retried env (Secrets env) ns name)"
  using assms
  by (intro retried_triple go_tripleI)
    (auto simp: api_Delete_def api_call_def Let_def undisturbed_def Secrets_def
      config_map_absent_def split: option.splits)

lemma try_collect_wp:
  assumes "go_triple P m (\<lambda>_. Q errs) (\<lambda>e. Q (errs @ [e]))" and "\<And>e s. Q (errs @ [e]) s \<Longrightarrow> R e s"
  shows "go_triple P (try_collect m errs) Q R"
  unfolding try_collect_def
  by (rule go_bind_wp[where Q' = "\<lambda>r. Q (case r of Inl e \<Rightarrow> errs @ [e] | Inr _ \<Rightarrow> errs)"],
      rule go_return_wp, rule go_try_wp, rule go_triple_weaken[OF assms(1)]) (auto simp: assms(2))

lemma aggregate_wp:
  "go_triple (\<lambda>w. es = [] \<longrightarrow> P w) (return_aggregate es) (\<lambda>_. P) (\<lambda>_ _. True)"
  by (rule go_tripleI) (auto simp: return_aggregate_def go_return_def go_throw_def split: if_splits)

text \<open>\<open>A\<close> holds as long as no error was collected: every step that keeps \<open>A\<close> preserves this.\<close>
lemma collect_keeps:
  assumes "go_keeps A m"
  shows "go_triple (\<lambda>w. errs = [] \<longrightarrow> A w) (try_collect m errs) (\<lambda>es w. es = [] \<longrightarrow> A w) (\<lambda>_ _. True)"
proof (cases "errs = []")
  case True
  then show ?thesis by (intro try_collect_wp) (rule go_triple_weaken[OF assms], auto)
next
  case False
  then show ?thesis by (intro try_collect_wp) (auto simp: go_triple_def split: prod.splits sum.splits)
qed

lemma cleanUpResources_triple:
  assumes "undisturbed env"
    and first: "go_triple P
      (try_collect (delete_retried env (ConfigMaps env) (e_OperatorNamespace env) ''kueue-manager-config'') [])
      (\<lambda>es w. es = [] \<longrightarrow> A w) (\<lambda>_ _. True)"
    and keep: "\<And>ns name. go_keeps A (delete_retried env (Secrets env) ns name)"
  shows "go_triple P (cleanUpResources env) (\<lambda>_. A) (\<lambda>_ _. True)"
  unfolding cleanUpResources_def Let_def
  by (rule go_bind_wp[OF go_bind_wp[OF go_bind_wp[OF aggregate_wp collect_keeps[OF keep]]
        collect_keeps[OF keep]] first])

lemma cleanUpResources_removes:
  assumes "undisturbed env"
  shows "go_triple (\<lambda>_. True) (cleanUpResources env) (\<lambda>_. config_map_absent env) (\<lambda>_ _. True)"
  by (rule cleanUpResources_triple[OF assms _ secret_deletion_keeps[OF assms]], rule try_collect_wp,
      rule go_triple_weaken[OF config_map_deletion[OF assms]]) auto

lemma cleanUpResources_fails:
  assumes "undisturbed env"
  shows "go_triple (config_map_absent env) (cleanUpResources env) (\<lambda>_ _. False) (\<lambda>_ _. True)"
  by (rule cleanUpResources_triple[OF assms], rule try_collect_wp,
      rule go_triple_weaken[OF absent_deletion_fails[OF assms]])
    (auto simp: go_triple_def split: prod.splits sum.splits)

text \<open>The last cleanup step cannot succeed twice: once it has succeeded, and as long as nobody
  recreates the ConfigMap, every later run of it fails, whatever the answers to its requests are,
  because a ConfigMap that is already gone counts as an error.\<close>
theorem cleanUpResources_not_repeatable:
  assumes "undisturbed env" and "cleanUpResources env w = (Inr (), w')"
  shows "\<exists>e w''. cleanUpResources env w' = (Inl e, w'')"
proof -
  have "config_map_absent env w'"
    using go_triple_Inr[OF cleanUpResources_removes[OF assms(1)] _ assms(2)] by simp
  then show ?thesis
    using go_triple_Inr[OF cleanUpResources_fails[OF assms(1)]]
    by (cases "cleanUpResources env w'"; cases "fst (cleanUpResources env w')") auto
qed

definition cleanup_target :: Cluster where
  "cleanup_target = empty_cluster\<lparr>
     c_ConfigMaps := [((''openshift-kueue-operator'', ''kueue-manager-config''),
       \<lparr>cm_TypeMeta = empty_type, cm_ObjectMeta = empty_meta, cm_Data = [], cm_BinaryData = []\<rparr>)],
     c_Secrets := [((''openshift-kueue-operator'', ''kueue-webhook-server-cert''), unstructured []),
       ((''openshift-kueue-operator'', ''metrics-server-cert''), unstructured [])]\<rparr>"

lemma cleanup_target_cleaned:
  "\<exists>w'. cleanUpResources (calm_env empty_cluster) (initial_world cleanup_target) = (Inr (), w')"
  by (simp add: cleanUpResources_def try_collect_def go_bind_def go_try_def api_call_def
      before_call_def Let_def client_defs cleanup_target_def delete_retried_def RetryOnConflict_def
      numeral_eq_Suc api_Delete_def go_return_def return_aggregate_def)

theorem cleanUpResources_not_repeatable_witness:
  "\<exists>w' e w''. cleanUpResources (calm_env empty_cluster) (initial_world cleanup_target) = (Inr (), w') \<and>
     cleanUpResources (calm_env empty_cluster) w' = (Inl e, w'')"
  using cleanup_target_cleaned cleanUpResources_not_repeatable[of "calm_env empty_cluster"]
  by (fastforce simp: undisturbed_def)

end
