(* ===== verification/Dependencies.thy ===== *)
theory Dependencies
  imports Cleanup
begin

text \<open>
  What the operator finds out about its cluster: platform detection, registered resources, the
  operators that integrations depend on, and the two feature gates of dynamic resource allocation
  whose last known state is kept between reconciliations (\<^verbatim>\<open>target_config_reconciler.go\<close>). The
  result of the checks is the Degraded condition that names what is missing.
\<close>

section \<open>Registered resources\<close>

text \<open>\<open>gv\<close> is \<^verbatim>\<open>gvk.GroupVersion().String()\<close>.\<close>
definition isResourceRegistered :: "Env \<Rightarrow> string \<Rightarrow> string \<Rightarrow> (World, bool) go" where
  "isResourceRegistered env gv gvk_Kind =
     go_bind (go_try (discover env gv)) (\<lambda>r. case r of
        Inl err \<Rightarrow> if IsNotFound err then go_return False else go_throw err
      | Inr resources \<Rightarrow> go_return (list_ex (\<lambda>(name, k). k = gvk_Kind) resources))"

definition crd_name :: "string \<Rightarrow> string \<Rightarrow> string" where
  "crd_name gvk_Group gvk_Kind = ToLower gvk_Kind @ ''s'' @ ''.'' @ gvk_Group"

definition isResourceRegisteredCached :: "Env \<Rightarrow> string \<Rightarrow> string \<Rightarrow> (World, bool) go" where
  "isResourceRegisteredCached env gvk_Group gvk_Kind =
     go_bind (go_try (lister_Get env (CustomResourceDefinitions env) [] (crd_name gvk_Group gvk_Kind)))
       (\<lambda>r. case r of
          Inl err \<Rightarrow> if IsNotFound err then go_return False else go_throw err
        | Inr _ \<Rightarrow> go_return True)"

text \<open>The loop of \<^verbatim>\<open>detectOpenShift\<close>, which runs at most six times; the context is not cancelled.\<close>
fun detect_loop :: "Env \<Rightarrow> nat \<Rightarrow> (World, bool) go" where
  "detect_loop env 0 = go_return False"
| "detect_loop env (Suc n) =
     go_bind (go_try (discover env ''project.openshift.io/v1'')) (\<lambda>r. case r of
        Inr _ \<Rightarrow> go_return True
      | Inl err \<Rightarrow> if IsNotFound err then go_return False
          else go_seq (time_Sleep 5000000000) (detect_loop env n))"

definition detectOpenShift :: "Env \<Rightarrow> (World, bool) go" where
  "detectOpenShift env = detect_loop env 6"

section \<open>Operators that integrations depend on\<close>

definition get_operator_config :: "Env \<Rightarrow> string \<Rightarrow> (World, unit) go" where
  "get_operator_config env operatorName = api_call env (GetOperatorConfig operatorName) (\<lambda>n c.
     (case e_OperatorConfig env n operatorName of Some e \<Rightarrow> Inl e | None \<Rightarrow> Inr (), c))"

definition isOperatorAvailability :: "Env \<Rightarrow> string \<Rightarrow> (World, bool) go" where
  "isOperatorAvailability env operatorName =
     go_bind (isResourceRegisteredCached env ''operator.openshift.io'' operatorName) (\<lambda>found.
       if \<not> found then go_return False
       else go_bind (go_try (get_operator_config env operatorName)) (\<lambda>r. case r of
          Inl err \<Rightarrow> if IsNotFound err then go_return False else go_throw err
        | Inr _ \<Rightarrow> go_return True))"

text \<open>An error of the check is logged, and the operator counts as missing.\<close>
definition require_operator ::
  "Env \<Rightarrow> string \<Rightarrow> KueueIntegration \<Rightarrow> string list \<Rightarrow> (World, string list) go" where
  "require_operator env operatorName integration missingDependencies =
     go_bind (go_try (isOperatorAvailability env operatorName)) (\<lambda>r.
       go_return (if r = Inr True then missingDependencies else missingDependencies @ [integration]))"

definition framework_dependencies :: "Env \<Rightarrow> Kueue \<Rightarrow> (World, string list) go" where
  "framework_dependencies env kueue =
     go_foldM (\<lambda>missing framework.
       go_bind (if framework = KueueIntegrationJobSet
                then require_operator env ''JobSetOperator'' KueueIntegrationJobSet missing
                else go_return missing) (\<lambda>missing.
         if framework = KueueIntegrationLeaderWorkerSet
         then require_operator env ''LeaderWorkerSetOperator'' KueueIntegrationLeaderWorkerSet missing
         else go_return missing))
       (in_Frameworks (kc_Integrations (ks_Config (ku_Spec kueue)))) []"

section \<open>Dynamic resource allocation\<close>

definition isKubernetesMinorAtLeast :: "Env \<Rightarrow> int \<Rightarrow> (World, bool) go" where
  "isKubernetesMinorAtLeast env minor =
     go_bind (go_try (api_call env ServerVersion (\<lambda>n c. (e_ServerMinor env n, c)))) (\<lambda>r. case r of
        Inl err \<Rightarrow> go_return False
      | Inr version \<Rightarrow> (case Atoi (TrimRight version CHR ''+'') of
            None \<Rightarrow> go_return False
          | Some parsedMinor \<Rightarrow> go_return (parsedMinor \<ge> minor)))"

abbreviation draConsumableCapacityMissingDependency :: string where
  "draConsumableCapacityMissingDependency \<equiv>
     ''DRA Consumable Capacity requires Kubernetes 1.36+ (OCP 4.23+) and the DRAConsumableCapacity feature gate to be enabled''"

definition missingConsumableCapacityDependencies :: "Resources \<Rightarrow> bool \<Rightarrow> string list" where
  "missingConsumableCapacityDependencies resources enabled =
     (if HasSourceOfType resources DeviceClassSourceTypeCapacity \<and> \<not> enabled
      then [draConsumableCapacityMissingDependency] else [])"

definition dra_apis_available :: "Env \<Rightarrow> (World, bool) go" where
  "dra_apis_available env =
     go_bind (go_try (isResourceRegistered env ''resource.k8s.io/v1'' ''DeviceClass'')) (\<lambda>r.
       go_return (r = Inr True))"

definition custom_gate :: "FeatureGateSpec \<Rightarrow> string \<Rightarrow> bool" where
  "custom_gate fg gate \<longleftrightarrow> fg_FeatureSet fg = ''CustomNoUpgrade'' \<and>
     (case fg_CustomNoUpgrade fg of None \<Rightarrow> False | Some enabled \<Rightarrow> gate \<in> set enabled)"

text \<open>The two flags. The version of the server is only asked for when the API is there.\<close>
definition update_dra_gates :: "Env \<Rightarrow> bool \<Rightarrow> (World, unit) go" where
  "update_dra_gates env draAPIsAvailable =
     go_bind (if draAPIsAvailable then isKubernetesMinorAtLeast env 36 else go_return False)
       (\<lambda>versionEnablesConsumableCapacity.
     go_bind (go_read w_draConsumableCapacityEnabled) (\<lambda>previousConsumableCapacityEnabled.
     go_seq (go_modify (\<lambda>w. w\<lparr>w_draConsumableCapacityEnabled := versionEnablesConsumableCapacity\<rparr>))
       (if e_IsOpenShift env \<and> draAPIsAvailable
        then go_bind (go_try (api_call env GetFeatureGate (\<lambda>n c. (e_FeatureGate env n, c)))) (\<lambda>r. case r of
            Inl err \<Rightarrow> go_when (\<not> versionEnablesConsumableCapacity) (go_modify (\<lambda>w.
              w\<lparr>w_draConsumableCapacityEnabled := previousConsumableCapacityEnabled\<rparr>))
          | Inr fg \<Rightarrow> go_modify (\<lambda>w. w\<lparr>
              w_draPartitionableDevicesEnabled := custom_gate fg ''DRAPartitionableDevices'',
              w_draConsumableCapacityEnabled :=
                versionEnablesConsumableCapacity \<or> custom_gate fg ''DRAConsumableCapacity''\<rparr>))
        else go_return ())))"

definition dra_dependencies :: "Env \<Rightarrow> Kueue \<Rightarrow> string list \<Rightarrow> (World, string list) go" where
  "dra_dependencies env kueue missing =
     (let resources = kc_Resources (ks_Config (ku_Spec kueue)) in
      go_bind (dra_apis_available env) (\<lambda>draAPIsAvailable.
      let unsupported = (res_DeviceClassMappings resources \<noteq> [] \<and> \<not> draAPIsAvailable) in
      go_seq (go_when unsupported (Eventf ''DRAUnsupported''))
     (go_seq (update_dra_gates env draAPIsAvailable)
     (go_bind (go_read w_draPartitionableDevicesEnabled) (\<lambda>partitionable.
      go_bind (go_read w_draConsumableCapacityEnabled) (\<lambda>consumable.
      let counter = (HasSourceOfType resources DeviceClassSourceTypeCounter \<and> \<not> partitionable);
          deps = missingConsumableCapacityDependencies resources consumable in
      go_seq (go_when counter (Eventf ''DRAPartitionableDevicesUnsupported''))
     (go_seq (go_when (deps \<noteq> []) (Eventf ''DRAConsumableCapacityUnsupported''))
     (go_return (missing @
        (if unsupported
         then [''DRA (Dynamic Resource Allocation) requires Kubernetes 1.34+ (OCP 4.21+)''] else []) @
        (if counter
         then [''DRA Partitionable Devices requires the DRAPartitionableDevices K8s feature gate to be enabled'']
         else []) @ deps)))))))))"

definition dependency_condition :: "string list \<Rightarrow> ConditionApply option" where
  "dependency_condition missingDependencies =
     (if missingDependencies = [] then None
      else Some (condition ''Degraded'' ConditionTrue ''MissingDependencies''
        (''Please install the following on your cluster: '' @ Join missingDependencies '', '')))"

definition check_dependencies :: "Env \<Rightarrow> Kueue \<Rightarrow> (World, ConditionApply option) go" where
  "check_dependencies env kueue =
     go_bind (framework_dependencies env kueue) (\<lambda>missing.
     go_bind (dra_dependencies env kueue missing) (\<lambda>missing.
       go_return (dependency_condition missing)))"

section \<open>Answers\<close>

text \<open>What the \<open>n\<close>-th request is answered: the fault of the environment, if there is one.\<close>
definition answer :: "Env \<Rightarrow> nat \<Rightarrow> (nat \<Rightarrow> api_error + 'a) \<Rightarrow> api_error + 'a" where
  "answer env n f = (case e_Fault env n of Some e \<Rightarrow> Inl e | None \<Rightarrow> f n)"

lemma api_call_answer:
  "api_call env c (\<lambda>n cl. (f n, cl)) w =
     ((case answer env (w_Calls w) f of Inl (r, m) \<Rightarrow> Inl (ApiError r m) | Inr x \<Rightarrow> Inr x),
      before_call env c w)"
  by (auto simp: api_call_def answer_def Let_def before_call_def split: option.splits sum.splits)

lemma try_api_call_answer:
  "go_try (api_call env c (\<lambda>n cl. (f n, cl))) w =
     (Inr (case answer env (w_Calls w) f of Inl (r, m) \<Rightarrow> Inl (ApiError r m) | Inr x \<Rightarrow> Inr x),
      before_call env c w)"
  by (auto simp: go_try_def api_call_answer split: sum.splits)

definition minor_at_least :: "int \<Rightarrow> api_error + string \<Rightarrow> bool" where
  "minor_at_least m r = (case r of Inl _ \<Rightarrow> False
     | Inr version \<Rightarrow> (case Atoi (TrimRight version CHR ''+'') of None \<Rightarrow> False | Some k \<Rightarrow> m \<le> k))"

lemma isKubernetesMinorAtLeast_run:
  "isKubernetesMinorAtLeast env m w =
     (Inr (minor_at_least m (answer env (w_Calls w) (e_ServerMinor env))), before_call env ServerVersion w)"
  by (auto simp: isKubernetesMinorAtLeast_def go_bind_def try_api_call_answer minor_at_least_def
      go_return_def split: sum.splits option.splits)

lemma before_call_dra [simp]:
  "w_draConsumableCapacityEnabled (before_call env c w) = w_draConsumableCapacityEnabled w"
  "w_draPartitionableDevicesEnabled (before_call env c w) = w_draPartitionableDevicesEnabled w"
  by (simp_all add: before_call_def)

text \<open>The feature gates of dynamic resource allocation, for every answer of the cluster: the update
  never fails. Without the API both requests are left out and consumable capacity is off. With it,
  Kubernetes 1.36 or later turns consumable capacity on; on OpenShift a readable feature gate
  resource turns gates on that it enables through CustomNoUpgrade and turns partitionable devices
  off otherwise, while an unreadable one keeps what was known before.\<close>
theorem update_dra_gates_result:
  "\<exists>w'. update_dra_gates env api w = (Inr (), w') \<and>
    (let n = w_Calls w;
         recent = (api \<and> minor_at_least 36 (answer env n (e_ServerMinor env)));
         consumable = w_draConsumableCapacityEnabled; partitionable = w_draPartitionableDevicesEnabled
     in if e_IsOpenShift env \<and> api
        then (case answer env (Suc n) (e_FeatureGate env) of
            Inl _ \<Rightarrow> consumable w' = (recent \<or> consumable w) \<and> partitionable w' = partitionable w
          | Inr fg \<Rightarrow> consumable w' = (recent \<or> custom_gate fg ''DRAConsumableCapacity'') \<and>
                     partitionable w' = custom_gate fg ''DRAPartitionableDevices'')
        else consumable w' = recent \<and> partitionable w' = partitionable w \<and> (\<not> api \<longrightarrow> w_Trace w' = w_Trace w))"
  by (cases "answer env (Suc (w_Calls w)) (e_FeatureGate env)"; cases "minor_at_least 36 (answer env (w_Calls w) (e_ServerMinor env))")
    (auto simp: update_dra_gates_def go_bind_def go_seq_def go_read_def go_modify_def go_return_def
      go_when_def isKubernetesMinorAtLeast_run try_api_call_answer Let_def)

theorem update_dra_gates_result_witness:
  "\<exists>w'. update_dra_gates (calm_env empty_cluster) False (initial_world empty_cluster) = (Inr (), w') \<and>
    w_Trace w' = [] \<and> \<not> w_draConsumableCapacityEnabled w'"
  using update_dra_gates_result[of "calm_env empty_cluster" False "initial_world empty_cluster"]
  by (auto simp: Let_def)

section \<open>Platform detection\<close>

abbreviation openshift_gv :: string where "openshift_gv \<equiv> ''project.openshift.io/v1''"

lemma try_discover: "go_try (discover env gv) w =
   (Inr (case answer env (w_Calls w) (\<lambda>n. e_Discovery env n gv) of
      Inl (r, m) \<Rightarrow> Inl (ApiError r m) | Inr x \<Rightarrow> Inr x), before_call env (Discover gv) w)"
  unfolding discover_def by (rule try_api_call_answer)

definition transient :: "api_error + 'a \<Rightarrow> bool" where
  "transient r = (case r of Inl (reason, m) \<Rightarrow> reason \<noteq> NotFound | Inr _ \<Rightarrow> False)"

definition detection :: "Env \<Rightarrow> nat \<Rightarrow> api_error + api_resource list" where
  "detection env n = answer env n (\<lambda>n. e_Discovery env n openshift_gv)"

lemma detect_loop_run:
  "\<exists>b w' k. detect_loop env n w = (Inr b, w') \<and> k \<le> n \<and>
     w_Trace w' = w_Trace w @ replicate k (Discover openshift_gv) \<and>
     (\<forall>j < k - 1. transient (detection env (w_Calls w + j))) \<and>
     (b \<longleftrightarrow> 0 < k \<and> \<not> isl (detection env (w_Calls w + (k - 1)))) \<and>
     (\<not> b \<longrightarrow> k < n \<longrightarrow> 0 < k \<and> \<not> transient (detection env (w_Calls w + (k - 1))))"
proof (induction n arbitrary: w)
  case 0
  show ?case by (rule exI[of _ False]) (simp add: go_return_def)
next
  case (Suc n)
  let ?w = "before_call env (Discover openshift_gv) w"
  let ?a = "detection env (w_Calls w)"
  have asked: "go_try (discover env openshift_gv) w =
      (Inr (case ?a of Inl (r, m) \<Rightarrow> Inl (ApiError r m) | Inr x \<Rightarrow> Inr x), ?w)"
    by (simp add: try_discover detection_def)
  show ?case
  proof (cases "transient ?a")
    case True
    then obtain r m where a: "?a = Inl (r, m)" "r \<noteq> NotFound"
      by (auto simp: transient_def split: sum.splits)
    let ?w2 = "?w\<lparr>w_Now := w_Now ?w + 5000000000\<rparr>"
    have step: "detect_loop env (Suc n) w = detect_loop env n ?w2"
      using a by (simp add: go_bind_def asked go_seq_def time_Sleep_def go_modify_def IsNotFound_def)
    obtain b w' k where IH: "detect_loop env n ?w2 = (Inr b, w')" "k \<le> n"
      "w_Trace w' = w_Trace ?w2 @ replicate k (Discover openshift_gv)"
      "\<forall>j < k - 1. transient (detection env (w_Calls ?w2 + j))"
      "b \<longleftrightarrow> 0 < k \<and> \<not> isl (detection env (w_Calls ?w2 + (k - 1)))"
      "\<not> b \<longrightarrow> k < n \<longrightarrow> 0 < k \<and> \<not> transient (detection env (w_Calls ?w2 + (k - 1)))"
      using Suc.IH[of ?w2] by blast
    have shift: "transient (detection env (w_Calls w + j))" if "j < Suc k - 1" for j
      using that True IH(4) by (cases j) auto
    have "b \<longleftrightarrow> \<not> isl (detection env (w_Calls w + k))"
      using IH(5) a by (cases k) auto
    moreover have "\<not> b \<longrightarrow> k < n \<longrightarrow> \<not> transient (detection env (w_Calls w + k))"
      using IH(6) by (cases k) auto
    ultimately show ?thesis
      using step IH(1,2,3) shift
      by (intro exI[of _ b] exI[of _ w'] exI[of _ "Suc k"]) simp
  next
    case False
    then have "detect_loop env (Suc n) w = (Inr (\<not> isl ?a), ?w)"
      by (cases ?a) (auto simp: transient_def go_bind_def asked go_return_def IsNotFound_def)
    with False show ?thesis
      by (intro exI[of _ "\<not> isl ?a"] exI[of _ ?w] exI[of _ "Suc 0"]) simp
  qed
qed

text \<open>Platform detection ends after at most six discovery requests and never fails. It asks again
  only after an error other than NotFound, and it says OpenShift exactly when its last request was
  answered without an error.\<close>
theorem detectOpenShift_bounded:
  "\<exists>b w' k. detectOpenShift env w = (Inr b, w') \<and> 0 < k \<and> k \<le> 6 \<and>
     w_Trace w' = w_Trace w @ replicate k (Discover openshift_gv) \<and>
     (\<forall>j < k - 1. transient (detection env (w_Calls w + j))) \<and>
     (b \<longleftrightarrow> \<not> isl (detection env (w_Calls w + (k - 1)))) \<and>
     (k < 6 \<longrightarrow> \<not> transient (detection env (w_Calls w + (k - 1))))"
proof -
  obtain b w' k where r: "detect_loop env 6 w = (Inr b, w')" "k \<le> 6"
    "w_Trace w' = w_Trace w @ replicate k (Discover openshift_gv)"
    "\<forall>j < k - 1. transient (detection env (w_Calls w + j))"
    "b \<longleftrightarrow> 0 < k \<and> \<not> isl (detection env (w_Calls w + (k - 1)))"
    "\<not> b \<longrightarrow> k < 6 \<longrightarrow> 0 < k \<and> \<not> transient (detection env (w_Calls w + (k - 1)))"
    using detect_loop_run[of env 6 w] by blast
  have "0 < k" using r(5,6) by (cases b) auto
  moreover have "k < 6 \<longrightarrow> \<not> transient (detection env (w_Calls w + (k - 1)))"
    using r(5,6) by (cases b) (auto simp: transient_def split: sum.splits)
  ultimately show ?thesis using r unfolding detectOpenShift_def by blast
qed

theorem detectOpenShift_bounded_witness:
  "\<exists>w'. detectOpenShift (calm_env empty_cluster) (initial_world empty_cluster) = (Inr True, w') \<and>
    length (w_Trace w') \<le> 6"
  using detectOpenShift_bounded[of "calm_env empty_cluster" "initial_world empty_cluster"]
  by (auto simp: detection_def answer_def)

end
