(* ===== verification/Reconciler.thy ===== *)
theory Reconciler
  imports Dependencies Tls_Profile
begin

text \<open>
  One reconciliation: \<^verbatim>\<open>sync\<close> of \<^verbatim>\<open>target_config_reconciler.go\<close>, cut at the places where the
  source begins a new paragraph. Every definition is a stretch of the method; \<open>sync\<close> composes them in
  the source's order with its early returns. \<open>annos\<close> is the map \<^verbatim>\<open>specAnnotations\<close> of the hashes of
  everything that was applied, which ends up on the pods of the operand.
\<close>

section \<open>Parts of a reconciliation\<close>

text \<open>\<^verbatim>\<open>hash, err = computeSpecHash(obj); specAnnotations[key] = hash\<close>\<close>
definition record_hash ::
  "Env \<Rightarrow> string \<Rightarrow> hashable \<Rightarrow> string \<Rightarrow> annotations \<Rightarrow> (World, annotations) go" where
  "record_hash env key obj msg annos =
     go_bind (hash_go env obj msg) (\<lambda>hash. go_return (AList.update key hash annos))"

definition object_spec :: "Unstructured \<Rightarrow> hashable" where
  "object_spec u = HJson (case us_Object u ''spec'' of None \<Rightarrow> JNull | Some spec \<Rightarrow> spec)"

definition sync_cert_manager_missing :: "Env \<Rightarrow> Kueue \<Rightarrow> (World, unit) go" where
  "sync_cert_manager_missing env kueue =
     go_seq (Eventf ''CertManagerMissing'')
     (go_bind (go_try (updateKueueStatus env kueue buildCertManagerMissingConditions None)) (\<lambda>_.
        go_return ()))"

text \<open>A failure to remove the finalizer is only logged.\<close>
definition sync_deletion :: "Env \<Rightarrow> Kueue \<Rightarrow> (World, unit) go" where
  "sync_deletion env kueue =
     go_seq (run_cleanup env)
     (go_bind (go_try (removeFinalizerFromKueueInstance env kueue)) (\<lambda>_. go_return ()))"

record certificate_data =
  cd_dnsNames :: "string list"
  cd_commonName :: string
  cd_secretName :: string
  cd_certificateName :: string

definition service_dns_names :: "Env \<Rightarrow> string \<Rightarrow> string list" where
  "service_dns_names env service =
     [service @ ''.'' @ e_OperatorNamespace env @ ''.svc'',
      service @ ''.'' @ e_OperatorNamespace env @ ''.svc.cluster.local'']"

definition certificateData :: "Env \<Rightarrow> certificate_data list" where
  "certificateData env =
     [\<lparr>cd_dnsNames = service_dns_names env ''kueue-webhook-service'', cd_commonName = [],
       cd_secretName = ''kueue-webhook-server-cert'', cd_certificateName = ''webhook-cert''\<rparr>,
      \<lparr>cd_dnsNames = service_dns_names env ''kueue-controller-manager-metrics-service'',
       cd_commonName = ''kueue-metrics'', cd_secretName = secretMetricsServerCert,
       cd_certificateName = certMetricsCerts\<rparr>,
      \<lparr>cd_dnsNames = service_dns_names env ''kueue-visibility-server'',
       cd_commonName = ''kueue-visibility-server'', cd_secretName = secretKueueVisibilityServerCert,
       cd_certificateName = secretKueueVisibilityServerCert\<rparr>]"

definition sync_certificates :: "Env \<Rightarrow> Kueue \<Rightarrow> annotations \<Rightarrow> (World, annotations) go" where
  "sync_certificates env kueue annos =
     go_bind (manageIssuerCR env kueue) (\<lambda>(issuer, _).
     go_bind (record_hash env (''issuer/'' @ GetName issuer) (object_spec issuer)
                ''failed to hash Issuer spec'' annos) (\<lambda>annos.
       go_foldM (\<lambda>annos certificate.
         go_bind (manageCertificateCR env kueue (cd_dnsNames certificate) (cd_commonName certificate)
                    (cd_secretName certificate) (cd_certificateName certificate)) (\<lambda>(cert, _).
         record_hash env (''certificate/'' @ GetName cert) (object_spec cert)
           ''failed to hash Certificate spec'' annos)) (certificateData env) annos))"

abbreviation two_minutes :: int where "two_minutes \<equiv> 120000000000"

definition sync_wait :: "Env \<Rightarrow> (World, unit) go" where
  "sync_wait env =
     go_seq (WaitForCertificateReady env (e_OperatorNamespace env) ''webhook-cert'' two_minutes)
     (go_seq (WaitForCertificateReady env (e_OperatorNamespace env) certMetricsCerts two_minutes)
     (WaitForCertificateReady env (e_OperatorNamespace env) secretKueueVisibilityServerCert two_minutes))"

definition cached_kueue :: "Env \<Rightarrow> (World, cached_object) go" where
  "cached_kueue env = go_read (\<lambda>w. e_KueueInformer env (w_Calls w))"

definition sync_reread :: "Env \<Rightarrow> (World, Kueue) go" where
  "sync_reread env = go_bind (cached_kueue env) (\<lambda>obj. case obj of
     CacheError m \<Rightarrow> go_throw (Wrap ''failed to re-read operator configuration after certificate wait''
                       (Errorf m))
   | CacheAbsent \<Rightarrow> go_throw (Errorf ''operator configuration not found after certificate wait'')
   | CacheOther \<Rightarrow> go_throw
       (Errorf ''unable to convert cached object to Kueue type after certificate wait'')
   | CacheKueue kueue \<Rightarrow> go_return kueue)"

definition FetchAPIServerTLSProfile :: "Env \<Rightarrow> (World, TLSSecurityProfile option) go" where
  "FetchAPIServerTLSProfile env =
     go_bind (go_try (api_call env GetAPIServer (\<lambda>n c. (e_APIServer env n, c)))) (\<lambda>r. case r of
        Inl err \<Rightarrow> go_throw (Wrap ''failed to get APIServer CR'' err)
      | Inr profile \<Rightarrow> go_return profile)"

text \<open>\<^term>\<open>None\<close>: the reconciliation ends here, without an error.\<close>
definition sync_tls :: "Env \<Rightarrow> Kueue \<Rightarrow> (World, TLSOptions option option) go" where
  "sync_tls env kueue =
     (if \<not> e_IsOpenShift env then go_return (Some None)
      else go_bind (FetchAPIServerTLSProfile env) (\<lambda>clusterProfile.
        case TLSOptionsFromProfile clusterProfile of
          Inl err \<Rightarrow>
            go_seq (Eventf ''UnsupportedTLSProfile'')
            (go_seq (updateKueueStatus env kueue (buildUnsupportedTLSProfileConditions err) None)
            (go_return None))
        | Inr (tlsOpts, unmappedCiphers, unmappedGroups) \<Rightarrow>
            go_seq (go_when (unmappedCiphers \<noteq> []) (Eventf ''InvalidTLSCipherSuites''))
            (go_seq (go_when (unmappedGroups \<noteq> []) (Eventf ''InvalidTLSGroups''))
            (go_return (Some (Some tlsOpts))))))"

definition record_role :: "Env \<Rightarrow> Role \<Rightarrow> annotations \<Rightarrow> (World, annotations) go" where
  "record_role env role = record_hash env (''role/'' @ om_Name (ro_ObjectMeta role))
     (HRules (ro_Rules role)) ''failed to hash Role rules''"

definition record_role_binding :: "Env \<Rightarrow> RoleBinding \<Rightarrow> annotations \<Rightarrow> (World, annotations) go" where
  "record_role_binding env rb = record_hash env (''rolebinding/'' @ om_Name (rb_ObjectMeta rb))
     (HBinding (rb_Subjects rb) (rb_RoleRef rb)) ''failed to hash RoleBinding''"

definition record_cluster_role_binding ::
  "Env \<Rightarrow> ClusterRoleBinding \<Rightarrow> annotations \<Rightarrow> (World, annotations) go" where
  "record_cluster_role_binding env crb =
     record_hash env (''clusterrolebinding/'' @ om_Name (crb_ObjectMeta crb))
       (HBinding (crb_Subjects crb) (crb_RoleRef crb)) ''failed to hash ClusterRoleBinding''"

definition record_service :: "Env \<Rightarrow> Service \<Rightarrow> annotations \<Rightarrow> (World, annotations) go" where
  "record_service env svc = record_hash env (''service/'' @ om_Name (sv_ObjectMeta svc))
     (HService (sv_Spec svc)) ''failed to hash Service spec''"

definition sync_role :: "Env \<Rightarrow> string \<Rightarrow> OwnerReference \<Rightarrow> annotations \<Rightarrow> (World, annotations) go" where
  "sync_role env path ownerReference annos =
     go_bind (manageRole env path ownerReference) (\<lambda>(role, _). record_role env role annos)"

definition sync_role_binding ::
  "Env \<Rightarrow> string \<Rightarrow> OwnerReference \<Rightarrow> bool \<Rightarrow> annotations \<Rightarrow> (World, annotations) go" where
  "sync_role_binding env path ownerReference set_ns annos =
     go_bind (manageRoleBindings env path ownerReference set_ns) (\<lambda>(rb, _).
       record_role_binding env rb annos)"

definition sync_service :: "Env \<Rightarrow> string \<Rightarrow> OwnerReference \<Rightarrow> annotations \<Rightarrow> (World, annotations) go" where
  "sync_service env path ownerReference annos =
     go_bind (manageService env path ownerReference) (\<lambda>(svc, _). record_service env svc annos)"

definition sync_cluster_role_binding ::
  "Env \<Rightarrow> string \<Rightarrow> OwnerReference \<Rightarrow> annotations \<Rightarrow> (World, annotations) go" where
  "sync_cluster_role_binding env path ownerReference annos =
     go_bind (manageClusterRoleBindings env path ownerReference) (\<lambda>(crb, _).
       record_cluster_role_binding env crb annos)"

definition sync_config ::
  "Env \<Rightarrow> Kueue \<Rightarrow> TLSOptions option \<Rightarrow> OwnerReference \<Rightarrow> annotations \<Rightarrow> (World, annotations) go" where
  "sync_config env kueue tlsOpts ownerReference annos =
     go_bind (manageConfigMap env kueue tlsOpts) (\<lambda>(cm, _).
     go_bind (record_hash env (''configmap/'' @ om_Name (cm_ObjectMeta cm)) (HData (cm_Data cm))
                ''failed to hash ConfigMap data'' annos) (\<lambda>annos.
     go_bind (manageServiceAccount env ownerReference) (\<lambda>(sa, _).
     record_hash env (''serviceaccounts/'' @ om_Name (sa_ObjectMeta sa))
       (HName (om_Name (sa_ObjectMeta sa))) ''failed to hash ServiceAccount'' annos)))"

definition sync_roles :: "Env \<Rightarrow> OwnerReference \<Rightarrow> annotations \<Rightarrow> (World, annotations) go" where
  "sync_roles env ownerReference annos =
     go_bind (sync_role env (asset ''role-leader-election.yaml'') ownerReference annos) (\<lambda>annos.
     go_bind (sync_role_binding env (asset ''rolebinding-leader-election.yaml'') ownerReference True annos)
       (\<lambda>annos.
     go_bind (sync_role env (asset ''role-manager-secrets.yaml'') ownerReference annos) (\<lambda>annos.
     sync_role_binding env (asset ''rolebinding-manager-secrets.yaml'') ownerReference True annos)))"

definition sync_prometheus :: "Env \<Rightarrow> OwnerReference \<Rightarrow> annotations \<Rightarrow> (World, annotations) go" where
  "sync_prometheus env ownerReference annos =
     (if \<not> e_ServiceMonitorSupport env then go_return annos
      else
       go_bind (sync_role env (asset ''role-prometheus.yaml'') ownerReference annos) (\<lambda>annos.
       go_bind (sync_role_binding env (asset ''rolebinding-prometheus.yaml'') ownerReference False annos)
         (\<lambda>annos.
       go_bind (sync_service env (asset ''controller-manager-metrics-service.yaml'') ownerReference annos)
         (\<lambda>annos.
       go_bind (manageClusterRoleBindingsWithoutNamespaceOverride env
                  (asset ''clusterrolebinding-metrics-monitoring.yaml'') ownerReference) (\<lambda>(crb, _).
       record_cluster_role_binding env crb annos)))))"

definition sync_cluster_wide :: "Env \<Rightarrow> OwnerReference \<Rightarrow> annotations \<Rightarrow> (World, annotations) go" where
  "sync_cluster_wide env ownerReference annos =
     go_bind (sync_service env (asset ''visibility-server.yaml'') ownerReference annos) (\<lambda>annos.
     go_bind (manageAPIService env annos ownerReference) (\<lambda>annos.
     go_bind (managePriorityLevelConfiguration env annos ownerReference) (\<lambda>annos.
     go_bind (manageFlowSchema env annos ownerReference) (\<lambda>annos.
     go_bind (manageCustomResources env annos) (\<lambda>annos.
     go_bind (manageNetworkPolicies env annos ownerReference) (\<lambda>annos.
     manageClusterRoles env annos ownerReference))))))"

definition sync_bindings :: "Env \<Rightarrow> OwnerReference \<Rightarrow> annotations \<Rightarrow> (World, annotations) go" where
  "sync_bindings env ownerReference annos =
     go_bind (manageOpenshiftClusterRolesForKueue env ownerReference) (\<lambda>(clusterRole, _).
     go_bind (record_hash env (''clusterrole/'' @ om_Name (cro_ObjectMeta clusterRole))
                (HRules (cro_Rules clusterRole)) ''failed to hash ClusterRole rules'' annos) (\<lambda>annos.
     go_bind (manageOpenshiftClusterRolesBindingForKueue env ownerReference) (\<lambda>(crb, _).
     go_bind (record_cluster_role_binding env crb annos) (\<lambda>annos.
     go_bind (sync_cluster_role_binding env (asset ''clusterrolebinding-proxy.yaml'') ownerReference annos)
       (\<lambda>annos.
     go_bind (sync_cluster_role_binding env (asset ''clusterrolebinding-manager.yaml'') ownerReference annos)
       (\<lambda>annos.
     go_bind (if e_ServiceMonitorSupport env
              then go_bind (sync_cluster_role_binding env (asset ''clusterrolebinding-metrics.yaml'')
                     ownerReference annos) (\<lambda>annos.
                   sync_cluster_role_binding env (asset ''clusterrolebinding-metrics-auth.yaml'')
                     ownerReference annos)
              else go_return annos) (\<lambda>annos.
     go_bind (manageSystemRoleBindings env (asset ''rolebinding-visibility-server-auth-reader.yaml'')
                ownerReference True) (\<lambda>(rb, _).
     record_role_binding env rb annos))))))))"

definition sync_webhooks ::
  "Env \<Rightarrow> Kueue \<Rightarrow> OwnerReference \<Rightarrow> annotations \<Rightarrow> (World, annotations) go" where
  "sync_webhooks env kueue ownerReference annos =
     go_bind (manageMutatingWebhook env kueue ownerReference) (\<lambda>(kueueWH, _).
     go_bind (record_hash env (''mutatingwebhook/'' @ om_Name (mwc_ObjectMeta kueueWH))
                (HWebhooks (mwc_Webhooks kueueWH))
                ''failed to hash MutatingWebhookConfiguration webhooks'' annos) (\<lambda>annos.
     go_bind (manageValidatingWebhook env kueue ownerReference) (\<lambda>(kueueVWH, _).
     go_bind (record_hash env (''validatingwebhook/'' @ om_Name (vwc_ObjectMeta kueueVWH))
                (HWebhooks (vwc_Webhooks kueueVWH))
                ''failed to hash ValidatingWebhookConfiguration webhooks'' annos) (\<lambda>annos.
     go_bind (sync_service env (asset ''webhook-service.yaml'') ownerReference annos) (\<lambda>annos.
     if e_ServiceMonitorSupport env
     then go_bind (manageServiceMonitor env kueue) (\<lambda>(serviceMonitor, _).
          record_hash env (''servicemonitor/'' @ GetName serviceMonitor) (object_spec serviceMonitor)
            ''failed to hash ServiceMonitor spec'' annos)
     else go_return annos)))))"

definition sync_deployment ::
  "Env \<Rightarrow> Kueue \<Rightarrow> OwnerReference \<Rightarrow> ConditionApply option \<Rightarrow> annotations \<Rightarrow> (World, unit) go" where
  "sync_deployment env kueue ownerReference dependencyCondition annos =
     go_bind (manageDeployment env kueue annos ownerReference) (\<lambda>(deployment, _, kueue).
       updateKueueStatus env kueue (buildOperatorConditions deployment dependencyCondition)
         (Some (dps_ReadyReplicas (de_Status deployment))))"

section \<open>The reconciliation\<close>

definition sync_operand ::
  "Env \<Rightarrow> Kueue \<Rightarrow> TLSOptions option \<Rightarrow> OwnerReference \<Rightarrow> ConditionApply option \<Rightarrow> annotations
   \<Rightarrow> (World, unit) go" where
  "sync_operand env kueue tlsOpts ownerReference dependencyCondition annos =
     go_bind (sync_config env kueue tlsOpts ownerReference annos) (\<lambda>annos.
     go_bind (sync_roles env ownerReference annos) (\<lambda>annos.
     go_bind (sync_prometheus env ownerReference annos) (\<lambda>annos.
     go_bind (sync_cluster_wide env ownerReference annos) (\<lambda>annos.
     go_bind (sync_bindings env ownerReference annos) (\<lambda>annos.
     go_bind (sync_webhooks env kueue ownerReference annos) (\<lambda>annos.
     sync_deployment env kueue ownerReference dependencyCondition annos))))))"

definition sync_apply ::
  "Env \<Rightarrow> Kueue \<Rightarrow> OwnerReference \<Rightarrow> ConditionApply option \<Rightarrow> (World, unit) go" where
  "sync_apply env kueue ownerReference dependencyCondition =
     go_bind (sync_certificates env kueue
       [(''kueueoperator.kueue.openshift.io/cluster'', FormatInt (om_Generation (ku_ObjectMeta kueue)))])
       (\<lambda>annos.
     go_seq (sync_wait env)
    (go_bind (sync_reread env) (\<lambda>kueue.
     go_bind (sync_tls env kueue) (\<lambda>tls. case tls of
        None \<Rightarrow> go_return ()
      | Some tlsOpts \<Rightarrow> sync_operand env kueue tlsOpts ownerReference dependencyCondition annos))))"

definition kueue_owner :: "Kueue \<Rightarrow> OwnerReference" where
  "kueue_owner kueue = \<lparr>or_APIVersion = kueueAPIVersion, or_Kind = kindKueue,
     or_Name = om_Name (ku_ObjectMeta kueue), or_UID = om_UID (ku_ObjectMeta kueue),
     or_Controller = None, or_BlockOwnerDeletion = None\<rparr>"

definition sync_kueue :: "Env \<Rightarrow> Kueue \<Rightarrow> (World, unit) go" where
  "sync_kueue env kueue =
     go_bind (isResourceRegisteredCached env groupCertManager kindIssuer) (\<lambda>found.
       if \<not> found then sync_cert_manager_missing env kueue
       else
         go_bind (check_dependencies env kueue) (\<lambda>dependencyCondition.
         let ownerReference = kueue_owner kueue in
         go_bind (addFinalizerToKueueInstance env kueue) (\<lambda>kueue.
           if om_DeletionTimestamp (ku_ObjectMeta kueue) \<noteq> None then sync_deletion env kueue
           else sync_apply env kueue ownerReference dependencyCondition)))"

definition sync :: "Env \<Rightarrow> (World, unit) go" where
  "sync env = go_bind (cached_kueue env) (\<lambda>obj. case obj of
     CacheKueue kueue \<Rightarrow> sync_kueue env kueue
   | _ \<Rightarrow> Eventf ''unconfigured'')"

end
