(* ===== verification/Ownership.thy ===== *)
theory Ownership
  imports Reconciler
begin

text \<open>
  Which requests the parts of a reconciliation make. Every object that is created or updated carries
  the owner reference to the Kueue resource, so that Kubernetes' garbage collector removes it with
  the resource; the exceptions are the ConfigMap (deleted by the cleanup), the custom resource
  definitions (which must survive, since deleting them deletes the users' objects) and the service
  monitor (whose metadata is merged in untyped form). Nothing is deleted.
\<close>

section \<open>Requests of an operand reconciliation\<close>

definition owned_or_exempt :: "OwnerReference \<Rightarrow> robj \<Rightarrow> bool" where
  "owned_or_exempt r x \<longleftrightarrow> owned_by r x \<or> rkind x \<in> {KConfigMap, KCRD, KServiceMonitor}"

fun operand_request :: "OwnerReference \<Rightarrow> call \<Rightarrow> bool" where
  "operand_request r (Create x) = owned_or_exempt r x"
| "operand_request r (Update x) = owned_or_exempt r x"
| "operand_request r (Delete k ns n) = False"
| "operand_request r (PatchKueue n p) = False"
| "operand_request r _ = True"

lemma owned_operand: "owned_write r c \<Longrightarrow> operand_request r c"
  by (cases c) (auto simp: owned_or_exempt_def)

lemma sends_owned_operand: "sends (owned_write r) m \<Longrightarrow> sends (operand_request r) m"
  by (erule sends_weaken) (rule owned_operand)

lemma sends_apply_with_cache [sends_rules]:
  "sends P m \<Longrightarrow> sends P (apply_with_cache env cl ns required m)"
  unfolding apply_with_cache_def by (intro sends_rules)

lemma sends_read_asset [sends_rules]: "sends P (read_asset assets path)"
  unfolding read_asset_def by (intro sends_rules)

lemma sends_hash_go [sends_rules]: "sends P (hash_go env obj msg)"
  unfolding hash_go_def by (intro sends_rules)

lemma sends_asset_dir [sends_rules]: "sends P (asset_dir env dir msg)"
  unfolding asset_dir_def by (intro sends_rules)

lemma sends_record_hash [sends_rules]: "sends P (record_hash env key obj msg annos)"
  unfolding record_hash_def by (intro sends_rules)

lemma sends_records [sends_rules]:
  "sends P (record_role env x annos)" "sends P (record_role_binding env y annos)"
  "sends P (record_cluster_role_binding env z annos)" "sends P (record_service env u annos)"
  unfolding record_role_def record_role_binding_def record_cluster_role_binding_def record_service_def
  by (intro sends_rules)+

section \<open>Applying owned objects\<close>

text \<open>The owner references of the objects that are required.\<close>
lemma owned_meta_refs [simp]:
  "om_OwnerReferences (owned_meta m r) = [r]"
  "om_OwnerReferences (ensure_owned (owned_meta m r) r) = [r]"
  "om_OwnerReferences (m\<lparr>om_Namespace := ns\<rparr>) = om_OwnerReferences m"
  by (simp_all add: owned_meta_def ensure_owned_def EnsureOwnerRef_def same_owner_def)

text \<open>A Kueue resource's UID does not end in a minus sign, the mark of an owner reference that is to
  be removed.\<close>
abbreviation proper_owner :: "OwnerReference \<Rightarrow> bool" where
  "proper_owner r \<equiv> \<not> is_removal (or_UID r)"

lemma sends_apply_typed:
  assumes "proper_owner r"
  shows "om_OwnerReferences (ro_ObjectMeta role) = [r] \<Longrightarrow> sends (operand_request r) (ApplyRole env role)"
    and "om_OwnerReferences (rb_ObjectMeta rb) = [r] \<Longrightarrow> sends (operand_request r) (ApplyRoleBinding env rb)"
    and "om_OwnerReferences (cro_ObjectMeta cr) = [r] \<Longrightarrow> sends (operand_request r) (ApplyClusterRole env cr)"
    and "om_OwnerReferences (crb_ObjectMeta crb) = [r] \<Longrightarrow>
      sends (operand_request r) (ApplyClusterRoleBinding env crb)"
    and "om_OwnerReferences (sa_ObjectMeta sa) = [r] \<Longrightarrow>
      sends (operand_request r) (ApplyServiceAccountImproved env sa)"
    and "om_OwnerReferences (np_ObjectMeta np) = [r] \<Longrightarrow> sends (operand_request r) (ApplyNetworkPolicy env np)"
    and "om_OwnerReferences (fl_ObjectMeta fl) = [r] \<Longrightarrow> sends (operand_request r) (ApplyFlowSchema env fl)"
    and "om_OwnerReferences (as_ObjectMeta api) = [r] \<Longrightarrow> sends (operand_request r) (ApplyAPIService env api)"
    and "om_OwnerReferences (mwc_ObjectMeta mwc) = [r] \<Longrightarrow>
      sends (operand_request r) (ApplyMutatingWebhookConfigurationImproved env mwc)"
    and "om_OwnerReferences (vwc_ObjectMeta vwc) = [r] \<Longrightarrow>
      sends (operand_request r) (ApplyValidatingWebhookConfigurationImproved env vwc)"
  unfolding ApplyRole_def ApplyRoleBinding_def ApplyClusterRole_def ApplyClusterRoleBinding_def
    ApplyServiceAccountImproved_def ApplyNetworkPolicy_def ApplyFlowSchema_def ApplyAPIService_def
    ApplyMutatingWebhookConfigurationImproved_def ApplyValidatingWebhookConfigurationImproved_def
  by (rule sends_owned_operand, rule role.sends_owned role_binding.sends_owned cluster_role.sends_owned
      cluster_role_binding.sends_owned service_account.sends_owned network_policy.sends_owned
      flow_schema.sends_owned api_service.sends_owned mutating_webhook.sends_owned
      validating_webhook.sends_owned; simp add: client_defs assms)+

lemma SetSpecHash_refs:
  "SetSpecHashAnnotation env m h = Inr m' \<Longrightarrow> om_OwnerReferences m' = om_OwnerReferences m"
  by (auto simp: SetSpecHashAnnotation_def split: sum.splits)

lemma sends_ApplyService:
  assumes "proper_owner r" and "om_OwnerReferences (sv_ObjectMeta svc) = [r]"
  shows "sends (operand_request r) (ApplyServiceImproved env svc)"
  unfolding ApplyServiceImproved_def Let_def
  using assms
  by (intro sends_bind_lift sends_owned_operand service.sends_owned)
    (auto simp: Services_def dest: SetSpecHash_refs)

lemma sends_ApplyDeployment:
  assumes "proper_owner r" and "om_OwnerReferences (de_ObjectMeta d) = [r]"
  shows "sends (operand_request r) (ApplyDeployment env d g)"
proof -
  have "sends (operand_request r) (apply_object env (Deployments env) ns n required True
      (merge_Deployment required g))" if "om_OwnerReferences (de_ObjectMeta required) = [r]" for ns n required
    using that assms(1) deployment.merge_owned[of env required r g]
    by (intro sends_apply_object) (auto simp: Deployments_def owned_or_exempt_def owned_by_def)
  then show ?thesis
    unfolding ApplyDeployment_def ApplyDeploymentWithForce_def
    using assms(2)
    by (intro sends_bind_lift) (auto simp: go_bind_def go_throw_def go_return_def sends_step
        dest: SetSpecHash_refs split: list.splits)
qed

lemma sends_ApplyPriorityLevel:
  assumes "proper_owner r" and "om_OwnerReferences (plc_ObjectMeta p) = [r]"
  shows "sends (operand_request r) (ApplyPriorityLevelConfiguration env p)"
proof -
  have merged: "r \<in> set (om_OwnerReferences (snd (EnsureObjectMeta False m (plc_ObjectMeta p))))" for m
    using assms by (simp add: EnsureObjectMeta_owner merge_owner_in del: merge_owner.simps)
  show ?thesis
    unfolding ApplyPriorityLevelConfiguration_def
    by (intro sends_rules)
      (use assms merged in \<open>auto simp: PriorityLevelConfigurations_def owned_or_exempt_def owned_by_def
        clean_def WithCleanLabelsAndAnnotations_def cleanRemovalOwnerRefs_def case_prod_beta Let_def
        intro!: sends_rules\<close>)
qed

lemma sends_exempt_config_map: "sends (operand_request r) (ApplyConfigMapImproved env cm)"
  unfolding ApplyConfigMapImproved_def
  by (rule sends_apply_object_cached) (auto simp: ConfigMaps_def owned_or_exempt_def)

lemma sends_exempt_crd: "sends (operand_request r) (ApplyCustomResourceDefinitionV1 env crd)"
  unfolding ApplyCustomResourceDefinitionV1_def
  by (rule sends_apply_object) (auto simp: CustomResourceDefinitions_def owned_or_exempt_def)

lemma sends_exempt_monitor: "sends (operand_request r) (manageServiceMonitor env kueue)"
  unfolding manageServiceMonitor_def ApplyServiceMonitor_def ApplyUnstructuredResourceImproved_def Let_def
  by (intro sends_rules; auto simp: ServiceMonitors_def owned_or_exempt_def intro!: sends_rules)

section \<open>The managed resources\<close>

lemma sends_discover [sends_rules]: "P (Discover gv) \<Longrightarrow> sends P (discover env gv)"
  unfolding discover_def by (rule sends_api_call)

lemma sends_manage_config:
  "sends (operand_request r) (manageConfigMap env kueue tls)"
  unfolding manageConfigMap_def resolveGVRsToKinds_def buildAndApplyConfigMap_def Let_def
  by (intro sends_rules sends_exempt_config_map) simp_all

lemmas apply_rules = sends_rules sends_apply_typed sends_ApplyService sends_ApplyDeployment
  sends_ApplyPriorityLevel sends_exempt_config_map sends_exempt_crd

lemma sends_manage_namespaced:
  assumes "proper_owner r"
  shows "sends (operand_request r) (manageServiceAccount env r)"
    and "sends (operand_request r) (manageRole env path r)"
    and "sends (operand_request r) (manageRoleBindingsByNamespace env ns path r b)"
    and "sends (operand_request r) (manageService env path r)"
  unfolding manageServiceAccount_def manageRole_def manageRoleBindingsByNamespace_def manageService_def
    applyRoleWithCache_def applyRoleBindingWithCache_def
  by (intro apply_rules; simp add: assms)+

lemma sends_manage_bindings:
  assumes "proper_owner r"
  shows "sends (operand_request r) (manageRoleBindings env path r b)"
    and "sends (operand_request r) (manageSystemRoleBindings env path r b)"
    and "sends (operand_request r) (manageClusterRoleBindings env path r)"
    and "sends (operand_request r) (manageClusterRoleBindingsWithoutNamespaceOverride env path r)"
    and "sends (operand_request r) (manageOpenshiftClusterRolesBindingForKueue env r)"
    and "sends (operand_request r) (manageOpenshiftClusterRolesForKueue env r)"
  unfolding manageRoleBindings_def manageSystemRoleBindings_def manageClusterRoleBindings_def
    manageClusterRoleBindingsWithoutNamespaceOverride_def manageOpenshiftClusterRolesBindingForKueue_def
    manageOpenshiftClusterRolesForKueue_def applyClusterRoleBindingWithCache_def
    applyClusterRoleWithCache_def
  by (intro apply_rules sends_manage_namespaced;
      simp add: assms openshift_cluster_role_binding_def openshift_cluster_role_def)+

lemma sends_manage_flow_control:
  assumes "proper_owner r"
  shows "sends (operand_request r) (manageFlowSchema env annos r)"
    and "sends (operand_request r) (managePriorityLevelConfiguration env annos r)"
  unfolding manageFlowSchema_def managePriorityLevelConfiguration_def
    applyPriorityLevelConfigurationWithCache_def
  by (intro apply_rules; simp add: assms)+

lemma sends_manage_api_service:
  assumes "proper_owner r"
  shows "sends (operand_request r) (manageAPIService env annos r)"
  unfolding manageAPIService_def
  by (intro apply_rules sends_bind_lift; simp add: assms)
    (auto simp: required_api_service_def split: option.splits)

lemma sends_manage_network_policies:
  assumes "proper_owner r"
  shows "sends (operand_request r) (manageNetworkPolicies env annos r)"
  unfolding manageNetworkPolicies_def applyNetworkPolicyWithCache_def Let_def
  by (intro apply_rules; simp add: assms wanted_network_policy_def adjust_defs Let_def)

lemma sends_crd_names [sends_rules]: "sends P (kueueCRDNames env)"
  unfolding kueueCRDNames_def Let_def by (intro sends_rules)

lemma sends_manage_crds: "sends (operand_request r) (manageCustomResources env annos)"
  unfolding manageCustomResources_def applyCustomResourceDefinitionWithCache_def Let_def
  by (intro apply_rules)

text \<open>A result that is known to satisfy \<open>Q\<close>.\<close>
lemma sends_bind_result:
  assumes m: "sends P m" and "\<And>w x w'. m w = (Inr x, w') \<Longrightarrow> Q x" and "\<And>x. Q x \<Longrightarrow> sends P (f x)"
  shows "sends P (go_bind m f)"
proof (rule sends_step)
  fix w
  obtain r w1 where run: "m w = (r, w1)" by (meson surj_pair)
  obtain cs where cs: "w_Trace w1 = w_Trace w @ cs" "list_all P cs" using sendsD[OF m run] by blast
  show "\<exists>cs. w_Trace (snd (go_bind m f w)) = w_Trace w @ cs \<and> list_all P cs"
  proof (cases r)
    case (Inl e)
    then show ?thesis using run cs by (auto simp: go_bind_def)
  next
    case (Inr x)
    then have "sends P (f x)" using assms(2,3) run by blast
    then obtain ds where "w_Trace (snd (f x w1)) = w_Trace w1 @ ds" "list_all P ds"
      using sendsD[of P "f x" w1] by (metis surjective_pairing)
    then show ?thesis using run cs Inr by (auto simp: go_bind_def)
  qed
qed

lemma scope_keeps_owner:
  "scopeManagerRoleResourceNames env role w = (Inr role', w') \<Longrightarrow>
   cro_ObjectMeta role' = cro_ObjectMeta role"
  by (auto simp: scopeManagerRoleResourceNames_def go_bind_def go_try_def go_return_def go_throw_def
      split: prod.splits sum.splits if_splits)

lemma sends_scope [sends_rules]: "sends P (scopeManagerRoleResourceNames env role)"
  unfolding scopeManagerRoleResourceNames_def by (intro sends_rules)

text \<open>The role that is applied: the narrowed one, for the manager role.\<close>
definition maybe_scoped :: "Env \<Rightarrow> ClusterRole \<Rightarrow> (World, ClusterRole) go" where
  "maybe_scoped env required =
     (if om_Name (cro_ObjectMeta required) = kueueManagerRoleName
      then go_bind (go_try (scopeManagerRoleResourceNames env required)) (\<lambda>r. case r of
          Inl err \<Rightarrow> go_throw (Wrap ''failed to scope manager role resource names'' err)
        | Inr scoped \<Rightarrow> go_return scoped)
      else go_return required)"

lemma maybe_scoped_owner:
  "maybe_scoped env required w = (Inr x, w') \<Longrightarrow> cro_ObjectMeta x = cro_ObjectMeta required"
  by (auto simp: maybe_scoped_def go_bind_def go_try_def go_return_def go_throw_def
      dest!: scope_keeps_owner split: prod.splits sum.splits if_splits)

lemma sends_manage_cluster_roles:
  assumes "proper_owner r"
  shows "sends (operand_request r) (manageClusterRoles env annos r)"
proof -
  have apply_one: "sends (operand_request r) (go_bind (maybe_scoped env required) (\<lambda>required.
      go_bind (applyClusterRoleWithCache env required) f))"
    if "om_OwnerReferences (cro_ObjectMeta required) = [r]" and "\<And>x. sends (operand_request r) (f x)"
    for required and f :: "ClusterRole \<times> bool \<Rightarrow> (World, annotations) go"
  proof (rule sends_bind_result[where Q = "\<lambda>x. om_OwnerReferences (cro_ObjectMeta x) = [r]"])
    show "sends (operand_request r) (maybe_scoped env required)"
      unfolding maybe_scoped_def by (intro sends_rules)
  qed (use that assms in \<open>auto simp: applyClusterRoleWithCache_def dest: maybe_scoped_owner
        intro!: sends_bind sends_apply_with_cache sends_apply_typed\<close>)
  have one: "sends (operand_request r) (manageClusterRole_file env r a path)" for a path
    unfolding manageClusterRole_file_def Let_def maybe_scoped_def[symmetric]
    by (intro sends_bind[OF sends_read_asset] sends_if sends_return apply_one) (auto intro!: sends_rules)
  show ?thesis unfolding manageClusterRoles_def Let_def by (intro sends_rules one)
qed

lemma webhook_meta_kept:
  "ModifyPodBasedMutatingWebhook cfg m = Inr m' \<Longrightarrow> mwc_ObjectMeta m' = mwc_ObjectMeta m"
  "ModifyPodBasedValidatingWebhook cfg v = Inr v' \<Longrightarrow> vwc_ObjectMeta v' = vwc_ObjectMeta v"
  by (auto simp: ModifyPodBasedMutatingWebhook_def ModifyPodBasedValidatingWebhook_def split: sum.splits)

lemma sends_manage_webhooks:
  assumes "proper_owner r"
  shows "sends (operand_request r) (manageMutatingWebhook env kueue r)"
    and "sends (operand_request r) (manageValidatingWebhook env kueue r)"
  unfolding manageMutatingWebhook_def manageValidatingWebhook_def
  by (rule sends_bind[OF sends_read_asset], rule sends_bind_lift, rule sends_bind_lift,
      rule sends_apply_typed; auto simp: assms dest!: webhook_meta_kept)+

lemma sends_manage_deployment:
  assumes "proper_owner r"
  shows "sends (operand_request r) (manageDeployment env kueue annos r)"
proof -
  have "om_OwnerReferences (de_ObjectMeta d) = [r]"
    if "required_deployment env l annos r a = Inr d" for l a d
    using that by (auto simp: required_deployment_def Let_def split: list.splits sum.splits)
  then show ?thesis
    unfolding manageDeployment_def applyDeploymentWithCache_def Let_def
    by (intro sends_bind[OF sends_read_asset] sends_bind_lift sends_bind[OF sends_apply_with_cache]
        sends_ApplyDeployment assms) (auto intro!: sends_rules)
qed

lemma sends_status: "sends (operand_request r) (updateKueueStatus env kueue conds n)"
  unfolding updateKueueStatus_def api_ApplyStatus_def by (intro sends_rules sends_api_call) simp

section \<open>The operand\<close>

lemmas operand_parts = sends_manage_config sends_manage_namespaced sends_manage_bindings
  sends_manage_flow_control sends_manage_api_service sends_manage_network_policies sends_manage_crds
  sends_manage_cluster_roles sends_manage_webhooks sends_manage_deployment sends_exempt_monitor
  sends_status

lemma sends_operand:
  assumes "proper_owner r"
  shows "sends (operand_request r) (sync_operand env kueue tls r dep annos)"
  unfolding sync_operand_def sync_config_def sync_roles_def sync_prometheus_def sync_cluster_wide_def
    sync_bindings_def sync_webhooks_def sync_deployment_def sync_role_def sync_role_binding_def
    sync_service_def sync_cluster_role_binding_def
  by (intro sends_rules operand_parts assms)

text \<open>C1. While it reconciles the operand, the operator deletes nothing and patches nothing, and
  every object it creates or updates carries the owner reference to the Kueue resource, with the
  exception of the ConfigMap, the custom resource definitions and the service monitor; this holds
  for every schedule of failures and interference, also when the reconciliation is cut short.\<close>
theorem operand_writes_owned:
  assumes "\<not> is_removal (or_UID r)"
    and "sync_operand env kueue tls r dep annos w = (res, w')"
  shows "\<exists>calls. w_Trace w' = w_Trace w @ calls \<and> list_all (operand_request r) calls"
  using sendsD[OF sends_operand[OF assms(1)] assms(2)] .

theorem operand_writes_owned_witness:
  "\<exists>calls. w_Trace (snd (sync_operand (calm_env empty_cluster) (kueue_with_frameworks [])  None some_owner
      None [] (initial_world empty_cluster))) = calls \<and> list_all (operand_request some_owner) calls"
  using operand_writes_owned[OF _ prod.collapse[symmetric], of some_owner "calm_env empty_cluster"
      "kueue_with_frameworks []" None None "[]" "initial_world empty_cluster"]
  by (simp add: some_owner_def is_removal_def HasSuffix_def)

end
