(* ===== verification/Deletion.thy ===== *)
theory Deletion
  imports Reconciler
begin

text \<open>
  What a reconciliation does to a Kueue resource that is being deleted: the cleanup comes before the
  removal of the finalizer, and a cleanup that was interrupted can never be completed.
\<close>

section \<open>Deletion\<close>

text \<open>What a reconciliation of a resource that is being deleted may ask for.\<close>
fun deletion_request :: "string \<Rightarrow> call \<Rightarrow> bool" where
  "deletion_request opns (GetKueue n) = True"
| "deletion_request opns (PatchKueue n p) = True"
| "deletion_request opns c = cleanup_request opns c"

fun is_patch :: "call \<Rightarrow> bool" where
  "is_patch (PatchKueue n p) = True"
| "is_patch _ = False"

lemma sends_updateFinalizer:
  "(\<And>n. P (GetKueue n)) \<Longrightarrow> (\<And>n p. P (PatchKueue n p)) \<Longrightarrow> sends P (updateFinalizer env kueue add)"
  unfolding updateFinalizer_def update_finalizer_once_def api_GetKueue_def api_PatchKueue_def Let_def
  by (intro sends_rules sends_api_call)

lemma cleanup_no_patch: "cleanup_request opns c \<Longrightarrow> deletion_request opns c \<and> \<not> is_patch c"
  by (cases c) auto

lemma deletion_fails:
  assumes "run_cleanup env w = (Inl e, w1)"
  shows "sync_deletion env kueue w = (Inl e, w1)"
  using assms by (simp add: sync_deletion_def go_seq_def go_bind_def)



section \<open>A deletion that cannot finish\<close>

text \<open>A client whose store is not that of the ConfigMaps.\<close>
definition other_store :: "'o client \<Rightarrow> bool" where
  "other_store cl \<longleftrightarrow> (\<forall>f c. c_ConfigMaps (cl_Put cl f c) = c_ConfigMaps c)"

lemma absent_kept_delete:
  assumes "undisturbed env" and "other_store cl"
  shows "go_keeps (config_map_absent env) (api_Delete env cl ns name)"
  using assms
  by (intro go_tripleI) (auto simp: api_Delete_def api_call_def Let_def undisturbed_def other_store_def
      config_map_absent_def split: option.splits)

lemma absent_kept_list:
  assumes "undisturbed env"
  shows "go_keeps (config_map_absent env) (api_List env cl ns)"
  using assms
  by (intro go_tripleI) (auto simp: api_List_def api_call_def Let_def undisturbed_def
      config_map_absent_def split: option.splits)

lemmas absent_rules = go_keep absent_kept_delete absent_kept_list

lemma other_stores:
  "other_store (MutatingWebhookConfigurations env)" "other_store (ValidatingWebhookConfigurations env)"
  "other_store (Certificates env)" "other_store (Issuers env)" "other_store (ClusterRoles env)"
  "other_store (ClusterRoleBindings env)"
  by (simp_all add: other_store_def client_defs)

lemma absent_kept_steps:
  assumes "undisturbed env"
  shows "go_keeps (config_map_absent env) (cleanUpWebhooks env)"
    and "go_keeps (config_map_absent env) (cleanUpCertificatesAndIssuers env)"
    and "go_keeps (config_map_absent env) (cleanUpClusterRoles env)"
    and "go_keeps (config_map_absent env) (cleanUpClusterRoleBindings env)"
  unfolding cleanUpWebhooks_def cleanup_webhook_type_def cleanUpCertificatesAndIssuers_def
    cleanup_cert_manager_type_def cleanUpClusterRoles_def cleanUpClusterRoleBindings_def
    cleanup_cluster_scoped_def delete_throttled_def delete_retried_def
  by (intro absent_rules assms other_stores)+

lemma keeps_then:
  "go_keeps A m \<Longrightarrow> go_triple A n Q (\<lambda>_ _. True) \<Longrightarrow> go_triple A (go_seq m n) Q (\<lambda>_ _. True)"
  by (rule go_seq_wp) (auto elim: go_triple_weaken)

lemma fails_then: "go_triple A m (\<lambda>_ _. False) R \<Longrightarrow> go_triple A (go_seq m n) (\<lambda>_ _. False) R"
  by (rule go_seq_wp[where P' = "\<lambda>_. False"]) (auto simp: go_triple_def)

lemma cleanup_fails:
  assumes "undisturbed env"
  shows "go_triple (config_map_absent env) (run_cleanup env) (\<lambda>_ _. False) (\<lambda>_ _. True)"
  unfolding run_cleanup_def cleanup_steps_def go_foreach.simps
  by (intro keeps_then[OF absent_kept_steps(1)[OF assms]] keeps_then[OF absent_kept_steps(2)[OF assms]]
      keeps_then[OF absent_kept_steps(3)[OF assms]] keeps_then[OF absent_kept_steps(4)[OF assms]]
      fails_then[OF cleanUpResources_fails[OF assms]])



end
