(* ===== verification/Work_Queue.thy ===== *)
theory Work_Queue
  imports Go_Prelude
begin

text \<open>
  The work queue that feeds the reconciliation loop: the basic queue of client-go
  (\<^verbatim>\<open>util/workqueue/queue.go\<close>), the delaying queue around it (\<^verbatim>\<open>delaying_queue.go\<close>) and the rate
  limiter (\<^verbatim>\<open>default_rate_limiters.go\<close>). The mutex of the Go code makes each operation atomic, so that
  each is one function of the state here. The locale \<open>work_source\<close> is what a worker relies on.
\<close>

section \<open>The basic queue\<close>

record 'a Typed =
  q_queue :: "'a list"
  q_dirty :: "'a set"
  q_processing :: "'a set"
  q_shuttingDown :: bool
  q_drain :: bool

definition newQueue :: "'a Typed" where
  "newQueue = \<lparr>q_queue = [], q_dirty = {}, q_processing = {}, q_shuttingDown = False, q_drain = False\<rparr>"

definition wq_Add :: "'a \<Rightarrow> 'a Typed \<Rightarrow> 'a Typed" where
  "wq_Add item q =
     (if q_shuttingDown q then q
      else if item \<in> q_dirty q then q
      else let q' = q\<lparr>q_dirty := insert item (q_dirty q)\<rparr> in
        if item \<in> q_processing q' then q' else q'\<lparr>q_queue := q_queue q' @ [item]\<rparr>)"

definition wq_Len :: "'a Typed \<Rightarrow> nat" where
  "wq_Len q = length (q_queue q)"

text \<open>\<^verbatim>\<open>Get\<close> waits while the queue is empty and not shut down: \<open>Blocks\<close> means that it is still waiting.\<close>
datatype 'a got = Blocks | Got 'a | Quit

definition wq_Get :: "'a Typed \<Rightarrow> 'a got \<times> 'a Typed" where
  "wq_Get q = (case q_queue q of
     [] \<Rightarrow> (if q_shuttingDown q then Quit else Blocks, q)
   | item # rest \<Rightarrow> (Got item, q\<lparr>q_queue := rest,
       q_processing := insert item (q_processing q), q_dirty := q_dirty q - {item}\<rparr>))"

definition wq_Done :: "'a \<Rightarrow> 'a Typed \<Rightarrow> 'a Typed" where
  "wq_Done item q =
     (let q' = q\<lparr>q_processing := q_processing q - {item}\<rparr> in
      if item \<in> q_dirty q' then q'\<lparr>q_queue := q_queue q' @ [item]\<rparr> else q')"

definition wq_ShutDown :: "'a Typed \<Rightarrow> 'a Typed" where
  "wq_ShutDown q = q\<lparr>q_drain := False, q_shuttingDown := True\<rparr>"

lemmas wq_defs = newQueue_def wq_Add_def wq_Len_def wq_Get_def wq_Done_def wq_ShutDown_def Let_def

text \<open>The comments of the Go type: the queue holds exactly the dirty items that are not being
  processed, each of them once.\<close>
definition wq_inv :: "'a Typed \<Rightarrow> bool" where
  "wq_inv q \<longleftrightarrow> distinct (q_queue q) \<and> set (q_queue q) = q_dirty q - q_processing q"

section \<open>What a worker relies on\<close>

locale work_source =
  fixes add :: "'a \<Rightarrow> 'q \<Rightarrow> 'q" and get :: "'q \<Rightarrow> 'a got \<times> 'q" and finish :: "'a \<Rightarrow> 'q \<Rightarrow> 'q"
    and wf :: "'q \<Rightarrow> bool" and pending :: "'q \<Rightarrow> 'a set" and running :: "'q \<Rightarrow> 'a set"
    and closed :: "'q \<Rightarrow> bool"
  assumes add_wf: "wf q \<Longrightarrow> wf (add x q)"
    and add_pending: "pending (add x q) = (if closed q then pending q else insert x (pending q))"
    and add_running [simp]: "running (add x q) = running q"
    and add_closed [simp]: "closed (add x q) = closed q"
    and get_some: "wf q \<Longrightarrow> get q = (Got x, q') \<Longrightarrow> wf q' \<and> x \<in> pending q \<and> x \<notin> running q \<and>
      pending q' = pending q - {x} \<and> running q' = insert x (running q) \<and> closed q' = closed q"
    and get_none: "wf q \<Longrightarrow> get q = (r, q') \<Longrightarrow> r = Blocks \<or> r = Quit \<Longrightarrow>
      q' = q \<and> pending q \<subseteq> running q \<and> (r = Quit \<longleftrightarrow> closed q)"
    and finish_wf: "wf q \<Longrightarrow> x \<in> running q \<Longrightarrow> wf (finish x q)"
    and finish_sets [simp]: "pending (finish x q) = pending q" "running (finish x q) = running q - {x}"
      "closed (finish x q) = closed q"
begin

text \<open>A single worker that is idle never waits while there is work, and takes an item that was added.\<close>
lemma idle_worker_gets:
  assumes "wf q" and "running q = {}" and "x \<in> pending q"
  obtains y q' where "get q = (Got y, q')" "y \<in> pending q"
proof -
  obtain r q' where run: "get q = (r, q')" by (meson surj_pair)
  have "\<not> (r = Blocks \<or> r = Quit)" using get_none[OF assms(1) run] assms(2,3) by auto
  then obtain y where "r = Got y" by (cases r) auto
  with run get_some[OF assms(1)] that show thesis by blast
qed

text \<open>An item that is added while it is being processed is pending after it has been finished.\<close>
lemma added_while_running:
  assumes "wf q" and "\<not> closed q"
  shows "x \<in> pending (finish x (add x q))"
  using assms by (simp add: add_pending)

end

lemma wq_Get_laws:
  assumes "wq_inv q" and "wq_Get q = (r, q')"
  shows "case r of
     Got x \<Rightarrow> wq_inv q' \<and> x \<in> q_dirty q \<and> x \<notin> q_processing q \<and> q_dirty q' = q_dirty q - {x} \<and>
       q_processing q' = insert x (q_processing q) \<and> q_shuttingDown q' = q_shuttingDown q
   | _ \<Rightarrow> q' = q \<and> q_dirty q \<subseteq> q_processing q \<and> (r = Quit \<longleftrightarrow> q_shuttingDown q)"
proof (cases "q_queue q")
  case Nil
  then show ?thesis using assms by (auto simp: wq_Get_def wq_inv_def)
next
  case (Cons x xs)
  then have "x \<notin> set xs" "insert x (set xs) = q_dirty q - q_processing q" "distinct xs"
    using assms(1) by (auto simp: wq_inv_def)
  then show ?thesis using assms(2) Cons by (auto simp: wq_Get_def wq_inv_def)
qed

interpretation wq: work_source wq_Add wq_Get wq_Done wq_inv q_dirty q_processing q_shuttingDown
proof (unfold_locales, goal_cases)
  case (1 q x) then show ?case by (auto simp: wq_inv_def wq_Add_def Let_def)
next
  case (2 x q) show ?case by (auto simp: wq_Add_def Let_def)
next
  case (3 x q) show ?case by (simp add: wq_Add_def Let_def)
next
  case (4 x q) show ?case by (simp add: wq_Add_def Let_def)
next
  case (5 q x q') then show ?case using wq_Get_laws[OF 5] by simp
next
  case (6 q r q') then show ?case using wq_Get_laws[OF 6(1,2)] by auto
next
  case (7 q x) then show ?case by (auto simp: wq_inv_def wq_Done_def Let_def)
next
  case (8 x q) show ?case by (simp add: wq_Done_def Let_def)
next
  case (9 x q) show ?case by (simp add: wq_Done_def Let_def)
next
  case (10 x q) show ?case by (simp add: wq_Done_def Let_def)
qed

section \<open>The rate limiter\<close>

text \<open>Durations are in nanoseconds. The floating point product of a delay below \<open>2\<^sup>5\<^sup>3\<close> and a power of
  two is exact, an infinite one included in the comparison with \<^verbatim>\<open>math.MaxInt64\<close>, which as a float is
  \<open>2\<^sup>6\<^sup>3\<close>; so it is written as a product of integers.\<close>
abbreviation baseDelay :: int where "baseDelay \<equiv> 5000000"
abbreviation maxDelay :: int where "maxDelay \<equiv> 1000000000000"

definition exponential_delay :: "nat \<Rightarrow> int" where
  "exponential_delay failures =
     (let backoff = baseDelay * 2 ^ failures in
      if backoff > 2 ^ 63 then maxDelay else if backoff > maxDelay then maxDelay else backoff)"

section \<open>The delaying queue\<close>

text \<open>\<open>d_channel\<close> is the buffered channel between \<^verbatim>\<open>AddAfter\<close> and the waiting loop; \<open>d_waiting\<close> is the heap
  of the loop in the order in which it will pop.\<close>
record 'a Delaying =
  d_base :: "'a Typed"
  d_channel :: "('a \<times> int) list"
  d_waiting :: "('a \<times> int) list"
  d_failures :: "'a \<Rightarrow> nat"

definition newDelayingQueue :: "'a Delaying" where
  "newDelayingQueue = \<lparr>d_base = newQueue, d_channel = [], d_waiting = [], d_failures = \<lambda>_. 0\<rparr>"

definition dq_Add :: "'a \<Rightarrow> 'a Delaying \<Rightarrow> 'a Delaying" where
  "dq_Add item d = d\<lparr>d_base := wq_Add item (d_base d)\<rparr>"

definition AddAfter :: "int \<Rightarrow> 'a \<Rightarrow> int \<Rightarrow> 'a Delaying \<Rightarrow> 'a Delaying" where
  "AddAfter now item duration d =
     (if q_shuttingDown (d_base d) then d
      else if duration \<le> 0 then dq_Add item d
      else d\<lparr>d_channel := d_channel d @ [(item, now + duration)]\<rparr>)"

text \<open>The heap keeps one entry per item, the earlier one.\<close>
definition waiting_insert :: "('a \<times> int) list \<Rightarrow> 'a \<times> int \<Rightarrow> ('a \<times> int) list" where
  "waiting_insert ws entry =
     (case map_of ws (fst entry) of
        None \<Rightarrow> insort_key snd entry ws
      | Some readyAt \<Rightarrow> if readyAt > snd entry
          then insort_key snd entry (filter (\<lambda>e. fst e \<noteq> fst entry) ws) else ws)"

text \<open>The loop takes an entry from the channel.\<close>
definition waiting_receive :: "int \<Rightarrow> 'a Delaying \<Rightarrow> 'a Delaying" where
  "waiting_receive now d = (case d_channel d of [] \<Rightarrow> d
     | entry # rest \<Rightarrow> (let d' = d\<lparr>d_channel := rest\<rparr> in
         if snd entry > now then d'\<lparr>d_waiting := waiting_insert (d_waiting d') entry\<rparr>
         else dq_Add (fst entry) d'))"

text \<open>The loop adds the entries that are ready.\<close>
function waiting_ready :: "int \<Rightarrow> 'a Delaying \<Rightarrow> 'a Delaying" where
  "waiting_ready now d = (case d_waiting d of [] \<Rightarrow> d
     | entry # rest \<Rightarrow> if snd entry > now then d
         else waiting_ready now (dq_Add (fst entry) (d\<lparr>d_waiting := rest\<rparr>)))"
  by pat_completeness auto
termination by (relation "measure (\<lambda>(_, d). length (d_waiting d))") (auto simp: dq_Add_def)

declare waiting_ready.simps [simp del]

text \<open>\<^verbatim>\<open>DefaultControllerRateLimiter\<close> takes the longer of the exponential delay of the item and the delay
  \<open>bucket\<close> of the overall token bucket.\<close>
definition AddRateLimited :: "int \<Rightarrow> int \<Rightarrow> 'a \<Rightarrow> 'a Delaying \<Rightarrow> 'a Delaying" where
  "AddRateLimited now bucket item d =
     (let delay = max (max 0 (exponential_delay (d_failures d item))) bucket in
      AddAfter now item delay (d\<lparr>d_failures := (d_failures d)(item := Suc (d_failures d item))\<rparr>))"

definition Forget :: "'a \<Rightarrow> 'a Delaying \<Rightarrow> 'a Delaying" where
  "Forget item d = d\<lparr>d_failures := (d_failures d)(item := 0)\<rparr>"

lemmas dq_defs = newDelayingQueue_def dq_Add_def AddAfter_def AddRateLimited_def Forget_def

section \<open>Laws of the delaying queue\<close>

text \<open>The items that will be handed out, now or later.\<close>
definition dq_due :: "'a Delaying \<Rightarrow> 'a set" where
  "dq_due d = q_dirty (d_base d) \<union> fst ` set (d_channel d) \<union> fst ` set (d_waiting d)"

definition dq_inv :: "'a Delaying \<Rightarrow> bool" where
  "dq_inv d \<longleftrightarrow> wq_inv (d_base d) \<and> sorted (map snd (d_waiting d)) \<and> distinct (map fst (d_waiting d))"

lemma dq_Add_sel [simp]:
  "d_base (dq_Add x d) = wq_Add x (d_base d)" "d_channel (dq_Add x d) = d_channel d"
  "d_waiting (dq_Add x d) = d_waiting d" "d_failures (dq_Add x d) = d_failures d"
  by (simp_all add: dq_Add_def)

lemma dq_Add_inv: "dq_inv d \<Longrightarrow> dq_inv (dq_Add x d)"
  by (simp add: dq_inv_def wq.add_wf)

lemma dq_Add_due:
  "dq_due (dq_Add x d) = (if q_shuttingDown (d_base d) then dq_due d else insert x (dq_due d))"
  by (auto simp: dq_due_def wq.add_pending)

lemma fst_insort_key [simp]: "fst ` set (insort_key snd e ws) = insert (fst e) (fst ` set ws)"
  by (induction ws) auto

lemma distinct_insort_fst:
  "fst e \<notin> fst ` set ws \<Longrightarrow> distinct (map fst ws) \<Longrightarrow> distinct (map fst (insort_key snd e ws))"
proof (induction ws)
  case (Cons w ws)
  then have "fst w \<notin> fst ` set (insort_key snd e ws)" by auto
  with Cons show ?case by auto
qed simp

lemma waiting_insert_laws:
  assumes "sorted (map snd ws)" and "distinct (map fst ws)"
  shows "sorted (map snd (waiting_insert ws e))" and "distinct (map fst (waiting_insert ws e))"
    and "fst ` set (waiting_insert ws e) = insert (fst e) (fst ` set ws)"
proof -
  let ?others = "filter (\<lambda>x. fst x \<noteq> fst e) ws"
  have others: "sorted (map snd ?others)" "distinct (map fst ?others)" "fst e \<notin> fst ` set ?others"
    using assms by (auto simp: sorted_filter distinct_map_filter)
  have found: "fst e \<in> fst ` set ws" if "map_of ws (fst e) = Some t" for t
    using map_of_SomeD[OF that] by (metis fst_conv imageI)
  show "sorted (map snd (waiting_insert ws e))"
    using assms others by (auto simp: waiting_insert_def sorted_insort_key split: option.splits)
  show "distinct (map fst (waiting_insert ws e))"
    using assms others
    by (auto simp: waiting_insert_def map_of_eq_None_iff intro!: distinct_insort_fst split: option.splits)
  show "fst ` set (waiting_insert ws e) = insert (fst e) (fst ` set ws)"
    using found by (auto simp: waiting_insert_def split: option.splits)
qed

text \<open>The waiting loop only moves items along; while the queue is open it loses none and adds none.\<close>
lemma waiting_receive_laws:
  assumes "dq_inv d"
  shows "dq_inv (waiting_receive now d)"
    and "q_processing (d_base (waiting_receive now d)) = q_processing (d_base d)"
    and "\<not> q_shuttingDown (d_base d) \<Longrightarrow> dq_due (waiting_receive now d) = dq_due d"
    and "q_shuttingDown (d_base (waiting_receive now d)) = q_shuttingDown (d_base d)"
    and "q_dirty (d_base d) \<subseteq> q_dirty (d_base (waiting_receive now d))"
  using assms waiting_insert_laws[of "d_waiting d"]
  by (auto simp: waiting_receive_def dq_inv_def dq_due_def Let_def wq.add_wf wq.add_pending
      split: list.splits if_splits)

lemma waiting_ready_laws:
  assumes "dq_inv d"
  shows "dq_inv (waiting_ready now d) \<and>
    q_processing (d_base (waiting_ready now d)) = q_processing (d_base d) \<and>
    (\<not> q_shuttingDown (d_base d) \<longrightarrow> dq_due (waiting_ready now d) = dq_due d) \<and>
    q_shuttingDown (d_base (waiting_ready now d)) = q_shuttingDown (d_base d) \<and>
    q_dirty (d_base d) \<subseteq> q_dirty (d_base (waiting_ready now d)) \<and>
    d_channel (waiting_ready now d) = d_channel d"
  using assms
proof (induction now d rule: waiting_ready.induct)
  case (1 now d)
  show ?case
  proof (cases "d_waiting d")
    case Nil
    then show ?thesis using 1(2) by (simp add: waiting_ready.simps[of now d])
  next
    case (Cons entry rest)
    let ?d = "dq_Add (fst entry) (d\<lparr>d_waiting := rest\<rparr>)"
    show ?thesis
    proof (cases "snd entry > now")
      case True
      then show ?thesis using 1(2) Cons by (simp add: waiting_ready.simps[of now d])
    next
      case False
      have run: "waiting_ready now d = waiting_ready now ?d"
        using Cons False by (simp add: waiting_ready.simps[of now d])
      have "dq_inv ?d" using 1(2) Cons by (simp add: dq_inv_def wq.add_wf)
      moreover have "\<not> q_shuttingDown (d_base d) \<longrightarrow> dq_due ?d = dq_due d"
        using Cons by (auto simp: dq_due_def wq.add_pending)
      moreover have "q_dirty (d_base d) \<subseteq> q_dirty (d_base ?d)" by (auto simp: wq.add_pending)
      ultimately show ?thesis using 1(1)[OF Cons False] run by auto
    qed
  qed
qed

text \<open>Once every entry is ready, the loop has added them all.\<close>
lemma waiting_ready_empties:
  "list_all (\<lambda>e. snd e \<le> now) (d_waiting d) \<Longrightarrow> d_waiting (waiting_ready now d) = []"
proof (induction now d rule: waiting_ready.induct)
  case (1 now d)
  then show ?case
    by (cases "d_waiting d") (auto simp: waiting_ready.simps[of now d] split: if_splits)
qed

lemma AddRateLimited_laws:
  assumes "dq_inv d" and "\<not> q_shuttingDown (d_base d)"
  shows "dq_inv (AddRateLimited now b x d)"
    and "q_processing (d_base (AddRateLimited now b x d)) = q_processing (d_base d)"
    and "dq_due (AddRateLimited now b x d) = insert x (dq_due d)"
    and "\<not> q_shuttingDown (d_base (AddRateLimited now b x d))"
    and "q_dirty (d_base d) \<subseteq> q_dirty (d_base (AddRateLimited now b x d))"
  using assms
  by (auto simp: AddRateLimited_def AddAfter_def Let_def dq_inv_def dq_due_def wq.add_wf wq.add_pending)

text \<open>The delay before a failed item is tried again: it doubles from five milliseconds on with
  every failure in a row and never exceeds a thousand seconds, which it reaches with the nineteenth.\<close>
theorem exponential_delay_closed_form:
  "exponential_delay n = (if n < 18 then 5000000 * 2 ^ n else 1000000000000)"
proof (cases "n < 18")
  case True
  then have "(2::int) ^ n \<le> 2 ^ 17" by (intro power_increasing) auto
  with True show ?thesis by (simp add: exponential_delay_def Let_def)
next
  case False
  then have "(2::int) ^ 18 \<le> 2 ^ n" by (intro power_increasing) auto
  with False show ?thesis by (simp add: exponential_delay_def Let_def)
qed

section \<open>Runs of the queue\<close>

text \<open>What the users of a queue do: anyone adds, workers take and finish, and only what is being
  processed is finished.\<close>
inductive wq_reachable :: "'a Typed \<Rightarrow> bool" where
  wq_new: "wq_reachable newQueue"
| wq_add: "wq_reachable q \<Longrightarrow> wq_reachable (wq_Add x q)"
| wq_get: "wq_reachable q \<Longrightarrow> wq_Get q = (r, q') \<Longrightarrow> wq_reachable q'"
| wq_done: "wq_reachable q \<Longrightarrow> x \<in> q_processing q \<Longrightarrow> wq_reachable (wq_Done x q)"
| wq_shutdown: "wq_reachable q \<Longrightarrow> wq_reachable (wq_ShutDown q)"

lemma wq_reachable_inv: "wq_reachable q \<Longrightarrow> wq_inv q"
proof (induction rule: wq_reachable.induct)
  case (wq_get q r q')
  then show ?case using wq_Get_laws[OF wq_get(3,2)] by (cases r) auto
qed (auto simp: wq.add_wf wq.finish_wf, auto simp: wq_inv_def newQueue_def wq_ShutDown_def)

text \<open>In every reachable state of the work queue, with any number of workers, the queue holds
  exactly the items that need processing and are not being processed, each once. So no item is ever
  handed to two workers at a time, a worker that waits has nothing to do, and items are handed out in
  the order in which they were queued.\<close>
theorem work_queue_invariant:
  assumes "wq_reachable q"
  shows "distinct (q_queue q) \<and> set (q_queue q) = q_dirty q - q_processing q \<and>
    (case wq_Get q of
       (Got x, q') \<Rightarrow> x \<notin> q_processing q \<and> x \<in> q_processing q' \<and> q_queue q = x # q_queue q'
     | (_, q') \<Rightarrow> q' = q \<and> q_dirty q \<subseteq> q_processing q)"
proof -
  have inv: "wq_inv q" using wq_reachable_inv[OF assms] .
  obtain r q' where get: "wq_Get q = (r, q')" by (meson surj_pair)
  have "r = Got x \<Longrightarrow> q_queue q = x # q_queue q'" for x
    using get by (auto simp: wq_Get_def split: list.splits if_splits)
  then show ?thesis using inv get wq_Get_laws[OF inv get] by (cases r) (auto simp: wq_inv_def)
qed

theorem work_queue_invariant_witness:
  "wq_reachable (wq_Add (1::nat) (snd (wq_Get (wq_Add 1 newQueue)))) \<and>
   q_queue (wq_Add (1::nat) (snd (wq_Get (wq_Add 1 newQueue)))) = [] \<and>
   q_dirty (wq_Add (1::nat) (snd (wq_Get (wq_Add 1 newQueue)))) \<noteq> {}"
proof -
  let ?q = "wq_Add (1::nat) (snd (wq_Get (wq_Add 1 newQueue)))"
  have r: "wq_reachable ?q"
    by (intro wq_reachable.intros(2)) (rule wq_get[OF wq_add[OF wq_new] prod.collapse[symmetric]])
  moreover have "q_processing ?q = {1}" "q_dirty ?q = {1}" by (simp_all add: wq_defs)
  ultimately show ?thesis using work_queue_invariant[OF r] by simp
qed

section \<open>What the queue is for, without lists\<close>

text \<open>The contract of the queue names no list and no order: a set of items that need work, a set of
  items that are being worked on, and whether the queue is closed. Handing out an item is a choice.\<close>
record 'a WorkSpec =
  sp_pending :: "'a set"
  sp_running :: "'a set"
  sp_closed :: bool

datatype 'a wq_op = OpAdd 'a | OpGet "'a got" | OpDone 'a | OpShutDown

inductive spec_step :: "'a WorkSpec \<Rightarrow> 'a wq_op \<Rightarrow> 'a WorkSpec \<Rightarrow> bool" where
  spec_add: "\<not> sp_closed a \<Longrightarrow> spec_step a (OpAdd x) (a\<lparr>sp_pending := insert x (sp_pending a)\<rparr>)"
| spec_refuse: "sp_closed a \<Longrightarrow> spec_step a (OpAdd x) a"
| spec_take: "x \<in> sp_pending a \<Longrightarrow> x \<notin> sp_running a \<Longrightarrow>
    spec_step a (OpGet (Got x)) (a\<lparr>sp_pending := sp_pending a - {x}, sp_running := insert x (sp_running a)\<rparr>)"
| spec_wait: "sp_pending a \<subseteq> sp_running a \<Longrightarrow> \<not> sp_closed a \<Longrightarrow> spec_step a (OpGet Blocks) a"
| spec_quit: "sp_pending a \<subseteq> sp_running a \<Longrightarrow> sp_closed a \<Longrightarrow> spec_step a (OpGet Quit) a"
| spec_done: "x \<in> sp_running a \<Longrightarrow> spec_step a (OpDone x) (a\<lparr>sp_running := sp_running a - {x}\<rparr>)"
| spec_close: "spec_step a OpShutDown (a\<lparr>sp_closed := True\<rparr>)"

text \<open>The operations of the code, labelled; only what is being processed is finished.\<close>
inductive wq_step :: "'a Typed \<Rightarrow> 'a wq_op \<Rightarrow> 'a Typed \<Rightarrow> bool" where
  step_add: "wq_step q (OpAdd x) (wq_Add x q)"
| step_get: "wq_Get q = (r, q') \<Longrightarrow> wq_step q (OpGet r) q'"
| step_done: "x \<in> q_processing q \<Longrightarrow> wq_step q (OpDone x) (wq_Done x q)"
| step_shutdown: "wq_step q OpShutDown (wq_ShutDown q)"

inductive run :: "('s \<Rightarrow> 'l \<Rightarrow> 's \<Rightarrow> bool) \<Rightarrow> 's \<Rightarrow> 'l list \<Rightarrow> 's \<Rightarrow> bool" for R where
  run_nil: "run R s [] s"
| run_snoc: "run R s ls s' \<Longrightarrow> R s' l s'' \<Longrightarrow> run R s (ls @ [l]) s''"

definition wq_abs :: "'a Typed \<Rightarrow> 'a WorkSpec" where
  "wq_abs q = \<lparr>sp_pending = q_dirty q, sp_running = q_processing q, sp_closed = q_shuttingDown q\<rparr>"

lemma wq_abs_sel [simp]:
  "sp_pending (wq_abs q) = q_dirty q" "sp_running (wq_abs q) = q_processing q"
  "sp_closed (wq_abs q) = q_shuttingDown q"
  by (simp_all add: wq_abs_def)

lemma WorkSpec_eqI:
  "sp_pending a = sp_pending b \<Longrightarrow> sp_running a = sp_running b \<Longrightarrow> sp_closed a = sp_closed b \<Longrightarrow>
   (a :: 'a WorkSpec) = b"
  by (cases a, cases b) auto

lemma wq_step_simulates:
  assumes "wq_inv q" and "wq_step q l q'"
  shows "wq_inv q' \<and> spec_step (wq_abs q) l (wq_abs q')"
  using assms(2)
proof (cases rule: wq_step.cases)
  case (step_add x)
  have "wq_abs q' = (if q_shuttingDown q then wq_abs q
      else (wq_abs q)\<lparr>sp_pending := insert x (sp_pending (wq_abs q))\<rparr>)"
    unfolding step_add by (rule WorkSpec_eqI) (auto simp: wq.add_pending)
  then show ?thesis using assms(1) step_add spec_add[of "wq_abs q" x] spec_refuse[of "wq_abs q" x]
    by (auto simp: wq.add_wf)
next
  case (step_get r)
  show ?thesis
  proof (cases r)
    case (Got x)
    note got = wq.get_some[OF assms(1) step_get(2)[unfolded Got]]
    have abs: "wq_abs q' = (wq_abs q)\<lparr>sp_pending := sp_pending (wq_abs q) - {x},
        sp_running := insert x (sp_running (wq_abs q))\<rparr>"
      using got by (intro WorkSpec_eqI) auto
    show ?thesis unfolding abs step_get(1) Got using got by (intro conjI spec_take) auto
  qed (use wq.get_none[OF assms(1) step_get(2)] assms(1) step_get(1) spec_wait[of "wq_abs q"] spec_quit[of "wq_abs q"]
      in auto)
next
  case (step_done x)
  have abs: "wq_abs (wq_Done x q) = (wq_abs q)\<lparr>sp_running := sp_running (wq_abs q) - {x}\<rparr>"
    by (rule WorkSpec_eqI) auto
  show ?thesis unfolding step_done(1,2) abs
    using step_done(3) assms(1) by (intro conjI spec_done) (auto simp: wq.finish_wf)
next
  case step_shutdown
  have abs: "wq_abs (wq_ShutDown q) = (wq_abs q)\<lparr>sp_closed := True\<rparr>"
    by (rule WorkSpec_eqI) (auto simp: wq_ShutDown_def)
  show ?thesis unfolding step_shutdown abs
    using assms(1) by (intro conjI spec_close) (auto simp: wq_inv_def wq_ShutDown_def)
qed

lemma wq_run_simulates:
  "run wq_step q ops q' \<Longrightarrow> wq_inv q \<Longrightarrow> wq_inv q' \<and> run spec_step (wq_abs q) ops (wq_abs q')"
proof (induction rule: run.induct)
  case (run_snoc q ls q' l q'')
  then show ?case using wq_step_simulates by (blast intro: run.intros)
qed (simp add: run.intros)

text \<open>C14. The work queue implements its contract: whatever the users of the queue do, in whatever
  order, the answers they get are answers the contract allows, and the state of the queue stands for
  the state the contract is in. So an item that was added is handed out or still to be handed out,
  never to two workers at once; one that is added while it is being processed will be handed out
  again; a worker waits only if everything left is being processed; and it is told to quit only
  when, besides, the queue was closed.\<close>
theorem work_queue_refines_contract:
  assumes "run wq_step newQueue ops q"
  shows "run spec_step \<lparr>sp_pending = {}, sp_running = {}, sp_closed = False\<rparr> ops (wq_abs q)"
proof -
  have "wq_inv (newQueue :: 'a Typed)" by (simp add: wq_inv_def newQueue_def)
  with wq_run_simulates[OF assms] show ?thesis by (simp add: wq_abs_def newQueue_def)
qed

text \<open>An item is added, taken, added again while it is processed, and finished.\<close>
theorem work_queue_refines_contract_witness:
  "run spec_step \<lparr>sp_pending = {}, sp_running = {}, sp_closed = False\<rparr>
     [OpAdd (1::nat), OpGet (Got 1), OpAdd 1, OpGet Blocks, OpDone 1]
     \<lparr>sp_pending = {1}, sp_running = {}, sp_closed = False\<rparr>"
proof -
  let ?q1 = "wq_Add (1::nat) newQueue"
  let ?q2 = "snd (wq_Get ?q1)"
  let ?q3 = "wq_Add 1 ?q2"
  let ?q4 = "wq_Done 1 ?q3"
  have get: "wq_Get ?q1 = (Got 1, ?q2)" "wq_Get ?q3 = (Blocks, ?q3)" "1 \<in> q_processing ?q3"
    by (simp_all add: wq_defs)
  note run_nil[of wq_step newQueue, THEN run_snoc, OF step_add, THEN run_snoc, OF step_get, OF get(1),
      THEN run_snoc, OF step_add, THEN run_snoc, OF step_get, OF get(2), THEN run_snoc, OF step_done, OF get(3)]
  from work_queue_refines_contract[OF this]
  have "run spec_step \<lparr>sp_pending = {}, sp_running = {}, sp_closed = False\<rparr>
     [OpAdd (1::nat), OpGet (Got 1), OpAdd 1, OpGet Blocks, OpDone 1] (wq_abs ?q4)" by simp
  moreover have "wq_abs ?q4 = \<lparr>sp_pending = {1}, sp_running = {}, sp_closed = False\<rparr>"
    by (simp add: wq_defs wq_abs_def)
  ultimately show ?thesis by simp
qed

end
