(* ===== verification/Controller.thy ===== *)
theory Controller
  imports Reconciler Work_Queue
begin

text \<open>
  The reconciliation loop: \<^verbatim>\<open>sync\<close> under the controller that \<^verbatim>\<open>NewTargetConfigReconciler\<close> builds with
  library-go's factory (\<^verbatim>\<open>pkg/controller/factory/base_controller.go\<close>). All events of all informers and
  the periodic resync put one and the same key into the work queue, and one worker takes it, runs
  \<^verbatim>\<open>sync\<close> and puts it back after a delay if \<^verbatim>\<open>sync\<close> failed. A panic ends the process. The parts run in
  goroutines of their own, so their steps interleave in any order.
\<close>

section \<open>The state\<close>

text \<open>\<open>ct_Current\<close> is the key the worker has taken. The last three fields only record the history: how
  many events there were, how many of them came before the last start of a reconciliation, and the
  results of the reconciliations.\<close>
record Controller =
  ct_Queue :: "string Delaying"
  ct_World :: World
  ct_Current :: "string option"
  ct_Crashed :: bool
  ct_Events :: nat
  ct_Seen :: nat
  ct_Results :: "(err + unit) list"

abbreviation DefaultQueueKey :: string where "DefaultQueueKey \<equiv> ''key''"

definition new_controller :: "World \<Rightarrow> Controller" where
  "new_controller w = \<lparr>ct_Queue = newDelayingQueue, ct_World = w, ct_Current = None, ct_Crashed = False,
     ct_Events = 0, ct_Seen = 0, ct_Results = []\<rparr>"

section \<open>The operations\<close>

text \<open>The event handler of the informers, and the resync.\<close>
definition enqueueKeys :: "Controller \<Rightarrow> Controller" where
  "enqueueKeys s = s\<lparr>ct_Queue := dq_Add DefaultQueueKey (ct_Queue s), ct_Events := Suc (ct_Events s)\<rparr>"

text \<open>\<^verbatim>\<open>reconcile\<close>: without a client for a degraded condition the error is that of \<^verbatim>\<open>sync\<close>.\<close>
definition reconcile :: "Env \<Rightarrow> (World, unit) go" where
  "reconcile env = sync env"

text \<open>The first half of \<^verbatim>\<open>processNextWorkItem\<close>: the worker takes a key, or waits.\<close>
definition take_work_item :: "Controller \<Rightarrow> Controller" where
  "take_work_item s = (case wq_Get (d_base (ct_Queue s)) of
     (Got key, q) \<Rightarrow> s\<lparr>ct_Queue := (ct_Queue s)\<lparr>d_base := q\<rparr>, ct_Current := Some key,
       ct_Seen := ct_Events s\<rparr>
   | _ \<Rightarrow> s)"

definition finish_work_item :: "string \<Rightarrow> string Delaying \<Rightarrow> string Delaying" where
  "finish_work_item key q = q\<lparr>d_base := wq_Done key (d_base q)\<rparr>"

text \<open>The second half: reconcile, then requeue or forget, then the deferred \<^verbatim>\<open>Done\<close>. \<open>bucket\<close> is the delay
  of the token bucket.\<close>
definition process_work_item :: "Env \<Rightarrow> int \<Rightarrow> string \<Rightarrow> Controller \<Rightarrow> Controller" where
  "process_work_item env bucket key s =
     (case reconcile env (ct_World s) of (r, w) \<Rightarrow>
        let s' = s\<lparr>ct_World := w, ct_Results := ct_Results s @ [r]\<rparr> in
        (case r of
           Inl err \<Rightarrow> if is_panic err then s'\<lparr>ct_Crashed := True\<rparr>
             else s'\<lparr>ct_Current := None, ct_Queue :=
                    finish_work_item key (AddRateLimited (w_Now w) bucket key (ct_Queue s))\<rparr>
         | Inr _ \<Rightarrow> s'\<lparr>ct_Current := None, ct_Queue :=
                    finish_work_item key (Forget key (ct_Queue s))\<rparr>))"

text \<open>What the worker does next.\<close>
definition processNextWorkItem :: "Env \<Rightarrow> int \<Rightarrow> Controller \<Rightarrow> Controller" where
  "processNextWorkItem env bucket s =
     (if ct_Crashed s then s
      else case ct_Current s of
        None \<Rightarrow> take_work_item s
      | Some key \<Rightarrow> process_work_item env bucket key s)"

section \<open>The steps\<close>

text \<open>\<open>E\<close> are the environments a reconciliation may meet.\<close>
inductive controller_step :: "Env set \<Rightarrow> Controller \<Rightarrow> Controller \<Rightarrow> bool" for E where
  informer_event: "\<not> ct_Crashed s \<Longrightarrow> controller_step E s (enqueueKeys s)"
| time_passes: "0 \<le> t \<Longrightarrow> controller_step E s
    (s\<lparr>ct_World := (ct_World s)\<lparr>w_Cluster := c, w_Now := w_Now (ct_World s) + t\<rparr>\<rparr>)"
| loop_receives: "\<not> ct_Crashed s \<Longrightarrow> controller_step E s
    (s\<lparr>ct_Queue := waiting_receive (w_Now (ct_World s)) (ct_Queue s)\<rparr>)"
| loop_adds: "\<not> ct_Crashed s \<Longrightarrow> controller_step E s
    (s\<lparr>ct_Queue := waiting_ready (w_Now (ct_World s)) (ct_Queue s)\<rparr>)"
| worker: "env \<in> E \<Longrightarrow> controller_step E s (processNextWorkItem env bucket s)"

inductive controller_reachable :: "Env set \<Rightarrow> World \<Rightarrow> Controller \<Rightarrow> bool" for E w where
  started: "controller_reachable E w (new_controller w)"
| continued: "controller_reachable E w s \<Longrightarrow> controller_step E s s' \<Longrightarrow> controller_reachable E w s'"

inductive_cases controller_stepE: "controller_step E s s'"

text \<open>To keep a property of the world it suffices that \<^verbatim>\<open>sync\<close> does, and that it does not depend on
  the cluster and the clock.\<close>
lemma reachable_world:
  assumes "controller_reachable E w s" and "P w"
    and sync: "\<And>env w r w'. env \<in> E \<Longrightarrow> P w \<Longrightarrow> sync env w = (r, w') \<Longrightarrow> P w'"
    and others: "\<And>w c t. P w \<Longrightarrow> P (w\<lparr>w_Cluster := c, w_Now := t\<rparr>)"
  shows "P (ct_World s)"
  using assms(1)
proof (induction rule: controller_reachable.induct)
  case started
  then show ?case using assms(2) by (simp add: new_controller_def)
next
  case (continued s s')
  from continued(2) show ?case
  proof (cases rule: controller_step.cases)
    case (worker env bucket)
    then show ?thesis
      using continued(3) sync[OF worker(2) continued(3)]
      by (auto simp: processNextWorkItem_def take_work_item_def process_work_item_def reconcile_def
          Let_def split: option.splits prod.splits sum.splits got.splits)
  qed (use continued(3) others in \<open>auto simp: enqueueKeys_def\<close>)
qed

section \<open>No event is lost\<close>

text \<open>The only key there is; the worker holds exactly what the queue counts as being processed; and
  an event that no reconciliation has started after is still in the queue.\<close>
definition controller_inv :: "Controller \<Rightarrow> bool" where
  "controller_inv s \<longleftrightarrow> dq_inv (ct_Queue s) \<and> dq_due (ct_Queue s) \<subseteq> {DefaultQueueKey} \<and>
     \<not> q_shuttingDown (d_base (ct_Queue s)) \<and>
     q_processing (d_base (ct_Queue s)) = set_option (ct_Current s) \<and>
     set_option (ct_Current s) \<subseteq> {DefaultQueueKey} \<and> ct_Seen s \<le> ct_Events s \<and>
     (ct_Seen s < ct_Events s \<longrightarrow> DefaultQueueKey \<in> q_dirty (d_base (ct_Queue s)))"

lemma controller_invD:
  assumes "controller_inv s"
  shows "dq_inv (ct_Queue s)" "wq_inv (d_base (ct_Queue s))"
    "q_dirty (d_base (ct_Queue s)) \<subseteq> {DefaultQueueKey}" "\<not> q_shuttingDown (d_base (ct_Queue s))"
    "q_processing (d_base (ct_Queue s)) = set_option (ct_Current s)"
  using assms by (auto simp: controller_inv_def dq_inv_def dq_due_def)

lemma take_got:
  assumes inv: "controller_inv s" and idle: "ct_Current s = None"
    and pending: "DefaultQueueKey \<in> q_dirty (d_base (ct_Queue s))"
  obtains q where "take_work_item s = s\<lparr>ct_Queue := (ct_Queue s)\<lparr>d_base := q\<rparr>,
      ct_Current := Some DefaultQueueKey, ct_Seen := ct_Events s\<rparr>"
    "wq_inv q" "q_dirty q = {}" "q_processing q = {DefaultQueueKey}" "\<not> q_shuttingDown q"
proof -
  note inv' = controller_invD[OF inv]
  have "q_processing (d_base (ct_Queue s)) = {}" using inv'(5) idle by simp
  then obtain y q where get: "wq_Get (d_base (ct_Queue s)) = (Got y, q)" "y \<in> q_dirty (d_base (ct_Queue s))"
    using wq.idle_worker_gets[OF inv'(2) _ pending] by blast
  then have y: "y = DefaultQueueKey" using inv'(3) by blast
  then have "take_work_item s = s\<lparr>ct_Queue := (ct_Queue s)\<lparr>d_base := q\<rparr>,
      ct_Current := Some DefaultQueueKey, ct_Seen := ct_Events s\<rparr>"
    using get(1) by (simp add: take_work_item_def)
  moreover have "wq_inv q" "q_dirty q = {}" "q_processing q = {DefaultQueueKey}" "\<not> q_shuttingDown q"
    using wq.get_some[OF inv'(2) get(1)] inv'(3-5) idle y by auto
  ultimately show thesis by (rule that)
qed

lemma take_nothing:
  assumes inv: "controller_inv s" and "DefaultQueueKey \<notin> q_dirty (d_base (ct_Queue s))"
  shows "take_work_item s = s"
proof -
  note inv' = controller_invD[OF inv]
  obtain r q where get: "wq_Get (d_base (ct_Queue s)) = (r, q)" by (meson surj_pair)
  have "r \<noteq> Got y" for y using wq.get_some[OF inv'(2), of y q] get inv'(3) assms(2) by blast
  then show ?thesis using get by (cases r) (auto simp: take_work_item_def)
qed

lemma take_inv:
  assumes "controller_inv s" and "ct_Current s = None"
  shows "controller_inv (take_work_item s)"
proof (cases "DefaultQueueKey \<in> q_dirty (d_base (ct_Queue s))")
  case True
  obtain q where q: "take_work_item s = s\<lparr>ct_Queue := (ct_Queue s)\<lparr>d_base := q\<rparr>,
      ct_Current := Some DefaultQueueKey, ct_Seen := ct_Events s\<rparr>"
    "wq_inv q" "q_dirty q = {}" "q_processing q = {DefaultQueueKey}" "\<not> q_shuttingDown q"
    by (rule take_got[OF assms True])
  show ?thesis
    unfolding q(1) using assms(1) q(2-5)
    by (auto simp: controller_inv_def dq_inv_def dq_due_def)
next
  case False
  then show ?thesis using take_nothing assms(1) by simp
qed

lemma finish_laws:
  assumes "dq_inv q" and "key \<in> q_processing (d_base q)"
  shows "dq_inv (finish_work_item key q)" "dq_due (finish_work_item key q) = dq_due q"
    "q_processing (d_base (finish_work_item key q)) = q_processing (d_base q) - {key}"
    "q_shuttingDown (d_base (finish_work_item key q)) = q_shuttingDown (d_base q)"
    "q_dirty (d_base (finish_work_item key q)) = q_dirty (d_base q)"
  using assms by (simp_all add: finish_work_item_def dq_inv_def dq_due_def wq.finish_wf)

lemma Forget_laws:
  "dq_inv (Forget key q) = dq_inv q" "dq_due (Forget key q) = dq_due q" "d_base (Forget key q) = d_base q"
  by (simp_all add: Forget_def dq_inv_def dq_due_def)

lemma process_inv:
  assumes inv: "controller_inv s" and cur: "ct_Current s = Some key"
  shows "controller_inv (process_work_item env bucket key s)"
proof -
  note inv' = controller_invD[OF inv]
  have key: "key = DefaultQueueKey" "key \<in> q_processing (d_base (ct_Queue s))"
    using inv cur by (auto simp: controller_inv_def)
  let ?limited = "\<lambda>now. AddRateLimited now bucket key (ct_Queue s)"
  have limited: "dq_inv (?limited now)" "key \<in> q_processing (d_base (?limited now))"
    "q_processing (d_base (?limited now)) = q_processing (d_base (ct_Queue s))"
    "dq_due (?limited now) = insert key (dq_due (ct_Queue s))"
    "\<not> q_shuttingDown (d_base (?limited now))"
    "q_dirty (d_base (ct_Queue s)) \<subseteq> q_dirty (d_base (?limited now))" for now
    using AddRateLimited_laws[OF inv'(1,4)] key by auto
  have forgotten: "dq_inv (Forget key (ct_Queue s))"
      "key \<in> q_processing (d_base (Forget key (ct_Queue s)))"
    using inv'(1) key by (simp_all add: Forget_laws)
  obtain r w where run: "reconcile env (ct_World s) = (r, w)" by (meson surj_pair)
  show ?thesis
    using inv cur key(1) limited[of "w_Now w"] finish_laws[OF limited(1,2)] finish_laws[OF forgotten]
    by (cases r) (auto simp: process_work_item_def run controller_inv_def Let_def Forget_laws)
qed

lemma loop_inv:
  assumes "controller_inv s"
  shows "controller_inv (s\<lparr>ct_Queue := waiting_receive now (ct_Queue s)\<rparr>)"
    and "controller_inv (s\<lparr>ct_Queue := waiting_ready now (ct_Queue s)\<rparr>)"
  using assms waiting_receive_laws[of "ct_Queue s" now] waiting_ready_laws[of "ct_Queue s" now]
  by (auto simp: controller_inv_def)

lemma enqueue_inv: "controller_inv s \<Longrightarrow> controller_inv (enqueueKeys s)"
  by (auto simp: controller_inv_def enqueueKeys_def dq_Add_inv dq_Add_due wq.add_pending)

lemma reachable_inv: "controller_reachable E w s \<Longrightarrow> controller_inv s"
proof (induction rule: controller_reachable.induct)
  case started
  show ?case
    by (simp add: controller_inv_def new_controller_def newDelayingQueue_def dq_inv_def dq_due_def
        wq_inv_def newQueue_def)
next
  case (continued s s')
  from continued(2) show ?case
  proof (cases rule: controller_step.cases)
    case (worker env bucket)
    then show ?thesis
      using continued(3) take_inv process_inv
      by (simp add: processNextWorkItem_def split: option.splits)
  qed (use continued(3) loop_inv enqueue_inv in \<open>auto simp: controller_inv_def\<close>)
qed

text \<open>C9. No event is lost and no two reconciliations overlap: whatever the order of events, resyncs,
  retries and reconciliations, in every reachable state all queued work is for the one key there is,
  the worker holds it exactly when the queue has handed it out, and if anything has happened since
  the last reconciliation started, the key is marked for another one.\<close>
theorem no_event_lost:
  assumes "controller_reachable E w s"
  shows "dq_due (ct_Queue s) \<subseteq> {''key''} \<and>
    q_processing (d_base (ct_Queue s)) = set_option (ct_Current s) \<and>
    (ct_Seen s < ct_Events s \<longrightarrow> ''key'' \<in> q_dirty (d_base (ct_Queue s)))"
  using reachable_inv[OF assms] by (simp add: controller_inv_def)

section \<open>Every event is answered\<close>

lemma pending_taken:
  assumes "controller_inv s" and "ct_Current s = None" and "\<not> ct_Crashed s"
    and "DefaultQueueKey \<in> q_dirty (d_base (ct_Queue s))"
  shows "ct_Seen (processNextWorkItem env bucket s) = ct_Events s \<and>
    ct_Current (processNextWorkItem env bucket s) = Some DefaultQueueKey"
proof -
  have "processNextWorkItem env bucket s = take_work_item s"
    using assms(2,3) by (simp add: processNextWorkItem_def)
  then show ?thesis by (rule ssubst) (rule take_got[OF assms(1,2,4)], simp)
qed

text \<open>C8. Every event is answered by a reconciliation: from any reachable state of a running operator
  in which something happened since the last reconciliation started, at most two steps of the worker
  alone lead to the start of one that follows all events so far, or the reconciliation in progress
  panics.\<close>
theorem event_leads_to_reconciliation:
  assumes "controller_reachable E w s" and "\<not> ct_Crashed s" and "ct_Seen s < ct_Events s"
  shows "\<exists>n \<in> {1, 2}. let s' = (processNextWorkItem env bucket ^^ n) s in
    ct_Crashed s' \<or> ct_Seen s' = ct_Events s \<and> ct_Current s' = Some ''key''"
proof (cases "ct_Current s")
  case None
  note inv = reachable_inv[OF assms(1)]
  have "DefaultQueueKey \<in> q_dirty (d_base (ct_Queue s))"
    using inv assms(3) by (simp add: controller_inv_def)
  from pending_taken[OF inv None assms(2) this] show ?thesis by (intro bexI[of _ 1]) auto
next
  case (Some key)
  note inv = reachable_inv[OF assms(1)]
  let ?s = "process_work_item env bucket key s"
  have next_step: "processNextWorkItem env bucket s = ?s"
    using Some assms(2) by (simp add: processNextWorkItem_def)
  have inv': "controller_inv ?s" by (rule process_inv[OF inv Some])
  have same: "ct_Events ?s = ct_Events s" "ct_Seen ?s = ct_Seen s"
    by (auto simp: process_work_item_def Let_def split: prod.splits sum.splits)
  have idle: "ct_Crashed ?s \<or> ct_Current ?s = None"
    by (auto simp: process_work_item_def Let_def split: prod.splits sum.splits)
  have "DefaultQueueKey \<in> q_dirty (d_base (ct_Queue ?s))"
    using inv' same assms(3) by (simp add: controller_inv_def)
  then have "ct_Crashed ?s \<or> ct_Seen (processNextWorkItem env bucket ?s) = ct_Events s \<and>
      ct_Current (processNextWorkItem env bucket ?s) = Some DefaultQueueKey"
    using pending_taken[OF inv', of env bucket] idle same by auto
  moreover have "ct_Crashed ?s \<Longrightarrow> processNextWorkItem env bucket ?s = ?s"
    by (simp add: processNextWorkItem_def)
  ultimately show ?thesis
    by (intro bexI[of _ 2]) (auto simp: next_step numeral_2_eq_2)
qed

theorem no_event_lost_witness:
  "let s = enqueueKeys (new_controller (initial_world empty_cluster)) in
   ct_Seen s < ct_Events s \<and> ''key'' \<in> q_dirty (d_base (ct_Queue s))"
proof -
  let ?s = "enqueueKeys (new_controller (initial_world empty_cluster))"
  have "controller_reachable {} (initial_world empty_cluster) ?s"
    by (intro continued[OF started] informer_event) (simp add: new_controller_def)
  from no_event_lost[OF this] show ?thesis by (simp add: enqueueKeys_def new_controller_def)
qed

theorem event_leads_to_reconciliation_witness:
  "let s = enqueueKeys (new_controller (initial_world empty_cluster)) in
   \<exists>n \<in> {1, 2}. ct_Crashed ((processNextWorkItem (calm_env empty_cluster) 0 ^^ n) s) \<or>
     ct_Current ((processNextWorkItem (calm_env empty_cluster) 0 ^^ n) s) = Some ''key''"
proof -
  let ?s = "enqueueKeys (new_controller (initial_world empty_cluster))"
  have "controller_reachable {} (initial_world empty_cluster) ?s"
    by (intro continued[OF started] informer_event) (simp add: new_controller_def)
  from event_leads_to_reconciliation[OF this, of "calm_env empty_cluster" 0]
  show ?thesis by (auto simp: enqueueKeys_def new_controller_def Let_def)
qed

section \<open>Failures are retried\<close>

text \<open>The waiting loop, after it has emptied the channel at time \<open>now\<close> and added what is ready.\<close>
definition loop_settle :: "int \<Rightarrow> 'a Delaying \<Rightarrow> 'a Delaying" where
  "loop_settle now d = waiting_ready now ((waiting_receive now ^^ length (d_channel d)) d)"

lemma receive_all:
  assumes "dq_inv d" and "\<not> q_shuttingDown (d_base d)" and "list_all (\<lambda>e. snd e \<le> now) (d_channel d)"
  shows "let d' = (waiting_receive now ^^ length (d_channel d)) d in
    dq_inv d' \<and> \<not> q_shuttingDown (d_base d') \<and> d_channel d' = [] \<and> d_waiting d' = d_waiting d \<and>
    dq_due d' = dq_due d"
  using assms
proof (induction "d_channel d" arbitrary: d)
  case (Cons e es)
  let ?d = "waiting_receive now d"
  have run: "?d = dq_Add (fst e) (d\<lparr>d_channel := es\<rparr>)"
    using Cons(2,5) by (simp add: waiting_receive_def Let_def flip: Cons(2))
  then have es: "es = d_channel ?d" "d_waiting ?d = d_waiting d" by simp_all
  have "list_all (\<lambda>e. snd e \<le> now) (d_channel ?d)" using Cons(5) es by (simp flip: Cons(2))
  from Cons(1)[OF es(1) _ _ this] waiting_receive_laws[OF Cons(3), of now] Cons(4) es(2)
  show ?case by (simp add: Let_def funpow_Suc_right flip: Cons(2) es(1) del: funpow.simps(2))
qed simp

lemma settle_adds_due:
  assumes "dq_inv d" and "\<not> q_shuttingDown (d_base d)"
    and "list_all (\<lambda>e. snd e \<le> now) (d_channel d @ d_waiting d)"
  shows "q_dirty (d_base (loop_settle now d)) = dq_due d"
proof -
  let ?d = "(waiting_receive now ^^ length (d_channel d)) d"
  have d': "dq_inv ?d" "\<not> q_shuttingDown (d_base ?d)" "d_channel ?d = []" "d_waiting ?d = d_waiting d"
      "dq_due ?d = dq_due d"
    using receive_all[OF assms(1,2), of now] assms(3) by (simp_all add: Let_def)
  have "dq_due (waiting_ready now ?d) = dq_due d" "d_channel (waiting_ready now ?d) = []"
    using waiting_ready_laws[OF d'(1), of now] d' by auto
  moreover have "d_waiting (waiting_ready now ?d) = []"
    using waiting_ready_empties[of now ?d] assms(3) d'(4) by simp
  ultimately show ?thesis by (simp add: loop_settle_def dq_due_def)
qed

definition last_failed :: "Controller \<Rightarrow> bool" where
  "last_failed s \<longleftrightarrow> ct_Results s \<noteq> [] \<and> isl (last (ct_Results s))"

lemma process_requeues:
  assumes inv: "controller_inv s" and cur: "ct_Current s = Some key"
    and "last_failed (process_work_item env bucket key s)"
    and "\<not> ct_Crashed (process_work_item env bucket key s)"
  shows "DefaultQueueKey \<in> dq_due (ct_Queue (process_work_item env bucket key s))"
proof -
  note inv' = controller_invD[OF inv]
  have key: "key = DefaultQueueKey" "key \<in> q_processing (d_base (ct_Queue s))"
    using inv cur by (auto simp: controller_inv_def)
  obtain r w where run: "reconcile env (ct_World s) = (r, w)" by (meson surj_pair)
  obtain e where "r = Inl e" "\<not> is_panic e"
    using assms(3,4) by (cases r) (auto simp: process_work_item_def run last_failed_def Let_def split: if_splits)
  then have "ct_Queue (process_work_item env bucket key s) =
      finish_work_item key (AddRateLimited (w_Now w) bucket key (ct_Queue s))"
    by (simp add: process_work_item_def run Let_def)
  with AddRateLimited_laws[OF inv'(1,4)] finish_laws key show ?thesis by simp
qed

lemma failed_due:
  assumes "controller_reachable E w s"
  shows "\<not> ct_Crashed s \<Longrightarrow> last_failed s \<Longrightarrow> ct_Current s = None \<Longrightarrow> DefaultQueueKey \<in> dq_due (ct_Queue s)"
  using assms
proof (induction rule: controller_reachable.induct)
  case started
  then show ?case by (simp add: last_failed_def new_controller_def)
next
  case (continued s s')
  note inv = reachable_inv[OF continued(1)] and inv' = controller_invD[OF reachable_inv[OF continued(1)]]
  from continued(2) show ?case
  proof (cases rule: controller_step.cases)
    case (informer_event)
    then show ?thesis using inv' by (simp add: enqueueKeys_def dq_Add_due)
  next
    case (time_passes t c)
    then show ?thesis using continued(3-6) by (auto simp: last_failed_def)
  next
    case loop_receives
    then show ?thesis
      using continued(3-6) waiting_receive_laws(3)[OF inv'(1,4)] by (auto simp: last_failed_def)
  next
    case loop_adds
    then show ?thesis
      using continued(3-6) waiting_ready_laws[OF inv'(1)] inv'(4) by (auto simp: last_failed_def)
  next
    case (worker env bucket)
    show ?thesis
    proof (cases "ct_Current s")
      case None
      have "DefaultQueueKey \<notin> q_dirty (d_base (ct_Queue s))"
      proof
        assume pending: "DefaultQueueKey \<in> q_dirty (d_base (ct_Queue s))"
        have "\<not> ct_Crashed s" using continued(4) worker(1) by (auto simp: processNextWorkItem_def split: if_splits)
        from pending_taken[OF inv None this pending] show False using continued(6) worker(1) by simp
      qed
      then have "s' = s" using worker(1) None take_nothing[OF inv] by (simp add: processNextWorkItem_def)
      then show ?thesis using continued(3-6) by simp
    next
      case (Some key)
      then have "s' = process_work_item env bucket key s"
        using worker(1) continued(4) by (auto simp: processNextWorkItem_def split: if_splits)
      then show ?thesis using process_requeues[OF inv Some] continued(4,5) by simp
    qed
  qed
qed

lemma settle_inv:
  assumes "controller_inv s"
  shows "controller_inv (s\<lparr>ct_Queue := loop_settle now (ct_Queue s)\<rparr>)"
proof -
  have "controller_inv (s\<lparr>ct_Queue := (waiting_receive now ^^ n) (ct_Queue s)\<rparr>)" for n
  proof (induction n)
    case (Suc n)
    from loop_inv(1)[OF this, of now] show ?case by simp
  qed (simp add: assms)
  from loop_inv(2)[OF this, of now] show ?thesis by (simp add: loop_settle_def)
qed

text \<open>C26. A failed reconciliation is tried again without any further event: once the worker of a
  running operator is idle after a failure, the waiting loop makes the key available from some time
  on, and the next step of the worker then starts a reconciliation.\<close>
theorem failed_reconciliation_retried:
  assumes "controller_reachable E w s" and "\<not> ct_Crashed s" and "last_failed s" and "ct_Current s = None"
  shows "\<exists>t. \<forall>now \<ge> t. ct_Current (processNextWorkItem env bucket
    (s\<lparr>ct_Queue := loop_settle now (ct_Queue s)\<rparr>)) = Some ''key''"
proof (intro exI allI impI)
  let ?entries = "d_channel (ct_Queue s) @ d_waiting (ct_Queue s)"
  fix now assume "Max (set (0 # map snd ?entries)) \<le> now"
  then have "\<forall>t \<in> set (map snd ?entries). t \<le> now" by simp
  then have ready: "list_all (\<lambda>e. snd e \<le> now) ?entries" unfolding list_all_iff by auto
  note inv = reachable_inv[OF assms(1)] and inv' = controller_invD[OF reachable_inv[OF assms(1)]]
  let ?s = "s\<lparr>ct_Queue := loop_settle now (ct_Queue s)\<rparr>"
  have "DefaultQueueKey \<in> q_dirty (d_base (ct_Queue ?s))"
    using settle_adds_due[OF inv'(1,4) ready] failed_due[OF assms] by simp
  then show "ct_Current (processNextWorkItem env bucket ?s) = Some DefaultQueueKey"
    using pending_taken[OF settle_inv[OF inv, of now]] assms(2,4) by simp
qed

text \<open>A controller whose first reconciliation failed: the informer knows the resource, and the server
  rejects the first request.\<close>
definition failing_env :: Env where
  "failing_env = (calm_env empty_cluster)\<lparr>e_KueueInformer := \<lambda>n. CacheKueue (kueue_with_frameworks []),
     e_ListerFault := \<lambda>n. Some (OtherReason, ''unavailable'')\<rparr>"

lemma failing_sync: "\<exists>e. sync failing_env (initial_world empty_cluster) = (Inl e, initial_world empty_cluster) \<and> \<not> is_panic e"
  by (simp add: sync_def cached_kueue_def go_bind_def go_read_def sync_kueue_def failing_env_def
      isResourceRegisteredCached_def go_try_def lister_run IsNotFound_def go_throw_def)

definition failed_controller :: Controller where
  "failed_controller = processNextWorkItem failing_env 0 (processNextWorkItem failing_env 0
     (enqueueKeys (new_controller (initial_world empty_cluster))))"

lemma failed_controller_state:
  "controller_reachable {failing_env} (initial_world empty_cluster) failed_controller"
  "\<not> ct_Crashed failed_controller" "last_failed failed_controller" "ct_Current failed_controller = None"
proof -
  let ?s = "enqueueKeys (new_controller (initial_world empty_cluster))"
  let ?t = "processNextWorkItem failing_env 0 ?s"
  have "controller_reachable {failing_env} (initial_world empty_cluster) ?s"
    by (intro continued[OF started] informer_event) (simp add: new_controller_def)
  then show "controller_reachable {failing_env} (initial_world empty_cluster) failed_controller"
    unfolding failed_controller_def by (intro continued[OF _ worker] continued[OF _ worker]) auto
  have t: "ct_Current ?t = Some ''key''" "ct_World ?t = initial_world empty_cluster" "\<not> ct_Crashed ?t"
      "ct_Results ?t = []"
    by (simp_all add: processNextWorkItem_def take_work_item_def enqueueKeys_def new_controller_def
        newDelayingQueue_def wq_defs)
  then have run: "failed_controller = process_work_item failing_env 0 ''key'' ?t"
    unfolding failed_controller_def by (subst (1) processNextWorkItem_def) simp
  obtain e where "sync failing_env (initial_world empty_cluster) = (Inl e, initial_world empty_cluster)"
      "\<not> is_panic e"
    using failing_sync by blast
  then show "\<not> ct_Crashed failed_controller" "last_failed failed_controller"
    "ct_Current failed_controller = None"
    by (simp_all add: run process_work_item_def reconcile_def t last_failed_def)
qed

theorem failed_reconciliation_retried_witness:
  "\<exists>t. ct_Current (processNextWorkItem failing_env 0
     (failed_controller\<lparr>ct_Queue := loop_settle t (ct_Queue failed_controller)\<rparr>)) = Some ''key''"
  using failed_reconciliation_retried[OF failed_controller_state, of failing_env 0] by blast

end
