(* ===== verification/Lifetime.thy ===== *)
theory Lifetime
  imports Ownership Deletion Controller
begin

text \<open>
  Which requests the operator makes in its whole life, in any number of reconciliations under the
  controller.
\<close>

section \<open>Requests of a reconciliation\<close>

text \<open>An object that goes with the Kueue resource, because it is owned by one or because the cleanup or
  the operator's own removal takes care of it.\<close>
definition accounted_for :: "robj \<Rightarrow> bool" where
  "accounted_for x \<longleftrightarrow> (\<exists>r. or_APIVersion r = kueueAPIVersion \<and> or_Kind r = kindKueue \<and> owned_by r x) \<or>
     rkind x \<in> {KConfigMap, KCRD, KServiceMonitor, KIssuer, KCertificate}"

fun sync_request :: "string \<Rightarrow> call \<Rightarrow> bool" where
  "sync_request opns (Create x) = accounted_for x"
| "sync_request opns (Update x) = accounted_for x"
| "sync_request opns (Delete k ns n) = cleanup_request opns (Delete k ns n)"
| "sync_request opns _ = True"

lemma sync_request_operand:
  assumes "operand_request (kueue_owner k) c"
  shows "sync_request opns c"
  using assms by (cases c) (auto simp: accounted_for_def owned_or_exempt_def kueue_owner_def)

lemma sync_request_deletion: "deletion_request opns c \<Longrightarrow> sync_request opns c"
  by (cases c) auto

lemma sync_request_read: "\<not> is_write c \<Longrightarrow> sync_request opns c"
  by (cases c) auto

lemma sends_check_dependencies:
  "sends (\<lambda>c. \<not> is_write c) (check_dependencies env kueue)"
  unfolding check_dependencies_def framework_dependencies_def require_operator_def
    isOperatorAvailability_def get_operator_config_def dra_dependencies_def update_dra_gates_def
    dra_apis_available_def isResourceRegistered_def isKubernetesMinorAtLeast_def Let_def
    isResourceRegisteredCached_def
  by (intro sends_rules sends_api_call) simp_all

lemma sends_unstructured:
  assumes "\<And>ns n. P (Get (cl_Kind cl) ns n)" and "\<And>x. P (Create (cl_Object cl x))"
    and "\<And>x. P (Update (cl_Object cl x))"
  shows "sends P (ApplyUnstructuredResourceImproved env cl cached required)"
  unfolding ApplyUnstructuredResourceImproved_def Let_def
  by (intro sends_rules; auto simp: assms intro!: sends_rules)

lemma sends_certificates: "sends (sync_request opns) (sync_certificates env kueue annos)"
  unfolding sync_certificates_def manageIssuerCR_def manageCertificateCR_def
  by (intro sends_rules sends_unstructured) (simp_all add: client_defs accounted_for_def)

lemma sends_sync_tls: "sends (sync_request opns) (sync_tls env kueue)"
  unfolding sync_tls_def FetchAPIServerTLSProfile_def updateKueueStatus_def api_ApplyStatus_def
  by (intro sends_rules sends_api_call) simp_all

lemma sends_cached [sends_rules]:
  "sends P a \<Longrightarrow> sends P b \<Longrightarrow> (\<And>m. sends P (f m)) \<Longrightarrow> (\<And>k. sends P (g k)) \<Longrightarrow>
   sends P (case obj of CacheError m \<Rightarrow> f m | CacheAbsent \<Rightarrow> a | CacheOther \<Rightarrow> b | CacheKueue k \<Rightarrow> g k)"
  by (cases obj) auto

lemma sends_sync_apply:
  assumes "proper_owner (kueue_owner k)"
  shows "sends (sync_request opns) (sync_apply env kueue (kueue_owner k) dep)"
  unfolding sync_apply_def sync_wait_def sync_reread_def cached_kueue_def
  by (intro sends_rules sends_certificates sends_sync_tls
      sends_weaken[OF sends_operand[OF assms] sync_request_operand]) simp_all

lemma sends_sync_deletion: "sends (sync_request (e_OperatorNamespace env)) (sync_deletion env kueue)"
  unfolding sync_deletion_def removeFinalizerFromKueueInstance_def
  by (intro sends_rules sends_updateFinalizer)
    (auto intro: sends_weaken[OF sends_cleanup] sync_request_deletion dest: cleanup_no_patch)

lemma sends_sync_kueue:
  assumes "proper_owner (kueue_owner kueue)"
  shows "sends (sync_request (e_OperatorNamespace env)) (sync_kueue env kueue)"
proof -
  have missing: "sends (sync_request opns) (sync_cert_manager_missing env k)" for opns k
    unfolding sync_cert_manager_missing_def updateKueueStatus_def api_ApplyStatus_def
    by (intro sends_rules sends_api_call) simp
  have finalizer: "sends (sync_request opns) (addFinalizerToKueueInstance env k)" for opns k
    unfolding addFinalizerToKueueInstance_def by (rule sends_updateFinalizer) simp_all
  show ?thesis
    unfolding sync_kueue_def isResourceRegisteredCached_def Let_def
    by (intro sends_rules missing finalizer sends_sync_deletion sends_sync_apply[OF assms]
        sends_weaken[OF sends_check_dependencies sync_request_read])
qed

text \<open>Kubernetes never generates a UID that ends in a dash, the mark by which library-go tells that an
  owner reference is to be removed.\<close>
definition proper_informer :: "Env \<Rightarrow> bool" where
  "proper_informer env \<longleftrightarrow>
     (\<forall>n k. e_KueueInformer env n = CacheKueue k \<longrightarrow> \<not> is_removal (om_UID (ku_ObjectMeta k)))"

lemma sync_requests:
  assumes "proper_informer env" and "sync env w = (r, w')"
  shows "\<exists>cs. w_Trace w' = w_Trace w @ cs \<and> list_all (sync_request (e_OperatorNamespace env)) cs"
proof (cases "e_KueueInformer env (w_Calls w)")
  case (CacheKueue k)
  then have "sync_kueue env k w = (r, w')"
    using assms(2) by (simp add: sync_def cached_kueue_def go_bind_def go_read_def)
  moreover have "proper_owner (kueue_owner k)"
    using assms(1) CacheKueue by (auto simp: proper_informer_def kueue_owner_def)
  ultimately show ?thesis using sendsD[OF sends_sync_kueue] by blast
qed (use assms(2) in \<open>auto simp: sync_def cached_kueue_def go_bind_def go_read_def Eventf_def go_modify_def\<close>)

section \<open>A reconciliation without cert-manager\<close>

lemma issuers_crd_name: "crd_name groupCertManager kindIssuer = ''issuers.cert-manager.io''"
  by code_simp

lemma status_request:
  "\<exists>r w'. updateKueueStatus env kueue conds n w = (r, w') \<and> \<not> (\<exists>e. r = Inl e \<and> is_panic e) \<and>
     w_Trace w' = w_Trace w @ [ApplyStatus \<lparr>sta_Conditions = SetApplyConditionsLastTransitionTime
       (w_Now w) conds (existing_conditions env kueue), sta_ReadyReplicas = n\<rparr>]"
  unfolding updateKueueStatus_def api_ApplyStatus_def go_bind_def go_read_def
  by (simp only: prod.case sum.case) (rule api_call_shape)

lemma cert_manager_missing_run:
  assumes "e_KueueInformer env (w_Calls w) = CacheKueue kueue"
    and "e_ListerFault env (w_Calls w) = None"
    and "map_of (c_CRDs (e_Informer env (w_Calls w))) ([], ''issuers.cert-manager.io'') = None"
  shows "sync env w = (Inr (), snd (updateKueueStatus env kueue buildCertManagerMissingConditions None
    (w\<lparr>w_Events := w_Events w @ [''CertManagerMissing'']\<rparr>)))"
proof -
  let ?w = "w\<lparr>w_Events := w_Events w @ [''CertManagerMissing'']\<rparr>"
  have "sync env w = sync_cert_manager_missing env kueue w"
    using assms
    by (simp add: sync_def cached_kueue_def go_bind_def go_read_def sync_kueue_def
        isResourceRegisteredCached_def go_try_def lister_run issuers_crd_name IsNotFound_def
        go_return_def CustomResourceDefinitions_def)
  also have "\<dots> = (Inr (), snd (updateKueueStatus env kueue buildCertManagerMissingConditions None ?w))"
    using status_request[of env kueue buildCertManagerMissingConditions None ?w]
    by (auto simp: sync_cert_manager_missing_def go_seq_def go_bind_def Eventf_def go_modify_def
        go_try_def go_return_def split: sum.splits)
  finally show ?thesis .
qed

section \<open>Requests of a life\<close>


text \<open>A controller whose operator has reconciled once, without cert-manager, and reported that.\<close>
definition reported_env :: Env where
  "reported_env = (calm_env empty_cluster)\<lparr>e_KueueInformer := \<lambda>n. CacheKueue (kueue_with_frameworks [])\<rparr>"

definition reported_controller :: Controller where
  "reported_controller = processNextWorkItem reported_env 0 (processNextWorkItem reported_env 0
     (enqueueKeys (new_controller (initial_world empty_cluster))))"

lemma reported_controller_world:
  "ct_World reported_controller = snd (sync reported_env (initial_world empty_cluster))"
  by (simp add: reported_controller_def processNextWorkItem_def process_work_item_def reconcile_def
      take_work_item_def enqueueKeys_def new_controller_def newDelayingQueue_def wq_defs
      split: prod.split sum.split)

lemma reported_controller_reachable:
  "controller_reachable {reported_env} (initial_world empty_cluster) reported_controller"
  unfolding reported_controller_def
  by (rule continued[OF _ worker] | rule continued[OF started] | rule informer_event
     | simp add: new_controller_def)+


end
