(* ===== verification/No_Panic.thy ===== *)
theory No_Panic
  imports Lifetime
begin

text \<open>
  The operator does not crash. A Go panic in a reconciliation ends the process, and the code has many
  places that could panic: every embedded manifest is read with \<^verbatim>\<open>MustAsset\<close> and decoded with an
  \<^verbatim>\<open>...OrDie\<close> function, pointers inside manifests and cluster objects are dereferenced, a webhook of
  an unknown framework panics on purpose. The theory gives the conditions on the shipped manifests,
  and the one condition on the cluster, under which none of them does, in any reconciliation and for
  any configuration, schedule of failures and interference.
\<close>

section \<open>Programs that do not panic\<close>

named_theorems tame_rules \<open>rules that reduce \<open>tame\<close> of a program to its parts\<close>

text \<open>\<open>m\<close> does not panic, and what it returns satisfies \<open>Q\<close>.\<close>
definition tame_to :: "('s, 'a) go \<Rightarrow> ('a \<Rightarrow> bool) \<Rightarrow> bool" where
  "tame_to m Q = go_triple (\<lambda>_. True) m (\<lambda>x _. Q x) (\<lambda>e _. \<not> is_panic e)"

abbreviation tame :: "('s, 'a) go \<Rightarrow> bool" where
  "tame m \<equiv> tame_to m (\<lambda>_. True)"

lemma tameD: "tame m \<Longrightarrow> m w = (Inl e, w') \<Longrightarrow> \<not> is_panic e"
  unfolding tame_to_def by (erule go_triple_Inl) auto

lemma tame_toI:
  "(\<And>w e w'. m w = (Inl e, w') \<Longrightarrow> \<not> is_panic e) \<Longrightarrow> (\<And>w x w'. m w = (Inr x, w') \<Longrightarrow> Q x) \<Longrightarrow> tame_to m Q"
  unfolding tame_to_def by (rule go_tripleI) auto

lemma tame_bind_to: "tame_to m Q \<Longrightarrow> (\<And>x. Q x \<Longrightarrow> tame_to (f x) R) \<Longrightarrow> tame_to (go_bind m f) R"
  unfolding tame_to_def
  by (rule go_bind_wp[where Q' = "\<lambda>x _. Q x"]) (auto simp: go_triple_def)

lemma tame_return [tame_rules]: "tame (go_return x)"
  unfolding tame_to_def by (rule go_triple_pre[OF go_return_wp]) simp
lemma tame_throw [tame_rules]: "\<not> is_panic e \<Longrightarrow> tame (go_throw e)"
  unfolding tame_to_def by (rule go_triple_pre[OF go_throw_wp]) simp
lemma tame_read [tame_rules]: "tame (go_read f)"
  unfolding tame_to_def by (rule go_triple_pre[OF go_read_wp]) simp
lemma tame_modify [tame_rules]: "tame (go_modify f)"
  unfolding tame_to_def by (rule go_triple_pre[OF go_modify_wp]) simp
lemma tame_lift: "(\<And>e. r = Inl e \<Longrightarrow> \<not> is_panic e) \<Longrightarrow> tame (go_lift r)"
  unfolding tame_to_def by (rule go_triple_pre[OF go_lift_wp]) (auto split: sum.splits)
lemma tame_lift_to:
  "(\<And>e. r = Inl e \<Longrightarrow> \<not> is_panic e) \<Longrightarrow> (\<And>x. r = Inr x \<Longrightarrow> Q x) \<Longrightarrow> tame_to (go_lift r) Q"
  unfolding tame_to_def by (rule go_triple_pre[OF go_lift_wp]) (auto split: sum.splits)
lemma tame_bind [tame_rules]: "tame m \<Longrightarrow> (\<And>x. tame (f x)) \<Longrightarrow> tame (go_bind m f)"
  by (rule tame_bind_to)
lemma tame_seq [tame_rules]: "tame m \<Longrightarrow> tame n \<Longrightarrow> tame (go_seq m n)"
  unfolding go_seq_def by (rule tame_bind)

text \<open>A caught error is no panic, so throwing it again is none either.\<close>
definition no_panic :: "err + 'a \<Rightarrow> bool" where
  "no_panic r \<longleftrightarrow> (\<forall>e. r = Inl e \<longrightarrow> \<not> is_panic e)"

lemma tame_try_to: "tame m \<Longrightarrow> tame_to (go_try m) no_panic"
  unfolding tame_to_def no_panic_def by (rule go_try_wp) (auto elim: go_triple_weaken)
lemma tame_bind_try [tame_rules]:
  "tame m \<Longrightarrow> (\<And>r. no_panic r \<Longrightarrow> tame (f r)) \<Longrightarrow> tame (go_bind (go_try m) f)"
  by (rule tame_bind_to[OF tame_try_to])

lemma tame_when [tame_rules]: "(b \<Longrightarrow> tame m) \<Longrightarrow> tame (go_when b m)"
  by (simp add: go_when_def tame_return)
lemma tame_if [tame_rules]: "(b \<Longrightarrow> tame m) \<Longrightarrow> (\<not> b \<Longrightarrow> tame n) \<Longrightarrow> tame (if b then m else n)"
  by simp
lemma tame_option [tame_rules]:
  "(x = None \<Longrightarrow> tame m) \<Longrightarrow> (\<And>y. x = Some y \<Longrightarrow> tame (n y)) \<Longrightarrow>
   tame (case x of None \<Rightarrow> m | Some y \<Rightarrow> n y)"
  by (cases x) auto
lemma tame_sum [tame_rules]:
  "(\<And>e. x = Inl e \<Longrightarrow> tame (m e)) \<Longrightarrow> (\<And>y. x = Inr y \<Longrightarrow> tame (n y)) \<Longrightarrow>
   tame (case x of Inl e \<Rightarrow> m e | Inr y \<Rightarrow> n y)"
  by (cases x) auto
lemma tame_prod [tame_rules]:
  "(\<And>a b. x = (a, b) \<Longrightarrow> tame (m a b)) \<Longrightarrow> tame (case x of (a, b) \<Rightarrow> m a b)"
  by (cases x) auto
lemma tame_cached [tame_rules]:
  "tame a \<Longrightarrow> tame b \<Longrightarrow> (\<And>m. tame (f m)) \<Longrightarrow> (\<And>k. tame (g k)) \<Longrightarrow>
   tame (case obj of CacheError m \<Rightarrow> f m | CacheAbsent \<Rightarrow> a | CacheOther \<Rightarrow> b | CacheKueue k \<Rightarrow> g k)"
  by (cases obj) auto

lemma tame_foldM [tame_rules]:
  "(\<And>acc x. x \<in> set xs \<Longrightarrow> tame (f acc x)) \<Longrightarrow> tame (go_foldM f xs acc)"
  by (induction xs arbitrary: acc) (auto intro!: tame_rules)
lemma tame_foreach [tame_rules]: "(\<And>x. x \<in> set xs \<Longrightarrow> tame (f x)) \<Longrightarrow> tame (go_foreach f xs)"
  by (induction xs) (auto intro!: tame_rules)
lemma tame_collect [tame_rules]: "(\<And>x. x \<in> set xs \<Longrightarrow> tame (f x)) \<Longrightarrow> tame (go_collect f xs)"
  by (induction xs) (auto intro!: tame_rules)
lemma tame_aggregate [tame_rules]: "tame (return_aggregate es)"
  unfolding return_aggregate_def by (intro tame_rules) simp
lemma tame_retry [tame_rules]: "tame m \<Longrightarrow> tame (retry_OnError n r m)"
  unfolding tame_to_def
  by (rule retry_OnError_triple) (auto elim: go_triple_weaken)
lemma tame_conflict [tame_rules]: "tame m \<Longrightarrow> tame (RetryOnConflict n m)"
  unfolding RetryOnConflict_def by (rule tame_retry)

section \<open>Requests and applies\<close>

lemma tame_api_call [tame_rules]: "tame (api_call env c f)"
  by (rule tame_toI) (auto dest: api_call_not_panic)
lemma tame_requests [tame_rules]:
  "tame (api_Get env cl ns n)" "tame (api_List env cl ns)" "tame (api_Create env cl ns x)"
  "tame (api_Update env cl ns x)" "tame (api_Delete env cl ns n)"
  unfolding api_Get_def api_List_def api_Create_def api_Update_def api_Delete_def
  by (rule tame_api_call)+
lemma tame_lister [tame_rules]: "tame (lister_Get env cl ns n)"
  by (rule tame_toI) (auto simp: lister_run split: option.splits)
lemma tame_local [tame_rules]:
  "tame (Eventf s)" "tame (ReportCreateEvent k r)" "tame (ReportUpdateEvent k r)"
  "tame (SafeToSkipApply env cl x y)" "tame (UpdateCachedResourceMetadata env cl x y)"
  unfolding ReportCreateEvent_def ReportUpdateEvent_def Eventf_def SafeToSkipApply_def
    UpdateCachedResourceMetadata_def
  by (intro tame_rules)+

lemma no_panicD [simp]: "no_panic (Inl e) \<longleftrightarrow> \<not> is_panic e" "no_panic (Inr x)"
  by (simp_all add: no_panic_def)

lemma tame_create [tame_rules]: "tame (create_and_report env cl ns x b)"
  unfolding create_and_report_def by (intro tame_rules) simp
lemma tame_update [tame_rules]: "tame (update_and_report env cl ns x)"
  unfolding update_and_report_def by (intro tame_rules) simp
lemma tame_remember [tame_rules]: "tame m \<Longrightarrow> tame (remember env cl x m)"
  unfolding remember_def by (intro tame_rules)
lemma tame_apply [tame_rules]: "tame (apply_object env cl ns n x b f)"
  unfolding apply_object_def by (intro tame_rules) simp
lemma tame_apply_cached [tame_rules]: "tame (apply_object_cached env cl ns n x y f)"
  unfolding apply_object_cached_def by (intro tame_rules) simp
lemma tame_with_cache [tame_rules]: "tame m \<Longrightarrow> tame (apply_with_cache env cl ns x m)"
  unfolding apply_with_cache_def by (intro tame_rules) simp

lemma tame_read_asset: "assets path \<noteq> None \<Longrightarrow> tame (read_asset assets path)"
  unfolding read_asset_def by (auto intro: tame_return)

text \<open>What is read from a manifest that is there.\<close>
lemma tame_bind_asset:
  "assets path = Some x \<Longrightarrow> tame (f x) \<Longrightarrow> tame (go_bind (read_asset assets path) f)"
  by (simp add: read_asset_def go_bind_def go_return_def)

lemma tame_hash [tame_rules]: "tame (hash_go env obj msg)" "tame (record_hash env key obj msg annos)"
  unfolding record_hash_def hash_go_def by (intro tame_rules; simp)+
lemma tame_records [tame_rules]:
  "tame (record_role env x annos)" "tame (record_role_binding env y annos)"
  "tame (record_cluster_role_binding env z annos)" "tame (record_service env u annos)"
  unfolding record_role_def record_role_binding_def record_cluster_role_binding_def record_service_def
  by (intro tame_rules)+


section \<open>What the manifests have to look like\<close>

definition decodes :: "(string \<rightharpoonup> 'a) \<Rightarrow> string list \<Rightarrow> bool" where
  "decodes assets paths = list_all (\<lambda>p. assets p \<noteq> None) paths"

text \<open>Every file of a directory decodes.\<close>
definition directory_decodes :: "Assets \<Rightarrow> (string \<rightharpoonup> 'a) \<Rightarrow> string \<Rightarrow> bool" where
  "directory_decodes A assets dir = (case a_Dir A dir of
     Inl _ \<Rightarrow> True | Inr files \<Rightarrow> decodes assets (map (path_join dir) files))"

text \<open>The files that the reconciliation reads by name.\<close>
definition role_files :: "string list" where
  "role_files = map asset [''role-leader-election.yaml'', ''role-manager-secrets.yaml'', ''role-prometheus.yaml'']"

definition role_binding_files :: "string list" where
  "role_binding_files = map asset [''rolebinding-leader-election.yaml'', ''rolebinding-manager-secrets.yaml'',
     ''rolebinding-prometheus.yaml'', ''rolebinding-visibility-server-auth-reader.yaml'']"

definition service_files :: "string list" where
  "service_files = map asset [''controller-manager-metrics-service.yaml'', ''visibility-server.yaml'',
     ''webhook-service.yaml'']"

definition cluster_role_binding_files :: "string list" where
  "cluster_role_binding_files = map asset [''clusterrolebinding-metrics-monitoring.yaml'',
     ''clusterrolebinding-proxy.yaml'', ''clusterrolebinding-manager.yaml'',
     ''clusterrolebinding-metrics.yaml'', ''clusterrolebinding-metrics-auth.yaml'']"

lemmas file_defs = role_files_def role_binding_files_def service_files_def cluster_role_binding_files_def

definition files_ok :: "Assets \<Rightarrow> bool" where
  "files_ok A \<longleftrightarrow>
     decodes (a_ServiceAccount A) [asset ''serviceaccount.yaml''] \<and>
     decodes (a_FlowSchema A) [asset ''flowschema.yaml''] \<and>
     decodes (a_Role A) role_files \<and> decodes (a_RoleBinding A) role_binding_files \<and>
     decodes (a_Service A) service_files \<and> decodes (a_ClusterRoleBinding A) cluster_role_binding_files \<and>
     directory_decodes A (a_ClusterRole A) (asset ''clusterroles'') \<and>
     directory_decodes A (a_CRD A) (asset ''crds'') \<and>
     directory_decodes A (a_NetworkPolicy A) (asset ''networkpolicy'')"

definition has_service :: "Webhook \<Rightarrow> bool" where
  "has_service wh \<longleftrightarrow> wc_Service (wh_ClientConfig wh) \<noteq> None"

text \<open>The fields that are dereferenced in what is decoded.\<close>
definition fields_ok :: "Assets \<Rightarrow> bool" where
  "fields_ok A \<longleftrightarrow>
     list_all (\<lambda>p. case a_APIService A p of None \<Rightarrow> False
       | Some x \<Rightarrow> ass_Service (as_Spec x) \<noteq> None) apiServiceFiles \<and>
     (case a_PriorityLevel A (asset ''prioritylevelconfiguration.yaml'') of None \<Rightarrow> False
       | Some p \<Rightarrow> concurrency_shares p \<noteq> None) \<and>
     (case a_Deployment A (asset ''deployment.yaml'') of None \<Rightarrow> False
       | Some d \<Rightarrow> (case ps_Containers (pt_Spec (dp_Template (de_Spec d))) of [] \<Rightarrow> False
           | c # _ \<Rightarrow> co_SecurityContext c \<noteq> None)) \<and>
     (case a_MutatingWebhook A (asset ''mutatingwebhook.yaml'') of None \<Rightarrow> False
       | Some m \<Rightarrow> list_all has_service (mwc_Webhooks m) \<and>
           set (map wh_Name (mwc_Webhooks m)) \<subseteq> set mutating_manifest_names) \<and>
     (case a_ValidatingWebhook A (asset ''validatingwebhook.yaml'') of None \<Rightarrow> False
       | Some v \<Rightarrow> list_all has_service (vwc_Webhooks v) \<and>
           set (map wh_Name (vwc_Webhooks v)) \<subseteq> set validating_manifest_names)"

text \<open>Library functions return errors, they do not panic.\<close>
definition libraries_ok :: "Env \<Rightarrow> bool" where
  "libraries_ok env \<longleftrightarrow> (\<forall>h. no_panic (e_Marshal env h)) \<and> (\<forall>c. no_panic (e_YamlMarshal env c)) \<and>
     (\<forall>m. no_panic (e_MetaFromUnstructured env m)) \<and> (\<forall>m. no_panic (e_MetaToUnstructured env m))"

text \<open>A priority level that users may tune has a number of shares. Otherwise the operator crashes on
  it.\<close>
definition tunable_levels_limited :: "Cluster \<Rightarrow> bool" where
  "tunable_levels_limited c \<longleftrightarrow> list_all (\<lambda>(_, p).
     map_of (om_Annotations (plc_ObjectMeta p)) annotationAllowNominalConcurrencySharesUpdate = Some ''true''
       \<longrightarrow> concurrency_shares p \<noteq> None) (c_PriorityLevels c)"

text \<open>The cluster that a request meets, whatever others did to it.\<close>
definition cluster_ok :: "Env \<Rightarrow> bool" where
  "cluster_ok env \<longleftrightarrow> (\<forall>n c. tunable_levels_limited (e_Interfere env n c))"

definition crash_free :: "Env \<Rightarrow> bool" where
  "crash_free env \<longleftrightarrow> files_ok (e_Assets env) \<and> fields_ok (e_Assets env) \<and> libraries_ok env \<and> cluster_ok env"

section \<open>The pure parts\<close>

lemma no_panic_spec_hash: "libraries_ok env \<Longrightarrow> no_panic (SetSpecHashAnnotation env m h)"
  by (auto simp: libraries_ok_def SetSpecHashAnnotation_def no_panic_def split: sum.splits)

lemma no_panic_parse_weights: "no_panic (parse_weights pf ws acc)"
  by (induction ws arbitrary: acc) (auto simp: no_panic_def split: sum.splits)

lemma no_panic_BuildConfigMap:
  assumes "libraries_ok env"
  shows "no_panic (BuildConfigMap pf (e_YamlMarshal env) ns cfg gvr dra tls)"
  using assms no_panic_parse_weights
  by (auto simp: libraries_ok_def BuildConfigMap_def defaultKueueConfigurationTemplate_def
      no_panic_def split: sum.splits)

lemma no_panic_accessors: "no_panic (nested_field j path)" "no_panic (NestedMap obj path)"
proof -
  have field: "no_panic (nested_field j path)" for j path
    by (induction j path rule: nested_field.induct)
      (auto simp: no_panic_def accessor_error_def split: json.splits option.splits)
  then show "no_panic (nested_field j path)" "no_panic (NestedMap obj path)"
    by (auto simp: NestedMap_def nested_typed_def NestedFieldNoCopy_def no_panic_def accessor_error_def
        split: sum.splits option.splits)
qed

lemma no_panic_merge_Unstructured:
  assumes "libraries_ok env"
  shows "no_panic (merge_Unstructured env required existing)"
proof -
  have meta: "no_panic (EnsureObjectMetaForUnstructured env x y)" for x y
    using assms no_panic_accessors(2)
    by (fastforce simp: EnsureObjectMetaForUnstructured_def libraries_ok_def no_panic_def
        split: sum.splits option.splits prod.splits)
  have spec: "no_panic (ensureGenericSpec x y)" for x y
    using no_panic_accessors(2)
    by (fastforce simp: ensureGenericSpec_def nested_spec_def no_panic_def split: sum.splits option.splits)
  show ?thesis
    using meta spec by (fastforce simp: merge_Unstructured_def no_panic_def split: sum.splits prod.splits)
qed

lemma set_service_namespace_ok: "list_all has_service whs \<Longrightarrow> is_ok (set_service_namespace ns whs)"
  by (induction whs) (auto simp: has_service_def split: option.splits sum.splits)

lemma is_ok_no_panic: "is_ok r \<Longrightarrow> no_panic r"
  by (cases r) auto

text \<open>Adjusting the webhooks keeps their services.\<close>
lemma modify_keeps_services:
  assumes "set (map wh_Name (mwc_Webhooks m)) \<subseteq> set mutating_manifest_names"
    and "set (map wh_Name (vwc_Webhooks v)) \<subseteq> set validating_manifest_names"
  shows "\<exists>m'. ModifyPodBasedMutatingWebhook cfg m = Inr m' \<and>
      (list_all has_service (mwc_Webhooks m) \<longrightarrow> list_all has_service (mwc_Webhooks m'))"
    and "\<exists>v'. ModifyPodBasedValidatingWebhook cfg v = Inr v' \<and>
      (list_all has_service (vwc_Webhooks v) \<longrightarrow> list_all has_service (vwc_Webhooks v'))"
proof -
  have "list_all mutating.registered (mwc_Webhooks m)"
    using mutating_manifest_registered assms(1) by (auto simp: mutating.registered_def list_all_iff)
  then show "\<exists>m'. ModifyPodBasedMutatingWebhook cfg m = Inr m' \<and>
      (list_all has_service (mwc_Webhooks m) \<longrightarrow> list_all has_service (mwc_Webhooks m'))"
    by (auto simp: ModifyPodBasedMutatingWebhook_def mutating.modify_ok list_all_iff has_service_def)
  have "list_all validating.registered (vwc_Webhooks v)"
    using validating_manifest_registered assms(2) by (auto simp: validating.registered_def list_all_iff)
  then show "\<exists>v'. ModifyPodBasedValidatingWebhook cfg v = Inr v' \<and>
      (list_all has_service (vwc_Webhooks v) \<longrightarrow> list_all has_service (vwc_Webhooks v'))"
    by (auto simp: ModifyPodBasedValidatingWebhook_def validating.modify_ok list_all_iff has_service_def)
qed


section \<open>The managed resources\<close>

lemma tame_no_panic_lift: "no_panic r \<Longrightarrow> tame (go_lift r)"
  by (rule tame_lift) (auto simp: no_panic_def)

lemma tame_unstructured:
  "libraries_ok env \<Longrightarrow> tame (ApplyUnstructuredResourceImproved env cl cached required)"
  unfolding ApplyUnstructuredResourceImproved_def Let_def
  by (intro tame_rules tame_no_panic_lift no_panic_merge_Unstructured) simp_all

lemma tame_typed [tame_rules]:
  "tame (ApplyRole env role)" "tame (ApplyRoleBinding env rb)" "tame (ApplyClusterRole env cr)"
  "tame (ApplyClusterRoleBinding env crb)" "tame (ApplyServiceAccountImproved env sa)"
  "tame (ApplyNetworkPolicy env np)" "tame (ApplyFlowSchema env fl)" "tame (ApplyAPIService env api)"
  "tame (ApplyMutatingWebhookConfigurationImproved env mwc)"
  "tame (ApplyValidatingWebhookConfigurationImproved env vwc)"
  "tame (ApplyConfigMapImproved env cm)" "tame (ApplyCustomResourceDefinitionV1 env crd)"
  unfolding ApplyRole_def ApplyRoleBinding_def ApplyClusterRole_def ApplyClusterRoleBinding_def
    ApplyServiceAccountImproved_def ApplyNetworkPolicy_def ApplyFlowSchema_def ApplyAPIService_def
    ApplyMutatingWebhookConfigurationImproved_def ApplyValidatingWebhookConfigurationImproved_def
    ApplyConfigMapImproved_def ApplyCustomResourceDefinitionV1_def
  by (rule tame_rules)+

lemma tame_ApplyService: "libraries_ok env \<Longrightarrow> tame (ApplyServiceImproved env svc)"
  unfolding ApplyServiceImproved_def Let_def
  by (intro tame_rules tame_no_panic_lift no_panic_spec_hash)

text \<open>The deployment always has its spec hash when it is applied, so that the first container's image
  is never looked at.\<close>
lemma tame_ApplyDeployment:
  assumes "libraries_ok env"
  shows "tame (ApplyDeployment env d g)"
  unfolding ApplyDeployment_def
proof (rule tame_bind_to[OF tame_lift_to])
  show "\<not> is_panic e" if "SetSpecHashAnnotation env (de_ObjectMeta d) (HDeployment (de_Spec d)) = Inl e" for e
    using no_panic_spec_hash[OF assms, of "de_ObjectMeta d" "HDeployment (de_Spec d)"] that by simp
  show "map_of (om_Annotations m) specHashAnnotation \<noteq> None"
    if "SetSpecHashAnnotation env (de_ObjectMeta d) (HDeployment (de_Spec d)) = Inr m" for m
    using that by (auto simp: SetSpecHashAnnotation_def update_conv' split: sum.splits)
  show "tame (ApplyDeploymentWithForce env (d\<lparr>de_ObjectMeta := m\<rparr>) g)"
    if "map_of (om_Annotations m) specHashAnnotation \<noteq> None" for m
    unfolding ApplyDeploymentWithForce_def using that by (auto intro!: tame_rules)
qed

text \<open>A priority level that is read from the cluster: if users may tune it, it has shares.\<close>
lemma tame_Get_priority_level:
  assumes "cluster_ok env"
  shows "tame_to (api_Get env (PriorityLevelConfigurations env) ns n) (\<lambda>p.
    map_of (om_Annotations (plc_ObjectMeta p)) annotationAllowNominalConcurrencySharesUpdate = Some ''true''
      \<longrightarrow> concurrency_shares p \<noteq> None)" (is "tame_to ?m ?Q")
proof (rule tame_toI)
  show "\<not> is_panic e" if "?m w = (Inl e, w')" for w e w'
    using that api_call_not_panic unfolding api_Get_def by blast
  fix w x w'
  assume "?m w = (Inr x, w')"
  then have "map_of (c_PriorityLevels (e_Interfere env (w_Calls w) (w_Cluster w))) (ns, n) = Some x"
    by (auto simp: api_Get_def api_call_def before_call_def Let_def PriorityLevelConfigurations_def
        split: option.splits prod.splits sum.splits)
  then have "((ns, n), x) \<in> set (c_PriorityLevels (e_Interfere env (w_Calls w) (w_Cluster w)))"
    by (rule map_of_SomeD)
  with assms show "?Q x" by (fastforce simp: cluster_ok_def tunable_levels_limited_def list_all_iff)
qed

lemma tame_try_result: "tame_to m Q \<Longrightarrow> tame_to (go_try m) (\<lambda>r. no_panic r \<and> (\<forall>x. r = Inr x \<longrightarrow> Q x))"
  unfolding tame_to_def no_panic_def by (rule go_try_wp) (auto elim: go_triple_weaken)

lemma tame_ApplyPriorityLevel:
  assumes "cluster_ok env" and "concurrency_shares want \<noteq> None"
  shows "tame (ApplyPriorityLevelConfiguration env want)"
  unfolding ApplyPriorityLevelConfiguration_def Let_def
proof (rule tame_bind_to[OF tame_try_result[OF tame_Get_priority_level[OF assms(1)]]], rule tame_sum)
  fix r current
  assume "no_panic r \<and> (\<forall>p. r = Inr p \<longrightarrow>
    map_of (om_Annotations (plc_ObjectMeta p)) annotationAllowNominalConcurrencySharesUpdate = Some ''true''
      \<longrightarrow> concurrency_shares p \<noteq> None)" and "r = Inr current"
  then have "no_panic (keeps_user_shares want current)"
    using assms(2) by (auto simp: keeps_user_shares_def no_panic_def split: option.splits)
  then show "tame (case EnsureObjectMeta False (plc_ObjectMeta current) (plc_ObjectMeta want) of (diff, meta) \<Rightarrow>
      if \<not> diff \<and> plc_Spec current = plc_Spec want then go_return (current, False)
      else go_bind (go_lift (keeps_user_shares want current)) (\<lambda>keep.
        if keep then go_return (current, False)
        else update_and_report env (PriorityLevelConfigurations env) []
          (current\<lparr>plc_ObjectMeta := meta, plc_Spec := plc_Spec want\<rparr>)))"
    by (intro tame_rules tame_no_panic_lift)
qed (auto intro!: tame_rules)


lemma decodesD: "decodes assets paths \<Longrightarrow> p \<in> set paths \<Longrightarrow> tame (read_asset assets p)"
  by (rule tame_read_asset) (auto simp: decodes_def list_all_iff)

text \<open>The files of a directory, read one after the other.\<close>
lemma tame_directory:
  assumes "directory_decodes (e_Assets env) assets dir"
    and "\<And>files acc x. x \<in> set files \<Longrightarrow> a_Dir (e_Assets env) dir = Inr files \<Longrightarrow>
      tame (read_asset assets (path_join dir x)) \<Longrightarrow> tame (f acc x)"
    and "\<And>x. tame (g x)"
  shows "tame (go_bind (asset_dir env dir msg) (\<lambda>files. go_bind (go_foldM f files acc) g))"
    and "tame (go_bind (asset_dir env dir msg) (\<lambda>files. go_foldM f files acc))"
proof -
  have "tame (go_foldM f files acc)" if "a_Dir (e_Assets env) dir = Inr files" for files
  proof (rule tame_foldM, rule assms(2)[OF _ that])
    show "tame (read_asset assets (path_join dir x))" if "x \<in> set files" for x
      using assms(1) that \<open>a_Dir (e_Assets env) dir = Inr files\<close>
      by (intro decodesD[where paths = "map (path_join dir) files"]) (auto simp: directory_decodes_def)
  qed
  moreover have "tame_to (asset_dir env dir msg) (\<lambda>files. a_Dir (e_Assets env) dir = Inr files)"
    by (rule tame_toI) (auto simp: asset_dir_def go_return_def go_throw_def split: sum.splits)
  ultimately show "tame (go_bind (asset_dir env dir msg) (\<lambda>files. go_bind (go_foldM f files acc) g))"
    "tame (go_bind (asset_dir env dir msg) (\<lambda>files. go_foldM f files acc))"
    by (auto intro: tame_bind_to tame_bind assms(3))
qed

lemma tame_shipped:
  assumes "files_ok A"
  shows "tame (read_asset (a_ServiceAccount A) (asset ''serviceaccount.yaml''))"
    and "tame (read_asset (a_FlowSchema A) (asset ''flowschema.yaml''))"
    and "tame (read_asset (a_Role A) (asset ''role-leader-election.yaml''))"
    and "tame (read_asset (a_Role A) (asset ''role-manager-secrets.yaml''))"
    and "tame (read_asset (a_Role A) (asset ''role-prometheus.yaml''))"
    and "tame (read_asset (a_RoleBinding A) (asset ''rolebinding-leader-election.yaml''))"
    and "tame (read_asset (a_RoleBinding A) (asset ''rolebinding-manager-secrets.yaml''))"
    and "tame (read_asset (a_RoleBinding A) (asset ''rolebinding-prometheus.yaml''))"
    and "tame (read_asset (a_RoleBinding A) (asset ''rolebinding-visibility-server-auth-reader.yaml''))"
    and "tame (read_asset (a_Service A) (asset ''controller-manager-metrics-service.yaml''))"
    and "tame (read_asset (a_Service A) (asset ''visibility-server.yaml''))"
    and "tame (read_asset (a_Service A) (asset ''webhook-service.yaml''))"
    and "tame (read_asset (a_ClusterRoleBinding A) (asset ''clusterrolebinding-metrics-monitoring.yaml''))"
    and "tame (read_asset (a_ClusterRoleBinding A) (asset ''clusterrolebinding-proxy.yaml''))"
    and "tame (read_asset (a_ClusterRoleBinding A) (asset ''clusterrolebinding-manager.yaml''))"
    and "tame (read_asset (a_ClusterRoleBinding A) (asset ''clusterrolebinding-metrics.yaml''))"
    and "tame (read_asset (a_ClusterRoleBinding A) (asset ''clusterrolebinding-metrics-auth.yaml''))"
  by (rule tame_read_asset, use assms in \<open>simp add: files_ok_def decodes_def file_defs\<close>)+

lemma tame_namespaced:
  "tame (read_asset (a_ServiceAccount (e_Assets env)) (asset ''serviceaccount.yaml'')) \<Longrightarrow>
   tame (manageServiceAccount env r)"
  "tame (read_asset (a_Role (e_Assets env)) path) \<Longrightarrow> tame (sync_role env path r annos)"
  "tame (read_asset (a_RoleBinding (e_Assets env)) path) \<Longrightarrow> tame (manageRoleBindingsByNamespace env ns path r b)"
  "tame (read_asset (a_Service (e_Assets env)) path) \<Longrightarrow> libraries_ok env \<Longrightarrow> tame (sync_service env path r annos)"
  unfolding manageServiceAccount_def sync_role_def manageRole_def manageRoleBindingsByNamespace_def
    sync_service_def manageService_def applyRoleWithCache_def applyRoleBindingWithCache_def
  by (intro tame_rules tame_ApplyService; assumption)+

lemma tame_bindings:
  "tame (read_asset (a_RoleBinding (e_Assets env)) path) \<Longrightarrow> tame (sync_role_binding env path r b annos)"
  "tame (read_asset (a_RoleBinding (e_Assets env)) path) \<Longrightarrow> tame (manageSystemRoleBindings env path r b)"
  "tame (read_asset (a_ClusterRoleBinding (e_Assets env)) path) \<Longrightarrow>
   tame (sync_cluster_role_binding env path r annos)"
  "tame (read_asset (a_ClusterRoleBinding (e_Assets env)) path) \<Longrightarrow>
   tame (manageClusterRoleBindingsWithoutNamespaceOverride env path r)"
  "tame (manageOpenshiftClusterRolesBindingForKueue env r)" "tame (manageOpenshiftClusterRolesForKueue env r)"
  unfolding sync_role_binding_def manageRoleBindings_def manageSystemRoleBindings_def
    sync_cluster_role_binding_def manageClusterRoleBindings_def
    manageClusterRoleBindingsWithoutNamespaceOverride_def manageOpenshiftClusterRolesBindingForKueue_def
    manageOpenshiftClusterRolesForKueue_def applyClusterRoleBindingWithCache_def applyClusterRoleWithCache_def
  by (intro tame_rules tame_namespaced; assumption)+

lemma tame_discover [tame_rules]: "tame (discover env gv)"
  unfolding discover_def by (rule tame_rules)

lemma tame_config: "libraries_ok env \<Longrightarrow> tame (manageConfigMap env kueue tls)"
  unfolding manageConfigMap_def resolveGVRsToKinds_def buildAndApplyConfigMap_def Let_def
  by (intro tame_rules tame_no_panic_lift no_panic_BuildConfigMap; simp)

lemma tame_flow_schema: "files_ok (e_Assets env) \<Longrightarrow> tame (manageFlowSchema env annos r)"
  unfolding manageFlowSchema_def by (intro tame_rules tame_shipped)

lemma tame_priority_level:
  "fields_ok (e_Assets env) \<Longrightarrow> cluster_ok env \<Longrightarrow> tame (managePriorityLevelConfiguration env annos r)"
proof -
  assume "fields_ok (e_Assets env)" "cluster_ok env"
  then obtain p where p: "a_PriorityLevel (e_Assets env) (asset ''prioritylevelconfiguration.yaml'') = Some p"
      "concurrency_shares p \<noteq> None"
    by (auto simp: fields_ok_def split: option.splits)
  show ?thesis
    unfolding managePriorityLevelConfiguration_def applyPriorityLevelConfigurationWithCache_def
    by (rule tame_bind_asset, rule p(1), intro tame_rules tame_ApplyPriorityLevel \<open>cluster_ok env\<close>)
      (use p(2) in \<open>simp add: concurrency_shares_def\<close>)
qed

lemma tame_api_service: "fields_ok (e_Assets env) \<Longrightarrow> tame (manageAPIService env annos r)"
  unfolding manageAPIService_def
proof (rule tame_foldM)
  fix annos path
  assume "fields_ok (e_Assets env)" "path \<in> set apiServiceFiles"
  then obtain x where x: "a_APIService (e_Assets env) path = Some x" "ass_Service (as_Spec x) \<noteq> None"
    by (auto simp: fields_ok_def list_all_iff split: option.splits)
  show "tame (go_bind (read_asset (a_APIService (e_Assets env)) path) (\<lambda>asset'.
       go_bind (go_lift (required_api_service env r asset')) (\<lambda>required.
       go_bind (ApplyAPIService env required) (\<lambda>(apiService, _).
       go_bind (hash_go env (HAPIService (as_Spec apiService)) ''failed to hash APIService spec'')
         (\<lambda>hash. go_return
           (AList.update (''apiservice/'' @ om_Name (as_ObjectMeta apiService)) hash annos))))))"
    by (rule tame_bind_asset, rule x(1), intro tame_rules tame_lift)
      (use x(2) in \<open>auto simp: required_api_service_def\<close>)
qed

lemma tame_network_policies: "files_ok (e_Assets env) \<Longrightarrow> tame (manageNetworkPolicies env annos r)"
  unfolding manageNetworkPolicies_def applyNetworkPolicyWithCache_def Let_def files_ok_def
  by (rule tame_directory) (auto intro!: tame_rules)

lemma tame_crds: "files_ok (e_Assets env) \<Longrightarrow> tame (manageCustomResources env annos)"
  unfolding manageCustomResources_def applyCustomResourceDefinitionWithCache_def Let_def files_ok_def
  by (rule tame_directory) (auto intro!: tame_rules)

lemma tame_crd_names: "files_ok (e_Assets env) \<Longrightarrow> tame (kueueCRDNames env)"
  unfolding kueueCRDNames_def Let_def files_ok_def
  by (rule tame_directory) (auto intro!: tame_rules)

lemma tame_cluster_roles: "files_ok (e_Assets env) \<Longrightarrow> tame (manageClusterRoles env annos r)"
  unfolding manageClusterRoles_def manageClusterRole_file_def applyClusterRoleWithCache_def
    scopeManagerRoleResourceNames_def Let_def
  by (rule tame_directory) (auto intro!: tame_rules tame_crd_names simp: files_ok_def)

lemma tame_bind_modified:
  "\<exists>y. r = Inr y \<and> (b \<longrightarrow> Q y) \<Longrightarrow> b \<Longrightarrow> (\<And>y. Q y \<Longrightarrow> tame (f y)) \<Longrightarrow> tame (go_bind (go_lift r) f)"
  by (auto simp: go_bind_def go_lift_def)

lemma tame_set_namespace:
  "list_all has_service whs \<Longrightarrow> (\<And>x. tame (f x)) \<Longrightarrow> tame (go_bind (go_lift (set_service_namespace ns whs)) f)"
  by (intro tame_bind tame_no_panic_lift is_ok_no_panic set_service_namespace_ok)

lemma tame_webhooks:
  assumes "fields_ok (e_Assets env)"
  shows "tame (manageMutatingWebhook env kueue r)" and "tame (manageValidatingWebhook env kueue r)"
proof -
  obtain m v where files: "a_MutatingWebhook (e_Assets env) (asset ''mutatingwebhook.yaml'') = Some m"
      "a_ValidatingWebhook (e_Assets env) (asset ''validatingwebhook.yaml'') = Some v"
    and services: "list_all has_service (mwc_Webhooks m)" "list_all has_service (vwc_Webhooks v)"
    and names: "set (map wh_Name (mwc_Webhooks m)) \<subseteq> set mutating_manifest_names"
      "set (map wh_Name (vwc_Webhooks v)) \<subseteq> set validating_manifest_names"
    using assms by (auto simp: fields_ok_def split: option.splits)
  show "tame (manageMutatingWebhook env kueue r)" "tame (manageValidatingWebhook env kueue r)"
    unfolding manageMutatingWebhook_def manageValidatingWebhook_def
    by (rule tame_bind_asset, rule files, rule tame_bind_modified, rule modify_keeps_services(1),
        use names services in \<open>auto intro!: tame_set_namespace tame_typed\<close>)
      (rule tame_bind_asset, rule files, rule tame_bind_modified, rule modify_keeps_services(2),
        use names services in \<open>auto intro!: tame_set_namespace tame_typed\<close>)
qed

lemma tame_deployment:
  assumes "fields_ok (e_Assets env)" and "libraries_ok env"
  shows "tame (manageDeployment env kueue annos r)"
proof -
  obtain d where d: "a_Deployment (e_Assets env) (asset ''deployment.yaml'') = Some d"
    and ok: "is_ok (required_deployment env l annos r d)" for l
    using assms(1) by (auto simp: fields_ok_def required_deployment_def manager_container_def Let_def
        split: option.splits list.splits)
  show ?thesis
    unfolding manageDeployment_def applyDeploymentWithCache_def Let_def
    by (rule tame_bind_asset, rule d, intro tame_rules tame_no_panic_lift is_ok_no_panic ok
        tame_ApplyDeployment assms)
qed


section \<open>A reconciliation\<close>

lemma tame_status [tame_rules]: "tame (updateKueueStatus env kueue conds n)"
  unfolding updateKueueStatus_def api_ApplyStatus_def by (intro tame_rules)

lemma tame_monitor: "libraries_ok env \<Longrightarrow> tame (manageServiceMonitor env kueue)"
  unfolding manageServiceMonitor_def ApplyServiceMonitor_def by (rule tame_unstructured)

lemma tame_sync_roles:
  assumes "files_ok (e_Assets env)" and "libraries_ok env"
  shows "tame (sync_roles env r annos)" and "tame (sync_prometheus env r annos)"
  unfolding sync_roles_def sync_prometheus_def
  by (intro tame_rules tame_namespaced tame_bindings tame_shipped assms)+

lemma tame_sync_bindings:
  assumes "files_ok (e_Assets env)"
  shows "tame (sync_bindings env r annos)"
  unfolding sync_bindings_def
  by (intro tame_rules tame_bindings tame_shipped assms)

lemma tame_sync_cluster_wide:
  assumes "crash_free env"
  shows "tame (sync_cluster_wide env r annos)"
proof -
  have "files_ok (e_Assets env)" "fields_ok (e_Assets env)" "libraries_ok env" "cluster_ok env"
    using assms by (simp_all add: crash_free_def)
  then show ?thesis
    unfolding sync_cluster_wide_def
    by (intro tame_rules tame_namespaced tame_api_service tame_priority_level tame_flow_schema tame_crds
        tame_network_policies tame_cluster_roles tame_shipped)
qed

lemma tame_operand:
  assumes "crash_free env"
  shows "tame (sync_operand env kueue tls r dep annos)"
proof -
  have ok: "files_ok (e_Assets env)" "fields_ok (e_Assets env)" "libraries_ok env"
    using assms by (simp_all add: crash_free_def)
  have config: "tame (sync_config env kueue tls r annos)" for annos
    unfolding sync_config_def
    by (intro tame_rules tame_config tame_namespaced tame_shipped ok)
  have webhooks: "tame (sync_webhooks env kueue r annos)" for annos
    unfolding sync_webhooks_def
    by (intro tame_rules tame_webhooks tame_namespaced tame_monitor tame_shipped ok)
  have deployment: "tame (sync_deployment env kueue r dep annos)" for annos
    unfolding sync_deployment_def by (intro tame_rules tame_deployment ok)
  show ?thesis
    unfolding sync_operand_def
    by (intro tame_bind config webhooks deployment tame_sync_roles tame_sync_cluster_wide
        tame_sync_bindings ok assms)
qed

text \<open>Waiting for a certificate does not run out of the fuel that the model gives it.\<close>
lemma tame_wait: "0 \<le> timeout \<Longrightarrow> tame (WaitForCertificateReady env ns c timeout)"
proof (rule tame_toI)
  fix w e w'
  assume "0 \<le> timeout" and "WaitForCertificateReady env ns c timeout w = (Inl e, w')"
  then have "wait_loop env ns c (w_Now w + timeout) (poll_fuel timeout) w = (Inl e, w')"
    by (simp add: WaitForCertificateReady_def go_bind_def go_read_def)
  then show "\<not> is_panic e"
    by (rule wait_loop_not_panic[rotated 2])
      (use poll_fuel_enough[OF \<open>0 \<le> timeout\<close>] in \<open>simp_all add: poll_fuel_def\<close>)
qed simp

lemma tame_certificates: "libraries_ok env \<Longrightarrow> tame (sync_certificates env kueue annos)"
  unfolding sync_certificates_def manageIssuerCR_def manageCertificateCR_def
  by (intro tame_rules tame_unstructured)

lemma tame_sync_tls: "tame (sync_tls env kueue)"
  unfolding sync_tls_def FetchAPIServerTLSProfile_def by (intro tame_rules) simp

lemma tame_dependencies: "tame (check_dependencies env kueue)"
  unfolding check_dependencies_def framework_dependencies_def require_operator_def
    isOperatorAvailability_def get_operator_config_def dra_dependencies_def update_dra_gates_def
    dra_apis_available_def isResourceRegistered_def isKubernetesMinorAtLeast_def Let_def
    isResourceRegisteredCached_def
  by (intro tame_rules) simp_all

lemma tame_finalizer: "tame (updateFinalizer env kueue add)"
  unfolding updateFinalizer_def update_finalizer_once_def api_GetKueue_def api_PatchKueue_def Let_def
  by (intro tame_rules)

lemma tame_cleanup: "tame (run_cleanup env)"
proof -
  have "tame (cleanUpWebhooks env)" "tame (cleanUpCertificatesAndIssuers env)" "tame (cleanUpClusterRoles env)"
    "tame (cleanUpClusterRoleBindings env)" "tame (cleanUpResources env)"
    unfolding cleanUpWebhooks_def cleanUpCertificatesAndIssuers_def cleanUpClusterRoles_def
      cleanUpClusterRoleBindings_def cleanUpResources_def cleanup_webhook_type_def
      cleanup_cert_manager_type_def cleanup_cluster_scoped_def try_collect_def delete_throttled_def
      delete_retried_def Let_def
    by (intro tame_rules)+
  then show ?thesis unfolding run_cleanup_def cleanup_steps_def by (intro tame_foreach) auto
qed

lemma tame_sync:
  assumes "crash_free env"
  shows "tame (sync env)"
proof -
  have ok: "libraries_ok env" using assms by (simp add: crash_free_def)
  have apply_all: "tame (sync_apply env k r dep)" for k r dep
    unfolding sync_apply_def sync_wait_def sync_reread_def cached_kueue_def
    by (intro tame_rules tame_certificates tame_wait tame_sync_tls tame_operand ok assms) simp_all
  have deletion: "tame (sync_deletion env k)" for k
    unfolding sync_deletion_def removeFinalizerFromKueueInstance_def
    by (intro tame_rules tame_cleanup tame_finalizer)
  show ?thesis
    unfolding sync_def cached_kueue_def sync_kueue_def isResourceRegisteredCached_def Let_def
      addFinalizerToKueueInstance_def sync_cert_manager_missing_def
    by (intro tame_rules tame_dependencies tame_finalizer apply_all deletion) simp
qed

section \<open>The operator never crashes\<close>

text \<open>C3. The operator never crashes: if the embedded manifests decode and have the fields that the code
  dereferences, the library functions report their errors instead of panicking, and every priority
  level on which users may tune the shares has shares, then no reconciliation panics, through any
  number of events, failures, retries and actions of others and for every content of the Kueue
  resource; every reconciliation ends with success or with an error that is retried.\<close>
theorem operator_never_crashes:
  assumes "controller_reachable E w s" and "\<forall>env \<in> E. crash_free env"
  shows "\<not> ct_Crashed s \<and> list_all no_panic (ct_Results s)"
  using assms(1)
proof (induction rule: controller_reachable.induct)
  case started
  then show ?case by (simp add: new_controller_def)
next
  case (continued s s')
  from continued(2) show ?case
  proof (cases rule: controller_step.cases)
    case (worker env bucket)
    then have "no_panic (fst (sync env (ct_World s)))"
      using assms(2) tame_sync[of env] tameD[of "sync env" "ct_World s"]
      by (cases "sync env (ct_World s)") (auto simp: no_panic_def)
    with worker continued(3) show ?thesis
      by (auto simp: processNextWorkItem_def take_work_item_def process_work_item_def reconcile_def
          Let_def split: option.splits prod.splits sum.splits got.splits)
  qed (use continued(3) in \<open>simp_all add: enqueueKeys_def\<close>)
qed

text \<open>Minimal manifests that satisfy the conditions, and a server that validates priority levels.\<close>
definition visibility_service :: ServiceReference where
  "visibility_service = \<lparr>sr_Namespace = [], sr_Name = ''kueue-visibility-server'', sr_Path = None, sr_Port = None\<rparr>"

definition served_webhook :: "string \<Rightarrow> Webhook" where
  "served_webhook n = \<lparr>wh_Name = n, wh_ClientConfig = \<lparr>wc_URL = None, wc_Service = Some visibility_service,
     wc_CABundle = []\<rparr>, wh_NamespaceSelector = None, wh_Rest = []\<rparr>"

definition plain_manifests :: Assets where
  "plain_manifests = \<lparr>a_Dir = (\<lambda>d. Inr [''file.yaml'']),
     a_ServiceAccount = (\<lambda>_. Some \<lparr>sa_TypeMeta = empty_type, sa_ObjectMeta = empty_meta\<lparr>om_Name := ''kueue''\<rparr>, sa_Rest = []\<rparr>),
     a_Service = (\<lambda>_. Some \<lparr>sv_TypeMeta = empty_type, sv_ObjectMeta = empty_meta\<lparr>om_Name := ''kueue''\<rparr>,
       sv_Spec = \<lparr>svs_Selector = Map.empty, svs_Type = [], svs_Rest = []\<rparr>\<rparr>),
     a_Role = (\<lambda>_. Some \<lparr>ro_TypeMeta = empty_type, ro_ObjectMeta = empty_meta\<lparr>om_Name := ''kueue''\<rparr>, ro_Rules = []\<rparr>),
     a_RoleBinding = (\<lambda>_. Some \<lparr>rb_TypeMeta = empty_type, rb_ObjectMeta = empty_meta\<lparr>om_Name := ''kueue''\<rparr>, rb_Subjects = [],
       rb_RoleRef = \<lparr>rr_APIGroup = [], rr_Kind = [], rr_Name = []\<rparr>\<rparr>),
     a_ClusterRole = (\<lambda>_. Some (role_named ''kueue-manager-role'')),
     a_ClusterRoleBinding = (\<lambda>_. Some \<lparr>crb_TypeMeta = empty_type, crb_ObjectMeta = empty_meta\<lparr>om_Name := ''kueue''\<rparr>,
       crb_Subjects = [], crb_RoleRef = \<lparr>rr_APIGroup = [], rr_Kind = [], rr_Name = []\<rparr>\<rparr>),
     a_MutatingWebhook = (\<lambda>_. Some \<lparr>mwc_TypeMeta = empty_type, mwc_ObjectMeta = empty_meta\<lparr>om_Name := ''kueue''\<rparr>,
       mwc_Webhooks = [served_webhook ''mpod.kb.io'']\<rparr>),
     a_ValidatingWebhook = (\<lambda>_. Some \<lparr>vwc_TypeMeta = empty_type, vwc_ObjectMeta = empty_meta\<lparr>om_Name := ''kueue''\<rparr>,
       vwc_Webhooks = [served_webhook ''vpod.kb.io'']\<rparr>),
     a_NetworkPolicy = (\<lambda>_. Some (plain_policy ''allow'')),
     a_PriorityLevel = (\<lambda>_. Some \<lparr>plc_TypeMeta = empty_type, plc_ObjectMeta = empty_meta\<lparr>om_Name := ''kueue''\<rparr>,
       plc_Spec = \<lparr>pls_Type = ''Limited'', pls_Limited = Some \<lparr>lim_NominalConcurrencyShares = Some 10,
         lim_Rest = []\<rparr>, pls_Exempt = None\<rparr>\<rparr>),
     a_FlowSchema = (\<lambda>_. Some \<lparr>fl_TypeMeta = empty_type, fl_ObjectMeta = empty_meta\<lparr>om_Name := ''kueue''\<rparr>, fl_Spec = []\<rparr>),
     a_CRD = (\<lambda>_. Some (plain_crd ''workloads'' ''v1'')),
     a_APIService = (\<lambda>_. Some \<lparr>as_TypeMeta = empty_type, as_ObjectMeta = empty_meta\<lparr>om_Name := ''kueue''\<rparr>,
       as_Spec = \<lparr>ass_Service = Some visibility_service, ass_InsecureSkipTLSVerify = True, ass_CABundle = [],
         ass_GroupPriorityMinimum = 0, ass_VersionPriority = 0, ass_Rest = []\<rparr>\<rparr>),
     a_Deployment = (\<lambda>_. Some plain_deployment)\<rparr>"

definition validating_env :: Env where
  "validating_env = reported_env\<lparr>e_Assets := plain_manifests,
     e_Interfere := \<lambda>n c. c\<lparr>c_PriorityLevels := filter (\<lambda>(_, p). concurrency_shares p \<noteq> None) (c_PriorityLevels c)\<rparr>\<rparr>"

lemma crash_free_validating: "crash_free validating_env"
proof -
  have "files_ok plain_manifests"
    by (simp add: files_ok_def decodes_def directory_decodes_def plain_manifests_def file_defs)
  moreover have "fields_ok plain_manifests"
    by (simp add: fields_ok_def plain_manifests_def list_all_iff concurrency_shares_def plain_deployment_def
        plain_container_def served_webhook_def has_service_def mutating_manifest_names_def
        validating_manifest_names_def)
  moreover have "libraries_ok validating_env"
    by (simp add: libraries_ok_def validating_env_def reported_env_def calm_env_def)
  moreover have "cluster_ok validating_env"
    by (auto simp: cluster_ok_def validating_env_def tunable_levels_limited_def list_all_iff)
  ultimately show ?thesis by (simp add: crash_free_def validating_env_def)
qed

theorem operator_never_crashes_witness:
  "crash_free validating_env \<and> \<not> ct_Crashed (processNextWorkItem validating_env 0 (processNextWorkItem
     validating_env 0 (enqueueKeys (new_controller (initial_world empty_cluster)))))"
proof -
  have "controller_reachable {validating_env} (initial_world empty_cluster) (processNextWorkItem validating_env 0
      (processNextWorkItem validating_env 0 (enqueueKeys (new_controller (initial_world empty_cluster)))))"
    by (rule continued[OF _ worker] | rule continued[OF started] | rule informer_event
       | simp add: new_controller_def)+
  from operator_never_crashes[OF this] crash_free_validating show ?thesis by simp
qed

end
