(* ===== verification/Rollout.thy ===== *)
theory Rollout
  imports Lifetime
begin

text \<open>
  The order of a reconciliation. Everything the operand needs is applied before its deployment, the
  status is written after it and describes the deployment that was applied, and the hashes of what was
  applied before reach the deployment, so that a new configuration restarts the operand.
\<close>

section \<open>Which kinds a program writes\<close>

text \<open>A request that only reads, or creates or updates an object of one of the kinds.\<close>
fun touches :: "kind set \<Rightarrow> call \<Rightarrow> bool" where
  "touches K (Create x) = (rkind x \<in> K)"
| "touches K (Update x) = (rkind x \<in> K)"
| "touches K c = (\<not> is_write c)"

lemma sends_touches_apply:
  assumes "\<And>x. rkind (cl_Object cl x) \<in> K"
  shows "sends (touches K) (apply_object env cl ns n x b f)"
    and "sends (touches K) (apply_object_cached env cl ns n x y f)"
  using assms by (auto intro!: sends_apply_object sends_apply_object_cached)

text \<open>The kinds that are applied before the deployment.\<close>
definition before_kinds :: "kind set" where
  "before_kinds = - {KDeployment}"

lemma sends_before_typed [sends_rules]:
  "sends (touches before_kinds) (ApplyRole env role)"
  "sends (touches before_kinds) (ApplyRoleBinding env rb)"
  "sends (touches before_kinds) (ApplyClusterRole env cr)"
  "sends (touches before_kinds) (ApplyClusterRoleBinding env crb)"
  "sends (touches before_kinds) (ApplyServiceAccountImproved env sa)"
  "sends (touches before_kinds) (ApplyServiceImproved env svc)"
  "sends (touches before_kinds) (ApplyNetworkPolicy env np)"
  "sends (touches before_kinds) (ApplyFlowSchema env fl)"
  "sends (touches before_kinds) (ApplyAPIService env api)"
  "sends (touches before_kinds) (ApplyMutatingWebhookConfigurationImproved env mwc)"
  "sends (touches before_kinds) (ApplyValidatingWebhookConfigurationImproved env vwc)"
  "sends (touches before_kinds) (ApplyConfigMapImproved env cm)"
  "sends (touches before_kinds) (ApplyCustomResourceDefinitionV1 env crd)"
  unfolding ApplyRole_def ApplyRoleBinding_def ApplyClusterRole_def ApplyClusterRoleBinding_def
    ApplyServiceAccountImproved_def ApplyServiceImproved_def ApplyNetworkPolicy_def ApplyFlowSchema_def
    ApplyAPIService_def ApplyMutatingWebhookConfigurationImproved_def
    ApplyValidatingWebhookConfigurationImproved_def ApplyConfigMapImproved_def
    ApplyCustomResourceDefinitionV1_def Let_def
  by (intro sends_bind sends_lift sends_touches_apply; simp add: client_defs before_kinds_def)+

lemma sends_before_priority_level [sends_rules]:
  "sends (touches before_kinds) (ApplyPriorityLevelConfiguration env want)"
  unfolding ApplyPriorityLevelConfiguration_def Let_def
  by (intro sends_rules) (simp_all add: client_defs before_kinds_def)

lemma sends_before_monitor [sends_rules]: "sends (touches before_kinds) (manageServiceMonitor env kueue)"
  unfolding manageServiceMonitor_def ApplyServiceMonitor_def
  by (rule sends_unstructured) (simp_all add: client_defs before_kinds_def)

lemmas manage_defs = manageConfigMap_def resolveGVRsToKinds_def buildAndApplyConfigMap_def
  manageServiceAccount_def manageRole_def manageRoleBindingsByNamespace_def manageService_def
  applyRoleWithCache_def applyRoleBindingWithCache_def manageRoleBindings_def manageSystemRoleBindings_def
  manageClusterRoleBindings_def manageClusterRoleBindingsWithoutNamespaceOverride_def
  manageOpenshiftClusterRolesBindingForKueue_def manageOpenshiftClusterRolesForKueue_def
  applyClusterRoleBindingWithCache_def applyClusterRoleWithCache_def manageFlowSchema_def
  managePriorityLevelConfiguration_def applyPriorityLevelConfigurationWithCache_def manageAPIService_def
  manageNetworkPolicies_def applyNetworkPolicyWithCache_def manageCustomResources_def
  applyCustomResourceDefinitionWithCache_def manageClusterRoles_def manageClusterRole_file_def
  manageMutatingWebhook_def manageValidatingWebhook_def

lemma sends_before_phases:
  "sends (touches before_kinds) (sync_config env kueue tls r annos)"
  "sends (touches before_kinds) (sync_roles env r annos)"
  "sends (touches before_kinds) (sync_prometheus env r annos)"
  "sends (touches before_kinds) (sync_cluster_wide env r annos)"
  "sends (touches before_kinds) (sync_bindings env r annos)"
  "sends (touches before_kinds) (sync_webhooks env kueue r annos)"
  unfolding sync_config_def sync_roles_def sync_prometheus_def sync_cluster_wide_def sync_bindings_def
    sync_webhooks_def sync_role_def sync_role_binding_def sync_service_def sync_cluster_role_binding_def
    manage_defs Let_def
  by (intro sends_rules; simp)+

lemma sends_manageDeployment: "sends (touches {KDeployment}) (manageDeployment env kueue annos r)"
  unfolding manageDeployment_def applyDeploymentWithCache_def ApplyDeployment_def
    ApplyDeploymentWithForce_def Let_def
  by (intro sends_rules sends_touches_apply) (simp_all add: client_defs)

section \<open>Everything before the deployment\<close>

text \<open>The phases that come before the deployment, in their order.\<close>
definition sync_before ::
  "Env \<Rightarrow> Kueue \<Rightarrow> TLSOptions option \<Rightarrow> OwnerReference \<Rightarrow> annotations \<Rightarrow> (World, annotations) go" where
  "sync_before env kueue tls r annos =
     go_bind (sync_config env kueue tls r annos) (\<lambda>annos.
     go_bind (sync_roles env r annos) (\<lambda>annos.
     go_bind (sync_prometheus env r annos) (\<lambda>annos.
     go_bind (sync_cluster_wide env r annos) (\<lambda>annos.
     go_bind (sync_bindings env r annos) (\<lambda>annos.
     sync_webhooks env kueue r annos)))))"

lemma go_bind_assoc: "go_bind (go_bind m f) g = go_bind m (\<lambda>x. go_bind (f x) g)"
  by (auto simp: go_bind_def split: prod.splits sum.splits)

lemma sync_operand_split:
  "sync_operand env kueue tls r dep annos =
     go_bind (sync_before env kueue tls r annos) (sync_deployment env kueue r dep)"
  unfolding sync_operand_def sync_before_def by (simp add: go_bind_assoc)

lemma sends_before: "sends (touches before_kinds) (sync_before env kueue tls r annos)"
  unfolding sync_before_def by (intro sends_bind sends_before_phases)


section \<open>Recorded hashes are kept\<close>

named_theorems keeps_rules \<open>rules that reduce \<open>keeps_entry\<close> of a program to its parts\<close>

text \<open>\<open>m\<close> returns annotations that have at \<open>k\<close> what \<open>annos\<close> have there.\<close>
definition keeps_entry :: "string \<Rightarrow> annotations \<Rightarrow> (World, annotations) go \<Rightarrow> bool" where
  "keeps_entry k annos m \<longleftrightarrow> (\<forall>w out w'. m w = (Inr out, w') \<longrightarrow> map_of out k = map_of annos k)"

lemma keeps_entryD: "keeps_entry k annos m \<Longrightarrow> m w = (Inr out, w') \<Longrightarrow> map_of out k = map_of annos k"
  by (auto simp: keeps_entry_def)

lemma keeps_return [keeps_rules]: "keeps_entry k annos (go_return annos)"
  by (simp add: keeps_entry_def go_return_def)
lemma keeps_update [keeps_rules]: "k' \<noteq> k \<Longrightarrow> keeps_entry k annos (go_return (AList.update k' h annos))"
  by (simp add: keeps_entry_def go_return_def update_conv')
lemma keeps_chain:
  "keeps_entry k annos m \<Longrightarrow> (\<And>a. keeps_entry k a (f a)) \<Longrightarrow> keeps_entry k annos (go_bind m f)"
  by (fastforce simp: keeps_entry_def go_bind_def split: prod.splits sum.splits)
lemma keeps_bind [keeps_rules]: "(\<And>x. keeps_entry k annos (f x)) \<Longrightarrow> keeps_entry k annos (go_bind m f)"
  by (fastforce simp: keeps_entry_def go_bind_def split: prod.splits sum.splits)
lemma keeps_if [keeps_rules]:
  "(b \<Longrightarrow> keeps_entry k annos m) \<Longrightarrow> (\<not> b \<Longrightarrow> keeps_entry k annos n) \<Longrightarrow> keeps_entry k annos (if b then m else n)"
  by simp
lemma keeps_prod [keeps_rules]:
  "(\<And>a b. x = (a, b) \<Longrightarrow> keeps_entry k annos (m a b)) \<Longrightarrow> keeps_entry k annos (case x of (a, b) \<Rightarrow> m a b)"
  by (cases x) auto
lemma keeps_foldM [keeps_rules]:
  "(\<And>a x. keeps_entry k a (f a x)) \<Longrightarrow> keeps_entry k annos (go_foldM f xs annos)"
  by (induction xs arbitrary: annos) (auto intro: keeps_rules keeps_chain)
lemma keeps_record [keeps_rules]: "k' \<noteq> k \<Longrightarrow> keeps_entry k annos (record_hash env k' obj msg annos)"
  unfolding record_hash_def by (intro keeps_rules)

text \<open>The keys that no phase after the configuration writes.\<close>
definition later_prefixes :: "string list" where
  "later_prefixes = [''serviceaccounts/'', ''role/'', ''rolebinding/'', ''service/'', ''clusterrolebinding/'',
     ''apiservice/'', ''prioritylevelconfiguration/'', ''flowschema/'', ''crd/'', ''networkpolicy/'',
     ''clusterrole/'', ''mutatingwebhook/'', ''validatingwebhook/'', ''servicemonitor/'']"

definition early_key :: "string \<Rightarrow> bool" where
  "early_key k = list_all (\<lambda>p. \<not> HasPrefix k p) later_prefixes"

lemma early_key_not_later: "early_key k \<Longrightarrow> p \<in> set later_prefixes \<Longrightarrow> p @ x \<noteq> k"
  by (auto simp: early_key_def list_all_iff)

lemma keeps_records [keeps_rules]:
  assumes "early_key k"
  shows "keeps_entry k annos (record_role env x annos)" "keeps_entry k annos (record_role_binding env y annos)"
    "keeps_entry k annos (record_cluster_role_binding env z annos)" "keeps_entry k annos (record_service env u annos)"
  unfolding record_role_def record_role_binding_def record_cluster_role_binding_def record_service_def
  by (intro keeps_rules early_key_not_later[OF assms]; simp add: later_prefixes_def)+

lemma keeps_parts [keeps_rules]:
  assumes "early_key k"
  shows "keeps_entry k annos (sync_role env p1 r annos)" "keeps_entry k annos (sync_role_binding env p2 r b annos)"
    "keeps_entry k annos (sync_service env p3 r annos)" "keeps_entry k annos (sync_cluster_role_binding env p4 r annos)"
    "keeps_entry k annos (manageAPIService env annos r)"
    "keeps_entry k annos (managePriorityLevelConfiguration env annos r)"
    "keeps_entry k annos (manageFlowSchema env annos r)" "keeps_entry k annos (manageCustomResources env annos)"
    "keeps_entry k annos (manageNetworkPolicies env annos r)" "keeps_entry k annos (manageClusterRoles env annos r)"
  unfolding sync_role_def sync_role_binding_def sync_service_def sync_cluster_role_binding_def
    manageAPIService_def managePriorityLevelConfiguration_def manageFlowSchema_def manageCustomResources_def
    manageNetworkPolicies_def manageClusterRoles_def manageClusterRole_file_def Let_def
  by (intro keeps_rules early_key_not_later[OF assms] assms; simp add: later_prefixes_def)+

lemma keeps_phases:
  assumes "early_key k"
  shows "keeps_entry k annos (sync_roles env r annos)" "keeps_entry k annos (sync_prometheus env r annos)"
    "keeps_entry k annos (sync_cluster_wide env r annos)" "keeps_entry k annos (sync_bindings env r annos)"
    "keeps_entry k annos (sync_webhooks env kueue r annos)"
proof -
  note parts = keeps_chain keeps_parts[OF assms] keeps_records[OF assms]
  show "keeps_entry k annos (sync_roles env r annos)" "keeps_entry k annos (sync_cluster_wide env r annos)"
    unfolding sync_roles_def sync_cluster_wide_def by (intro parts)+
  show "keeps_entry k annos (sync_prometheus env r annos)"
    unfolding sync_prometheus_def
    by (intro keeps_if keeps_return keeps_chain[OF keeps_parts(1)[OF assms]]
        keeps_chain[OF keeps_parts(2)[OF assms]] keeps_chain[OF keeps_parts(3)[OF assms]] keeps_bind keeps_prod
        keeps_records[OF assms])
  have rec: "keeps_entry k annos (record_hash env (p @ x) obj msg annos)" if "p \<in> set later_prefixes"
    for annos p x obj msg
    using early_key_not_later[OF assms that] by (rule keeps_record)
  show "keeps_entry k annos (sync_bindings env r annos)"
    unfolding sync_bindings_def
    by (intro keeps_bind[of _ _ _ "manageOpenshiftClusterRolesForKueue env r"] keeps_prod
        keeps_chain[OF rec] keeps_bind[of _ _ _ "manageOpenshiftClusterRolesBindingForKueue env r"]
        keeps_chain[OF keeps_records(3)[OF assms]] keeps_chain[OF keeps_parts(4)[OF assms]]
        keeps_chain[OF keeps_if] keeps_parts(4)[OF assms] keeps_return keeps_bind keeps_records[OF assms])
      (simp add: later_prefixes_def)
  show "keeps_entry k annos (sync_webhooks env kueue r annos)"
    unfolding sync_webhooks_def
    by (intro keeps_bind[of _ _ _ "manageMutatingWebhook env kueue r"] keeps_prod keeps_chain[OF rec]
        keeps_bind[of _ _ _ "manageValidatingWebhook env kueue r"] keeps_chain[OF keeps_parts(3)[OF assms]]
        keeps_if keeps_return keeps_bind rec) (simp_all add: later_prefixes_def)
qed


section \<open>The configuration reaches the deployment\<close>

lemma go_bind_InrE:
  assumes "go_bind m f w = (Inr y, w')"
  obtains x w1 where "m w = (Inr x, w1)" and "f x w1 = (Inr y, w')"
  using assms by (auto simp: go_bind_def split: prod.splits sum.splits)

lemma record_hash_entry:
  "record_hash env k obj msg annos w = (Inr out, w') \<Longrightarrow> \<exists>h. computeSpecHash env obj = Inr h \<and>
     map_of out = (map_of annos)(k \<mapsto> h)"
  by (auto simp: record_hash_def hash_go_def go_bind_def go_return_def go_throw_def update_conv'
      split: sum.splits)

text \<open>The first phase records the hash of the ConfigMap that was applied, and the service account's.\<close>
lemma sync_config_entry:
  assumes "sync_config env kueue tls r annos w = (Inr out, w')"
  shows "\<exists>cm changed w1 h. manageConfigMap env kueue tls w = (Inr (cm, changed), w1) \<and>
    computeSpecHash env (HData (cm_Data cm)) = Inr h \<and>
    (\<forall>k. early_key k \<longrightarrow> map_of out k =
       ((map_of annos)(''configmap/'' @ om_Name (cm_ObjectMeta cm) \<mapsto> h)) k)"
proof -
  obtain cm changed w1 annos1 w2 w3 and sa :: ServiceAccount where
    cm: "manageConfigMap env kueue tls w = (Inr (cm, changed), w1)" and
    rec: "record_hash env (''configmap/'' @ om_Name (cm_ObjectMeta cm)) (HData (cm_Data cm))
      ''failed to hash ConfigMap data'' annos w1 = (Inr annos1, w2)" and
    sa: "record_hash env (''serviceaccounts/'' @ om_Name (sa_ObjectMeta sa)) (HName (om_Name (sa_ObjectMeta sa)))
      ''failed to hash ServiceAccount'' annos1 w3 = (Inr out, w')"
    using assms unfolding sync_config_def
    by (auto simp del: append.simps elim!: go_bind_InrE)
  obtain h where h: "computeSpecHash env (HData (cm_Data cm)) = Inr h"
    "map_of annos1 = (map_of annos)(''configmap/'' @ om_Name (cm_ObjectMeta cm) \<mapsto> h)"
    using record_hash_entry[OF rec] by blast
  have "map_of out k = map_of annos1 k" if "early_key k" for k
  proof -
    have "''serviceaccounts/'' @ om_Name (sa_ObjectMeta sa) \<noteq> k"
      by (rule early_key_not_later[OF that]) (simp add: later_prefixes_def)
    with record_hash_entry[OF sa] show ?thesis by (auto simp del: append.simps)
  qed
  with cm h show ?thesis by auto
qed

lemma sync_before_entry:
  assumes "sync_before env kueue tls r annos w = (Inr out, w')" and "early_key k"
  shows "\<exists>first w1. sync_config env kueue tls r annos w = (Inr first, w1) \<and> map_of out k = map_of first k"
proof -
  obtain first w1 where config: "sync_config env kueue tls r annos w = (Inr first, w1)"
    and rest: "go_bind (sync_roles env r first) (\<lambda>annos. go_bind (sync_prometheus env r annos) (\<lambda>annos.
      go_bind (sync_cluster_wide env r annos) (\<lambda>annos. go_bind (sync_bindings env r annos) (\<lambda>annos.
      sync_webhooks env kueue r annos)))) w1 = (Inr out, w')" (is "?rest w1 = _")
    using assms(1) by (auto simp: sync_before_def go_bind_def[of "sync_config env kueue tls r annos"]
        split: prod.splits sum.splits)
  have "keeps_entry k first ?rest"
    by (intro keeps_chain keeps_phases assms(2))
  from keeps_entryD[OF this rest] config show ?thesis by blast
qed

lemma early_config_key: "early_key (''configmap/'' @ n)"
  by (simp add: early_key_def later_prefixes_def HasPrefix_def)

section \<open>The order of a reconciliation\<close>

text \<open>C5. The deployment comes last: the requests of a reconciliation of the operand are first requests
  that write no deployment and no status; if one of those phases fails nothing else is requested.
  Then come the requests that apply the deployment, which write nothing else, and only if that
  succeeds one request that writes the status, whose conditions and ready replicas are those of the
  deployment that was applied.\<close>
theorem deployment_applied_last:
  "\<exists>earlier. list_all (touches (- {KDeployment})) earlier \<and>
     (case sync_before env kueue tls r annos w of
        (Inl e, w1) \<Rightarrow> w_Trace w1 = w_Trace w @ earlier \<and>
          sync_operand env kueue tls r dep annos w = (Inl e, w1)
      | (Inr hashes, w1) \<Rightarrow> w_Trace w1 = w_Trace w @ earlier \<and>
          (\<exists>calls. list_all (touches {KDeployment}) calls \<and>
             (case manageDeployment env kueue hashes r w1 of
                (Inl e, w2) \<Rightarrow> w_Trace w2 = w_Trace w1 @ calls \<and>
                  sync_operand env kueue tls r dep annos w = (Inl e, w2)
              | (Inr (d, changed, k), w2) \<Rightarrow>
                  w_Trace (snd (sync_operand env kueue tls r dep annos w)) = w_Trace w1 @ calls @
                    [ApplyStatus \<lparr>sta_Conditions = SetApplyConditionsLastTransitionTime (w_Now w2)
                         (buildOperatorConditions d dep) (existing_conditions env k),
                       sta_ReadyReplicas = Some (dps_ReadyReplicas (de_Status d))\<rparr>])))"
proof -
  obtain res w1 where b: "sync_before env kueue tls r annos w = (res, w1)" by (meson surj_pair)
  obtain earlier where earlier: "w_Trace w1 = w_Trace w @ earlier" "list_all (touches (- {KDeployment})) earlier"
    using sendsD[OF sends_before b] by (auto simp: before_kinds_def)
  show ?thesis
  proof (cases res)
    case (Inl e)
    with b earlier show ?thesis
      by (intro exI[of _ earlier]) (auto simp: sync_operand_split go_bind_def)
  next
    case (Inr hashes)
    obtain res2 w2 where d: "manageDeployment env kueue hashes r w1 = (res2, w2)" by (meson surj_pair)
    obtain calls where calls: "w_Trace w2 = w_Trace w1 @ calls" "list_all (touches {KDeployment}) calls"
      using sendsD[OF sends_manageDeployment d] by blast
    show ?thesis
    proof (cases res2)
      case (Inl e)
      with b d Inr earlier calls show ?thesis
        by (intro exI[of _ earlier]) (auto simp: sync_operand_split go_bind_def sync_deployment_def)
    next
      case res2: (Inr x)
      obtain dd ch k where x: "x = (dd, ch, k)" by (cases x)
      have "w_Trace (snd (sync_operand env kueue tls r dep annos w)) = w_Trace (snd (updateKueueStatus env k
          (buildOperatorConditions dd dep) (Some (dps_ReadyReplicas (de_Status dd))) w2))"
        using b d Inr res2 x by (simp add: sync_operand_split go_bind_def sync_deployment_def)
      with status_request[of env k "buildOperatorConditions dd dep" "Some (dps_ReadyReplicas (de_Status dd))" w2]
        b d Inr res2 x earlier calls
      show ?thesis by (intro exI[of _ earlier]) auto
    qed
  qed
qed

end
