(* ===== verification/Progress.thy ===== *)
theory Progress
  imports No_Panic Rollout
begin

text \<open>
  The reconciliation of the operand succeeds if nobody disturbs it: from whatever state the cluster is in,
  the objects are created or brought up to date, the deployment is applied and the status is written. The
  hypotheses say what a reconciliation needs: requests that are answered, manifests with names and the
  fields the code uses, and a configuration whose fair-sharing weights are numbers.
\<close>

section \<open>Programs that succeed\<close>

named_theorems sure_rules \<open>rules that reduce \<open>sure\<close> of a program to its parts\<close>

text \<open>An untyped object as the server stores it: it has metadata, which converts to the typed form, and
  its specification is a map, if there is one.\<close>
definition stored_ok :: "Env \<Rightarrow> Unstructured \<Rightarrow> bool" where
  "stored_ok env u \<longleftrightarrow> (case NestedMap (us_Object u) [''metadata''] of
     Inr (Some m) \<Rightarrow> is_ok (e_MetaFromUnstructured env m) | _ \<Rightarrow> False) \<and> is_ok (nested_spec u)"

definition untyped_ok :: "Env \<Rightarrow> Cluster \<Rightarrow> bool" where
  "untyped_ok env c \<longleftrightarrow>
     list_all (\<lambda>(_, u). stored_ok env u) (c_Issuers c @ c_Certificates c @ c_ServiceMonitors c)"

text \<open>The Kueue resource is there and not being deleted, the priority levels are such that the operator
  does not crash, and the untyped objects are well-formed.\<close>
definition ready :: "Env \<Rightarrow> World \<Rightarrow> bool" where
  "ready env w \<longleftrightarrow> (case map_of (c_Kueues (w_Cluster w)) OperatorConfigName of None \<Rightarrow> False
       | Some k \<Rightarrow> om_Name (ku_ObjectMeta k) = OperatorConfigName \<and> om_DeletionTimestamp (ku_ObjectMeta k) = None) \<and>
     tunable_levels_limited (w_Cluster w) \<and> untyped_ok env (w_Cluster w)"

text \<open>\<open>m\<close> succeeds in a ready world, and leaves it ready.\<close>
definition sure :: "Env \<Rightarrow> (World, 'a) go \<Rightarrow> bool" where
  "sure env m \<longleftrightarrow> go_triple (ready env) m (\<lambda>_. ready env) (\<lambda>_ _. False)"

lemma sureD: "sure env m \<Longrightarrow> ready env w \<Longrightarrow> \<exists>x w'. m w = (Inr x, w') \<and> ready env w'"
  unfolding sure_def go_triple_def by (cases "m w"; cases "fst (m w)") fastforce+

lemma sureI: "(\<And>w. ready env w \<Longrightarrow> \<exists>x w'. m w = (Inr x, w') \<and> ready env w') \<Longrightarrow> sure env m"
  unfolding sure_def by (rule go_tripleI) fastforce+

lemma sure_return [sure_rules]: "sure env (go_return x)"
  unfolding sure_def by (rule go_return_wp)
lemma sure_read [sure_rules]: "sure env (go_read f)"
  unfolding sure_def by (rule go_read_wp)
lemma sure_modify [sure_rules]: "(\<And>w. w_Cluster (f w) = w_Cluster w) \<Longrightarrow> sure env (go_modify f)"
  unfolding sure_def by (rule go_triple_pre[OF go_modify_wp]) (simp add: ready_def)
lemma sure_lift: "r = Inr x \<Longrightarrow> sure env (go_lift r)"
  unfolding sure_def by (rule go_triple_pre[OF go_lift_wp]) simp
lemma sure_bind [sure_rules]: "sure env m \<Longrightarrow> (\<And>x. sure env (f x)) \<Longrightarrow> sure env (go_bind m f)"
  unfolding sure_def by (rule go_bind_wp)
lemma sure_bind_result:
  assumes "sure env m" and "\<And>w x w'. m w = (Inr x, w') \<Longrightarrow> Q x" and "\<And>x. Q x \<Longrightarrow> sure env (f x)"
  shows "sure env (go_bind m f)"
proof (rule sureI)
  fix w assume "ready env w"
  then obtain x w1 where "m w = (Inr x, w1)" "ready env w1" using sureD[OF assms(1)] by blast
  moreover from this(1) have "sure env (f x)" using assms(2,3) by blast
  ultimately show "\<exists>y w'. go_bind m f w = (Inr y, w') \<and> ready env w'"
    using sureD[of env "f x" w1] by (simp add: go_bind_def)
qed
lemma sure_bind_try:
  assumes "sure env m" and "\<And>x. sure env (f (Inr x))"
  shows "sure env (go_bind (go_try m) f)"
proof (rule sureI)
  fix w assume "ready env w"
  then obtain x w1 where "m w = (Inr x, w1)" "ready env w1" using sureD[OF assms(1)] by blast
  with sureD[OF assms(2)[of x]] show "\<exists>y w'. go_bind (go_try m) f w = (Inr y, w') \<and> ready env w'"
    by (simp add: go_bind_def go_try_def)
qed
lemma sure_seq [sure_rules]: "sure env m \<Longrightarrow> sure env n \<Longrightarrow> sure env (go_seq m n)"
  unfolding go_seq_def by (rule sure_bind)
lemma sure_if [sure_rules]: "(b \<Longrightarrow> sure env m) \<Longrightarrow> (\<not> b \<Longrightarrow> sure env n) \<Longrightarrow> sure env (if b then m else n)"
  by simp
lemma sure_when [sure_rules]: "(b \<Longrightarrow> sure env m) \<Longrightarrow> sure env (go_when b m)"
  by (simp add: go_when_def sure_return)
lemma sure_prod [sure_rules]: "(\<And>a b. x = (a, b) \<Longrightarrow> sure env (m a b)) \<Longrightarrow> sure env (case x of (a, b) \<Rightarrow> m a b)"
  by (cases x) auto
lemma sure_option [sure_rules]:
  "(x = None \<Longrightarrow> sure env m) \<Longrightarrow> (\<And>y. x = Some y \<Longrightarrow> sure env (n y)) \<Longrightarrow>
   sure env (case x of None \<Rightarrow> m | Some y \<Rightarrow> n y)"
  by (cases x) auto
lemma sure_foldM [sure_rules]: "(\<And>acc x. x \<in> set xs \<Longrightarrow> sure env (f acc x)) \<Longrightarrow> sure env (go_foldM f xs acc)"
  by (induction xs arbitrary: acc) (auto intro!: sure_rules)
lemma sure_local [sure_rules]:
  "sure env (Eventf s)" "sure env (ReportCreateEvent k r)" "sure env (ReportUpdateEvent k r)"
  "sure env (SafeToSkipApply env cl x y)" "sure env (UpdateCachedResourceMetadata env cl x y)"
  unfolding ReportCreateEvent_def ReportUpdateEvent_def Eventf_def SafeToSkipApply_def
    UpdateCachedResourceMetadata_def
  by (intro sure_rules; simp)+
lemma sure_remember [sure_rules]: "sure env m \<Longrightarrow> sure env (remember env cl x m)"
  unfolding remember_def by (intro sure_rules)

section \<open>Undisturbed requests\<close>

text \<open>No request fails and nobody else writes to the cluster.\<close>
definition quiet :: "Env \<Rightarrow> bool" where
  "quiet env \<longleftrightarrow> (\<forall>n. e_Fault env n = None) \<and> (\<forall>n. e_ListerFault env n = None) \<and> undisturbed env"

text \<open>A client whose writes touch neither the Kueue resource nor the priority levels nor untyped objects.\<close>
definition bystander :: "'o client \<Rightarrow> bool" where
  "bystander cl \<longleftrightarrow> (\<forall>f c. c_Kueues (cl_Put cl f c) = c_Kueues c \<and> c_PriorityLevels (cl_Put cl f c) = c_PriorityLevels c \<and>
     c_Issuers (cl_Put cl f c) = c_Issuers c \<and> c_Certificates (cl_Put cl f c) = c_Certificates c \<and>
     c_ServiceMonitors (cl_Put cl f c) = c_ServiceMonitors c)"

lemma quietD [simp]:
  assumes "quiet env"
  shows "e_Fault env n = None" "e_ListerFault env n = None" "e_Interfere env n c = c"
  using assms by (auto simp: quiet_def undisturbed_def)

lemma ready_before_call [simp]: "quiet env \<Longrightarrow> ready env (before_call env c w) = ready env w"
  by (simp add: ready_def before_call_def)

lemma ready_put: "bystander cl \<Longrightarrow> ready env w \<Longrightarrow> ready env (w\<lparr>w_Cluster := cl_Put cl f (w_Cluster w)\<rparr>)"
  by (simp add: ready_def bystander_def tunable_levels_limited_def untyped_ok_def)

lemma before_call_cluster [simp]: "quiet env \<Longrightarrow> w_Cluster (before_call env c w) = w_Cluster w"
  by (simp add: before_call_def)

text \<open>What an undisturbed request answers.\<close>
lemma get_run:
  "quiet env \<Longrightarrow> api_Get env cl ns name w = ((case map_of (cl_Store cl (w_Cluster w)) (ns, name) of
     None \<Rightarrow> Inl (ApiError NotFound name) | Some x \<Rightarrow> Inr x), before_call env (Get (cl_Kind cl) ns name) w)"
  by (auto simp: api_Get_def api_call_def before_call_def Let_def split: option.splits)

lemma sure_bind_get:
  assumes "quiet env" and "\<And>x. sure env (f (Inr x))" and "sure env (f (Inl (ApiError NotFound name)))"
  shows "sure env (go_bind (go_try (api_Get env cl ns name)) f)"
proof (rule sureI)
  fix w assume "ready env w"
  then have "ready env (before_call env (Get (cl_Kind cl) ns name) w)" using assms(1) by simp
  with sureD[OF assms(2)] sureD[OF assms(3)] assms(1)
  show "\<exists>y w'. go_bind (go_try (api_Get env cl ns name)) f w = (Inr y, w') \<and> ready env w'"
    by (auto simp: go_bind_def go_try_def get_run split: option.split)
qed

text \<open>Discovery may fail even so; the caller goes on.\<close>
lemma sure_try_discover: "quiet env \<Longrightarrow> sure env (go_try (discover env gv))"
  by (rule sureI) (auto simp: go_try_def discover_def api_call_def Let_def ready_def split: sum.splits)

lemma create_run:
  assumes "quiet env" and "map_of (cl_Store cl (w_Cluster w)) (ns, obj_name cl x) = None"
    and "\<And>y w. ready env w \<Longrightarrow> ready env (w\<lparr>w_Cluster := cl_Put cl (AList.update (ns, obj_name cl x) (cl_Admit cl y x)) (w_Cluster w)\<rparr>)"
    and "ready env w"
  shows "\<exists>r w'. create_and_report env cl ns x b w = (Inr r, w') \<and> ready env w'"
proof -
  have w: "ready env (before_call env (Create (cl_Object cl x)) w)" using assms(1,4) by simp
  obtain w' where "api_Create env cl ns x w = (Inr (cl_Admit cl (w_Calls w) x), w')" and "ready env w'"
    using assms(1,2) assms(3)[OF w] by (auto simp: api_Create_def api_call_def Let_def)
  then show ?thesis
    by (auto simp: create_and_report_def go_bind_def go_try_def go_seq_def ReportCreateEvent_def Eventf_def
        go_modify_def go_return_def ready_def)
qed

lemma update_run:
  assumes "quiet env" and "map_of (cl_Store cl (w_Cluster w)) (ns, obj_name cl x) = Some old"
    and "obj_version cl x = obj_version cl old"
    and "\<And>y w. ready env w \<Longrightarrow> ready env (w\<lparr>w_Cluster := cl_Put cl (AList.update (ns, obj_name cl x) (cl_Admit cl y x)) (w_Cluster w)\<rparr>)"
    and "ready env w"
  shows "\<exists>r w'. update_and_report env cl ns x w = (Inr r, w') \<and> ready env w'"
proof -
  have w: "ready env (before_call env (Update (cl_Object cl x)) w)" using assms(1,5) by simp
  obtain w' where "api_Update env cl ns x w = (Inr (cl_Admit cl (w_Calls w) x), w')" and "ready env w'"
    using assms(1-3) assms(4)[OF w] by (auto simp: api_Update_def api_call_def Let_def)
  then show ?thesis
    by (auto simp: update_and_report_def go_bind_def go_try_def go_seq_def ReportUpdateEvent_def Eventf_def
        go_modify_def go_return_def ready_def)
qed

text \<open>A merge that keeps the name under which the object is stored, and its version.\<close>
definition in_place :: "'o client \<Rightarrow> string \<Rightarrow> ('o \<Rightarrow> bool \<times> 'o) \<Rightarrow> bool" where
  "in_place cl name merge \<longleftrightarrow> (\<forall>existing. fst (merge existing) \<longrightarrow>
     obj_name cl (snd (merge existing)) = name \<and> obj_version cl (snd (merge existing)) = obj_version cl existing)"

lemma sure_apply:
  assumes "quiet env" and "bystander cl" and "obj_name cl toCreate = name" and "in_place cl name merge"
  shows "sure env (apply_object env cl ns name toCreate b merge)"
proof (rule sureI)
  fix w assume ready: "ready env w"
  let ?w = "before_call env (Get (cl_Kind cl) ns name) w"
  have w: "ready env ?w" "w_Cluster ?w = w_Cluster w" using ready assms(1) by simp_all
  note put = ready_put[OF assms(2)]
  show "\<exists>x w'. apply_object env cl ns name toCreate b merge w = (Inr x, w') \<and> ready env w'"
  proof (cases "map_of (cl_Store cl (w_Cluster w)) (ns, name)")
    case None
    then have "apply_object env cl ns name toCreate b merge w = create_and_report env cl ns toCreate b ?w"
      using assms(1) by (simp add: apply_object_def go_bind_def go_try_def get_run IsNotFound_def)
    with create_run[OF assms(1) _ put w(1)] None assms(3) w(2) show ?thesis by simp
  next
    case (Some old)
    have run: "apply_object env cl ns name toCreate b merge w = (if \<not> fst (merge old)
        then go_return (snd (merge old), False) else update_and_report env cl ns (snd (merge old))) ?w"
      using assms(1) Some by (simp add: apply_object_def go_bind_def go_try_def get_run case_prod_beta)
    show ?thesis
      using run update_run[OF assms(1) _ _ put w(1), of ns "snd (merge old)" old] Some assms(4) w
      by (auto simp: in_place_def go_return_def split: if_splits)
  qed
qed

lemma sure_apply_cached:
  assumes "quiet env" and "bystander cl" and "obj_name cl toCreate = name" and "in_place cl name merge"
  shows "sure env (apply_object_cached env cl ns name required toCreate merge)"
proof (rule sureI)
  fix w assume ready: "ready env w"
  let ?w = "before_call env (Get (cl_Kind cl) ns name) w"
  have w: "ready env ?w" "w_Cluster ?w = w_Cluster w" using ready assms(1) by simp_all
  note put = ready_put[OF assms(2)]
  have remembered: "\<exists>x w'. remember env cl required m ?w = (Inr x, w') \<and> ready env w'"
    if "\<exists>x w'. m ?w = (Inr x, w') \<and> ready env w'" for m
  proof -
    obtain x w1 where m: "m ?w = (Inr x, w1)" "ready env w1" using \<open>\<exists>x w'. m ?w = (Inr x, w') \<and> ready env w'\<close> by blast
    have "sure env (go_seq (UpdateCachedResourceMetadata env cl required (fst x)) (go_return x))"
      by (intro sure_rules)
    from sureD[OF this m(2)] m(1) show ?thesis by (simp add: remember_def go_bind_def)
  qed
  show "\<exists>x w'. apply_object_cached env cl ns name required toCreate merge w = (Inr x, w') \<and> ready env w'"
  proof (cases "map_of (cl_Store cl (w_Cluster w)) (ns, name)")
    case None
    then have "apply_object_cached env cl ns name required toCreate merge w =
        remember env cl required (create_and_report env cl ns toCreate True) ?w"
      using assms(1) by (simp add: apply_object_cached_def go_bind_def go_try_def get_run IsNotFound_def)
    with remembered create_run[OF assms(1) _ put w(1)] None assms(3) w(2) show ?thesis by simp
  next
    case (Some old)
    have run: "apply_object_cached env cl ns name required toCreate merge w =
        (if safe_to_skip (w_Cache ?w) env cl required old then go_return (old, False)
         else remember env cl required (if \<not> fst (merge old) then go_return (snd (merge old), False)
           else update_and_report env cl ns (snd (merge old)))) ?w"
      using assms(1) Some
      by (simp add: apply_object_cached_def go_bind_def go_try_def get_run case_prod_beta SafeToSkipApply_def
          go_read_def)
    let ?m = "if \<not> fst (merge old) then go_return (snd (merge old), False)
       else update_and_report env cl ns (snd (merge old))"
    have "\<exists>x w'. ?m ?w = (Inr x, w') \<and> ready env w'"
      using update_run[OF assms(1) _ _ put w(1), of ns "snd (merge old)" old] Some assms(4) w
      by (auto simp: in_place_def go_return_def split: if_splits)
    then have "\<exists>x w'. remember env cl required ?m ?w = (Inr x, w') \<and> ready env w'" by (rule remembered)
    with run w(1) show ?thesis by (auto simp: go_return_def split: if_splits)
  qed
qed

lemma sure_with_cache:
  assumes "quiet env" and "sure env m"
  shows "sure env (apply_with_cache env cl ns required m)"
proof (rule sureI)
  fix w assume "ready env w"
  have "\<exists>x w'. remember env cl required m w = (Inr x, w') \<and> ready env w'"
    using sureD[OF sure_remember[OF assms(2)] \<open>ready env w\<close>] .
  with \<open>ready env w\<close> assms(1) show "\<exists>x w'. apply_with_cache env cl ns required m w = (Inr x, w') \<and> ready env w'"
    by (auto simp: apply_with_cache_def go_bind_def go_try_def lister_run IsNotFound_def
        SafeToSkipApply_def go_read_def go_return_def split: option.split)
qed


section \<open>Applying the kinds of the operator\<close>

context merge_kind
begin

lemma merge_in_place: "obj_name cl required = name \<Longrightarrow> name \<noteq> [] \<Longrightarrow> in_place cl name (merge required)"
  by (simp add: in_place_def obj_name_def obj_version_def merge_meta EnsureObjectMeta_fields)

lemma sure_apply_merge:
  assumes "quiet env" and "bystander cl" and "obj_name cl required = name" and "name \<noteq> []"
  shows "sure env (apply_object env cl ns name (clean cl required) b (merge required))"
    and "sure env (apply_object_cached env cl ns name required (clean cl required) (merge required))"
  by (intro sure_apply sure_apply_cached assms(1,2) merge_in_place[OF assms(3,4)]; simp add: clean_name assms(3))+

end

lemma bystanders [simp]:
  "bystander (ConfigMaps env)" "bystander (ServiceAccounts env)" "bystander (Services env)"
  "bystander (Roles env)" "bystander (RoleBindings env)" "bystander (ClusterRoles env)"
  "bystander (ClusterRoleBindings env)" "bystander (MutatingWebhookConfigurations env)"
  "bystander (ValidatingWebhookConfigurations env)" "bystander (NetworkPolicies env)"
  "bystander (FlowSchemas env)" "bystander (CustomResourceDefinitions env)" "bystander (APIServices env)"
  "bystander (Deployments env)"
  by (simp_all add: bystander_def client_defs)

interpretation config_map: merge_kind "ConfigMaps env" merge_ConfigMap for env
  by unfold_locales (simp_all add: ConfigMaps_def merge_ConfigMap_def merge_laws)

lemma sure_typed:
  assumes "quiet env"
  shows "om_Name (ro_ObjectMeta role) \<noteq> [] \<Longrightarrow> sure env (ApplyRole env role)"
    and "om_Name (rb_ObjectMeta rb) \<noteq> [] \<Longrightarrow> sure env (ApplyRoleBinding env rb)"
    and "om_Name (cro_ObjectMeta cr) \<noteq> [] \<Longrightarrow> sure env (ApplyClusterRole env cr)"
    and "om_Name (crb_ObjectMeta crb) \<noteq> [] \<Longrightarrow> sure env (ApplyClusterRoleBinding env crb)"
    and "om_Name (sa_ObjectMeta sa) \<noteq> [] \<Longrightarrow> sure env (ApplyServiceAccountImproved env sa)"
    and "om_Name (np_ObjectMeta np) \<noteq> [] \<Longrightarrow> sure env (ApplyNetworkPolicy env np)"
    and "om_Name (fl_ObjectMeta fl) \<noteq> [] \<Longrightarrow> sure env (ApplyFlowSchema env fl)"
    and "om_Name (as_ObjectMeta api) \<noteq> [] \<Longrightarrow> sure env (ApplyAPIService env api)"
    and "om_Name (mwc_ObjectMeta mwc) \<noteq> [] \<Longrightarrow> sure env (ApplyMutatingWebhookConfigurationImproved env mwc)"
    and "om_Name (vwc_ObjectMeta vwc) \<noteq> [] \<Longrightarrow> sure env (ApplyValidatingWebhookConfigurationImproved env vwc)"
    and "om_Name (cm_ObjectMeta cm) \<noteq> [] \<Longrightarrow> sure env (ApplyConfigMapImproved env cm)"
  unfolding ApplyRole_def ApplyRoleBinding_def ApplyClusterRole_def ApplyClusterRoleBinding_def
    ApplyServiceAccountImproved_def ApplyNetworkPolicy_def ApplyFlowSchema_def ApplyAPIService_def
    ApplyMutatingWebhookConfigurationImproved_def ApplyValidatingWebhookConfigurationImproved_def
    ApplyConfigMapImproved_def
  by (rule role.sure_apply_merge role_binding.sure_apply_merge cluster_role.sure_apply_merge
      cluster_role_binding.sure_apply_merge service_account.sure_apply_merge network_policy.sure_apply_merge
      flow_schema.sure_apply_merge api_service.sure_apply_merge mutating_webhook.sure_apply_merge
      validating_webhook.sure_apply_merge config_map.sure_apply_merge;
      simp add: assms obj_name_def; simp add: client_defs)+

lemma sure_ApplyCRD:
  assumes "quiet env" and "om_Name (crd_ObjectMeta crd) \<noteq> []"
  shows "sure env (ApplyCustomResourceDefinitionV1 env crd)"
  unfolding ApplyCustomResourceDefinitionV1_def
  by (rule sure_apply[OF assms(1) bystanders(12)])
    (use assms(2) in \<open>auto simp: obj_name_def obj_version_def in_place_def clean_def client_defs merge_CRD_def
      EnsureCustomResourceDefinitionV1_def Let_def case_prod_beta EnsureObjectMeta_fields
      WithCleanLabelsAndAnnotations_def\<close>)

text \<open>The marshalling functions of the libraries succeed on the values the operator passes to them, and
  the directories of the assets can be read.\<close>
definition libraries_succeed :: "Env \<Rightarrow> bool" where
  "libraries_succeed env \<longleftrightarrow> (\<forall>h. is_ok (e_Marshal env h)) \<and> (\<forall>c. is_ok (e_YamlMarshal env c))"

lemma spec_hash_succeeds:
  assumes "libraries_succeed env"
  shows "\<exists>m'. SetSpecHashAnnotation env m h = Inr m' \<and> om_Name m' = om_Name m \<and>
    map_of (om_Annotations m') specHashAnnotation \<noteq> None"
proof -
  have "is_ok (e_Marshal env h)" using assms by (simp add: libraries_succeed_def)
  then show ?thesis
    by (cases "e_Marshal env h") (auto simp: SetSpecHashAnnotation_def update_conv')
qed

lemma sure_ApplyService:
  assumes "quiet env" and "libraries_succeed env" and "om_Name (sv_ObjectMeta svc) \<noteq> []"
  shows "sure env (ApplyServiceImproved env svc)"
proof -
  obtain m where m: "SetSpecHashAnnotation env (sv_ObjectMeta svc) (HService (sv_Spec svc)) = Inr m"
      "om_Name m = om_Name (sv_ObjectMeta svc)"
    using spec_hash_succeeds[OF assms(2)] by blast
  have "sure env (apply_object_cached env (Services env) ns (om_Name m) (svc\<lparr>sv_ObjectMeta := m\<rparr>)
      (clean (Services env) (svc\<lparr>sv_ObjectMeta := m\<rparr>)) (merge_Service (svc\<lparr>sv_ObjectMeta := m\<rparr>)))" for ns
    by (rule service.sure_apply_merge[OF assms(1) bystanders(3)]) (use assms m in \<open>simp_all add: obj_name_def client_defs\<close>)
  then show ?thesis
    by (simp add: ApplyServiceImproved_def m(1) go_bind_def go_lift_def Let_def)
qed

lemma sure_ApplyDeployment:
  assumes "quiet env" and "libraries_succeed env" and "om_Name (de_ObjectMeta d) \<noteq> []"
  shows "sure env (ApplyDeployment env d g)"
proof -
  obtain m where m: "SetSpecHashAnnotation env (de_ObjectMeta d) (HDeployment (de_Spec d)) = Inr m"
      "om_Name m = om_Name (de_ObjectMeta d)" "map_of (om_Annotations m) specHashAnnotation \<noteq> None"
    using spec_hash_succeeds[OF assms(2)] by blast
  let ?d = "d\<lparr>de_ObjectMeta := m\<rparr>"
  have "in_place (Deployments env) (om_Name m) (merge_Deployment ?d g)"
    by (rule deployment.merge_in_place) (use assms m in \<open>simp_all add: obj_name_def client_defs\<close>)
  then have "sure env (apply_object env (Deployments env) ns (om_Name m) ?d True (merge_Deployment ?d g))" for ns
    by (rule sure_apply[OF assms(1) bystanders(14), rotated]) (simp_all add: obj_name_def client_defs)
  then show ?thesis
    using m(3) by (simp add: ApplyDeployment_def ApplyDeploymentWithForce_def m(1) go_bind_def go_lift_def go_return_def)
qed


text \<open>The server does not take the shares of a priority level away.\<close>
definition keeps_shares :: "Env \<Rightarrow> bool" where
  "keeps_shares env \<longleftrightarrow>
     (\<forall>n x. concurrency_shares x \<noteq> None \<longrightarrow> concurrency_shares (srv_PriorityLevel (e_Server env) n x) \<noteq> None)"

lemma in_update: "x \<in> set (AList.update k v xs) \<Longrightarrow> x = (k, v) \<or> x \<in> set xs"
  by (induction xs) (auto split: if_splits)

lemma ready_put_level:
  assumes "ready env w" and "keeps_shares env" and "concurrency_shares p \<noteq> None"
  shows "ready env (w\<lparr>w_Cluster := cl_Put (PriorityLevelConfigurations env) (AList.update k
    (cl_Admit (PriorityLevelConfigurations env) n p)) (w_Cluster w)\<rparr>)"
  using assms
  by (auto simp: ready_def PriorityLevelConfigurations_def tunable_levels_limited_def untyped_ok_def list_all_iff keeps_shares_def
      split: option.splits dest!: in_update)

lemma sure_ApplyPriorityLevel:
  assumes "quiet env" and "keeps_shares env" and "om_Name (plc_ObjectMeta want) \<noteq> []"
    and "concurrency_shares want \<noteq> None"
  shows "sure env (ApplyPriorityLevelConfiguration env want)"
proof (rule sureI)
  fix w assume ready: "ready env w"
  let ?cl = "PriorityLevelConfigurations env" and ?n = "om_Name (plc_ObjectMeta want)"
  let ?w = "before_call env (Get (cl_Kind ?cl) [] ?n) w"
  have w: "ready env ?w" "w_Cluster ?w = w_Cluster w" using ready assms(1) by simp_all
  have put: "ready env (w\<lparr>w_Cluster := cl_Put ?cl (AList.update k (cl_Admit ?cl n p)) (w_Cluster w)\<rparr>)"
    if "ready env w" "concurrency_shares p \<noteq> None" for w k n p
    using that assms(2) by (intro ready_put_level)
  show "\<exists>x w'. ApplyPriorityLevelConfiguration env want w = (Inr x, w') \<and> ready env w'"
  proof (cases "map_of (cl_Store ?cl (w_Cluster w)) ([], ?n)")
    case None
    let ?new = "clean ?cl want"
    have new: "obj_name ?cl ?new = ?n" "concurrency_shares ?new = concurrency_shares want"
      by (simp_all add: obj_name_def clean_def PriorityLevelConfigurations_def concurrency_shares_def
          WithCleanLabelsAndAnnotations_def)
    have "ApplyPriorityLevelConfiguration env want w = create_and_report env ?cl [] ?new False ?w"
      using assms(1) None
      by (simp add: ApplyPriorityLevelConfiguration_def go_bind_def go_try_def get_run IsNotFound_def)
    with create_run[OF assms(1) _ put w(1), of "[]" ?new False] None new assms(4) w(2)
    show ?thesis by simp
  next
    case (Some old)
    let ?m = "EnsureObjectMeta False (plc_ObjectMeta old) (plc_ObjectMeta want)"
    let ?new = "old\<lparr>plc_ObjectMeta := snd ?m, plc_Spec := plc_Spec want\<rparr>"
    have new: "obj_name ?cl ?new = ?n" "obj_version ?cl ?new = obj_version ?cl old"
        "concurrency_shares ?new = concurrency_shares want"
      using assms(3) by (simp_all add: obj_name_def obj_version_def PriorityLevelConfigurations_def
          concurrency_shares_def EnsureObjectMeta_fields)
    have "(([], ?n), old) \<in> set (c_PriorityLevels (w_Cluster w))"
      using Some by (auto simp: PriorityLevelConfigurations_def dest: map_of_SomeD)
    then have "map_of (om_Annotations (plc_ObjectMeta old)) annotationAllowNominalConcurrencySharesUpdate = Some ''true''
        \<longrightarrow> concurrency_shares old \<noteq> None"
      using ready by (auto simp: ready_def tunable_levels_limited_def list_all_iff)
    then have "is_ok (keeps_user_shares want old)"
      using assms(4) by (auto simp: keeps_user_shares_def split: option.splits)
    then obtain keep where keep: "keeps_user_shares want old = Inr keep"
      by (cases "keeps_user_shares want old") auto
    have "ApplyPriorityLevelConfiguration env want w = (if \<not> fst ?m \<and> plc_Spec old = plc_Spec want \<or> keep
        then go_return (old, False) else update_and_report env ?cl [] ?new) ?w"
      using assms(1) Some keep
      by (simp add: ApplyPriorityLevelConfiguration_def go_bind_def go_try_def get_run case_prod_beta go_lift_def)
    with update_run[OF assms(1) _ _ put w(1), of "[]" ?new old] Some new assms(4) w show ?thesis
      by (auto simp: go_return_def)
  qed
qed

section \<open>Untyped objects\<close>

text \<open>The conversion of metadata keeps the name and the version in both directions, and what it writes it
  can read.\<close>
definition conversion_ok :: "Env \<Rightarrow> bool" where
  "conversion_ok env \<longleftrightarrow>
     (\<forall>m t. e_MetaFromUnstructured env m = Inr t \<longrightarrow>
        om_Name t = getNestedString m [''name''] \<and> om_ResourceVersion t = getNestedString m [''resourceVersion'']) \<and>
     (\<forall>t. \<exists>m. e_MetaToUnstructured env t = Inr m \<and> is_ok (e_MetaFromUnstructured env m) \<and>
        getNestedString m [''name''] = om_Name t \<and> getNestedString m [''resourceVersion''] = om_ResourceVersion t)"

text \<open>The server stores well-formed objects as such, and does not rename or delete the Kueue resource.\<close>
definition server_ok :: "Env \<Rightarrow> bool" where
  "server_ok env \<longleftrightarrow> (\<forall>n u. stored_ok env u \<longrightarrow> stored_ok env (srv_Unstructured (e_Server env) n u)) \<and>
     (\<forall>n k. om_Name (ku_ObjectMeta (srv_Kueue (e_Server env) n k)) = om_Name (ku_ObjectMeta k) \<and>
        om_DeletionTimestamp (ku_ObjectMeta (srv_Kueue (e_Server env) n k)) = om_DeletionTimestamp (ku_ObjectMeta k))"

lemma stored_okE:
  assumes "stored_ok env u"
  obtains m t where "us_Object u ''metadata'' = Some (JObj m)" "e_MetaFromUnstructured env m = Inr t"
    "NestedMap (us_Object u) [''metadata''] = Inr (Some m)" "is_ok (nested_spec u)"
proof -
  obtain m where m: "NestedMap (us_Object u) [''metadata''] = Inr (Some m)" "is_ok (e_MetaFromUnstructured env m)"
    using assms by (auto simp: stored_ok_def split: sum.splits option.splits)
  then have "us_Object u ''metadata'' = Some (JObj m)"
    by (auto simp: nested_defs split: option.splits sum.splits elim!: as_map.elims)
  with m assms that show thesis by (cases "e_MetaFromUnstructured env m") (auto simp: stored_ok_def)
qed

lemma metadata_string:
  assumes "us_Object u ''metadata'' = Some (JObj m)"
  shows "GetName u = getNestedString m [''name'']" "GetResourceVersion u = getNestedString m [''resourceVersion'']"
  using assms by (simp_all add: nested_defs split: option.split)

lemma metadata_merged:
  assumes "conversion_ok env" and "stored_ok env ex" and "stored_ok env req" and "GetName req \<noteq> []"
  shows "\<exists>b e. EnsureObjectMetaForUnstructured env ex req = Inr (b, e) \<and> stored_ok env e \<and>
    GetName e = GetName req \<and> GetResourceVersion e = GetResourceVersion ex"
proof -
  obtain m t where m: "us_Object ex ''metadata'' = Some (JObj m)" "e_MetaFromUnstructured env m = Inr t"
    "NestedMap (us_Object ex) [''metadata''] = Inr (Some m)" "is_ok (nested_spec ex)"
    using stored_okE[OF assms(2)] .
  obtain m' t' where m': "us_Object req ''metadata'' = Some (JObj m')" "e_MetaFromUnstructured env m' = Inr t'"
    "NestedMap (us_Object req) [''metadata''] = Inr (Some m')"
    using stored_okE[OF assms(3)] .
  have fields: "om_Name t = GetName ex" "om_ResourceVersion t = GetResourceVersion ex" "om_Name t' = GetName req"
    using assms(1) m(2) m'(2) by (simp_all add: conversion_ok_def metadata_string[OF m(1)] metadata_string[OF m'(1)])
  let ?M = "EnsureObjectMeta False t t'"
  have name: "om_Name (snd ?M) = GetName req" "om_ResourceVersion (snd ?M) = GetResourceVersion ex"
    using assms(4) fields by (simp_all add: EnsureObjectMeta_fields)
  show ?thesis
  proof (cases "fst ?M")
    case True
    obtain n where "e_MetaToUnstructured env (snd ?M) = Inr n" "is_ok (e_MetaFromUnstructured env n)"
      "getNestedString n [''name''] = om_Name (snd ?M)"
      "getNestedString n [''resourceVersion''] = om_ResourceVersion (snd ?M)"
      using assms(1) unfolding conversion_ok_def by blast
    note n = this[unfolded name]
    let ?e = "ex\<lparr>us_Object := (us_Object ex)(''metadata'' \<mapsto> JObj n)\<rparr>"
    have "EnsureObjectMetaForUnstructured env ex req = Inr (True, ?e)"
      using True m m' n(1) by (simp add: EnsureObjectMetaForUnstructured_def case_prod_beta)
    moreover have "stored_ok env ?e" using n(2) m(4) by (simp add: stored_ok_def nested_defs nested_spec_def)
    ultimately show ?thesis using n(3,4) metadata_string[of ?e n] by auto
  next
    case False
    then have "GetName ex = GetName req" using EnsureObjectMeta_unmodified[OF False] name fields by simp
    moreover have "EnsureObjectMetaForUnstructured env ex req = Inr (False, ex)"
      using False m m' by (simp add: EnsureObjectMetaForUnstructured_def case_prod_beta)
    ultimately show ?thesis using assms(2) by blast
  qed
qed

lemma spec_merged:
  assumes "stored_ok env ex" and "stored_ok env req"
  shows "\<exists>b e. ensureGenericSpec req ex = Inr (b, e) \<and> stored_ok env e \<and>
    GetName e = GetName ex \<and> GetResourceVersion e = GetResourceVersion ex"
proof -
  obtain m t where m: "us_Object ex ''metadata'' = Some (JObj m)" "e_MetaFromUnstructured env m = Inr t"
    using stored_okE[OF assms(1)] .
  obtain x y where xy: "nested_spec req = Inr x" "nested_spec ex = Inr y"
    using assms by (cases "nested_spec req"; cases "nested_spec ex") (auto simp: stored_ok_def)
  let ?e = "ex\<lparr>us_Object := SetNestedMap (us_Object ex) x ''spec''\<rparr>"
  have e: "us_Object ?e ''metadata'' = Some (JObj m)" using m(1) by (simp add: SetNestedMap_def)
  have "stored_ok env ?e" using m by (simp add: stored_ok_def nested_defs nested_spec_def SetNestedMap_def)
  then show ?thesis
    using xy assms(1) metadata_string[OF e] metadata_string[OF m(1)] by (auto simp: ensureGenericSpec_def)
qed

lemma untyped_merged:
  assumes "conversion_ok env" and "stored_ok env ex" and "stored_ok env req" and "GetName req \<noteq> []"
  shows "\<exists>b e. merge_Unstructured env req ex = Inr (b, e) \<and> stored_ok env e \<and>
    GetName e = GetName req \<and> GetResourceVersion e = GetResourceVersion ex"
proof -
  obtain b e where e: "EnsureObjectMetaForUnstructured env ex req = Inr (b, e)" "stored_ok env e"
      "GetName e = GetName req" "GetResourceVersion e = GetResourceVersion ex"
    using metadata_merged[OF assms] by blast
  from spec_merged[OF e(2) assms(3)] e show ?thesis by (auto simp: merge_Unstructured_def)
qed

text \<open>The clients of untyped objects.\<close>
definition untyped_client :: "Env \<Rightarrow> Unstructured client \<Rightarrow> bool" where
  "untyped_client env cl \<longleftrightarrow> cl_Meta cl = unstructured_meta \<and> cl_Admit cl = srv_Unstructured (e_Server env) \<and>
     (\<forall>w k u. ready env w \<longrightarrow> map_of (cl_Store cl (w_Cluster w)) k = Some u \<longrightarrow> stored_ok env u) \<and>
     (\<forall>w k u. ready env w \<longrightarrow> stored_ok env u \<longrightarrow> ready env (w\<lparr>w_Cluster := cl_Put cl (AList.update k u) (w_Cluster w)\<rparr>))"

lemma untyped_clients:
  "untyped_client env (Issuers env)" "untyped_client env (Certificates env)" "untyped_client env (ServiceMonitors env)"
  by (auto simp: untyped_client_def Issuers_def Certificates_def ServiceMonitors_def ready_def untyped_ok_def
      tunable_levels_limited_def list_all_iff dest: map_of_SomeD dest!: in_update)

lemma sure_untyped:
  assumes "quiet env" and "conversion_ok env" and "server_ok env" and cl: "untyped_client env cl"
    and req: "stored_ok env required" "GetName required \<noteq> []"
  shows "sure env (ApplyUnstructuredResourceImproved env cl cached required)"
proof (rule sureI)
  fix w assume ready: "ready env w"
  let ?ns = "GetNamespace required" and ?n = "GetName required"
  let ?w = "before_call env (Get (cl_Kind cl) ?ns ?n) w"
  let ?remember = "\<lambda>r m. if cached then remember env cl r m else m"
  have w: "ready env ?w" "w_Cluster ?w = w_Cluster w" using ready assms(1) by simp_all
  have meta: "obj_name cl u = GetName u" "obj_version cl u = GetResourceVersion u" for u
    using cl by (simp_all add: untyped_client_def obj_name_def obj_version_def unstructured_meta_def)
  have put: "ready env (w\<lparr>w_Cluster := cl_Put cl (AList.update k (cl_Admit cl n u)) (w_Cluster w)\<rparr>)"
    if "ready env w" "stored_ok env u" for w k n u
    using that cl assms(3) by (cases k) (simp add: untyped_client_def server_ok_def)
  have remembered: "\<exists>x w'. ?remember r m ?w = (Inr x, w') \<and> ready env w'"
    if "\<exists>x w'. m ?w = (Inr x, w') \<and> ready env w'" for r m
  proof -
    obtain x w1 where m: "m ?w = (Inr x, w1)" "ready env w1" using \<open>\<exists>x w'. m ?w = (Inr x, w') \<and> ready env w'\<close> by blast
    have "sure env (go_seq (UpdateCachedResourceMetadata env cl r (fst x)) (go_return x))" by (intro sure_rules)
    from sureD[OF this m(2)] m show ?thesis by (auto simp: remember_def go_bind_def)
  qed
  show "\<exists>x w'. ApplyUnstructuredResourceImproved env cl cached required w = (Inr x, w') \<and> ready env w'"
  proof (cases "map_of (cl_Store cl (w_Cluster w)) (?ns, ?n)")
    case None
    then have "ApplyUnstructuredResourceImproved env cl cached required w =
        ?remember required (create_and_report env cl ?ns required True) ?w"
      using assms(1)
      by (simp add: ApplyUnstructuredResourceImproved_def go_bind_def go_try_def get_run IsNotFound_def Let_def)
    with remembered create_run[OF assms(1) _ put w(1), of ?ns required True] None req(1) w(2) show ?thesis
      by (simp add: meta)
  next
    case (Some old)
    have old: "stored_ok env old" using ready Some cl by (simp add: untyped_client_def)
    obtain b e where e: "merge_Unstructured env required old = Inr (b, e)" "stored_ok env e" "GetName e = ?n"
        "GetResourceVersion e = GetResourceVersion old"
      using untyped_merged[OF assms(2) old req] by blast
    let ?m = "if \<not> b then ?remember required (go_return (e, False))
       else ?remember e (update_and_report env cl ?ns e)"
    have "ApplyUnstructuredResourceImproved env cl cached required w =
        (if cached \<and> safe_to_skip (w_Cache ?w) env cl required old then go_return (old, False) else ?m) ?w"
      using assms(1) Some e(1)
      by (simp add: ApplyUnstructuredResourceImproved_def go_bind_def go_try_def get_run Let_def go_lift_def
          SafeToSkipApply_def go_read_def go_return_def)
    moreover have upd: "\<exists>x w'. update_and_report env cl ?ns e ?w = (Inr x, w') \<and> ready env w'"
      by (rule update_run[OF assms(1) _ _ put w(1), of ?ns e old]) (use Some e w in \<open>simp_all add: meta\<close>)
    moreover have ret: "\<exists>x w'. go_return (e, False) ?w = (Inr x, w') \<and> ready env w'"
      using w(1) by (auto simp: go_return_def)
    moreover note remembered[of "go_return (e, False)", OF ret, of required]
      remembered[of "update_and_report env cl ?ns e", OF upd, of e]
    then have "\<exists>x w'. ?m ?w = (Inr x, w') \<and> ready env w'" by (cases b) simp_all
    ultimately show ?thesis using w(1) by (auto simp: go_return_def)
  qed
qed

section \<open>The managed resources\<close>

text \<open>The manifests are there and have names.\<close>
definition named :: "(string \<rightharpoonup> 'a) \<Rightarrow> ('a \<Rightarrow> ObjectMeta) \<Rightarrow> string list \<Rightarrow> bool" where
  "named assets meta paths = list_all (\<lambda>p. case assets p of None \<Rightarrow> False | Some x \<Rightarrow> om_Name (meta x) \<noteq> []) paths"

definition directory_named :: "Assets \<Rightarrow> (string \<rightharpoonup> 'a) \<Rightarrow> ('a \<Rightarrow> ObjectMeta) \<Rightarrow> string \<Rightarrow> bool" where
  "directory_named A assets meta dir = (case a_Dir A dir of
     Inl _ \<Rightarrow> False | Inr files \<Rightarrow> named assets meta (map (path_join dir) files))"

definition manifests_named :: "Assets \<Rightarrow> bool" where
  "manifests_named A \<longleftrightarrow>
     named (a_ServiceAccount A) sa_ObjectMeta [asset ''serviceaccount.yaml''] \<and>
     named (a_FlowSchema A) fl_ObjectMeta [asset ''flowschema.yaml''] \<and>
     named (a_Role A) ro_ObjectMeta role_files \<and> named (a_RoleBinding A) rb_ObjectMeta role_binding_files \<and>
     named (a_Service A) sv_ObjectMeta service_files \<and>
     named (a_ClusterRoleBinding A) crb_ObjectMeta cluster_role_binding_files \<and>
     named (a_APIService A) as_ObjectMeta apiServiceFiles \<and>
     named (a_PriorityLevel A) plc_ObjectMeta [asset ''prioritylevelconfiguration.yaml''] \<and>
     named (a_MutatingWebhook A) mwc_ObjectMeta [asset ''mutatingwebhook.yaml''] \<and>
     named (a_ValidatingWebhook A) vwc_ObjectMeta [asset ''validatingwebhook.yaml''] \<and>
     directory_named A (a_ClusterRole A) cro_ObjectMeta (asset ''clusterroles'') \<and>
     directory_named A (a_CRD A) crd_ObjectMeta (asset ''crds'') \<and>
     directory_named A (a_NetworkPolicy A) np_ObjectMeta (asset ''networkpolicy'')"

lemma go_bind_return: "go_bind (go_return x) f = f x"
  by (simp add: go_bind_def go_return_def)

lemma go_lift_Inr: "go_lift (Inr x) = go_return x"
  by (simp add: go_lift_def go_return_def)

lemma sure_bind_asset:
  assumes "named assets meta paths" and "p \<in> set paths"
    and "\<And>x. assets p = Some x \<Longrightarrow> om_Name (meta x) \<noteq> [] \<Longrightarrow> sure env (f x)"
  shows "sure env (go_bind (read_asset assets p) f)"
proof -
  obtain x where "assets p = Some x" "om_Name (meta x) \<noteq> []"
    using assms(1,2) by (auto simp: named_def list_all_iff split: option.splits)
  with assms(3) show ?thesis by (simp add: read_asset_def go_bind_def go_return_def)
qed

lemma sure_directory:
  assumes "directory_named (e_Assets env) assets meta dir"
    and "\<And>acc files x. x \<in> set (map (path_join dir) files) \<Longrightarrow> named assets meta (map (path_join dir) files) \<Longrightarrow>
      sure env (f acc x)"
  shows "sure env (go_bind (asset_dir env dir msg) (\<lambda>files. go_foldM (\<lambda>acc x. f acc (path_join dir x)) files acc))"
    (is ?all) and "(\<And>x. sure env (g x)) \<Longrightarrow>
      sure env (go_bind (asset_dir env dir msg) (\<lambda>files. go_bind (go_foldM (\<lambda>acc x. f acc (path_join dir x)) files acc) g))"
proof -
  obtain files where files: "a_Dir (e_Assets env) dir = Inr files" "named assets meta (map (path_join dir) files)"
    using assms(1) by (auto simp: directory_named_def split: sum.splits)
  have loop: "sure env (go_foldM (\<lambda>acc x. f acc (path_join dir x)) files acc)"
    by (rule sure_foldM, rule assms(2)[OF _ files(2)]) simp
  show ?all using files(1) loop by (simp add: asset_dir_def go_bind_return)
  show "sure env (go_bind (asset_dir env dir msg) (\<lambda>files. go_bind (go_foldM (\<lambda>acc x. f acc (path_join dir x)) files acc) g))"
    if "\<And>x. sure env (g x)"
    using files(1) sure_bind[OF loop that] by (simp add: asset_dir_def go_bind_return)
qed

lemma sure_hash: "libraries_succeed env \<Longrightarrow> sure env (hash_go env obj msg)"
  "libraries_succeed env \<Longrightarrow> sure env (record_hash env key obj msg annos)"
proof -
  assume "libraries_succeed env"
  then have "is_ok (e_Marshal env obj)" by (simp add: libraries_succeed_def)
  then show hash: "sure env (hash_go env obj msg)"
    by (cases "e_Marshal env obj") (auto simp: hash_go_def computeSpecHash_def intro: sure_rules)
  show "sure env (record_hash env key obj msg annos)" unfolding record_hash_def by (intro sure_rules hash)
qed


text \<open>What a reconciliation needs in order to succeed. The conversion of metadata reads what the operator
  writes itself.\<close>
definition workable :: "Env \<Rightarrow> bool" where
  "workable env \<longleftrightarrow> quiet env \<and> libraries_succeed env \<and> keeps_shares env \<and>
     manifests_named (e_Assets env) \<and> fields_ok (e_Assets env) \<and> conversion_ok env \<and> server_ok env \<and>
     (\<forall>kueue. stored_ok env (required_service_monitor env kueue) \<and> stored_ok env (required_issuer env kueue) \<and>
        (\<forall>dns cn secret cert. stored_ok env (required_certificate env kueue dns cn secret cert)))"

lemma workableD:
  assumes "workable env"
  shows "quiet env" "libraries_succeed env" "keeps_shares env" "manifests_named (e_Assets env)"
    "fields_ok (e_Assets env)" "conversion_ok env" "server_ok env"
    "stored_ok env (required_service_monitor env kueue)" "stored_ok env (required_issuer env kueue)"
    "stored_ok env (required_certificate env kueue dns cn secret cert)"
  using assms by (simp_all add: workable_def)

lemma sure_service_monitor:
  assumes "workable env"
  shows "sure env (manageServiceMonitor env kueue)"
  unfolding manageServiceMonitor_def ApplyServiceMonitor_def
  by (rule sure_untyped[OF workableD(1,6,7)[OF assms] untyped_clients(3) workableD(8)[OF assms]])
    (simp add: required_service_monitor_def unstructured_def nested_defs jobj_def)

lemma sure_records:
  assumes "libraries_succeed env"
  shows "sure env (record_role env x annos)" "sure env (record_role_binding env y annos)"
    "sure env (record_cluster_role_binding env z annos)" "sure env (record_service env u annos)"
  unfolding record_role_def record_role_binding_def record_cluster_role_binding_def record_service_def
  by (intro sure_hash assms)+

lemma name_unchanged [simp]:
  "om_Name (owned_meta m r) = om_Name m" "om_Name (ensure_owned m r) = om_Name m"
  by (simp_all add: owned_meta_def ensure_owned_def)

lemma sure_parts:
  assumes "workable env"
  shows "sure env (manageServiceAccount env r)"
    and "p \<in> set role_files \<Longrightarrow> sure env (sync_role env p r annos)"
    and "p \<in> set role_binding_files \<Longrightarrow> sure env (manageRoleBindingsByNamespace env ns p r b)"
    and "p \<in> set service_files \<Longrightarrow> sure env (sync_service env p r annos)"
    and "p \<in> set cluster_role_binding_files \<Longrightarrow> sure env (sync_cluster_role_binding env p r annos)"
    and "sure env (manageFlowSchema env annos r)"
    and "p \<in> set cluster_role_binding_files \<Longrightarrow> sure env (manageClusterRoleBindingsWithoutNamespaceOverride env p r)"
proof -
  note ok = workableD[OF assms]
  note names = ok(4)[unfolded manifests_named_def]
  show "sure env (manageServiceAccount env r)"
    unfolding manageServiceAccount_def
    by (rule sure_bind_asset[OF conjunct1[OF names]]) (auto intro!: sure_typed ok)
  show "sure env (sync_role env p r annos)" if "p \<in> set role_files"
    unfolding sync_role_def manageRole_def applyRoleWithCache_def
    by (rule sure_bind, rule sure_bind_asset[where meta = ro_ObjectMeta, OF _ that])
      (use names in \<open>auto intro!: sure_with_cache sure_typed ok sure_records\<close>)
  show "sure env (manageRoleBindingsByNamespace env ns p r b)" if "p \<in> set role_binding_files"
    unfolding manageRoleBindingsByNamespace_def applyRoleBindingWithCache_def
    by (rule sure_bind_asset[where meta = rb_ObjectMeta, OF _ that])
      (use names in \<open>auto intro!: sure_with_cache sure_typed ok\<close>)
  show "sure env (sync_service env p r annos)" if "p \<in> set service_files"
    unfolding sync_service_def manageService_def
    by (rule sure_bind, rule sure_bind_asset[where meta = sv_ObjectMeta, OF _ that])
      (use names in \<open>auto intro!: sure_ApplyService ok sure_records\<close>)
  show "sure env (sync_cluster_role_binding env p r annos)" if "p \<in> set cluster_role_binding_files"
    unfolding sync_cluster_role_binding_def manageClusterRoleBindings_def applyClusterRoleBindingWithCache_def
    by (rule sure_bind, rule sure_bind_asset[where meta = crb_ObjectMeta, OF _ that])
      (use names in \<open>auto intro!: sure_with_cache sure_typed ok sure_records\<close>)
  show "sure env (manageFlowSchema env annos r)"
    unfolding manageFlowSchema_def
    by (rule sure_bind_asset[where meta = fl_ObjectMeta])
      (use names in \<open>auto intro!: sure_rules sure_hash sure_typed ok\<close>)
  show "sure env (manageClusterRoleBindingsWithoutNamespaceOverride env p r)" if "p \<in> set cluster_role_binding_files"
    unfolding manageClusterRoleBindingsWithoutNamespaceOverride_def applyClusterRoleBindingWithCache_def
    by (rule sure_bind_asset[where meta = crb_ObjectMeta, OF _ that])
      (use names in \<open>auto intro!: sure_with_cache sure_typed ok\<close>)
qed

lemma sure_openshift:
  assumes "workable env"
  shows "sure env (manageOpenshiftClusterRolesBindingForKueue env r)" "sure env (manageOpenshiftClusterRolesForKueue env r)"
  unfolding manageOpenshiftClusterRolesBindingForKueue_def manageOpenshiftClusterRolesForKueue_def
    applyClusterRoleBindingWithCache_def applyClusterRoleWithCache_def
  by (intro sure_with_cache sure_typed workableD(1)[OF assms];
      simp add: openshift_cluster_role_binding_def openshift_cluster_role_def)+

lemma sure_directories:
  assumes "workable env"
  shows "sure env (manageNetworkPolicies env annos r)" and "sure env (manageCustomResources env annos)"
    and "sure env (manageClusterRoles env annos r)"
proof -
  note ok = workableD[OF assms]
  have dirs: "directory_named (e_Assets env) (a_ClusterRole (e_Assets env)) cro_ObjectMeta (asset ''clusterroles'')"
    "directory_named (e_Assets env) (a_CRD (e_Assets env)) crd_ObjectMeta (asset ''crds'')"
    "directory_named (e_Assets env) (a_NetworkPolicy (e_Assets env)) np_ObjectMeta (asset ''networkpolicy'')"
    using ok(4) by (simp_all add: manifests_named_def)
  show "sure env (manageNetworkPolicies env annos r)"
    unfolding manageNetworkPolicies_def applyNetworkPolicyWithCache_def Let_def
    by (rule sure_directory(1)[OF dirs(3)], rule sure_bind_asset, assumption, assumption)
      (auto simp: wanted_network_policy_def adjust_defs Let_def
        intro!: sure_rules sure_hash sure_with_cache sure_typed ok)
  have crd: "sure env (applyCustomResourceDefinitionWithCache env (required_crd env x))"
    if "om_Name (crd_ObjectMeta x) \<noteq> []" for x
  proof (rule sureI)
    fix w assume ready: "ready env w"
    have m: "sure env (remember env (CustomResourceDefinitions env) y (ApplyCustomResourceDefinitionV1 env y))"
      if "om_Name (crd_ObjectMeta y) = om_Name (crd_ObjectMeta x)" for y
      using that \<open>om_Name (crd_ObjectMeta x) \<noteq> []\<close> by (intro sure_remember sure_ApplyCRD ok) simp
    have "om_Name (crd_ObjectMeta (required_crd env x)) = om_Name (crd_ObjectMeta x)"
      "om_Name (crd_ObjectMeta (preserve_ca_bundle old (required_crd env x))) = om_Name (crd_ObjectMeta x)" for old
      by (auto simp: required_crd_def set_conversion_namespace_def preserve_ca_bundle_def
          set_conversion_ca_bundle_def split: option.splits)
    then show "\<exists>y w'. applyCustomResourceDefinitionWithCache env (required_crd env x) w = (Inr y, w') \<and> ready env w'"
      using sureD[OF m ready] ready ok(1)
      by (auto simp: applyCustomResourceDefinitionWithCache_def go_bind_def go_try_def lister_run IsNotFound_def
          SafeToSkipApply_def go_read_def go_return_def Let_def split: option.split)
  qed
  show "sure env (manageCustomResources env annos)"
    unfolding manageCustomResources_def Let_def
    by (rule sure_directory(1)[OF dirs(2)], rule sure_bind_asset, assumption, assumption)
      (intro sure_rules crd sure_hash ok)
  have names: "sure env (kueueCRDNames env)"
    unfolding kueueCRDNames_def Let_def
    by (rule sure_directory(2)[OF dirs(2)], rule sure_bind_asset, assumption, assumption) (intro sure_rules)+
  have scoped: "sure env (maybe_scoped env x)" for x
    unfolding maybe_scoped_def scopeManagerRoleResourceNames_def
    by (rule sure_if, rule sure_bind_try, rule sure_bind_try[OF names]) (simp_all add: sure_return)
  have apply_one: "sure env (go_bind (maybe_scoped env required) (\<lambda>required.
      go_bind (applyClusterRoleWithCache env required) f))"
    if "om_Name (cro_ObjectMeta required) \<noteq> []" and "\<And>x. sure env (f x)"
    for required and f :: "ClusterRole \<times> bool \<Rightarrow> (World, annotations) go"
  proof (rule sure_bind_result[OF scoped])
    show "cro_ObjectMeta x = cro_ObjectMeta required" if "maybe_scoped env required w = (Inr x, w')" for w x w'
      using that by (rule maybe_scoped_owner)
    show "sure env (go_bind (applyClusterRoleWithCache env x) f)" if "cro_ObjectMeta x = cro_ObjectMeta required" for x
      using that \<open>om_Name (cro_ObjectMeta required) \<noteq> []\<close> \<open>\<And>x. sure env (f x)\<close>
      unfolding applyClusterRoleWithCache_def by (intro sure_bind sure_with_cache sure_typed ok) simp_all
  qed
  have one: "sure env (manageClusterRole_file env r a p)"
    if "named (a_ClusterRole (e_Assets env)) cro_ObjectMeta paths" "p \<in> set paths" for a p paths
    unfolding manageClusterRole_file_def Let_def maybe_scoped_def[symmetric]
    by (rule sure_bind_asset[OF that], intro sure_if sure_return apply_one)
      (auto intro!: sure_rules sure_hash ok)
  show "sure env (manageClusterRoles env annos r)"
    unfolding manageClusterRoles_def Let_def
    by (rule sure_directory(1)[OF dirs(1)]) (rule one)
qed


lemma sure_api_service:
  assumes "workable env"
  shows "sure env (manageAPIService env annos r)"
  unfolding manageAPIService_def
proof (rule sure_foldM)
  note ok = workableD[OF assms]
  fix annos path assume path: "path \<in> set apiServiceFiles"
  show "sure env (go_bind (read_asset (a_APIService (e_Assets env)) path) (\<lambda>asset'.
       go_bind (go_lift (required_api_service env r asset')) (\<lambda>required.
       go_bind (ApplyAPIService env required) (\<lambda>(apiService, _).
       go_bind (hash_go env (HAPIService (as_Spec apiService)) ''failed to hash APIService spec'')
         (\<lambda>hash. go_return
           (AList.update (''apiservice/'' @ om_Name (as_ObjectMeta apiService)) hash annos))))))"
  proof (rule sure_bind_asset[where meta = as_ObjectMeta, OF _ path])
    show "named (a_APIService (e_Assets env)) as_ObjectMeta apiServiceFiles"
      using ok(4) by (simp add: manifests_named_def)
    fix x assume x: "a_APIService (e_Assets env) path = Some x" "om_Name (as_ObjectMeta x) \<noteq> []"
    then have "ass_Service (as_Spec x) \<noteq> None" using ok(5) path by (fastforce simp: fields_ok_def list_all_iff)
    then obtain y where y: "required_api_service env r x = Inr y" "om_Name (as_ObjectMeta y) \<noteq> []"
      using x(2) by (auto simp: required_api_service_def)
    show "sure env (go_bind (go_lift (required_api_service env r x)) (\<lambda>required.
       go_bind (ApplyAPIService env required) (\<lambda>(apiService, _).
       go_bind (hash_go env (HAPIService (as_Spec apiService)) ''failed to hash APIService spec'')
         (\<lambda>hash. go_return
           (AList.update (''apiservice/'' @ om_Name (as_ObjectMeta apiService)) hash annos)))))"
      unfolding y(1) go_lift_Inr go_bind_return by (intro sure_rules sure_typed sure_hash ok y(2))
  qed
qed

lemma sure_priority_level:
  assumes "workable env"
  shows "sure env (managePriorityLevelConfiguration env annos r)"
  unfolding managePriorityLevelConfiguration_def applyPriorityLevelConfigurationWithCache_def
proof (rule sure_bind_asset[where meta = plc_ObjectMeta and
      paths = "[asset ''prioritylevelconfiguration.yaml'']"])
  note ok = workableD[OF assms]
  show "named (a_PriorityLevel (e_Assets env)) plc_ObjectMeta [asset ''prioritylevelconfiguration.yaml'']"
    using ok(4) by (simp add: manifests_named_def)
  fix x assume x: "a_PriorityLevel (e_Assets env) (asset ''prioritylevelconfiguration.yaml'') = Some x"
    "om_Name (plc_ObjectMeta x) \<noteq> []"
  have "concurrency_shares (x\<lparr>plc_ObjectMeta := m\<rparr>) \<noteq> None" for m
    using ok(5) x(1) by (simp add: fields_ok_def concurrency_shares_def)
  with x(2) show "sure env (go_bind (apply_with_cache env (PriorityLevelConfigurations env) []
      (x\<lparr>plc_ObjectMeta := owned_meta (plc_ObjectMeta x) r\<rparr>) (ApplyPriorityLevelConfiguration env
        (x\<lparr>plc_ObjectMeta := owned_meta (plc_ObjectMeta x) r\<rparr>))) (\<lambda>(plc, _).
      go_bind (hash_go env (HPriorityLevel (plc_Spec plc)) ''failed to hash PriorityLevelConfiguration spec'')
        (\<lambda>hash. go_return (AList.update (''prioritylevelconfiguration/'' @ om_Name (plc_ObjectMeta plc)) hash annos))))"
    by (intro sure_rules sure_with_cache sure_ApplyPriorityLevel sure_hash ok) simp_all
qed simp

lemma sure_webhooks:
  assumes "workable env"
  shows "sure env (manageMutatingWebhook env kueue r)" and "sure env (manageValidatingWebhook env kueue r)"
proof -
  note ok = workableD[OF assms]
  obtain m v where files: "a_MutatingWebhook (e_Assets env) (asset ''mutatingwebhook.yaml'') = Some m"
      "a_ValidatingWebhook (e_Assets env) (asset ''validatingwebhook.yaml'') = Some v"
    and services: "list_all has_service (mwc_Webhooks m)" "list_all has_service (vwc_Webhooks v)"
    and hooks: "set (map wh_Name (mwc_Webhooks m)) \<subseteq> set mutating_manifest_names"
      "set (map wh_Name (vwc_Webhooks v)) \<subseteq> set validating_manifest_names"
    using ok(5) by (auto simp: fields_ok_def split: option.splits)
  have names: "om_Name (mwc_ObjectMeta m) \<noteq> []" "om_Name (vwc_ObjectMeta v) \<noteq> []"
    using ok(4) files by (simp_all add: manifests_named_def named_def)
  let ?m = "m\<lparr>mwc_ObjectMeta := owned_meta (mwc_ObjectMeta m) r\<rparr>"
  let ?v = "v\<lparr>vwc_ObjectMeta := ensure_owned (owned_meta (vwc_ObjectMeta v) r) r\<rparr>"
  let ?cfg = "ks_Config (ku_Spec kueue)"
  obtain m' where m': "ModifyPodBasedMutatingWebhook ?cfg ?m = Inr m'" "list_all has_service (mwc_Webhooks m')"
    using modify_keeps_services(1)[of ?m v ?cfg] hooks services by auto
  obtain v' where v': "ModifyPodBasedValidatingWebhook ?cfg ?v = Inr v'" "list_all has_service (vwc_Webhooks v')"
    using modify_keeps_services(2)[of m ?v ?cfg] hooks services by auto
  obtain ms vs where ms: "set_service_namespace (e_OperatorNamespace env) (mwc_Webhooks m') = Inr ms"
      "set_service_namespace (e_OperatorNamespace env) (vwc_Webhooks v') = Inr vs"
    using set_service_namespace_ok[OF m'(2)] set_service_namespace_ok[OF v'(2)] by (metis isl_def sum.exhaust)
  have kept: "om_Name (mwc_ObjectMeta m') \<noteq> []" "om_Name (vwc_ObjectMeta v') \<noteq> []"
    using names webhook_meta_kept(1)[OF m'(1)] webhook_meta_kept(2)[OF v'(1)] by simp_all
  show "sure env (manageMutatingWebhook env kueue r)" "sure env (manageValidatingWebhook env kueue r)"
    unfolding manageMutatingWebhook_def manageValidatingWebhook_def read_asset_def files option.case
      go_bind_return m'(1) v'(1) go_lift_Inr ms
    by (intro sure_typed ok; simp add: kept)+
qed

lemma sure_config_map:
  assumes "workable env" and "weights_parse (e_ParseFloat env) (kc_AdmissionFairSharing (ks_Config (ku_Spec kueue)))"
  shows "sure env (manageConfigMap env kueue tls)"
proof -
  note ok = workableD[OF assms(1)]
  have built: "\<exists>cm. BuildConfigMap (e_ParseFloat env) (e_YamlMarshal env) ns (ks_Config (ku_Spec kueue)) gvr en tls = Inr cm \<and>
      om_Name (cm_ObjectMeta cm) \<noteq> []" for ns gvr en
  proof -
    obtain config where config: "defaultKueueConfigurationTemplate (e_ParseFloat env) ns (ks_Config (ku_Spec kueue)) gvr en tls = Inr config"
      using assms(2) is_ok_template[of "e_ParseFloat env" ns "ks_Config (ku_Spec kueue)" gvr en tls]
      by (metis isl_def sum.exhaust)
    moreover obtain y where "e_YamlMarshal env config = Inr y"
      using ok(2) by (metis libraries_succeed_def isl_def sum.exhaust)
    ultimately show ?thesis by (simp add: BuildConfigMap_def)
  qed
  have build: "sure env (buildAndApplyConfigMap env old (ks_Config (ku_Spec kueue)) gvr tls)" for old gvr
    unfolding buildAndApplyConfigMap_def
  proof (rule sure_bind[OF sure_read])
    fix en
    obtain cm where "BuildConfigMap (e_ParseFloat env) (e_YamlMarshal env) (e_OperatorNamespace env)
        (ks_Config (ku_Spec kueue)) gvr en tls = Inr cm" "om_Name (cm_ObjectMeta cm) \<noteq> []"
      using built by blast
    then show "sure env (go_bind (go_lift (BuildConfigMap (e_ParseFloat env) (e_YamlMarshal env) (e_OperatorNamespace env)
        (ks_Config (ku_Spec kueue)) gvr en tls)) (\<lambda>cfgMap. let apply_it = ApplyConfigMapImproved env cfgMap in
       case old of None \<Rightarrow> apply_it
       | Some old \<Rightarrow> if (case map_of (cm_Data old) ''controller_manager_config.yaml'' of None \<Rightarrow> [] | Some v \<Rightarrow> v) =
              (case map_of (cm_Data cfgMap) ''controller_manager_config.yaml'' of None \<Rightarrow> [] | Some v \<Rightarrow> v)
           then go_return (old, False) else apply_it))"
      by (auto simp: go_lift_Inr go_bind_return Let_def intro!: sure_rules sure_typed ok)
  qed
  have gvrs: "sure env (resolveGVRsToKinds env fws)" for fws
    unfolding resolveGVRsToKinds_def
    by (intro sure_foldM sure_bind[OF sure_try_discover[OF ok(1)]]) (simp add: sure_return split: sum.split)
  show ?thesis
    unfolding manageConfigMap_def
    by (rule sure_bind_get[OF ok(1)])
      (auto simp: IsNotFound_def intro!: sure_bind sure_option sure_return gvrs build)
qed

lemma sure_deployment:
  assumes "workable env"
  shows "sure env (manageDeployment env kueue annos r)"
proof -
  note ok = workableD[OF assms]
  let ?level = "os_LogLevel (ks_OperatorSpec (ku_Spec kueue))"
  obtain d where d: "a_Deployment (e_Assets env) (asset ''deployment.yaml'') = Some d"
    and req: "is_ok (required_deployment env ?level annos r d)"
    using ok(5) by (auto simp: fields_ok_def required_deployment_def manager_container_def Let_def
        split: option.splits list.splits)
  obtain x where x: "required_deployment env ?level annos r d = Inr x" "om_Name (de_ObjectMeta x) = OperandName"
    using req by (auto simp: required_deployment_def Let_def split: list.splits sum.splits)
  show ?thesis
    unfolding manageDeployment_def applyDeploymentWithCache_def Let_def read_asset_def d option.case
      go_bind_return x(1) go_lift_Inr
    by (intro sure_bind sure_prod sure_return sure_with_cache sure_ApplyDeployment ok) (simp add: x(2))
qed

lemma sure_status:
  assumes "quiet env" and "server_ok env"
  shows "sure env (updateKueueStatus env kueue conds n)"
proof (rule sureI)
  fix w assume "ready env w"
  then obtain k where "map_of (c_Kueues (w_Cluster w)) OperatorConfigName = Some k"
    by (auto simp: ready_def split: option.splits)
  with \<open>ready env w\<close> assms show "\<exists>x w'. updateKueueStatus env kueue conds n w = (Inr x, w') \<and> ready env w'"
    by (simp add: updateKueueStatus_def go_bind_def go_read_def api_ApplyStatus_def api_call_def Let_def ready_def
        update_conv' tunable_levels_limited_def untyped_ok_def server_ok_def apply_status_def)
qed

section \<open>The reconciliation of the operand succeeds\<close>

lemma sure_operand:
  assumes "workable env" and "weights_parse (e_ParseFloat env) (kc_AdmissionFairSharing (ks_Config (ku_Spec kueue)))"
  shows "sure env (sync_operand env kueue tls r dep annos)"
proof -
  note ok = workableD[OF assms(1)]
  note rules = sure_rules sure_hash[OF ok(2)] sure_records[OF ok(2)] sure_parts[OF assms(1)]
    sure_openshift[OF assms(1)] sure_directories[OF assms(1)] sure_api_service[OF assms(1)]
    sure_priority_level[OF assms(1)] sure_webhooks[OF assms(1)] sure_service_monitor[OF assms(1)]
  have config: "sure env (sync_config env kueue tls r annos)" for annos
    unfolding sync_config_def by (intro rules sure_config_map[OF assms])
  have roles: "sure env (sync_roles env r annos)" for annos
    unfolding sync_roles_def sync_role_binding_def manageRoleBindings_def
    by (intro rules) (simp_all add: file_defs)
  have wide: "sure env (sync_cluster_wide env r annos)" for annos
    unfolding sync_cluster_wide_def by (intro rules) (simp add: file_defs)
  have bindings: "sure env (sync_bindings env r annos)" for annos
    unfolding sync_bindings_def manageSystemRoleBindings_def
    by (intro rules) (simp_all add: file_defs)
  have hooks: "sure env (sync_webhooks env kueue r annos)" for annos
    unfolding sync_webhooks_def
    by (intro rules) (simp_all add: file_defs ok)
  have prometheus: "sure env (sync_prometheus env r annos)" for annos
    unfolding sync_prometheus_def sync_role_binding_def manageRoleBindings_def
    by (intro rules) (simp_all add: file_defs)
  show ?thesis
    unfolding sync_operand_def sync_deployment_def
    by (intro sure_bind sure_prod config roles wide bindings hooks prometheus sure_deployment[OF assms(1)]
        sure_status ok)
qed


text \<open>An undisturbed reconciliation of the operand succeeds, whatever state the cluster is in: everything is
  created or updated without an error, from the ConfigMap to the deployment, and the last request writes
  the status.\<close>
lemma operand_reconciled:
  assumes "workable env"
    and "weights_parse (e_ParseFloat env) (kc_AdmissionFairSharing (ks_Config (ku_Spec kueue)))"
    and "ready env w"
  shows "\<exists>w' status. sync_operand env kueue tls r dep annos w = (Inr (), w') \<and> last (w_Trace w') = ApplyStatus status"
proof -
  obtain u w' where run: "sync_operand env kueue tls r dep annos w = (Inr u, w')"
    using sureD[OF sure_operand[OF assms(1,2)] assms(3)] by blast
  obtain hashes w1 d ch k w2 where "updateKueueStatus env k (buildOperatorConditions d dep)
      (Some (dps_ReadyReplicas (de_Status d))) w2 = (Inr u, w')"
    using run unfolding sync_operand_split sync_deployment_def by (auto elim!: go_bind_InrE)
  then show ?thesis
    using run status_request[of env k "buildOperatorConditions d dep" "Some (dps_ReadyReplicas (de_Status d))" w2]
    by auto
qed

text \<open>C6. A new configuration restarts the operand: in a reconciliation that succeeds, the hash of the
  data of the ConfigMap that was applied at its beginning is among the hashes with which the
  deployment is applied at its end (no phase in between overwrites it, nor the hashes recorded before,
  of the issuer, the certificates and the generation), and so it is an annotation of the pods.\<close>
theorem configuration_rolls_out:
  assumes "sync_operand env kueue tls r dep annos w = (Inr (), w')"
  shows "\<exists>cm changed w1 h hashes w2 d w3.
    manageConfigMap env kueue tls w = (Inr (cm, changed), w1) \<and> computeSpecHash env (HData (cm_Data cm)) = Inr h \<and>
    map_of hashes (''configmap/'' @ om_Name (cm_ObjectMeta cm)) = Some h \<and>
    (\<forall>k. early_key k \<and> k \<noteq> ''configmap/'' @ om_Name (cm_ObjectMeta cm) \<longrightarrow> map_of hashes k = map_of annos k) \<and>
    manageDeployment env kueue hashes r w2 = (Inr d, w3) \<and>
    (\<forall>level manifest x. plain_keys hashes \<longrightarrow> required_deployment env level hashes r manifest = Inr x \<longrightarrow>
       map_of (pt_Annotations (dp_Template (de_Spec x))) (''configmap/'' @ om_Name (cm_ObjectMeta cm)) = Some h)"
proof -
  obtain hashes w2 d w3 where before: "sync_before env kueue tls r annos w = (Inr hashes, w2)"
    and deployed: "manageDeployment env kueue hashes r w2 = (Inr d, w3)"
    using assms unfolding sync_operand_split sync_deployment_def by (blast elim: go_bind_InrE)
  obtain first w1 where config: "sync_config env kueue tls r annos w = (Inr first, w1)"
    using before unfolding sync_before_def by (blast elim: go_bind_InrE)
  have kept: "map_of hashes k = map_of first k" if "early_key k" for k
    using sync_before_entry[OF before that] config by auto
  obtain cm changed w4 h where cm: "manageConfigMap env kueue tls w = (Inr (cm, changed), w4)"
    "computeSpecHash env (HData (cm_Data cm)) = Inr h" and
    recorded: "\<And>k. early_key k \<Longrightarrow> map_of first k =
       ((map_of annos)(''configmap/'' @ om_Name (cm_ObjectMeta cm) \<mapsto> h)) k"
    using sync_config_entry[OF config] by blast
  let ?k = "''configmap/'' @ om_Name (cm_ObjectMeta cm)"
  have entry: "map_of hashes ?k = Some h"
    using kept[OF early_config_key] recorded[OF early_config_key] by (simp del: append.simps)
  have others: "\<forall>k. early_key k \<and> k \<noteq> ?k \<longrightarrow> map_of hashes k = map_of annos k"
    using kept recorded by (simp del: append.simps)
  have "map_of (pt_Annotations (dp_Template (de_Spec x))) ?k = Some h"
    if "plain_keys hashes" "required_deployment env level hashes r manifest = Inr x" for level manifest x
    using deployment_annotation[OF that(2,1) map_of_SomeD[OF entry]] .
  with cm entry others deployed show ?thesis by blast
qed

text \<open>A conversion of metadata that only knows names and versions.\<close>
definition plain_from :: "json_map \<Rightarrow> err + ObjectMeta" where
  "plain_from m = Inr (empty_meta\<lparr>om_Name := getNestedString m [''name''],
     om_ResourceVersion := getNestedString m [''resourceVersion'']\<rparr>)"

definition plain_to :: "ObjectMeta \<Rightarrow> err + json_map" where
  "plain_to t = Inr [''name'' \<mapsto> JStr (om_Name t), ''resourceVersion'' \<mapsto> JStr (om_ResourceVersion t)]"

definition working_env :: Env where
  "working_env = (calm_env empty_cluster)\<lparr>e_Assets := plain_manifests, e_MetaFromUnstructured := plain_from,
     e_MetaToUnstructured := plain_to, e_ServiceMonitorSupport := True,
     e_KueueInformer := \<lambda>n. CacheKueue (kueue_with_frameworks []),
     e_Informer := \<lambda>n. empty_cluster\<lparr>c_CRDs := [(([], ''issuers.cert-manager.io''), plain_crd ''issuers.cert-manager.io'' ''v1'')]\<rparr>\<rparr>"

definition working_cluster :: Cluster where
  "working_cluster = empty_cluster\<lparr>c_Kueues := [(OperatorConfigName, kueue_with_frameworks [])]\<rparr>"

lemma plain_conversion: "conversion_ok working_env"
  by (simp add: conversion_ok_def working_env_def plain_from_def plain_to_def nested_defs)

lemma working_env_workable: "workable working_env"
proof -
  have "manifests_named plain_manifests"
    by (simp add: manifests_named_def named_def directory_named_def plain_manifests_def file_defs apiServiceFiles_def
        role_named_def plain_policy_def plain_crd_def)
  moreover have "fields_ok plain_manifests"
    using crash_free_validating by (simp add: crash_free_def validating_env_def)
  moreover have "server_ok working_env"
    by (simp add: server_ok_def working_env_def calm_env_def identity_server_def)
  moreover have "stored_ok working_env (required_service_monitor working_env kueue)"
    "stored_ok working_env (required_issuer working_env kueue)"
    "stored_ok working_env (required_certificate working_env kueue dns cn secret cert)" for kueue dns cn secret cert
    by (simp_all add: stored_ok_def working_env_def plain_from_def required_service_monitor_def required_issuer_def
        required_certificate_def unstructured_def jobj_def nested_spec_def nested_defs)
  ultimately show ?thesis
    using plain_conversion
    by (simp add: workable_def)
      (simp add: working_env_def quiet_def undisturbed_def libraries_succeed_def keeps_shares_def
        identity_server_def calm_env_def)
qed

lemma working_run:
  "weights_parse (e_ParseFloat working_env) (kc_AdmissionFairSharing (ks_Config (ku_Spec (kueue_with_frameworks []))))"
  "ready working_env (initial_world working_cluster)"
  by (simp_all add: weights_parse_def working_env_def calm_env_def working_cluster_def ready_def untyped_ok_def
      tunable_levels_limited_def empty_cluster_def list_all_iff kueue_with_frameworks_def empty_meta_def)

theorem configuration_rolls_out_witness:
  "\<exists>cm changed w1 h. manageConfigMap working_env (kueue_with_frameworks []) None (initial_world working_cluster) =
     (Inr (cm, changed), w1) \<and> computeSpecHash working_env (HData (cm_Data cm)) = Inr h"
proof -
  from sureD[OF sure_operand[OF working_env_workable working_run(1), of None some_owner None "[]"] working_run(2)]
  obtain w' where "sync_operand working_env (kueue_with_frameworks []) None some_owner None []
      (initial_world working_cluster) = (Inr (), w')" by auto
  from configuration_rolls_out[OF this] show ?thesis by blast
qed

end
