(* ===== verification/Undisturbed.thy ===== *)
theory Undisturbed
  imports Progress
begin

text \<open>
  A whole reconciliation that nobody disturbs: from whatever state the cluster is in, it succeeds and
  reports the status, unless cert-manager does not issue the certificates in time. Together with the
  controller, which tries a failed reconciliation again, this is why the operator gets to the desired
  state. The phases before the operand (dependencies, finalizer, certificates, TLS profile) are treated
  here; \<open>settles\<close> generalises \<open>sure\<close> by the errors that are possible all the same.
\<close>

section \<open>Possible errors\<close>

definition settles :: "Env \<Rightarrow> (err \<Rightarrow> bool) \<Rightarrow> (World, 'a) go \<Rightarrow> bool" where
  "settles env E m \<longleftrightarrow> go_triple (ready env) m (\<lambda>_. ready env) (\<lambda>e w. E e \<and> ready env w)"

named_theorems settles_rules \<open>rules that reduce \<open>settles\<close> of a program to its parts\<close>

lemma settles_sure: "sure env m \<Longrightarrow> settles env E m"
  unfolding settles_def by (rule go_tripleI) (fastforce dest: sureD)+

lemma settles_bind [settles_rules]:
  "settles env E m \<Longrightarrow> (\<And>x. settles env E (f x)) \<Longrightarrow> settles env E (go_bind m f)"
  unfolding settles_def by (rule go_bind_wp)

lemma settles_seq [settles_rules]: "settles env E m \<Longrightarrow> settles env E n \<Longrightarrow> settles env E (go_seq m n)"
  unfolding go_seq_def by (rule settles_bind)

lemma settles_if [settles_rules]:
  "(b \<Longrightarrow> settles env E m) \<Longrightarrow> (\<not> b \<Longrightarrow> settles env E n) \<Longrightarrow> settles env E (if b then m else n)"
  by simp

lemma settles_sum [settles_rules]:
  "(\<And>e. r = Inl e \<Longrightarrow> settles env E (m e)) \<Longrightarrow> (\<And>x. r = Inr x \<Longrightarrow> settles env E (n x)) \<Longrightarrow>
   settles env E (case r of Inl e \<Rightarrow> m e | Inr x \<Rightarrow> n x)"
  by (cases r) auto

lemma settles_throw [settles_rules]: "E e \<Longrightarrow> settles env E (go_throw e)"
  unfolding settles_def by (rule go_triple_pre[OF go_throw_wp]) simp

lemma settles_return [settles_rules]: "settles env E (go_return x)"
  by (rule settles_sure) (rule sure_return)

abbreviation no_crash :: "err \<Rightarrow> bool" where "no_crash e \<equiv> \<not> is_panic e"

text \<open>A caller that looks at the error goes on.\<close>
lemma sure_try [sure_rules]: "settles env no_crash m \<Longrightarrow> sure env (go_try m)"
  unfolding settles_def sure_def go_triple_def go_try_def by (auto split: prod.splits sum.splits)

lemma settles_bind_try [settles_rules]:
  assumes "settles env no_crash m" and "\<And>e. no_crash e \<Longrightarrow> settles env E (f (Inl e))" and "\<And>x. settles env E (f (Inr x))"
  shows "settles env E (go_bind (go_try m) f)"
  unfolding settles_def
proof (rule go_bind_wp)
  show "go_triple (ready env) (go_try m) (\<lambda>r w. ready env w \<and> (\<forall>e. r = Inl e \<longrightarrow> no_crash e)) (\<lambda>e w. E e \<and> ready env w)"
    using assms(1) unfolding settles_def go_triple_def go_try_def
    by (auto split: prod.splits sum.splits)
  show "go_triple (\<lambda>w. ready env w \<and> (\<forall>e. r = Inl e \<longrightarrow> no_crash e)) (f r) (\<lambda>_. ready env) (\<lambda>e w. E e \<and> ready env w)" for r
    using assms(2,3) unfolding settles_def by (cases r) (auto simp: go_triple_def)
qed

lemma sure_sum [sure_rules]:
  "(\<And>e. r = Inl e \<Longrightarrow> sure env (m e)) \<Longrightarrow> (\<And>x. r = Inr x \<Longrightarrow> sure env (n x)) \<Longrightarrow>
   sure env (case r of Inl e \<Rightarrow> m e | Inr x \<Rightarrow> n x)"
  by (cases r) auto

text \<open>A request that only reads.\<close>
lemma settles_answer:
  assumes "quiet env"
  shows "settles env no_crash (api_call env c (\<lambda>n cl. (f n, cl)))"
  unfolding settles_def
proof (rule go_tripleI)
  fix w e w' assume "ready env w" "api_call env c (\<lambda>n cl. (f n, cl)) w = (Inl e, w')"
  then show "no_crash e \<and> ready env w'"
    using assms by (auto simp: api_call_answer split: sum.splits)
next
  fix w x w' assume "ready env w" "api_call env c (\<lambda>n cl. (f n, cl)) w = (Inr x, w')"
  then show "ready env w'" using assms by (auto simp: api_call_answer split: sum.splits)
qed

section \<open>Dependencies\<close>

lemma settles_operator_config: "quiet env \<Longrightarrow> settles env no_crash (get_operator_config env name)"
  unfolding get_operator_config_def by (rule settles_answer)

lemma settles_discover: "quiet env \<Longrightarrow> settles env no_crash (discover env gv)"
  unfolding discover_def by (rule settles_answer)

lemma sure_registered_cached: "quiet env \<Longrightarrow> sure env (isResourceRegisteredCached env g k)"
  by (rule sureI) (auto simp: isResourceRegisteredCached_def go_bind_def go_try_def lister_run go_return_def
      IsNotFound_def split: option.splits)

lemma settles_availability:
  assumes "quiet env"
  shows "settles env no_crash (isOperatorAvailability env name)"
  unfolding isOperatorAvailability_def
  by (intro settles_rules settles_sure[OF sure_registered_cached] settles_operator_config assms;
      simp add: settles_rules)

lemma settles_registered:
  assumes "quiet env"
  shows "settles env no_crash (isResourceRegistered env gv k)"
  unfolding isResourceRegistered_def
  by (intro settles_rules settles_discover assms; simp add: settles_rules)

lemma sure_dependencies:
  assumes "quiet env"
  shows "sure env (check_dependencies env kueue)"
proof -
  have minor: "sure env (isKubernetesMinorAtLeast env m)" for m
    using assms by (intro sureI) (simp add: isKubernetesMinorAtLeast_run)
  have gate: "settles env no_crash (api_call env GetFeatureGate (\<lambda>n c. (e_FeatureGate env n, c)))"
    by (rule settles_answer[OF assms])
  show ?thesis
    unfolding check_dependencies_def framework_dependencies_def require_operator_def dra_dependencies_def
      dra_apis_available_def update_dra_gates_def Let_def
    by (intro sure_rules settles_availability settles_registered minor gate sure_sum assms) simp_all
qed

section \<open>The finalizer\<close>

lemma finalizer_added:
  assumes "quiet env" and "server_ok env" and "ready env w" and "om_Name (ku_ObjectMeta kueue) = OperatorConfigName"
    and "om_DeletionTimestamp (ku_ObjectMeta kueue) = None"
  shows "\<exists>k w'. addFinalizerToKueueInstance env kueue w = (Inr k, w') \<and> ready env w' \<and>
    om_DeletionTimestamp (ku_ObjectMeta k) = None"
proof (cases "ContainsFinalizer kueue KueueFinalizer")
  case True
  then show ?thesis
    using assms by (simp add: addFinalizerToKueueInstance_def updateFinalizer_def go_return_def)
next
  case False
  obtain original where o: "map_of (c_Kueues (w_Cluster w)) OperatorConfigName = Some original"
      "om_Name (ku_ObjectMeta original) = OperatorConfigName" "om_DeletionTimestamp (ku_ObjectMeta original) = None"
    using assms(3) by (auto simp: ready_def split: option.splits)
  have "\<exists>k w'. update_finalizer_once env kueue True w = (Inr k, w') \<and> ready env w' \<and>
      om_DeletionTimestamp (ku_ObjectMeta k) = None"
    using assms o
    by (auto simp: update_finalizer_once_def api_GetKueue_def api_PatchKueue_def api_call_def go_bind_def go_return_def
        Let_def ready_def update_conv' tunable_levels_limited_def untyped_ok_def server_ok_def SetFinalizers_def)
  then show ?thesis
    using False by (auto simp: addFinalizerToKueueInstance_def updateFinalizer_def RetryOnConflict_def eval_nat_numeral)
qed

section \<open>Certificates\<close>

lemma sure_certificates:
  assumes "workable env"
  shows "sure env (sync_certificates env kueue annos)"
proof -
  note ok = workableD[OF assms]
  have "sure env (manageIssuerCR env kueue)"
    unfolding manageIssuerCR_def
    by (rule sure_untyped[OF ok(1,6,7) untyped_clients(1) ok(9)])
      (simp add: required_issuer_def unstructured_def nested_defs jobj_def)
  moreover have "sure env (manageCertificateCR env kueue (cd_dnsNames c) (cd_commonName c) (cd_secretName c)
      (cd_certificateName c))" if "c \<in> set (certificateData env)" for c
    unfolding manageCertificateCR_def
    by (rule sure_untyped[OF ok(1,6,7) untyped_clients(2) ok(10)])
      (use that in \<open>auto simp: certificateData_def required_certificate_def unstructured_def nested_defs jobj_def\<close>)
  ultimately show ?thesis
    unfolding sync_certificates_def by (intro sure_rules sure_hash[OF ok(2)])
qed

text \<open>The wait for a certificate ran into its deadline.\<close>
definition timed_out :: "Env \<Rightarrow> err \<Rightarrow> bool" where
  "timed_out env e \<longleftrightarrow> (\<exists>c. e = Errorf (''timeout waiting for certificate '' @ e_OperatorNamespace env @ ''/'' @ c @
     '' to be ready''))"

lemma sure_poll:
  assumes "quiet env"
  shows "sure env (poll_certificate env ns c)"
  unfolding poll_certificate_def
  by (intro sure_bind_get[OF assms] sure_option sure_return; simp add: IsNotFound_def sure_rules sure_bind_get[OF assms])

lemma settles_wait_loop:
  assumes "quiet env"
  shows "settles env (\<lambda>e. timed_out env e \<or> is_panic e) (wait_loop env (e_OperatorNamespace env) c d n)"
proof (induction n)
  case 0
  then show ?case unfolding wait_loop.simps by (intro settles_rules) simp
next
  case (Suc n)
  have "sure env (time_Sleep poll_interval)" unfolding time_Sleep_def by (intro sure_rules) simp
  then show ?case
    unfolding wait_loop.simps
    by (intro settles_rules settles_sure[OF sure_read] settles_sure[OF sure_poll[OF assms]] Suc.IH settles_sure)
      (auto simp: timed_out_def)
qed

lemma settles_wait:
  assumes "quiet env"
  shows "settles env (timed_out env) (sync_wait env)"
proof -
  have "settles env (timed_out env) (WaitForCertificateReady env (e_OperatorNamespace env) c two_minutes)" for c
    unfolding settles_def
  proof (rule go_tripleI)
    fix w e w' assume "ready env w" and run: "WaitForCertificateReady env (e_OperatorNamespace env) c two_minutes w = (Inl e, w')"
    then have loop: "wait_loop env (e_OperatorNamespace env) c (w_Now w + two_minutes) (poll_fuel two_minutes) w = (Inl e, w')"
      by (simp add: WaitForCertificateReady_def go_defs)
    have "\<not> is_panic e"
      using wait_loop_not_panic[OF _ _ loop] poll_fuel_enough[of two_minutes] by (simp add: poll_fuel_def)
    then show "timed_out env e \<and> ready env w'"
      using go_triple_Inl[OF settles_wait_loop[OF assms, unfolded settles_def] \<open>ready env w\<close> loop] by blast
  next
    fix w x w' assume "ready env w" "WaitForCertificateReady env (e_OperatorNamespace env) c two_minutes w = (Inr x, w')"
    then show "ready env w'"
      using go_triple_Inr[OF settles_wait_loop[OF assms, unfolded settles_def] \<open>ready env w\<close>]
      by (auto simp: WaitForCertificateReady_def go_defs)
  qed
  then show ?thesis unfolding sync_wait_def by (intro settles_rules)
qed

section \<open>The whole reconciliation\<close>

definition reported :: "World \<Rightarrow> bool" where
  "reported w \<longleftrightarrow> (\<exists>status. last (w_Trace w) = ApplyStatus status)"

lemma status_reported: "updateKueueStatus env kueue conds n w = (r, w') \<Longrightarrow> reported w'"
  using status_request[of env kueue conds n w] by (auto simp: reported_def)

text \<open>Without an answer about the TLS profile of an OpenShift cluster the reconciliation fails.\<close>
definition tls_answered :: "Env \<Rightarrow> bool" where
  "tls_answered env \<longleftrightarrow> (e_IsOpenShift env \<longrightarrow> (\<forall>n. \<not> isl (e_APIServer env n)))"

lemma ready_events: "ready env (w\<lparr>w_Events := es\<rparr>) = ready env w"
  by (simp add: ready_def)

lemma tls_settled:
  assumes "quiet env" and "server_ok env" and "tls_answered env" and "ready env w"
  shows "\<exists>r w'. sync_tls env kueue w = (Inr r, w') \<and> ready env w' \<and> (r = None \<longrightarrow> reported w')"
proof (cases "e_IsOpenShift env")
  case True
  let ?w = "before_call env GetAPIServer w"
  have "\<not> isl (e_APIServer env (w_Calls w))" using assms(3) True by (simp add: tls_answered_def)
  then obtain profile where p: "e_APIServer env (w_Calls w) = Inr profile"
    by (cases "e_APIServer env (w_Calls w)") auto
  have fetch: "FetchAPIServerTLSProfile env w = (Inr profile, ?w)"
    using assms(1) p by (simp add: FetchAPIServerTLSProfile_def go_bind_def try_api_call_answer answer_def go_return_def)
  have w: "ready env ?w" using assms(1,4) by simp
  show ?thesis
  proof (cases "TLSOptionsFromProfile profile")
    case (Inl e)
    let ?w2 = "?w\<lparr>w_Events := w_Events ?w @ [''UnsupportedTLSProfile'']\<rparr>"
    have "ready env ?w2" using w by (simp add: ready_def)
    from sureD[OF sure_status[OF assms(1,2)] this, of kueue "buildUnsupportedTLSProfileConditions e" None]
    obtain x w' where st: "updateKueueStatus env kueue (buildUnsupportedTLSProfileConditions e) None ?w2 = (Inr x, w')"
      "ready env w'" by blast
    then have "sync_tls env kueue w = (Inr None, w')"
      using True fetch Inl by (simp add: sync_tls_def go_bind_def go_seq_def Eventf_def go_modify_def go_return_def)
    then show ?thesis using st status_reported[OF st(1)] by blast
  next
    case (Inr opts)
    then show ?thesis
      using True fetch w
      by (cases opts) (auto simp: sync_tls_def go_bind_def go_seq_def go_when_def Eventf_def go_modify_def go_return_def
          ready_events)
  qed
qed (use assms(4) in \<open>auto simp: sync_tls_def go_return_def\<close>)

text \<open>From the certificates on.\<close>
lemma phases_settled:
  assumes ok: "workable env" and "tls_answered env" and "ready env w"
    and informer: "\<And>n. e_KueueInformer env n = CacheKueue kueue"
    and weights: "weights_parse (e_ParseFloat env) (kc_AdmissionFairSharing (ks_Config (ku_Spec kueue)))"
  shows "\<exists>r w'. sync_apply env k owner dep w = (r, w') \<and> (case r of Inr _ \<Rightarrow> reported w' | Inl e \<Rightarrow> timed_out env e)"
proof -
  note parts = workableD[OF ok]
  obtain annos w1 where certs: "sync_certificates env k
      [(''kueueoperator.kueue.openshift.io/cluster'', FormatInt (om_Generation (ku_ObjectMeta k)))] w = (Inr annos, w1)"
      "ready env w1"
    using sureD[OF sure_certificates[OF ok] assms(3)] by blast
  obtain r w2 where wait: "sync_wait env w1 = (r, w2)" by (meson surj_pair)
  note settled = settles_wait[OF parts(1), unfolded settles_def]
  show ?thesis
  proof (cases r)
    case (Inl e)
    then have "sync_apply env k owner dep w = (Inl e, w2)"
      using certs wait by (simp add: sync_apply_def go_bind_def go_seq_def)
    then show ?thesis using go_triple_Inl[OF settled certs(2)] wait Inl by auto
  next
    case (Inr u)
    then have "ready env w2" using go_triple_Inr[OF settled certs(2)] wait by blast
    then obtain t w3 where tls: "sync_tls env kueue w2 = (Inr t, w3)" "ready env w3" "t = None \<longrightarrow> reported w3"
      using tls_settled[OF parts(1,7) assms(2)] by blast
    have run: "sync_apply env k owner dep w = (case t of None \<Rightarrow> go_return ()
        | Some tlsOpts \<Rightarrow> sync_operand env kueue tlsOpts owner dep annos) w3"
      using certs wait Inr tls(1)
      by (simp add: sync_apply_def go_bind_def go_seq_def sync_reread_def cached_kueue_def go_read_def informer
          go_return_def)
    show ?thesis
    proof (cases t)
      case None
      then show ?thesis using run tls by (simp add: go_return_def)
    next
      case (Some opts)
      then show ?thesis using run operand_reconciled[OF ok weights tls(2)] by (fastforce simp: reported_def)
    qed
  qed
qed



end
