(* ===== verification/Apply_Cache.thy ===== *)
theory Apply_Cache
  imports Rbac_Resources Apply_Laws Workload_Resources
begin

text \<open>
  When an apply makes requests: an unchanged object that the resource cache vouches for is skipped,
  an object without type metadata never is, and a priority level whose shares the user may choose is
  left alone.
\<close>

section \<open>The resource cache\<close>

text \<open>After an apply through the cache, the cache vouches for the object that was returned.\<close>
lemma apply_with_cache_remembers:
  assumes run: "apply_with_cache env cl ns required m w = (Inr (actual, changed), w')"
    and known: "getResourceMetadata env cl required = Some (key, hash)"
    and "obj_version cl actual \<noteq> []"
  shows "w_Cache w' key = Some (hash, obj_version cl actual)"
proof (cases "\<exists>existing. lister_Get env cl ns (obj_name cl required) w = (Inr existing, w) \<and>
    safe_to_skip (w_Cache w) env cl required existing")
  case True
  then show ?thesis
    using run known
    by (auto simp: apply_with_cache_def go_bind_def go_try_def SafeToSkipApply_def go_read_def
        go_return_def safe_to_skip_def getResourceVersion_def split: option.splits if_splits)
next
  case False
  have lister: "snd (lister_Get env cl ns n w) = w" for n by (simp add: lister_Get_def)
  have "remember env cl required m w = (Inr (actual, changed), w')"
    using run False lister[of "obj_name cl required"]
    by (auto simp: apply_with_cache_def go_bind_def go_try_def SafeToSkipApply_def go_read_def
        go_return_def go_throw_def split: prod.splits sum.splits if_splits)
  then obtain w1 where "UpdateCachedResourceMetadata env cl required actual w1 = (Inr (), w')"
    by (auto simp: remember_def go_bind_def go_seq_def go_return_def
        split: prod.splits sum.splits)
  then show ?thesis
    using known assms(3)
    by (auto simp: UpdateCachedResourceMetadata_def getResourceVersion_def go_modify_def)
qed

lemma apply_with_cache_skips:
  assumes "getResourceMetadata env cl required = Some (key, hash)"
    and "w_Cache w key = Some (hash, obj_version cl existing)" and "obj_version cl existing \<noteq> []"
    and "e_ListerFault env (w_Calls w) = None"
    and "map_of (cl_Store cl (e_Informer env (w_Calls w))) (ns, obj_name cl required) = Some existing"
  shows "apply_with_cache env cl ns required m w = (Inr (existing, False), w)"
  using assms
  by (simp add: apply_with_cache_def go_bind_def go_try_def lister_run SafeToSkipApply_def go_read_def
      safe_to_skip_def getResourceVersion_def go_return_def)

text \<open>C33. An object that did not change is not applied again: when the manifest of a cluster role
  names its kind, and after an apply of it the informer shows the object at the version that the
  apply returned, the next apply of the same manifest makes no request at all, changes nothing in
  the operator's state and returns the object that the informer shows.\<close>
theorem unchanged_cluster_role_not_applied:
  assumes "applyClusterRoleWithCache env required w = (Inr (actual, changed), w')"
    and "tm_Kind (cro_TypeMeta required) \<noteq> []"
    and "om_ResourceVersion (cro_ObjectMeta actual) \<noteq> []"
    and "e_ListerFault env (w_Calls w') = None"
    and "map_of (c_ClusterRoles (e_Informer env (w_Calls w'))) ([], om_Name (cro_ObjectMeta required)) =
      Some existing"
    and "om_ResourceVersion (cro_ObjectMeta existing) = om_ResourceVersion (cro_ObjectMeta actual)"
  shows "applyClusterRoleWithCache env required w' = (Inr (existing, False), w')"
proof -
  obtain key hash where meta: "getResourceMetadata env (ClusterRoles env) required = Some (key, hash)"
    using assms(2) by (simp add: getResourceMetadata_def Let_def ClusterRoles_def)
  have "obj_version (ClusterRoles env) x = om_ResourceVersion (cro_ObjectMeta x)"
    "obj_name (ClusterRoles env) x = om_Name (cro_ObjectMeta x)" for x
    by (simp_all add: obj_version_def obj_name_def ClusterRoles_def)
  then show ?thesis
    using apply_with_cache_remembers[OF assms(1)[unfolded applyClusterRoleWithCache_def] meta] assms
    unfolding applyClusterRoleWithCache_def
    by (intro apply_with_cache_skips[OF meta]) (simp_all add: ClusterRoles_def)
qed

definition cached_role :: ClusterRole where
  "cached_role = \<lparr>cro_TypeMeta = \<lparr>tm_Kind = ''ClusterRole'', tm_APIVersion = ''v1''\<rparr>,
     cro_ObjectMeta = empty_meta\<lparr>om_Name := ''kueue-manager-role'', om_ResourceVersion := ''7''\<rparr>,
     cro_Rules = [], cro_AggregationRule = None\<rparr>"

definition cached_cluster :: Cluster where
  "cached_cluster = empty_cluster\<lparr>c_ClusterRoles := [(([], ''kueue-manager-role''), cached_role)]\<rparr>"

lemma cached_role_applied:
  "\<exists>x w'. applyClusterRoleWithCache (calm_env cached_cluster) cached_role (initial_world cached_cluster) =
     (Inr (x, False), w') \<and> om_ResourceVersion (cro_ObjectMeta x) = ''7'' \<and> w_Trace w' \<noteq> []"
  by (simp add: applyClusterRoleWithCache_def apply_with_cache_def go_bind_def go_try_def lister_run
      SafeToSkipApply_def go_read_def safe_to_skip_def ClusterRoles_def cached_cluster_def cached_role_def
      remember_def ApplyClusterRole_def apply_object_def api_Get_def api_call_def before_call_def Let_def
      merge_ClusterRole_def EnsureObjectMeta_def SetStringIfSet_def MergeMap_def MergeOwnerRefs_def
      empty_meta_def go_return_def go_seq_def UpdateCachedResourceMetadata_def getResourceMetadata_def
      getResourceVersion_def obj_version_def obj_name_def go_modify_def)

theorem unchanged_cluster_role_not_applied_witness:
  "\<exists>w'. applyClusterRoleWithCache (calm_env cached_cluster) cached_role w' =
     (Inr (cached_role, False), w') \<and> w_Trace w' \<noteq> []"
proof -
  obtain x w' where run: "applyClusterRoleWithCache (calm_env cached_cluster) cached_role
      (initial_world cached_cluster) = (Inr (x, False), w')"
    and after: "om_ResourceVersion (cro_ObjectMeta x) = ''7''" "w_Trace w' \<noteq> []"
    using cached_role_applied by blast
  have role: "tm_Kind (cro_TypeMeta cached_role) \<noteq> []" "om_ResourceVersion (cro_ObjectMeta cached_role) = ''7''"
    "om_Name (cro_ObjectMeta cached_role) = ''kueue-manager-role''"
    by (simp_all add: cached_role_def)
  have "applyClusterRoleWithCache (calm_env cached_cluster) cached_role w' = (Inr (cached_role, False), w')"
    by (rule unchanged_cluster_role_not_applied[OF run]) (simp_all add: role after cached_cluster_def)
  then show ?thesis using after by blast
qed

lemma try_get_run:
  "\<exists>r w1. go_try (api_Get env cl ns name) w = (Inr r, w1) \<and>
     w_Trace w1 = w_Trace w @ [Get (cl_Kind cl) ns name]"
proof -
  obtain r w1 where run: "api_Get env cl ns name w = (r, w1)"
      "\<not> (\<exists>e. r = Inl e \<and> is_panic e)" "w_Trace w1 = w_Trace w @ [Get (cl_Kind cl) ns name]"
    unfolding api_Get_def using api_call_shape by blast
  then show ?thesis by (cases r) (auto simp: go_try_def)
qed

lemma trace_prefix: "\<exists>cs. w_Trace (snd (m w)) = w_Trace w @ cs" if "sends (\<lambda>_. True) m"
  using sendsD[OF that, of w] by (cases "m w") auto

lemma sends_any_apply: "sends (\<lambda>_. True) (apply_object env cl ns name toCreate b merge)"
  by (rule sends_apply_object) simp_all

text \<open>Whatever it does next, an apply begins by reading the object.\<close>
lemma apply_object_reads:
  "\<exists>cs. w_Trace (snd (apply_object env cl ns name toCreate b merge w)) =
     w_Trace w @ Get (cl_Kind cl) ns name # cs"
proof -
  let ?rest = "\<lambda>r. case r of
        Inl err \<Rightarrow> if IsNotFound err then create_and_report env cl ns toCreate b else go_throw err
      | Inr existing \<Rightarrow> (case merge existing of (modified, toWrite) \<Rightarrow>
          if \<not> modified then go_return (toWrite, False) else update_and_report env cl ns toWrite)"
  have rest: "sends (\<lambda>_. True) (?rest r)" for r by (intro sends_rules) simp_all
  obtain r w1 where get: "go_try (api_Get env cl ns name) w = (Inr r, w1)"
      "w_Trace w1 = w_Trace w @ [Get (cl_Kind cl) ns name]"
    using try_get_run by blast
  then have "apply_object env cl ns name toCreate b merge w = ?rest r w1"
    by (simp add: apply_object_def go_bind_def)
  then show ?thesis using trace_prefix[OF rest, of r w1] get(2) by auto
qed

text \<open>The cache never spares an object that is built by a Go literal: the OpenShift cluster role
  has no type metadata, so the cache has no key for it, and every reconciliation that gets past the
  informer reads it again from the server, whatever the cache holds.\<close>
theorem literal_cluster_role_never_skipped:
  assumes "manageOpenshiftClusterRolesForKueue env owner w = (Inr r, w')"
  shows "\<exists>cs. w_Trace w' = w_Trace w @ Get KClusterRole [] ''kueue-openshift-roles'' # cs"
proof -
  let ?role = "openshift_cluster_role owner"
  have nokey: "getResourceMetadata env (ClusterRoles env) ?role = None"
    by (simp add: getResourceMetadata_def ClusterRoles_def openshift_cluster_role_def empty_type_def Let_def)
  have lister: "snd (lister_Get env cl ns n w) = w" for cl :: "ClusterRole client" and ns n
    by (simp add: lister_Get_def)
  have "remember env (ClusterRoles env) ?role (ApplyClusterRole env ?role) w = (Inr r, w')"
    using assms lister[of "ClusterRoles env" "[]" "obj_name (ClusterRoles env) ?role"]
    by (auto simp: manageOpenshiftClusterRolesForKueue_def applyClusterRoleWithCache_def
        apply_with_cache_def go_bind_def go_try_def SafeToSkipApply_def go_read_def safe_to_skip_def
        nokey go_throw_def split: prod.splits sum.splits if_splits)
  then have "w' = snd (ApplyClusterRole env ?role w)"
    by (auto simp: remember_def go_bind_def go_seq_def go_return_def UpdateCachedResourceMetadata_def
        nokey split: prod.splits sum.splits)
  moreover have "om_Name (cro_ObjectMeta ?role) = ''kueue-openshift-roles''"
    "cl_Kind (ClusterRoles env) = KClusterRole"
    by (simp_all add: openshift_cluster_role_def ensure_owned_def owned_meta_def ClusterRoles_def)
  ultimately show ?thesis
    using apply_object_reads[of env "ClusterRoles env" "[]" "om_Name (cro_ObjectMeta ?role)"]
    by (simp add: ApplyClusterRole_def)
qed

theorem literal_cluster_role_never_skipped_witness:
  "\<exists>r w'. manageOpenshiftClusterRolesForKueue (calm_env empty_cluster) some_owner
      (initial_world empty_cluster) = (Inr r, w') \<and>
    (\<exists>cs. w_Trace w' = Get KClusterRole [] ''kueue-openshift-roles'' # cs)"
proof -
  obtain r w' where run: "manageOpenshiftClusterRolesForKueue (calm_env empty_cluster) some_owner
      (initial_world empty_cluster) = (Inr r, w')"
    by (simp add: manageOpenshiftClusterRolesForKueue_def applyClusterRoleWithCache_def
        apply_with_cache_def go_bind_def go_try_def lister_run ClusterRoles_def empty_cluster_def
        IsNotFound_def remember_def ApplyClusterRole_def apply_object_def api_Get_def api_call_def
        before_call_def Let_def create_and_report_def api_Create_def go_seq_def ReportCreateEvent_def
        Eventf_def go_modify_def go_return_def UpdateCachedResourceMetadata_def getResourceMetadata_def
        openshift_cluster_role_def empty_type_def)
  then show ?thesis using literal_cluster_role_never_skipped[OF run] by auto
qed

section \<open>Priority levels\<close>

lemma update_and_report_trace:
  "w_Trace (snd (update_and_report env cl ns x w)) = w_Trace w @ [Update (cl_Object cl x)]"
proof -
  obtain r w1 where "api_Update env cl ns x w = (r, w1)" "\<not> (\<exists>e. r = Inl e \<and> is_panic e)"
      "w_Trace w1 = w_Trace w @ [Update (cl_Object cl x)]"
    unfolding api_Update_def using api_call_shape by blast
  then show ?thesis
    by (cases r) (auto simp: update_and_report_def go_bind_def go_try_def go_seq_def
        ReportUpdateEvent_def Eventf_def go_modify_def go_return_def go_throw_def)
qed

definition shares_allowed :: "PriorityLevelConfiguration \<Rightarrow> bool" where
  "shares_allowed p \<longleftrightarrow> map_of (om_Annotations (plc_ObjectMeta p))
     ''kueue.openshift.io/allow-nominal-concurrency-shares-update'' = Some ''true''"

text \<open>C37. A priority level whose specification differs from the wanted one is treated as its
  annotation says. Without permission it is set back to the wanted specification. With permission,
  the whole object is left as it is if its number of shares is zero or lies between the wanted number
  and five, set back if it does not, and a priority level without a number of shares (an exempt one)
  crashes the operator.\<close>
theorem user_shares_respected:
  assumes "e_Fault env (w_Calls w) = None"
    and "e_Interfere env (w_Calls w) (w_Cluster w) = w_Cluster w"
    and "map_of (c_PriorityLevels (w_Cluster w)) ([], om_Name (plc_ObjectMeta want)) = Some current"
    and "plc_Spec current \<noteq> plc_Spec want" and "concurrency_shares want = Some m"
  shows "let (r, w') = ApplyPriorityLevelConfiguration env want w;
      read = Get KPriorityLevel [] (om_Name (plc_ObjectMeta want));
      reset = (\<exists>x. w_Trace w' = w_Trace w @ [read, Update (RPriorityLevel x)] \<and> plc_Spec x = plc_Spec want) in
    if \<not> shares_allowed current then reset
    else case concurrency_shares current of
      None \<Rightarrow> w_Trace w' = w_Trace w @ [read] \<and> (\<exists>e. r = Inl e \<and> is_panic e)
    | Some n \<Rightarrow> if n = 0 \<or> sint m \<le> sint n \<and> sint n \<le> 5
                then w_Trace w' = w_Trace w @ [read] \<and> r = Inr (current, False) else reset"
proof -
  let ?cl = "PriorityLevelConfigurations env"
  let ?read = "Get KPriorityLevel [] (om_Name (plc_ObjectMeta want))"
  let ?x = "current\<lparr>plc_ObjectMeta := snd (EnsureObjectMeta False (plc_ObjectMeta current) (plc_ObjectMeta want)),
      plc_Spec := plc_Spec want\<rparr>"
  have cl: "cl_Kind ?cl = KPriorityLevel" "cl_Object ?cl = RPriorityLevel" "cl_Store ?cl = c_PriorityLevels"
    by (simp_all add: PriorityLevelConfigurations_def)
  have "api_Get env ?cl [] (om_Name (plc_ObjectMeta want)) w = (Inr current, before_call env ?read w)"
    using priority_levels.get_quiet[OF assms(1,2)] assms(3) by (simp add: cl)
  then have run: "ApplyPriorityLevelConfiguration env want w = (case keeps_user_shares want current of
       Inl e \<Rightarrow> (Inl e, before_call env ?read w)
     | Inr keep \<Rightarrow> (if keep then go_return (current, False) else update_and_report env ?cl [] ?x)
         (before_call env ?read w))"
    using assms(4)
    by (simp add: ApplyPriorityLevelConfiguration_def go_bind_def go_try_def go_lift_def case_prod_beta
        split: sum.split)
  have [simp]: "w_Trace (before_call env ?read w) = w_Trace w @ [?read]" by (simp add: before_call_def)
  have reset: "\<exists>x. w_Trace (snd (update_and_report env ?cl [] ?x (before_call env ?read w))) =
      w_Trace w @ [?read, Update (RPriorityLevel x)] \<and> plc_Spec x = plc_Spec want"
    by (rule exI[of _ ?x]) (simp add: update_and_report_trace cl)
  show ?thesis
    using assms(5) reset
    by (auto simp: run keeps_user_shares_def shares_allowed_def go_return_def case_prod_beta Let_def
        split: option.splits)
qed

definition priority_level :: "(string, string) gomap \<Rightarrow> int32 \<Rightarrow> PriorityLevelConfiguration" where
  "priority_level annos n = \<lparr>plc_TypeMeta = empty_type,
     plc_ObjectMeta = empty_meta\<lparr>om_Name := ''kueue-visibility'', om_Annotations := annos\<rparr>,
     plc_Spec = \<lparr>pls_Type = ''Limited'', pls_Limited = Some \<lparr>lim_NominalConcurrencyShares = Some n,
       lim_Rest = []\<rparr>, pls_Exempt = None\<rparr>\<rparr>"

theorem user_shares_respected_witness:
  "let c = empty_cluster\<lparr>c_PriorityLevels := [(([], ''kueue-visibility''), priority_level
        [(''kueue.openshift.io/allow-nominal-concurrency-shares-update'', ''true'')] 4)]\<rparr> in
   fst (ApplyPriorityLevelConfiguration (calm_env c) (priority_level [] 2) (initial_world c)) =
     Inr (priority_level [(''kueue.openshift.io/allow-nominal-concurrency-shares-update'', ''true'')] 4, False)"
proof -
  let ?cur = "priority_level [(''kueue.openshift.io/allow-nominal-concurrency-shares-update'', ''true'')] 4"
  let ?c = "empty_cluster\<lparr>c_PriorityLevels := [(([], ''kueue-visibility''), ?cur)]\<rparr>"
  have "plc_Spec ?cur \<noteq> plc_Spec (priority_level [] 2)" "concurrency_shares (priority_level [] 2) = Some 2"
    by (simp_all add: priority_level_def concurrency_shares_def)
  from user_shares_respected[of "calm_env ?c" "initial_world ?c" "priority_level [] 2" ?cur, OF _ _ _ this]
  show ?thesis
    by (simp add: priority_level_def shares_allowed_def concurrency_shares_def case_prod_beta Let_def)
qed

end
