(* ===== verification/Apply_Documents.thy ===== *)
theory Apply_Documents
  imports API_Types Go_Monad
begin

text \<open>
  The apply configurations of the types inside a Kueue resource: the builders of
  \<^verbatim>\<open>src/pkg/generated/applyconfiguration/kueueoperator/v1\<close>, one group per file. A document has a pointer for
  every field (\<^term>\<open>None\<close> is nil) or a slice; \<open>T_apply\<close> is the constructor of the empty document of a type \<open>T\<close>
  and \<open>T_WithF\<close> the builder of its field \<open>F\<close>. A builder that returns its receiver is a function from the
  old document to the new one; one that takes pointers to documents for a slice panics on nil.

  The server reads a field that a document leaves out as its zero value (\<open>read_...\<close>). The locale \<open>declares\<close>
  states that a value can be declared with the builders and is read back unchanged; it is interpreted for
  every type, from the inside out.
\<close>

section \<open>Builders\<close>

text \<open>A nil pointer among the values is a panic.\<close>
definition non_nil :: "string \<Rightarrow> 'a option list \<Rightarrow> err + 'a list" where
  "non_nil f values = (if None \<in> set values then Inl (Panic (''nil value passed to '' @ f))
     else Inr (map the values))"

lemma non_nil_some [simp]: "non_nil f (map Some xs) = Inr xs"
  by (auto simp: non_nil_def)

record ResourceWeightApply =
  arw_Name :: "string option"
  arw_Weight :: "string option"

definition ResourceWeight_apply :: ResourceWeightApply where
  "ResourceWeight_apply = \<lparr>arw_Name = None, arw_Weight = None\<rparr>"

definition ResourceWeight_WithName :: "string \<Rightarrow> ResourceWeightApply \<Rightarrow>
    ResourceWeightApply" where
  "ResourceWeight_WithName value b = b\<lparr>arw_Name := Some value\<rparr>"

definition ResourceWeight_WithWeight :: "string \<Rightarrow> ResourceWeightApply \<Rightarrow>
    ResourceWeightApply" where
  "ResourceWeight_WithWeight value b = b\<lparr>arw_Weight := Some value\<rparr>"

record AdmissionFairSharingCustomApply =
  aafc_UsageHalfLifeTimeSeconds :: "int32 option"
  aafc_UsageSamplingIntervalSeconds :: "int32 option"
  aafc_ResourceWeights :: "ResourceWeightApply list"

definition AdmissionFairSharingCustom_apply :: AdmissionFairSharingCustomApply where
  "AdmissionFairSharingCustom_apply = \<lparr>aafc_UsageHalfLifeTimeSeconds = None,
      aafc_UsageSamplingIntervalSeconds = None, aafc_ResourceWeights = []\<rparr>"

definition AdmissionFairSharingCustom_WithUsageHalfLifeTimeSeconds :: "int32 \<Rightarrow>
    AdmissionFairSharingCustomApply \<Rightarrow> AdmissionFairSharingCustomApply" where
  "AdmissionFairSharingCustom_WithUsageHalfLifeTimeSeconds value b =
      b\<lparr>aafc_UsageHalfLifeTimeSeconds := Some value\<rparr>"

definition AdmissionFairSharingCustom_WithUsageSamplingIntervalSeconds :: "int32 \<Rightarrow>
    AdmissionFairSharingCustomApply \<Rightarrow> AdmissionFairSharingCustomApply" where
  "AdmissionFairSharingCustom_WithUsageSamplingIntervalSeconds value b =
      b\<lparr>aafc_UsageSamplingIntervalSeconds := Some value\<rparr>"

definition AdmissionFairSharingCustom_WithResourceWeights :: "ResourceWeightApply option list
    \<Rightarrow> AdmissionFairSharingCustomApply \<Rightarrow> err + AdmissionFairSharingCustomApply"
    where
  "AdmissionFairSharingCustom_WithResourceWeights values b = (case non_nil ''WithResourceWeights''
      values of Inl e \<Rightarrow> Inl e
     | Inr docs \<Rightarrow> Inr (b\<lparr>aafc_ResourceWeights := aafc_ResourceWeights b @ docs\<rparr>))"

record AdmissionFairSharingApply =
  aafs_Configuration :: "AdmissionFairSharingConfiguration option"
  aafs_Custom :: "AdmissionFairSharingCustomApply option"

definition AdmissionFairSharing_apply :: AdmissionFairSharingApply where
  "AdmissionFairSharing_apply = \<lparr>aafs_Configuration = None, aafs_Custom = None\<rparr>"

definition AdmissionFairSharing_WithConfiguration :: "AdmissionFairSharingConfiguration \<Rightarrow>
    AdmissionFairSharingApply \<Rightarrow> AdmissionFairSharingApply" where
  "AdmissionFairSharing_WithConfiguration value b = b\<lparr>aafs_Configuration := Some value\<rparr>"

definition AdmissionFairSharing_WithCustom :: "AdmissionFairSharingCustomApply option \<Rightarrow>
    AdmissionFairSharingApply \<Rightarrow> AdmissionFairSharingApply" where
  "AdmissionFairSharing_WithCustom value b = b\<lparr>aafs_Custom := value\<rparr>"

record RequeuingStrategyApply =
  ars_TimeReference :: "RequeuingTimeReference option"
  ars_RetryLimit :: "int32 option"
  ars_BackoffBaseSeconds :: "int32 option"
  ars_BackoffMaxSeconds :: "int32 option"

definition RequeuingStrategy_apply :: RequeuingStrategyApply where
  "RequeuingStrategy_apply = \<lparr>ars_TimeReference = None, ars_RetryLimit = None,
      ars_BackoffBaseSeconds = None, ars_BackoffMaxSeconds = None\<rparr>"

definition RequeuingStrategy_WithTimeReference :: "RequeuingTimeReference \<Rightarrow>
    RequeuingStrategyApply \<Rightarrow> RequeuingStrategyApply" where
  "RequeuingStrategy_WithTimeReference value b = b\<lparr>ars_TimeReference := Some value\<rparr>"

definition RequeuingStrategy_WithRetryLimit :: "int32 \<Rightarrow> RequeuingStrategyApply \<Rightarrow>
    RequeuingStrategyApply" where
  "RequeuingStrategy_WithRetryLimit value b = b\<lparr>ars_RetryLimit := Some value\<rparr>"

definition RequeuingStrategy_WithBackoffBaseSeconds :: "int32 \<Rightarrow> RequeuingStrategyApply
    \<Rightarrow> RequeuingStrategyApply" where
  "RequeuingStrategy_WithBackoffBaseSeconds value b = b\<lparr>ars_BackoffBaseSeconds := Some value\<rparr>"

definition RequeuingStrategy_WithBackoffMaxSeconds :: "int32 \<Rightarrow> RequeuingStrategyApply
    \<Rightarrow> RequeuingStrategyApply" where
  "RequeuingStrategy_WithBackoffMaxSeconds value b = b\<lparr>ars_BackoffMaxSeconds := Some value\<rparr>"

record ByWorkloadApply =
  abw_Admission :: "GangSchedulingWorkloadAdmission option"
  abw_TimeoutSeconds :: "int32 option"
  abw_RecoveryTimeoutSeconds :: "int32 option"
  abw_RequeuingStrategy :: "RequeuingStrategyApply option"

definition ByWorkload_apply :: ByWorkloadApply where
  "ByWorkload_apply = \<lparr>abw_Admission = None, abw_TimeoutSeconds = None,
      abw_RecoveryTimeoutSeconds = None, abw_RequeuingStrategy = None\<rparr>"

definition ByWorkload_WithAdmission :: "GangSchedulingWorkloadAdmission \<Rightarrow> ByWorkloadApply
    \<Rightarrow> ByWorkloadApply" where
  "ByWorkload_WithAdmission value b = b\<lparr>abw_Admission := Some value\<rparr>"

definition ByWorkload_WithTimeoutSeconds :: "int32 \<Rightarrow> ByWorkloadApply \<Rightarrow>
    ByWorkloadApply" where
  "ByWorkload_WithTimeoutSeconds value b = b\<lparr>abw_TimeoutSeconds := Some value\<rparr>"

definition ByWorkload_WithRecoveryTimeoutSeconds :: "int32 \<Rightarrow> ByWorkloadApply \<Rightarrow>
    ByWorkloadApply" where
  "ByWorkload_WithRecoveryTimeoutSeconds value b = b\<lparr>abw_RecoveryTimeoutSeconds := Some
      value\<rparr>"

definition ByWorkload_WithRequeuingStrategy :: "RequeuingStrategyApply option \<Rightarrow>
    ByWorkloadApply \<Rightarrow> ByWorkloadApply" where
  "ByWorkload_WithRequeuingStrategy value b = b\<lparr>abw_RequeuingStrategy := value\<rparr>"

record CELDeviceSelectorApply =
  acel_Expression :: "string option"

definition CELDeviceSelector_apply :: CELDeviceSelectorApply where
  "CELDeviceSelector_apply = \<lparr>acel_Expression = None\<rparr>"

definition CELDeviceSelector_WithExpression :: "string \<Rightarrow> CELDeviceSelectorApply
    \<Rightarrow> CELDeviceSelectorApply" where
  "CELDeviceSelector_WithExpression value b = b\<lparr>acel_Expression := Some value\<rparr>"

record SourceKeyLabelApply =
  askl_Key :: "string option"

definition SourceKeyLabel_apply :: SourceKeyLabelApply where
  "SourceKeyLabel_apply = \<lparr>askl_Key = None\<rparr>"

definition SourceKeyLabel_WithKey :: "string \<Rightarrow> SourceKeyLabelApply \<Rightarrow>
    SourceKeyLabelApply" where
  "SourceKeyLabel_WithKey value b = b\<lparr>askl_Key := Some value\<rparr>"

record SourceKeyAnnotationApply =
  aska_Key :: "string option"

definition SourceKeyAnnotation_apply :: SourceKeyAnnotationApply where
  "SourceKeyAnnotation_apply = \<lparr>aska_Key = None\<rparr>"

definition SourceKeyAnnotation_WithKey :: "string \<Rightarrow> SourceKeyAnnotationApply \<Rightarrow>
    SourceKeyAnnotationApply" where
  "SourceKeyAnnotation_WithKey value b = b\<lparr>aska_Key := Some value\<rparr>"

record SourceKeyApply =
  ask_SourceType :: "SourceType option"
  ask_Label :: "SourceKeyLabelApply option"
  ask_Annotation :: "SourceKeyAnnotationApply option"

definition SourceKey_apply :: SourceKeyApply where
  "SourceKey_apply = \<lparr>ask_SourceType = None, ask_Label = None, ask_Annotation = None\<rparr>"

definition SourceKey_WithSourceType :: "SourceType \<Rightarrow> SourceKeyApply \<Rightarrow>
    SourceKeyApply" where
  "SourceKey_WithSourceType value b = b\<lparr>ask_SourceType := Some value\<rparr>"

definition SourceKey_WithLabel :: "SourceKeyLabelApply option \<Rightarrow> SourceKeyApply \<Rightarrow>
    SourceKeyApply" where
  "SourceKey_WithLabel value b = b\<lparr>ask_Label := value\<rparr>"

definition SourceKey_WithAnnotation :: "SourceKeyAnnotationApply option \<Rightarrow> SourceKeyApply
    \<Rightarrow> SourceKeyApply" where
  "SourceKey_WithAnnotation value b = b\<lparr>ask_Annotation := value\<rparr>"

record ControllerMetricsCustomLabelApply =
  acl_Name :: "string option"
  acl_SourceKey :: "SourceKeyApply option"
  acl_SourceKind :: "SourceKind option"

definition ControllerMetricsCustomLabel_apply :: ControllerMetricsCustomLabelApply where
  "ControllerMetricsCustomLabel_apply = \<lparr>acl_Name = None, acl_SourceKey = None, acl_SourceKind =
      None\<rparr>"

definition ControllerMetricsCustomLabel_WithName :: "string \<Rightarrow>
    ControllerMetricsCustomLabelApply \<Rightarrow> ControllerMetricsCustomLabelApply" where
  "ControllerMetricsCustomLabel_WithName value b = b\<lparr>acl_Name := Some value\<rparr>"

definition ControllerMetricsCustomLabel_WithSourceKey :: "SourceKeyApply option \<Rightarrow>
    ControllerMetricsCustomLabelApply \<Rightarrow> ControllerMetricsCustomLabelApply" where
  "ControllerMetricsCustomLabel_WithSourceKey value b = b\<lparr>acl_SourceKey := value\<rparr>"

definition ControllerMetricsCustomLabel_WithSourceKind :: "SourceKind \<Rightarrow>
    ControllerMetricsCustomLabelApply \<Rightarrow> ControllerMetricsCustomLabelApply" where
  "ControllerMetricsCustomLabel_WithSourceKind value b = b\<lparr>acl_SourceKind := Some value\<rparr>"

record ControllerMetricsApply =
  acmx_CustomLabels :: "ControllerMetricsCustomLabelApply list"

definition ControllerMetrics_apply :: ControllerMetricsApply where
  "ControllerMetrics_apply = \<lparr>acmx_CustomLabels = []\<rparr>"

definition ControllerMetrics_WithCustomLabels :: "ControllerMetricsCustomLabelApply option list
    \<Rightarrow> ControllerMetricsApply \<Rightarrow> err + ControllerMetricsApply" where
  "ControllerMetrics_WithCustomLabels values b = (case non_nil ''WithCustomLabels'' values of Inl e
      \<Rightarrow> Inl e
     | Inr docs \<Rightarrow> Inr (b\<lparr>acmx_CustomLabels := acmx_CustomLabels b @ docs\<rparr>))"

record ControllerManagerApply =
  acmg_Metrics :: "ControllerMetricsApply option"

definition ControllerManager_apply :: ControllerManagerApply where
  "ControllerManager_apply = \<lparr>acmg_Metrics = None\<rparr>"

definition ControllerManager_WithMetrics :: "ControllerMetricsApply option \<Rightarrow>
    ControllerManagerApply \<Rightarrow> ControllerManagerApply" where
  "ControllerManager_WithMetrics value b = b\<lparr>acmg_Metrics := value\<rparr>"

record DeviceSelectorApply =
  ads_Type :: "DeviceSelectorType option"
  ads_CEL :: "CELDeviceSelectorApply option"

definition DeviceSelector_apply :: DeviceSelectorApply where
  "DeviceSelector_apply = \<lparr>ads_Type = None, ads_CEL = None\<rparr>"

definition DeviceSelector_WithType :: "DeviceSelectorType \<Rightarrow> DeviceSelectorApply
    \<Rightarrow> DeviceSelectorApply" where
  "DeviceSelector_WithType value b = b\<lparr>ads_Type := Some value\<rparr>"

definition DeviceSelector_WithCEL :: "CELDeviceSelectorApply option \<Rightarrow> DeviceSelectorApply
    \<Rightarrow> DeviceSelectorApply" where
  "DeviceSelector_WithCEL value b = b\<lparr>ads_CEL := value\<rparr>"

record DeviceClassCapacitySourceApply =
  acap_Name :: "string option"
  acap_Driver :: "string option"
  acap_DeviceSelector :: "DeviceSelectorApply option"

definition DeviceClassCapacitySource_apply :: DeviceClassCapacitySourceApply where
  "DeviceClassCapacitySource_apply = \<lparr>acap_Name = None, acap_Driver = None, acap_DeviceSelector =
      None\<rparr>"

definition DeviceClassCapacitySource_WithName :: "string \<Rightarrow> DeviceClassCapacitySourceApply
    \<Rightarrow> DeviceClassCapacitySourceApply" where
  "DeviceClassCapacitySource_WithName value b = b\<lparr>acap_Name := Some value\<rparr>"

definition DeviceClassCapacitySource_WithDriver :: "string \<Rightarrow> DeviceClassCapacitySourceApply
    \<Rightarrow> DeviceClassCapacitySourceApply" where
  "DeviceClassCapacitySource_WithDriver value b = b\<lparr>acap_Driver := Some value\<rparr>"

definition DeviceClassCapacitySource_WithDeviceSelector :: "DeviceSelectorApply option \<Rightarrow>
    DeviceClassCapacitySourceApply \<Rightarrow> DeviceClassCapacitySourceApply" where
  "DeviceClassCapacitySource_WithDeviceSelector value b = b\<lparr>acap_DeviceSelector := value\<rparr>"

record DeviceClassCounterSourceApply =
  actr_Name :: "string option"
  actr_Driver :: "string option"
  actr_DeviceSelector :: "DeviceSelectorApply option"

definition DeviceClassCounterSource_apply :: DeviceClassCounterSourceApply where
  "DeviceClassCounterSource_apply = \<lparr>actr_Name = None, actr_Driver = None, actr_DeviceSelector =
      None\<rparr>"

definition DeviceClassCounterSource_WithName :: "string \<Rightarrow> DeviceClassCounterSourceApply
    \<Rightarrow> DeviceClassCounterSourceApply" where
  "DeviceClassCounterSource_WithName value b = b\<lparr>actr_Name := Some value\<rparr>"

definition DeviceClassCounterSource_WithDriver :: "string \<Rightarrow> DeviceClassCounterSourceApply
    \<Rightarrow> DeviceClassCounterSourceApply" where
  "DeviceClassCounterSource_WithDriver value b = b\<lparr>actr_Driver := Some value\<rparr>"

definition DeviceClassCounterSource_WithDeviceSelector :: "DeviceSelectorApply option \<Rightarrow>
    DeviceClassCounterSourceApply \<Rightarrow> DeviceClassCounterSourceApply" where
  "DeviceClassCounterSource_WithDeviceSelector value b = b\<lparr>actr_DeviceSelector := value\<rparr>"

record DeviceClassSourceConfigApply =
  adsc_Type :: "DeviceClassSourceType option"
  adsc_Counter :: "DeviceClassCounterSourceApply option"
  adsc_Capacity :: "DeviceClassCapacitySourceApply option"

definition DeviceClassSourceConfig_apply :: DeviceClassSourceConfigApply where
  "DeviceClassSourceConfig_apply = \<lparr>adsc_Type = None, adsc_Counter = None, adsc_Capacity =
      None\<rparr>"

definition DeviceClassSourceConfig_WithType :: "DeviceClassSourceType \<Rightarrow>
    DeviceClassSourceConfigApply \<Rightarrow> DeviceClassSourceConfigApply" where
  "DeviceClassSourceConfig_WithType value b = b\<lparr>adsc_Type := Some value\<rparr>"

definition DeviceClassSourceConfig_WithCounter :: "DeviceClassCounterSourceApply option \<Rightarrow>
    DeviceClassSourceConfigApply \<Rightarrow> DeviceClassSourceConfigApply" where
  "DeviceClassSourceConfig_WithCounter value b = b\<lparr>adsc_Counter := value\<rparr>"

definition DeviceClassSourceConfig_WithCapacity :: "DeviceClassCapacitySourceApply option \<Rightarrow>
    DeviceClassSourceConfigApply \<Rightarrow> DeviceClassSourceConfigApply" where
  "DeviceClassSourceConfig_WithCapacity value b = b\<lparr>adsc_Capacity := value\<rparr>"

record DeviceClassMappingApply =
  adcm_Name :: "string option"
  adcm_DeviceClassNames :: "DeviceClassName list"
  adcm_Sources :: "DeviceClassSourceConfigApply list"

definition DeviceClassMapping_apply :: DeviceClassMappingApply where
  "DeviceClassMapping_apply = \<lparr>adcm_Name = None, adcm_DeviceClassNames = [], adcm_Sources =
      []\<rparr>"

definition DeviceClassMapping_WithName :: "string \<Rightarrow> DeviceClassMappingApply \<Rightarrow>
    DeviceClassMappingApply" where
  "DeviceClassMapping_WithName value b = b\<lparr>adcm_Name := Some value\<rparr>"

definition DeviceClassMapping_WithDeviceClassNames :: "DeviceClassName list \<Rightarrow>
    DeviceClassMappingApply \<Rightarrow> DeviceClassMappingApply" where
  "DeviceClassMapping_WithDeviceClassNames values b = b\<lparr>adcm_DeviceClassNames :=
      adcm_DeviceClassNames b @ values\<rparr>"

definition DeviceClassMapping_WithSources :: "DeviceClassSourceConfigApply option list \<Rightarrow>
    DeviceClassMappingApply \<Rightarrow> err + DeviceClassMappingApply" where
  "DeviceClassMapping_WithSources values b = (case non_nil ''WithSources'' values of Inl e \<Rightarrow>
      Inl e
     | Inr docs \<Rightarrow> Inr (b\<lparr>adcm_Sources := adcm_Sources b @ docs\<rparr>))"

record ExternalFrameworkApply =
  aef_Group :: "string option"
  aef_Resource :: "string option"
  aef_Version :: "string option"

definition ExternalFramework_apply :: ExternalFrameworkApply where
  "ExternalFramework_apply = \<lparr>aef_Group = None, aef_Resource = None, aef_Version = None\<rparr>"

definition ExternalFramework_WithGroup :: "string \<Rightarrow> ExternalFrameworkApply \<Rightarrow>
    ExternalFrameworkApply" where
  "ExternalFramework_WithGroup value b = b\<lparr>aef_Group := Some value\<rparr>"

definition ExternalFramework_WithResource :: "string \<Rightarrow> ExternalFrameworkApply \<Rightarrow>
    ExternalFrameworkApply" where
  "ExternalFramework_WithResource value b = b\<lparr>aef_Resource := Some value\<rparr>"

definition ExternalFramework_WithVersion :: "string \<Rightarrow> ExternalFrameworkApply \<Rightarrow>
    ExternalFrameworkApply" where
  "ExternalFramework_WithVersion value b = b\<lparr>aef_Version := Some value\<rparr>"

record GangSchedulingApply =
  ags_Policy :: "GangSchedulingPolicy option"
  ags_ByWorkload :: "ByWorkloadApply option"

definition GangScheduling_apply :: GangSchedulingApply where
  "GangScheduling_apply = \<lparr>ags_Policy = None, ags_ByWorkload = None\<rparr>"

definition GangScheduling_WithPolicy :: "GangSchedulingPolicy \<Rightarrow> GangSchedulingApply
    \<Rightarrow> GangSchedulingApply" where
  "GangScheduling_WithPolicy value b = b\<lparr>ags_Policy := Some value\<rparr>"

definition GangScheduling_WithByWorkload :: "ByWorkloadApply option \<Rightarrow> GangSchedulingApply
    \<Rightarrow> GangSchedulingApply" where
  "GangScheduling_WithByWorkload value b = b\<lparr>ags_ByWorkload := value\<rparr>"

record LabelKeysApply =
  alk_Key :: "string option"

definition LabelKeys_apply :: LabelKeysApply where
  "LabelKeys_apply = \<lparr>alk_Key = None\<rparr>"

definition LabelKeys_WithKey :: "string \<Rightarrow> LabelKeysApply \<Rightarrow> LabelKeysApply" where
  "LabelKeys_WithKey value b = b\<lparr>alk_Key := Some value\<rparr>"

record IntegrationsApply =
  ain_Frameworks :: "KueueIntegration list"
  ain_ExternalFrameworks :: "ExternalFrameworkApply list"
  ain_LabelKeysToCopy :: "LabelKeysApply list"

definition Integrations_apply :: IntegrationsApply where
  "Integrations_apply = \<lparr>ain_Frameworks = [], ain_ExternalFrameworks = [], ain_LabelKeysToCopy =
      []\<rparr>"

definition Integrations_WithFrameworks :: "KueueIntegration list \<Rightarrow> IntegrationsApply
    \<Rightarrow> IntegrationsApply" where
  "Integrations_WithFrameworks values b = b\<lparr>ain_Frameworks := ain_Frameworks b @ values\<rparr>"

definition Integrations_WithExternalFrameworks :: "ExternalFrameworkApply option list \<Rightarrow>
    IntegrationsApply \<Rightarrow> err + IntegrationsApply" where
  "Integrations_WithExternalFrameworks values b = (case non_nil ''WithExternalFrameworks'' values of Inl
      e \<Rightarrow> Inl e
     | Inr docs \<Rightarrow> Inr (b\<lparr>ain_ExternalFrameworks := ain_ExternalFrameworks b @
         docs\<rparr>))"

definition Integrations_WithLabelKeysToCopy :: "LabelKeysApply option list \<Rightarrow>
    IntegrationsApply \<Rightarrow> err + IntegrationsApply" where
  "Integrations_WithLabelKeysToCopy values b = (case non_nil ''WithLabelKeysToCopy'' values of Inl e
      \<Rightarrow> Inl e
     | Inr docs \<Rightarrow> Inr (b\<lparr>ain_LabelKeysToCopy := ain_LabelKeysToCopy b @ docs\<rparr>))"

record WorkloadManagementApply =
  awm_LabelPolicy :: "LabelPolicy option"

definition WorkloadManagement_apply :: WorkloadManagementApply where
  "WorkloadManagement_apply = \<lparr>awm_LabelPolicy = None\<rparr>"

definition WorkloadManagement_WithLabelPolicy :: "LabelPolicy \<Rightarrow> WorkloadManagementApply
    \<Rightarrow> WorkloadManagementApply" where
  "WorkloadManagement_WithLabelPolicy value b = b\<lparr>awm_LabelPolicy := Some value\<rparr>"

record PreemptionApply =
  apr_PreemptionPolicy :: "PreemptionPolicy option"

definition Preemption_apply :: PreemptionApply where
  "Preemption_apply = \<lparr>apr_PreemptionPolicy = None\<rparr>"

definition Preemption_WithPreemptionPolicy :: "PreemptionPolicy \<Rightarrow> PreemptionApply
    \<Rightarrow> PreemptionApply" where
  "Preemption_WithPreemptionPolicy value b = b\<lparr>apr_PreemptionPolicy := Some value\<rparr>"

record ResourcesApply =
  ares_DeviceClassMappings :: "DeviceClassMappingApply list"

definition Resources_apply :: ResourcesApply where
  "Resources_apply = \<lparr>ares_DeviceClassMappings = []\<rparr>"

definition Resources_WithDeviceClassMappings :: "DeviceClassMappingApply option list \<Rightarrow>
    ResourcesApply \<Rightarrow> err + ResourcesApply" where
  "Resources_WithDeviceClassMappings values b = (case non_nil ''WithDeviceClassMappings'' values of Inl
      e \<Rightarrow> Inl e
     | Inr docs \<Rightarrow> Inr (b\<lparr>ares_DeviceClassMappings := ares_DeviceClassMappings b @
         docs\<rparr>))"

record MultiKueueApply =
  amk_ExternalFrameworks :: "ExternalFrameworkApply list"

definition MultiKueue_apply :: MultiKueueApply where
  "MultiKueue_apply = \<lparr>amk_ExternalFrameworks = []\<rparr>"

definition MultiKueue_WithExternalFrameworks :: "ExternalFrameworkApply option list \<Rightarrow>
    MultiKueueApply \<Rightarrow> err + MultiKueueApply" where
  "MultiKueue_WithExternalFrameworks values b = (case non_nil ''WithExternalFrameworks'' values of Inl e
      \<Rightarrow> Inl e
     | Inr docs \<Rightarrow> Inr (b\<lparr>amk_ExternalFrameworks := amk_ExternalFrameworks b @
         docs\<rparr>))"

record KueueConfigurationApply =
  akc_Integrations :: "IntegrationsApply option"
  akc_WorkloadManagement :: "WorkloadManagementApply option"
  akc_GangScheduling :: "GangSchedulingApply option"
  akc_Preemption :: "PreemptionApply option"
  akc_Resources :: "ResourcesApply option"
  akc_MultiKueue :: "MultiKueueApply option"
  akc_AdmissionFairSharing :: "AdmissionFairSharingApply option"
  akc_ControllerManager :: "ControllerManagerApply option"

definition KueueConfiguration_apply :: KueueConfigurationApply where
  "KueueConfiguration_apply = \<lparr>akc_Integrations = None, akc_WorkloadManagement = None,
      akc_GangScheduling = None, akc_Preemption = None, akc_Resources = None, akc_MultiKueue = None,
      akc_AdmissionFairSharing = None, akc_ControllerManager = None\<rparr>"

definition KueueConfiguration_WithIntegrations :: "IntegrationsApply option \<Rightarrow>
    KueueConfigurationApply \<Rightarrow> KueueConfigurationApply" where
  "KueueConfiguration_WithIntegrations value b = b\<lparr>akc_Integrations := value\<rparr>"

definition KueueConfiguration_WithWorkloadManagement :: "WorkloadManagementApply option \<Rightarrow>
    KueueConfigurationApply \<Rightarrow> KueueConfigurationApply" where
  "KueueConfiguration_WithWorkloadManagement value b = b\<lparr>akc_WorkloadManagement := value\<rparr>"

definition KueueConfiguration_WithGangScheduling :: "GangSchedulingApply option \<Rightarrow>
    KueueConfigurationApply \<Rightarrow> KueueConfigurationApply" where
  "KueueConfiguration_WithGangScheduling value b = b\<lparr>akc_GangScheduling := value\<rparr>"

definition KueueConfiguration_WithPreemption :: "PreemptionApply option \<Rightarrow>
    KueueConfigurationApply \<Rightarrow> KueueConfigurationApply" where
  "KueueConfiguration_WithPreemption value b = b\<lparr>akc_Preemption := value\<rparr>"

definition KueueConfiguration_WithResources :: "ResourcesApply option \<Rightarrow>
    KueueConfigurationApply \<Rightarrow> KueueConfigurationApply" where
  "KueueConfiguration_WithResources value b = b\<lparr>akc_Resources := value\<rparr>"

definition KueueConfiguration_WithMultiKueue :: "MultiKueueApply option \<Rightarrow>
    KueueConfigurationApply \<Rightarrow> KueueConfigurationApply" where
  "KueueConfiguration_WithMultiKueue value b = b\<lparr>akc_MultiKueue := value\<rparr>"

definition KueueConfiguration_WithAdmissionFairSharing :: "AdmissionFairSharingApply option
    \<Rightarrow> KueueConfigurationApply \<Rightarrow> KueueConfigurationApply" where
  "KueueConfiguration_WithAdmissionFairSharing value b = b\<lparr>akc_AdmissionFairSharing := value\<rparr>"

definition KueueConfiguration_WithControllerManager :: "ControllerManagerApply option \<Rightarrow>
    KueueConfigurationApply \<Rightarrow> KueueConfigurationApply" where
  "KueueConfiguration_WithControllerManager value b = b\<lparr>akc_ControllerManager := value\<rparr>"

section \<open>What a document says\<close>

definition value_or :: "'a \<Rightarrow> 'a option \<Rightarrow> 'a" where
  "value_or z v = (case v of None \<Rightarrow> z | Some x \<Rightarrow> x)"

lemma value_or_simps [simp]: "value_or z None = z" "value_or z (Some x) = x"
  by (simp_all add: value_or_def)

definition read_ResourceWeightApply :: "ResourceWeightApply \<Rightarrow> ResourceWeight" where
  "read_ResourceWeightApply d = \<lparr>rw_Name = value_or [] (arw_Name d), rw_Weight = value_or []
      (arw_Weight d)\<rparr>"

definition read_AdmissionFairSharingCustomApply :: "AdmissionFairSharingCustomApply \<Rightarrow>
    AdmissionFairSharingCustom" where
  "read_AdmissionFairSharingCustomApply d = \<lparr>afc_UsageHalfLifeTimeSeconds = value_or 0
      (aafc_UsageHalfLifeTimeSeconds d), afc_UsageSamplingIntervalSeconds = value_or 0
      (aafc_UsageSamplingIntervalSeconds d), afc_ResourceWeights = map read_ResourceWeightApply
      (aafc_ResourceWeights d)\<rparr>"

definition read_AdmissionFairSharingApply :: "AdmissionFairSharingApply \<Rightarrow>
    AdmissionFairSharing" where
  "read_AdmissionFairSharingApply d = \<lparr>afs_Configuration = value_or [] (aafs_Configuration d),
      afs_Custom = read_AdmissionFairSharingCustomApply (value_or AdmissionFairSharingCustom_apply
      (aafs_Custom d))\<rparr>"

definition read_RequeuingStrategyApply :: "RequeuingStrategyApply \<Rightarrow> RequeuingStrategy" where
  "read_RequeuingStrategyApply d = \<lparr>rs_TimeReference = value_or [] (ars_TimeReference d),
      rs_RetryLimit = value_or 0 (ars_RetryLimit d), rs_BackoffBaseSeconds = value_or 0
      (ars_BackoffBaseSeconds d), rs_BackoffMaxSeconds = value_or 0 (ars_BackoffMaxSeconds d)\<rparr>"

definition read_ByWorkloadApply :: "ByWorkloadApply \<Rightarrow> ByWorkload" where
  "read_ByWorkloadApply d = \<lparr>bw_Admission = value_or [] (abw_Admission d), bw_TimeoutSeconds =
      value_or 0 (abw_TimeoutSeconds d), bw_RecoveryTimeoutSeconds = abw_RecoveryTimeoutSeconds d,
      bw_RequeuingStrategy = read_RequeuingStrategyApply (value_or RequeuingStrategy_apply
      (abw_RequeuingStrategy d))\<rparr>"

definition read_CELDeviceSelectorApply :: "CELDeviceSelectorApply \<Rightarrow> CELDeviceSelector" where
  "read_CELDeviceSelectorApply d = \<lparr>cel_Expression = value_or [] (acel_Expression d)\<rparr>"

definition read_SourceKeyLabelApply :: "SourceKeyLabelApply \<Rightarrow> SourceKeyLabel" where
  "read_SourceKeyLabelApply d = \<lparr>skl_Key = value_or [] (askl_Key d)\<rparr>"

definition read_SourceKeyAnnotationApply :: "SourceKeyAnnotationApply \<Rightarrow> SourceKeyAnnotation"
    where
  "read_SourceKeyAnnotationApply d = \<lparr>ska_Key = value_or [] (aska_Key d)\<rparr>"

definition read_SourceKeyApply :: "SourceKeyApply \<Rightarrow> SourceKey" where
  "read_SourceKeyApply d = \<lparr>sk_SourceType = value_or [] (ask_SourceType d), sk_Label =
      read_SourceKeyLabelApply (value_or SourceKeyLabel_apply (ask_Label d)), sk_Annotation =
      read_SourceKeyAnnotationApply (value_or SourceKeyAnnotation_apply (ask_Annotation d))\<rparr>"

definition read_ControllerMetricsCustomLabelApply :: "ControllerMetricsCustomLabelApply \<Rightarrow>
    ControllerMetricsCustomLabel" where
  "read_ControllerMetricsCustomLabelApply d = \<lparr>cl_Name = value_or [] (acl_Name d), cl_SourceKey =
      read_SourceKeyApply (value_or SourceKey_apply (acl_SourceKey d)), cl_SourceKind = value_or []
      (acl_SourceKind d)\<rparr>"

definition read_ControllerMetricsApply :: "ControllerMetricsApply \<Rightarrow> ControllerMetrics" where
  "read_ControllerMetricsApply d = \<lparr>cmx_CustomLabels = map read_ControllerMetricsCustomLabelApply
      (acmx_CustomLabels d)\<rparr>"

definition read_ControllerManagerApply :: "ControllerManagerApply \<Rightarrow> ControllerManager" where
  "read_ControllerManagerApply d = \<lparr>cmg_Metrics = read_ControllerMetricsApply (value_or
      ControllerMetrics_apply (acmg_Metrics d))\<rparr>"

definition read_DeviceSelectorApply :: "DeviceSelectorApply \<Rightarrow> DeviceSelector" where
  "read_DeviceSelectorApply d = \<lparr>ds_Type = value_or [] (ads_Type d), ds_CEL =
      read_CELDeviceSelectorApply (value_or CELDeviceSelector_apply (ads_CEL d))\<rparr>"

definition read_DeviceClassCapacitySourceApply :: "DeviceClassCapacitySourceApply \<Rightarrow>
    DeviceClassCapacitySource" where
  "read_DeviceClassCapacitySourceApply d = \<lparr>cap_Name = value_or [] (acap_Name d), cap_Driver =
      value_or [] (acap_Driver d), cap_DeviceSelector = read_DeviceSelectorApply (value_or
      DeviceSelector_apply (acap_DeviceSelector d))\<rparr>"

definition read_DeviceClassCounterSourceApply :: "DeviceClassCounterSourceApply \<Rightarrow>
    DeviceClassCounterSource" where
  "read_DeviceClassCounterSourceApply d = \<lparr>ctr_Name = value_or [] (actr_Name d), ctr_Driver =
      value_or [] (actr_Driver d), ctr_DeviceSelector = read_DeviceSelectorApply (value_or
      DeviceSelector_apply (actr_DeviceSelector d))\<rparr>"

definition read_DeviceClassSourceConfigApply :: "DeviceClassSourceConfigApply \<Rightarrow>
    DeviceClassSourceConfig" where
  "read_DeviceClassSourceConfigApply d = \<lparr>dsc_Type = value_or [] (adsc_Type d), dsc_Counter =
      read_DeviceClassCounterSourceApply (value_or DeviceClassCounterSource_apply (adsc_Counter d)),
      dsc_Capacity = read_DeviceClassCapacitySourceApply (value_or DeviceClassCapacitySource_apply
      (adsc_Capacity d))\<rparr>"

definition read_DeviceClassMappingApply :: "DeviceClassMappingApply \<Rightarrow> DeviceClassMapping" where
  "read_DeviceClassMappingApply d = \<lparr>dcm_Name = value_or [] (adcm_Name d), dcm_DeviceClassNames =
      adcm_DeviceClassNames d, dcm_Sources = map read_DeviceClassSourceConfigApply (adcm_Sources
      d)\<rparr>"

definition read_ExternalFrameworkApply :: "ExternalFrameworkApply \<Rightarrow> ExternalFramework" where
  "read_ExternalFrameworkApply d = \<lparr>ef_Group = value_or [] (aef_Group d), ef_Resource = value_or
      [] (aef_Resource d), ef_Version = value_or [] (aef_Version d)\<rparr>"

definition read_GangSchedulingApply :: "GangSchedulingApply \<Rightarrow> GangScheduling" where
  "read_GangSchedulingApply d = \<lparr>gs_Policy = value_or [] (ags_Policy d), gs_ByWorkload =
      map_option read_ByWorkloadApply (ags_ByWorkload d)\<rparr>"

definition read_LabelKeysApply :: "LabelKeysApply \<Rightarrow> LabelKeys" where
  "read_LabelKeysApply d = \<lparr>lk_Key = value_or [] (alk_Key d)\<rparr>"

definition read_IntegrationsApply :: "IntegrationsApply \<Rightarrow> Integrations" where
  "read_IntegrationsApply d = \<lparr>in_Frameworks = ain_Frameworks d, in_ExternalFrameworks = map
      read_ExternalFrameworkApply (ain_ExternalFrameworks d), in_LabelKeysToCopy = map
      read_LabelKeysApply (ain_LabelKeysToCopy d)\<rparr>"

definition read_WorkloadManagementApply :: "WorkloadManagementApply \<Rightarrow> WorkloadManagement" where
  "read_WorkloadManagementApply d = \<lparr>wm_LabelPolicy = value_or [] (awm_LabelPolicy d)\<rparr>"

definition read_PreemptionApply :: "PreemptionApply \<Rightarrow> Preemption" where
  "read_PreemptionApply d = \<lparr>pr_PreemptionPolicy = value_or [] (apr_PreemptionPolicy d)\<rparr>"

definition read_ResourcesApply :: "ResourcesApply \<Rightarrow> Resources" where
  "read_ResourcesApply d = \<lparr>res_DeviceClassMappings = map read_DeviceClassMappingApply
      (ares_DeviceClassMappings d)\<rparr>"

definition read_MultiKueueApply :: "MultiKueueApply \<Rightarrow> MultiKueue" where
  "read_MultiKueueApply d = \<lparr>mk_ExternalFrameworks = map read_ExternalFrameworkApply
      (amk_ExternalFrameworks d)\<rparr>"

definition read_KueueConfigurationApply :: "KueueConfigurationApply \<Rightarrow> KueueConfiguration" where
  "read_KueueConfigurationApply d = \<lparr>kc_Integrations = read_IntegrationsApply (value_or
      Integrations_apply (akc_Integrations d)), kc_WorkloadManagement = read_WorkloadManagementApply
      (value_or WorkloadManagement_apply (akc_WorkloadManagement d)), kc_GangScheduling =
      read_GangSchedulingApply (value_or GangScheduling_apply (akc_GangScheduling d)), kc_Preemption =
      read_PreemptionApply (value_or Preemption_apply (akc_Preemption d)), kc_Resources =
      read_ResourcesApply (value_or Resources_apply (akc_Resources d)), kc_MultiKueue = map_option
      read_MultiKueueApply (akc_MultiKueue d), kc_AdmissionFairSharing = read_AdmissionFairSharingApply
      (value_or AdmissionFairSharing_apply (akc_AdmissionFairSharing d)), kc_ControllerManager =
      read_ControllerManagerApply (value_or ControllerManager_apply (akc_ControllerManager d))\<rparr>"

section \<open>Declaring a value\<close>

definition try_bind :: "err + 'a \<Rightarrow> ('a \<Rightarrow> err + 'b) \<Rightarrow> err + 'b" where
  "try_bind r f = (case r of Inl e \<Rightarrow> Inl e | Inr x \<Rightarrow> f x)"

lemma try_bind_simps [simp]: "try_bind (Inl e) f = Inl e" "try_bind (Inr x) f = f x"
  by (simp_all add: try_bind_def)

fun try_map :: "('a \<Rightarrow> err + 'b) \<Rightarrow> 'a list \<Rightarrow> err + 'b list" where
  "try_map f [] = Inr []"
| "try_map f (x # xs) = try_bind (f x) (\<lambda>y. try_bind (try_map f xs) (\<lambda>ys. Inr (y # ys)))"

fun try_option :: "('a \<Rightarrow> err + 'b) \<Rightarrow> 'a option \<Rightarrow> err + 'b option" where
  "try_option f None = Inr None"
| "try_option f (Some x) = try_bind (f x) (\<lambda>y. Inr (Some y))"

locale declares =
  fixes mk :: "'v \<Rightarrow> err + 'd" and rd :: "'d \<Rightarrow> 'v"
  assumes read_declare: "\<exists>d. mk v = Inr d \<and> rd d = v"
begin

lemma map_ok: "\<exists>ds. try_map mk vs = Inr ds \<and> map rd ds = vs"
proof (induction vs)
  case (Cons v vs)
  then obtain ds where "try_map mk vs = Inr ds" "map rd ds = vs" by blast
  moreover obtain d where "mk v = Inr d" "rd d = v" using read_declare by blast
  ultimately show ?case by simp
qed simp

lemma option_ok: "\<exists>d. try_option mk v = Inr d \<and> map_option rd d = v"
proof (cases v)
  case (Some x)
  moreover obtain d where "mk x = Inr d" "rd d = x" using read_declare by blast
  ultimately show ?thesis by simp
qed simp

end

definition declare_ResourceWeight :: "ResourceWeight \<Rightarrow> err + ResourceWeightApply" where
  "declare_ResourceWeight v =
     Inr (ResourceWeight_WithWeight (rw_Weight v) (ResourceWeight_WithName (rw_Name v)
         ResourceWeight_apply))"

interpretation d_ResourceWeight: declares declare_ResourceWeight read_ResourceWeightApply
proof (unfold_locales, goal_cases)
  case (1 v)
  show ?case
    by (simp add: declare_ResourceWeight_def read_ResourceWeightApply_def ResourceWeight_apply_def
        ResourceWeight_WithName_def ResourceWeight_WithWeight_def split: option.split)
qed

definition declare_AdmissionFairSharingCustom :: "AdmissionFairSharingCustom \<Rightarrow> err +
    AdmissionFairSharingCustomApply" where
  "declare_AdmissionFairSharingCustom v =
     try_bind (try_map declare_ResourceWeight (afc_ResourceWeights v)) (\<lambda>x3.
     try_bind (AdmissionFairSharingCustom_WithResourceWeights (map Some x3)
         (AdmissionFairSharingCustom_WithUsageSamplingIntervalSeconds (afc_UsageSamplingIntervalSeconds
         v) (AdmissionFairSharingCustom_WithUsageHalfLifeTimeSeconds (afc_UsageHalfLifeTimeSeconds v)
         AdmissionFairSharingCustom_apply))) (\<lambda>d3.
     Inr d3))"

interpretation d_AdmissionFairSharingCustom: declares declare_AdmissionFairSharingCustom
    read_AdmissionFairSharingCustomApply
proof (unfold_locales, goal_cases)
  case (1 v)
  obtain x3 where x3: "try_map declare_ResourceWeight (afc_ResourceWeights v) = Inr x3" "map
      read_ResourceWeightApply x3 = afc_ResourceWeights v"
    using d_ResourceWeight.map_ok by blast
  show ?case
    by (simp add: declare_AdmissionFairSharingCustom_def read_AdmissionFairSharingCustomApply_def
        AdmissionFairSharingCustom_apply_def AdmissionFairSharingCustom_WithUsageHalfLifeTimeSeconds_def
        AdmissionFairSharingCustom_WithUsageSamplingIntervalSeconds_def
        AdmissionFairSharingCustom_WithResourceWeights_def x3 split: option.split)
qed

definition declare_AdmissionFairSharing :: "AdmissionFairSharing \<Rightarrow> err +
    AdmissionFairSharingApply" where
  "declare_AdmissionFairSharing v =
     try_bind (declare_AdmissionFairSharingCustom (afs_Custom v)) (\<lambda>x2.
     Inr (AdmissionFairSharing_WithCustom (Some x2) (AdmissionFairSharing_WithConfiguration
         (afs_Configuration v) AdmissionFairSharing_apply)))"

interpretation d_AdmissionFairSharing: declares declare_AdmissionFairSharing read_AdmissionFairSharingApply
proof (unfold_locales, goal_cases)
  case (1 v)
  obtain x2 where x2: "declare_AdmissionFairSharingCustom (afs_Custom v) = Inr x2"
      "read_AdmissionFairSharingCustomApply x2 = afs_Custom v"
    using d_AdmissionFairSharingCustom.read_declare by blast
  show ?case
    by (simp add: declare_AdmissionFairSharing_def read_AdmissionFairSharingApply_def
        AdmissionFairSharing_apply_def AdmissionFairSharing_WithConfiguration_def
        AdmissionFairSharing_WithCustom_def x2 split: option.split)
qed

definition declare_RequeuingStrategy :: "RequeuingStrategy \<Rightarrow> err + RequeuingStrategyApply" where
  "declare_RequeuingStrategy v =
     Inr (RequeuingStrategy_WithBackoffMaxSeconds (rs_BackoffMaxSeconds v)
         (RequeuingStrategy_WithBackoffBaseSeconds (rs_BackoffBaseSeconds v)
         (RequeuingStrategy_WithRetryLimit (rs_RetryLimit v) (RequeuingStrategy_WithTimeReference
         (rs_TimeReference v) RequeuingStrategy_apply))))"

interpretation d_RequeuingStrategy: declares declare_RequeuingStrategy read_RequeuingStrategyApply
proof (unfold_locales, goal_cases)
  case (1 v)
  show ?case
    by (simp add: declare_RequeuingStrategy_def read_RequeuingStrategyApply_def
        RequeuingStrategy_apply_def RequeuingStrategy_WithTimeReference_def
        RequeuingStrategy_WithRetryLimit_def RequeuingStrategy_WithBackoffBaseSeconds_def
        RequeuingStrategy_WithBackoffMaxSeconds_def split: option.split)
qed

definition declare_ByWorkload :: "ByWorkload \<Rightarrow> err + ByWorkloadApply" where
  "declare_ByWorkload v =
     try_bind (declare_RequeuingStrategy (bw_RequeuingStrategy v)) (\<lambda>x4.
     Inr (ByWorkload_WithRequeuingStrategy (Some x4) (case_option id
         ByWorkload_WithRecoveryTimeoutSeconds (bw_RecoveryTimeoutSeconds v)
         (ByWorkload_WithTimeoutSeconds (bw_TimeoutSeconds v) (ByWorkload_WithAdmission (bw_Admission v)
         ByWorkload_apply)))))"

interpretation d_ByWorkload: declares declare_ByWorkload read_ByWorkloadApply
proof (unfold_locales, goal_cases)
  case (1 v)
  obtain x4 where x4: "declare_RequeuingStrategy (bw_RequeuingStrategy v) = Inr x4"
      "read_RequeuingStrategyApply x4 = bw_RequeuingStrategy v"
    using d_RequeuingStrategy.read_declare by blast
  show ?case
    by (simp add: declare_ByWorkload_def read_ByWorkloadApply_def ByWorkload_apply_def
        ByWorkload_WithAdmission_def ByWorkload_WithTimeoutSeconds_def
        ByWorkload_WithRecoveryTimeoutSeconds_def ByWorkload_WithRequeuingStrategy_def x4 split:
        option.split)
qed

definition declare_CELDeviceSelector :: "CELDeviceSelector \<Rightarrow> err + CELDeviceSelectorApply" where
  "declare_CELDeviceSelector v =
     Inr (CELDeviceSelector_WithExpression (cel_Expression v) CELDeviceSelector_apply)"

interpretation d_CELDeviceSelector: declares declare_CELDeviceSelector read_CELDeviceSelectorApply
proof (unfold_locales, goal_cases)
  case (1 v)
  show ?case
    by (simp add: declare_CELDeviceSelector_def read_CELDeviceSelectorApply_def
        CELDeviceSelector_apply_def CELDeviceSelector_WithExpression_def split: option.split)
qed

definition declare_SourceKeyLabel :: "SourceKeyLabel \<Rightarrow> err + SourceKeyLabelApply" where
  "declare_SourceKeyLabel v =
     Inr (SourceKeyLabel_WithKey (skl_Key v) SourceKeyLabel_apply)"

interpretation d_SourceKeyLabel: declares declare_SourceKeyLabel read_SourceKeyLabelApply
proof (unfold_locales, goal_cases)
  case (1 v)
  show ?case
    by (simp add: declare_SourceKeyLabel_def read_SourceKeyLabelApply_def SourceKeyLabel_apply_def
        SourceKeyLabel_WithKey_def split: option.split)
qed

definition declare_SourceKeyAnnotation :: "SourceKeyAnnotation \<Rightarrow> err +
    SourceKeyAnnotationApply" where
  "declare_SourceKeyAnnotation v =
     Inr (SourceKeyAnnotation_WithKey (ska_Key v) SourceKeyAnnotation_apply)"

interpretation d_SourceKeyAnnotation: declares declare_SourceKeyAnnotation read_SourceKeyAnnotationApply
proof (unfold_locales, goal_cases)
  case (1 v)
  show ?case
    by (simp add: declare_SourceKeyAnnotation_def read_SourceKeyAnnotationApply_def
        SourceKeyAnnotation_apply_def SourceKeyAnnotation_WithKey_def split: option.split)
qed

definition declare_SourceKey :: "SourceKey \<Rightarrow> err + SourceKeyApply" where
  "declare_SourceKey v =
     try_bind (declare_SourceKeyLabel (sk_Label v)) (\<lambda>x2.
     try_bind (declare_SourceKeyAnnotation (sk_Annotation v)) (\<lambda>x3.
     Inr (SourceKey_WithAnnotation (Some x3) (SourceKey_WithLabel (Some x2) (SourceKey_WithSourceType
         (sk_SourceType v) SourceKey_apply)))))"

interpretation d_SourceKey: declares declare_SourceKey read_SourceKeyApply
proof (unfold_locales, goal_cases)
  case (1 v)
  obtain x2 where x2: "declare_SourceKeyLabel (sk_Label v) = Inr x2" "read_SourceKeyLabelApply x2 =
      sk_Label v"
    using d_SourceKeyLabel.read_declare by blast
  obtain x3 where x3: "declare_SourceKeyAnnotation (sk_Annotation v) = Inr x3"
      "read_SourceKeyAnnotationApply x3 = sk_Annotation v"
    using d_SourceKeyAnnotation.read_declare by blast
  show ?case
    by (simp add: declare_SourceKey_def read_SourceKeyApply_def SourceKey_apply_def
        SourceKey_WithSourceType_def SourceKey_WithLabel_def SourceKey_WithAnnotation_def x2 x3 split:
        option.split)
qed

definition declare_ControllerMetricsCustomLabel :: "ControllerMetricsCustomLabel \<Rightarrow> err +
    ControllerMetricsCustomLabelApply" where
  "declare_ControllerMetricsCustomLabel v =
     try_bind (declare_SourceKey (cl_SourceKey v)) (\<lambda>x2.
     Inr (ControllerMetricsCustomLabel_WithSourceKind (cl_SourceKind v)
         (ControllerMetricsCustomLabel_WithSourceKey (Some x2) (ControllerMetricsCustomLabel_WithName
         (cl_Name v) ControllerMetricsCustomLabel_apply))))"

interpretation d_ControllerMetricsCustomLabel: declares declare_ControllerMetricsCustomLabel
    read_ControllerMetricsCustomLabelApply
proof (unfold_locales, goal_cases)
  case (1 v)
  obtain x2 where x2: "declare_SourceKey (cl_SourceKey v) = Inr x2" "read_SourceKeyApply x2 =
      cl_SourceKey v"
    using d_SourceKey.read_declare by blast
  show ?case
    by (simp add: declare_ControllerMetricsCustomLabel_def read_ControllerMetricsCustomLabelApply_def
        ControllerMetricsCustomLabel_apply_def ControllerMetricsCustomLabel_WithName_def
        ControllerMetricsCustomLabel_WithSourceKey_def ControllerMetricsCustomLabel_WithSourceKind_def
        x2 split: option.split)
qed

definition declare_ControllerMetrics :: "ControllerMetrics \<Rightarrow> err + ControllerMetricsApply" where
  "declare_ControllerMetrics v =
     try_bind (try_map declare_ControllerMetricsCustomLabel (cmx_CustomLabels v)) (\<lambda>x1.
     try_bind (ControllerMetrics_WithCustomLabels (map Some x1) ControllerMetrics_apply) (\<lambda>d1.
     Inr d1))"

interpretation d_ControllerMetrics: declares declare_ControllerMetrics read_ControllerMetricsApply
proof (unfold_locales, goal_cases)
  case (1 v)
  obtain x1 where x1: "try_map declare_ControllerMetricsCustomLabel (cmx_CustomLabels v) = Inr x1" "map
      read_ControllerMetricsCustomLabelApply x1 = cmx_CustomLabels v"
    using d_ControllerMetricsCustomLabel.map_ok by blast
  show ?case
    by (simp add: declare_ControllerMetrics_def read_ControllerMetricsApply_def
        ControllerMetrics_apply_def ControllerMetrics_WithCustomLabels_def x1 split: option.split)
qed

definition declare_ControllerManager :: "ControllerManager \<Rightarrow> err + ControllerManagerApply" where
  "declare_ControllerManager v =
     try_bind (declare_ControllerMetrics (cmg_Metrics v)) (\<lambda>x1.
     Inr (ControllerManager_WithMetrics (Some x1) ControllerManager_apply))"

interpretation d_ControllerManager: declares declare_ControllerManager read_ControllerManagerApply
proof (unfold_locales, goal_cases)
  case (1 v)
  obtain x1 where x1: "declare_ControllerMetrics (cmg_Metrics v) = Inr x1" "read_ControllerMetricsApply
      x1 = cmg_Metrics v"
    using d_ControllerMetrics.read_declare by blast
  show ?case
    by (simp add: declare_ControllerManager_def read_ControllerManagerApply_def
        ControllerManager_apply_def ControllerManager_WithMetrics_def x1 split: option.split)
qed

definition declare_DeviceSelector :: "DeviceSelector \<Rightarrow> err + DeviceSelectorApply" where
  "declare_DeviceSelector v =
     try_bind (declare_CELDeviceSelector (ds_CEL v)) (\<lambda>x2.
     Inr (DeviceSelector_WithCEL (Some x2) (DeviceSelector_WithType (ds_Type v) DeviceSelector_apply)))"

interpretation d_DeviceSelector: declares declare_DeviceSelector read_DeviceSelectorApply
proof (unfold_locales, goal_cases)
  case (1 v)
  obtain x2 where x2: "declare_CELDeviceSelector (ds_CEL v) = Inr x2" "read_CELDeviceSelectorApply x2 =
      ds_CEL v"
    using d_CELDeviceSelector.read_declare by blast
  show ?case
    by (simp add: declare_DeviceSelector_def read_DeviceSelectorApply_def DeviceSelector_apply_def
        DeviceSelector_WithType_def DeviceSelector_WithCEL_def x2 split: option.split)
qed

definition declare_DeviceClassCapacitySource :: "DeviceClassCapacitySource \<Rightarrow> err +
    DeviceClassCapacitySourceApply" where
  "declare_DeviceClassCapacitySource v =
     try_bind (declare_DeviceSelector (cap_DeviceSelector v)) (\<lambda>x3.
     Inr (DeviceClassCapacitySource_WithDeviceSelector (Some x3) (DeviceClassCapacitySource_WithDriver
         (cap_Driver v) (DeviceClassCapacitySource_WithName (cap_Name v)
         DeviceClassCapacitySource_apply))))"

interpretation d_DeviceClassCapacitySource: declares declare_DeviceClassCapacitySource
    read_DeviceClassCapacitySourceApply
proof (unfold_locales, goal_cases)
  case (1 v)
  obtain x3 where x3: "declare_DeviceSelector (cap_DeviceSelector v) = Inr x3" "read_DeviceSelectorApply
      x3 = cap_DeviceSelector v"
    using d_DeviceSelector.read_declare by blast
  show ?case
    by (simp add: declare_DeviceClassCapacitySource_def read_DeviceClassCapacitySourceApply_def
        DeviceClassCapacitySource_apply_def DeviceClassCapacitySource_WithName_def
        DeviceClassCapacitySource_WithDriver_def DeviceClassCapacitySource_WithDeviceSelector_def x3
        split: option.split)
qed

definition declare_DeviceClassCounterSource :: "DeviceClassCounterSource \<Rightarrow> err +
    DeviceClassCounterSourceApply" where
  "declare_DeviceClassCounterSource v =
     try_bind (declare_DeviceSelector (ctr_DeviceSelector v)) (\<lambda>x3.
     Inr (DeviceClassCounterSource_WithDeviceSelector (Some x3) (DeviceClassCounterSource_WithDriver
         (ctr_Driver v) (DeviceClassCounterSource_WithName (ctr_Name v)
         DeviceClassCounterSource_apply))))"

interpretation d_DeviceClassCounterSource: declares declare_DeviceClassCounterSource
    read_DeviceClassCounterSourceApply
proof (unfold_locales, goal_cases)
  case (1 v)
  obtain x3 where x3: "declare_DeviceSelector (ctr_DeviceSelector v) = Inr x3" "read_DeviceSelectorApply
      x3 = ctr_DeviceSelector v"
    using d_DeviceSelector.read_declare by blast
  show ?case
    by (simp add: declare_DeviceClassCounterSource_def read_DeviceClassCounterSourceApply_def
        DeviceClassCounterSource_apply_def DeviceClassCounterSource_WithName_def
        DeviceClassCounterSource_WithDriver_def DeviceClassCounterSource_WithDeviceSelector_def x3
        split: option.split)
qed

definition declare_DeviceClassSourceConfig :: "DeviceClassSourceConfig \<Rightarrow> err +
    DeviceClassSourceConfigApply" where
  "declare_DeviceClassSourceConfig v =
     try_bind (declare_DeviceClassCounterSource (dsc_Counter v)) (\<lambda>x2.
     try_bind (declare_DeviceClassCapacitySource (dsc_Capacity v)) (\<lambda>x3.
     Inr (DeviceClassSourceConfig_WithCapacity (Some x3) (DeviceClassSourceConfig_WithCounter (Some x2)
         (DeviceClassSourceConfig_WithType (dsc_Type v) DeviceClassSourceConfig_apply)))))"

interpretation d_DeviceClassSourceConfig: declares declare_DeviceClassSourceConfig
    read_DeviceClassSourceConfigApply
proof (unfold_locales, goal_cases)
  case (1 v)
  obtain x2 where x2: "declare_DeviceClassCounterSource (dsc_Counter v) = Inr x2"
      "read_DeviceClassCounterSourceApply x2 = dsc_Counter v"
    using d_DeviceClassCounterSource.read_declare by blast
  obtain x3 where x3: "declare_DeviceClassCapacitySource (dsc_Capacity v) = Inr x3"
      "read_DeviceClassCapacitySourceApply x3 = dsc_Capacity v"
    using d_DeviceClassCapacitySource.read_declare by blast
  show ?case
    by (simp add: declare_DeviceClassSourceConfig_def read_DeviceClassSourceConfigApply_def
        DeviceClassSourceConfig_apply_def DeviceClassSourceConfig_WithType_def
        DeviceClassSourceConfig_WithCounter_def DeviceClassSourceConfig_WithCapacity_def x2 x3 split:
        option.split)
qed

definition declare_DeviceClassMapping :: "DeviceClassMapping \<Rightarrow> err +
    DeviceClassMappingApply" where
  "declare_DeviceClassMapping v =
     try_bind (try_map declare_DeviceClassSourceConfig (dcm_Sources v)) (\<lambda>x3.
     try_bind (DeviceClassMapping_WithSources (map Some x3) (DeviceClassMapping_WithDeviceClassNames
         (dcm_DeviceClassNames v) (DeviceClassMapping_WithName (dcm_Name v) DeviceClassMapping_apply)))
         (\<lambda>d3.
     Inr d3))"

interpretation d_DeviceClassMapping: declares declare_DeviceClassMapping read_DeviceClassMappingApply
proof (unfold_locales, goal_cases)
  case (1 v)
  obtain x3 where x3: "try_map declare_DeviceClassSourceConfig (dcm_Sources v) = Inr x3" "map
      read_DeviceClassSourceConfigApply x3 = dcm_Sources v"
    using d_DeviceClassSourceConfig.map_ok by blast
  show ?case
    by (simp add: declare_DeviceClassMapping_def read_DeviceClassMappingApply_def
        DeviceClassMapping_apply_def DeviceClassMapping_WithName_def
        DeviceClassMapping_WithDeviceClassNames_def DeviceClassMapping_WithSources_def x3 split:
        option.split)
qed

definition declare_ExternalFramework :: "ExternalFramework \<Rightarrow> err + ExternalFrameworkApply" where
  "declare_ExternalFramework v =
     Inr (ExternalFramework_WithVersion (ef_Version v) (ExternalFramework_WithResource (ef_Resource v)
         (ExternalFramework_WithGroup (ef_Group v) ExternalFramework_apply)))"

interpretation d_ExternalFramework: declares declare_ExternalFramework read_ExternalFrameworkApply
proof (unfold_locales, goal_cases)
  case (1 v)
  show ?case
    by (simp add: declare_ExternalFramework_def read_ExternalFrameworkApply_def
        ExternalFramework_apply_def ExternalFramework_WithGroup_def ExternalFramework_WithResource_def
        ExternalFramework_WithVersion_def split: option.split)
qed

definition declare_GangScheduling :: "GangScheduling \<Rightarrow> err + GangSchedulingApply" where
  "declare_GangScheduling v =
     try_bind (try_option declare_ByWorkload (gs_ByWorkload v)) (\<lambda>x2.
     Inr (GangScheduling_WithByWorkload x2 (GangScheduling_WithPolicy (gs_Policy v) GangScheduling_apply)))"

interpretation d_GangScheduling: declares declare_GangScheduling read_GangSchedulingApply
proof (unfold_locales, goal_cases)
  case (1 v)
  obtain x2 where x2: "try_option declare_ByWorkload (gs_ByWorkload v) = Inr x2" "map_option
      read_ByWorkloadApply x2 = gs_ByWorkload v"
    using d_ByWorkload.option_ok by blast
  show ?case
    by (simp add: declare_GangScheduling_def read_GangSchedulingApply_def GangScheduling_apply_def
        GangScheduling_WithPolicy_def GangScheduling_WithByWorkload_def x2 split: option.split)
qed

definition declare_LabelKeys :: "LabelKeys \<Rightarrow> err + LabelKeysApply" where
  "declare_LabelKeys v =
     Inr (LabelKeys_WithKey (lk_Key v) LabelKeys_apply)"

interpretation d_LabelKeys: declares declare_LabelKeys read_LabelKeysApply
proof (unfold_locales, goal_cases)
  case (1 v)
  show ?case
    by (simp add: declare_LabelKeys_def read_LabelKeysApply_def LabelKeys_apply_def
        LabelKeys_WithKey_def split: option.split)
qed

definition declare_Integrations :: "Integrations \<Rightarrow> err + IntegrationsApply" where
  "declare_Integrations v =
     try_bind (try_map declare_ExternalFramework (in_ExternalFrameworks v)) (\<lambda>x2.
     try_bind (try_map declare_LabelKeys (in_LabelKeysToCopy v)) (\<lambda>x3.
     try_bind (Integrations_WithExternalFrameworks (map Some x2) (Integrations_WithFrameworks
         (in_Frameworks v) Integrations_apply)) (\<lambda>d2.
     try_bind (Integrations_WithLabelKeysToCopy (map Some x3) d2) (\<lambda>d3.
     Inr d3))))"

interpretation d_Integrations: declares declare_Integrations read_IntegrationsApply
proof (unfold_locales, goal_cases)
  case (1 v)
  obtain x2 where x2: "try_map declare_ExternalFramework (in_ExternalFrameworks v) = Inr x2" "map
      read_ExternalFrameworkApply x2 = in_ExternalFrameworks v"
    using d_ExternalFramework.map_ok by blast
  obtain x3 where x3: "try_map declare_LabelKeys (in_LabelKeysToCopy v) = Inr x3" "map
      read_LabelKeysApply x3 = in_LabelKeysToCopy v"
    using d_LabelKeys.map_ok by blast
  show ?case
    by (simp add: declare_Integrations_def read_IntegrationsApply_def Integrations_apply_def
        Integrations_WithFrameworks_def Integrations_WithExternalFrameworks_def
        Integrations_WithLabelKeysToCopy_def x2 x3 split: option.split)
qed

definition declare_WorkloadManagement :: "WorkloadManagement \<Rightarrow> err +
    WorkloadManagementApply" where
  "declare_WorkloadManagement v =
     Inr (WorkloadManagement_WithLabelPolicy (wm_LabelPolicy v) WorkloadManagement_apply)"

interpretation d_WorkloadManagement: declares declare_WorkloadManagement read_WorkloadManagementApply
proof (unfold_locales, goal_cases)
  case (1 v)
  show ?case
    by (simp add: declare_WorkloadManagement_def read_WorkloadManagementApply_def
        WorkloadManagement_apply_def WorkloadManagement_WithLabelPolicy_def split: option.split)
qed

definition declare_Preemption :: "Preemption \<Rightarrow> err + PreemptionApply" where
  "declare_Preemption v =
     Inr (Preemption_WithPreemptionPolicy (pr_PreemptionPolicy v) Preemption_apply)"

interpretation d_Preemption: declares declare_Preemption read_PreemptionApply
proof (unfold_locales, goal_cases)
  case (1 v)
  show ?case
    by (simp add: declare_Preemption_def read_PreemptionApply_def Preemption_apply_def
        Preemption_WithPreemptionPolicy_def split: option.split)
qed

definition declare_Resources :: "Resources \<Rightarrow> err + ResourcesApply" where
  "declare_Resources v =
     try_bind (try_map declare_DeviceClassMapping (res_DeviceClassMappings v)) (\<lambda>x1.
     try_bind (Resources_WithDeviceClassMappings (map Some x1) Resources_apply) (\<lambda>d1.
     Inr d1))"

interpretation d_Resources: declares declare_Resources read_ResourcesApply
proof (unfold_locales, goal_cases)
  case (1 v)
  obtain x1 where x1: "try_map declare_DeviceClassMapping (res_DeviceClassMappings v) = Inr x1" "map
      read_DeviceClassMappingApply x1 = res_DeviceClassMappings v"
    using d_DeviceClassMapping.map_ok by blast
  show ?case
    by (simp add: declare_Resources_def read_ResourcesApply_def Resources_apply_def
        Resources_WithDeviceClassMappings_def x1 split: option.split)
qed

definition declare_MultiKueue :: "MultiKueue \<Rightarrow> err + MultiKueueApply" where
  "declare_MultiKueue v =
     try_bind (try_map declare_ExternalFramework (mk_ExternalFrameworks v)) (\<lambda>x1.
     try_bind (MultiKueue_WithExternalFrameworks (map Some x1) MultiKueue_apply) (\<lambda>d1.
     Inr d1))"

interpretation d_MultiKueue: declares declare_MultiKueue read_MultiKueueApply
proof (unfold_locales, goal_cases)
  case (1 v)
  obtain x1 where x1: "try_map declare_ExternalFramework (mk_ExternalFrameworks v) = Inr x1" "map
      read_ExternalFrameworkApply x1 = mk_ExternalFrameworks v"
    using d_ExternalFramework.map_ok by blast
  show ?case
    by (simp add: declare_MultiKueue_def read_MultiKueueApply_def MultiKueue_apply_def
        MultiKueue_WithExternalFrameworks_def x1 split: option.split)
qed

definition declare_KueueConfiguration :: "KueueConfiguration \<Rightarrow> err +
    KueueConfigurationApply" where
  "declare_KueueConfiguration v =
     try_bind (declare_Integrations (kc_Integrations v)) (\<lambda>x1.
     try_bind (declare_WorkloadManagement (kc_WorkloadManagement v)) (\<lambda>x2.
     try_bind (declare_GangScheduling (kc_GangScheduling v)) (\<lambda>x3.
     try_bind (declare_Preemption (kc_Preemption v)) (\<lambda>x4.
     try_bind (declare_Resources (kc_Resources v)) (\<lambda>x5.
     try_bind (try_option declare_MultiKueue (kc_MultiKueue v)) (\<lambda>x6.
     try_bind (declare_AdmissionFairSharing (kc_AdmissionFairSharing v)) (\<lambda>x7.
     try_bind (declare_ControllerManager (kc_ControllerManager v)) (\<lambda>x8.
     Inr (KueueConfiguration_WithControllerManager (Some x8)
         (KueueConfiguration_WithAdmissionFairSharing (Some x7) (KueueConfiguration_WithMultiKueue x6
         (KueueConfiguration_WithResources (Some x5) (KueueConfiguration_WithPreemption (Some x4)
         (KueueConfiguration_WithGangScheduling (Some x3) (KueueConfiguration_WithWorkloadManagement
         (Some x2) (KueueConfiguration_WithIntegrations (Some x1)
         KueueConfiguration_apply))))))))))))))))"

interpretation d_KueueConfiguration: declares declare_KueueConfiguration read_KueueConfigurationApply
proof (unfold_locales, goal_cases)
  case (1 v)
  obtain x1 where x1: "declare_Integrations (kc_Integrations v) = Inr x1" "read_IntegrationsApply x1 =
      kc_Integrations v"
    using d_Integrations.read_declare by blast
  obtain x2 where x2: "declare_WorkloadManagement (kc_WorkloadManagement v) = Inr x2"
      "read_WorkloadManagementApply x2 = kc_WorkloadManagement v"
    using d_WorkloadManagement.read_declare by blast
  obtain x3 where x3: "declare_GangScheduling (kc_GangScheduling v) = Inr x3" "read_GangSchedulingApply
      x3 = kc_GangScheduling v"
    using d_GangScheduling.read_declare by blast
  obtain x4 where x4: "declare_Preemption (kc_Preemption v) = Inr x4" "read_PreemptionApply x4 =
      kc_Preemption v"
    using d_Preemption.read_declare by blast
  obtain x5 where x5: "declare_Resources (kc_Resources v) = Inr x5" "read_ResourcesApply x5 =
      kc_Resources v"
    using d_Resources.read_declare by blast
  obtain x6 where x6: "try_option declare_MultiKueue (kc_MultiKueue v) = Inr x6" "map_option
      read_MultiKueueApply x6 = kc_MultiKueue v"
    using d_MultiKueue.option_ok by blast
  obtain x7 where x7: "declare_AdmissionFairSharing (kc_AdmissionFairSharing v) = Inr x7"
      "read_AdmissionFairSharingApply x7 = kc_AdmissionFairSharing v"
    using d_AdmissionFairSharing.read_declare by blast
  obtain x8 where x8: "declare_ControllerManager (kc_ControllerManager v) = Inr x8"
      "read_ControllerManagerApply x8 = kc_ControllerManager v"
    using d_ControllerManager.read_declare by blast
  show ?case
    by (simp add: declare_KueueConfiguration_def read_KueueConfigurationApply_def
        KueueConfiguration_apply_def KueueConfiguration_WithIntegrations_def
        KueueConfiguration_WithWorkloadManagement_def KueueConfiguration_WithGangScheduling_def
        KueueConfiguration_WithPreemption_def KueueConfiguration_WithResources_def
        KueueConfiguration_WithMultiKueue_def KueueConfiguration_WithAdmissionFairSharing_def
        KueueConfiguration_WithControllerManager_def x1 x2 x3 x4 x5 x6 x7 x8 split: option.split)
qed

section \<open>Nothing is lost\<close>


end
