(* ===== verification/Apply_Configuration.thy ===== *)
theory Apply_Configuration
  imports Kube_Api Apply_Documents
begin

text \<open>
  The apply configurations of the Kueue resource, the documents of server-side apply: the builders of
  \<^verbatim>\<open>src/pkg/generated/applyconfiguration/kueueoperator/v1\<close> for the resource itself (\<^verbatim>\<open>kueue.go\<close>), its
  specification and its status, over the documents of the types inside (\<open>Apply_Documents\<close>), and the
  lookup of a document type by kind (\<^verbatim>\<open>utils.go\<close>). Every field is a pointer (\<^term>\<open>None\<close> is nil); a builder that returns
  its receiver is a function from the old document to the new one, and a builder that panics on a nil
  argument returns an error.
\<close>

section \<open>The documents\<close>

record OperatorSpecApply =
  osa_ManagementState :: "string option"
  osa_LogLevel :: "string option"
  osa_OperatorLogLevel :: "string option"
  osa_UnsupportedConfigOverrides :: "opaque option"
  osa_ObservedConfig :: "opaque option"

record OperatorStatusApply =
  osta_ObservedGeneration :: "int option"
  osta_Conditions :: "ConditionApply list"
  osta_Version :: "string option"
  osta_ReadyReplicas :: "int32 option"
  osta_LatestAvailableRevision :: "int32 option"
  osta_Generations :: "opaque list"

record KueueOperandSpecApply =
  kosa_OperatorSpec :: OperatorSpecApply
  kosa_Config :: "KueueConfigurationApply option"

record KueueStatusApply =
  ksa_OperatorStatus :: OperatorStatusApply

record ObjectMetaApply =
  oma_Name :: "string option"
  oma_GenerateName :: "string option"
  oma_Namespace :: "string option"
  oma_UID :: "string option"
  oma_ResourceVersion :: "string option"
  oma_Generation :: "int option"
  oma_CreationTimestamp :: "int option"
  oma_DeletionTimestamp :: "int option"
  oma_DeletionGracePeriodSeconds :: "int option"
  oma_Labels :: "(string, string) gomap option"
  oma_Annotations :: "(string, string) gomap option"
  oma_OwnerReferences :: "OwnerReference list"
  oma_Finalizers :: "string list"

record KueueApply =
  ka_Kind :: "string option"
  ka_APIVersion :: "string option"
  ka_ObjectMeta :: "ObjectMetaApply option"
  ka_Spec :: "KueueOperandSpecApply option"
  ka_Status :: "KueueStatusApply option"

definition empty_ObjectMetaApply :: ObjectMetaApply where
  "empty_ObjectMetaApply = \<lparr>oma_Name = None, oma_GenerateName = None, oma_Namespace = None, oma_UID = None,
     oma_ResourceVersion = None, oma_Generation = None, oma_CreationTimestamp = None,
     oma_DeletionTimestamp = None, oma_DeletionGracePeriodSeconds = None, oma_Labels = None,
     oma_Annotations = None, oma_OwnerReferences = [], oma_Finalizers = []\<rparr>"

definition empty_KueueApply :: KueueApply where
  "empty_KueueApply = \<lparr>ka_Kind = None, ka_APIVersion = None, ka_ObjectMeta = None, ka_Spec = None,
     ka_Status = None\<rparr>"

section \<open>The resource\<close>

definition ensureObjectMetaApplyConfigurationExists :: "KueueApply \<Rightarrow> KueueApply" where
  "ensureObjectMetaApplyConfigurationExists b =
     (if ka_ObjectMeta b = None then b\<lparr>ka_ObjectMeta := Some empty_ObjectMetaApply\<rparr> else b)"

text \<open>What all builders of the metadata share: the metadata is created first if there is none.\<close>
definition with_meta :: "(ObjectMetaApply \<Rightarrow> ObjectMetaApply) \<Rightarrow> KueueApply \<Rightarrow> KueueApply" where
  "with_meta f b = ka_ObjectMeta_update (map_option f) (ensureObjectMetaApplyConfigurationExists b)"

definition WithKind :: "string \<Rightarrow> KueueApply \<Rightarrow> KueueApply" where
  "WithKind v b = b\<lparr>ka_Kind := Some v\<rparr>"

definition WithAPIVersion :: "string \<Rightarrow> KueueApply \<Rightarrow> KueueApply" where
  "WithAPIVersion v b = b\<lparr>ka_APIVersion := Some v\<rparr>"

definition WithName :: "string \<Rightarrow> KueueApply \<Rightarrow> KueueApply" where
  "WithName v = with_meta (\<lambda>m. m\<lparr>oma_Name := Some v\<rparr>)"

definition WithGenerateName :: "string \<Rightarrow> KueueApply \<Rightarrow> KueueApply" where
  "WithGenerateName v = with_meta (\<lambda>m. m\<lparr>oma_GenerateName := Some v\<rparr>)"

definition WithNamespace :: "string \<Rightarrow> KueueApply \<Rightarrow> KueueApply" where
  "WithNamespace v = with_meta (\<lambda>m. m\<lparr>oma_Namespace := Some v\<rparr>)"

definition WithUID :: "string \<Rightarrow> KueueApply \<Rightarrow> KueueApply" where
  "WithUID v = with_meta (\<lambda>m. m\<lparr>oma_UID := Some v\<rparr>)"

definition WithResourceVersion :: "string \<Rightarrow> KueueApply \<Rightarrow> KueueApply" where
  "WithResourceVersion v = with_meta (\<lambda>m. m\<lparr>oma_ResourceVersion := Some v\<rparr>)"

definition WithGeneration :: "int \<Rightarrow> KueueApply \<Rightarrow> KueueApply" where
  "WithGeneration v = with_meta (\<lambda>m. m\<lparr>oma_Generation := Some v\<rparr>)"

definition WithCreationTimestamp :: "int \<Rightarrow> KueueApply \<Rightarrow> KueueApply" where
  "WithCreationTimestamp v = with_meta (\<lambda>m. m\<lparr>oma_CreationTimestamp := Some v\<rparr>)"

definition WithDeletionTimestamp :: "int \<Rightarrow> KueueApply \<Rightarrow> KueueApply" where
  "WithDeletionTimestamp v = with_meta (\<lambda>m. m\<lparr>oma_DeletionTimestamp := Some v\<rparr>)"

definition WithDeletionGracePeriodSeconds :: "int \<Rightarrow> KueueApply \<Rightarrow> KueueApply" where
  "WithDeletionGracePeriodSeconds v = with_meta (\<lambda>m. m\<lparr>oma_DeletionGracePeriodSeconds := Some v\<rparr>)"

text \<open>Later entries replace earlier ones of the same key; a nil map stays nil without entries.\<close>
definition add_entries ::
  "(string, string) gomap \<Rightarrow> (string, string) gomap option \<Rightarrow> (string, string) gomap option" where
  "add_entries entries old =
     (let m = (if old = None \<and> entries \<noteq> [] then Some [] else old)
      in map_option (\<lambda>m. fold (\<lambda>(k, v). AList.update k v) entries m) m)"

definition WithLabels :: "(string, string) gomap \<Rightarrow> KueueApply \<Rightarrow> KueueApply" where
  "WithLabels entries = with_meta (\<lambda>m. m\<lparr>oma_Labels := add_entries entries (oma_Labels m)\<rparr>)"

definition WithAnnotations :: "(string, string) gomap \<Rightarrow> KueueApply \<Rightarrow> KueueApply" where
  "WithAnnotations entries = with_meta (\<lambda>m. m\<lparr>oma_Annotations := add_entries entries (oma_Annotations m)\<rparr>)"

definition WithOwnerReferences :: "OwnerReference option list \<Rightarrow> KueueApply \<Rightarrow> err + KueueApply" where
  "WithOwnerReferences values b = (case non_nil ''WithOwnerReferences'' values of Inl e \<Rightarrow> Inl e
     | Inr refs \<Rightarrow> Inr (with_meta (\<lambda>m. m\<lparr>oma_OwnerReferences := oma_OwnerReferences m @ refs\<rparr>) b))"

definition WithFinalizers :: "string list \<Rightarrow> KueueApply \<Rightarrow> KueueApply" where
  "WithFinalizers values = with_meta (\<lambda>m. m\<lparr>oma_Finalizers := oma_Finalizers m @ values\<rparr>)"

definition WithSpec :: "KueueOperandSpecApply option \<Rightarrow> KueueApply \<Rightarrow> KueueApply" where
  "WithSpec v b = b\<lparr>ka_Spec := v\<rparr>"

definition WithStatus :: "KueueStatusApply option \<Rightarrow> KueueApply \<Rightarrow> KueueApply" where
  "WithStatus v b = b\<lparr>ka_Status := v\<rparr>"

definition apply_GetName :: "KueueApply \<Rightarrow> string option" where
  "apply_GetName b = Option.bind (ka_ObjectMeta (ensureObjectMetaApplyConfigurationExists b)) oma_Name"

definition apply_GetNamespace :: "KueueApply \<Rightarrow> string option" where
  "apply_GetNamespace b = Option.bind (ka_ObjectMeta (ensureObjectMetaApplyConfigurationExists b)) oma_Namespace"

text \<open>\<^verbatim>\<open>Kueue(name)\<close>.\<close>
definition apply_Kueue :: "string \<Rightarrow> KueueApply" where
  "apply_Kueue name = WithAPIVersion ''kueue.openshift.io/v1''
     (WithKind ''Kueue'' (WithName name empty_KueueApply))"

text \<open>\<open>extract\<close> is \<^verbatim>\<open>managedfields.ExtractInto\<close>: what a field manager owns of an object, for a subresource.\<close>
definition ExtractKueueFrom ::
  "(string \<Rightarrow> string \<Rightarrow> Kueue \<Rightarrow> err + KueueApply) \<Rightarrow> Kueue \<Rightarrow> string \<Rightarrow> string \<Rightarrow> err + KueueApply" where
  "ExtractKueueFrom extract kueue fieldManager subresource =
     (case extract fieldManager subresource kueue of Inl e \<Rightarrow> Inl e
      | Inr b \<Rightarrow> Inr (WithAPIVersion ''kueue.openshift.io/v1''
          (WithKind ''Kueue'' (WithName (om_Name (ku_ObjectMeta kueue)) b))))"

definition ExtractKueue ::
  "(string \<Rightarrow> string \<Rightarrow> Kueue \<Rightarrow> err + KueueApply) \<Rightarrow> Kueue \<Rightarrow> string \<Rightarrow> err + KueueApply" where
  "ExtractKueue extract kueue fieldManager = ExtractKueueFrom extract kueue fieldManager []"

definition ExtractKueueStatus ::
  "(string \<Rightarrow> string \<Rightarrow> Kueue \<Rightarrow> err + KueueApply) \<Rightarrow> Kueue \<Rightarrow> string \<Rightarrow> err + KueueApply" where
  "ExtractKueueStatus extract kueue fieldManager = ExtractKueueFrom extract kueue fieldManager ''status''"

section \<open>Specification and status\<close>

definition KueueOperandSpec_apply :: KueueOperandSpecApply where
  "KueueOperandSpec_apply = \<lparr>kosa_OperatorSpec = \<lparr>osa_ManagementState = None, osa_LogLevel = None,
     osa_OperatorLogLevel = None, osa_UnsupportedConfigOverrides = None, osa_ObservedConfig = None\<rparr>,
     kosa_Config = None\<rparr>"

definition with_operator_spec ::
  "(OperatorSpecApply \<Rightarrow> OperatorSpecApply) \<Rightarrow> KueueOperandSpecApply \<Rightarrow> KueueOperandSpecApply" where
  "with_operator_spec f b = b\<lparr>kosa_OperatorSpec := f (kosa_OperatorSpec b)\<rparr>"

definition WithManagementState :: "string \<Rightarrow> KueueOperandSpecApply \<Rightarrow> KueueOperandSpecApply" where
  "WithManagementState v = with_operator_spec (\<lambda>s. s\<lparr>osa_ManagementState := Some v\<rparr>)"

definition WithLogLevel :: "string \<Rightarrow> KueueOperandSpecApply \<Rightarrow> KueueOperandSpecApply" where
  "WithLogLevel v = with_operator_spec (\<lambda>s. s\<lparr>osa_LogLevel := Some v\<rparr>)"

definition WithOperatorLogLevel :: "string \<Rightarrow> KueueOperandSpecApply \<Rightarrow> KueueOperandSpecApply" where
  "WithOperatorLogLevel v = with_operator_spec (\<lambda>s. s\<lparr>osa_OperatorLogLevel := Some v\<rparr>)"

definition WithUnsupportedConfigOverrides :: "opaque \<Rightarrow> KueueOperandSpecApply \<Rightarrow> KueueOperandSpecApply" where
  "WithUnsupportedConfigOverrides v = with_operator_spec (\<lambda>s. s\<lparr>osa_UnsupportedConfigOverrides := Some v\<rparr>)"

definition WithObservedConfig :: "opaque \<Rightarrow> KueueOperandSpecApply \<Rightarrow> KueueOperandSpecApply" where
  "WithObservedConfig v = with_operator_spec (\<lambda>s. s\<lparr>osa_ObservedConfig := Some v\<rparr>)"

definition WithConfig :: "KueueConfigurationApply option \<Rightarrow> KueueOperandSpecApply \<Rightarrow> KueueOperandSpecApply" where
  "WithConfig v b = b\<lparr>kosa_Config := v\<rparr>"

definition KueueStatus_apply :: KueueStatusApply where
  "KueueStatus_apply = \<lparr>ksa_OperatorStatus = \<lparr>osta_ObservedGeneration = None, osta_Conditions = [],
     osta_Version = None, osta_ReadyReplicas = None, osta_LatestAvailableRevision = None,
     osta_Generations = []\<rparr>\<rparr>"

definition with_operator_status ::
  "(OperatorStatusApply \<Rightarrow> OperatorStatusApply) \<Rightarrow> KueueStatusApply \<Rightarrow> KueueStatusApply" where
  "with_operator_status f b = b\<lparr>ksa_OperatorStatus := f (ksa_OperatorStatus b)\<rparr>"

definition WithObservedGeneration :: "int \<Rightarrow> KueueStatusApply \<Rightarrow> KueueStatusApply" where
  "WithObservedGeneration v = with_operator_status (\<lambda>s. s\<lparr>osta_ObservedGeneration := Some v\<rparr>)"

definition WithConditions :: "ConditionApply option list \<Rightarrow> KueueStatusApply \<Rightarrow> err + KueueStatusApply" where
  "WithConditions values b = (case non_nil ''WithConditions'' values of Inl e \<Rightarrow> Inl e
     | Inr cs \<Rightarrow> Inr (with_operator_status (\<lambda>s. s\<lparr>osta_Conditions := osta_Conditions s @ cs\<rparr>) b))"

definition WithVersion :: "string \<Rightarrow> KueueStatusApply \<Rightarrow> KueueStatusApply" where
  "WithVersion v = with_operator_status (\<lambda>s. s\<lparr>osta_Version := Some v\<rparr>)"

definition WithReadyReplicas :: "int32 \<Rightarrow> KueueStatusApply \<Rightarrow> KueueStatusApply" where
  "WithReadyReplicas v = with_operator_status (\<lambda>s. s\<lparr>osta_ReadyReplicas := Some v\<rparr>)"

definition WithLatestAvailableRevision :: "int32 \<Rightarrow> KueueStatusApply \<Rightarrow> KueueStatusApply" where
  "WithLatestAvailableRevision v = with_operator_status (\<lambda>s. s\<lparr>osta_LatestAvailableRevision := Some v\<rparr>)"

definition WithGenerations :: "opaque option list \<Rightarrow> KueueStatusApply \<Rightarrow> err + KueueStatusApply" where
  "WithGenerations values b = (case non_nil ''WithGenerations'' values of Inl e \<Rightarrow> Inl e
     | Inr gs \<Rightarrow> Inr (with_operator_status (\<lambda>s. s\<lparr>osta_Generations := osta_Generations s @ gs\<rparr>) b))"

section \<open>Documents by kind\<close>

datatype ApplyDocument =
    Doc_AdmissionFairSharing AdmissionFairSharingApply
  | Doc_AdmissionFairSharingCustom AdmissionFairSharingCustomApply
  | Doc_ByWorkload ByWorkloadApply
  | Doc_CELDeviceSelector CELDeviceSelectorApply
  | Doc_ControllerManager ControllerManagerApply
  | Doc_ControllerMetrics ControllerMetricsApply
  | Doc_ControllerMetricsCustomLabel ControllerMetricsCustomLabelApply
  | Doc_DeviceClassCapacitySource DeviceClassCapacitySourceApply
  | Doc_DeviceClassCounterSource DeviceClassCounterSourceApply
  | Doc_DeviceClassMapping DeviceClassMappingApply
  | Doc_DeviceClassSourceConfig DeviceClassSourceConfigApply
  | Doc_DeviceSelector DeviceSelectorApply
  | Doc_ExternalFramework ExternalFrameworkApply
  | Doc_GangScheduling GangSchedulingApply
  | Doc_Integrations IntegrationsApply
  | Doc_Kueue KueueApply
  | Doc_KueueConfiguration KueueConfigurationApply
  | Doc_KueueOperandSpec KueueOperandSpecApply
  | Doc_KueueStatus KueueStatusApply
  | Doc_LabelKeys LabelKeysApply
  | Doc_MultiKueue MultiKueueApply
  | Doc_Preemption PreemptionApply
  | Doc_RequeuingStrategy RequeuingStrategyApply
  | Doc_Resources ResourcesApply
  | Doc_ResourceWeight ResourceWeightApply
  | Doc_SourceKey SourceKeyApply
  | Doc_SourceKeyAnnotation SourceKeyAnnotationApply
  | Doc_SourceKeyLabel SourceKeyLabelApply
  | Doc_WorkloadManagement WorkloadManagementApply

text \<open>\<^verbatim>\<open>interface{}\<close> is nil for a kind that has no document type. A kind is its group, version and name.\<close>
definition ForKind :: "string \<times> string \<times> string \<Rightarrow> ApplyDocument option" where
  "ForKind gvk = (case gvk of (grp, version, kind) \<Rightarrow>
     if grp \<noteq> ''kueue.openshift.io'' \<or> version \<noteq> ''v1'' then None
     else if kind = ''AdmissionFairSharing'' then Some (Doc_AdmissionFairSharing AdmissionFairSharing_apply)
     else if kind = ''AdmissionFairSharingCustom'' then Some (Doc_AdmissionFairSharingCustom AdmissionFairSharingCustom_apply)
     else if kind = ''ByWorkload'' then Some (Doc_ByWorkload ByWorkload_apply)
     else if kind = ''CELDeviceSelector'' then Some (Doc_CELDeviceSelector CELDeviceSelector_apply)
     else if kind = ''ControllerManager'' then Some (Doc_ControllerManager ControllerManager_apply)
     else if kind = ''ControllerMetrics'' then Some (Doc_ControllerMetrics ControllerMetrics_apply)
     else if kind = ''ControllerMetricsCustomLabel'' then Some (Doc_ControllerMetricsCustomLabel ControllerMetricsCustomLabel_apply)
     else if kind = ''DeviceClassCapacitySource'' then Some (Doc_DeviceClassCapacitySource DeviceClassCapacitySource_apply)
     else if kind = ''DeviceClassCounterSource'' then Some (Doc_DeviceClassCounterSource DeviceClassCounterSource_apply)
     else if kind = ''DeviceClassMapping'' then Some (Doc_DeviceClassMapping DeviceClassMapping_apply)
     else if kind = ''DeviceClassSourceConfig'' then Some (Doc_DeviceClassSourceConfig DeviceClassSourceConfig_apply)
     else if kind = ''DeviceSelector'' then Some (Doc_DeviceSelector DeviceSelector_apply)
     else if kind = ''ExternalFramework'' then Some (Doc_ExternalFramework ExternalFramework_apply)
     else if kind = ''GangScheduling'' then Some (Doc_GangScheduling GangScheduling_apply)
     else if kind = ''Integrations'' then Some (Doc_Integrations Integrations_apply)
     else if kind = ''Kueue'' then Some (Doc_Kueue empty_KueueApply)
     else if kind = ''KueueConfiguration'' then Some (Doc_KueueConfiguration KueueConfiguration_apply)
     else if kind = ''KueueOperandSpec'' then Some (Doc_KueueOperandSpec KueueOperandSpec_apply)
     else if kind = ''KueueStatus'' then Some (Doc_KueueStatus KueueStatus_apply)
     else if kind = ''LabelKeys'' then Some (Doc_LabelKeys LabelKeys_apply)
     else if kind = ''MultiKueue'' then Some (Doc_MultiKueue MultiKueue_apply)
     else if kind = ''Preemption'' then Some (Doc_Preemption Preemption_apply)
     else if kind = ''RequeuingStrategy'' then Some (Doc_RequeuingStrategy RequeuingStrategy_apply)
     else if kind = ''Resources'' then Some (Doc_Resources Resources_apply)
     else if kind = ''ResourceWeight'' then Some (Doc_ResourceWeight ResourceWeight_apply)
     else if kind = ''SourceKey'' then Some (Doc_SourceKey SourceKey_apply)
     else if kind = ''SourceKeyAnnotation'' then Some (Doc_SourceKeyAnnotation SourceKeyAnnotation_apply)
     else if kind = ''SourceKeyLabel'' then Some (Doc_SourceKeyLabel SourceKeyLabel_apply)
     else if kind = ''WorkloadManagement'' then Some (Doc_WorkloadManagement WorkloadManagement_apply)
     else None)"

section \<open>Laws of the builders\<close>

lemma with_meta_compose: "with_meta f (with_meta g b) = with_meta (f \<circ> g) b"
  by (cases "ka_ObjectMeta b") (auto simp: with_meta_def ensureObjectMetaApplyConfigurationExists_def)

text \<open>Of two calls the last one wins, and calls for different fields can be swapped.\<close>
lemma with_meta_last: "f \<circ> g = f \<Longrightarrow> with_meta f (with_meta g b) = with_meta f b"
  by (simp add: with_meta_compose)

lemma with_meta_commute: "f \<circ> g = g \<circ> f \<Longrightarrow> with_meta f (with_meta g b) = with_meta g (with_meta f b)"
  by (simp add: with_meta_compose)

lemma fold_update_lookup:
  "map_of (fold (\<lambda>(k, v). AList.update k v) entries m) k =
     (case map_of (rev entries) k of Some v \<Rightarrow> Some v | None \<Rightarrow> map_of m k)"
  by (induction entries arbitrary: m) (auto simp: AList.update_conv' map_add_def split: option.splits)

text \<open>Extracting the document of a manager that owns nothing gives back the constructor.\<close>
lemma ExtractKueueFrom_nothing:
  "extract fm sub k = Inr empty_KueueApply \<Longrightarrow>
   ExtractKueueFrom extract k fm sub = Inr (apply_Kueue (om_Name (ku_ObjectMeta k)))"
  by (simp add: ExtractKueueFrom_def apply_Kueue_def)

text \<open>The document of a Kueue resource starts empty: the constructor adds the kind and the name.\<close>
lemma ForKind_Kueue:
  "ForKind (''kueue.openshift.io'', ''v1'', ''Kueue'') = Some (Doc_Kueue d) \<longleftrightarrow> d = empty_KueueApply"
  by (auto simp: ForKind_def)

lemma ForKind_foreign: "grp \<noteq> ''kueue.openshift.io'' \<Longrightarrow> ForKind (grp, version, kind) = None"
  by (simp add: ForKind_def)

end
