(* ===== verification/Operator_Client.thy ===== *)
theory Operator_Client
  imports Apply_Configuration Operator_Status
begin

text \<open>
  The operator client (\<^verbatim>\<open>src/pkg/operator/operatorclient/interfaces.go\<close>), through which library-go's
  controllers read and write the generic part of the Kueue resource. It talks about one object only,
  so that it has a world of its own: the stored object if there is one, and the requests made. The
  server checks the version of an update and keeps specification and status apart, since the status
  is a subresource; what it stores beyond that, what server-side apply does and what a field manager
  owns are parameters.
\<close>

section \<open>The server\<close>

datatype oc_call =
    OcGet
  | OcUpdate Kueue
  | OcUpdateStatus Kueue
  | OcApply string KueueApply
  | OcApplyStatus string KueueApply

record OcEnv =
  oe_Fault :: "nat \<Rightarrow> api_error option"
  oe_Interfere :: "nat \<Rightarrow> Kueue option \<Rightarrow> Kueue option"
  oe_Admit :: "nat \<Rightarrow> Kueue \<Rightarrow> Kueue"
  oe_ServerApply :: "nat \<Rightarrow> string \<Rightarrow> string \<Rightarrow> KueueApply \<Rightarrow> Kueue option \<Rightarrow> api_error + Kueue"
  oe_Extract :: "string \<Rightarrow> string \<Rightarrow> Kueue \<Rightarrow> err + KueueApply"

record OcWorld =
  ow_Kueue :: "Kueue option"
  ow_Calls :: nat
  ow_Trace :: "oc_call list"
  ow_Now :: int

text \<open>Others act, then the server answers, or the request fails.\<close>
definition oc_request ::
  "OcEnv \<Rightarrow> oc_call \<Rightarrow> (nat \<Rightarrow> Kueue option \<Rightarrow> (api_error + 'a) \<times> Kueue option) \<Rightarrow> (OcWorld, 'a) go" where
  "oc_request env c answer = (\<lambda>w.
     let n = ow_Calls w; k = oe_Interfere env n (ow_Kueue w);
         w1 = w\<lparr>ow_Kueue := k, ow_Calls := Suc n, ow_Trace := ow_Trace w @ [c]\<rparr>
     in case oe_Fault env n of
          Some (r, m) \<Rightarrow> (Inl (ApiError r m), w1)
        | None \<Rightarrow> (case answer n k of
            (Inl (r, m), k') \<Rightarrow> (Inl (ApiError r m), w1\<lparr>ow_Kueue := k'\<rparr>)
          | (Inr x, k') \<Rightarrow> (Inr x, w1\<lparr>ow_Kueue := k'\<rparr>)))"

definition kueue_version :: "Kueue \<Rightarrow> string" where
  "kueue_version k = om_ResourceVersion (ku_ObjectMeta k)"

definition oc_Get :: "OcEnv \<Rightarrow> (OcWorld, Kueue) go" where
  "oc_Get env = oc_request env OcGet (\<lambda>n s. (case s of
     None \<Rightarrow> Inl (NotFound, OperatorConfigName) | Some k \<Rightarrow> Inr k, s))"

text \<open>An update has to name the current version.\<close>
definition oc_write ::
  "OcEnv \<Rightarrow> oc_call \<Rightarrow> Kueue \<Rightarrow> (Kueue \<Rightarrow> Kueue) \<Rightarrow> (OcWorld, Kueue) go" where
  "oc_write env c copy f = oc_request env c (\<lambda>n s. case s of
     None \<Rightarrow> (Inl (NotFound, OperatorConfigName), s)
   | Some k \<Rightarrow>
       if kueue_version copy = [] then (Inl (OtherReason, ''metadata.resourceVersion must be specified''), s)
       else if kueue_version copy \<noteq> kueue_version k then (Inl (Conflict, OperatorConfigName), s)
       else let k' = oe_Admit env n (f k) in (Inr k', Some k'))"

definition oc_Update :: "OcEnv \<Rightarrow> Kueue \<Rightarrow> (OcWorld, Kueue) go" where
  "oc_Update env copy = oc_write env (OcUpdate copy) copy (\<lambda>k. copy\<lparr>ku_Status := ku_Status k\<rparr>)"

definition oc_UpdateStatus :: "OcEnv \<Rightarrow> Kueue \<Rightarrow> (OcWorld, Kueue) go" where
  "oc_UpdateStatus env copy = oc_write env (OcUpdateStatus copy) copy (\<lambda>k. k\<lparr>ku_Status := ku_Status copy\<rparr>)"

definition oc_ServerApply :: "OcEnv \<Rightarrow> oc_call \<Rightarrow> string \<Rightarrow> string \<Rightarrow> KueueApply \<Rightarrow> (OcWorld, unit) go" where
  "oc_ServerApply env c fieldManager subresource desired = oc_request env c (\<lambda>n s.
     case oe_ServerApply env n fieldManager subresource desired s of
       Inl e \<Rightarrow> (Inl e, s) | Inr k \<Rightarrow> (Inr (), Some k))"

definition oc_Apply :: "OcEnv \<Rightarrow> string \<Rightarrow> KueueApply \<Rightarrow> (OcWorld, unit) go" where
  "oc_Apply env fieldManager desired =
     oc_ServerApply env (OcApply fieldManager desired) fieldManager [] desired"

definition oc_ApplyStatus :: "OcEnv \<Rightarrow> string \<Rightarrow> KueueApply \<Rightarrow> (OcWorld, unit) go" where
  "oc_ApplyStatus env fieldManager desired =
     oc_ServerApply env (OcApplyStatus fieldManager desired) fieldManager ''status'' desired"

section \<open>The client\<close>

definition GetOperatorState :: "OcEnv \<Rightarrow> (OcWorld, OperatorSpec \<times> OperatorStatus \<times> string) go" where
  "GetOperatorState env = go_bind (oc_Get env) (\<lambda>inst.
     go_return (ks_OperatorSpec (ku_Spec inst), kst_OperatorStatus (ku_Status inst),
       kueue_version inst))"

definition PatchOperatorStatus :: "'patch \<Rightarrow> (OcWorld, unit) go" where
  "PatchOperatorStatus patch = go_return ()"

definition GetOperatorStateWithQuorum ::
  "OcEnv \<Rightarrow> (OcWorld, OperatorSpec \<times> OperatorStatus \<times> string) go" where
  "GetOperatorStateWithQuorum env = GetOperatorState env"

definition set_version :: "string \<Rightarrow> Kueue \<Rightarrow> Kueue" where
  "set_version v k = k\<lparr>ku_ObjectMeta := (ku_ObjectMeta k)\<lparr>om_ResourceVersion := v\<rparr>\<rparr>"

definition set_operator_spec :: "OperatorSpec \<Rightarrow> Kueue \<Rightarrow> Kueue" where
  "set_operator_spec spec k = k\<lparr>ku_Spec := (ku_Spec k)\<lparr>ks_OperatorSpec := spec\<rparr>\<rparr>"

definition set_operator_status :: "OperatorStatus \<Rightarrow> Kueue \<Rightarrow> Kueue" where
  "set_operator_status status k = k\<lparr>ku_Status := (ku_Status k)\<lparr>kst_OperatorStatus := status\<rparr>\<rparr>"

definition UpdateOperatorSpec ::
  "OcEnv \<Rightarrow> string \<Rightarrow> OperatorSpec \<Rightarrow> (OcWorld, OperatorSpec \<times> string) go" where
  "UpdateOperatorSpec env resourceVersion spec =
     go_bind (oc_Get env) (\<lambda>original.
     go_bind (oc_Update env (set_operator_spec spec (set_version resourceVersion original))) (\<lambda>ret.
       go_return (ks_OperatorSpec (ku_Spec ret), kueue_version ret)))"

definition UpdateOperatorStatus ::
  "OcEnv \<Rightarrow> string \<Rightarrow> OperatorStatus \<Rightarrow> (OcWorld, OperatorStatus) go" where
  "UpdateOperatorStatus env resourceVersion status =
     go_bind (oc_Get env) (\<lambda>original.
     go_bind (oc_UpdateStatus env (set_operator_status status (set_version resourceVersion original)))
       (\<lambda>ret. go_return (kst_OperatorStatus (ku_Status ret))))"

definition GetObjectMeta :: "OcEnv \<Rightarrow> (OcWorld, ObjectMeta) go" where
  "GetObjectMeta env = go_bind (oc_Get env) (\<lambda>inst. go_return (ku_ObjectMeta inst))"

definition wrap_error :: "string \<Rightarrow> ('s, 'a) go \<Rightarrow> ('s, 'a) go" where
  "wrap_error msg m = go_bind (go_try m) (\<lambda>r. case r of Inl e \<Rightarrow> go_throw (Wrap msg e) | Inr x \<Rightarrow> go_return x)"

definition ApplyOperatorSpec :: "OcEnv \<Rightarrow> string \<Rightarrow> OperatorSpecApply option \<Rightarrow> (OcWorld, unit) go" where
  "ApplyOperatorSpec env fieldManager desiredConfiguration = (case desiredConfiguration of
     None \<Rightarrow> go_throw (Errorf ''applyConfiguration must have a value'')
   | Some conf \<Rightarrow>
      (let desired = WithSpec (Some \<lparr>kosa_OperatorSpec = conf, kosa_Config = None\<rparr>)
             (apply_Kueue OperatorConfigName);
           send = wrap_error ''unable to Apply for operator using fieldManager''
             (oc_Apply env fieldManager desired) in
       go_bind (go_try (oc_Get env)) (\<lambda>r. case r of
         Inl err \<Rightarrow> if IsNotFound err then send
           else go_throw (Wrap ''unable to get operator configuration'' err)
       | Inr inst \<Rightarrow> (case ExtractKueue (oe_Extract env) inst fieldManager of
           Inl err \<Rightarrow> go_throw (Wrap ''unable to extract operator configuration from spec'' err)
         | Inr original \<Rightarrow> if original = desired then go_return () else send))))"

text \<open>The transition times of the conditions of a status document.\<close>
definition with_transition_times :: "int \<Rightarrow> ConditionApply list \<Rightarrow> KueueApply \<Rightarrow> KueueApply" where
  "with_transition_times now old desired = desired\<lparr>ka_Status := map_option (with_operator_status (\<lambda>s.
     s\<lparr>osta_Conditions := SetApplyConditionsLastTransitionTime now (osta_Conditions s) old\<rparr>))
       (ka_Status desired)\<rparr>"

definition ApplyOperatorStatus :: "OcEnv \<Rightarrow> string \<Rightarrow> OperatorStatusApply option \<Rightarrow> (OcWorld, unit) go" where
  "ApplyOperatorStatus env fieldManager desiredConfiguration = (case desiredConfiguration of
     None \<Rightarrow> go_throw (Errorf ''applyConfiguration must have a value'')
   | Some conf \<Rightarrow>
      (let desired = WithStatus (Some \<lparr>ksa_OperatorStatus = conf\<rparr>) (apply_Kueue OperatorConfigName);
           send = (\<lambda>old. go_bind (go_read ow_Now) (\<lambda>now.
             wrap_error ''unable to ApplyStatus for operator using fieldManager''
               (oc_ApplyStatus env fieldManager (with_transition_times now old desired)))) in
       go_bind (go_try (oc_Get env)) (\<lambda>r. case r of
         Inl err \<Rightarrow> if IsNotFound err then send []
           else go_throw (Wrap ''unable to get operator configuration'' err)
       | Inr inst \<Rightarrow> (case ExtractKueueStatus (oe_Extract env) inst fieldManager of
           Inl err \<Rightarrow> go_throw (Wrap ''unable to extract operator configuration from status'' err)
         | Inr original \<Rightarrow> if original = desired then go_return ()
             else (case ka_Status original of
                Some st \<Rightarrow> send (osta_Conditions (ksa_OperatorStatus st))
              | None \<Rightarrow> send [])))))"

section \<open>Optimistic locking\<close>

text \<open>The version that the caller holds was assigned to a write of the past, so nobody else's write is
  ever assigned it again.\<close>
definition version_spent :: "OcEnv \<Rightarrow> string \<Rightarrow> bool" where
  "version_spent env v \<longleftrightarrow> (\<forall>n k k'. oe_Interfere env n (Some k) = Some k' \<longrightarrow>
     k' = k \<or> kueue_version k' \<noteq> v)"

definition oc_seen :: "OcEnv \<Rightarrow> OcWorld \<Rightarrow> Kueue option" where
  "oc_seen env w = oe_Interfere env (ow_Calls w) (ow_Kueue w)"

lemma oc_Get_ok:
  "oc_Get env w = (Inr k, w') \<Longrightarrow> oc_seen env w = Some k \<and> ow_Kueue w' = Some k \<and>
     ow_Calls w' = Suc (ow_Calls w) \<and> ow_Trace w' = ow_Trace w @ [OcGet] \<and> ow_Now w' = ow_Now w"
  by (auto simp: oc_Get_def oc_request_def oc_seen_def Let_def split: option.splits prod.splits sum.splits)

lemma oc_write_ok:
  "oc_write env c copy f w = (Inr k', w') \<Longrightarrow> \<exists>k. oc_seen env w = Some k \<and>
     kueue_version copy = kueue_version k \<and> k' = oe_Admit env (ow_Calls w) (f k) \<and>
     ow_Kueue w' = Some k'"
  by (auto simp: oc_write_def oc_request_def oc_seen_def Let_def
      split: option.splits prod.splits sum.splits if_splits)

lemma set_simps [simp]:
  "kueue_version (set_version v k) = v" "kueue_version (set_operator_spec s k) = kueue_version k"
  "kueue_version (set_operator_status st k) = kueue_version k"
  "v = kueue_version k \<Longrightarrow> set_version v k = k"
  by (simp_all add: kueue_version_def set_version_def set_operator_spec_def set_operator_status_def)

lemma copy_of_stored:
  "kueue_version k = v \<Longrightarrow>
     (set_operator_spec spec (set_version v k))\<lparr>ku_Status := ku_Status k\<rparr> = set_operator_spec spec k"
  "kueue_version k = v \<Longrightarrow>
     k\<lparr>ku_Status := ku_Status (set_operator_status status (set_version v k))\<rparr> = set_operator_status status k"
  by (simp_all add: set_operator_spec_def set_operator_status_def set_version_def kueue_version_def)

lemma update_after_get:
  assumes "version_spent env v" and "oc_Get env w = (Inr original, w1)"
    and "oc_write env c copy f w1 = (Inr ret, w')" and "kueue_version copy = v"
  shows "oc_seen env w = Some original \<and> kueue_version original = v \<and>
    ow_Kueue w' = Some (oe_Admit env (Suc (ow_Calls w)) (f original))"
proof -
  note get = oc_Get_ok[OF assms(2)]
  obtain k where k: "oc_seen env w1 = Some k" "kueue_version copy = kueue_version k"
      "ow_Kueue w' = Some (oe_Admit env (ow_Calls w1) (f k))"
    using oc_write_ok[OF assms(3)] by auto
  have "oe_Interfere env (ow_Calls w1) (Some original) = Some k" using k(1) get by (simp add: oc_seen_def)
  then have "k = original" using assms(1,4) k(2) by (auto simp: version_spent_def)
  then show ?thesis using k get assms(4) by simp
qed

text \<open>C27. Updates of the generic specification and of the generic status are optimistic: one that
  succeeds was made with the version of the object as it was read, and nothing but the generic
  specification, or the generic status, changes; the configuration of the operand and the metadata
  are those of the stored object, whatever others tried in between.\<close>
theorem operator_updates_optimistic:
  assumes "version_spent env v"
  shows "(UpdateOperatorSpec env v spec w = (Inr out, w') \<longrightarrow> (\<exists>k. oc_seen env w = Some k \<and>
      kueue_version k = v \<and>
      ow_Kueue w' = Some (oe_Admit env (Suc (ow_Calls w)) (set_operator_spec spec k)))) \<and>
   (UpdateOperatorStatus env v status w = (Inr out', w') \<longrightarrow> (\<exists>k. oc_seen env w = Some k \<and>
      kueue_version k = v \<and>
      ow_Kueue w' = Some (oe_Admit env (Suc (ow_Calls w)) (set_operator_status status k))))"
proof (intro conjI impI)
  assume "UpdateOperatorSpec env v spec w = (Inr out, w')"
  then obtain original w1 ret where run: "oc_Get env w = (Inr original, w1)"
      "oc_Update env (set_operator_spec spec (set_version v original)) w1 = (Inr ret, w')"
    by (auto simp: UpdateOperatorSpec_def go_bind_def go_return_def split: prod.splits sum.splits)
  have "oc_seen env w = Some original" "kueue_version original = v"
      "ow_Kueue w' = Some (oe_Admit env (Suc (ow_Calls w)) (set_operator_spec spec original))"
    using update_after_get[OF assms run(1) run(2)[unfolded oc_Update_def]] copy_of_stored(1) by simp_all
  then show "\<exists>k. oc_seen env w = Some k \<and> kueue_version k = v \<and>
      ow_Kueue w' = Some (oe_Admit env (Suc (ow_Calls w)) (set_operator_spec spec k))"
    by blast
next
  assume "UpdateOperatorStatus env v status w = (Inr out', w')"
  then obtain original w1 ret where run: "oc_Get env w = (Inr original, w1)"
      "oc_UpdateStatus env (set_operator_status status (set_version v original)) w1 = (Inr ret, w')"
    by (auto simp: UpdateOperatorStatus_def go_bind_def go_return_def split: prod.splits sum.splits)
  have "oc_seen env w = Some original" "kueue_version original = v"
      "ow_Kueue w' = Some (oe_Admit env (Suc (ow_Calls w)) (set_operator_status status original))"
    using update_after_get[OF assms run(1) run(2)[unfolded oc_UpdateStatus_def]] copy_of_stored(2) by simp_all
  then show "\<exists>k. oc_seen env w = Some k \<and> kueue_version k = v \<and>
      ow_Kueue w' = Some (oe_Admit env (Suc (ow_Calls w)) (set_operator_status status k))"
    by blast
qed

definition quiet_oc_env :: OcEnv where
  "quiet_oc_env = \<lparr>oe_Fault = \<lambda>_. None, oe_Interfere = \<lambda>_ s. s, oe_Admit = \<lambda>_ k. k,
     oe_ServerApply = \<lambda>_ _ _ _ s. (case s of None \<Rightarrow> Inl (NotFound, OperatorConfigName) | Some k \<Rightarrow> Inr k),
     oe_Extract = \<lambda>_ _ _. Inr empty_KueueApply\<rparr>"

definition some_kueue :: Kueue where
  "some_kueue = set_version ''41'' (kueue_with_frameworks [])"

definition some_oc_world :: OcWorld where
  "some_oc_world = \<lparr>ow_Kueue = Some some_kueue, ow_Calls = 0, ow_Trace = [], ow_Now = 0\<rparr>"

theorem operator_updates_optimistic_witness:
  "\<exists>out w'. UpdateOperatorSpec quiet_oc_env ''41'' \<lparr>os_LogLevel = ''Debug'', os_Rest = []\<rparr> some_oc_world =
      (Inr out, w') \<and>
    ow_Kueue w' = Some (set_operator_spec \<lparr>os_LogLevel = ''Debug'', os_Rest = []\<rparr> some_kueue)"
proof -
  let ?spec = "\<lparr>os_LogLevel = ''Debug'', os_Rest = []\<rparr>"
  obtain out w' where run: "UpdateOperatorSpec quiet_oc_env ''41'' ?spec some_oc_world = (Inr out, w')"
    by (simp add: UpdateOperatorSpec_def go_bind_def oc_Get_def oc_request_def oc_Update_def oc_write_def
        quiet_oc_env_def some_oc_world_def some_kueue_def Let_def go_return_def)
  have "version_spent quiet_oc_env ''41''" by (simp add: version_spent_def quiet_oc_env_def)
  from operator_updates_optimistic[OF this, of ?spec some_oc_world out w'] run
  show ?thesis by (auto simp: oc_seen_def quiet_oc_env_def some_oc_world_def)
qed

section \<open>Server-side apply\<close>

lemma oc_request_no_panic: "oc_request env c f w = (Inl e, w') \<Longrightarrow> \<not> is_panic e"
  by (auto simp: oc_request_def Let_def split: option.splits prod.splits sum.splits)

lemma oc_request_trace: "ow_Trace (snd (oc_request env c f w)) = ow_Trace w @ [c]"
  by (auto simp: oc_request_def Let_def split: option.splits prod.splits sum.splits)

lemma wrap_error_trace:
  assumes "\<And>e w'. m w = (Inl e, w') \<Longrightarrow> \<not> is_panic e"
  shows "ow_Trace (snd (wrap_error msg m w)) = ow_Trace (snd (m w))"
  using assms
  by (auto simp: wrap_error_def go_bind_def go_try_def go_throw_def go_return_def
      split: prod.splits sum.splits)

lemma status_request_sent:
  "ow_Trace (snd (wrap_error msg (oc_ApplyStatus env fm d) w)) = ow_Trace w @ [OcApplyStatus fm d]"
  unfolding oc_ApplyStatus_def oc_ServerApply_def
  by (subst wrap_error_trace) (auto dest: oc_request_no_panic simp: oc_request_trace)

text \<open>The comparison that should spare an unchanged status never does: whenever the status to be
  applied has a condition without a transition time, which is how library-go's controllers build
  them, and every condition the server keeps for the field manager has one, the status is applied
  again, however often it was applied before. The conditions that are sent carry the transition
  times of the stored ones whose status is the same.\<close>
theorem ApplyOperatorStatus_never_spared:
  assumes "oc_Get env w = (Inr k, w1)" and "ExtractKueueStatus (oe_Extract env) k fm = Inr original"
    and "\<forall>st. ka_Status original = Some st \<longrightarrow>
      (\<forall>c \<in> set (osta_Conditions (ksa_OperatorStatus st)). ca_LastTransitionTime c \<noteq> None)"
    and "\<exists>c \<in> set (osta_Conditions conf). ca_LastTransitionTime c = None"
  shows "\<exists>sent. ow_Trace (snd (ApplyOperatorStatus env fm (Some conf) w)) =
      ow_Trace w @ [OcGet, OcApplyStatus fm sent] \<and>
    map_option (osta_Conditions \<circ> ksa_OperatorStatus) (ka_Status sent) =
      Some (SetApplyConditionsLastTransitionTime (ow_Now w) (osta_Conditions conf)
        (case ka_Status original of None \<Rightarrow> [] | Some st \<Rightarrow> osta_Conditions (ksa_OperatorStatus st)))"
proof -
  let ?desired = "WithStatus (Some \<lparr>ksa_OperatorStatus = conf\<rparr>) (apply_Kueue OperatorConfigName)"
  let ?old = "case ka_Status original of None \<Rightarrow> [] | Some st \<Rightarrow> osta_Conditions (ksa_OperatorStatus st)"
  have desired: "ka_Status ?desired = Some \<lparr>ksa_OperatorStatus = conf\<rparr>" by (simp add: WithStatus_def)
  then have "original \<noteq> ?desired" using assms(3,4) by force
  then have run: "ApplyOperatorStatus env fm (Some conf) w =
      wrap_error ''unable to ApplyStatus for operator using fieldManager''
        (oc_ApplyStatus env fm (with_transition_times (ow_Now w1) ?old ?desired)) w1"
    using assms(1,2)
    by (auto simp: ApplyOperatorStatus_def go_bind_def go_try_def go_read_def Let_def split: option.split)
  show ?thesis
    unfolding run status_request_sent using oc_Get_ok[OF assms(1)] desired
    by (intro exI[of _ "with_transition_times (ow_Now w1) ?old ?desired"])
      (simp add: with_transition_times_def with_operator_status_def)
qed

theorem ApplyOperatorStatus_never_spared_witness:
  "\<exists>sent. ow_Trace (snd (ApplyOperatorStatus quiet_oc_env ''manager''
      (Some ((ksa_OperatorStatus KueueStatus_apply)\<lparr>osta_Conditions :=
         [condition ''Degraded'' ConditionFalse ''AsExpected'' []]\<rparr>)) some_oc_world)) =
    [OcGet, OcApplyStatus ''manager'' sent]"
proof -
  have get: "oc_Get quiet_oc_env some_oc_world = (Inr some_kueue,
      some_oc_world\<lparr>ow_Calls := 1, ow_Trace := [OcGet]\<rparr>)"
    by (simp add: oc_Get_def oc_request_def quiet_oc_env_def some_oc_world_def Let_def)
  have "ExtractKueueStatus (oe_Extract quiet_oc_env) some_kueue ''manager'' =
      Inr (apply_Kueue (om_Name (ku_ObjectMeta some_kueue)))"
    by (simp add: ExtractKueueStatus_def ExtractKueueFrom_nothing quiet_oc_env_def)
  moreover have "ka_Status (apply_Kueue n) = None" for n
    by (simp add: apply_Kueue_def WithKind_def WithAPIVersion_def WithName_def with_meta_def
        ensureObjectMetaApplyConfigurationExists_def empty_KueueApply_def)
  ultimately show ?thesis
    using ApplyOperatorStatus_never_spared[OF get, of "''manager''" _ "(ksa_OperatorStatus KueueStatus_apply)
      \<lparr>osta_Conditions := [condition ''Degraded'' ConditionFalse ''AsExpected'' []]\<rparr>"]
    by (auto simp: some_oc_world_def)
qed

end
