(* ===== verification/Startup.thy ===== *)
theory Startup
  imports Reconciler Work_Queue
begin

text \<open>
  How the operator starts: \<^verbatim>\<open>src/pkg/operator/starter.go\<close>, the constructor and the event handlers of
  \<^verbatim>\<open>target_config_reconciler.go\<close>, and \<^verbatim>\<open>src/pkg/namespace/namespace.go\<close>. Clients, informer factories and
  controllers are named by datatypes; what is built, registered and started is recorded in a log, in
  the order of the code.
\<close>

section \<open>Namespaces and handlers\<close>

text \<open>The surroundings of the process: the file with the namespace of the pod (\<^term>\<open>None\<close> if it cannot be
  read), two variables of the environment, the command line's \<^verbatim>\<open>--namespace\<close> (empty if not given), the
  clients that cannot be built and the informers that refuse a handler.\<close>

datatype client_kind = KubeClient | DynamicClient | DiscoveryClient | OperatorConfigClient
  | LwsOperatorConfigClient | JobsetOperatorConfigClient | RouteClient | CrdClient | CrdClientSet
  | ApiRegistrationClient | OpenshiftConfigClient | AggregatorClientSet

datatype factory = OperatorConfigInformers | NamespaceInformers string | CrdInformer
  | ApiRegistrationInformer | KubeInformer | ConfigInformer

type_synonym informer = "factory \<times> string"

record Process =
  pr_NamespaceFile :: "string option"
  pr_PodNamespace :: string
  pr_OperandImage :: string
  pr_NamespaceFlag :: string
  pr_ClientError :: "client_kind \<Rightarrow> err option"
  pr_HandlerError :: "informer \<Rightarrow> err option"

definition GetNamespace_env :: "Process \<Rightarrow> string" where
  "GetNamespace_env p = (case pr_NamespaceFile p of Some nsBytes \<Rightarrow> nsBytes
     | None \<Rightarrow> if pr_PodNamespace p \<noteq> [] then pr_PodNamespace p else ''openshift-kueue-operator'')"

text \<open>\<^verbatim>\<open>getComponentNamespace\<close> of library-go's command, which becomes \<^verbatim>\<open>cc.OperatorNamespace\<close>.\<close>
definition getComponentNamespace :: "Process \<Rightarrow> string" where
  "getComponentNamespace p = (if pr_NamespaceFlag p \<noteq> [] then pr_NamespaceFlag p
     else case pr_NamespaceFile p of Some nsBytes \<Rightarrow> nsBytes | None \<Rightarrow> ''openshift-config-managed'')"

record queueItem =
  qi_kind :: string
  qi_name :: string

datatype 'a informer_event = AddEvent 'a | UpdateEvent 'a 'a | DeleteEvent 'a

text \<open>\<^verbatim>\<open>eventHandler(item)\<close>.\<close>
definition eventHandler :: "queueItem \<Rightarrow> 'a informer_event \<Rightarrow> queueItem Typed \<Rightarrow> queueItem Typed" where
  "eventHandler item event q = wq_Add item q"

text \<open>The handler of the ConfigMap informer; \<^term>\<open>None\<close> is an object of another type, such as the marker
  of a deletion that was missed.\<close>
definition configMapHandler :: "ConfigMap option informer_event \<Rightarrow> queueItem Typed \<Rightarrow> queueItem Typed" where
  "configMapHandler event q =
     (let enqueue = (\<lambda>obj. case obj of None \<Rightarrow> q
        | Some cm \<Rightarrow> wq_Add \<lparr>qi_kind = ''configmap'', qi_name = om_Name (cm_ObjectMeta cm)\<rparr> q) in
      case event of AddEvent _ \<Rightarrow> q | UpdateEvent old _ \<Rightarrow> enqueue old | DeleteEvent obj \<Rightarrow> enqueue obj)"

section \<open>Stripping the status\<close>

text \<open>What Go's reflection sees of a value: a pointer, a struct with its fields and whether they are
  exported, or something else, with its zero value.\<close>
datatype go_value =
    GoPointer go_value
  | GoNil
  | GoStruct "(string \<times> bool \<times> go_value) list"
  | GoOther string string

fun zero_value :: "go_value \<Rightarrow> go_value" where
  "zero_value (GoPointer v) = GoNil"
| "zero_value GoNil = GoNil"
| "zero_value (GoStruct fs) = GoStruct (map (\<lambda>(n, exported, v). (n, exported, zero_value v)) fs)"
| "zero_value (GoOther zero v) = GoOther zero zero"

text \<open>Only an exported field of a struct that was reached through a pointer can be set.\<close>
fun stripStatusTransform :: "go_value \<Rightarrow> go_value" where
  "stripStatusTransform (GoPointer (GoStruct fs)) = GoPointer (GoStruct (map (\<lambda>(n, exported, v).
     (n, exported, if n = ''Status'' \<and> exported then zero_value v else v)) fs))"
| "stripStatusTransform v = v"

section \<open>The log\<close>

datatype startup_event =
    ClientBuilt client_kind
  | HandlerAdded informer
  | FactoryStarted factory
  | ControllerStarted string

record StartWorld =
  sw_World :: World
  sw_Log :: "startup_event list"

definition log_event :: "startup_event \<Rightarrow> (StartWorld, unit) go" where
  "log_event e = go_modify (\<lambda>s. s\<lparr>sw_Log := sw_Log s @ [e]\<rparr>)"

definition in_world :: "(World, 'a) go \<Rightarrow> (StartWorld, 'a) go" where
  "in_world m = (\<lambda>s. case m (sw_World s) of (r, w) \<Rightarrow> (r, s\<lparr>sw_World := w\<rparr>))"

definition AddEventHandler :: "Process \<Rightarrow> informer \<Rightarrow> (StartWorld, unit) go" where
  "AddEventHandler p i = (case pr_HandlerError p i of
     Some e \<Rightarrow> go_throw e | None \<Rightarrow> log_event (HandlerAdded i))"

text \<open>\<^verbatim>\<open>NewKubeInformersForNamespaces(kubeClient, "", cc.OperatorNamespace)\<close> has a factory for these two
  namespaces; for any other \<^verbatim>\<open>InformersFor\<close> returns nil, and the next call on it panics.\<close>
definition InformersFor :: "Process \<Rightarrow> string \<Rightarrow> (StartWorld, factory) go" where
  "InformersFor p ns = (if ns = [] \<or> ns = getComponentNamespace p then go_return (NamespaceInformers ns)
     else go_throw (Panic ''nil pointer dereference''))"

section \<open>The constructor\<close>

record TargetConfigReconciler =
  rc_operatorNamespace :: string
  rc_kueueImage :: string
  rc_serviceMonitorSupport :: bool
  rc_isOpenShift :: bool
  rc_queue :: "queueItem Typed"
  rc_informers :: "informer list"

definition informerList :: "factory \<Rightarrow> informer list" where
  "informerList ns =
     [(OperatorConfigInformers, ''kueues''),
      (ns, ''deployments''),
      (KubeInformer, ''clusterroles''),
      (KubeInformer, ''clusterrolebindings''),
      (KubeInformer, ''roles''),
      (KubeInformer, ''rolebindings''),
      (CrdInformer, ''customresourcedefinitions''),
      (ns, ''mutatingwebhookconfigurations''),
      (ns, ''validatingwebhookconfigurations''),
      (KubeInformer, ''prioritylevelconfigurations''),
      (ns, ''configmaps''),
      (ns, ''secrets''),
      (ns, ''services''),
      (ns, ''serviceaccounts''),
      (ns, ''networkpolicies''),
      (KubeInformer, ''flowschemas''),
      (ApiRegistrationInformer, ''apiservices'')]"

text \<open>The controller registers its own handler with every informer it is given.\<close>
definition ToController :: "informer list \<Rightarrow> (StartWorld, unit) go" where
  "ToController informers = go_foreach (\<lambda>i. log_event (HandlerAdded i)) informers"

definition NewTargetConfigReconciler :: "Env \<Rightarrow> Process \<Rightarrow> (StartWorld, TargetConfigReconciler) go" where
  "NewTargetConfigReconciler env p =
     (let operatorNamespace = GetNamespace_env p in
      go_seq (AddEventHandler p (OperatorConfigInformers, ''kueues''))
     (go_bind (InformersFor p operatorNamespace) (\<lambda>ns.
      go_seq (AddEventHandler p (ns, ''configmaps''))
     (go_bind (in_world (isResourceRegistered env ''monitoring.coreos.com/v1'' ''ServiceMonitor''))
       (\<lambda>serviceMonitorSupport.
      go_bind (in_world (detectOpenShift env)) (\<lambda>isOpenShift.
      let informers = informerList ns @ (if isOpenShift then [(ConfigInformer, ''apiservers'')] else []) in
      go_seq (go_when isOpenShift (log_event (FactoryStarted ConfigInformer)))
     (go_seq (ToController informers)
     (go_return \<lparr>rc_operatorNamespace = operatorNamespace, rc_kueueImage = pr_OperandImage p,
        rc_serviceMonitorSupport = serviceMonitorSupport, rc_isOpenShift = isOpenShift,
        rc_queue = newQueue, rc_informers = informers\<rparr>))))))))"

text \<open>The constructor's fields are what the reconciliation reads as constants of its environment.\<close>
definition reconciler_env :: "Env \<Rightarrow> TargetConfigReconciler \<Rightarrow> Env" where
  "reconciler_env env c = env\<lparr>e_OperatorNamespace := rc_operatorNamespace c,
     e_KueueImage := rc_kueueImage c, e_ServiceMonitorSupport := rc_serviceMonitorSupport c,
     e_IsOpenShift := rc_isOpenShift c\<rparr>"

section \<open>The operator\<close>

definition NewForConfig :: "Process \<Rightarrow> client_kind \<Rightarrow> (StartWorld, unit) go" where
  "NewForConfig p c = (case pr_ClientError p c of Some e \<Rightarrow> go_throw e | None \<Rightarrow> log_event (ClientBuilt c))"

definition NewForConfigOrDie :: "Process \<Rightarrow> client_kind \<Rightarrow> (StartWorld, unit) go" where
  "NewForConfigOrDie p c = (case pr_ClientError p c of
     Some e \<Rightarrow> go_throw (Panic ''NewForConfigOrDie'') | None \<Rightarrow> log_event (ClientBuilt c))"

definition operator_clients :: "client_kind list" where
  "operator_clients = [KubeClient, DynamicClient, DiscoveryClient, OperatorConfigClient,
     LwsOperatorConfigClient, JobsetOperatorConfigClient, RouteClient, CrdClient, CrdClientSet,
     ApiRegistrationClient, OpenshiftConfigClient]"

text \<open>\<^verbatim>\<open>RunOperator\<close> up to the point where it waits for its context; the factory of the namespace informers
  stands for those of both namespaces, which are started together.\<close>
definition RunOperator :: "Env \<Rightarrow> Process \<Rightarrow> (StartWorld, TargetConfigReconciler) go" where
  "RunOperator env p =
     go_seq (go_foreach (NewForConfig p) operator_clients)
    (go_seq (NewForConfigOrDie p AggregatorClientSet)
    (go_bind (NewTargetConfigReconciler env p) (\<lambda>targetConfigReconciler.
     go_seq (go_foreach (\<lambda>f. log_event (FactoryStarted f))
       [OperatorConfigInformers, NamespaceInformers [], NamespaceInformers (getComponentNamespace p),
        CrdInformer, ApiRegistrationInformer, KubeInformer])
    (go_seq (log_event (ControllerStarted ''LoggingSyncer''))
    (go_seq (log_event (ControllerStarted ''KueueOperator''))
    (go_return targetConfigReconciler))))))"

section \<open>What starts when\<close>

fun is_start :: "startup_event \<Rightarrow> bool" where
  "is_start (FactoryStarted f) = True"
| "is_start (ControllerStarted c) = True"
| "is_start _ = False"

definition quiet_log :: "StartWorld \<Rightarrow> bool" where
  "quiet_log s \<longleftrightarrow> list_all (\<lambda>e. \<not> is_start e) (sw_Log s)"

lemma log_event_run: "log_event e s = (Inr (), s\<lparr>sw_Log := sw_Log s @ [e]\<rparr>)"
  by (simp add: log_event_def go_modify_def)

lemma log_all_run:
  "go_foreach (\<lambda>x. log_event (g x)) xs s = (Inr (), s\<lparr>sw_Log := sw_Log s @ map g xs\<rparr>)"
  by (induction xs arbitrary: s) (auto simp: go_seq_def go_bind_def go_return_def log_event_run)

lemma in_world_log: "sw_Log (snd (in_world m s)) = sw_Log s"
  by (simp add: in_world_def split: prod.split)

lemma quiet_keep:
  "\<not> is_start e \<Longrightarrow> go_keeps quiet_log (log_event e)"
  "go_keeps quiet_log (in_world m)"
  "go_keeps quiet_log (NewForConfig p c)" "go_keeps quiet_log (NewForConfigOrDie p c)"
  "go_keeps quiet_log (AddEventHandler p i)" "go_keeps quiet_log (InformersFor p ns)"
  unfolding NewForConfig_def NewForConfigOrDie_def AddEventHandler_def InformersFor_def
  by (auto intro!: go_keepsI split: option.splits
      simp: log_event_run quiet_log_def go_throw_def go_return_def in_world_log)

text \<open>The part of the constructor that can fail.\<close>
definition construct :: "Env \<Rightarrow> Process \<Rightarrow> (StartWorld, factory \<times> bool \<times> bool) go" where
  "construct env p =
      go_seq (AddEventHandler p (OperatorConfigInformers, ''kueues''))
     (go_bind (InformersFor p (GetNamespace_env p)) (\<lambda>ns.
      go_seq (AddEventHandler p (ns, ''configmaps''))
     (go_bind (in_world (isResourceRegistered env ''monitoring.coreos.com/v1'' ''ServiceMonitor''))
       (\<lambda>support.
      go_bind (in_world (detectOpenShift env)) (\<lambda>isOpenShift. go_return (ns, support, isOpenShift))))))"

lemma construct_keeps: "go_keeps quiet_log (construct env p)"
  unfolding construct_def by (intro go_keep quiet_keep)

lemma construct_namespace:
  "construct env p s = (Inr (ns, support, ocp), s') \<Longrightarrow> ns = NamespaceInformers (GetNamespace_env p) \<and>
     GetNamespace_env p \<in> {[], getComponentNamespace p}"
  by (auto simp: construct_def go_seq_def go_bind_def InformersFor_def go_return_def go_throw_def
      split: prod.splits sum.splits if_splits)

lemma constructor_run:
  "NewTargetConfigReconciler env p s = (case construct env p s of
     (Inl e, s1) \<Rightarrow> (Inl e, s1)
   | (Inr (ns, support, ocp), s1) \<Rightarrow>
      let informers = informerList ns @ (if ocp then [(ConfigInformer, ''apiservers'')] else []) in
      (Inr \<lparr>rc_operatorNamespace = GetNamespace_env p, rc_kueueImage = pr_OperandImage p,
         rc_serviceMonitorSupport = support, rc_isOpenShift = ocp, rc_queue = newQueue,
         rc_informers = informers\<rparr>,
       s1\<lparr>sw_Log := sw_Log s1 @ (if ocp then [FactoryStarted ConfigInformer] else []) @
         map HandlerAdded informers\<rparr>))"
  by (auto simp: NewTargetConfigReconciler_def construct_def go_seq_def go_bind_def go_return_def
      ToController_def log_all_run log_event_run go_when_def Let_def split: prod.splits sum.splits)

text \<open>The factories and controllers that are started once everything has been built.\<close>
definition started :: "Process \<Rightarrow> startup_event list" where
  "started p = map FactoryStarted [OperatorConfigInformers, NamespaceInformers [],
      NamespaceInformers (getComponentNamespace p), CrdInformer, ApiRegistrationInformer, KubeInformer] @
     [ControllerStarted ''LoggingSyncer'', ControllerStarted ''KueueOperator'']"

lemma RunOperator_run:
  "RunOperator env p s = (case go_seq (go_foreach (NewForConfig p) operator_clients)
       (go_seq (NewForConfigOrDie p AggregatorClientSet) (NewTargetConfigReconciler env p)) s of
     (Inl e, s1) \<Rightarrow> (Inl e, s1)
   | (Inr c, s1) \<Rightarrow> (Inr c, s1\<lparr>sw_Log := sw_Log s1 @ started p\<rparr>))"
  by (simp add: RunOperator_def go_seq_def go_bind_def log_all_run log_event_run go_return_def started_def
      split: prod.splits sum.splits)

lemma clients_keep:
  "go_keeps quiet_log (go_seq (go_foreach (NewForConfig p) operator_clients)
     (NewForConfigOrDie p AggregatorClientSet))"
  by (intro go_keep quiet_keep)

text \<open>C25. The operator starts completely or not at all. If anything fails, no informer and no
  controller has been started. If it starts, all handlers have been registered before any factory
  of watched objects starts (the factory for the cluster's TLS configuration, on OpenShift, starts
  just before), the factory of every informer the controller waits for is started, and the two
  controllers come last. It only starts if the namespace it works in, read from the pod or the
  environment, is the one its informers were made for.\<close>
theorem startup_complete_or_nothing:
  assumes "quiet_log s" and "RunOperator env p s = (r, s')"
  shows "case r of
     Inl e \<Rightarrow> quiet_log s'
   | Inr c \<Rightarrow> (\<exists>before. list_all (\<lambda>e. \<not> is_start e) before \<and>
        sw_Log s' = before @ (if rc_isOpenShift c then [FactoryStarted ConfigInformer] else []) @
          map HandlerAdded (rc_informers c) @ started p) \<and>
      (\<forall>i \<in> set (rc_informers c). FactoryStarted (fst i) \<in> set (sw_Log s')) \<and>
      rc_operatorNamespace c \<in> {[], getComponentNamespace p}"
proof -
  let ?clients = "go_seq (go_foreach (NewForConfig p) operator_clients)
     (NewForConfigOrDie p AggregatorClientSet)"
  obtain r1 s1 where clients: "?clients s = (r1, s1)" by (meson surj_pair)
  have quiet1: "quiet_log s1" using go_keeps_snd[OF clients_keep assms(1)] clients by (metis snd_conv)
  have all: "RunOperator env p s = (case r1 of Inl e \<Rightarrow> (Inl e, s1) | Inr _ \<Rightarrow>
      (case NewTargetConfigReconciler env p s1 of
         (Inl e, s2) \<Rightarrow> (Inl e, s2)
       | (Inr c, s2) \<Rightarrow> (Inr c, s2\<lparr>sw_Log := sw_Log s2 @ started p\<rparr>)))"
    using clients by (auto simp: RunOperator_run go_seq_def go_bind_def split: prod.splits sum.splits)
  show ?thesis
  proof (cases r1)
    case (Inl e)
    then show ?thesis using all assms(2) quiet1 by auto
  next
    case (Inr u)
    obtain r2 s2 where con: "construct env p s1 = (r2, s2)" by (meson surj_pair)
    have quiet2: "quiet_log s2" using go_keeps_snd[OF construct_keeps quiet1] con by (metis snd_conv)
    show ?thesis
    proof (cases r2)
      case (Inl e)
      then show ?thesis using all Inr con assms(2) quiet2 by (auto simp: constructor_run)
    next
      case r2: (Inr x)
      obtain ns support ocp where x: "x = (ns, support, ocp)" by (metis prod_cases3)
      note ns = construct_namespace[OF con[unfolded r2 x]]
      show ?thesis
        using all Inr con r2 x assms(2) quiet2 ns
        by (auto simp: constructor_run Let_def quiet_log_def started_def informerList_def)
    qed
  qed
qed

text \<open>A process outside a cluster, without \<^verbatim>\<open>--namespace\<close>, and one in a pod.\<close>
definition outside_process :: Process where
  "outside_process = \<lparr>pr_NamespaceFile = None, pr_PodNamespace = [], pr_OperandImage = ''kueue'',
     pr_NamespaceFlag = [], pr_ClientError = \<lambda>_. None, pr_HandlerError = \<lambda>_. None\<rparr>"

definition pod_process :: Process where
  "pod_process = outside_process\<lparr>pr_NamespaceFile := Some ''kueue-system''\<rparr>"

definition no_monitoring :: Env where
  "no_monitoring = (calm_env empty_cluster)\<lparr>e_Discovery := \<lambda>_ _. Inl (NotFound, [])\<rparr>"

definition start_world :: StartWorld where
  "start_world = \<lparr>sw_World = initial_world empty_cluster, sw_Log = []\<rparr>"

lemma detect_first: "detect_loop env 6 = go_bind (go_try (discover env ''project.openshift.io/v1'')) (\<lambda>r. case r of
        Inr _ \<Rightarrow> go_return True
      | Inl err \<Rightarrow> if IsNotFound err then go_return False
          else go_seq (time_Sleep 5000000000) (detect_loop env 5))"
  using detect_loop.simps(2)[of env 5] by simp

theorem startup_complete_or_nothing_witness:
  "\<exists>c s'. RunOperator no_monitoring pod_process start_world = (Inr c, s') \<and>
     (\<forall>i \<in> set (rc_informers c). FactoryStarted (fst i) \<in> set (sw_Log s')) \<and>
     rc_operatorNamespace c = ''kueue-system''"
proof -
  obtain c s' where run: "RunOperator no_monitoring pod_process start_world = (Inr c, s')"
      "rc_operatorNamespace c = ''kueue-system''"
    by (simp add: RunOperator_run go_seq_def go_bind_def operator_clients_def NewForConfig_def
        NewForConfigOrDie_def log_event_run pod_process_def outside_process_def constructor_run construct_def
        AddEventHandler_def InformersFor_def GetNamespace_env_def getComponentNamespace_def go_return_def
        in_world_def isResourceRegistered_def detectOpenShift_def detect_first discover_def api_call_def
        go_try_def IsNotFound_def no_monitoring_def start_world_def before_call_def Let_def)
  have "quiet_log start_world" by (simp add: quiet_log_def start_world_def)
  from startup_complete_or_nothing[OF this run(1)] run show ?thesis by auto
qed

text \<open>The operator panics at start whenever the namespace it determines for itself is not the one
  the command determined, although every client could be built: the informers of its namespace do
  not exist. This is so outside a cluster unless \<^verbatim>\<open>--namespace\<close> or \<^verbatim>\<open>POD_NAMESPACE\<close> name the right
  namespace, since the two have different defaults.\<close>
theorem namespace_mismatch_panics:
  assumes "\<forall>c. pr_ClientError p c = None" and "\<forall>i. pr_HandlerError p i = None"
    and "GetNamespace_env p \<noteq> []" and "GetNamespace_env p \<noteq> getComponentNamespace p"
  shows "\<exists>e s'. RunOperator env p s = (Inl e, s') \<and> is_panic e"
proof -
  have clients: "NewForConfig p = (\<lambda>c. log_event (ClientBuilt c))"
      "NewForConfigOrDie p = (\<lambda>c. log_event (ClientBuilt c))"
    using assms(1) by (simp_all add: fun_eq_iff NewForConfig_def NewForConfigOrDie_def)
  have con: "\<exists>e s2. construct env p s1 = (Inl e, s2) \<and> is_panic e" for s1
    using assms(2-4)
    by (simp add: construct_def go_seq_def go_bind_def AddEventHandler_def log_event_run InformersFor_def
        go_throw_def)
  obtain s1 where "RunOperator env p s = (case NewTargetConfigReconciler env p s1 of
       (Inl e, s2) \<Rightarrow> (Inl e, s2)
     | (Inr c, s2) \<Rightarrow> (Inr c, s2\<lparr>sw_Log := sw_Log s2 @ started p\<rparr>))"
    by (simp add: RunOperator_run go_seq_def go_bind_def clients log_all_run log_event_run)
  then show ?thesis using con[of s1] by (auto simp: constructor_run)
qed

theorem namespace_mismatch_panics_witness:
  "\<exists>e s'. RunOperator no_monitoring outside_process start_world = (Inl e, s') \<and> is_panic e"
  by (rule namespace_mismatch_panics)
    (simp_all add: outside_process_def GetNamespace_env_def getComponentNamespace_def)

section \<open>Handlers and transforms\<close>

text \<open>The reconciler's own queue is only ever added to: nothing takes items from it, so that its
  handlers have no effect on the reconciliation, which is driven by the controller's queue.\<close>
lemma handlers_only_add:
  "set (q_queue q) \<subseteq> set (q_queue (eventHandler item event q))"
  "set (q_queue q) \<subseteq> set (q_queue (configMapHandler event' q))"
  by (auto simp: eventHandler_def configMapHandler_def wq_Add_def Let_def
      split: informer_event.splits option.splits)

lemma zero_value_idem [simp]: "zero_value (zero_value v) = zero_value v"
  by (induction v) (auto simp: comp_def)

text \<open>The transform is idempotent, and two objects that differ only in their status look the same after
  it, so that an update of the status alone does not look like a change.\<close>
lemma stripStatusTransform_idem: "stripStatusTransform (stripStatusTransform v) = stripStatusTransform v"
  by (cases v rule: stripStatusTransform.cases) (auto simp: comp_def case_prod_beta)

lemma stripStatusTransform_status:
  assumes "zero_value v = zero_value v'"
  shows "stripStatusTransform (GoPointer (GoStruct (fs @ (''Status'', True, v) # gs))) =
    stripStatusTransform (GoPointer (GoStruct (fs @ (''Status'', True, v') # gs)))"
  using assms by simp

end
