(* ===== verification/Api_Scheme.thy ===== *)
theory Api_Scheme
  imports Go_Monad
begin

text \<open>
  Registration of the API types (\<^verbatim>\<open>src/pkg/apis/kueueoperator/v1/register.go\<close>, the \<^verbatim>\<open>register.go\<close> of the
  clientset and of its fake) on the scheme of \<^verbatim>\<open>k8s.io/apimachinery/pkg/runtime\<close>, which is vendored. A Go
  type is its package and its name, a kind is group, version and name. Conversion and defaulting
  functions are not part of the model: registering them neither fails nor changes which kinds are known.

  \<^verbatim>\<open>SchemeBuilder\<close> holds \<^verbatim>\<open>addKnownTypes\<close> twice, because the package also registers it in \<^verbatim>\<open>init\<close>, so the
  registration has to be idempotent; \<open>adds m P\<close> says that an action establishes \<open>P\<close>, loses nothing that
  was known and does nothing where \<open>P\<close> holds already.
\<close>

section \<open>Schemes\<close>

type_synonym group_version = "string \<times> string"
type_synonym group_version_kind = "string \<times> string \<times> string"
type_synonym go_type = "string \<times> string"

abbreviation type_Name :: "go_type \<Rightarrow> string" where "type_Name \<equiv> snd"

record Scheme =
  sc_gvkToType :: "group_version_kind \<rightharpoonup> go_type"
  sc_typeToGVK :: "go_type \<Rightarrow> group_version_kind list"
  sc_unversionedTypes :: "go_type \<rightharpoonup> group_version_kind"
  sc_unversionedKinds :: "string \<rightharpoonup> go_type"
  sc_observedVersions :: "group_version list"

definition NewScheme :: Scheme where
  "NewScheme = \<lparr>sc_gvkToType = Map.empty, sc_typeToGVK = (\<lambda>_. []), sc_unversionedTypes = Map.empty,
     sc_unversionedKinds = Map.empty, sc_observedVersions = []\<rparr>"

abbreviation APIVersionInternal :: string where "APIVersionInternal \<equiv> ''__internal''"

definition WithKind_gvk :: "group_version \<Rightarrow> string \<Rightarrow> group_version_kind" where
  "WithKind_gvk gv kind = (fst gv, snd gv, kind)"

definition GroupVersion_of :: "group_version_kind \<Rightarrow> group_version" where
  "GroupVersion_of gvk = (fst gvk, fst (snd gvk))"

definition addObservedVersion :: "group_version \<Rightarrow> (Scheme, unit) go" where
  "addObservedVersion version = go_modify (\<lambda>s.
     if snd version = [] \<or> snd version = APIVersionInternal \<or> version \<in> set (sc_observedVersions s) then s
     else s\<lparr>sc_observedVersions := sc_observedVersions s @ [version]\<rparr>)"

text \<open>The types of the operator are pointers to structs.\<close>
definition AddKnownTypeWithName :: "group_version_kind \<Rightarrow> go_type \<Rightarrow> (Scheme, unit) go" where
  "AddKnownTypeWithName gvk t =
     go_seq (addObservedVersion (GroupVersion_of gvk))
    (if fst (snd gvk) = [] then go_throw (Panic ''version is required on all types'')
     else go_bind (go_read (\<lambda>s. sc_gvkToType s gvk)) (\<lambda>oldT.
       if oldT \<noteq> None \<and> oldT \<noteq> Some t then go_throw (Panic ''Double registration of different types'')
       else go_modify (\<lambda>s.
         let s = s\<lparr>sc_gvkToType := (sc_gvkToType s)(gvk \<mapsto> t)\<rparr>
         in if gvk \<in> set (sc_typeToGVK s t) then s
            else s\<lparr>sc_typeToGVK := (sc_typeToGVK s)(t := sc_typeToGVK s t @ [gvk])\<rparr>)))"

definition AddKnownTypes :: "group_version \<Rightarrow> go_type list \<Rightarrow> (Scheme, unit) go" where
  "AddKnownTypes gv types =
     go_seq (addObservedVersion gv)
       (go_foreach (\<lambda>t. AddKnownTypeWithName (WithKind_gvk gv (type_Name t)) t) types)"

definition add_unversioned :: "group_version \<Rightarrow> go_type \<Rightarrow> (Scheme, unit) go" where
  "add_unversioned version t =
     go_seq (go_modify (\<lambda>s. s\<lparr>sc_unversionedTypes :=
         (sc_unversionedTypes s)(t \<mapsto> WithKind_gvk version (type_Name t))\<rparr>))
    (go_bind (go_read (\<lambda>s. sc_unversionedKinds s (type_Name t))) (\<lambda>old.
     if old \<noteq> None \<and> old \<noteq> Some t then go_throw (Panic ''kind name must be unique in scheme'')
     else go_modify (\<lambda>s. s\<lparr>sc_unversionedKinds := (sc_unversionedKinds s)(type_Name t \<mapsto> t)\<rparr>)))"

definition AddUnversionedTypes :: "group_version \<Rightarrow> go_type list \<Rightarrow> (Scheme, unit) go" where
  "AddUnversionedTypes version types =
     go_seq (addObservedVersion version)
    (go_seq (AddKnownTypes version types) (go_foreach (add_unversioned version) types))"

text \<open>\<^verbatim>\<open>Scheme.New\<close>: the type of a kind.\<close>
definition scheme_New :: "Scheme \<Rightarrow> group_version_kind \<Rightarrow> err + go_type" where
  "scheme_New s kind = (case sc_gvkToType s kind of Some t \<Rightarrow> Inr t
     | None \<Rightarrow> (case sc_unversionedKinds s (snd (snd kind)) of Some t \<Rightarrow> Inr t
       | None \<Rightarrow> Inl (Errorf ''no kind is registered'')))"

text \<open>\<^verbatim>\<open>Scheme.ObjectKinds\<close> of a typed object: its kinds, and whether it is unversioned.\<close>
definition ObjectKinds :: "Scheme \<Rightarrow> go_type \<Rightarrow> err + group_version_kind list \<times> bool" where
  "ObjectKinds s t = (if sc_typeToGVK s t = [] then Inl (Errorf ''no kind is registered for the type'')
     else Inr (sc_typeToGVK s t, sc_unversionedTypes s t \<noteq> None))"

section \<open>The types of every group\<close>

definition meta_type :: "string \<Rightarrow> go_type" where
  "meta_type name = (''k8s.io/apimachinery/pkg/apis/meta/v1'', name)"

definition optionsTypes :: "go_type list" where
  "optionsTypes = map meta_type [''ListOptions'', ''GetOptions'', ''DeleteOptions'', ''CreateOptions'',
     ''UpdateOptions'', ''PatchOptions'']"

abbreviation Unversioned :: group_version where "Unversioned \<equiv> ('''', ''v1'')"

definition AddToGroupVersion :: "group_version \<Rightarrow> (Scheme, unit) go" where
  "AddToGroupVersion gv =
     go_seq (AddKnownTypeWithName (WithKind_gvk gv ''WatchEvent'') (meta_type ''WatchEvent''))
    (go_seq (AddKnownTypeWithName (WithKind_gvk (fst gv, APIVersionInternal) ''WatchEvent'')
        (meta_type ''InternalEvent''))
    (go_seq (AddKnownTypes gv optionsTypes)
      (AddUnversionedTypes Unversioned (map meta_type [''Status'', ''APIVersions'', ''APIGroupList'',
         ''APIGroup'', ''APIResourceList'']))))"

section \<open>The types of the operator\<close>

definition SchemeGroupVersion :: group_version where
  "SchemeGroupVersion = (''kueue.openshift.io'', ''v1'')"

text \<open>\<^verbatim>\<open>Resource\<close>: the group and the name.\<close>
definition Resource :: "string \<Rightarrow> string \<times> string" where
  "Resource resource = (fst SchemeGroupVersion, resource)"

definition api_type :: "string \<Rightarrow> go_type" where
  "api_type name = (''github.com/openshift/kueue-operator/pkg/apis/kueueoperator/v1'', name)"

definition addKnownTypes :: "(Scheme, unit) go" where
  "addKnownTypes =
     go_seq (AddKnownTypes SchemeGroupVersion [api_type ''Kueue'', api_type ''KueueList''])
       (AddToGroupVersion SchemeGroupVersion)"

type_synonym SchemeBuilder = "(Scheme, unit) go list"

text \<open>\<^verbatim>\<open>SchemeBuilder.AddToScheme\<close>.\<close>
definition builder_AddToScheme :: "SchemeBuilder \<Rightarrow> (Scheme, unit) go" where
  "builder_AddToScheme sb = go_foreach (\<lambda>f. f) sb"

text \<open>The variable \<^verbatim>\<open>SchemeBuilder\<close> of the package after its \<^verbatim>\<open>init\<close>.\<close>
definition v1_SchemeBuilder :: SchemeBuilder where
  "v1_SchemeBuilder = [addKnownTypes] @ [addKnownTypes]"

definition v1_AddToScheme :: "(Scheme, unit) go" where
  "v1_AddToScheme = builder_AddToScheme v1_SchemeBuilder"

text \<open>\<^verbatim>\<open>RegisterDefaults\<close> of the package: there are none.\<close>
definition v1_RegisterDefaults :: "(Scheme, unit) go" where
  "v1_RegisterDefaults = go_return ()"

text \<open>\<^verbatim>\<open>utilruntime.Must\<close>.\<close>
definition Must :: "('s, unit) go \<Rightarrow> ('s, unit) go" where
  "Must m = (\<lambda>s. case m s of (Inl e, s') \<Rightarrow> (Inl (Panic ''Must''), s') | (Inr x, s') \<Rightarrow> (Inr x, s'))"

definition clientset_AddToScheme :: "(Scheme, unit) go" where
  "clientset_AddToScheme = builder_AddToScheme [v1_AddToScheme]"

text \<open>\<^verbatim>\<open>init\<close> of the clientset's scheme, and of the fake clientset's.\<close>
definition scheme_init :: "(Scheme, unit) go" where
  "scheme_init = go_seq (AddToGroupVersion ('''', ''v1'')) (Must clientset_AddToScheme)"

section \<open>Idempotence\<close>

declare split_paired_All [simp del] split_paired_Ex [simp del]

definition observed :: "group_version \<Rightarrow> Scheme \<Rightarrow> bool" where
  "observed v s \<longleftrightarrow> snd v = [] \<or> snd v = APIVersionInternal \<or> v \<in> set (sc_observedVersions s)"

definition unversioned_gvk :: "go_type \<Rightarrow> group_version_kind" where
  "unversioned_gvk t = WithKind_gvk Unversioned (type_Name t)"

text \<open>Nothing that was known is lost.\<close>
definition scheme_le :: "Scheme \<Rightarrow> Scheme \<Rightarrow> bool" where
  "scheme_le s s' \<longleftrightarrow> sc_gvkToType s \<subseteq>\<^sub>m sc_gvkToType s' \<and>
     (\<forall>t. set (sc_typeToGVK s t) \<subseteq> set (sc_typeToGVK s' t)) \<and>
     (\<forall>t. sc_unversionedTypes s t = Some (unversioned_gvk t) \<longrightarrow>
       sc_unversionedTypes s' t = Some (unversioned_gvk t)) \<and>
     sc_unversionedKinds s \<subseteq>\<^sub>m sc_unversionedKinds s' \<and>
     set (sc_observedVersions s) \<subseteq> set (sc_observedVersions s')"

lemma scheme_le_refl [simp]: "scheme_le s s"
  by (simp add: scheme_le_def)

lemma scheme_le_trans: "scheme_le s s' \<Longrightarrow> scheme_le s' s'' \<Longrightarrow> scheme_le s s''"
  unfolding scheme_le_def by (meson map_le_trans subset_trans)

lemma scheme_leI:
  assumes "\<And>k t. sc_gvkToType s k = Some t \<Longrightarrow> sc_gvkToType s' k = Some t"
    and "\<And>k t. k \<in> set (sc_typeToGVK s t) \<Longrightarrow> k \<in> set (sc_typeToGVK s' t)"
    and "\<And>t. sc_unversionedTypes s t = Some (unversioned_gvk t) \<Longrightarrow> sc_unversionedTypes s' t = Some (unversioned_gvk t)"
    and "\<And>k t. sc_unversionedKinds s k = Some t \<Longrightarrow> sc_unversionedKinds s' k = Some t"
    and "\<And>v. v \<in> set (sc_observedVersions s) \<Longrightarrow> v \<in> set (sc_observedVersions s')"
  shows "scheme_le s s'"
  unfolding scheme_le_def map_le_def
proof (intro conjI ballI allI impI subsetI)
  fix k
  assume "k \<in> dom (sc_gvkToType s)"
  then show "sc_gvkToType s k = sc_gvkToType s' k" using assms(1) by fastforce
next
  fix k
  assume "k \<in> dom (sc_unversionedKinds s)"
  then show "sc_unversionedKinds s k = sc_unversionedKinds s' k" using assms(4) by fastforce
qed (use assms(2,3,5) in blast)+

lemma scheme_leD:
  assumes "scheme_le s s'"
  shows "sc_gvkToType s k = Some t \<Longrightarrow> sc_gvkToType s' k = Some t"
    and "k \<in> set (sc_typeToGVK s t) \<Longrightarrow> k \<in> set (sc_typeToGVK s' t)"
    and "sc_unversionedTypes s t = Some (unversioned_gvk t) \<Longrightarrow> sc_unversionedTypes s' t = Some (unversioned_gvk t)"
    and "sc_unversionedKinds s n = Some t \<Longrightarrow> sc_unversionedKinds s' n = Some t"
    and "v \<in> set (sc_observedVersions s) \<Longrightarrow> v \<in> set (sc_observedVersions s')"
  using assms unfolding scheme_le_def map_le_def by (metis domI subsetD)+

definition adds :: "(Scheme, unit) go \<Rightarrow> (Scheme \<Rightarrow> bool) \<Rightarrow> bool" where
  "adds m P \<longleftrightarrow> (\<forall>s s'. m s = (Inr (), s') \<longrightarrow> P s' \<and> scheme_le s s') \<and>
     (\<forall>s. P s \<longrightarrow> m s = (Inr (), s)) \<and>
     (\<forall>s s'. P s \<longrightarrow> scheme_le s s' \<longrightarrow> P s')"

named_theorems adds_rules \<open>what the actions on a scheme establish\<close>

lemma adds_return [adds_rules]: "adds (go_return ()) (\<lambda>_. True)"
  by (simp add: adds_def go_defs)

lemma addsI:
  assumes "\<And>s s'. m s = (Inr (), s') \<Longrightarrow> P s'" and "\<And>s s'. m s = (Inr (), s') \<Longrightarrow> scheme_le s s'"
    and "\<And>s. P s \<Longrightarrow> m s = (Inr (), s)" and "\<And>s s'. P s \<Longrightarrow> scheme_le s s' \<Longrightarrow> P s'"
  shows "adds m P"
  unfolding adds_def using assms by blast

lemma addsD:
  assumes "adds m P"
  shows "m s = (Inr (), s') \<Longrightarrow> P s'" and "m s = (Inr (), s') \<Longrightarrow> scheme_le s s'"
    and "P s \<Longrightarrow> m s = (Inr (), s)" and "P s \<Longrightarrow> scheme_le s s' \<Longrightarrow> P s'"
  using assms unfolding adds_def by blast+

lemma go_seq_InrE:
  assumes "go_seq m n s = (Inr x, s'')"
  obtains y s' where "m s = (Inr y, s')" "n s' = (Inr x, s'')"
  using assms by (auto simp: go_defs split: prod.splits sum.splits)

lemma adds_seq [adds_rules]:
  assumes m: "adds m P" and n: "adds n Q"
  shows "adds (go_seq m n) (\<lambda>s. P s \<and> Q s)"
proof (rule addsI)
  fix s s''
  assume "go_seq m n s = (Inr (), s'')"
  then obtain s' where m': "m s = (Inr (), s')" and n': "n s' = (Inr (), s'')"
    by (elim go_seq_InrE) auto
  show "P s'' \<and> Q s''"
    using addsD(1)[OF m m'] addsD(1,2)[OF n n'] addsD(4)[OF m] by blast
  show "scheme_le s s''"
    by (rule scheme_le_trans[OF addsD(2)[OF m m'] addsD(2)[OF n n']])
next
  fix s
  assume "P s \<and> Q s"
  then show "go_seq m n s = (Inr (), s)" using addsD(3)[OF m, of s] addsD(3)[OF n, of s] by (simp add: go_defs)
next
  fix s s'
  assume "P s \<and> Q s" and "scheme_le s s'"
  then show "P s' \<and> Q s'" using addsD(4)[OF m] addsD(4)[OF n] by blast
qed

lemma adds_foreach [adds_rules]:
  assumes "\<And>x. adds (f x) (P x)"
  shows "adds (go_foreach f xs) (\<lambda>s. \<forall>x \<in> set xs. P x s)"
proof (induction xs)
  case Nil
  then show ?case using adds_return by simp
next
  case (Cons x xs)
  show ?case using adds_seq[OF assms[of x] Cons.IH] by simp
qed

lemma adds_observed [adds_rules]: "adds (addObservedVersion v) (observed v)"
  by (rule addsI) (auto simp: addObservedVersion_def observed_def go_defs scheme_leD intro!: scheme_leI)

definition known :: "group_version_kind \<Rightarrow> go_type \<Rightarrow> Scheme \<Rightarrow> bool" where
  "known gvk t s \<longleftrightarrow> fst (snd gvk) \<noteq> [] \<and> sc_gvkToType s gvk = Some t \<and> gvk \<in> set (sc_typeToGVK s t)"

lemma adds_register:
  "adds (if fst (snd gvk) = [] then go_throw e
     else go_bind (go_read (\<lambda>s. sc_gvkToType s gvk)) (\<lambda>oldT.
       if oldT \<noteq> None \<and> oldT \<noteq> Some t then go_throw e'
       else go_modify (\<lambda>s.
         let s = s\<lparr>sc_gvkToType := (sc_gvkToType s)(gvk \<mapsto> t)\<rparr>
         in if gvk \<in> set (sc_typeToGVK s t) then s
            else s\<lparr>sc_typeToGVK := (sc_typeToGVK s)(t := sc_typeToGVK s t @ [gvk])\<rparr>))) (known gvk t)"
proof (rule addsI, goal_cases)
  case (1 s s')
  then show ?case by (auto simp: known_def go_defs Let_def split: if_splits)
next
  case (2 s s')
  then show ?case by (intro scheme_leI) (auto simp: go_defs Let_def split: if_splits)
next
  case (3 s)
  then show ?case by (simp add: known_def go_defs Let_def fun_upd_idem)
next
  case (4 s s')
  then show ?case by (simp add: known_def scheme_leD)
qed

lemma adds_known [adds_rules]:
  "adds (AddKnownTypeWithName gvk t) (\<lambda>s. observed (GroupVersion_of gvk) s \<and> known gvk t s)"
  unfolding AddKnownTypeWithName_def by (rule adds_seq[OF adds_observed adds_register])

lemma adds_unversioned [adds_rules]:
  "adds (add_unversioned Unversioned t)
     (\<lambda>s. sc_unversionedTypes s t = Some (unversioned_gvk t) \<and> sc_unversionedKinds s (type_Name t) = Some t)"
proof (rule addsI, goal_cases)
  case (1 s s')
  then show ?case by (auto simp: add_unversioned_def unversioned_gvk_def go_defs split: if_splits)
next
  case (2 s s')
  then show ?case
    by (intro scheme_leI) (auto simp: add_unversioned_def unversioned_gvk_def go_defs split: if_splits)
next
  case (3 s)
  then show ?case by (simp add: add_unversioned_def unversioned_gvk_def[symmetric] go_defs fun_upd_idem)
next
  case (4 s s')
  then show ?case by (simp add: scheme_leD)
qed

lemmas scheme_actions = v1_AddToScheme_def builder_AddToScheme_def v1_SchemeBuilder_def addKnownTypes_def
  AddToGroupVersion_def AddKnownTypes_def AddUnversionedTypes_def

lemma adds_AddToScheme: "\<exists>P. adds v1_AddToScheme P \<and> (\<forall>s. P s \<longrightarrow>
    known (WithKind_gvk SchemeGroupVersion ''Kueue'') (api_type ''Kueue'') s \<and>
    known (WithKind_gvk SchemeGroupVersion ''KueueList'') (api_type ''KueueList'') s)"
  unfolding scheme_actions append.simps go_foreach.simps
  by (intro exI conjI) (rule adds_rules | simp add: api_type_def)+

section \<open>Kinds and types agree\<close>

definition scheme_inv :: "Scheme \<Rightarrow> bool" where
  "scheme_inv s \<longleftrightarrow> (\<forall>gvk t. gvk \<in> set (sc_typeToGVK s t) \<longleftrightarrow> sc_gvkToType s gvk = Some t) \<and>
     (\<forall>t. distinct (sc_typeToGVK s t))"

lemma scheme_inv_observed [go_keep]: "go_keeps scheme_inv (addObservedVersion v)"
  by (auto simp: go_triple_def addObservedVersion_def scheme_inv_def go_defs)

lemma scheme_inv_unversioned [go_keep]: "go_keeps scheme_inv (add_unversioned v t)"
  by (auto simp: go_triple_def add_unversioned_def scheme_inv_def go_defs)

lemma scheme_inv_register:
  assumes inv: "scheme_inv s" and free: "sc_gvkToType s gvk = None \<or> sc_gvkToType s gvk = Some t"
  shows "scheme_inv (let s = s\<lparr>sc_gvkToType := (sc_gvkToType s)(gvk \<mapsto> t)\<rparr>
         in if gvk \<in> set (sc_typeToGVK s t) then s
            else s\<lparr>sc_typeToGVK := (sc_typeToGVK s)(t := sc_typeToGVK s t @ [gvk])\<rparr>)"
proof (cases "gvk \<in> set (sc_typeToGVK s t)")
  case True
  with inv have "sc_gvkToType s gvk = Some t" unfolding scheme_inv_def by blast
  with inv True show ?thesis by (simp add: fun_upd_idem)
next
  case False
  with inv free have new: "sc_gvkToType s gvk = None" unfolding scheme_inv_def by blast
  with inv have "gvk \<notin> set (sc_typeToGVK s t')" for t' by (simp add: scheme_inv_def)
  with inv False new show ?thesis by (simp add: scheme_inv_def)
qed

lemma scheme_inv_known [go_keep]: "go_keeps scheme_inv (AddKnownTypeWithName gvk t)"
proof -
  let ?add = "\<lambda>s. let s = s\<lparr>sc_gvkToType := (sc_gvkToType s)(gvk \<mapsto> t)\<rparr>
         in if gvk \<in> set (sc_typeToGVK s t) then s
            else s\<lparr>sc_typeToGVK := (sc_typeToGVK s)(t := sc_typeToGVK s t @ [gvk])\<rparr>"
  have "go_keeps scheme_inv (go_bind (go_read (\<lambda>s. sc_gvkToType s gvk)) (\<lambda>oldT.
      if oldT \<noteq> None \<and> oldT \<noteq> Some t then go_throw e else go_modify ?add))" for e
  proof (rule go_keepsI)
    fix s
    assume inv: "scheme_inv s"
    show "scheme_inv (snd (go_bind (go_read (\<lambda>s. sc_gvkToType s gvk)) (\<lambda>oldT.
      if oldT \<noteq> None \<and> oldT \<noteq> Some t then go_throw e else go_modify ?add) s))"
    proof (cases "sc_gvkToType s gvk = None \<or> sc_gvkToType s gvk = Some t")
      case True
      then have "snd (go_bind (go_read (\<lambda>s. sc_gvkToType s gvk)) (\<lambda>oldT.
          if oldT \<noteq> None \<and> oldT \<noteq> Some t then go_throw e else go_modify ?add) s) = ?add s"
        unfolding go_defs by auto
      then show ?thesis using scheme_inv_register[OF inv True] by simp
    qed (use inv in \<open>auto simp: go_defs\<close>)
  qed
  then show ?thesis
    unfolding AddKnownTypeWithName_def by (intro go_seq_keeps scheme_inv_observed go_if_keeps go_throw_keeps)
qed

lemma scheme_inv_AddToScheme: "go_keeps scheme_inv v1_AddToScheme"
  unfolding scheme_actions append.simps go_foreach.simps by (intro go_keep)

section \<open>Registration succeeds\<close>

text \<open>The types the registration wants for its kinds.\<close>
definition wanted :: "group_version_kind \<rightharpoonup> go_type" where
  "wanted gvk = (case gvk of (g, v, k) \<Rightarrow>
     if (g, v) = SchemeGroupVersion \<and> k \<in> {''Kueue'', ''KueueList''} then Some (api_type k)
     else if v = APIVersionInternal \<and> k = ''WatchEvent'' then Some (meta_type ''InternalEvent'')
     else if k \<in> set (''WatchEvent'' # map type_Name optionsTypes @
       [''Status'', ''APIVersions'', ''APIGroupList'', ''APIGroup'', ''APIResourceList'']) then Some (meta_type k)
     else None)"

text \<open>None of these kinds belongs to another type.\<close>
definition compatible :: "Scheme \<Rightarrow> bool" where
  "compatible s \<longleftrightarrow> (\<forall>gvk t. wanted gvk = Some t \<longrightarrow> sc_gvkToType s gvk \<in> {None, Some t}) \<and>
     (\<forall>n. sc_unversionedKinds s n \<in> {None, Some (meta_type n)})"

definition succeeds :: "(Scheme, unit) go \<Rightarrow> bool" where
  "succeeds m \<longleftrightarrow> (\<forall>s. compatible s \<longrightarrow> fst (m s) = Inr () \<and> compatible (snd (m s)))"

named_theorems succeeds_rules \<open>actions that succeed on a compatible scheme\<close>

lemma succeeds_return [succeeds_rules]: "succeeds (go_return ())"
  by (simp add: succeeds_def go_defs)

lemma succeeds_seq [succeeds_rules]: "succeeds m \<Longrightarrow> succeeds n \<Longrightarrow> succeeds (go_seq m n)"
  by (auto simp: succeeds_def go_defs split: prod.splits sum.splits)

lemma succeeds_observed [succeeds_rules]: "succeeds (addObservedVersion v)"
  by (simp add: succeeds_def addObservedVersion_def compatible_def go_defs)

lemma succeeds_known [succeeds_rules]:
  assumes "wanted gvk = Some t" and "fst (snd gvk) \<noteq> []"
  shows "succeeds (AddKnownTypeWithName gvk t)"
  unfolding AddKnownTypeWithName_def
proof (rule succeeds_seq[OF succeeds_observed])
  show "succeeds (if fst (snd gvk) = [] then go_throw (Panic ''version is required on all types'')
     else go_bind (go_read (\<lambda>s. sc_gvkToType s gvk)) (\<lambda>oldT.
       if oldT \<noteq> None \<and> oldT \<noteq> Some t then go_throw (Panic ''Double registration of different types'')
       else go_modify (\<lambda>s.
         let s = s\<lparr>sc_gvkToType := (sc_gvkToType s)(gvk \<mapsto> t)\<rparr>
         in if gvk \<in> set (sc_typeToGVK s t) then s
            else s\<lparr>sc_typeToGVK := (sc_typeToGVK s)(t := sc_typeToGVK s t @ [gvk])\<rparr>)))"
    using assms by (auto simp: succeeds_def compatible_def go_defs Let_def)
qed

lemma succeeds_unversioned [succeeds_rules]: "succeeds (add_unversioned v (meta_type n))"
  by (auto simp: succeeds_def compatible_def add_unversioned_def meta_type_def go_defs)

lemmas wanted_defs = wanted_def WithKind_gvk_def SchemeGroupVersion_def optionsTypes_def meta_type_def api_type_def

lemma succeeds_AddToGroupVersion [succeeds_rules]:
  "snd gv \<noteq> [] \<Longrightarrow> snd gv \<noteq> APIVersionInternal \<Longrightarrow> succeeds (AddToGroupVersion gv)"
  unfolding AddToGroupVersion_def AddKnownTypes_def AddUnversionedTypes_def optionsTypes_def
    list.map go_foreach.simps
  by (intro succeeds_rules) (auto simp: wanted_defs)

lemma succeeds_AddToScheme: "succeeds v1_AddToScheme"
  unfolding v1_AddToScheme_def builder_AddToScheme_def v1_SchemeBuilder_def addKnownTypes_def AddKnownTypes_def
    append.simps go_foreach.simps
  by (intro succeeds_rules) (auto simp: wanted_defs)

lemma compatible_NewScheme: "compatible NewScheme"
  by (simp add: compatible_def NewScheme_def)

text \<open>The schemes of the clientset and of its fake are built when the program starts.\<close>
lemma scheme_init_succeeds: "fst (scheme_init NewScheme) = Inr ()"
proof -
  have must: "succeeds (Must m)" if "succeeds m" for m
    using that by (auto simp: succeeds_def Must_def split: prod.splits sum.splits)
  have "succeeds scheme_init"
    unfolding scheme_init_def clientset_AddToScheme_def builder_AddToScheme_def go_foreach.simps
    by (intro must succeeds_rules succeeds_AddToScheme) auto
  then show ?thesis using compatible_NewScheme by (simp add: succeeds_def)
qed

text \<open>Registering the operator's types succeeds on every scheme in which no other type has one of the
  kinds, and registering them again changes nothing, as the package does when its \<^verbatim>\<open>init\<close> adds
  \<^verbatim>\<open>addKnownTypes\<close> to a builder that has it already and as every further clientset does that shares the
  scheme. Afterwards both types are created for their kinds, and if types and kinds agreed before, so
  that a type has a kind exactly when the scheme creates the type for it, they still do.\<close>
theorem registration_idempotent:
  assumes "compatible s"
  obtains s1 where "v1_AddToScheme s = (Inr (), s1)" and "v1_AddToScheme s1 = (Inr (), s1)"
    and "scheme_New s1 (''kueue.openshift.io'', ''v1'', ''Kueue'') = Inr (api_type ''Kueue'')"
    and "scheme_New s1 (''kueue.openshift.io'', ''v1'', ''KueueList'') = Inr (api_type ''KueueList'')"
    and "scheme_inv s \<longrightarrow> scheme_inv s1"
proof -
  obtain P where P: "adds v1_AddToScheme P" "\<And>s. P s \<Longrightarrow>
      known (WithKind_gvk SchemeGroupVersion ''Kueue'') (api_type ''Kueue'') s \<and>
      known (WithKind_gvk SchemeGroupVersion ''KueueList'') (api_type ''KueueList'') s"
    using adds_AddToScheme by blast
  obtain s1 where run: "v1_AddToScheme s = (Inr (), s1)"
    using succeeds_AddToScheme assms by (metis prod.collapse succeeds_def)
  have "P s1" by (rule addsD(1)[OF P(1) run])
  then show ?thesis
    using P(2)[of s1] addsD(3)[OF P(1)] go_triple_Inr[OF scheme_inv_AddToScheme _ run]
    by (intro that[OF run])
      (auto simp: known_def scheme_New_def WithKind_gvk_def SchemeGroupVersion_def)
qed

theorem registration_idempotent_witness:
  "\<exists>s1. v1_AddToScheme NewScheme = (Inr (), s1) \<and> v1_AddToScheme s1 = (Inr (), s1) \<and> scheme_inv s1"
proof -
  have "scheme_inv NewScheme" by (simp add: scheme_inv_def NewScheme_def)
  then show ?thesis by (metis registration_idempotent[OF compatible_NewScheme])
qed

end
