(* ===== verification/Informer_Factory.thy ===== *)
theory Informer_Factory
  imports Startup Api_Scheme
begin

text \<open>
  The generated informer factory (\<^verbatim>\<open>src/pkg/generated/informers/externalversions\<close>): start-up, the
  reconciler and the operator's client each ask it for the informer of the Kueue resource and must
  get the same one, which is started once. An informer is known by a number, which is new for every
  informer that is built; the mutex of the factory makes each method one step.
\<close>

section \<open>Informers\<close>

text \<open>The kind of an object, its \<^verbatim>\<open>reflect.Type\<close>, is a string; options of a list request are opaque.\<close>
record SharedIndexInformer =
  si_Id :: nat
  si_Object :: string
  si_Client :: client_kind
  si_ResyncPeriod :: int
  si_Indexers :: "string list"
  si_Identifier :: "(string \<times> string) option"
  si_Tweak :: "(opaque \<Rightarrow> opaque) option"
  si_Transform :: "(go_value \<Rightarrow> go_value) option"

record InformerOptions =
  io_ResyncPeriod :: int
  io_Indexers :: "string list"
  io_InformerName :: "string option"
  io_TweakListOptions :: "(opaque \<Rightarrow> opaque) option"

definition NewTypedKueueInformerWithOptions :: "client_kind \<Rightarrow> InformerOptions \<Rightarrow> SharedIndexInformer" where
  "NewTypedKueueInformerWithOptions client options =
     \<lparr>si_Id = 0, si_Object = ''*v1.Kueue'', si_Client = client,
      si_ResyncPeriod = io_ResyncPeriod options, si_Indexers = io_Indexers options,
      si_Identifier = map_option (\<lambda>name. (name, ''kueue.openshift.io/v1, Resource=kueues'')) (io_InformerName options),
      si_Tweak = io_TweakListOptions options, si_Transform = None\<rparr>"

text \<open>The four list and watch functions of an informer tweak the options of their request first.\<close>
definition request_options :: "SharedIndexInformer \<Rightarrow> opaque \<Rightarrow> opaque" where
  "request_options informer opts = (case si_Tweak informer of None \<Rightarrow> opts | Some tweak \<Rightarrow> tweak opts)"

section \<open>The factory\<close>

text \<open>\<open>sf_wg\<close> are the informers whose goroutines are running. The last two fields are history: how many
  informers were built, and which were started, in order.\<close>
record sharedInformerFactory =
  sf_client :: client_kind
  sf_namespace :: string
  sf_tweakListOptions :: "(opaque \<Rightarrow> opaque) option"
  sf_defaultResync :: int
  sf_customResync :: "string \<rightharpoonup> int"
  sf_transform :: "(go_value \<Rightarrow> go_value) option"
  sf_informerName :: "string option"
  sf_informers :: "(string, SharedIndexInformer) gomap"
  sf_startedInformers :: "string \<Rightarrow> bool"
  sf_wg :: "nat list"
  sf_shuttingDown :: bool
  sf_Built :: nat
  sf_Runs :: "nat list"

type_synonym SharedInformerOption = "sharedInformerFactory \<Rightarrow> sharedInformerFactory"

definition WithCustomResyncConfig :: "(string, int) gomap \<Rightarrow> SharedInformerOption" where
  "WithCustomResyncConfig resyncConfig factory =
     fold (\<lambda>(k, v) f. f\<lparr>sf_customResync := (sf_customResync f)(k \<mapsto> v)\<rparr>) resyncConfig factory"

definition WithTweakListOptions :: "(opaque \<Rightarrow> opaque) option \<Rightarrow> SharedInformerOption" where
  "WithTweakListOptions tweak factory = factory\<lparr>sf_tweakListOptions := tweak\<rparr>"

definition factory_WithNamespace :: "string \<Rightarrow> SharedInformerOption" where
  "factory_WithNamespace namespace factory = factory\<lparr>sf_namespace := namespace\<rparr>"

definition WithTransform :: "(go_value \<Rightarrow> go_value) option \<Rightarrow> SharedInformerOption" where
  "WithTransform transform factory = factory\<lparr>sf_transform := transform\<rparr>"

definition WithInformerName :: "string option \<Rightarrow> SharedInformerOption" where
  "WithInformerName informerName factory = factory\<lparr>sf_informerName := informerName\<rparr>"

definition NewSharedInformerFactoryWithOptions ::
  "client_kind \<Rightarrow> int \<Rightarrow> SharedInformerOption list \<Rightarrow> sharedInformerFactory" where
  "NewSharedInformerFactoryWithOptions client defaultResync options =
     fold (\<lambda>opt factory. opt factory) options
       \<lparr>sf_client = client, sf_namespace = [], sf_tweakListOptions = None, sf_defaultResync = defaultResync,
        sf_customResync = Map.empty, sf_transform = None, sf_informerName = None, sf_informers = [],
        sf_startedInformers = \<lambda>_. False, sf_wg = [], sf_shuttingDown = False, sf_Built = 0, sf_Runs = []\<rparr>"

definition NewSharedInformerFactory :: "client_kind \<Rightarrow> int \<Rightarrow> sharedInformerFactory" where
  "NewSharedInformerFactory client defaultResync = NewSharedInformerFactoryWithOptions client defaultResync []"

definition NewFilteredSharedInformerFactory ::
  "client_kind \<Rightarrow> int \<Rightarrow> string \<Rightarrow> (opaque \<Rightarrow> opaque) option \<Rightarrow> sharedInformerFactory" where
  "NewFilteredSharedInformerFactory client defaultResync namespace tweakListOptions =
     NewSharedInformerFactoryWithOptions client defaultResync
       [factory_WithNamespace namespace, WithTweakListOptions tweakListOptions]"

text \<open>\<^verbatim>\<open>InformerFor\<close>: the informer there is, or a new one.\<close>
definition InformerFor ::
  "string \<Rightarrow> (client_kind \<Rightarrow> int \<Rightarrow> SharedIndexInformer) \<Rightarrow> sharedInformerFactory \<Rightarrow>
   SharedIndexInformer \<times> sharedInformerFactory" where
  "InformerFor informerType newFunc f = (case map_of (sf_informers f) informerType of
     Some informer \<Rightarrow> (informer, f)
   | None \<Rightarrow>
      let resyncPeriod = (case sf_customResync f informerType of
            Some period \<Rightarrow> period | None \<Rightarrow> sf_defaultResync f);
          informer = (newFunc (sf_client f) resyncPeriod)\<lparr>si_Id := sf_Built f\<rparr>;
          informer = (if sf_transform f \<noteq> None then informer\<lparr>si_Transform := sf_transform f\<rparr> else informer)
      in (informer, f\<lparr>sf_informers := AList.update informerType informer (sf_informers f),
            sf_Built := Suc (sf_Built f)\<rparr>))"

text \<open>One round of the loop of \<^verbatim>\<open>StartWithContext\<close>, whose order does not matter.\<close>
definition start_informer :: "string \<times> SharedIndexInformer \<Rightarrow> sharedInformerFactory \<Rightarrow> sharedInformerFactory" where
  "start_informer entry f =
     (if \<not> sf_startedInformers f (fst entry)
      then f\<lparr>sf_wg := si_Id (snd entry) # sf_wg f, sf_Runs := si_Id (snd entry) # sf_Runs f,
             sf_startedInformers := (sf_startedInformers f)(fst entry := True)\<rparr>
      else f)"

definition StartWithContext :: "sharedInformerFactory \<Rightarrow> sharedInformerFactory" where
  "StartWithContext f = (if sf_shuttingDown f then f else fold start_informer (sf_informers f) f)"

text \<open>\<^verbatim>\<open>Start\<close> makes a context of its channel.\<close>
definition Start :: "sharedInformerFactory \<Rightarrow> sharedInformerFactory" where
  "Start f = StartWithContext f"

text \<open>\<^verbatim>\<open>Shutdown\<close> sets the flag and then waits while goroutines are running.\<close>
definition Shutdown :: "sharedInformerFactory \<Rightarrow> sharedInformerFactory" where
  "Shutdown f = f\<lparr>sf_shuttingDown := True\<rparr>"

text \<open>A goroutine ends when its context does.\<close>
definition goroutine_ends :: "nat \<Rightarrow> sharedInformerFactory \<Rightarrow> sharedInformerFactory" where
  "goroutine_ends i f = f\<lparr>sf_wg := remove1 i (sf_wg f)\<rparr>"

text \<open>\<^verbatim>\<open>WaitForCacheSyncWithContext\<close> after its wait: \<open>hasSynced\<close> says which caches are filled by then, and
  \<open>cause\<close> why the context ended, if it did. The wait ends when all are filled or the context ended.\<close>
definition WaitForCacheSyncWithContext ::
  "(nat \<Rightarrow> bool) \<Rightarrow> err option \<Rightarrow> sharedInformerFactory \<Rightarrow> (string, bool) gomap \<times> err option" where
  "WaitForCacheSyncWithContext hasSynced cause f =
     (let informers = filter (\<lambda>(t, _). sf_startedInformers f t) (sf_informers f);
          synced = map (\<lambda>(t, informer). (t, hasSynced (si_Id informer))) informers
      in (synced, if list_ex (\<lambda>(_, ok). \<not> ok) synced then cause else None))"

definition WaitForCacheSync ::
  "(nat \<Rightarrow> bool) \<Rightarrow> err option \<Rightarrow> sharedInformerFactory \<Rightarrow> (string, bool) gomap" where
  "WaitForCacheSync hasSynced cause f = fst (WaitForCacheSyncWithContext hasSynced cause f)"

section \<open>The informer of the Kueue resource\<close>

text \<open>\<^verbatim>\<open>factory.Kueue().V1().Kueues()\<close> carries the tweak of the factory along.\<close>
definition defaultInformer ::
  "string option \<Rightarrow> (opaque \<Rightarrow> opaque) option \<Rightarrow> client_kind \<Rightarrow> int \<Rightarrow> SharedIndexInformer" where
  "defaultInformer informerName tweakListOptions client resyncPeriod =
     NewTypedKueueInformerWithOptions client \<lparr>io_ResyncPeriod = resyncPeriod, io_Indexers = [''namespace''],
       io_InformerName = informerName, io_TweakListOptions = tweakListOptions\<rparr>"

text \<open>Informers that are not shared: the constructors that only choose the options. An informer that is
  outside a factory has no number of its own.\<close>
definition NewKueueInformerWithOptions :: "client_kind \<Rightarrow> InformerOptions \<Rightarrow> SharedIndexInformer" where
  "NewKueueInformerWithOptions client options = NewTypedKueueInformerWithOptions client options"

definition NewKueueInformer :: "client_kind \<Rightarrow> int \<Rightarrow> string list \<Rightarrow> SharedIndexInformer" where
  "NewKueueInformer client resyncPeriod indexers =
     NewKueueInformerWithOptions client \<lparr>io_ResyncPeriod = resyncPeriod, io_Indexers = indexers,
       io_InformerName = None, io_TweakListOptions = None\<rparr>"

definition NewTypedKueueInformer :: "client_kind \<Rightarrow> int \<Rightarrow> string list \<Rightarrow> SharedIndexInformer" where
  "NewTypedKueueInformer client resyncPeriod indexers =
     NewTypedKueueInformerWithOptions client \<lparr>io_ResyncPeriod = resyncPeriod, io_Indexers = indexers,
       io_InformerName = None, io_TweakListOptions = None\<rparr>"

definition NewFilteredKueueInformer ::
  "client_kind \<Rightarrow> int \<Rightarrow> string list \<Rightarrow> (opaque \<Rightarrow> opaque) option \<Rightarrow> SharedIndexInformer" where
  "NewFilteredKueueInformer client resyncPeriod indexers tweakListOptions =
     NewTypedKueueInformerWithOptions client \<lparr>io_ResyncPeriod = resyncPeriod, io_Indexers = indexers,
       io_InformerName = None, io_TweakListOptions = tweakListOptions\<rparr>"

definition NewTypedFilteredKueueInformer ::
  "client_kind \<Rightarrow> int \<Rightarrow> string list \<Rightarrow> (opaque \<Rightarrow> opaque) option \<Rightarrow> SharedIndexInformer" where
  "NewTypedFilteredKueueInformer client resyncPeriod indexers tweakListOptions =
     NewTypedKueueInformerWithOptions client \<lparr>io_ResyncPeriod = resyncPeriod, io_Indexers = indexers,
       io_InformerName = None, io_TweakListOptions = tweakListOptions\<rparr>"

text \<open>The way to the informer of the resource: \<^verbatim>\<open>factory.Kueue().V1().Kueues()\<close>. The structs point to the
  factory, which is passed to the methods that use it.\<close>
record informer_group =
  ig_namespace :: string
  ig_tweakListOptions :: "(opaque \<Rightarrow> opaque) option"

record informer_version =
  iv_namespace :: string
  iv_tweakListOptions :: "(opaque \<Rightarrow> opaque) option"

record kueueInformer =
  ki_tweakListOptions :: "(opaque \<Rightarrow> opaque) option"

definition group_New :: "string \<Rightarrow> (opaque \<Rightarrow> opaque) option \<Rightarrow> informer_group" where
  "group_New namespace tweakListOptions = \<lparr>ig_namespace = namespace, ig_tweakListOptions = tweakListOptions\<rparr>"

definition version_New :: "string \<Rightarrow> (opaque \<Rightarrow> opaque) option \<Rightarrow> informer_version" where
  "version_New namespace tweakListOptions = \<lparr>iv_namespace = namespace, iv_tweakListOptions = tweakListOptions\<rparr>"

definition factory_Kueue :: "sharedInformerFactory \<Rightarrow> informer_group" where
  "factory_Kueue f = group_New (sf_namespace f) (sf_tweakListOptions f)"

definition group_V1 :: "informer_group \<Rightarrow> informer_version" where
  "group_V1 g = version_New (ig_namespace g) (ig_tweakListOptions g)"

definition version_Kueues :: "informer_version \<Rightarrow> kueueInformer" where
  "version_Kueues v = \<lparr>ki_tweakListOptions = iv_tweakListOptions v\<rparr>"

definition factory_InformerName :: "sharedInformerFactory \<Rightarrow> string option" where
  "factory_InformerName f = sf_informerName f"

definition TypedInformer ::
  "kueueInformer \<Rightarrow> sharedInformerFactory \<Rightarrow> SharedIndexInformer \<times> sharedInformerFactory" where
  "TypedInformer k f =
     InformerFor ''*v1.Kueue'' (defaultInformer (factory_InformerName f) (ki_tweakListOptions k)) f"

definition Informer :: "kueueInformer \<Rightarrow> sharedInformerFactory \<Rightarrow> SharedIndexInformer \<times> sharedInformerFactory" where
  "Informer k f = TypedInformer k f"

definition Kueues_Informer :: "sharedInformerFactory \<Rightarrow> SharedIndexInformer \<times> sharedInformerFactory" where
  "Kueues_Informer f = Informer (version_Kueues (group_V1 (factory_Kueue f))) f"

lemma Kueues_Informer_InformerFor:
  "Kueues_Informer f = InformerFor ''*v1.Kueue'' (defaultInformer (sf_informerName f) (sf_tweakListOptions f)) f"
  by (simp add: Kueues_Informer_def Informer_def TypedInformer_def version_Kueues_def group_V1_def version_New_def
      factory_Kueue_def group_New_def factory_InformerName_def)

text \<open>A lister reads the cache of an informer; \<open>store\<close> is what the caches hold, by key. The resource is
  cluster-scoped, so the key of an object is its name.\<close>
record KueueLister =
  kl_Indexer :: nat
  kl_Resource :: "string \<times> string"

definition NewKueueLister :: "nat \<Rightarrow> KueueLister" where
  "NewKueueLister indexer = \<lparr>kl_Indexer = indexer, kl_Resource = Resource ''kueue''\<rparr>"

definition Lister :: "kueueInformer \<Rightarrow> sharedInformerFactory \<Rightarrow> KueueLister \<times> sharedInformerFactory" where
  "Lister k f = (case Informer k f of (informer, f') \<Rightarrow> (NewKueueLister (si_Id informer), f'))"

definition KueueLister_List ::
  "(nat \<Rightarrow> (string, Kueue) gomap) \<Rightarrow> KueueLister \<Rightarrow> (Kueue \<Rightarrow> bool) \<Rightarrow> Kueue list" where
  "KueueLister_List store l selector = filter selector (map snd (store (kl_Indexer l)))"

definition KueueLister_Get :: "(nat \<Rightarrow> (string, Kueue) gomap) \<Rightarrow> KueueLister \<Rightarrow> string \<Rightarrow> err + Kueue" where
  "KueueLister_Get store l name = (case map_of (store (kl_Indexer l)) name of
     None \<Rightarrow> Inl (ApiError NotFound (snd (kl_Resource l) @ ''.'' @ fst (kl_Resource l) @ '' '' @ name))
   | Some k \<Rightarrow> Inr k)"

record genericInformer =
  gi_informer :: SharedIndexInformer
  gi_resource :: "string \<times> string"

definition generic_Informer :: "genericInformer \<Rightarrow> SharedIndexInformer" where
  "generic_Informer g = gi_informer g"

text \<open>\<^verbatim>\<open>cache.NewGenericLister\<close> of the informer's cache: the cache and the resource.\<close>
definition generic_Lister :: "genericInformer \<Rightarrow> nat \<times> string \<times> string" where
  "generic_Lister g = (si_Id (generic_Informer g), gi_resource g)"

definition ForResource ::
  "string \<times> string \<times> string \<Rightarrow> sharedInformerFactory \<Rightarrow> err + genericInformer \<times> sharedInformerFactory" where
  "ForResource gvr f =
     (if gvr = (''kueue.openshift.io'', ''v1'', ''kueues'')
      then case Kueues_Informer f of (informer, f') \<Rightarrow>
        Inr (\<lparr>gi_informer = informer, gi_resource = (fst gvr, snd (snd gvr))\<rparr>, f')
      else Inl (Errorf ''no informer found''))"

section \<open>Runs of a factory\<close>

inductive factory_step :: "sharedInformerFactory \<Rightarrow> sharedInformerFactory \<Rightarrow> bool" where
  asks: "factory_step f (snd (InformerFor t newFunc f))"
| starts: "factory_step f (StartWithContext f)"
| shuts_down: "factory_step f (Shutdown f)"
| ends: "factory_step f (goroutine_ends i f)"

inductive factory_reachable :: "sharedInformerFactory \<Rightarrow> bool" where
  new_factory: "factory_reachable (NewSharedInformerFactoryWithOptions client resync options)"
    if "list_all (\<lambda>opt. (\<exists>c. opt = WithCustomResyncConfig c) \<or> (\<exists>t. opt = WithTweakListOptions t) \<or>
      (\<exists>n. opt = factory_WithNamespace n) \<or> (\<exists>t. opt = WithTransform t) \<or> (\<exists>n. opt = WithInformerName n)) options"
| next_factory: "factory_reachable f \<Longrightarrow> factory_step f f' \<Longrightarrow> factory_reachable f'"

lemma start_informer_sel [simp]:
  "sf_informers (start_informer e f) = sf_informers f" "sf_Built (start_informer e f) = sf_Built f"
  "sf_shuttingDown (start_informer e f) = sf_shuttingDown f"
  "sf_startedInformers (start_informer e f) t \<longleftrightarrow> t = fst e \<or> sf_startedInformers f t"
  by (auto simp: start_informer_def)

lemma start_all_sel [simp]:
  "sf_informers (fold start_informer es f) = sf_informers f"
  "sf_Built (fold start_informer es f) = sf_Built f"
  by (induction es arbitrary: f) simp_all

lemma step_keeps_informers:
  assumes "factory_step f f'" and "map_of (sf_informers f) t = Some i"
  shows "map_of (sf_informers f') t = Some i"
  using assms
  by (cases rule: factory_step.cases)
    (auto simp: InformerFor_def StartWithContext_def Shutdown_def goroutine_ends_def Let_def update_conv
      split: option.splits)

text \<open>What those who ask a factory for informers rely on.\<close>
locale shared_informers =
  fixes informer_for :: "'k \<Rightarrow> 'f \<Rightarrow> 'i \<times> 'f" and step :: "'f \<Rightarrow> 'f \<Rightarrow> bool" and known :: "'f \<Rightarrow> 'k \<rightharpoonup> 'i"
  assumes known_returned: "known f k = Some i \<Longrightarrow> informer_for k f = (i, f)"
    and returned_known: "informer_for k f = (i, f') \<Longrightarrow> known f' k = Some i"
    and step_keeps: "step f f' \<Longrightarrow> known f k = Some i \<Longrightarrow> known f' k = Some i"
begin

lemma steps_keep: "step\<^sup>*\<^sup>* f f' \<Longrightarrow> known f k = Some i \<Longrightarrow> known f' k = Some i"
  by (induction rule: rtranclp_induct) (auto dest: step_keeps)

lemma same_informer: "informer_for k f = (i, f1) \<Longrightarrow> step\<^sup>*\<^sup>* f1 f2 \<Longrightarrow> informer_for k f2 = (i, f2)"
  using known_returned[OF steps_keep[OF _ returned_known]] by blast

end

interpretation sf: shared_informers "\<lambda>t. InformerFor t (newFunc t)" factory_step "\<lambda>f. map_of (sf_informers f)"
  for newFunc
  by unfold_locales
    (auto simp: InformerFor_def Let_def update_conv step_keeps_informers split: option.splits if_splits)

section \<open>The invariant\<close>

text \<open>Every type has one informer and every informer one type; what was started is what is marked as
  started, and each was started once.\<close>
definition started_ids :: "sharedInformerFactory \<Rightarrow> nat set" where
  "started_ids f = {si_Id i | t i. (t, i) \<in> set (sf_informers f) \<and> sf_startedInformers f t}"

definition factory_inv :: "sharedInformerFactory \<Rightarrow> bool" where
  "factory_inv f \<longleftrightarrow> distinct (map fst (sf_informers f)) \<and>
     distinct (map (\<lambda>(_, i). si_Id i) (sf_informers f)) \<and>
     (\<forall>(t, i) \<in> set (sf_informers f). si_Id i < sf_Built f) \<and>
     (\<forall>t. sf_startedInformers f t \<longrightarrow> t \<in> fst ` set (sf_informers f)) \<and>
     distinct (sf_Runs f) \<and>
     set (sf_Runs f) = started_ids f \<and>
     set (sf_wg f) \<subseteq> started_ids f \<and> distinct (sf_wg f)"

lemma update_new: "map_of xs t = None \<Longrightarrow> AList.update t i xs = xs @ [(t, i)]"
  by (induction xs) (auto split: if_splits)

lemma factory_inv_unique:
  assumes "factory_inv f" and "(t, i) \<in> set (sf_informers f)" and "(t', i') \<in> set (sf_informers f)"
    and "si_Id i = si_Id i'"
  shows "t = t' \<and> i = i'"
proof -
  have "inj_on (\<lambda>(_, i). si_Id i) (set (sf_informers f))"
    using assms(1) by (simp add: factory_inv_def distinct_map)
  from inj_onD[OF this _ assms(2,3)] assms(4) show ?thesis by auto
qed

lemma InformerFor_inv:
  assumes inv: "factory_inv f"
  shows "factory_inv (snd (InformerFor t newFunc f))"
proof (cases "map_of (sf_informers f) t")
  case None
  obtain i where run: "snd (InformerFor t newFunc f) =
      f\<lparr>sf_informers := sf_informers f @ [(t, i)], sf_Built := Suc (sf_Built f)\<rparr>" and id: "si_Id i = sf_Built f"
    using None by (simp add: InformerFor_def update_new Let_def split: if_splits)
  have new: "t \<notin> fst ` set (sf_informers f)" using None by (simp add: map_of_eq_None_iff)
  have started: "\<not> sf_startedInformers f t" using inv new by (auto simp: factory_inv_def)
  have ids: "\<forall>(t, i) \<in> set (sf_informers f). si_Id i < sf_Built f" using inv by (simp add: factory_inv_def)
  then have "sf_Built f \<notin> (\<lambda>(_, i). si_Id i) ` set (sf_informers f)" by auto
  moreover have "started_ids (f\<lparr>sf_informers := sf_informers f @ [(t, i)], sf_Built := Suc (sf_Built f)\<rparr>) =
      started_ids f"
    using started by (auto simp: started_ids_def)
  moreover have "\<forall>(t', i') \<in> set (sf_informers f @ [(t, i)]). si_Id i' < Suc (sf_Built f)"
    using ids id by fastforce
  ultimately show ?thesis
    unfolding run using inv new id by (simp add: factory_inv_def)
qed (use inv in \<open>simp add: InformerFor_def\<close>)

lemma start_informer_inv:
  assumes inv: "factory_inv f" and known: "e \<in> set (sf_informers f)"
  shows "factory_inv (start_informer e f)"
proof (cases "sf_startedInformers f (fst e)")
  case False
  obtain t i where e: "e = (t, i)" by (cases e)
  let ?f = "start_informer e f"
  have same_type: "(t, i') \<in> set (sf_informers f) \<Longrightarrow> i' = i" for i'
    using known inv e eq_key_imp_eq_value[of "sf_informers f" t i' i] by (auto simp: factory_inv_def)
  have "si_Id i \<notin> started_ids f"
    using factory_inv_unique[OF inv known[unfolded e]] False e by (auto simp: started_ids_def)
  moreover have "started_ids ?f = insert (si_Id i) (started_ids f)"
  proof (rule set_eqI)
    fix n
    have "n \<in> started_ids ?f \<longleftrightarrow>
        (\<exists>t' i'. n = si_Id i' \<and> (t', i') \<in> set (sf_informers f) \<and> (t' = t \<or> sf_startedInformers f t'))"
      using e by (simp add: started_ids_def)
    also have "\<dots> \<longleftrightarrow> n \<in> insert (si_Id i) (started_ids f)"
      unfolding started_ids_def insert_iff mem_Collect_eq using known[unfolded e] same_type by blast
    finally show "n \<in> started_ids ?f \<longleftrightarrow> n \<in> insert (si_Id i) (started_ids f)" .
  qed
  moreover have "\<forall>t'. t' = t \<or> sf_startedInformers f t' \<longrightarrow> t' \<in> fst ` set (sf_informers f)"
    using inv known e by (force simp: factory_inv_def)
  ultimately show ?thesis
    using inv False by (auto simp: e factory_inv_def) (auto simp: start_informer_def)
qed (use inv in \<open>simp add: start_informer_def\<close>)

lemma start_all_inv:
  "factory_inv f \<Longrightarrow> set es \<subseteq> set (sf_informers f) \<Longrightarrow> factory_inv (fold start_informer es f)"
proof (induction es arbitrary: f)
  case (Cons e es)
  then have "factory_inv (start_informer e f)" by (intro start_informer_inv) auto
  with Cons show ?case by simp
qed simp

lemma factory_step_inv:
  assumes "factory_step f f'" and inv: "factory_inv f"
  shows "factory_inv f'"
  using assms(1)
proof (cases rule: factory_step.cases)
  case starts
  then show ?thesis using start_all_inv[OF inv, of "sf_informers f"] inv by (simp add: StartWithContext_def)
next
  case (ends i)
  have "set (remove1 i (sf_wg f)) \<subseteq> set (sf_wg f)" by (rule set_remove1_subset)
  then show ?thesis using inv ends by (simp add: factory_inv_def goroutine_ends_def started_ids_def) blast
next
  case shuts_down
  then show ?thesis using inv by (simp add: factory_inv_def Shutdown_def started_ids_def)
qed (use inv InformerFor_inv in simp)

lemma new_factory_fields:
  assumes "list_all (\<lambda>opt. (\<exists>c. opt = WithCustomResyncConfig c) \<or> (\<exists>t. opt = WithTweakListOptions t) \<or>
      (\<exists>n. opt = factory_WithNamespace n) \<or> (\<exists>t. opt = WithTransform t) \<or> (\<exists>n. opt = WithInformerName n)) options"
    and "f' = fold (\<lambda>opt factory. opt factory) options f"
  shows "sf_informers f' = sf_informers f \<and> sf_startedInformers f' = sf_startedInformers f \<and>
    sf_wg f' = sf_wg f \<and> sf_Runs f' = sf_Runs f \<and> sf_Built f' = sf_Built f"
  using assms
proof (induction options arbitrary: f)
  case (Cons opt options)
  have resync: "sf_informers (WithCustomResyncConfig c f) = sf_informers f \<and>
      sf_startedInformers (WithCustomResyncConfig c f) = sf_startedInformers f \<and>
      sf_wg (WithCustomResyncConfig c f) = sf_wg f \<and> sf_Runs (WithCustomResyncConfig c f) = sf_Runs f \<and>
      sf_Built (WithCustomResyncConfig c f) = sf_Built f" for c
    unfolding WithCustomResyncConfig_def by (induction c arbitrary: f) auto
  have "f' = fold (\<lambda>opt factory. opt factory) options (opt f)" using Cons.prems(2) by simp
  from Cons.IH[OF _ this] Cons.prems(1) resync show ?case
    by (auto simp: WithTweakListOptions_def factory_WithNamespace_def WithTransform_def WithInformerName_def)
qed simp

lemma reachable_factory_inv: "factory_reachable f \<Longrightarrow> factory_inv f"
proof (induction rule: factory_reachable.induct)
  case (new_factory options client resync)
  from new_factory_fields[OF this refl] show ?case
    by (simp add: NewSharedInformerFactoryWithOptions_def factory_inv_def started_ids_def)
qed (rule factory_step_inv)

lemma start_all_started:
  "e \<in> set es \<Longrightarrow> sf_startedInformers (fold start_informer es f) (fst e)"
proof (induction es arbitrary: f)
  case (Cons e' es)
  have keeps: "sf_startedInformers f t \<Longrightarrow> sf_startedInformers (fold start_informer es f) t" for t f
    by (induction es arbitrary: f) (auto simp: start_informer_def)
  have "sf_startedInformers (start_informer e' f) (fst e')" by (simp add: start_informer_def)
  with Cons keeps show ?case by auto
qed simp

text \<open>C21. The factory of the operator's own informers shares and starts them as its users expect.
  Whatever calls are made, in whatever order: there is one informer for a type, everyone who asks for
  the type gets that one, then and later; no informer is ever started twice; and a call of
  \<^verbatim>\<open>Start\<close> before a shutdown leaves every informer that anyone has asked for started, while after a
  shutdown it starts none.\<close>
theorem informers_shared_and_started_once:
  assumes "factory_reachable f" and "InformerFor t newFunc f = (i, f1)" and "factory_step\<^sup>*\<^sup>* f1 f2"
  shows "InformerFor t newFunc' f2 = (i, f2) \<and> distinct (sf_Runs f2) \<and>
    (if sf_shuttingDown f2 then StartWithContext f2 = f2
     else \<forall>(t', i') \<in> set (sf_informers f2). si_Id i' \<in> set (sf_Runs (StartWithContext f2))) \<and>
    map_of (sf_informers f2) t = Some i"
proof -
  have "factory_step f f1" using asks[of f t newFunc] assms(2) by simp
  then have "factory_step\<^sup>*\<^sup>* f f2" using assms(3) by (rule converse_rtranclp_into_rtranclp)
  then have reach: "factory_reachable f2"
    by (induction rule: rtranclp_induct) (auto intro: assms(1) next_factory)
  note inv = reachable_factory_inv[OF reach] factory_step_inv[OF starts reachable_factory_inv[OF reach]]
  have started: "si_Id i' \<in> set (sf_Runs (StartWithContext f2))"
    if "\<not> sf_shuttingDown f2" "(t', i') \<in> set (sf_informers f2)" for t' i'
    using that inv(2) start_all_started[of "(t', i')" "sf_informers f2" f2]
    by (auto simp: factory_inv_def started_ids_def StartWithContext_def)
  have known: "map_of (sf_informers f2) t = Some i"
    using sf.steps_keep[OF assms(3)] sf.returned_known[where newFunc = "\<lambda>_. newFunc", OF assms(2)] by blast
  then have "InformerFor t newFunc' f2 = (i, f2)" by (rule sf.known_returned[where newFunc = "\<lambda>_. newFunc'"])
  then show ?thesis using inv(1) started known by (auto simp: factory_inv_def StartWithContext_def)
qed

text \<open>Start-up asks for the informer, the reconciler asks again, the factory is started twice.\<close>
theorem informers_shared_and_started_once_witness:
  "\<exists>i f1. Kueues_Informer (NewSharedInformerFactory OperatorConfigClient 600000000000) = (i, f1) \<and>
     fst (Kueues_Informer (StartWithContext (StartWithContext f1))) = i \<and>
     sf_Runs (StartWithContext (StartWithContext f1)) = [si_Id i] \<and> si_ResyncPeriod i = 600000000000"
proof -
  let ?f = "NewSharedInformerFactory OperatorConfigClient 600000000000"
  let ?new = "defaultInformer None None"
  have new: "factory_reachable ?f"
    unfolding NewSharedInformerFactory_def by (rule new_factory) simp
  obtain i f1 where ask: "InformerFor ''*v1.Kueue'' ?new ?f = (i, f1)" by (meson surj_pair)
  let ?f2 = "StartWithContext (StartWithContext f1)"
  have "factory_step\<^sup>*\<^sup>* f1 ?f2" by (meson starts rtranclp.rtrancl_refl rtranclp.rtrancl_into_rtrancl)
  from informers_shared_and_started_once[OF new ask this, of ?new]
  have again: "InformerFor ''*v1.Kueue'' ?new ?f2 = (i, ?f2)" by blast
  have fields: "sf_Runs ?f2 = [si_Id i]" "si_ResyncPeriod i = 600000000000"
      "sf_informerName ?f2 = None" "sf_tweakListOptions ?f2 = None"
    using ask
    by (auto simp: InformerFor_def NewSharedInformerFactory_def NewSharedInformerFactoryWithOptions_def
        StartWithContext_def start_informer_def defaultInformer_def NewTypedKueueInformerWithOptions_def Let_def)
  show ?thesis
    using ask again fields
    by (auto simp: Kueues_Informer_InformerFor NewSharedInformerFactory_def NewSharedInformerFactoryWithOptions_def)
qed

text \<open>A wait for the caches without an error has found every started informer filled.\<close>
lemma WaitForCacheSync_ok:
  assumes "WaitForCacheSyncWithContext hasSynced cause f = (synced, None)"
    and "(t, i) \<in> set (sf_informers f)" and "sf_startedInformers f t"
    and wait: "cause \<noteq> None \<or> (\<forall>(t, i) \<in> set (sf_informers f). sf_startedInformers f t \<longrightarrow> hasSynced (si_Id i))"
  shows "hasSynced (si_Id i)" and "(t, True) \<in> set synced"
  using assms by (force simp: WaitForCacheSyncWithContext_def Let_def list_ex_iff split: if_splits)+

text \<open>Whoever lists through the factory reads the cache of the shared informer, and generic access finds
  the same informer.\<close>
lemma listers_share:
  assumes "factory_reachable f" and "Kueues_Informer f = (i, f1)"
  shows "kl_Indexer (fst (Lister (version_Kueues (group_V1 (factory_Kueue f1))) f1)) = si_Id i"
    and "ForResource (''kueue.openshift.io'', ''v1'', ''kueues'') f1 =
      Inr (\<lparr>gi_informer = i, gi_resource = (''kueue.openshift.io'', ''kueues'')\<rparr>, f1)"
proof -
  have "map_of (sf_informers f1) ''*v1.Kueue'' = Some i"
    by (rule sf.returned_known[where newFunc = "\<lambda>_. defaultInformer (sf_informerName f) (sf_tweakListOptions f)"])
      (use assms(2) in \<open>simp add: Kueues_Informer_InformerFor\<close>)
  then have again: "Kueues_Informer f1 = (i, f1)" by (simp add: Kueues_Informer_InformerFor InformerFor_def)
  then show "kl_Indexer (fst (Lister (version_Kueues (group_V1 (factory_Kueue f1))) f1)) = si_Id i"
    by (simp add: Lister_def Kueues_Informer_def NewKueueLister_def)
  show "ForResource (''kueue.openshift.io'', ''v1'', ''kueues'') f1 =
      Inr (\<lparr>gi_informer = i, gi_resource = (''kueue.openshift.io'', ''kueues'')\<rparr>, f1)"
    by (simp add: ForResource_def again)
qed

lemma KueueLister_Get_NotFound:
  "KueueLister_Get store l name = Inl e \<Longrightarrow> IsNotFound e \<and> name \<notin> fst ` set (store (kl_Indexer l))"
  by (auto simp: KueueLister_Get_def IsNotFound_def map_of_eq_None_iff split: option.splits)

end
