(* ===== verification/Client_Set.thy ===== *)
theory Client_Set
  imports Api_Scheme Complex_Main
begin

text \<open>
  Building the clients of the operator's own API group: \<^verbatim>\<open>clientset.go\<close> and \<^verbatim>\<open>typed/kueueoperator/v1\<close> of
  \<^verbatim>\<open>src/pkg/generated/clientset/versioned\<close>, with what they use of the vendored \<^verbatim>\<open>client-go\<close>: the REST clients
  of a configuration and the discovery client. Rate limiters are objects with a state of their own, so
  which client has which limiter matters: a limiter carries a number that is new for every limiter that
  is made, and the state of the monad is how many there are. A configuration is copied before it is
  changed, so the caller's stays as it was: it is a value here.

  Parameters (\<open>RestLibrary\<close>): the HTTP client of a configuration, the URL of its server and the default
  user agent. A pointer receiver that may be nil is an option.
\<close>

section \<open>Configurations and REST clients\<close>

record RateLimiter =
  rl_Id :: nat
  rl_QPS :: rat
  rl_Burst :: int

text \<open>What the code reads or sets of \<^verbatim>\<open>rest.Config\<close>; the rest is opaque. \<^verbatim>\<open>QPS\<close> is finite.\<close>
record rest_Config =
  rc_Host :: string
  rc_APIPath :: string
  rc_GroupVersion :: "group_version option"
  rc_NegotiatedSerializer :: "string option"
  rc_UserAgent :: string
  rc_QPS :: rat
  rc_Burst :: int
  rc_RateLimiter :: "RateLimiter option"
  rc_Timeout :: int
  rc_Other :: opaque

type_synonym http_Client = string

record RestLibrary =
  lib_HTTPClientFor :: "rest_Config \<Rightarrow> err + http_Client"
  lib_DefaultServerUrlFor :: "rest_Config \<Rightarrow> err + string \<times> string"
  lib_UserAgent :: string

record RESTClient =
  rest_Base :: string
  rest_VersionedAPIPath :: string
  rest_GroupVersion :: group_version
  rest_Serializer :: string
  rest_RateLimiter :: "RateLimiter option"
  rest_Client :: http_Client

type_synonym 'a build = "(nat, 'a) go"

definition NewTokenBucketRateLimiter :: "rat \<Rightarrow> int \<Rightarrow> RateLimiter build" where
  "NewTokenBucketRateLimiter qps burst n = (Inr \<lparr>rl_Id = n, rl_QPS = qps, rl_Burst = burst\<rparr>, Suc n)"

text \<open>The limiter of a REST client: the configured one, or a new one with the defaults filled in; a
  negative rate means none.\<close>
definition config_limiter :: "rest_Config \<Rightarrow> RateLimiter option build" where
  "config_limiter config = (case rc_RateLimiter config of
     Some limiter \<Rightarrow> go_return (Some limiter)
   | None \<Rightarrow>
      let qps = (if rc_QPS config = 0 then 5 else rc_QPS config);
          burst = (if rc_Burst config = 0 then 10 else rc_Burst config)
      in if 0 < qps then go_bind (NewTokenBucketRateLimiter qps burst) (\<lambda>limiter. go_return (Some limiter))
         else go_return None)"

text \<open>\<^verbatim>\<open>UnversionedRESTClientForConfigAndClient\<close>; \<open>gv\<close> is the group version without one in the configuration.\<close>
definition UnversionedRESTClientForConfigAndClient ::
  "RestLibrary \<Rightarrow> group_version \<Rightarrow> rest_Config \<Rightarrow> http_Client \<Rightarrow> RESTClient build" where
  "UnversionedRESTClientForConfigAndClient lib gv config httpClient =
     (case rc_NegotiatedSerializer config of
        None \<Rightarrow> go_throw (Errorf ''NegotiatedSerializer is required when initializing a RESTClient'')
      | Some serializer \<Rightarrow>
          go_bind (go_lift (lib_DefaultServerUrlFor lib config)) (\<lambda>(baseURL, versionedAPIPath).
          go_bind (config_limiter config) (\<lambda>rateLimiter.
          go_return \<lparr>rest_Base = baseURL, rest_VersionedAPIPath = versionedAPIPath,
            rest_GroupVersion = (case rc_GroupVersion config of None \<Rightarrow> gv | Some v \<Rightarrow> v),
            rest_Serializer = serializer, rest_RateLimiter = rateLimiter, rest_Client = httpClient\<rparr>)))"

definition RESTClientForConfigAndClient :: "RestLibrary \<Rightarrow> rest_Config \<Rightarrow> http_Client \<Rightarrow> RESTClient build" where
  "RESTClientForConfigAndClient lib config httpClient =
     (if rc_GroupVersion config = None
      then go_throw (Errorf ''GroupVersion is required when initializing a RESTClient'')
      else UnversionedRESTClientForConfigAndClient lib ('''', '''') config httpClient)"

section \<open>The client of the group\<close>

record KueueV1Client =
  kv_restClient :: RESTClient

definition setConfigDefaults :: "RestLibrary \<Rightarrow> rest_Config \<Rightarrow> rest_Config" where
  "setConfigDefaults lib config =
     (let config = config\<lparr>rc_GroupVersion := Some SchemeGroupVersion, rc_APIPath := ''/apis'',
            rc_NegotiatedSerializer := Some ''generated client''\<rparr>
      in if rc_UserAgent config = [] then config\<lparr>rc_UserAgent := lib_UserAgent lib\<rparr> else config)"

definition typed_NewForConfigAndClient :: "RestLibrary \<Rightarrow> rest_Config \<Rightarrow> http_Client \<Rightarrow> KueueV1Client build" where
  "typed_NewForConfigAndClient lib c h =
     go_bind (RESTClientForConfigAndClient lib (setConfigDefaults lib c) h) (\<lambda>client.
     go_return \<lparr>kv_restClient = client\<rparr>)"

definition typed_NewForConfig :: "RestLibrary \<Rightarrow> rest_Config \<Rightarrow> KueueV1Client build" where
  "typed_NewForConfig lib c =
     (let config = setConfigDefaults lib c
      in go_bind (go_lift (lib_HTTPClientFor lib config)) (\<lambda>httpClient.
         typed_NewForConfigAndClient lib config httpClient))"

text \<open>\<^verbatim>\<open>if err != nil { panic(err) }\<close>\<close>
definition or_die :: "('s, 'a) go \<Rightarrow> ('s, 'a) go" where
  "or_die m = (\<lambda>s. case m s of (Inl e, s') \<Rightarrow> (Inl (Panic ''error in the config''), s') | (Inr x, s') \<Rightarrow> (Inr x, s'))"

definition typed_NewForConfigOrDie :: "RestLibrary \<Rightarrow> rest_Config \<Rightarrow> KueueV1Client build" where
  "typed_NewForConfigOrDie lib c = or_die (typed_NewForConfig lib c)"

definition typed_New :: "RESTClient \<Rightarrow> KueueV1Client" where
  "typed_New c = \<lparr>kv_restClient = c\<rparr>"

text \<open>The receiver may be nil.\<close>
definition RESTClient_of :: "KueueV1Client option \<Rightarrow> RESTClient option" where
  "RESTClient_of c = (case c of None \<Rightarrow> None | Some c \<Rightarrow> Some (kv_restClient c))"

text \<open>\<^verbatim>\<open>gentype.ClientWithListAndApply\<close>: where its requests go.\<close>
record kueues =
  ks_Resource :: string
  ks_Client :: "RESTClient option"
  ks_Namespace :: string

definition newKueues :: "KueueV1Client option \<Rightarrow> kueues" where
  "newKueues c = \<lparr>ks_Resource = ''kueues'', ks_Client = RESTClient_of c, ks_Namespace = ''''\<rparr>"

definition Kueues :: "KueueV1Client option \<Rightarrow> kueues" where
  "Kueues c = newKueues c"

section \<open>The clientset\<close>

record DiscoveryClient =
  dc_restClient :: RESTClient
  dc_LegacyPrefix :: string

definition setDiscoveryDefaults :: "RestLibrary \<Rightarrow> rest_Config \<Rightarrow> rest_Config" where
  "setDiscoveryDefaults lib config =
     (let config = config\<lparr>rc_APIPath := '''', rc_GroupVersion := None\<rparr>;
          config = (if rc_Timeout config = 0 then config\<lparr>rc_Timeout := 32000000000\<rparr> else config);
          config = (if rc_Burst config = 0 then config\<lparr>rc_Burst := 300\<rparr> else config);
          config = config\<lparr>rc_NegotiatedSerializer := Some ''discovery''\<rparr>
      in if rc_UserAgent config = [] then config\<lparr>rc_UserAgent := lib_UserAgent lib\<rparr> else config)"

definition NewDiscoveryClientForConfigAndClient ::
  "RestLibrary \<Rightarrow> rest_Config \<Rightarrow> http_Client \<Rightarrow> DiscoveryClient build" where
  "NewDiscoveryClientForConfigAndClient lib c httpClient =
     go_bind (UnversionedRESTClientForConfigAndClient lib ('''', ''v1'') (setDiscoveryDefaults lib c) httpClient)
       (\<lambda>client. go_return \<lparr>dc_restClient = client, dc_LegacyPrefix = ''/api''\<rparr>)"

record Clientset =
  cs_DiscoveryClient :: DiscoveryClient
  cs_kueueV1 :: KueueV1Client

definition cs_KueueV1 :: "Clientset option \<Rightarrow> err + KueueV1Client" where
  "cs_KueueV1 c = (case c of None \<Rightarrow> Inl (Panic ''nil pointer dereference'') | Some c \<Rightarrow> Inr (cs_kueueV1 c))"

definition cs_Discovery :: "Clientset option \<Rightarrow> DiscoveryClient option" where
  "cs_Discovery c = (case c of None \<Rightarrow> None | Some c \<Rightarrow> Some (cs_DiscoveryClient c))"

definition clientset_NewForConfigAndClient :: "RestLibrary \<Rightarrow> rest_Config \<Rightarrow> http_Client \<Rightarrow> Clientset build" where
  "clientset_NewForConfigAndClient lib c httpClient =
     go_bind
       (if rc_RateLimiter c = None \<and> 0 < rc_QPS c
        then if rc_Burst c \<le> 0
          then go_throw (Errorf ''burst is required to be greater than 0 when RateLimiter is not set'')
          else go_bind (NewTokenBucketRateLimiter (rc_QPS c) (rc_Burst c)) (\<lambda>limiter.
            go_return (c\<lparr>rc_RateLimiter := Some limiter\<rparr>))
        else go_return c) (\<lambda>configShallowCopy.
     go_bind (typed_NewForConfigAndClient lib configShallowCopy httpClient) (\<lambda>kueueV1.
     go_bind (NewDiscoveryClientForConfigAndClient lib configShallowCopy httpClient) (\<lambda>discovery.
     go_return \<lparr>cs_DiscoveryClient = discovery, cs_kueueV1 = kueueV1\<rparr>)))"

definition clientset_NewForConfig :: "RestLibrary \<Rightarrow> rest_Config \<Rightarrow> Clientset build" where
  "clientset_NewForConfig lib c =
     (let configShallowCopy = (if rc_UserAgent c = [] then c\<lparr>rc_UserAgent := lib_UserAgent lib\<rparr> else c)
      in go_bind (go_lift (lib_HTTPClientFor lib configShallowCopy)) (\<lambda>httpClient.
         clientset_NewForConfigAndClient lib configShallowCopy httpClient))"

definition clientset_NewForConfigOrDie :: "RestLibrary \<Rightarrow> rest_Config \<Rightarrow> Clientset build" where
  "clientset_NewForConfigOrDie lib c = or_die (clientset_NewForConfig lib c)"

definition clientset_New :: "RESTClient \<Rightarrow> Clientset" where
  "clientset_New c =
     \<lparr>cs_DiscoveryClient = \<lparr>dc_restClient = c, dc_LegacyPrefix = ''/api''\<rparr>, cs_kueueV1 = typed_New c\<rparr>"

section \<open>What is built\<close>

lemma config_limiter_result:
  "config_limiter c n = (case rc_RateLimiter c of Some l \<Rightarrow> (Inr (Some l), n)
   | None \<Rightarrow> if rc_QPS c < 0 then (Inr None, n)
       else (Inr (Some \<lparr>rl_Id = n, rl_QPS = (if rc_QPS c = 0 then 5 else rc_QPS c),
         rl_Burst = (if rc_Burst c = 0 then 10 else rc_Burst c)\<rparr>), Suc n))"
  by (auto simp: config_limiter_def NewTokenBucketRateLimiter_def go_defs Let_def split: option.splits)

lemma rest_client_result:
  assumes "rc_NegotiatedSerializer c = Some ser"
  shows "UnversionedRESTClientForConfigAndClient lib gv c h n =
    (case lib_DefaultServerUrlFor lib c of Inl e \<Rightarrow> (Inl e, n)
     | Inr (base, path) \<Rightarrow> (case config_limiter c n of (Inl e, n') \<Rightarrow> (Inl e, n')
       | (Inr limiter, n') \<Rightarrow> (Inr \<lparr>rest_Base = base, rest_VersionedAPIPath = path,
           rest_GroupVersion = (case rc_GroupVersion c of None \<Rightarrow> gv | Some v \<Rightarrow> v), rest_Serializer = ser,
           rest_RateLimiter = limiter, rest_Client = h\<rparr>, n')))"
  using assms by (simp add: UnversionedRESTClientForConfigAndClient_def go_defs split: sum.split prod.split)

lemma setConfigDefaults_sel [simp]:
  "rc_GroupVersion (setConfigDefaults lib c) = Some SchemeGroupVersion"
  "\<exists>ser. rc_NegotiatedSerializer (setConfigDefaults lib c) = Some ser"
  "rc_RateLimiter (setConfigDefaults lib c) = rc_RateLimiter c"
  "rc_QPS (setConfigDefaults lib c) = rc_QPS c" "rc_Burst (setConfigDefaults lib c) = rc_Burst c"
  by (simp_all add: setConfigDefaults_def Let_def)

lemma setDiscoveryDefaults_sel [simp]:
  "\<exists>ser. rc_NegotiatedSerializer (setDiscoveryDefaults lib c) = Some ser"
  "rc_RateLimiter (setDiscoveryDefaults lib c) = rc_RateLimiter c"
  "rc_QPS (setDiscoveryDefaults lib c) = rc_QPS c"
  "rc_Burst (setDiscoveryDefaults lib c) = (if rc_Burst c = 0 then 300 else rc_Burst c)"
  by (simp_all add: setDiscoveryDefaults_def Let_def)

text \<open>The URL of the server of some configuration cannot be made.\<close>
definition url_fails :: "RestLibrary \<Rightarrow> err \<Rightarrow> bool" where
  "url_fails lib e \<longleftrightarrow> Inl e \<in> range (lib_DefaultServerUrlFor lib)"

lemma url_failsI: "lib_DefaultServerUrlFor lib c = Inl e \<Longrightarrow> url_fails lib e"
  by (metis rangeI url_fails_def)

text \<open>Both clients of the set, after the limiter of the set is chosen.\<close>
lemma typed_result:
  "(\<exists>e. url_fails lib e \<and>
      typed_NewForConfigAndClient lib c h n = (Inl e, n)) \<or>
   (\<exists>cl limiter n'. config_limiter c n = (Inr limiter, n') \<and> typed_NewForConfigAndClient lib c h n = (Inr cl, n') \<and>
      rest_RateLimiter (kv_restClient cl) = limiter \<and> rest_Client (kv_restClient cl) = h \<and>
      rest_GroupVersion (kv_restClient cl) = SchemeGroupVersion)"
proof -
  obtain ser where ser: "rc_NegotiatedSerializer (setConfigDefaults lib c) = Some ser"
    using setConfigDefaults_sel(2) by blast
  have "config_limiter (setConfigDefaults lib c) n = config_limiter c n"
    by (simp add: config_limiter_result split: option.split)
  then show ?thesis
    by (cases "lib_DefaultServerUrlFor lib (setConfigDefaults lib c)"; cases "config_limiter c n")
      (auto simp: typed_NewForConfigAndClient_def RESTClientForConfigAndClient_def go_bind_def go_return_def
        rest_client_result[OF ser] config_limiter_result split: option.splits if_splits intro: url_failsI)
qed

lemma discovery_result:
  "(\<exists>e. url_fails lib e \<and>
      NewDiscoveryClientForConfigAndClient lib c h n = (Inl e, n)) \<or>
   (\<exists>d limiter n'. config_limiter (c\<lparr>rc_Burst := if rc_Burst c = 0 then 300 else rc_Burst c\<rparr>) n = (Inr limiter, n') \<and>
      NewDiscoveryClientForConfigAndClient lib c h n = (Inr d, n') \<and>
      rest_RateLimiter (dc_restClient d) = limiter \<and> rest_Client (dc_restClient d) = h)"
proof -
  obtain ser where ser: "rc_NegotiatedSerializer (setDiscoveryDefaults lib c) = Some ser"
    using setDiscoveryDefaults_sel(1) by blast
  have "config_limiter (setDiscoveryDefaults lib c) n =
      config_limiter (c\<lparr>rc_Burst := if rc_Burst c = 0 then 300 else rc_Burst c\<rparr>) n"
    by (simp add: config_limiter_result split: option.split)
  then show ?thesis
    by (cases "lib_DefaultServerUrlFor lib (setDiscoveryDefaults lib c)"; cases "config_limiter (setDiscoveryDefaults lib c) n")
      (auto simp: NewDiscoveryClientForConfigAndClient_def go_bind_def go_return_def
        rest_client_result[OF ser] config_limiter_result split: option.splits if_splits intro: url_failsI)
qed

definition with_agent :: "RestLibrary \<Rightarrow> rest_Config \<Rightarrow> rest_Config" where
  "with_agent lib c = (if rc_UserAgent c = [] then c\<lparr>rc_UserAgent := lib_UserAgent lib\<rparr> else c)"

text \<open>The limiters of the two clients of a set, and how many limiters there are then.\<close>
definition set_limiters :: "rest_Config \<Rightarrow> nat \<Rightarrow> RateLimiter option \<times> RateLimiter option \<times> nat" where
  "set_limiters c n = (case rc_RateLimiter c of Some l \<Rightarrow> (Some l, Some l, n)
   | None \<Rightarrow>
      if 0 < rc_QPS c
      then let l = \<lparr>rl_Id = n, rl_QPS = rc_QPS c, rl_Burst = rc_Burst c\<rparr> in (Some l, Some l, Suc n)
      else if rc_QPS c = 0
      then (Some \<lparr>rl_Id = n, rl_QPS = 5, rl_Burst = (if rc_Burst c = 0 then 10 else rc_Burst c)\<rparr>,
            Some \<lparr>rl_Id = Suc n, rl_QPS = 5, rl_Burst = (if rc_Burst c = 0 then 300 else rc_Burst c)\<rparr>,
            Suc (Suc n))
      else (None, None, n))"

text \<open>What the set is built of, for a given HTTP client.\<close>
lemma clientset_built:
  "case clientset_NewForConfigAndClient lib c h n of
     (Inr cs, n') \<Rightarrow>
       (let kueue = kv_restClient (cs_kueueV1 cs); disc = dc_restClient (cs_DiscoveryClient cs)
        in rest_Client kueue = h \<and> rest_Client disc = h \<and> rest_GroupVersion kueue = SchemeGroupVersion \<and>
           (rest_RateLimiter kueue, rest_RateLimiter disc, n') = set_limiters c n)
   | (Inl e, _) \<Rightarrow> rc_RateLimiter c = None \<and> 0 < rc_QPS c \<and> rc_Burst c \<le> 0 \<or> url_fails lib e"
proof -
  consider (burst) "rc_RateLimiter c = None" "0 < rc_QPS c" "rc_Burst c \<le> 0"
    | (new) "rc_RateLimiter c = None" "0 < rc_QPS c" "0 < rc_Burst c"
    | (given) l where "rc_RateLimiter c = Some l"
    | (unset) "rc_RateLimiter c = None" "rc_QPS c = 0"
    | (negative) "rc_RateLimiter c = None" "rc_QPS c < 0"
    by (cases "rc_RateLimiter c") (auto dest: linorder_class.antisym_conv3, linarith)
  then show ?thesis
  proof cases
    case burst
    then show ?thesis by (simp add: clientset_NewForConfigAndClient_def go_defs)
  next
    case new
    let ?c = "c\<lparr>rc_RateLimiter := Some \<lparr>rl_Id = n, rl_QPS = rc_QPS c, rl_Burst = rc_Burst c\<rparr>\<rparr>"
    show ?thesis
      using typed_result[of lib ?c h "Suc n"] discovery_result[of lib ?c h "Suc n"] new
      by (auto simp: clientset_NewForConfigAndClient_def go_defs NewTokenBucketRateLimiter_def
          config_limiter_result set_limiters_def Let_def)
  next
    case (given l)
    then show ?thesis
      using typed_result[of lib c h n] discovery_result[of lib c h n]
      by (auto simp: clientset_NewForConfigAndClient_def go_defs config_limiter_result set_limiters_def)
  next
    case unset
    then show ?thesis
      using typed_result[of lib c h n] discovery_result[of lib c h "Suc n"]
      by (auto simp: clientset_NewForConfigAndClient_def go_defs config_limiter_result set_limiters_def)
  next
    case negative
    then show ?thesis
      using typed_result[of lib c h n] discovery_result[of lib c h n]
      by (auto simp: clientset_NewForConfigAndClient_def go_defs config_limiter_result set_limiters_def)
  qed
qed

text \<open>What the clientset of the operator's API is built of. On success its two clients talk through one
  HTTP client, the one made for the configuration with a user agent filled in, the client of the group is
  bound to the group and version of the operator, and the rate limiters are those of \<open>set_limiters\<close>: one limiter,
  the configured one or one made from a positive rate, shared by both; two limiters of their own for a rate
  that is not set; none for a negative rate. It fails only if the HTTP client or the URL of the server of one
  of the clients cannot be made, with that error, or if a positive rate comes without a positive burst.\<close>
theorem clientset_clients_share:
  "case clientset_NewForConfig lib c n of
     (Inr cs, n') \<Rightarrow>
       (let kueue = kv_restClient (cs_kueueV1 cs); disc = dc_restClient (cs_DiscoveryClient cs)
        in lib_HTTPClientFor lib (with_agent lib c) = Inr (rest_Client kueue) \<and>
           rest_Client disc = rest_Client kueue \<and>
           rest_GroupVersion kueue = SchemeGroupVersion \<and>
           (rest_RateLimiter kueue, rest_RateLimiter disc, n') = set_limiters c n)
   | (Inl e, _) \<Rightarrow>
       lib_HTTPClientFor lib (with_agent lib c) = Inl e \<or>
       rc_RateLimiter c = None \<and> 0 < rc_QPS c \<and> rc_Burst c \<le> 0 \<or>
       url_fails lib e"
proof (cases "lib_HTTPClientFor lib (with_agent lib c)")
  case (Inl e)
  then show ?thesis by (simp add: clientset_NewForConfig_def with_agent_def[symmetric] go_defs)
next
  case (Inr h)
  then have "clientset_NewForConfig lib c n = clientset_NewForConfigAndClient lib (with_agent lib c) h n"
    by (simp add: clientset_NewForConfig_def with_agent_def[symmetric] go_defs)
  moreover have "set_limiters (with_agent lib c) n = set_limiters c n"
    "rc_RateLimiter (with_agent lib c) = rc_RateLimiter c" "rc_QPS (with_agent lib c) = rc_QPS c"
    "rc_Burst (with_agent lib c) = rc_Burst c"
    by (simp_all add: set_limiters_def with_agent_def Let_def split: option.split)
  ultimately show ?thesis
    using clientset_built[where lib = lib and c = "with_agent lib c" and h = h and n = n] Inr
    by (auto simp: Let_def split: prod.splits sum.splits)
qed

end
