(* ===== verification/Heap_Copy.thy ===== *)
theory Heap_Copy
  imports Go_Monad
begin

text \<open>
  Memory, and what a deep copy is. Everywhere else in the development a Go struct is a value: its
  pointers, slices and maps are part of it. That is right as long as nobody writes to memory that is
  shared, which is what the generated \<^verbatim>\<open>DeepCopy\<close> methods are for. Here pointers are addresses of a
  heap. The locale \<open>deep_copy\<close> is the contract of a copying function for a type: \<open>view\<close> reads a value of
  the type from the heap (the value the other theories work with), \<open>foot\<close> is the set of addresses it
  occupies. A copy has the same view and occupies new addresses only. The combinators below are the
  patterns the generator writes for pointers, slices, maps and structs.
\<close>

section \<open>The heap\<close>

type_synonym addr = nat

record 'c Heap =
  hp_Cells :: "addr \<rightharpoonup> 'c"
  hp_Next :: addr

definition heap_wf :: "'c Heap \<Rightarrow> bool" where
  "heap_wf h \<longleftrightarrow> dom (hp_Cells h) \<subseteq> {..<hp_Next h}"

definition load :: "('c \<Rightarrow> 'a option) \<Rightarrow> addr \<Rightarrow> 'c Heap \<Rightarrow> 'a option" where
  "load prj a h = Option.bind (hp_Cells h a) prj"

definition store :: "addr \<Rightarrow> 'c \<Rightarrow> 'c Heap \<Rightarrow> 'c Heap" where
  "store a c h = h\<lparr>hp_Cells := (hp_Cells h)(a \<mapsto> c)\<rparr>"

definition alloc :: "'c \<Rightarrow> ('c Heap, addr) go" where
  "alloc c = (\<lambda>h. (Inr (hp_Next h), (store (hp_Next h) c h)\<lparr>hp_Next := Suc (hp_Next h)\<rparr>))"

text \<open>Go's memory is safe: a read through a pointer finds a value of its type. Elsewhere the model panics.\<close>
definition deref :: "('c \<Rightarrow> 'a option) \<Rightarrow> addr \<Rightarrow> ('c Heap, 'a) go" where
  "deref prj a = (\<lambda>h. case load prj a h of
     Some x \<Rightarrow> (Inr x, h) | None \<Rightarrow> (Inl (Panic ''invalid memory address''), h))"

text \<open>\<open>later h h'\<close>: memory has only been added.\<close>
definition later :: "'c Heap \<Rightarrow> 'c Heap \<Rightarrow> bool" where
  "later h h' \<longleftrightarrow> hp_Cells h \<subseteq>\<^sub>m hp_Cells h' \<and> hp_Next h \<le> hp_Next h'"

lemma later_refl [simp]: "later h h"
  by (simp add: later_def)

lemma later_trans: "later h h' \<Longrightarrow> later h' h'' \<Longrightarrow> later h h''"
  by (auto simp: later_def intro: map_le_trans)

lemma later_cell: "later h h' \<Longrightarrow> a \<in> dom (hp_Cells h) \<Longrightarrow> hp_Cells h' a = hp_Cells h a"
  by (auto simp: later_def map_le_def)

lemma store_cells [simp]: "hp_Cells (store a c h) = (hp_Cells h)(a \<mapsto> c)"
  by (simp add: store_def)

section \<open>The contract\<close>

locale deep_copy =
  fixes view :: "'c Heap \<Rightarrow> 'x \<Rightarrow> 'v option" and foot :: "'c Heap \<Rightarrow> 'x \<Rightarrow> addr set"
    and copy :: "'x \<Rightarrow> ('c Heap, 'x) go"
  assumes copy_ok: "heap_wf h \<Longrightarrow> view h x = Some v \<Longrightarrow> \<exists>x' h'. copy x h = (Inr x', h') \<and> heap_wf h' \<and>
      later h h' \<and> view h' x' = Some v \<and> foot h' x' \<subseteq> {hp_Next h..<hp_Next h'}"
    and frame: "view h x = Some v \<Longrightarrow> \<forall>a \<in> foot h x. hp_Cells h2 a = hp_Cells h a \<Longrightarrow>
      view h2 x = Some v \<and> foot h2 x = foot h x"
    and foot_allocated: "view h x = Some v \<Longrightarrow> foot h x \<subseteq> dom (hp_Cells h)"
begin

lemma view_later:
  assumes "view h x = Some v" and "later h h'"
  shows "view h' x = Some v \<and> foot h' x = foot h x"
  using frame[OF assms(1)] foot_allocated[OF assms(1)] later_cell[OF assms(2)] by blast

text \<open>The copy and the original are apart: a write to either leaves the view of the other.\<close>
lemma copy_apart:
  assumes wf: "heap_wf h" and x: "view h x = Some v"
  obtains x' h' where "copy x h = (Inr x', h')" "heap_wf h'" "later h h'"
    "view h' x' = Some v" "view h' x = Some v" "foot h' x' \<inter> foot h' x = {}"
    "\<And>a c. a \<in> foot h' x' \<Longrightarrow> view (store a c h') x = Some v"
    "\<And>a c. a \<in> foot h' x \<Longrightarrow> view (store a c h') x' = Some v"
proof -
  obtain x' h' where copy: "copy x h = (Inr x', h')" "heap_wf h'" "later h h'" "view h' x' = Some v"
    "foot h' x' \<subseteq> {hp_Next h..<hp_Next h'}"
    using copy_ok[OF wf x] by blast
  note old = view_later[OF x copy(3)]
  have "foot h x \<subseteq> {..<hp_Next h}" using foot_allocated[OF x] wf by (simp add: heap_wf_def)
  then have apart: "foot h' x' \<inter> foot h' x = {}" using old copy(5) by fastforce
  have kept: "view (store a c h') y = Some v" if "view h' y = Some v" "a \<notin> foot h' y" for a c y
    using frame[OF that(1), of "store a c h'"] that(2) by auto
  show thesis
    by (rule that[OF copy(1-4)]) (use old apart kept copy(4) in auto)
qed

end

section \<open>What the generator writes\<close>

text \<open>\<^verbatim>\<open>*out = *in\<close> for a type without pointers.\<close>
definition copy_plain :: "'x \<Rightarrow> ('c Heap, 'x) go" where "copy_plain x = go_return x"
definition view_plain :: "'c Heap \<Rightarrow> 'x \<Rightarrow> 'x option" where "view_plain h x = Some x"
definition foot_plain :: "'c Heap \<Rightarrow> 'x \<Rightarrow> addr set" where "foot_plain h x = {}"

lemma deep_copy_plain: "deep_copy view_plain foot_plain copy_plain"
  by unfold_locales (simp_all add: view_plain_def foot_plain_def copy_plain_def go_return_def)

text \<open>\<^verbatim>\<open>if in.F != nil { *out = new(T); (*in).DeepCopyInto(*out) }\<close>, the same for \<^verbatim>\<open>make\<close>; a cell holds the
  target of a pointer, the elements of a slice or the entries of a map.\<close>
definition copy_ref ::
  "('c \<Rightarrow> 'x option) \<Rightarrow> ('x \<Rightarrow> 'c) \<Rightarrow> ('x \<Rightarrow> ('c Heap, 'x) go) \<Rightarrow> addr option \<Rightarrow> ('c Heap, addr option) go" where
  "copy_ref prj mk copy p = (case p of
     None \<Rightarrow> go_return None
   | Some a \<Rightarrow> go_bind (deref prj a) (\<lambda>x. go_bind (copy x) (\<lambda>y. go_bind (alloc (mk y)) (\<lambda>b.
       go_return (Some b)))))"

definition view_ref ::
  "('c \<Rightarrow> 'x option) \<Rightarrow> ('c Heap \<Rightarrow> 'x \<Rightarrow> 'v option) \<Rightarrow> 'c Heap \<Rightarrow> addr option \<Rightarrow> 'v option option" where
  "view_ref prj view h p = (case p of
     None \<Rightarrow> Some None
   | Some a \<Rightarrow> Option.bind (load prj a h) (\<lambda>x. map_option Some (view h x)))"

definition foot_ref ::
  "('c \<Rightarrow> 'x option) \<Rightarrow> ('c Heap \<Rightarrow> 'x \<Rightarrow> addr set) \<Rightarrow> 'c Heap \<Rightarrow> addr option \<Rightarrow> addr set" where
  "foot_ref prj foot h p = (case p of
     None \<Rightarrow> {}
   | Some a \<Rightarrow> insert a (case load prj a h of None \<Rightarrow> {} | Some x \<Rightarrow> foot h x))"

lemma deep_copy_ref:
  assumes "deep_copy V F C" and inv: "\<And>x. prj (mk x) = Some x"
  shows "deep_copy (view_ref prj V) (foot_ref prj F) (copy_ref prj mk C)"
proof -
  note dc = deep_copy.copy_ok[OF assms(1)] deep_copy.frame[OF assms(1)] deep_copy.foot_allocated[OF assms(1)]
  show ?thesis
  proof (unfold_locales, goal_cases)
    case (1 h p v)
    show ?case
    proof (cases p)
      case None
      then show ?thesis using 1 by (simp add: copy_ref_def view_ref_def foot_ref_def go_return_def)
    next
      case (Some a)
      then obtain x u where x: "load prj a h = Some x" "V h x = Some u" "v = Some u"
        using 1(2) by (auto simp: view_ref_def bind_eq_Some_conv)
      obtain x' h1 where c: "C x h = (Inr x', h1)" "heap_wf h1" "later h h1" "V h1 x' = Some u"
          "F h1 x' \<subseteq> {hp_Next h..<hp_Next h1}"
        using dc(1)[OF 1(1) x(2)] by blast
      let ?h2 = "(store (hp_Next h1) (mk x') h1)\<lparr>hp_Next := Suc (hp_Next h1)\<rparr>"
      have run: "copy_ref prj mk C p h = (Inr (Some (hp_Next h1)), ?h2)"
        using Some x(1) c(1) by (simp add: copy_ref_def go_bind_def deref_def alloc_def go_return_def)
      have fresh: "hp_Cells h1 (hp_Next h1) = None"
        using c(2) by (auto simp: heap_wf_def)
      have later: "later h1 ?h2" using fresh by (auto simp: later_def map_le_def)
      have same: "V ?h2 x' = Some u" "F ?h2 x' = F h1 x'"
        using deep_copy.view_later[OF assms(1) c(4) later] by blast+
      have loaded: "load prj (hp_Next h1) ?h2 = Some x'" by (simp add: load_def inv)
      have "heap_wf ?h2" using c(2) by (auto simp: heap_wf_def)
      moreover have "later h ?h2" by (rule later_trans[OF c(3) later])
      moreover have "view_ref prj V ?h2 (Some (hp_Next h1)) = Some v"
        using same loaded x(3) by (simp add: view_ref_def)
      moreover have "foot_ref prj F ?h2 (Some (hp_Next h1)) \<subseteq> {hp_Next h..<hp_Next ?h2}"
        using same loaded c(3,5) by (auto simp: foot_ref_def later_def)
      ultimately show ?thesis using run by blast
    qed
  next
    case (2 h p v h2)
    show ?case
    proof (cases p)
      case (Some a)
      then obtain x u where x: "load prj a h = Some x" "V h x = Some u" "v = Some u"
        using 2(1) by (auto simp: view_ref_def bind_eq_Some_conv)
      have "load prj a h2 = Some x" using 2(2) Some x(1) by (simp add: foot_ref_def load_def)
      moreover have "V h2 x = Some u \<and> F h2 x = F h x"
        using 2(2) Some x by (intro dc(2)) (auto simp: foot_ref_def)
      ultimately show ?thesis using Some x by (simp add: view_ref_def foot_ref_def)
    qed (use 2 in \<open>simp add: view_ref_def foot_ref_def\<close>)
  next
    case (3 h p v)
    then show ?case
      using dc(3) by (auto simp: view_ref_def foot_ref_def load_def bind_eq_Some_conv split: option.splits) blast
  qed
qed

text \<open>\<^verbatim>\<open>for i := range *in { (*in)[i].DeepCopyInto(&(*out)[i]) }\<close>\<close>
fun copy_list :: "('x \<Rightarrow> ('c Heap, 'x) go) \<Rightarrow> 'x list \<Rightarrow> ('c Heap, 'x list) go" where
  "copy_list copy [] = go_return []"
| "copy_list copy (x # xs) = go_bind (copy x) (\<lambda>y. go_bind (copy_list copy xs) (\<lambda>ys. go_return (y # ys)))"

fun view_list :: "('c Heap \<Rightarrow> 'x \<Rightarrow> 'v option) \<Rightarrow> 'c Heap \<Rightarrow> 'x list \<Rightarrow> 'v list option" where
  "view_list view h [] = Some []"
| "view_list view h (x # xs) =
     Option.bind (view h x) (\<lambda>v. map_option (\<lambda>vs. v # vs) (view_list view h xs))"

definition foot_list :: "('c Heap \<Rightarrow> 'x \<Rightarrow> addr set) \<Rightarrow> 'c Heap \<Rightarrow> 'x list \<Rightarrow> addr set" where
  "foot_list foot h xs = (\<Union>x \<in> set xs. foot h x)"

text \<open>Two fields of a struct, one after the other.\<close>
definition copy_pair ::
  "('x \<Rightarrow> ('c Heap, 'x) go) \<Rightarrow> ('y \<Rightarrow> ('c Heap, 'y) go) \<Rightarrow> 'x \<times> 'y \<Rightarrow> ('c Heap, 'x \<times> 'y) go" where
  "copy_pair c1 c2 p = go_bind (c1 (fst p)) (\<lambda>x. go_bind (c2 (snd p)) (\<lambda>y. go_return (x, y)))"

definition view_pair ::
  "('c Heap \<Rightarrow> 'x \<Rightarrow> 'v option) \<Rightarrow> ('c Heap \<Rightarrow> 'y \<Rightarrow> 'u option) \<Rightarrow> 'c Heap \<Rightarrow> 'x \<times> 'y \<Rightarrow> ('v \<times> 'u) option" where
  "view_pair v1 v2 h p = Option.bind (v1 h (fst p)) (\<lambda>v. map_option (\<lambda>u. (v, u)) (v2 h (snd p)))"

definition foot_pair ::
  "('c Heap \<Rightarrow> 'x \<Rightarrow> addr set) \<Rightarrow> ('c Heap \<Rightarrow> 'y \<Rightarrow> addr set) \<Rightarrow> 'c Heap \<Rightarrow> 'x \<times> 'y \<Rightarrow> addr set" where
  "foot_pair f1 f2 h p = f1 h (fst p) \<union> f2 h (snd p)"

lemma deep_copy_pair:
  assumes "deep_copy V1 F1 C1" and "deep_copy V2 F2 C2"
  shows "deep_copy (view_pair V1 V2) (foot_pair F1 F2) (copy_pair C1 C2)"
proof (unfold_locales, goal_cases)
  case (1 h p v)
  obtain x y where p: "p = (x, y)" by (cases p)
  obtain v1 v2 where v: "V1 h x = Some v1" "V2 h y = Some v2" "v = (v1, v2)"
    using 1(2) p by (auto simp: view_pair_def bind_eq_Some_conv)
  obtain x' h1 where c1: "C1 x h = (Inr x', h1)" "heap_wf h1" "later h h1" "V1 h1 x' = Some v1"
      "F1 h1 x' \<subseteq> {hp_Next h..<hp_Next h1}"
    using deep_copy.copy_ok[OF assms(1) 1(1) v(1)] by blast
  have "V2 h1 y = Some v2" using deep_copy.view_later[OF assms(2) v(2) c1(3)] ..
  then obtain y' h2 where c2: "C2 y h1 = (Inr y', h2)" "heap_wf h2" "later h1 h2" "V2 h2 y' = Some v2"
      "F2 h2 y' \<subseteq> {hp_Next h1..<hp_Next h2}"
    using deep_copy.copy_ok[OF assms(2) c1(2)] by blast
  have "V1 h2 x' = Some v1" "F1 h2 x' = F1 h1 x'"
    using deep_copy.view_later[OF assms(1) c1(4) c2(3)] by auto
  moreover have "hp_Next h \<le> hp_Next h1" "hp_Next h1 \<le> hp_Next h2" using c1(3) c2(3) by (auto simp: later_def)
  moreover have "copy_pair C1 C2 p h = (Inr (x', y'), h2)"
    using p c1(1) c2(1) by (simp add: copy_pair_def go_bind_def go_return_def)
  ultimately show ?case
    using c1(5) c2 later_trans[OF c1(3) c2(3)] v(3)
    by (intro exI[of _ "(x', y')"] exI[of _ h2]) (fastforce simp: view_pair_def foot_pair_def)
next
  case (2 h p v h2)
  then show ?case
    using deep_copy.frame[OF assms(1), of h "fst p" _ h2] deep_copy.frame[OF assms(2), of h "snd p" _ h2]
    by (auto simp: view_pair_def foot_pair_def bind_eq_Some_conv)
next
  case (3 h p v)
  then show ?case
    using deep_copy.foot_allocated[OF assms(1), of h "fst p"] deep_copy.foot_allocated[OF assms(2), of h "snd p"]
    by (auto simp: view_pair_def foot_pair_def bind_eq_Some_conv)
qed

text \<open>A struct is copied by copying the fields with pointers, which \<open>get\<close> selects and \<open>put\<close> replaces.\<close>
lemma deep_copy_struct:
  assumes "deep_copy V F C" and "\<And>r y. get (put r y) = y" and "\<And>r y v. mk (put r y) v = mk r v"
    and "\<And>h r. view h r = map_option (mk r) (V h (get r))" and "\<And>h r. foot h r = F h (get r)"
    and "\<And>r. copy r = go_bind (C (get r)) (\<lambda>y. go_return (put r y))"
  shows "deep_copy view foot copy"
proof (unfold_locales, goal_cases)
  case (1 h r v)
  then obtain u where u: "V h (get r) = Some u" "v = mk r u" using assms(4) by auto
  obtain y h' where "C (get r) h = (Inr y, h')" "heap_wf h'" "later h h'" "V h' y = Some u"
      "F h' y \<subseteq> {hp_Next h..<hp_Next h'}"
    using deep_copy.copy_ok[OF assms(1) 1(1) u(1)] by blast
  then show ?case using u(2) assms(2-6) by (intro exI[of _ "put r y"] exI[of _ h']) (simp add: go_bind_def go_return_def)
next
  case (2 h r v h2)
  then show ?case using deep_copy.frame[OF assms(1), of h "get r" _ h2] assms(4,5) by auto
next
  case (3 h r v)
  then show ?case using deep_copy.foot_allocated[OF assms(1), of h "get r"] assms(4,5) by auto
qed

lemma view_list_map: "view_list view h xs = Some vs \<Longrightarrow> x \<in> set xs \<Longrightarrow> \<exists>v. view h x = Some v"
  by (induction xs arbitrary: vs) (auto simp: bind_eq_Some_conv)

lemma view_list_later:
  assumes "deep_copy V F C"
  shows "view_list V h xs = Some vs \<Longrightarrow> \<forall>a \<in> foot_list F h xs. hp_Cells h2 a = hp_Cells h a \<Longrightarrow>
    view_list V h2 xs = Some vs \<and> foot_list F h2 xs = foot_list F h xs"
proof (induction xs arbitrary: vs)
  case (Cons x xs)
  then show ?case
    using deep_copy.frame[OF assms, of h x _ h2] by (auto simp: bind_eq_Some_conv foot_list_def)
qed (simp add: foot_list_def)

lemma deep_copy_list:
  assumes "deep_copy V F C"
  shows "deep_copy (view_list V) (foot_list F) (copy_list C)"
proof (unfold_locales, goal_cases)
  case (1 h xs vs)
  then show ?case
  proof (induction xs arbitrary: h vs)
    case Nil
    then show ?case by (simp add: go_return_def foot_list_def)
  next
    case (Cons x xs)
    obtain v us where v: "V h x = Some v" "view_list V h xs = Some us" "vs = v # us"
      using Cons.prems(2) by (auto simp: bind_eq_Some_conv)
    obtain x' h1 where c1: "C x h = (Inr x', h1)" "heap_wf h1" "later h h1" "V h1 x' = Some v"
        "F h1 x' \<subseteq> {hp_Next h..<hp_Next h1}"
      using deep_copy.copy_ok[OF assms Cons.prems(1) v(1)] by blast
    have "foot_list F h xs \<subseteq> dom (hp_Cells h)"
      using view_list_map[OF v(2)] deep_copy.foot_allocated[OF assms] by (fastforce simp: foot_list_def)
    then have "view_list V h1 xs = Some us"
      using view_list_later[OF assms v(2)] later_cell[OF c1(3)] by blast
    from Cons.IH[OF c1(2) this] obtain ys h2 where c2: "copy_list C xs h1 = (Inr ys, h2)" "heap_wf h2"
        "later h1 h2" "view_list V h2 ys = Some us" "foot_list F h2 ys \<subseteq> {hp_Next h1..<hp_Next h2}"
      by blast
    have "V h2 x' = Some v" "F h2 x' = F h1 x'"
      using deep_copy.view_later[OF assms c1(4) c2(3)] by auto
    moreover have "hp_Next h \<le> hp_Next h1" "hp_Next h1 \<le> hp_Next h2" using c1(3) c2(3) by (auto simp: later_def)
    moreover have "copy_list C (x # xs) h = (Inr (x' # ys), h2)"
      using c1(1) c2(1) by (simp add: go_bind_def go_return_def)
    moreover have "foot_list F h2 (x' # ys) = F h2 x' \<union> foot_list F h2 ys" by (simp add: foot_list_def)
    ultimately show ?case
      using c1(5) c2 later_trans[OF c1(3) c2(3)] v(3)
      by (intro exI[of _ "x' # ys"] exI[of _ h2]) fastforce
  qed
next
  case (2 h xs vs h2)
  then show ?case by (rule view_list_later[OF assms])
next
  case (3 h xs vs)
  then show ?case
    using view_list_map[OF 3] deep_copy.foot_allocated[OF assms] by (fastforce simp: foot_list_def)
qed

text \<open>The generated code copies field by field; grouping the fields makes no difference.\<close>
lemma copy_pair_bind:
  "go_bind (copy_pair c1 c2 p) k = go_bind (c1 (fst p)) (\<lambda>x. go_bind (c2 (snd p)) (\<lambda>y. k (x, y)))"
  by (simp add: copy_pair_def go_bind_def go_return_def fun_eq_iff split: prod.splits sum.splits)

end
