(* ===== verification/Deep_Copy.thy ===== *)
theory Deep_Copy
  imports API_Types Heap_Copy
begin

text \<open>
  The generated deep copies of the Kueue resource (\<^verbatim>\<open>src/pkg/apis/kueueoperator/v1/zz_generated.deepcopy.go\<close>)
  and of the types it embeds. For every type with pointers there is a record \<open>H_...\<close> as it lies in
  memory, the function \<open>view_...\<close> that reads it as the value of \<^verbatim>\<open>API_Types\<close> that the other theories use
  (a nil slice or map is read as an empty one), and \<open>DeepCopyInto_...\<close>, the generated code, which is
  an interpretation of \<open>deep_copy\<close>. Types without pointers are the same in memory; their \<^verbatim>\<open>DeepCopyInto\<close>
  is an assignment. \<^verbatim>\<open>DeepCopy\<close> is there for every type, an interpretation of \<open>deep_copy\<close> on pointers. A slice of an API object is a whole array. Of the specification
  that all operators share, the two raw extensions are one array of bytes, as everywhere in the model.
\<close>

section \<open>The types in memory\<close>

text \<open>A slice or a map; nil reads as empty.\<close>
definition view_slice ::
  "('c \<Rightarrow> 'x option) \<Rightarrow> ('c Heap \<Rightarrow> 'x \<Rightarrow> 'v list option) \<Rightarrow> 'c Heap \<Rightarrow> addr option \<Rightarrow> 'v list option" where
  "view_slice prj view h p = map_option (case_option [] id) (view_ref prj view h p)"

lemma deep_copy_slice:
  assumes "deep_copy V F C" and "\<And>x. prj (mk x) = Some x"
  shows "deep_copy (view_slice prj V) (foot_ref prj F) (copy_ref prj mk C)"
  by (rule deep_copy_struct[where get = id and put = "\<lambda>_ y. y" and mk = "\<lambda>_. case_option [] id",
        OF deep_copy_ref[OF assms]])
    (auto simp: view_slice_def go_bind_def go_return_def fun_eq_iff split: prod.splits sum.splits)

record H_OwnerReference =
  hor_APIVersion :: string
  hor_Kind :: string
  hor_Name :: string
  hor_UID :: string
  hor_Controller :: "addr option"
  hor_BlockOwnerDeletion :: "addr option"

record H_ObjectMeta =
  hom_Name :: string
  hom_Namespace :: string
  hom_UID :: string
  hom_ResourceVersion :: string
  hom_Generation :: int
  hom_DeletionTimestamp :: "addr option"
  hom_Labels :: "addr option"
  hom_Annotations :: "addr option"
  hom_OwnerReferences :: "addr option"
  hom_Finalizers :: "addr option"

record H_ControllerMetrics =
  hcmx_CustomLabels :: "addr option"

record H_ControllerManager =
  hcmg_Metrics :: H_ControllerMetrics

record H_AdmissionFairSharingCustom =
  hafc_UsageHalfLifeTimeSeconds :: int32
  hafc_UsageSamplingIntervalSeconds :: int32
  hafc_ResourceWeights :: "addr option"

record H_AdmissionFairSharing =
  hafs_Configuration :: AdmissionFairSharingConfiguration
  hafs_Custom :: H_AdmissionFairSharingCustom

record H_MultiKueue =
  hmk_ExternalFrameworks :: "addr option"

record H_DeviceClassMapping =
  hdcm_Name :: string
  hdcm_DeviceClassNames :: "addr option"
  hdcm_Sources :: "addr option"

record H_Resources =
  hres_DeviceClassMappings :: "addr option"

record H_ByWorkload =
  hbw_Admission :: GangSchedulingWorkloadAdmission
  hbw_TimeoutSeconds :: int32
  hbw_RecoveryTimeoutSeconds :: "addr option"
  hbw_RequeuingStrategy :: RequeuingStrategy

record H_GangScheduling =
  hgs_Policy :: GangSchedulingPolicy
  hgs_ByWorkload :: "addr option"

record H_Integrations =
  hin_Frameworks :: "addr option"
  hin_ExternalFrameworks :: "addr option"
  hin_LabelKeysToCopy :: "addr option"

record H_KueueConfiguration =
  hkc_Integrations :: H_Integrations
  hkc_WorkloadManagement :: WorkloadManagement
  hkc_GangScheduling :: H_GangScheduling
  hkc_Preemption :: Preemption
  hkc_Resources :: H_Resources
  hkc_MultiKueue :: "addr option"
  hkc_AdmissionFairSharing :: H_AdmissionFairSharing
  hkc_ControllerManager :: H_ControllerManager

record H_OperatorSpec =
  hos_LogLevel :: LogLevel
  hos_Rest :: "addr option"

record H_KueueOperandSpec =
  hks_OperatorSpec :: H_OperatorSpec
  hks_Config :: H_KueueConfiguration

record H_OperatorStatus =
  host_Conditions :: "addr option"
  host_ReadyReplicas :: int32
  host_Generations :: "addr option"
  host_Rest :: opaque

record H_KueueStatus =
  hkst_OperatorStatus :: H_OperatorStatus

record H_Kueue =
  hku_ObjectMeta :: H_ObjectMeta
  hku_Spec :: H_KueueOperandSpec
  hku_Status :: H_KueueStatus

record H_KueueList =
  hkl_Items :: "addr option"

text \<open>What a cell holds: the target of a pointer, the elements of a slice or the entries of a
    map.\<close>
datatype cell =
    C_Bool bool
  | C_Int32 int32
  | C_Time nat
  | C_Map "(string, string) gomap"
  | C_Strings "string list"
  | C_Bytes string
  | C_OwnerReferences "H_OwnerReference list"
  | C_CustomLabels "ControllerMetricsCustomLabel list"
  | C_ResourceWeights "ResourceWeight list"
  | C_ExternalFrameworks "ExternalFramework list"
  | C_SourceConfigs "DeviceClassSourceConfig list"
  | C_DeviceClassMappings "H_DeviceClassMapping list"
  | C_LabelKeyList "LabelKeys list"
  | C_ByWorkload H_ByWorkload
  | C_MultiKueue H_MultiKueue
  | C_Conditions "OperatorCondition list"
  | C_Generations "GenerationStatus list"
  | C_Kueue H_Kueue
  | C_Kueues "H_Kueue list"
  | C_KueueList H_KueueList
  | C_AdmissionFairSharing H_AdmissionFairSharing
  | C_AdmissionFairSharingCustom H_AdmissionFairSharingCustom
  | C_ControllerManager H_ControllerManager
  | C_ControllerMetrics H_ControllerMetrics
  | C_DeviceClassMapping H_DeviceClassMapping
  | C_GangScheduling H_GangScheduling
  | C_Integrations H_Integrations
  | C_KueueConfiguration H_KueueConfiguration
  | C_KueueOperandSpec H_KueueOperandSpec
  | C_KueueStatus H_KueueStatus
  | C_Resources H_Resources
  | C_CELDeviceSelector CELDeviceSelector
  | C_ControllerMetricsCustomLabel ControllerMetricsCustomLabel
  | C_DeviceClassCapacitySource DeviceClassCapacitySource
  | C_DeviceClassCounterSource DeviceClassCounterSource
  | C_DeviceClassSourceConfig DeviceClassSourceConfig
  | C_DeviceSelector DeviceSelector
  | C_ExternalFramework ExternalFramework
  | C_LabelKeys LabelKeys
  | C_Preemption Preemption
  | C_RequeuingStrategy RequeuingStrategy
  | C_ResourceWeight ResourceWeight
  | C_SourceKey SourceKey
  | C_SourceKeyAnnotation SourceKeyAnnotation
  | C_SourceKeyLabel SourceKeyLabel
  | C_WorkloadManagement WorkloadManagement

definition as_Bool :: "cell \<Rightarrow> bool option" where
  "as_Bool c = (case c of C_Bool x \<Rightarrow> Some x | _ \<Rightarrow> None)"

definition as_Int32 :: "cell \<Rightarrow> int32 option" where
  "as_Int32 c = (case c of C_Int32 x \<Rightarrow> Some x | _ \<Rightarrow> None)"

definition as_Time :: "cell \<Rightarrow> nat option" where
  "as_Time c = (case c of C_Time x \<Rightarrow> Some x | _ \<Rightarrow> None)"

definition as_Map :: "cell \<Rightarrow> ((string, string) gomap) option" where
  "as_Map c = (case c of C_Map x \<Rightarrow> Some x | _ \<Rightarrow> None)"

definition as_Strings :: "cell \<Rightarrow> (string list) option" where
  "as_Strings c = (case c of C_Strings x \<Rightarrow> Some x | _ \<Rightarrow> None)"

definition as_Bytes :: "cell \<Rightarrow> string option" where
  "as_Bytes c = (case c of C_Bytes x \<Rightarrow> Some x | _ \<Rightarrow> None)"

definition as_OwnerReferences :: "cell \<Rightarrow> (H_OwnerReference list) option" where
  "as_OwnerReferences c = (case c of C_OwnerReferences x \<Rightarrow> Some x | _ \<Rightarrow> None)"

definition as_CustomLabels :: "cell \<Rightarrow> (ControllerMetricsCustomLabel list) option" where
  "as_CustomLabels c = (case c of C_CustomLabels x \<Rightarrow> Some x | _ \<Rightarrow> None)"

definition as_ResourceWeights :: "cell \<Rightarrow> (ResourceWeight list) option" where
  "as_ResourceWeights c = (case c of C_ResourceWeights x \<Rightarrow> Some x | _ \<Rightarrow> None)"

definition as_ExternalFrameworks :: "cell \<Rightarrow> (ExternalFramework list) option" where
  "as_ExternalFrameworks c = (case c of C_ExternalFrameworks x \<Rightarrow> Some x | _ \<Rightarrow> None)"

definition as_SourceConfigs :: "cell \<Rightarrow> (DeviceClassSourceConfig list) option" where
  "as_SourceConfigs c = (case c of C_SourceConfigs x \<Rightarrow> Some x | _ \<Rightarrow> None)"

definition as_DeviceClassMappings :: "cell \<Rightarrow> (H_DeviceClassMapping list) option" where
  "as_DeviceClassMappings c = (case c of C_DeviceClassMappings x \<Rightarrow> Some x | _ \<Rightarrow>
      None)"

definition as_LabelKeyList :: "cell \<Rightarrow> (LabelKeys list) option" where
  "as_LabelKeyList c = (case c of C_LabelKeyList x \<Rightarrow> Some x | _ \<Rightarrow> None)"

definition as_ByWorkload :: "cell \<Rightarrow> H_ByWorkload option" where
  "as_ByWorkload c = (case c of C_ByWorkload x \<Rightarrow> Some x | _ \<Rightarrow> None)"

definition as_MultiKueue :: "cell \<Rightarrow> H_MultiKueue option" where
  "as_MultiKueue c = (case c of C_MultiKueue x \<Rightarrow> Some x | _ \<Rightarrow> None)"

definition as_Conditions :: "cell \<Rightarrow> (OperatorCondition list) option" where
  "as_Conditions c = (case c of C_Conditions x \<Rightarrow> Some x | _ \<Rightarrow> None)"

definition as_Generations :: "cell \<Rightarrow> (GenerationStatus list) option" where
  "as_Generations c = (case c of C_Generations x \<Rightarrow> Some x | _ \<Rightarrow> None)"

definition as_Kueue :: "cell \<Rightarrow> H_Kueue option" where
  "as_Kueue c = (case c of C_Kueue x \<Rightarrow> Some x | _ \<Rightarrow> None)"

definition as_Kueues :: "cell \<Rightarrow> (H_Kueue list) option" where
  "as_Kueues c = (case c of C_Kueues x \<Rightarrow> Some x | _ \<Rightarrow> None)"

definition as_KueueList :: "cell \<Rightarrow> H_KueueList option" where
  "as_KueueList c = (case c of C_KueueList x \<Rightarrow> Some x | _ \<Rightarrow> None)"

definition as_AdmissionFairSharing :: "cell \<Rightarrow> H_AdmissionFairSharing option" where
  "as_AdmissionFairSharing c = (case c of C_AdmissionFairSharing x \<Rightarrow> Some x | _
      \<Rightarrow> None)"

definition as_AdmissionFairSharingCustom :: "cell \<Rightarrow> H_AdmissionFairSharingCustom option" where
  "as_AdmissionFairSharingCustom c = (case c of C_AdmissionFairSharingCustom x \<Rightarrow> Some x | _
      \<Rightarrow> None)"

definition as_ControllerManager :: "cell \<Rightarrow> H_ControllerManager option" where
  "as_ControllerManager c = (case c of C_ControllerManager x \<Rightarrow> Some x | _ \<Rightarrow> None)"

definition as_ControllerMetrics :: "cell \<Rightarrow> H_ControllerMetrics option" where
  "as_ControllerMetrics c = (case c of C_ControllerMetrics x \<Rightarrow> Some x | _ \<Rightarrow> None)"

definition as_DeviceClassMapping :: "cell \<Rightarrow> H_DeviceClassMapping option" where
  "as_DeviceClassMapping c = (case c of C_DeviceClassMapping x \<Rightarrow> Some x | _ \<Rightarrow> None)"

definition as_GangScheduling :: "cell \<Rightarrow> H_GangScheduling option" where
  "as_GangScheduling c = (case c of C_GangScheduling x \<Rightarrow> Some x | _ \<Rightarrow> None)"

definition as_Integrations :: "cell \<Rightarrow> H_Integrations option" where
  "as_Integrations c = (case c of C_Integrations x \<Rightarrow> Some x | _ \<Rightarrow> None)"

definition as_KueueConfiguration :: "cell \<Rightarrow> H_KueueConfiguration option" where
  "as_KueueConfiguration c = (case c of C_KueueConfiguration x \<Rightarrow> Some x | _ \<Rightarrow> None)"

definition as_KueueOperandSpec :: "cell \<Rightarrow> H_KueueOperandSpec option" where
  "as_KueueOperandSpec c = (case c of C_KueueOperandSpec x \<Rightarrow> Some x | _ \<Rightarrow> None)"

definition as_KueueStatus :: "cell \<Rightarrow> H_KueueStatus option" where
  "as_KueueStatus c = (case c of C_KueueStatus x \<Rightarrow> Some x | _ \<Rightarrow> None)"

definition as_Resources :: "cell \<Rightarrow> H_Resources option" where
  "as_Resources c = (case c of C_Resources x \<Rightarrow> Some x | _ \<Rightarrow> None)"

definition as_CELDeviceSelector :: "cell \<Rightarrow> CELDeviceSelector option" where
  "as_CELDeviceSelector c = (case c of C_CELDeviceSelector x \<Rightarrow> Some x | _ \<Rightarrow> None)"

definition as_ControllerMetricsCustomLabel :: "cell \<Rightarrow> ControllerMetricsCustomLabel option" where
  "as_ControllerMetricsCustomLabel c = (case c of C_ControllerMetricsCustomLabel x \<Rightarrow> Some x
      | _ \<Rightarrow> None)"

definition as_DeviceClassCapacitySource :: "cell \<Rightarrow> DeviceClassCapacitySource option" where
  "as_DeviceClassCapacitySource c = (case c of C_DeviceClassCapacitySource x \<Rightarrow> Some x | _
      \<Rightarrow> None)"

definition as_DeviceClassCounterSource :: "cell \<Rightarrow> DeviceClassCounterSource option" where
  "as_DeviceClassCounterSource c = (case c of C_DeviceClassCounterSource x \<Rightarrow> Some x | _
      \<Rightarrow> None)"

definition as_DeviceClassSourceConfig :: "cell \<Rightarrow> DeviceClassSourceConfig option" where
  "as_DeviceClassSourceConfig c = (case c of C_DeviceClassSourceConfig x \<Rightarrow> Some x | _
      \<Rightarrow> None)"

definition as_DeviceSelector :: "cell \<Rightarrow> DeviceSelector option" where
  "as_DeviceSelector c = (case c of C_DeviceSelector x \<Rightarrow> Some x | _ \<Rightarrow> None)"

definition as_ExternalFramework :: "cell \<Rightarrow> ExternalFramework option" where
  "as_ExternalFramework c = (case c of C_ExternalFramework x \<Rightarrow> Some x | _ \<Rightarrow> None)"

definition as_LabelKeys :: "cell \<Rightarrow> LabelKeys option" where
  "as_LabelKeys c = (case c of C_LabelKeys x \<Rightarrow> Some x | _ \<Rightarrow> None)"

definition as_Preemption :: "cell \<Rightarrow> Preemption option" where
  "as_Preemption c = (case c of C_Preemption x \<Rightarrow> Some x | _ \<Rightarrow> None)"

definition as_RequeuingStrategy :: "cell \<Rightarrow> RequeuingStrategy option" where
  "as_RequeuingStrategy c = (case c of C_RequeuingStrategy x \<Rightarrow> Some x | _ \<Rightarrow> None)"

definition as_ResourceWeight :: "cell \<Rightarrow> ResourceWeight option" where
  "as_ResourceWeight c = (case c of C_ResourceWeight x \<Rightarrow> Some x | _ \<Rightarrow> None)"

definition as_SourceKey :: "cell \<Rightarrow> SourceKey option" where
  "as_SourceKey c = (case c of C_SourceKey x \<Rightarrow> Some x | _ \<Rightarrow> None)"

definition as_SourceKeyAnnotation :: "cell \<Rightarrow> SourceKeyAnnotation option" where
  "as_SourceKeyAnnotation c = (case c of C_SourceKeyAnnotation x \<Rightarrow> Some x | _ \<Rightarrow>
      None)"

definition as_SourceKeyLabel :: "cell \<Rightarrow> SourceKeyLabel option" where
  "as_SourceKeyLabel c = (case c of C_SourceKeyLabel x \<Rightarrow> Some x | _ \<Rightarrow> None)"

definition as_WorkloadManagement :: "cell \<Rightarrow> WorkloadManagement option" where
  "as_WorkloadManagement c = (case c of C_WorkloadManagement x \<Rightarrow> Some x | _ \<Rightarrow> None)"

lemma as_Bool_C: "as_Bool (C_Bool x) = Some x" by (simp add: as_Bool_def)
lemma as_Int32_C: "as_Int32 (C_Int32 x) = Some x" by (simp add: as_Int32_def)
lemma as_Time_C: "as_Time (C_Time x) = Some x" by (simp add: as_Time_def)
lemma as_Map_C: "as_Map (C_Map x) = Some x" by (simp add: as_Map_def)
lemma as_Strings_C: "as_Strings (C_Strings x) = Some x" by (simp add: as_Strings_def)
lemma as_Bytes_C: "as_Bytes (C_Bytes x) = Some x" by (simp add: as_Bytes_def)
lemma as_OwnerReferences_C: "as_OwnerReferences (C_OwnerReferences x) = Some x" by (simp add:
    as_OwnerReferences_def)
lemma as_CustomLabels_C: "as_CustomLabels (C_CustomLabels x) = Some x" by (simp add: as_CustomLabels_def)
lemma as_ResourceWeights_C: "as_ResourceWeights (C_ResourceWeights x) = Some x" by (simp add:
    as_ResourceWeights_def)
lemma as_ExternalFrameworks_C: "as_ExternalFrameworks (C_ExternalFrameworks x) = Some x" by (simp add:
    as_ExternalFrameworks_def)
lemma as_SourceConfigs_C: "as_SourceConfigs (C_SourceConfigs x) = Some x" by (simp add:
    as_SourceConfigs_def)
lemma as_DeviceClassMappings_C: "as_DeviceClassMappings (C_DeviceClassMappings x) = Some x" by (simp
    add: as_DeviceClassMappings_def)
lemma as_LabelKeyList_C: "as_LabelKeyList (C_LabelKeyList x) = Some x" by (simp add: as_LabelKeyList_def)
lemma as_ByWorkload_C: "as_ByWorkload (C_ByWorkload x) = Some x" by (simp add: as_ByWorkload_def)
lemma as_MultiKueue_C: "as_MultiKueue (C_MultiKueue x) = Some x" by (simp add: as_MultiKueue_def)
lemma as_Conditions_C: "as_Conditions (C_Conditions x) = Some x" by (simp add: as_Conditions_def)
lemma as_Generations_C: "as_Generations (C_Generations x) = Some x" by (simp add: as_Generations_def)
lemma as_Kueue_C: "as_Kueue (C_Kueue x) = Some x" by (simp add: as_Kueue_def)
lemma as_Kueues_C: "as_Kueues (C_Kueues x) = Some x" by (simp add: as_Kueues_def)
lemma as_KueueList_C: "as_KueueList (C_KueueList x) = Some x" by (simp add: as_KueueList_def)
lemma as_AdmissionFairSharing_C: "as_AdmissionFairSharing (C_AdmissionFairSharing x) = Some x" by (simp
    add: as_AdmissionFairSharing_def)
lemma as_AdmissionFairSharingCustom_C: "as_AdmissionFairSharingCustom (C_AdmissionFairSharingCustom x) =
    Some x" by (simp add: as_AdmissionFairSharingCustom_def)
lemma as_ControllerManager_C: "as_ControllerManager (C_ControllerManager x) = Some x" by (simp add:
    as_ControllerManager_def)
lemma as_ControllerMetrics_C: "as_ControllerMetrics (C_ControllerMetrics x) = Some x" by (simp add:
    as_ControllerMetrics_def)
lemma as_DeviceClassMapping_C: "as_DeviceClassMapping (C_DeviceClassMapping x) = Some x" by (simp add:
    as_DeviceClassMapping_def)
lemma as_GangScheduling_C: "as_GangScheduling (C_GangScheduling x) = Some x" by (simp add:
    as_GangScheduling_def)
lemma as_Integrations_C: "as_Integrations (C_Integrations x) = Some x" by (simp add: as_Integrations_def)
lemma as_KueueConfiguration_C: "as_KueueConfiguration (C_KueueConfiguration x) = Some x" by (simp add:
    as_KueueConfiguration_def)
lemma as_KueueOperandSpec_C: "as_KueueOperandSpec (C_KueueOperandSpec x) = Some x" by (simp add:
    as_KueueOperandSpec_def)
lemma as_KueueStatus_C: "as_KueueStatus (C_KueueStatus x) = Some x" by (simp add: as_KueueStatus_def)
lemma as_Resources_C: "as_Resources (C_Resources x) = Some x" by (simp add: as_Resources_def)
lemma as_CELDeviceSelector_C: "as_CELDeviceSelector (C_CELDeviceSelector x) = Some x" by (simp add:
    as_CELDeviceSelector_def)
lemma as_ControllerMetricsCustomLabel_C: "as_ControllerMetricsCustomLabel
    (C_ControllerMetricsCustomLabel x) = Some x" by (simp add: as_ControllerMetricsCustomLabel_def)
lemma as_DeviceClassCapacitySource_C: "as_DeviceClassCapacitySource (C_DeviceClassCapacitySource x) =
    Some x" by (simp add: as_DeviceClassCapacitySource_def)
lemma as_DeviceClassCounterSource_C: "as_DeviceClassCounterSource (C_DeviceClassCounterSource x) = Some
    x" by (simp add: as_DeviceClassCounterSource_def)
lemma as_DeviceClassSourceConfig_C: "as_DeviceClassSourceConfig (C_DeviceClassSourceConfig x) = Some x"
    by (simp add: as_DeviceClassSourceConfig_def)
lemma as_DeviceSelector_C: "as_DeviceSelector (C_DeviceSelector x) = Some x" by (simp add:
    as_DeviceSelector_def)
lemma as_ExternalFramework_C: "as_ExternalFramework (C_ExternalFramework x) = Some x" by (simp add:
    as_ExternalFramework_def)
lemma as_LabelKeys_C: "as_LabelKeys (C_LabelKeys x) = Some x" by (simp add: as_LabelKeys_def)
lemma as_Preemption_C: "as_Preemption (C_Preemption x) = Some x" by (simp add: as_Preemption_def)
lemma as_RequeuingStrategy_C: "as_RequeuingStrategy (C_RequeuingStrategy x) = Some x" by (simp add:
    as_RequeuingStrategy_def)
lemma as_ResourceWeight_C: "as_ResourceWeight (C_ResourceWeight x) = Some x" by (simp add:
    as_ResourceWeight_def)
lemma as_SourceKey_C: "as_SourceKey (C_SourceKey x) = Some x" by (simp add: as_SourceKey_def)
lemma as_SourceKeyAnnotation_C: "as_SourceKeyAnnotation (C_SourceKeyAnnotation x) = Some x" by (simp
    add: as_SourceKeyAnnotation_def)
lemma as_SourceKeyLabel_C: "as_SourceKeyLabel (C_SourceKeyLabel x) = Some x" by (simp add:
    as_SourceKeyLabel_def)
lemma as_WorkloadManagement_C: "as_WorkloadManagement (C_WorkloadManagement x) = Some x" by (simp add:
    as_WorkloadManagement_def)

lemmas pointer_Bool = deep_copy_ref[where prj = as_Bool and mk = C_Bool, OF deep_copy_plain as_Bool_C]

definition read_OwnerReference where
  "read_OwnerReference r = (\<lambda>(v1, v2). \<lparr>or_APIVersion = hor_APIVersion r, or_Kind =
      hor_Kind r, or_Name = hor_Name r, or_UID = hor_UID r, or_Controller = v1, or_BlockOwnerDeletion =
      v2\<rparr> :: OwnerReference)"

definition view_OwnerReference :: "cell Heap \<Rightarrow> H_OwnerReference \<Rightarrow> OwnerReference
    option" where
  "view_OwnerReference h r = map_option (read_OwnerReference r) (view_pair (view_ref as_Bool view_plain)
      (view_ref as_Bool view_plain) h (hor_Controller r, hor_BlockOwnerDeletion r))"

definition foot_OwnerReference :: "cell Heap \<Rightarrow> H_OwnerReference \<Rightarrow> addr set" where
  "foot_OwnerReference h r = foot_ref as_Bool foot_plain h (hor_Controller r) \<union> foot_ref as_Bool
      foot_plain h (hor_BlockOwnerDeletion r)"

definition DeepCopyInto_OwnerReference :: "H_OwnerReference \<Rightarrow> (cell Heap, H_OwnerReference)
    go" where
  "DeepCopyInto_OwnerReference r =
     go_bind (copy_ref as_Bool C_Bool copy_plain (hor_Controller r)) (\<lambda>y1.
     go_bind (copy_ref as_Bool C_Bool copy_plain (hor_BlockOwnerDeletion r)) (\<lambda>y2.
     go_return (r\<lparr>hor_Controller := y1, hor_BlockOwnerDeletion := y2\<rparr>)))"

interpretation dc_OwnerReference: deep_copy view_OwnerReference foot_OwnerReference
    DeepCopyInto_OwnerReference
  by (rule deep_copy_struct[where get = "\<lambda>r. (hor_Controller r, hor_BlockOwnerDeletion r)" and
      put = "\<lambda>r (y1, y2). r\<lparr>hor_Controller := y1, hor_BlockOwnerDeletion := y2\<rparr>"
        and mk = read_OwnerReference, OF deep_copy_pair[OF pointer_Bool pointer_Bool]])
    (auto simp: read_OwnerReference_def view_OwnerReference_def foot_OwnerReference_def
        DeepCopyInto_OwnerReference_def copy_pair_bind foot_pair_def)

lemmas pointer_Time = deep_copy_ref[where prj = as_Time and mk = C_Time, OF deep_copy_plain as_Time_C]

lemmas slice_Map = deep_copy_slice[where prj = as_Map and mk = C_Map, OF deep_copy_plain as_Map_C]

lemmas slice_OwnerReferences = deep_copy_slice[where prj = as_OwnerReferences and mk =
    C_OwnerReferences, OF deep_copy_list[OF dc_OwnerReference.deep_copy_axioms] as_OwnerReferences_C]

lemmas slice_Strings = deep_copy_slice[where prj = as_Strings and mk = C_Strings, OF deep_copy_plain
    as_Strings_C]

definition read_ObjectMeta where
  "read_ObjectMeta r = (\<lambda>(v1, v2, v3, v4, v5). \<lparr>om_Name = hom_Name r, om_Namespace =
      hom_Namespace r, om_UID = hom_UID r, om_ResourceVersion = hom_ResourceVersion r, om_Generation =
      hom_Generation r, om_DeletionTimestamp = v1, om_Labels = v2, om_Annotations = v3,
      om_OwnerReferences = v4, om_Finalizers = v5\<rparr> :: ObjectMeta)"

definition view_ObjectMeta :: "cell Heap \<Rightarrow> H_ObjectMeta \<Rightarrow> ObjectMeta option" where
  "view_ObjectMeta h r = map_option (read_ObjectMeta r) (view_pair (view_ref as_Time view_plain)
      (view_pair (view_slice as_Map view_plain) (view_pair (view_slice as_Map view_plain) (view_pair
      (view_slice as_OwnerReferences (view_list view_OwnerReference)) (view_slice as_Strings
      view_plain)))) h (hom_DeletionTimestamp r, hom_Labels r, hom_Annotations r, hom_OwnerReferences r,
      hom_Finalizers r))"

definition foot_ObjectMeta :: "cell Heap \<Rightarrow> H_ObjectMeta \<Rightarrow> addr set" where
  "foot_ObjectMeta h r = foot_ref as_Time foot_plain h (hom_DeletionTimestamp r) \<union> foot_ref
      as_Map foot_plain h (hom_Labels r) \<union> foot_ref as_Map foot_plain h (hom_Annotations r)
      \<union> foot_ref as_OwnerReferences (foot_list foot_OwnerReference) h (hom_OwnerReferences r)
      \<union> foot_ref as_Strings foot_plain h (hom_Finalizers r)"

definition DeepCopyInto_ObjectMeta :: "H_ObjectMeta \<Rightarrow> (cell Heap, H_ObjectMeta) go" where
  "DeepCopyInto_ObjectMeta r =
     go_bind (copy_ref as_Time C_Time copy_plain (hom_DeletionTimestamp r)) (\<lambda>y1.
     go_bind (copy_ref as_Map C_Map copy_plain (hom_Labels r)) (\<lambda>y2.
     go_bind (copy_ref as_Map C_Map copy_plain (hom_Annotations r)) (\<lambda>y3.
     go_bind (copy_ref as_OwnerReferences C_OwnerReferences (copy_list DeepCopyInto_OwnerReference)
         (hom_OwnerReferences r)) (\<lambda>y4.
     go_bind (copy_ref as_Strings C_Strings copy_plain (hom_Finalizers r)) (\<lambda>y5.
     go_return (r\<lparr>hom_DeletionTimestamp := y1, hom_Labels := y2, hom_Annotations := y3,
         hom_OwnerReferences := y4, hom_Finalizers := y5\<rparr>))))))"

interpretation dc_ObjectMeta: deep_copy view_ObjectMeta foot_ObjectMeta DeepCopyInto_ObjectMeta
  by (rule deep_copy_struct[where get = "\<lambda>r. (hom_DeletionTimestamp r, hom_Labels r,
      hom_Annotations r, hom_OwnerReferences r, hom_Finalizers r)" and put = "\<lambda>r (y1, y2, y3,
      y4, y5). r\<lparr>hom_DeletionTimestamp := y1, hom_Labels := y2, hom_Annotations := y3,
      hom_OwnerReferences := y4, hom_Finalizers := y5\<rparr>"
        and mk = read_ObjectMeta, OF deep_copy_pair[OF pointer_Time deep_copy_pair[OF slice_Map
            deep_copy_pair[OF slice_Map deep_copy_pair[OF slice_OwnerReferences slice_Strings]]]]])
    (auto simp: read_ObjectMeta_def view_ObjectMeta_def foot_ObjectMeta_def DeepCopyInto_ObjectMeta_def
        copy_pair_bind foot_pair_def)

lemmas slice_CustomLabels = deep_copy_slice[where prj = as_CustomLabels and mk = C_CustomLabels, OF
    deep_copy_plain as_CustomLabels_C]

definition read_ControllerMetrics where
  "read_ControllerMetrics r = (\<lambda>v1. \<lparr>cmx_CustomLabels = v1\<rparr> :: ControllerMetrics)"

definition view_ControllerMetrics :: "cell Heap \<Rightarrow> H_ControllerMetrics \<Rightarrow>
    ControllerMetrics option" where
  "view_ControllerMetrics h r = map_option (read_ControllerMetrics r) (view_slice as_CustomLabels
      view_plain h (hcmx_CustomLabels r))"

definition foot_ControllerMetrics :: "cell Heap \<Rightarrow> H_ControllerMetrics \<Rightarrow> addr
    set" where
  "foot_ControllerMetrics h r = foot_ref as_CustomLabels foot_plain h (hcmx_CustomLabels r)"

definition DeepCopyInto_ControllerMetrics :: "H_ControllerMetrics \<Rightarrow> (cell Heap,
    H_ControllerMetrics) go" where
  "DeepCopyInto_ControllerMetrics r =
     go_bind (copy_ref as_CustomLabels C_CustomLabels copy_plain (hcmx_CustomLabels r)) (\<lambda>y1.
     go_return (r\<lparr>hcmx_CustomLabels := y1\<rparr>))"

interpretation dc_ControllerMetrics: deep_copy view_ControllerMetrics foot_ControllerMetrics
    DeepCopyInto_ControllerMetrics
  by (rule deep_copy_struct[where get = "\<lambda>r. hcmx_CustomLabels r" and put = "\<lambda>r y1.
      r\<lparr>hcmx_CustomLabels := y1\<rparr>"
        and mk = read_ControllerMetrics, OF slice_CustomLabels])
    (auto simp: read_ControllerMetrics_def view_ControllerMetrics_def foot_ControllerMetrics_def
        DeepCopyInto_ControllerMetrics_def copy_pair_bind foot_pair_def)

definition read_ControllerManager where
  "read_ControllerManager r = (\<lambda>v1. \<lparr>cmg_Metrics = v1\<rparr> :: ControllerManager)"

definition view_ControllerManager :: "cell Heap \<Rightarrow> H_ControllerManager \<Rightarrow>
    ControllerManager option" where
  "view_ControllerManager h r = map_option (read_ControllerManager r) (view_ControllerMetrics h
      (hcmg_Metrics r))"

definition foot_ControllerManager :: "cell Heap \<Rightarrow> H_ControllerManager \<Rightarrow> addr
    set" where
  "foot_ControllerManager h r = foot_ControllerMetrics h (hcmg_Metrics r)"

definition DeepCopyInto_ControllerManager :: "H_ControllerManager \<Rightarrow> (cell Heap,
    H_ControllerManager) go" where
  "DeepCopyInto_ControllerManager r =
     go_bind (DeepCopyInto_ControllerMetrics (hcmg_Metrics r)) (\<lambda>y1.
     go_return (r\<lparr>hcmg_Metrics := y1\<rparr>))"

interpretation dc_ControllerManager: deep_copy view_ControllerManager foot_ControllerManager
    DeepCopyInto_ControllerManager
  by (rule deep_copy_struct[where get = "\<lambda>r. hcmg_Metrics r" and put = "\<lambda>r y1.
      r\<lparr>hcmg_Metrics := y1\<rparr>"
        and mk = read_ControllerManager, OF dc_ControllerMetrics.deep_copy_axioms])
    (auto simp: read_ControllerManager_def view_ControllerManager_def foot_ControllerManager_def
        DeepCopyInto_ControllerManager_def copy_pair_bind foot_pair_def)

lemmas slice_ResourceWeights = deep_copy_slice[where prj = as_ResourceWeights and mk =
    C_ResourceWeights, OF deep_copy_plain as_ResourceWeights_C]

definition read_AdmissionFairSharingCustom where
  "read_AdmissionFairSharingCustom r = (\<lambda>v1. \<lparr>afc_UsageHalfLifeTimeSeconds =
      hafc_UsageHalfLifeTimeSeconds r, afc_UsageSamplingIntervalSeconds =
      hafc_UsageSamplingIntervalSeconds r, afc_ResourceWeights = v1\<rparr> ::
      AdmissionFairSharingCustom)"

definition view_AdmissionFairSharingCustom :: "cell Heap \<Rightarrow> H_AdmissionFairSharingCustom
    \<Rightarrow> AdmissionFairSharingCustom option" where
  "view_AdmissionFairSharingCustom h r = map_option (read_AdmissionFairSharingCustom r) (view_slice
      as_ResourceWeights view_plain h (hafc_ResourceWeights r))"

definition foot_AdmissionFairSharingCustom :: "cell Heap \<Rightarrow> H_AdmissionFairSharingCustom
    \<Rightarrow> addr set" where
  "foot_AdmissionFairSharingCustom h r = foot_ref as_ResourceWeights foot_plain h (hafc_ResourceWeights r)"

definition DeepCopyInto_AdmissionFairSharingCustom :: "H_AdmissionFairSharingCustom \<Rightarrow> (cell
    Heap, H_AdmissionFairSharingCustom) go" where
  "DeepCopyInto_AdmissionFairSharingCustom r =
     go_bind (copy_ref as_ResourceWeights C_ResourceWeights copy_plain (hafc_ResourceWeights r))
         (\<lambda>y1.
     go_return (r\<lparr>hafc_ResourceWeights := y1\<rparr>))"

interpretation dc_AdmissionFairSharingCustom: deep_copy view_AdmissionFairSharingCustom
    foot_AdmissionFairSharingCustom DeepCopyInto_AdmissionFairSharingCustom
  by (rule deep_copy_struct[where get = "\<lambda>r. hafc_ResourceWeights r" and put = "\<lambda>r y1.
      r\<lparr>hafc_ResourceWeights := y1\<rparr>"
        and mk = read_AdmissionFairSharingCustom, OF slice_ResourceWeights])
    (auto simp: read_AdmissionFairSharingCustom_def view_AdmissionFairSharingCustom_def
        foot_AdmissionFairSharingCustom_def DeepCopyInto_AdmissionFairSharingCustom_def copy_pair_bind
        foot_pair_def)

definition read_AdmissionFairSharing where
  "read_AdmissionFairSharing r = (\<lambda>v1. \<lparr>afs_Configuration = hafs_Configuration r,
      afs_Custom = v1\<rparr> :: AdmissionFairSharing)"

definition view_AdmissionFairSharing :: "cell Heap \<Rightarrow> H_AdmissionFairSharing \<Rightarrow>
    AdmissionFairSharing option" where
  "view_AdmissionFairSharing h r = map_option (read_AdmissionFairSharing r)
      (view_AdmissionFairSharingCustom h (hafs_Custom r))"

definition foot_AdmissionFairSharing :: "cell Heap \<Rightarrow> H_AdmissionFairSharing \<Rightarrow>
    addr set" where
  "foot_AdmissionFairSharing h r = foot_AdmissionFairSharingCustom h (hafs_Custom r)"

definition DeepCopyInto_AdmissionFairSharing :: "H_AdmissionFairSharing \<Rightarrow> (cell Heap,
    H_AdmissionFairSharing) go" where
  "DeepCopyInto_AdmissionFairSharing r =
     go_bind (DeepCopyInto_AdmissionFairSharingCustom (hafs_Custom r)) (\<lambda>y1.
     go_return (r\<lparr>hafs_Custom := y1\<rparr>))"

interpretation dc_AdmissionFairSharing: deep_copy view_AdmissionFairSharing foot_AdmissionFairSharing
    DeepCopyInto_AdmissionFairSharing
  by (rule deep_copy_struct[where get = "\<lambda>r. hafs_Custom r" and put = "\<lambda>r y1.
      r\<lparr>hafs_Custom := y1\<rparr>"
        and mk = read_AdmissionFairSharing, OF dc_AdmissionFairSharingCustom.deep_copy_axioms])
    (auto simp: read_AdmissionFairSharing_def view_AdmissionFairSharing_def
        foot_AdmissionFairSharing_def DeepCopyInto_AdmissionFairSharing_def copy_pair_bind
        foot_pair_def)

lemmas slice_ExternalFrameworks = deep_copy_slice[where prj = as_ExternalFrameworks and mk =
    C_ExternalFrameworks, OF deep_copy_plain as_ExternalFrameworks_C]

definition read_MultiKueue where
  "read_MultiKueue r = (\<lambda>v1. \<lparr>mk_ExternalFrameworks = v1\<rparr> :: MultiKueue)"

definition view_MultiKueue :: "cell Heap \<Rightarrow> H_MultiKueue \<Rightarrow> MultiKueue option" where
  "view_MultiKueue h r = map_option (read_MultiKueue r) (view_slice as_ExternalFrameworks view_plain h
      (hmk_ExternalFrameworks r))"

definition foot_MultiKueue :: "cell Heap \<Rightarrow> H_MultiKueue \<Rightarrow> addr set" where
  "foot_MultiKueue h r = foot_ref as_ExternalFrameworks foot_plain h (hmk_ExternalFrameworks r)"

definition DeepCopyInto_MultiKueue :: "H_MultiKueue \<Rightarrow> (cell Heap, H_MultiKueue) go" where
  "DeepCopyInto_MultiKueue r =
     go_bind (copy_ref as_ExternalFrameworks C_ExternalFrameworks copy_plain (hmk_ExternalFrameworks r))
         (\<lambda>y1.
     go_return (r\<lparr>hmk_ExternalFrameworks := y1\<rparr>))"

interpretation dc_MultiKueue: deep_copy view_MultiKueue foot_MultiKueue DeepCopyInto_MultiKueue
  by (rule deep_copy_struct[where get = "\<lambda>r. hmk_ExternalFrameworks r" and put = "\<lambda>r y1.
      r\<lparr>hmk_ExternalFrameworks := y1\<rparr>"
        and mk = read_MultiKueue, OF slice_ExternalFrameworks])
    (auto simp: read_MultiKueue_def view_MultiKueue_def foot_MultiKueue_def DeepCopyInto_MultiKueue_def
        copy_pair_bind foot_pair_def)

lemmas slice_SourceConfigs = deep_copy_slice[where prj = as_SourceConfigs and mk = C_SourceConfigs, OF
    deep_copy_plain as_SourceConfigs_C]

definition read_DeviceClassMapping where
  "read_DeviceClassMapping r = (\<lambda>(v1, v2). \<lparr>dcm_Name = hdcm_Name r, dcm_DeviceClassNames
      = v1, dcm_Sources = v2\<rparr> :: DeviceClassMapping)"

definition view_DeviceClassMapping :: "cell Heap \<Rightarrow> H_DeviceClassMapping \<Rightarrow>
    DeviceClassMapping option" where
  "view_DeviceClassMapping h r = map_option (read_DeviceClassMapping r) (view_pair (view_slice
      as_Strings view_plain) (view_slice as_SourceConfigs view_plain) h (hdcm_DeviceClassNames r,
      hdcm_Sources r))"

definition foot_DeviceClassMapping :: "cell Heap \<Rightarrow> H_DeviceClassMapping \<Rightarrow> addr
    set" where
  "foot_DeviceClassMapping h r = foot_ref as_Strings foot_plain h (hdcm_DeviceClassNames r) \<union>
      foot_ref as_SourceConfigs foot_plain h (hdcm_Sources r)"

definition DeepCopyInto_DeviceClassMapping :: "H_DeviceClassMapping \<Rightarrow> (cell Heap,
    H_DeviceClassMapping) go" where
  "DeepCopyInto_DeviceClassMapping r =
     go_bind (copy_ref as_Strings C_Strings copy_plain (hdcm_DeviceClassNames r)) (\<lambda>y1.
     go_bind (copy_ref as_SourceConfigs C_SourceConfigs copy_plain (hdcm_Sources r)) (\<lambda>y2.
     go_return (r\<lparr>hdcm_DeviceClassNames := y1, hdcm_Sources := y2\<rparr>)))"

interpretation dc_DeviceClassMapping: deep_copy view_DeviceClassMapping foot_DeviceClassMapping
    DeepCopyInto_DeviceClassMapping
  by (rule deep_copy_struct[where get = "\<lambda>r. (hdcm_DeviceClassNames r, hdcm_Sources r)" and put
      = "\<lambda>r (y1, y2). r\<lparr>hdcm_DeviceClassNames := y1, hdcm_Sources := y2\<rparr>"
        and mk = read_DeviceClassMapping, OF deep_copy_pair[OF slice_Strings slice_SourceConfigs]])
    (auto simp: read_DeviceClassMapping_def view_DeviceClassMapping_def foot_DeviceClassMapping_def
        DeepCopyInto_DeviceClassMapping_def copy_pair_bind foot_pair_def)

lemmas slice_DeviceClassMappings = deep_copy_slice[where prj = as_DeviceClassMappings and mk =
    C_DeviceClassMappings, OF deep_copy_list[OF dc_DeviceClassMapping.deep_copy_axioms]
    as_DeviceClassMappings_C]

definition read_Resources where
  "read_Resources r = (\<lambda>v1. \<lparr>res_DeviceClassMappings = v1\<rparr> :: Resources)"

definition view_Resources :: "cell Heap \<Rightarrow> H_Resources \<Rightarrow> Resources option" where
  "view_Resources h r = map_option (read_Resources r) (view_slice as_DeviceClassMappings (view_list
      view_DeviceClassMapping) h (hres_DeviceClassMappings r))"

definition foot_Resources :: "cell Heap \<Rightarrow> H_Resources \<Rightarrow> addr set" where
  "foot_Resources h r = foot_ref as_DeviceClassMappings (foot_list foot_DeviceClassMapping) h
      (hres_DeviceClassMappings r)"

definition DeepCopyInto_Resources :: "H_Resources \<Rightarrow> (cell Heap, H_Resources) go" where
  "DeepCopyInto_Resources r =
     go_bind (copy_ref as_DeviceClassMappings C_DeviceClassMappings (copy_list
         DeepCopyInto_DeviceClassMapping) (hres_DeviceClassMappings r)) (\<lambda>y1.
     go_return (r\<lparr>hres_DeviceClassMappings := y1\<rparr>))"

interpretation dc_Resources: deep_copy view_Resources foot_Resources DeepCopyInto_Resources
  by (rule deep_copy_struct[where get = "\<lambda>r. hres_DeviceClassMappings r" and put = "\<lambda>r
      y1. r\<lparr>hres_DeviceClassMappings := y1\<rparr>"
        and mk = read_Resources, OF slice_DeviceClassMappings])
    (auto simp: read_Resources_def view_Resources_def foot_Resources_def DeepCopyInto_Resources_def
        copy_pair_bind foot_pair_def)

lemmas pointer_Int32 = deep_copy_ref[where prj = as_Int32 and mk = C_Int32, OF deep_copy_plain as_Int32_C]

definition read_ByWorkload where
  "read_ByWorkload r = (\<lambda>v1. \<lparr>bw_Admission = hbw_Admission r, bw_TimeoutSeconds =
      hbw_TimeoutSeconds r, bw_RecoveryTimeoutSeconds = v1, bw_RequeuingStrategy = hbw_RequeuingStrategy
      r\<rparr> :: ByWorkload)"

definition view_ByWorkload :: "cell Heap \<Rightarrow> H_ByWorkload \<Rightarrow> ByWorkload option" where
  "view_ByWorkload h r = map_option (read_ByWorkload r) (view_ref as_Int32 view_plain h
      (hbw_RecoveryTimeoutSeconds r))"

definition foot_ByWorkload :: "cell Heap \<Rightarrow> H_ByWorkload \<Rightarrow> addr set" where
  "foot_ByWorkload h r = foot_ref as_Int32 foot_plain h (hbw_RecoveryTimeoutSeconds r)"

definition DeepCopyInto_ByWorkload :: "H_ByWorkload \<Rightarrow> (cell Heap, H_ByWorkload) go" where
  "DeepCopyInto_ByWorkload r =
     go_bind (copy_ref as_Int32 C_Int32 copy_plain (hbw_RecoveryTimeoutSeconds r)) (\<lambda>y1.
     go_return (r\<lparr>hbw_RecoveryTimeoutSeconds := y1\<rparr>))"

interpretation dc_ByWorkload: deep_copy view_ByWorkload foot_ByWorkload DeepCopyInto_ByWorkload
  by (rule deep_copy_struct[where get = "\<lambda>r. hbw_RecoveryTimeoutSeconds r" and put = "\<lambda>r
      y1. r\<lparr>hbw_RecoveryTimeoutSeconds := y1\<rparr>"
        and mk = read_ByWorkload, OF pointer_Int32])
    (auto simp: read_ByWorkload_def view_ByWorkload_def foot_ByWorkload_def DeepCopyInto_ByWorkload_def
        copy_pair_bind foot_pair_def)

lemmas pointer_ByWorkload = deep_copy_ref[where prj = as_ByWorkload and mk = C_ByWorkload, OF
    dc_ByWorkload.deep_copy_axioms as_ByWorkload_C]

definition read_GangScheduling where
  "read_GangScheduling r = (\<lambda>v1. \<lparr>gs_Policy = hgs_Policy r, gs_ByWorkload = v1\<rparr> ::
      GangScheduling)"

definition view_GangScheduling :: "cell Heap \<Rightarrow> H_GangScheduling \<Rightarrow> GangScheduling
    option" where
  "view_GangScheduling h r = map_option (read_GangScheduling r) (view_ref as_ByWorkload view_ByWorkload
      h (hgs_ByWorkload r))"

definition foot_GangScheduling :: "cell Heap \<Rightarrow> H_GangScheduling \<Rightarrow> addr set" where
  "foot_GangScheduling h r = foot_ref as_ByWorkload foot_ByWorkload h (hgs_ByWorkload r)"

definition DeepCopyInto_GangScheduling :: "H_GangScheduling \<Rightarrow> (cell Heap, H_GangScheduling)
    go" where
  "DeepCopyInto_GangScheduling r =
     go_bind (copy_ref as_ByWorkload C_ByWorkload DeepCopyInto_ByWorkload (hgs_ByWorkload r)) (\<lambda>y1.
     go_return (r\<lparr>hgs_ByWorkload := y1\<rparr>))"

interpretation dc_GangScheduling: deep_copy view_GangScheduling foot_GangScheduling
    DeepCopyInto_GangScheduling
  by (rule deep_copy_struct[where get = "\<lambda>r. hgs_ByWorkload r" and put = "\<lambda>r y1.
      r\<lparr>hgs_ByWorkload := y1\<rparr>"
        and mk = read_GangScheduling, OF pointer_ByWorkload])
    (auto simp: read_GangScheduling_def view_GangScheduling_def foot_GangScheduling_def
        DeepCopyInto_GangScheduling_def copy_pair_bind foot_pair_def)

lemmas slice_LabelKeyList = deep_copy_slice[where prj = as_LabelKeyList and mk = C_LabelKeyList, OF
    deep_copy_plain as_LabelKeyList_C]

definition read_Integrations where
  "read_Integrations r = (\<lambda>(v1, v2, v3). \<lparr>in_Frameworks = v1, in_ExternalFrameworks = v2,
      in_LabelKeysToCopy = v3\<rparr> :: Integrations)"

definition view_Integrations :: "cell Heap \<Rightarrow> H_Integrations \<Rightarrow> Integrations
    option" where
  "view_Integrations h r = map_option (read_Integrations r) (view_pair (view_slice as_Strings
      view_plain) (view_pair (view_slice as_ExternalFrameworks view_plain) (view_slice as_LabelKeyList
      view_plain)) h (hin_Frameworks r, hin_ExternalFrameworks r, hin_LabelKeysToCopy r))"

definition foot_Integrations :: "cell Heap \<Rightarrow> H_Integrations \<Rightarrow> addr set" where
  "foot_Integrations h r = foot_ref as_Strings foot_plain h (hin_Frameworks r) \<union> foot_ref
      as_ExternalFrameworks foot_plain h (hin_ExternalFrameworks r) \<union> foot_ref as_LabelKeyList
      foot_plain h (hin_LabelKeysToCopy r)"

definition DeepCopyInto_Integrations :: "H_Integrations \<Rightarrow> (cell Heap, H_Integrations) go" where
  "DeepCopyInto_Integrations r =
     go_bind (copy_ref as_Strings C_Strings copy_plain (hin_Frameworks r)) (\<lambda>y1.
     go_bind (copy_ref as_ExternalFrameworks C_ExternalFrameworks copy_plain (hin_ExternalFrameworks r))
         (\<lambda>y2.
     go_bind (copy_ref as_LabelKeyList C_LabelKeyList copy_plain (hin_LabelKeysToCopy r)) (\<lambda>y3.
     go_return (r\<lparr>hin_Frameworks := y1, hin_ExternalFrameworks := y2, hin_LabelKeysToCopy :=
         y3\<rparr>))))"

interpretation dc_Integrations: deep_copy view_Integrations foot_Integrations DeepCopyInto_Integrations
  by (rule deep_copy_struct[where get = "\<lambda>r. (hin_Frameworks r, hin_ExternalFrameworks r,
      hin_LabelKeysToCopy r)" and put = "\<lambda>r (y1, y2, y3). r\<lparr>hin_Frameworks := y1,
      hin_ExternalFrameworks := y2, hin_LabelKeysToCopy := y3\<rparr>"
        and mk = read_Integrations, OF deep_copy_pair[OF slice_Strings deep_copy_pair[OF
            slice_ExternalFrameworks slice_LabelKeyList]]])
    (auto simp: read_Integrations_def view_Integrations_def foot_Integrations_def
        DeepCopyInto_Integrations_def copy_pair_bind foot_pair_def)

lemmas pointer_MultiKueue = deep_copy_ref[where prj = as_MultiKueue and mk = C_MultiKueue, OF
    dc_MultiKueue.deep_copy_axioms as_MultiKueue_C]

definition read_KueueConfiguration where
  "read_KueueConfiguration r = (\<lambda>(v1, v2, v3, v4, v5, v6). \<lparr>kc_Integrations = v1,
      kc_WorkloadManagement = hkc_WorkloadManagement r, kc_GangScheduling = v2, kc_Preemption =
      hkc_Preemption r, kc_Resources = v3, kc_MultiKueue = v4, kc_AdmissionFairSharing = v5,
      kc_ControllerManager = v6\<rparr> :: KueueConfiguration)"

definition view_KueueConfiguration :: "cell Heap \<Rightarrow> H_KueueConfiguration \<Rightarrow>
    KueueConfiguration option" where
  "view_KueueConfiguration h r = map_option (read_KueueConfiguration r) (view_pair view_Integrations
      (view_pair view_GangScheduling (view_pair view_Resources (view_pair (view_ref as_MultiKueue
      view_MultiKueue) (view_pair view_AdmissionFairSharing view_ControllerManager)))) h
      (hkc_Integrations r, hkc_GangScheduling r, hkc_Resources r, hkc_MultiKueue r,
      hkc_AdmissionFairSharing r, hkc_ControllerManager r))"

definition foot_KueueConfiguration :: "cell Heap \<Rightarrow> H_KueueConfiguration \<Rightarrow> addr
    set" where
  "foot_KueueConfiguration h r = foot_Integrations h (hkc_Integrations r) \<union> foot_GangScheduling h
      (hkc_GangScheduling r) \<union> foot_Resources h (hkc_Resources r) \<union> foot_ref as_MultiKueue
      foot_MultiKueue h (hkc_MultiKueue r) \<union> foot_AdmissionFairSharing h
      (hkc_AdmissionFairSharing r) \<union> foot_ControllerManager h (hkc_ControllerManager r)"

definition DeepCopyInto_KueueConfiguration :: "H_KueueConfiguration \<Rightarrow> (cell Heap,
    H_KueueConfiguration) go" where
  "DeepCopyInto_KueueConfiguration r =
     go_bind (DeepCopyInto_Integrations (hkc_Integrations r)) (\<lambda>y1.
     go_bind (DeepCopyInto_GangScheduling (hkc_GangScheduling r)) (\<lambda>y2.
     go_bind (DeepCopyInto_Resources (hkc_Resources r)) (\<lambda>y3.
     go_bind (copy_ref as_MultiKueue C_MultiKueue DeepCopyInto_MultiKueue (hkc_MultiKueue r)) (\<lambda>y4.
     go_bind (DeepCopyInto_AdmissionFairSharing (hkc_AdmissionFairSharing r)) (\<lambda>y5.
     go_bind (DeepCopyInto_ControllerManager (hkc_ControllerManager r)) (\<lambda>y6.
     go_return (r\<lparr>hkc_Integrations := y1, hkc_GangScheduling := y2, hkc_Resources := y3,
         hkc_MultiKueue := y4, hkc_AdmissionFairSharing := y5, hkc_ControllerManager :=
         y6\<rparr>)))))))"

interpretation dc_KueueConfiguration: deep_copy view_KueueConfiguration foot_KueueConfiguration
    DeepCopyInto_KueueConfiguration
  by (rule deep_copy_struct[where get = "\<lambda>r. (hkc_Integrations r, hkc_GangScheduling r,
      hkc_Resources r, hkc_MultiKueue r, hkc_AdmissionFairSharing r, hkc_ControllerManager r)" and put =
      "\<lambda>r (y1, y2, y3, y4, y5, y6). r\<lparr>hkc_Integrations := y1, hkc_GangScheduling := y2,
      hkc_Resources := y3, hkc_MultiKueue := y4, hkc_AdmissionFairSharing := y5, hkc_ControllerManager
      := y6\<rparr>"
        and mk = read_KueueConfiguration, OF deep_copy_pair[OF dc_Integrations.deep_copy_axioms
            deep_copy_pair[OF dc_GangScheduling.deep_copy_axioms deep_copy_pair[OF
            dc_Resources.deep_copy_axioms deep_copy_pair[OF pointer_MultiKueue deep_copy_pair[OF
            dc_AdmissionFairSharing.deep_copy_axioms dc_ControllerManager.deep_copy_axioms]]]]]])
    (auto simp: read_KueueConfiguration_def view_KueueConfiguration_def foot_KueueConfiguration_def
        DeepCopyInto_KueueConfiguration_def copy_pair_bind foot_pair_def)

lemmas slice_Bytes = deep_copy_slice[where prj = as_Bytes and mk = C_Bytes, OF deep_copy_plain as_Bytes_C]

definition read_OperatorSpec where
  "read_OperatorSpec r = (\<lambda>v1. \<lparr>os_LogLevel = hos_LogLevel r, os_Rest = v1\<rparr> ::
      OperatorSpec)"

definition view_OperatorSpec :: "cell Heap \<Rightarrow> H_OperatorSpec \<Rightarrow> OperatorSpec
    option" where
  "view_OperatorSpec h r = map_option (read_OperatorSpec r) (view_slice as_Bytes view_plain h (hos_Rest r))"

definition foot_OperatorSpec :: "cell Heap \<Rightarrow> H_OperatorSpec \<Rightarrow> addr set" where
  "foot_OperatorSpec h r = foot_ref as_Bytes foot_plain h (hos_Rest r)"

definition DeepCopyInto_OperatorSpec :: "H_OperatorSpec \<Rightarrow> (cell Heap, H_OperatorSpec) go" where
  "DeepCopyInto_OperatorSpec r =
     go_bind (copy_ref as_Bytes C_Bytes copy_plain (hos_Rest r)) (\<lambda>y1.
     go_return (r\<lparr>hos_Rest := y1\<rparr>))"

interpretation dc_OperatorSpec: deep_copy view_OperatorSpec foot_OperatorSpec DeepCopyInto_OperatorSpec
  by (rule deep_copy_struct[where get = "\<lambda>r. hos_Rest r" and put = "\<lambda>r y1.
      r\<lparr>hos_Rest := y1\<rparr>"
        and mk = read_OperatorSpec, OF slice_Bytes])
    (auto simp: read_OperatorSpec_def view_OperatorSpec_def foot_OperatorSpec_def
        DeepCopyInto_OperatorSpec_def copy_pair_bind foot_pair_def)

definition read_KueueOperandSpec where
  "read_KueueOperandSpec r = (\<lambda>(v1, v2). \<lparr>ks_OperatorSpec = v1, ks_Config = v2\<rparr> ::
      KueueOperandSpec)"

definition view_KueueOperandSpec :: "cell Heap \<Rightarrow> H_KueueOperandSpec \<Rightarrow>
    KueueOperandSpec option" where
  "view_KueueOperandSpec h r = map_option (read_KueueOperandSpec r) (view_pair view_OperatorSpec
      view_KueueConfiguration h (hks_OperatorSpec r, hks_Config r))"

definition foot_KueueOperandSpec :: "cell Heap \<Rightarrow> H_KueueOperandSpec \<Rightarrow> addr set"
    where
  "foot_KueueOperandSpec h r = foot_OperatorSpec h (hks_OperatorSpec r) \<union> foot_KueueConfiguration
      h (hks_Config r)"

definition DeepCopyInto_KueueOperandSpec :: "H_KueueOperandSpec \<Rightarrow> (cell Heap,
    H_KueueOperandSpec) go" where
  "DeepCopyInto_KueueOperandSpec r =
     go_bind (DeepCopyInto_OperatorSpec (hks_OperatorSpec r)) (\<lambda>y1.
     go_bind (DeepCopyInto_KueueConfiguration (hks_Config r)) (\<lambda>y2.
     go_return (r\<lparr>hks_OperatorSpec := y1, hks_Config := y2\<rparr>)))"

interpretation dc_KueueOperandSpec: deep_copy view_KueueOperandSpec foot_KueueOperandSpec
    DeepCopyInto_KueueOperandSpec
  by (rule deep_copy_struct[where get = "\<lambda>r. (hks_OperatorSpec r, hks_Config r)" and put =
      "\<lambda>r (y1, y2). r\<lparr>hks_OperatorSpec := y1, hks_Config := y2\<rparr>"
        and mk = read_KueueOperandSpec, OF deep_copy_pair[OF dc_OperatorSpec.deep_copy_axioms
            dc_KueueConfiguration.deep_copy_axioms]])
    (auto simp: read_KueueOperandSpec_def view_KueueOperandSpec_def foot_KueueOperandSpec_def
        DeepCopyInto_KueueOperandSpec_def copy_pair_bind foot_pair_def)

lemmas slice_Conditions = deep_copy_slice[where prj = as_Conditions and mk = C_Conditions, OF
    deep_copy_plain as_Conditions_C]

lemmas slice_Generations = deep_copy_slice[where prj = as_Generations and mk = C_Generations, OF
    deep_copy_plain as_Generations_C]

definition read_OperatorStatus where
  "read_OperatorStatus r = (\<lambda>(v1, v2). \<lparr>ost_Conditions = v1, ost_ReadyReplicas =
      host_ReadyReplicas r, ost_Generations = v2, ost_Rest = host_Rest r\<rparr> :: OperatorStatus)"

definition view_OperatorStatus :: "cell Heap \<Rightarrow> H_OperatorStatus \<Rightarrow> OperatorStatus
    option" where
  "view_OperatorStatus h r = map_option (read_OperatorStatus r) (view_pair (view_slice as_Conditions
      view_plain) (view_slice as_Generations view_plain) h (host_Conditions r, host_Generations r))"

definition foot_OperatorStatus :: "cell Heap \<Rightarrow> H_OperatorStatus \<Rightarrow> addr set" where
  "foot_OperatorStatus h r = foot_ref as_Conditions foot_plain h (host_Conditions r) \<union> foot_ref
      as_Generations foot_plain h (host_Generations r)"

definition DeepCopyInto_OperatorStatus :: "H_OperatorStatus \<Rightarrow> (cell Heap, H_OperatorStatus)
    go" where
  "DeepCopyInto_OperatorStatus r =
     go_bind (copy_ref as_Conditions C_Conditions copy_plain (host_Conditions r)) (\<lambda>y1.
     go_bind (copy_ref as_Generations C_Generations copy_plain (host_Generations r)) (\<lambda>y2.
     go_return (r\<lparr>host_Conditions := y1, host_Generations := y2\<rparr>)))"

interpretation dc_OperatorStatus: deep_copy view_OperatorStatus foot_OperatorStatus
    DeepCopyInto_OperatorStatus
  by (rule deep_copy_struct[where get = "\<lambda>r. (host_Conditions r, host_Generations r)" and put =
      "\<lambda>r (y1, y2). r\<lparr>host_Conditions := y1, host_Generations := y2\<rparr>"
        and mk = read_OperatorStatus, OF deep_copy_pair[OF slice_Conditions slice_Generations]])
    (auto simp: read_OperatorStatus_def view_OperatorStatus_def foot_OperatorStatus_def
        DeepCopyInto_OperatorStatus_def copy_pair_bind foot_pair_def)

definition read_KueueStatus where
  "read_KueueStatus r = (\<lambda>v1. \<lparr>kst_OperatorStatus = v1\<rparr> :: KueueStatus)"

definition view_KueueStatus :: "cell Heap \<Rightarrow> H_KueueStatus \<Rightarrow> KueueStatus option"
    where
  "view_KueueStatus h r = map_option (read_KueueStatus r) (view_OperatorStatus h (hkst_OperatorStatus r))"

definition foot_KueueStatus :: "cell Heap \<Rightarrow> H_KueueStatus \<Rightarrow> addr set" where
  "foot_KueueStatus h r = foot_OperatorStatus h (hkst_OperatorStatus r)"

definition DeepCopyInto_KueueStatus :: "H_KueueStatus \<Rightarrow> (cell Heap, H_KueueStatus) go" where
  "DeepCopyInto_KueueStatus r =
     go_bind (DeepCopyInto_OperatorStatus (hkst_OperatorStatus r)) (\<lambda>y1.
     go_return (r\<lparr>hkst_OperatorStatus := y1\<rparr>))"

interpretation dc_KueueStatus: deep_copy view_KueueStatus foot_KueueStatus DeepCopyInto_KueueStatus
  by (rule deep_copy_struct[where get = "\<lambda>r. hkst_OperatorStatus r" and put = "\<lambda>r y1.
      r\<lparr>hkst_OperatorStatus := y1\<rparr>"
        and mk = read_KueueStatus, OF dc_OperatorStatus.deep_copy_axioms])
    (auto simp: read_KueueStatus_def view_KueueStatus_def foot_KueueStatus_def
        DeepCopyInto_KueueStatus_def copy_pair_bind foot_pair_def)

definition read_Kueue where
  "read_Kueue r = (\<lambda>(v1, v2, v3). \<lparr>ku_ObjectMeta = v1, ku_Spec = v2, ku_Status =
      v3\<rparr> :: Kueue)"

definition view_Kueue :: "cell Heap \<Rightarrow> H_Kueue \<Rightarrow> Kueue option" where
  "view_Kueue h r = map_option (read_Kueue r) (view_pair view_ObjectMeta (view_pair
      view_KueueOperandSpec view_KueueStatus) h (hku_ObjectMeta r, hku_Spec r, hku_Status r))"

definition foot_Kueue :: "cell Heap \<Rightarrow> H_Kueue \<Rightarrow> addr set" where
  "foot_Kueue h r = foot_ObjectMeta h (hku_ObjectMeta r) \<union> foot_KueueOperandSpec h (hku_Spec r)
      \<union> foot_KueueStatus h (hku_Status r)"

definition DeepCopyInto_Kueue :: "H_Kueue \<Rightarrow> (cell Heap, H_Kueue) go" where
  "DeepCopyInto_Kueue r =
     go_bind (DeepCopyInto_ObjectMeta (hku_ObjectMeta r)) (\<lambda>y1.
     go_bind (DeepCopyInto_KueueOperandSpec (hku_Spec r)) (\<lambda>y2.
     go_bind (DeepCopyInto_KueueStatus (hku_Status r)) (\<lambda>y3.
     go_return (r\<lparr>hku_ObjectMeta := y1, hku_Spec := y2, hku_Status := y3\<rparr>))))"

interpretation dc_Kueue: deep_copy view_Kueue foot_Kueue DeepCopyInto_Kueue
  by (rule deep_copy_struct[where get = "\<lambda>r. (hku_ObjectMeta r, hku_Spec r, hku_Status r)" and
      put = "\<lambda>r (y1, y2, y3). r\<lparr>hku_ObjectMeta := y1, hku_Spec := y2, hku_Status :=
      y3\<rparr>"
        and mk = read_Kueue, OF deep_copy_pair[OF dc_ObjectMeta.deep_copy_axioms deep_copy_pair[OF
            dc_KueueOperandSpec.deep_copy_axioms dc_KueueStatus.deep_copy_axioms]]])
    (auto simp: read_Kueue_def view_Kueue_def foot_Kueue_def DeepCopyInto_Kueue_def copy_pair_bind
        foot_pair_def)

lemmas slice_Kueues = deep_copy_slice[where prj = as_Kueues and mk = C_Kueues, OF deep_copy_list[OF
    dc_Kueue.deep_copy_axioms] as_Kueues_C]

definition read_KueueList where
  "read_KueueList r = (\<lambda>v1. \<lparr>kl_Items = v1\<rparr> :: KueueList)"

definition view_KueueList :: "cell Heap \<Rightarrow> H_KueueList \<Rightarrow> KueueList option" where
  "view_KueueList h r = map_option (read_KueueList r) (view_slice as_Kueues (view_list view_Kueue) h
      (hkl_Items r))"

definition foot_KueueList :: "cell Heap \<Rightarrow> H_KueueList \<Rightarrow> addr set" where
  "foot_KueueList h r = foot_ref as_Kueues (foot_list foot_Kueue) h (hkl_Items r)"

definition DeepCopyInto_KueueList :: "H_KueueList \<Rightarrow> (cell Heap, H_KueueList) go" where
  "DeepCopyInto_KueueList r =
     go_bind (copy_ref as_Kueues C_Kueues (copy_list DeepCopyInto_Kueue) (hkl_Items r)) (\<lambda>y1.
     go_return (r\<lparr>hkl_Items := y1\<rparr>))"

interpretation dc_KueueList: deep_copy view_KueueList foot_KueueList DeepCopyInto_KueueList
  by (rule deep_copy_struct[where get = "\<lambda>r. hkl_Items r" and put = "\<lambda>r y1.
      r\<lparr>hkl_Items := y1\<rparr>"
        and mk = read_KueueList, OF slice_Kueues])
    (auto simp: read_KueueList_def view_KueueList_def foot_KueueList_def DeepCopyInto_KueueList_def
        copy_pair_bind foot_pair_def)

section \<open>Types without pointers\<close>

text \<open>The generated code assigns the struct, and once more the structs inside it.\<close>
definition DeepCopyInto_CELDeviceSelector :: "CELDeviceSelector \<Rightarrow> (cell Heap,
    CELDeviceSelector) go" where
  "DeepCopyInto_CELDeviceSelector r = go_return r"

definition DeepCopyInto_ControllerMetricsCustomLabel :: "ControllerMetricsCustomLabel \<Rightarrow>
    (cell Heap, ControllerMetricsCustomLabel) go" where
  "DeepCopyInto_ControllerMetricsCustomLabel r = go_return (r\<lparr>cl_SourceKey := cl_SourceKey
      r\<rparr>)"

definition DeepCopyInto_DeviceClassCapacitySource :: "DeviceClassCapacitySource \<Rightarrow> (cell
    Heap, DeviceClassCapacitySource) go" where
  "DeepCopyInto_DeviceClassCapacitySource r = go_return (r\<lparr>cap_DeviceSelector :=
      cap_DeviceSelector r\<rparr>)"

definition DeepCopyInto_DeviceClassCounterSource :: "DeviceClassCounterSource \<Rightarrow> (cell Heap,
    DeviceClassCounterSource) go" where
  "DeepCopyInto_DeviceClassCounterSource r = go_return (r\<lparr>ctr_DeviceSelector :=
      ctr_DeviceSelector r\<rparr>)"

definition DeepCopyInto_DeviceClassSourceConfig :: "DeviceClassSourceConfig \<Rightarrow> (cell Heap,
    DeviceClassSourceConfig) go" where
  "DeepCopyInto_DeviceClassSourceConfig r = go_return (r\<lparr>dsc_Counter := dsc_Counter r,
      dsc_Capacity := dsc_Capacity r\<rparr>)"

definition DeepCopyInto_DeviceSelector :: "DeviceSelector \<Rightarrow> (cell Heap, DeviceSelector) go"
    where
  "DeepCopyInto_DeviceSelector r = go_return (r\<lparr>ds_CEL := ds_CEL r\<rparr>)"

definition DeepCopyInto_ExternalFramework :: "ExternalFramework \<Rightarrow> (cell Heap,
    ExternalFramework) go" where
  "DeepCopyInto_ExternalFramework r = go_return r"

definition DeepCopyInto_LabelKeys :: "LabelKeys \<Rightarrow> (cell Heap, LabelKeys) go" where
  "DeepCopyInto_LabelKeys r = go_return r"

definition DeepCopyInto_Preemption :: "Preemption \<Rightarrow> (cell Heap, Preemption) go" where
  "DeepCopyInto_Preemption r = go_return r"

definition DeepCopyInto_RequeuingStrategy :: "RequeuingStrategy \<Rightarrow> (cell Heap,
    RequeuingStrategy) go" where
  "DeepCopyInto_RequeuingStrategy r = go_return r"

definition DeepCopyInto_ResourceWeight :: "ResourceWeight \<Rightarrow> (cell Heap, ResourceWeight) go"
    where
  "DeepCopyInto_ResourceWeight r = go_return r"

definition DeepCopyInto_SourceKey :: "SourceKey \<Rightarrow> (cell Heap, SourceKey) go" where
  "DeepCopyInto_SourceKey r = go_return (r\<lparr>sk_Label := sk_Label r, sk_Annotation := sk_Annotation
      r\<rparr>)"

definition DeepCopyInto_SourceKeyAnnotation :: "SourceKeyAnnotation \<Rightarrow> (cell Heap,
    SourceKeyAnnotation) go" where
  "DeepCopyInto_SourceKeyAnnotation r = go_return r"

definition DeepCopyInto_SourceKeyLabel :: "SourceKeyLabel \<Rightarrow> (cell Heap, SourceKeyLabel) go"
    where
  "DeepCopyInto_SourceKeyLabel r = go_return r"

definition DeepCopyInto_WorkloadManagement :: "WorkloadManagement \<Rightarrow> (cell Heap,
    WorkloadManagement) go" where
  "DeepCopyInto_WorkloadManagement r = go_return r"

lemma plain_copies:
  "DeepCopyInto_CELDeviceSelector = copy_plain"
  "DeepCopyInto_ControllerMetricsCustomLabel = copy_plain"
  "DeepCopyInto_DeviceClassCapacitySource = copy_plain"
  "DeepCopyInto_DeviceClassCounterSource = copy_plain"
  "DeepCopyInto_DeviceClassSourceConfig = copy_plain"
  "DeepCopyInto_DeviceSelector = copy_plain"
  "DeepCopyInto_ExternalFramework = copy_plain"
  "DeepCopyInto_LabelKeys = copy_plain"
  "DeepCopyInto_Preemption = copy_plain"
  "DeepCopyInto_RequeuingStrategy = copy_plain"
  "DeepCopyInto_ResourceWeight = copy_plain"
  "DeepCopyInto_SourceKey = copy_plain"
  "DeepCopyInto_SourceKeyAnnotation = copy_plain"
  "DeepCopyInto_SourceKeyLabel = copy_plain"
  "DeepCopyInto_WorkloadManagement = copy_plain"
  by (simp_all add: fun_eq_iff copy_plain_def DeepCopyInto_CELDeviceSelector_def
      DeepCopyInto_ControllerMetricsCustomLabel_def DeepCopyInto_DeviceClassCapacitySource_def
      DeepCopyInto_DeviceClassCounterSource_def DeepCopyInto_DeviceClassSourceConfig_def
      DeepCopyInto_DeviceSelector_def DeepCopyInto_ExternalFramework_def DeepCopyInto_LabelKeys_def
      DeepCopyInto_Preemption_def DeepCopyInto_RequeuingStrategy_def DeepCopyInto_ResourceWeight_def
      DeepCopyInto_SourceKey_def DeepCopyInto_SourceKeyAnnotation_def DeepCopyInto_SourceKeyLabel_def
      DeepCopyInto_WorkloadManagement_def)

section \<open>DeepCopy\<close>

text \<open>\<^verbatim>\<open>DeepCopy\<close> takes and returns a pointer: nil for nil, else a new
    struct into which the old one is copied.\<close>
definition DeepCopy_AdmissionFairSharing :: "addr option \<Rightarrow> (cell Heap, addr option) go" where
  "DeepCopy_AdmissionFairSharing p = copy_ref as_AdmissionFairSharing C_AdmissionFairSharing
      DeepCopyInto_AdmissionFairSharing p"

definition DeepCopy_AdmissionFairSharingCustom :: "addr option \<Rightarrow> (cell Heap, addr option)
    go" where
  "DeepCopy_AdmissionFairSharingCustom p = copy_ref as_AdmissionFairSharingCustom
      C_AdmissionFairSharingCustom DeepCopyInto_AdmissionFairSharingCustom p"

definition DeepCopy_ControllerManager :: "addr option \<Rightarrow> (cell Heap, addr option) go" where
  "DeepCopy_ControllerManager p = copy_ref as_ControllerManager C_ControllerManager
      DeepCopyInto_ControllerManager p"

definition DeepCopy_ControllerMetrics :: "addr option \<Rightarrow> (cell Heap, addr option) go" where
  "DeepCopy_ControllerMetrics p = copy_ref as_ControllerMetrics C_ControllerMetrics
      DeepCopyInto_ControllerMetrics p"

definition DeepCopy_DeviceClassMapping :: "addr option \<Rightarrow> (cell Heap, addr option) go" where
  "DeepCopy_DeviceClassMapping p = copy_ref as_DeviceClassMapping C_DeviceClassMapping
      DeepCopyInto_DeviceClassMapping p"

definition DeepCopy_GangScheduling :: "addr option \<Rightarrow> (cell Heap, addr option) go" where
  "DeepCopy_GangScheduling p = copy_ref as_GangScheduling C_GangScheduling DeepCopyInto_GangScheduling p"

definition DeepCopy_Integrations :: "addr option \<Rightarrow> (cell Heap, addr option) go" where
  "DeepCopy_Integrations p = copy_ref as_Integrations C_Integrations DeepCopyInto_Integrations p"

definition DeepCopy_KueueConfiguration :: "addr option \<Rightarrow> (cell Heap, addr option) go" where
  "DeepCopy_KueueConfiguration p = copy_ref as_KueueConfiguration C_KueueConfiguration
      DeepCopyInto_KueueConfiguration p"

definition DeepCopy_KueueOperandSpec :: "addr option \<Rightarrow> (cell Heap, addr option) go" where
  "DeepCopy_KueueOperandSpec p = copy_ref as_KueueOperandSpec C_KueueOperandSpec
      DeepCopyInto_KueueOperandSpec p"

definition DeepCopy_KueueStatus :: "addr option \<Rightarrow> (cell Heap, addr option) go" where
  "DeepCopy_KueueStatus p = copy_ref as_KueueStatus C_KueueStatus DeepCopyInto_KueueStatus p"

definition DeepCopy_Resources :: "addr option \<Rightarrow> (cell Heap, addr option) go" where
  "DeepCopy_Resources p = copy_ref as_Resources C_Resources DeepCopyInto_Resources p"

definition DeepCopy_ByWorkload :: "addr option \<Rightarrow> (cell Heap, addr option) go" where
  "DeepCopy_ByWorkload p = copy_ref as_ByWorkload C_ByWorkload DeepCopyInto_ByWorkload p"

definition DeepCopy_MultiKueue :: "addr option \<Rightarrow> (cell Heap, addr option) go" where
  "DeepCopy_MultiKueue p = copy_ref as_MultiKueue C_MultiKueue DeepCopyInto_MultiKueue p"

definition DeepCopy_Kueue :: "addr option \<Rightarrow> (cell Heap, addr option) go" where
  "DeepCopy_Kueue p = copy_ref as_Kueue C_Kueue DeepCopyInto_Kueue p"

definition DeepCopy_KueueList :: "addr option \<Rightarrow> (cell Heap, addr option) go" where
  "DeepCopy_KueueList p = copy_ref as_KueueList C_KueueList DeepCopyInto_KueueList p"

definition DeepCopy_CELDeviceSelector :: "addr option \<Rightarrow> (cell Heap, addr option) go" where
  "DeepCopy_CELDeviceSelector p = copy_ref as_CELDeviceSelector C_CELDeviceSelector
      DeepCopyInto_CELDeviceSelector p"

definition DeepCopy_ControllerMetricsCustomLabel :: "addr option \<Rightarrow> (cell Heap, addr option)
    go" where
  "DeepCopy_ControllerMetricsCustomLabel p = copy_ref as_ControllerMetricsCustomLabel
      C_ControllerMetricsCustomLabel DeepCopyInto_ControllerMetricsCustomLabel p"

definition DeepCopy_DeviceClassCapacitySource :: "addr option \<Rightarrow> (cell Heap, addr option) go"
    where
  "DeepCopy_DeviceClassCapacitySource p = copy_ref as_DeviceClassCapacitySource
      C_DeviceClassCapacitySource DeepCopyInto_DeviceClassCapacitySource p"

definition DeepCopy_DeviceClassCounterSource :: "addr option \<Rightarrow> (cell Heap, addr option) go"
    where
  "DeepCopy_DeviceClassCounterSource p = copy_ref as_DeviceClassCounterSource C_DeviceClassCounterSource
      DeepCopyInto_DeviceClassCounterSource p"

definition DeepCopy_DeviceClassSourceConfig :: "addr option \<Rightarrow> (cell Heap, addr option) go" where
  "DeepCopy_DeviceClassSourceConfig p = copy_ref as_DeviceClassSourceConfig C_DeviceClassSourceConfig
      DeepCopyInto_DeviceClassSourceConfig p"

definition DeepCopy_DeviceSelector :: "addr option \<Rightarrow> (cell Heap, addr option) go" where
  "DeepCopy_DeviceSelector p = copy_ref as_DeviceSelector C_DeviceSelector DeepCopyInto_DeviceSelector p"

definition DeepCopy_ExternalFramework :: "addr option \<Rightarrow> (cell Heap, addr option) go" where
  "DeepCopy_ExternalFramework p = copy_ref as_ExternalFramework C_ExternalFramework
      DeepCopyInto_ExternalFramework p"

definition DeepCopy_LabelKeys :: "addr option \<Rightarrow> (cell Heap, addr option) go" where
  "DeepCopy_LabelKeys p = copy_ref as_LabelKeys C_LabelKeys DeepCopyInto_LabelKeys p"

definition DeepCopy_Preemption :: "addr option \<Rightarrow> (cell Heap, addr option) go" where
  "DeepCopy_Preemption p = copy_ref as_Preemption C_Preemption DeepCopyInto_Preemption p"

definition DeepCopy_RequeuingStrategy :: "addr option \<Rightarrow> (cell Heap, addr option) go" where
  "DeepCopy_RequeuingStrategy p = copy_ref as_RequeuingStrategy C_RequeuingStrategy
      DeepCopyInto_RequeuingStrategy p"

definition DeepCopy_ResourceWeight :: "addr option \<Rightarrow> (cell Heap, addr option) go" where
  "DeepCopy_ResourceWeight p = copy_ref as_ResourceWeight C_ResourceWeight DeepCopyInto_ResourceWeight p"

definition DeepCopy_SourceKey :: "addr option \<Rightarrow> (cell Heap, addr option) go" where
  "DeepCopy_SourceKey p = copy_ref as_SourceKey C_SourceKey DeepCopyInto_SourceKey p"

definition DeepCopy_SourceKeyAnnotation :: "addr option \<Rightarrow> (cell Heap, addr option) go" where
  "DeepCopy_SourceKeyAnnotation p = copy_ref as_SourceKeyAnnotation C_SourceKeyAnnotation
      DeepCopyInto_SourceKeyAnnotation p"

definition DeepCopy_SourceKeyLabel :: "addr option \<Rightarrow> (cell Heap, addr option) go" where
  "DeepCopy_SourceKeyLabel p = copy_ref as_SourceKeyLabel C_SourceKeyLabel DeepCopyInto_SourceKeyLabel p"

definition DeepCopy_WorkloadManagement :: "addr option \<Rightarrow> (cell Heap, addr option) go" where
  "DeepCopy_WorkloadManagement p = copy_ref as_WorkloadManagement C_WorkloadManagement
      DeepCopyInto_WorkloadManagement p"

interpretation dc_AdmissionFairSharing_pointer: deep_copy "view_ref as_AdmissionFairSharing
    view_AdmissionFairSharing" "foot_ref as_AdmissionFairSharing foot_AdmissionFairSharing"
    DeepCopy_AdmissionFairSharing
  using deep_copy_ref[where prj = as_AdmissionFairSharing and mk = C_AdmissionFairSharing, OF
      dc_AdmissionFairSharing.deep_copy_axioms as_AdmissionFairSharing_C]
  by (simp add: DeepCopy_AdmissionFairSharing_def [abs_def])

interpretation dc_AdmissionFairSharingCustom_pointer: deep_copy "view_ref as_AdmissionFairSharingCustom
    view_AdmissionFairSharingCustom" "foot_ref as_AdmissionFairSharingCustom
    foot_AdmissionFairSharingCustom" DeepCopy_AdmissionFairSharingCustom
  using deep_copy_ref[where prj = as_AdmissionFairSharingCustom and mk = C_AdmissionFairSharingCustom,
      OF dc_AdmissionFairSharingCustom.deep_copy_axioms as_AdmissionFairSharingCustom_C]
  by (simp add: DeepCopy_AdmissionFairSharingCustom_def [abs_def])

interpretation dc_ControllerManager_pointer: deep_copy "view_ref as_ControllerManager
    view_ControllerManager" "foot_ref as_ControllerManager foot_ControllerManager"
    DeepCopy_ControllerManager
  using deep_copy_ref[where prj = as_ControllerManager and mk = C_ControllerManager, OF
      dc_ControllerManager.deep_copy_axioms as_ControllerManager_C]
  by (simp add: DeepCopy_ControllerManager_def [abs_def])

interpretation dc_ControllerMetrics_pointer: deep_copy "view_ref as_ControllerMetrics
    view_ControllerMetrics" "foot_ref as_ControllerMetrics foot_ControllerMetrics"
    DeepCopy_ControllerMetrics
  using deep_copy_ref[where prj = as_ControllerMetrics and mk = C_ControllerMetrics, OF
      dc_ControllerMetrics.deep_copy_axioms as_ControllerMetrics_C]
  by (simp add: DeepCopy_ControllerMetrics_def [abs_def])

interpretation dc_DeviceClassMapping_pointer: deep_copy "view_ref as_DeviceClassMapping
    view_DeviceClassMapping" "foot_ref as_DeviceClassMapping foot_DeviceClassMapping"
    DeepCopy_DeviceClassMapping
  using deep_copy_ref[where prj = as_DeviceClassMapping and mk = C_DeviceClassMapping, OF
      dc_DeviceClassMapping.deep_copy_axioms as_DeviceClassMapping_C]
  by (simp add: DeepCopy_DeviceClassMapping_def [abs_def])

interpretation dc_GangScheduling_pointer: deep_copy "view_ref as_GangScheduling view_GangScheduling"
    "foot_ref as_GangScheduling foot_GangScheduling" DeepCopy_GangScheduling
  using deep_copy_ref[where prj = as_GangScheduling and mk = C_GangScheduling, OF
      dc_GangScheduling.deep_copy_axioms as_GangScheduling_C]
  by (simp add: DeepCopy_GangScheduling_def [abs_def])

interpretation dc_Integrations_pointer: deep_copy "view_ref as_Integrations view_Integrations" "foot_ref
    as_Integrations foot_Integrations" DeepCopy_Integrations
  using deep_copy_ref[where prj = as_Integrations and mk = C_Integrations, OF
      dc_Integrations.deep_copy_axioms as_Integrations_C]
  by (simp add: DeepCopy_Integrations_def [abs_def])

interpretation dc_KueueConfiguration_pointer: deep_copy "view_ref as_KueueConfiguration
    view_KueueConfiguration" "foot_ref as_KueueConfiguration foot_KueueConfiguration"
    DeepCopy_KueueConfiguration
  using deep_copy_ref[where prj = as_KueueConfiguration and mk = C_KueueConfiguration, OF
      dc_KueueConfiguration.deep_copy_axioms as_KueueConfiguration_C]
  by (simp add: DeepCopy_KueueConfiguration_def [abs_def])

interpretation dc_KueueOperandSpec_pointer: deep_copy "view_ref as_KueueOperandSpec
    view_KueueOperandSpec" "foot_ref as_KueueOperandSpec foot_KueueOperandSpec"
    DeepCopy_KueueOperandSpec
  using deep_copy_ref[where prj = as_KueueOperandSpec and mk = C_KueueOperandSpec, OF
      dc_KueueOperandSpec.deep_copy_axioms as_KueueOperandSpec_C]
  by (simp add: DeepCopy_KueueOperandSpec_def [abs_def])

interpretation dc_KueueStatus_pointer: deep_copy "view_ref as_KueueStatus view_KueueStatus" "foot_ref
    as_KueueStatus foot_KueueStatus" DeepCopy_KueueStatus
  using deep_copy_ref[where prj = as_KueueStatus and mk = C_KueueStatus, OF
      dc_KueueStatus.deep_copy_axioms as_KueueStatus_C]
  by (simp add: DeepCopy_KueueStatus_def [abs_def])

interpretation dc_Resources_pointer: deep_copy "view_ref as_Resources view_Resources" "foot_ref
    as_Resources foot_Resources" DeepCopy_Resources
  using deep_copy_ref[where prj = as_Resources and mk = C_Resources, OF dc_Resources.deep_copy_axioms
      as_Resources_C]
  by (simp add: DeepCopy_Resources_def [abs_def])

interpretation dc_ByWorkload_pointer: deep_copy "view_ref as_ByWorkload view_ByWorkload" "foot_ref
    as_ByWorkload foot_ByWorkload" DeepCopy_ByWorkload
  using deep_copy_ref[where prj = as_ByWorkload and mk = C_ByWorkload, OF dc_ByWorkload.deep_copy_axioms
      as_ByWorkload_C]
  by (simp add: DeepCopy_ByWorkload_def [abs_def])

interpretation dc_MultiKueue_pointer: deep_copy "view_ref as_MultiKueue view_MultiKueue" "foot_ref
    as_MultiKueue foot_MultiKueue" DeepCopy_MultiKueue
  using deep_copy_ref[where prj = as_MultiKueue and mk = C_MultiKueue, OF dc_MultiKueue.deep_copy_axioms
      as_MultiKueue_C]
  by (simp add: DeepCopy_MultiKueue_def [abs_def])

interpretation dc_Kueue_pointer: deep_copy "view_ref as_Kueue view_Kueue" "foot_ref as_Kueue foot_Kueue"
    DeepCopy_Kueue
  using deep_copy_ref[where prj = as_Kueue and mk = C_Kueue, OF dc_Kueue.deep_copy_axioms as_Kueue_C]
  by (simp add: DeepCopy_Kueue_def [abs_def])

interpretation dc_KueueList_pointer: deep_copy "view_ref as_KueueList view_KueueList" "foot_ref
    as_KueueList foot_KueueList" DeepCopy_KueueList
  using deep_copy_ref[where prj = as_KueueList and mk = C_KueueList, OF dc_KueueList.deep_copy_axioms
      as_KueueList_C]
  by (simp add: DeepCopy_KueueList_def [abs_def])

interpretation dc_CELDeviceSelector_pointer: deep_copy "view_ref as_CELDeviceSelector view_plain"
    "foot_ref as_CELDeviceSelector foot_plain" DeepCopy_CELDeviceSelector
  using deep_copy_ref[where prj = as_CELDeviceSelector and mk = C_CELDeviceSelector, OF deep_copy_plain
      as_CELDeviceSelector_C]
  by (simp add: DeepCopy_CELDeviceSelector_def [abs_def] plain_copies)

interpretation dc_ControllerMetricsCustomLabel_pointer: deep_copy "view_ref
    as_ControllerMetricsCustomLabel view_plain" "foot_ref as_ControllerMetricsCustomLabel foot_plain"
    DeepCopy_ControllerMetricsCustomLabel
  using deep_copy_ref[where prj = as_ControllerMetricsCustomLabel and mk =
      C_ControllerMetricsCustomLabel, OF deep_copy_plain as_ControllerMetricsCustomLabel_C]
  by (simp add: DeepCopy_ControllerMetricsCustomLabel_def [abs_def] plain_copies)

interpretation dc_DeviceClassCapacitySource_pointer: deep_copy "view_ref as_DeviceClassCapacitySource
    view_plain" "foot_ref as_DeviceClassCapacitySource foot_plain" DeepCopy_DeviceClassCapacitySource
  using deep_copy_ref[where prj = as_DeviceClassCapacitySource and mk = C_DeviceClassCapacitySource, OF
      deep_copy_plain as_DeviceClassCapacitySource_C]
  by (simp add: DeepCopy_DeviceClassCapacitySource_def [abs_def] plain_copies)

interpretation dc_DeviceClassCounterSource_pointer: deep_copy "view_ref as_DeviceClassCounterSource
    view_plain" "foot_ref as_DeviceClassCounterSource foot_plain" DeepCopy_DeviceClassCounterSource
  using deep_copy_ref[where prj = as_DeviceClassCounterSource and mk = C_DeviceClassCounterSource, OF
      deep_copy_plain as_DeviceClassCounterSource_C]
  by (simp add: DeepCopy_DeviceClassCounterSource_def [abs_def] plain_copies)

interpretation dc_DeviceClassSourceConfig_pointer: deep_copy "view_ref as_DeviceClassSourceConfig
    view_plain" "foot_ref as_DeviceClassSourceConfig foot_plain" DeepCopy_DeviceClassSourceConfig
  using deep_copy_ref[where prj = as_DeviceClassSourceConfig and mk = C_DeviceClassSourceConfig, OF
      deep_copy_plain as_DeviceClassSourceConfig_C]
  by (simp add: DeepCopy_DeviceClassSourceConfig_def [abs_def] plain_copies)

interpretation dc_DeviceSelector_pointer: deep_copy "view_ref as_DeviceSelector view_plain" "foot_ref
    as_DeviceSelector foot_plain" DeepCopy_DeviceSelector
  using deep_copy_ref[where prj = as_DeviceSelector and mk = C_DeviceSelector, OF deep_copy_plain
      as_DeviceSelector_C]
  by (simp add: DeepCopy_DeviceSelector_def [abs_def] plain_copies)

interpretation dc_ExternalFramework_pointer: deep_copy "view_ref as_ExternalFramework view_plain"
    "foot_ref as_ExternalFramework foot_plain" DeepCopy_ExternalFramework
  using deep_copy_ref[where prj = as_ExternalFramework and mk = C_ExternalFramework, OF deep_copy_plain
      as_ExternalFramework_C]
  by (simp add: DeepCopy_ExternalFramework_def [abs_def] plain_copies)

interpretation dc_LabelKeys_pointer: deep_copy "view_ref as_LabelKeys view_plain" "foot_ref as_LabelKeys
    foot_plain" DeepCopy_LabelKeys
  using deep_copy_ref[where prj = as_LabelKeys and mk = C_LabelKeys, OF deep_copy_plain as_LabelKeys_C]
  by (simp add: DeepCopy_LabelKeys_def [abs_def] plain_copies)

interpretation dc_Preemption_pointer: deep_copy "view_ref as_Preemption view_plain" "foot_ref
    as_Preemption foot_plain" DeepCopy_Preemption
  using deep_copy_ref[where prj = as_Preemption and mk = C_Preemption, OF deep_copy_plain as_Preemption_C]
  by (simp add: DeepCopy_Preemption_def [abs_def] plain_copies)

interpretation dc_RequeuingStrategy_pointer: deep_copy "view_ref as_RequeuingStrategy view_plain"
    "foot_ref as_RequeuingStrategy foot_plain" DeepCopy_RequeuingStrategy
  using deep_copy_ref[where prj = as_RequeuingStrategy and mk = C_RequeuingStrategy, OF deep_copy_plain
      as_RequeuingStrategy_C]
  by (simp add: DeepCopy_RequeuingStrategy_def [abs_def] plain_copies)

interpretation dc_ResourceWeight_pointer: deep_copy "view_ref as_ResourceWeight view_plain" "foot_ref
    as_ResourceWeight foot_plain" DeepCopy_ResourceWeight
  using deep_copy_ref[where prj = as_ResourceWeight and mk = C_ResourceWeight, OF deep_copy_plain
      as_ResourceWeight_C]
  by (simp add: DeepCopy_ResourceWeight_def [abs_def] plain_copies)

interpretation dc_SourceKey_pointer: deep_copy "view_ref as_SourceKey view_plain" "foot_ref as_SourceKey
    foot_plain" DeepCopy_SourceKey
  using deep_copy_ref[where prj = as_SourceKey and mk = C_SourceKey, OF deep_copy_plain as_SourceKey_C]
  by (simp add: DeepCopy_SourceKey_def [abs_def] plain_copies)

interpretation dc_SourceKeyAnnotation_pointer: deep_copy "view_ref as_SourceKeyAnnotation view_plain"
    "foot_ref as_SourceKeyAnnotation foot_plain" DeepCopy_SourceKeyAnnotation
  using deep_copy_ref[where prj = as_SourceKeyAnnotation and mk = C_SourceKeyAnnotation, OF
      deep_copy_plain as_SourceKeyAnnotation_C]
  by (simp add: DeepCopy_SourceKeyAnnotation_def [abs_def] plain_copies)

interpretation dc_SourceKeyLabel_pointer: deep_copy "view_ref as_SourceKeyLabel view_plain" "foot_ref
    as_SourceKeyLabel foot_plain" DeepCopy_SourceKeyLabel
  using deep_copy_ref[where prj = as_SourceKeyLabel and mk = C_SourceKeyLabel, OF deep_copy_plain
      as_SourceKeyLabel_C]
  by (simp add: DeepCopy_SourceKeyLabel_def [abs_def] plain_copies)

interpretation dc_WorkloadManagement_pointer: deep_copy "view_ref as_WorkloadManagement view_plain"
    "foot_ref as_WorkloadManagement foot_plain" DeepCopy_WorkloadManagement
  using deep_copy_ref[where prj = as_WorkloadManagement and mk = C_WorkloadManagement, OF
      deep_copy_plain as_WorkloadManagement_C]
  by (simp add: DeepCopy_WorkloadManagement_def [abs_def] plain_copies)

lemmas read_defs = read_OwnerReference_def read_ObjectMeta_def read_ControllerMetrics_def
    read_ControllerManager_def read_AdmissionFairSharingCustom_def read_AdmissionFairSharing_def
    read_MultiKueue_def read_DeviceClassMapping_def read_Resources_def read_ByWorkload_def
    read_GangScheduling_def read_Integrations_def read_KueueConfiguration_def read_OperatorSpec_def
    read_KueueOperandSpec_def read_OperatorStatus_def read_KueueStatus_def read_Kueue_def
    read_KueueList_def
lemmas view_defs = view_OwnerReference_def view_ObjectMeta_def view_ControllerMetrics_def
    view_ControllerManager_def view_AdmissionFairSharingCustom_def view_AdmissionFairSharing_def
    view_MultiKueue_def view_DeviceClassMapping_def view_Resources_def view_ByWorkload_def
    view_GangScheduling_def view_Integrations_def view_KueueConfiguration_def view_OperatorSpec_def
    view_KueueOperandSpec_def view_OperatorStatus_def view_KueueStatus_def view_Kueue_def
    view_KueueList_def

section \<open>DeepCopyObject\<close>

text \<open>An interface value that holds a pointer; \<^term>\<open>None\<close> is the nil interface. A nil pointer becomes the
  nil interface, not an interface that holds nil.\<close>
datatype runtime_Object = Obj_Kueue addr | Obj_KueueList addr

definition DeepCopyObject_Kueue :: "addr option \<Rightarrow> (cell Heap, runtime_Object option) go" where
  "DeepCopyObject_Kueue p = go_bind (DeepCopy_Kueue p) (\<lambda>c. case c of
     Some a \<Rightarrow> go_return (Some (Obj_Kueue a)) | None \<Rightarrow> go_return None)"

definition DeepCopyObject_KueueList :: "addr option \<Rightarrow> (cell Heap, runtime_Object option) go" where
  "DeepCopyObject_KueueList p = go_bind (DeepCopy_KueueList p) (\<lambda>c. case c of
     Some a \<Rightarrow> go_return (Some (Obj_KueueList a)) | None \<Rightarrow> go_return None)"

section \<open>Independence\<close>

lemma DeepCopy_nil: "DeepCopy_Kueue p h = (Inr q, h') \<Longrightarrow> q = None \<longleftrightarrow> p = None"
  by (auto simp: DeepCopy_Kueue_def copy_ref_def go_bind_def go_return_def split: option.splits prod.splits sum.splits)


text \<open>A resource with a finalizer, and all else nil.\<close>
definition sample_Kueue :: H_Kueue where
  "sample_Kueue = \<lparr>hku_ObjectMeta = \<lparr>hom_Name = ''cluster'', hom_Namespace = [], hom_UID = ''u'',
       hom_ResourceVersion = ''1'', hom_Generation = 1, hom_DeletionTimestamp = None, hom_Labels = None,
       hom_Annotations = None, hom_OwnerReferences = None, hom_Finalizers = Some 1\<rparr>,
     hku_Spec = \<lparr>hks_OperatorSpec = \<lparr>hos_LogLevel = [], hos_Rest = None\<rparr>,
       hks_Config = \<lparr>hkc_Integrations = \<lparr>hin_Frameworks = None, hin_ExternalFrameworks = None,
           hin_LabelKeysToCopy = None\<rparr>,
         hkc_WorkloadManagement = \<lparr>wm_LabelPolicy = []\<rparr>,
         hkc_GangScheduling = \<lparr>hgs_Policy = [], hgs_ByWorkload = None\<rparr>,
         hkc_Preemption = \<lparr>pr_PreemptionPolicy = []\<rparr>, hkc_Resources = \<lparr>hres_DeviceClassMappings = None\<rparr>,
         hkc_MultiKueue = None,
         hkc_AdmissionFairSharing = \<lparr>hafs_Configuration = [], hafs_Custom =
           \<lparr>hafc_UsageHalfLifeTimeSeconds = 0, hafc_UsageSamplingIntervalSeconds = 0,
            hafc_ResourceWeights = None\<rparr>\<rparr>,
         hkc_ControllerManager = \<lparr>hcmg_Metrics = \<lparr>hcmx_CustomLabels = None\<rparr>\<rparr>\<rparr>\<rparr>,
     hku_Status = \<lparr>hkst_OperatorStatus = \<lparr>host_Conditions = None, host_ReadyReplicas = 0,
       host_Generations = None, host_Rest = []\<rparr>\<rparr>\<rparr>"

definition sample_heap :: "cell Heap" where
  "sample_heap = \<lparr>hp_Cells = [0 \<mapsto> C_Kueue sample_Kueue, 1 \<mapsto> C_Strings [''kueue.openshift.io/finalizer'']],
     hp_Next = 2\<rparr>"


end
