(* ===== verification/Object_Tracker.thy ===== *)
theory Object_Tracker
  imports Api_Scheme API_Types
begin

text \<open>
  The object tracker behind the fake clientset: \<^verbatim>\<open>testing/fixture.go\<close> and \<^verbatim>\<open>testing/fake.go\<close> of the vendored
  \<^verbatim>\<open>client-go\<close>, as far as \<^verbatim>\<open>src/pkg/generated/clientset/versioned/fake\<close> uses them. A tracker stores objects per
  resource under namespace and name and reports every change to the watchers of the resource; a fake
  records the requests and passes each to the first reactor that handles it.

  A stored object is a copy (see \<^verbatim>\<open>Deep_Copy\<close>), so it is a value here. A watcher has a channel of 100 events,
  and an event that does not fit is a panic: the model keeps all events sent and how many were received.
  The version counter of a resource is an \<^verbatim>\<open>int64\<close> that grows by one with each change; it is an
  \<^typ>\<open>int\<close> here. Left out: partial metadata objects and undecoded objects, which the tracker treats
  specially; status objects, which have no object metadata and so cannot be stored; dry runs, which it
  ignores. Parameters: selectors, patches and the field manager, which other packages compute.
\<close>

section \<open>Objects\<close>

type_synonym gvr = "string \<times> string \<times> string"

text \<open>\<^verbatim>\<open>runtime.Object\<close>: a Kueue resource, an object with items (a list type) and the resource version of its
  list metadata, or an object of another type, with object metadata or without.\<close>
datatype runtime_object =
    RKueue Kueue
  | RList go_type string "runtime_object list"
  | ROther go_type "ObjectMeta option" opaque

fun type_of :: "runtime_object \<Rightarrow> go_type" where
  "type_of (RKueue k) = api_type ''Kueue''"
| "type_of (RList t v items) = t"
| "type_of (ROther t m x) = t"

text \<open>\<^verbatim>\<open>meta.Accessor\<close>\<close>
fun Accessor :: "runtime_object \<Rightarrow> err + ObjectMeta" where
  "Accessor (RKueue k) = Inr (ku_ObjectMeta k)"
| "Accessor (ROther t (Some m) x) = Inr m"
| "Accessor _ = Inl (Errorf ''object does not implement the Object interfaces'')"

fun SetNamespace :: "string \<Rightarrow> runtime_object \<Rightarrow> runtime_object" where
  "SetNamespace ns (RKueue k) = RKueue (k\<lparr>ku_ObjectMeta := (ku_ObjectMeta k)\<lparr>om_Namespace := ns\<rparr>\<rparr>)"
| "SetNamespace ns (ROther t m x) = ROther t (map_option (\<lambda>m. m\<lparr>om_Namespace := ns\<rparr>) m) x"
| "SetNamespace ns obj = obj"

text \<open>\<^verbatim>\<open>meta.IsListType\<close> of the types of the scheme: only one has a field \<^verbatim>\<open>Items\<close>.\<close>
definition is_list_type :: "go_type \<Rightarrow> bool" where
  "is_list_type t \<longleftrightarrow> t = api_type ''KueueList''"

text \<open>\<^verbatim>\<open>meta.SetList\<close> on a list of Kueue resources.\<close>
fun set_list :: "go_type \<Rightarrow> string \<Rightarrow> runtime_object list \<Rightarrow> err + runtime_object" where
  "set_list t v objs =
     (if list_all (\<lambda>x. type_of x = api_type ''Kueue'') objs then Inr (RList t v objs)
      else Inl (Errorf ''cannot assign or convert an item''))"

text \<open>\<^verbatim>\<open>meta.UnsafeGuessKindToResource\<close>, the plural.\<close>
definition UnsafeGuessKindToResource :: "group_version_kind \<Rightarrow> gvr" where
  "UnsafeGuessKindToResource kind = (case kind of (g, v, kindName) \<Rightarrow>
     if kindName = [] then ([], [], [])
     else let singularName = ToLower kindName
       in if HasSuffix singularName ''endpoints'' then (g, v, singularName)
          else if last singularName = CHR ''s'' then (g, v, singularName @ ''es'')
          else if last singularName = CHR ''y'' then (g, v, TrimSuffix singularName ''y'' @ ''ies'')
          else (g, v, singularName @ ''s''))"

section \<open>Watchers\<close>

datatype watch_event = Added runtime_object | Modified runtime_object | Deleted runtime_object

record RaceFreeFakeWatcher =
  fw_Sent :: "watch_event list"
  fw_Received :: nat
  fw_Stopped :: bool

abbreviation DefaultChanSize :: nat where "DefaultChanSize \<equiv> 100"

definition NewRaceFreeFake :: RaceFreeFakeWatcher where
  "NewRaceFreeFake = \<lparr>fw_Sent = [], fw_Received = 0, fw_Stopped = False\<rparr>"

record versionedObject =
  vo_resourceVersion :: int
  vo_Object :: runtime_object

type_synonym namespaced_name = "string \<times> string"

text \<open>A watcher is known by its number.\<close>
record Tracker =
  tr_scheme :: Scheme
  tr_objects :: "gvr \<rightharpoonup> (namespaced_name, versionedObject) gomap"
  tr_watchers :: "gvr \<times> string \<Rightarrow> nat list"
  tr_resourceVersions :: "gvr \<rightharpoonup> int"
  tr_channels :: "nat \<Rightarrow> RaceFreeFakeWatcher"
  tr_created :: nat

definition NewObjectTracker :: "Scheme \<Rightarrow> Tracker" where
  "NewObjectTracker scheme = \<lparr>tr_scheme = scheme, tr_objects = Map.empty, tr_watchers = (\<lambda>_. []),
     tr_resourceVersions = Map.empty, tr_channels = (\<lambda>_. NewRaceFreeFake), tr_created = 0\<rparr>"

text \<open>\<^verbatim>\<open>Add\<close>, \<^verbatim>\<open>Modify\<close> and \<^verbatim>\<open>Delete\<close> of a watcher.\<close>
definition fw_send :: "watch_event \<Rightarrow> nat \<Rightarrow> (Tracker, unit) go" where
  "fw_send event i = go_bind (go_read (\<lambda>t. tr_channels t i)) (\<lambda>f.
     if fw_Stopped f then go_return ()
     else if length (fw_Sent f) - fw_Received f < DefaultChanSize
     then go_modify (\<lambda>t. t\<lparr>tr_channels := (tr_channels t)(i := f\<lparr>fw_Sent := fw_Sent f @ [event]\<rparr>)\<rparr>)
     else go_throw (Panic ''channel full''))"

definition fw_Stop :: "nat \<Rightarrow> (Tracker, unit) go" where
  "fw_Stop i = go_modify (\<lambda>t. t\<lparr>tr_channels := (tr_channels t)(i := (tr_channels t i)\<lparr>fw_Stopped := True\<rparr>)\<rparr>)"

text \<open>The reader of a channel takes the oldest event that it has not taken yet.\<close>
definition fw_receive :: "nat \<Rightarrow> (Tracker, watch_event option) go" where
  "fw_receive i = go_bind (go_read (\<lambda>t. tr_channels t i)) (\<lambda>f.
     if fw_Received f < length (fw_Sent f)
     then go_seq (go_modify (\<lambda>t. t\<lparr>tr_channels := (tr_channels t)(i := f\<lparr>fw_Received := Suc (fw_Received f)\<rparr>)\<rparr>))
        (go_return (Some (fw_Sent f ! fw_Received f)))
     else go_return None)"

definition getWatches :: "Tracker \<Rightarrow> gvr \<Rightarrow> string \<Rightarrow> nat list" where
  "getWatches t gvr ns = tr_watchers t (gvr, ns) @ (if ns \<noteq> [] then tr_watchers t (gvr, []) else [])"

definition notify :: "gvr \<Rightarrow> string \<Rightarrow> watch_event \<Rightarrow> (Tracker, unit) go" where
  "notify gvr ns event = go_bind (go_read (\<lambda>t. getWatches t gvr ns)) (go_foreach (fw_send event))"

section \<open>The tracker\<close>

definition objects_in :: "Tracker \<Rightarrow> gvr \<Rightarrow> (namespaced_name, versionedObject) gomap" where
  "objects_in t gvr = (case tr_objects t gvr of None \<Rightarrow> [] | Some objs \<Rightarrow> objs)"

text \<open>\<^verbatim>\<open>t.resourceVersions[gvr] = v; t.objects[gvr][key] = versionedObject{v, obj}\<close>\<close>
definition store_object :: "gvr \<Rightarrow> namespaced_name \<Rightarrow> int \<Rightarrow> runtime_object \<Rightarrow> Tracker \<Rightarrow> Tracker" where
  "store_object gvr key v obj t = t\<lparr>tr_resourceVersions := (tr_resourceVersions t)(gvr \<mapsto> v),
     tr_objects := (tr_objects t)(gvr \<mapsto> AList.update key \<lparr>vo_resourceVersion = v, vo_Object = obj\<rparr> (objects_in t gvr))\<rparr>"

definition current_version :: "Tracker \<Rightarrow> gvr \<Rightarrow> int" where
  "current_version t gvr = (case tr_resourceVersions t gvr of None \<Rightarrow> 1 | Some v \<Rightarrow> v)"

text \<open>\<^verbatim>\<open>tracker.add\<close>\<close>
definition tracker_add :: "gvr \<Rightarrow> runtime_object \<Rightarrow> string \<Rightarrow> bool \<Rightarrow> (Tracker, unit) go" where
  "tracker_add gvr obj ns replaceExisting =
     go_bind (go_lift (Accessor obj)) (\<lambda>meta.
       let obj = (if om_Namespace meta = [] then SetNamespace ns obj else obj);
           objNs = (if om_Namespace meta = [] then ns else om_Namespace meta);
           key = (objNs, om_Name meta)
       in if ns \<noteq> objNs
          then go_throw (ApiError OtherReason ''request namespace does not match object namespace'')
          else
            go_seq (go_modify (\<lambda>t. t\<lparr>tr_objects := (tr_objects t)(gvr \<mapsto> objects_in t gvr)\<rparr>))
           (go_bind (go_read (\<lambda>t. current_version t gvr + 1)) (\<lambda>resourceVersion.
            go_bind (go_read (\<lambda>t. map_of (objects_in t gvr) key)) (\<lambda>existing.
              if existing \<noteq> None
              then if replaceExisting
                then go_seq (go_modify (store_object gvr key resourceVersion obj)) (notify gvr ns (Modified obj))
                else go_throw (ApiError AlreadyExists (om_Name meta))
              else if replaceExisting then go_throw (ApiError NotFound (om_Name meta))
              else go_seq (go_modify (store_object gvr key resourceVersion obj)) (notify gvr ns (Added obj))))))"

text \<open>\<^verbatim>\<open>tracker.Add\<close> of an object that is not a list.\<close>
definition add_single :: "runtime_object \<Rightarrow> (Tracker, unit) go" where
  "add_single obj =
     go_bind (go_lift (Accessor obj)) (\<lambda>meta.
     go_bind (go_read tr_scheme) (\<lambda>scheme.
     go_bind (go_lift (ObjectKinds scheme (type_of obj))) (\<lambda>(gvks, _).
       if gvks = [] then go_throw (Errorf ''no registered kinds'')
       else go_foreach (\<lambda>gvk.
         let (g, v, r) = UnsafeGuessKindToResource gvk;
             gvr = (g, if v = APIVersionInternal then [] else v, r)
         in tracker_add gvr obj (om_Namespace meta) False) gvks)))"

lemma go_foreach_cong [fundef_cong]:
  "xs = ys \<Longrightarrow> (\<And>x. x \<in> set ys \<Longrightarrow> f x = g x) \<Longrightarrow> go_foreach f xs = go_foreach g ys"
  by (induction ys arbitrary: xs) auto

text \<open>\<^verbatim>\<open>tracker.Add\<close>: the items of a list are added one after the other.\<close>
fun tracker_Add :: "runtime_object \<Rightarrow> (Tracker, unit) go" where
  "tracker_Add (RList t v items) = go_foreach tracker_Add items"
| "tracker_Add obj = add_single obj"

definition tracker_Get :: "gvr \<Rightarrow> string \<Rightarrow> string \<Rightarrow> (Tracker, runtime_object) go" where
  "tracker_Get gvr ns name = go_bind (go_read (\<lambda>t. tr_objects t gvr)) (\<lambda>objs. case objs of
     None \<Rightarrow> go_throw (ApiError NotFound name)
   | Some objs \<Rightarrow> (case map_of objs (ns, name) of
       None \<Rightarrow> go_throw (ApiError NotFound name)
     | Some matchingObj \<Rightarrow> go_return (vo_Object matchingObj)))"

definition tracker_Create :: "gvr \<Rightarrow> runtime_object \<Rightarrow> string \<Rightarrow> (Tracker, unit) go" where
  "tracker_Create gvr obj ns = tracker_add gvr obj ns False"

definition tracker_Update :: "gvr \<Rightarrow> runtime_object \<Rightarrow> string \<Rightarrow> (Tracker, unit) go" where
  "tracker_Update gvr obj ns = tracker_add gvr obj ns True"

text \<open>The key of a stored object is its own namespace and name. The result is sorted by namespace, then
  by name.\<close>
definition filterByNamespace ::
  "(namespaced_name, versionedObject) gomap \<Rightarrow> string \<Rightarrow> (namespaced_name \<times> versionedObject) list" where
  "filterByNamespace objs ns =
     sort_key (\<lambda>x. fst (fst x)) (sort_key (\<lambda>x. snd (fst x))
       (filter (\<lambda>x. ns = [] \<or> fst (fst x) = ns) objs))"

definition tracker_List :: "gvr \<Rightarrow> group_version_kind \<Rightarrow> string \<Rightarrow> (Tracker, runtime_object) go" where
  "tracker_List gvr gvk ns = (case gvk of (g, v, kind) \<Rightarrow>
     go_bind (go_read tr_scheme) (\<lambda>scheme.
     go_bind (go_lift (scheme_New scheme (g, if v = [] then APIVersionInternal else v, kind @ ''List''))) (\<lambda>t.
       if \<not> is_list_type t then go_throw (Errorf ''not a list type'')
       else
         go_bind (go_read (\<lambda>s. FormatInt (current_version s gvr))) (\<lambda>version.
         go_bind (go_read (\<lambda>s. tr_objects s gvr)) (\<lambda>objs. case objs of
           None \<Rightarrow> go_return (RList t version [])
         | Some objs \<Rightarrow>
             go_lift (set_list t version (map (\<lambda>x. vo_Object (snd x)) (filterByNamespace objs ns))))))))"

record ListOptions =
  lo_LabelSelector :: string
  lo_FieldSelector :: string
  lo_ResourceVersion :: string
  lo_Watch :: bool

definition empty_list_options :: ListOptions where
  "empty_list_options = \<lparr>lo_LabelSelector = [], lo_FieldSelector = [], lo_ResourceVersion = [], lo_Watch = False\<rparr>"

text \<open>\<^verbatim>\<open>tracker.Watch\<close> with options, as the reactor calls it; the result is the new watcher.\<close>
definition tracker_Watch :: "gvr \<Rightarrow> string \<Rightarrow> ListOptions \<Rightarrow> (Tracker, nat) go" where
  "tracker_Watch gvr ns opts =
     (case (if lo_ResourceVersion opts = [] then Some 0 else Atoi (lo_ResourceVersion opts)) of
        None \<Rightarrow> go_throw (Errorf ''invalid ResourceVersion in ListOptions, must be int64'')
      | Some addFromRV \<Rightarrow>
          go_bind (go_read tr_created) (\<lambda>fakewatcher.
          go_seq (go_modify (\<lambda>t. t\<lparr>tr_created := Suc fakewatcher,
              tr_channels := (tr_channels t)(fakewatcher := NewRaceFreeFake),
              tr_watchers := (tr_watchers t)((gvr, ns) := tr_watchers t (gvr, ns) @ [fakewatcher])\<rparr>))
         (go_bind (go_read (\<lambda>t. filterByNamespace (objects_in t gvr) ns)) (\<lambda>matchingObjs.
          go_seq (go_foreach (\<lambda>(key, obj).
              go_when (addFromRV < vo_resourceVersion obj) (fw_send (Added (vo_Object obj)) fakewatcher)) matchingObjs)
            (go_return fakewatcher)))))"

definition tracker_Delete :: "gvr \<Rightarrow> string \<Rightarrow> string \<Rightarrow> (Tracker, unit) go" where
  "tracker_Delete gvr ns name =
     go_bind (go_read (\<lambda>t. tr_objects t gvr)) (\<lambda>objs. case objs of
       None \<Rightarrow> go_throw (ApiError NotFound name)
     | Some objs \<Rightarrow> (case map_of objs (ns, name) of
         None \<Rightarrow> go_throw (ApiError NotFound name)
       | Some obj \<Rightarrow>
           go_seq (go_modify (\<lambda>t. t\<lparr>tr_objects := (tr_objects t)(gvr \<mapsto> AList.delete (ns, name) objs)\<rparr>))
             (notify gvr ns (Deleted (vo_Object obj)))))"

section \<open>What a watcher sees\<close>

definition key_of :: "runtime_object \<Rightarrow> namespaced_name" where
  "key_of obj = (case Accessor obj of Inl e \<Rightarrow> ([], []) | Inr m \<Rightarrow> (om_Namespace m, om_Name m))"

text \<open>A reader that keeps the objects of the events it received, as an informer does.\<close>
fun replay_event :: "watch_event \<Rightarrow> (namespaced_name \<rightharpoonup> runtime_object) \<Rightarrow> namespaced_name \<rightharpoonup> runtime_object" where
  "replay_event (Added obj) m = m(key_of obj \<mapsto> obj)"
| "replay_event (Modified obj) m = m(key_of obj \<mapsto> obj)"
| "replay_event (Deleted obj) m = m(key_of obj := None)"

definition replay :: "watch_event list \<Rightarrow> namespaced_name \<rightharpoonup> runtime_object" where
  "replay events = fold replay_event events Map.empty"

definition stored :: "Tracker \<Rightarrow> gvr \<Rightarrow> namespaced_name \<rightharpoonup> runtime_object" where
  "stored t gvr key = map_option vo_Object (map_of (objects_in t gvr) key)"

lemma replay_repeat: "0 < n \<Longrightarrow> replay (events @ replicate n e) = replay_event e (replay events)"
proof (induction n)
  case (Suc n)
  have "replay_event e (replay_event e m) = replay_event e m" for m by (cases e) auto
  with Suc show ?case by (cases n) (auto simp: replay_def replicate_append_same[symmetric] simp del: replicate.simps)
qed simp

text \<open>An event goes to the watchers in the list, at least once, and to no other.\<close>
lemma send_all:
  "go_foreach (fw_send e) ws t = (Inr (), t') \<Longrightarrow>
   \<exists>C. t' = t\<lparr>tr_channels := C\<rparr> \<and> (\<forall>i. i \<notin> set ws \<longrightarrow> C i = tr_channels t i) \<and>
     (\<forall>i. fw_Stopped (C i) = fw_Stopped (tr_channels t i)) \<and>
     (\<forall>i \<in> set ws. \<not> fw_Stopped (tr_channels t i) \<longrightarrow>
        (\<exists>n > 0. fw_Sent (C i) = fw_Sent (tr_channels t i) @ replicate n e))"
proof (induction ws arbitrary: t)
  case Nil
  then show ?case by (auto simp: go_return_def intro!: exI[of _ "tr_channels t'"])
next
  case (Cons w ws)
  let ?f = "tr_channels t w"
  have "\<exists>t1. fw_send e w t = (Inr (), t1) \<and> go_foreach (fw_send e) ws t1 = (Inr (), t')"
    using Cons.prems by (auto simp: go_seq_def go_bind_def split: prod.splits sum.splits)
  then obtain t1 where t1: "fw_send e w t = (Inr (), t1)" "go_foreach (fw_send e) ws t1 = (Inr (), t')" by blast
  have c1: "t1 = t\<lparr>tr_channels := (tr_channels t)(w := if fw_Stopped ?f then ?f else ?f\<lparr>fw_Sent := fw_Sent ?f @ [e]\<rparr>)\<rparr>"
    using t1(1) by (auto simp: fw_send_def go_defs split: if_splits)
  from Cons.IH[OF t1(2)] obtain C where C: "t' = t1\<lparr>tr_channels := C\<rparr>"
      "\<forall>i. i \<notin> set ws \<longrightarrow> C i = tr_channels t1 i" "\<forall>i. fw_Stopped (C i) = fw_Stopped (tr_channels t1 i)"
      "\<forall>i \<in> set ws. \<not> fw_Stopped (tr_channels t1 i) \<longrightarrow>
        (\<exists>n > 0. fw_Sent (C i) = fw_Sent (tr_channels t1 i) @ replicate n e)"
    by blast
  have "\<exists>n > 0. fw_Sent (C i) = fw_Sent (tr_channels t i) @ replicate n e"
    if i: "i \<in> set (w # ws)" "\<not> fw_Stopped (tr_channels t i)" for i
  proof (cases "i \<in> set ws")
    case True
    have "\<not> fw_Stopped (tr_channels t1 i)" using i(2) c1 by auto
    then obtain n where "n > 0" "fw_Sent (C i) = fw_Sent (tr_channels t1 i) @ replicate n e"
      using C(4) True by blast
    then show ?thesis
      by (cases "i = w") (use i(2) c1 in \<open>auto intro!: exI[of _ "Suc n"]\<close>)
  next
    case False
    then show ?thesis using C(2) i c1 by (auto intro!: exI[of _ 1])
  qed
  then show ?case using C c1 by (intro exI[of _ C]) (auto split: if_splits)
qed

text \<open>Objects are stored under their own keys, with versions above that of an empty set; a watcher has
  one resource and namespace.\<close>
definition objects_ok :: "(namespaced_name, versionedObject) gomap \<Rightarrow> bool" where
  "objects_ok objs \<longleftrightarrow> distinct (map fst objs) \<and>
     (\<forall>(key, v) \<in> set objs. key_of (vo_Object v) = key \<and> 1 < vo_resourceVersion v)"

definition tracker_ok :: "Tracker \<Rightarrow> bool" where
  "tracker_ok t \<longleftrightarrow> (\<forall>gvr. objects_ok (objects_in t gvr) \<and> 1 \<le> current_version t gvr) \<and>
    (\<forall>g i. i \<in> set (tr_watchers t g) \<longrightarrow> i < tr_created t) \<and>
    (\<forall>g h i. i \<in> set (tr_watchers t g) \<longrightarrow> i \<in> set (tr_watchers t h) \<longrightarrow> g = h)"

lemma tracker_ok_objects: "tracker_ok t \<Longrightarrow> objects_ok (objects_in t gvr)"
  unfolding tracker_ok_def by blast

text \<open>A watcher of all namespaces that was told everything.\<close>
definition follows :: "gvr \<Rightarrow> nat \<Rightarrow> Tracker \<Rightarrow> bool" where
  "follows gvr i t \<longleftrightarrow> i \<in> set (tr_watchers t (gvr, [])) \<and>
     (\<not> fw_Stopped (tr_channels t i) \<longrightarrow> replay (fw_Sent (tr_channels t i)) = stored t gvr)"

lemma stored_keyed:
  "tracker_ok t \<Longrightarrow> map_of (objects_in t gvr) key = Some v \<Longrightarrow> key_of (vo_Object v) = key"
  using tracker_ok_objects[of t gvr] unfolding objects_ok_def by (blast dest: map_of_SomeD)

text \<open>Storing under the event's key, then telling the watchers.\<close>
lemma change_follows:
  assumes ok: "tracker_ok t" and "follows gvr i t"
    and run: "notify g ns e t1 = (Inr (), t')"
    and t1: "tr_watchers t1 = tr_watchers t" "tr_channels t1 = tr_channels t"
      "\<And>g'. g' \<noteq> g \<Longrightarrow> tr_objects t1 g' = tr_objects t g'"
      "stored t1 g = replay_event e (stored t g)"
  shows "follows gvr i t'"
proof -
  obtain C where C: "t' = t1\<lparr>tr_channels := C\<rparr>"
      "\<forall>i. i \<notin> set (getWatches t1 g ns) \<longrightarrow> C i = tr_channels t1 i"
      "\<forall>i. fw_Stopped (C i) = fw_Stopped (tr_channels t1 i)"
      "\<forall>i \<in> set (getWatches t1 g ns). \<not> fw_Stopped (tr_channels t1 i) \<longrightarrow>
        (\<exists>n > 0. fw_Sent (C i) = fw_Sent (tr_channels t1 i) @ replicate n e)"
    using send_all[of e "getWatches t1 g ns" t1 t'] run by (auto simp: notify_def go_bind_def go_read_def)
  have i: "i \<in> set (tr_watchers t (gvr, []))" using assms(2) by (simp add: follows_def)
  have st: "stored t' g' = stored t1 g'" for g' using C(1) by (simp add: stored_def objects_in_def fun_eq_iff)
  show ?thesis
  proof (cases "g = gvr")
    case True
    then have told: "i \<in> set (getWatches t1 g ns)" using i t1(1) by (auto simp: getWatches_def)
    have "replay (fw_Sent (C i)) = stored t' gvr" if active: "\<not> fw_Stopped (C i)"
    proof -
      have "\<not> fw_Stopped (tr_channels t i)" using active C(3) t1(2) by simp
      moreover obtain n where "n > 0" "fw_Sent (C i) = fw_Sent (tr_channels t i) @ replicate n e"
        using C(3,4) told active t1(2) by auto
      ultimately show ?thesis
        using assms(2) st t1(4) True by (simp add: follows_def replay_repeat)
    qed
    then show ?thesis using i t1(1) C(1) by (simp add: follows_def)
  next
    case False
    have "i \<notin> set (tr_watchers t (g, n))" for n
      using ok i False unfolding tracker_ok_def by blast
    with False have "i \<notin> set (getWatches t1 g ns)" using t1(1) by (simp add: getWatches_def)
    moreover have "stored t1 gvr = stored t gvr"
      using t1(3)[of gvr] False by (simp add: stored_def objects_in_def fun_eq_iff)
    ultimately show ?thesis using C assms(2) t1 st by (auto simp: follows_def)
  qed
qed


lemma notify_ok:
  assumes "notify g ns e t = (Inr (), t')"
  obtains C where "t' = t\<lparr>tr_channels := C\<rparr>"
  using send_all[of e "getWatches t g ns" t t'] assms by (auto simp: notify_def go_bind_def go_read_def)

lemma tracker_ok_channels [simp]: "tracker_ok (t\<lparr>tr_channels := C\<rparr>) = tracker_ok t"
  by (simp add: tracker_ok_def objects_in_def current_version_def)

lemma store_object_sel [simp]:
  "tr_watchers (store_object g key v obj t) = tr_watchers t" "tr_created (store_object g key v obj t) = tr_created t"
  "tr_channels (store_object g key v obj t) = tr_channels t"
  "g' \<noteq> g \<Longrightarrow> tr_objects (store_object g key v obj t) g' = tr_objects t g'"
  "current_version (store_object g key v obj t) g' = (if g' = g then v else current_version t g')"
  by (simp_all add: store_object_def current_version_def)

lemma objects_in_store: "objects_in (store_object g key v obj t) g' =
   (if g' = g then AList.update key \<lparr>vo_resourceVersion = v, vo_Object = obj\<rparr> (objects_in t g) else objects_in t g')"
  by (simp add: store_object_def objects_in_def)

lemma update_member: "x \<in> set (AList.update k v xs) \<Longrightarrow> x = (k, v) \<or> x \<in> set xs"
  by (induction xs) (auto split: if_splits)

lemma objects_ok_update:
  "objects_ok objs \<Longrightarrow> key_of obj = key \<Longrightarrow> 1 < v \<Longrightarrow>
   objects_ok (AList.update key \<lparr>vo_resourceVersion = v, vo_Object = obj\<rparr> objs)"
  by (auto simp: objects_ok_def distinct_update dest!: update_member)

lemma objects_ok_delete: "objects_ok objs \<Longrightarrow> objects_ok (AList.delete key objs)"
  by (auto simp: objects_ok_def AList.delete_eq distinct_map_filter)

lemma tracker_ok_store:
  assumes "tracker_ok t" and "key_of obj = key"
  shows "tracker_ok (store_object g key (current_version t g + 1) obj t)"
proof -
  have "1 \<le> current_version t g" using assms(1) unfolding tracker_ok_def by blast
  then have "objects_ok (AList.update key \<lparr>vo_resourceVersion = current_version t g + 1, vo_Object = obj\<rparr> (objects_in t g))"
    using tracker_ok_objects[OF assms(1)] assms(2) by (intro objects_ok_update) auto
  with assms(1) \<open>1 \<le> current_version t g\<close> show ?thesis
    unfolding tracker_ok_def objects_in_store store_object_sel by simp
qed

lemma stored_store [simp]: "stored (store_object g key v obj t) g = (stored t g)(key \<mapsto> obj)"
  by (auto simp: stored_def objects_in_store update_conv')

text \<open>A request that does not panic keeps what holds of all watchers, whether it succeeds or fails.\<close>
definition unless_panic :: "(Tracker \<Rightarrow> bool) \<Rightarrow> (Tracker, 'a) go \<Rightarrow> bool" where
  "unless_panic I m \<longleftrightarrow> go_triple I m (\<lambda>_. I) (\<lambda>e t. is_panic e \<or> I t)"

lemma unless_panicI:
  "(\<And>t r t'. I t \<Longrightarrow> m t = (r, t') \<Longrightarrow> (\<And>e. r = Inl e \<Longrightarrow> \<not> is_panic e) \<Longrightarrow> I t') \<Longrightarrow> unless_panic I m"
  unfolding unless_panic_def by (rule go_tripleI) auto

lemma unless_panicD:
  "unless_panic I m \<Longrightarrow> I t \<Longrightarrow> m t = (r, t') \<Longrightarrow> (\<And>e. r = Inl e \<Longrightarrow> \<not> is_panic e) \<Longrightarrow> I t'"
  unfolding unless_panic_def by (cases r) (auto dest: go_triple_Inl go_triple_Inr)

named_theorems unless_panic_rules \<open>rules for requests that keep an invariant unless they panic\<close>

lemma unless_panic_bind [unless_panic_rules]:
  "unless_panic I m \<Longrightarrow> (\<And>x. unless_panic I (f x)) \<Longrightarrow> unless_panic I (go_bind m f)"
  unfolding unless_panic_def by (rule go_bind_wp)
lemma unless_panic_foreach [unless_panic_rules]:
  "(\<And>x. x \<in> set xs \<Longrightarrow> unless_panic I (f x)) \<Longrightarrow> unless_panic I (go_foreach f xs)"
proof (induction xs)
  case Nil
  then show ?case by (simp add: unless_panic_def go_triple_def go_return_def)
next
  case (Cons x xs)
  have "unless_panic I (f x)" "unless_panic I (go_foreach f xs)" using Cons by simp_all
  then show ?case by (simp add: go_seq_def unless_panic_bind)
qed
lemma unless_panic_basic [unless_panic_rules]:
  "unless_panic I (go_return x)" "unless_panic I (go_throw e)" "unless_panic I (go_read f)" "unless_panic I (go_lift r)"
  by (auto simp: unless_panic_def go_triple_def go_defs split: sum.splits)
lemma unless_panic_if [unless_panic_rules]:
  "unless_panic I m \<Longrightarrow> unless_panic I n \<Longrightarrow> unless_panic I (if b then m else n)"
  by simp

lemma unless_panic_prod [unless_panic_rules]:
  "(\<And>a b. unless_panic I (f a b)) \<Longrightarrow> unless_panic I (case x of (a, b) \<Rightarrow> f a b)"
  by (cases x) simp

text \<open>The invariant, for any set of watchers that follow the tracker.\<close>
definition kept :: "(gvr \<times> nat) set \<Rightarrow> Tracker \<Rightarrow> bool" where
  "kept W t \<longleftrightarrow> tracker_ok t \<and> (\<forall>gvr i. (gvr, i) \<in> W \<longrightarrow> follows gvr i t)"

lemma keptI: "tracker_ok t \<Longrightarrow> (\<And>gvr i. (gvr, i) \<in> W \<Longrightarrow> follows gvr i t) \<Longrightarrow> kept W t"
  unfolding kept_def by blast

lemma keptD: "kept W t \<Longrightarrow> tracker_ok t" "kept W t \<Longrightarrow> (gvr, i) \<in> W \<Longrightarrow> follows gvr i t"
  unfolding kept_def by blast+

lemma send_fails: "go_foreach (fw_send ev) ws s = (Inl err, s') \<Longrightarrow> is_panic err"
  by (induction ws arbitrary: s) (auto simp: go_defs fw_send_def split: if_splits sum.splits prod.splits)

lemma add_keeps:
  "unless_panic (kept W) (tracker_add g obj ns replaceExisting)"
proof (rule unless_panicI)
  fix t r t'
  assume I: "kept W t" and run: "tracker_add g obj ns replaceExisting t = (r, t')"
    and calm: "\<And>e. r = Inl e \<Longrightarrow> \<not> is_panic e"
  let ?t0 = "t\<lparr>tr_objects := (tr_objects t)(g \<mapsto> objects_in t g)\<rparr>"
  have t0: "objects_in ?t0 g' = objects_in t g'" "current_version ?t0 g' = current_version t g'" for g'
    by (simp_all add: objects_in_def current_version_def)
  have ok0: "tracker_ok ?t0"
    using keptD(1)[OF I] unfolding tracker_ok_def t0 by simp
  have f0: "follows gvr i ?t0" if "(gvr, i) \<in> W" for gvr i
    using keptD(2)[OF I that] by (simp add: follows_def stored_def t0 fun_eq_iff)
  show "kept W t'"
  proof (cases "Accessor obj")
    case (Inl e)
    then show ?thesis using run I by (simp add: tracker_add_def go_bind_def go_lift_def)
  next
    case (Inr meta)
    define obj' where "obj' = (if om_Namespace meta = [] then SetNamespace ns obj else obj)"
    let ?ns = "if om_Namespace meta = [] then ns else om_Namespace meta"
    let ?key = "(?ns, om_Name meta)"
    let ?t1 = "store_object g ?key (current_version t g + 1) obj' ?t0"
    have key: "key_of obj' = ?key"
      using Inr by (cases obj rule: Accessor.cases) (auto simp: key_of_def obj'_def)
    let ?e = "if map_of (objects_in t g) ?key = None then Added obj' else Modified obj'"
    have "t' \<in> {t, ?t0} \<or> notify g ns ?e ?t1 = (r, t')"
      using run Inr
      by (auto simp: tracker_add_def go_defs Let_def t0 obj'_def split: if_splits)
    moreover have "kept W t'" if n: "notify g ns ?e ?t1 = (r, t')"
    proof -
      have "\<exists>u. r = Inr u" 
        using n calm send_fails by (cases r) (auto simp: notify_def go_bind_def go_read_def)
      then have n': "notify g ns ?e ?t1 = (Inr (), t')" using n by simp
      then obtain C where C: "t' = ?t1\<lparr>tr_channels := C\<rparr>" by (rule notify_ok)
      have "tracker_ok ?t1" using tracker_ok_store[OF ok0 key, of g] by (simp add: t0)
      moreover have "follows gvr i t'" if "(gvr, i) \<in> W" for gvr i
        by (rule change_follows[OF ok0 f0[OF that] n']) (simp_all add: key)
      ultimately show ?thesis using C by (intro keptI) simp_all
    qed
    ultimately show ?thesis using I keptI[OF ok0 f0] by blast
  qed
qed

lemma delete_keeps: "unless_panic (kept W) (tracker_Delete g ns name)"
proof (rule unless_panicI)
  fix t r t'
  assume I: "kept W t" and run: "tracker_Delete g ns name t = (r, t')"
    and calm: "\<And>e. r = Inl e \<Longrightarrow> \<not> is_panic e"
  show "kept W t'"
  proof (cases "map_of (objects_in t g) (ns, name)")
    case None
    then show ?thesis
      using run I by (auto simp: tracker_Delete_def objects_in_def go_defs split: option.splits)
  next
    case (Some obj)
    let ?t1 = "t\<lparr>tr_objects := (tr_objects t)(g \<mapsto> AList.delete (ns, name) (objects_in t g))\<rparr>"
    have n: "notify g ns (Deleted (vo_Object obj)) ?t1 = (r, t')"
      using run Some by (auto simp: tracker_Delete_def objects_in_def go_defs split: option.splits)
    then have n': "notify g ns (Deleted (vo_Object obj)) ?t1 = (Inr (), t')"
      using calm send_fails by (cases r) (auto simp: notify_def go_bind_def go_read_def)
    have objs: "objects_in ?t1 g' = (if g' = g then AList.delete (ns, name) (objects_in t g) else objects_in t g')" for g'
      by (simp add: objects_in_def)
    have "tracker_ok ?t1"
      using keptD(1)[OF I] objects_ok_delete[OF tracker_ok_objects, of t "(ns, name)" g] unfolding tracker_ok_def objs
      by (simp add: current_version_def del: split_paired_All)
    moreover have "stored ?t1 g = (stored t g)((ns, name) := None)"
      by (auto simp: stored_def objs delete_conv')
    then have "follows gvr i t'" if "(gvr, i) \<in> W" for gvr i
      using stored_keyed[OF keptD(1)[OF I] Some] by (intro change_follows[OF keptD(1)[OF I] keptD(2)[OF I that] n']) auto
    ultimately show ?thesis using n' by (intro keptI) (auto elim!: notify_ok)
  qed
qed

lemma Add_keeps: "unless_panic (kept W) (tracker_Add obj)"
proof (induction obj rule: tracker_Add.induct)
  case (1 t v items)
  then show ?case by (auto intro!: unless_panic_rules)
qed (simp_all only: tracker_Add.simps add_single_def Let_def, (intro unless_panic_rules add_keeps)+)

text \<open>Starting a watch tells the new watcher what there is, and the others nothing.\<close>
lemma send_existing:
  "go_foreach (\<lambda>(key, obj). go_when (rv < vo_resourceVersion obj) (fw_send (Added (vo_Object obj)) i)) objs t = (Inr (), t') \<Longrightarrow>
   \<not> fw_Stopped (tr_channels t i) \<Longrightarrow>
   \<exists>C. t' = t\<lparr>tr_channels := C\<rparr> \<and> (\<forall>j. j \<noteq> i \<longrightarrow> C j = tr_channels t j) \<and> \<not> fw_Stopped (C i) \<and>
     fw_Sent (C i) = fw_Sent (tr_channels t i) @
       map (\<lambda>x. Added (vo_Object (snd x))) (filter (\<lambda>x. rv < vo_resourceVersion (snd x)) objs)"
proof (induction objs arbitrary: t)
  case Nil
  then show ?case by (intro exI[of _ "tr_channels t'"]) (simp add: go_return_def)
next
  case (Cons x objs)
  let ?f = "tr_channels t i"
  let ?f1 = "if rv < vo_resourceVersion (snd x) then ?f\<lparr>fw_Sent := fw_Sent ?f @ [Added (vo_Object (snd x))]\<rparr> else ?f"
  let ?t1 = "t\<lparr>tr_channels := (tr_channels t)(i := ?f1)\<rparr>"
  let ?g = "\<lambda>(key, obj). go_when (rv < vo_resourceVersion obj) (fw_send (Added (vo_Object obj)) i)"
  obtain u t1 where t1: "?g x t = (Inr u, t1)" "go_foreach ?g objs t1 = (Inr (), t')"
    using Cons.prems(1) unfolding go_foreach.simps by (elim go_seq_InrE)
  have "t1 = ?t1"
    using t1(1) Cons.prems(2) by (auto simp: go_defs fw_send_def case_prod_beta split: if_splits)
  then have "go_foreach ?g objs ?t1 = (Inr (), t')" using t1(2) by simp
  moreover have "\<not> fw_Stopped (tr_channels ?t1 i)" using Cons.prems(2) by simp
  ultimately obtain C where "t' = ?t1\<lparr>tr_channels := C\<rparr>" "\<forall>j. j \<noteq> i \<longrightarrow> C j = tr_channels ?t1 j" "\<not> fw_Stopped (C i)"
      "fw_Sent (C i) = fw_Sent (tr_channels ?t1 i) @
       map (\<lambda>x. Added (vo_Object (snd x))) (filter (\<lambda>x. rv < vo_resourceVersion (snd x)) objs)"
    using Cons.IH[of ?t1] by blast
  then show ?case by (intro exI[of _ C]) simp
qed

lemma replay_added:
  assumes "\<forall>(key, v) \<in> set objs. key_of (vo_Object v) = key" and "distinct (map fst objs)"
  shows "replay (map (\<lambda>x. Added (vo_Object (snd x))) objs) = (\<lambda>k. map_option vo_Object (map_of objs k))"
  using assms
proof (induction objs rule: rev_induct)
  case (snoc x objs)
  then have "fst x \<notin> fst ` set objs" "key_of (vo_Object (snd x)) = fst x" by (auto simp: case_prod_beta)
  then have "map_of objs (fst x) = None" by (simp add: map_of_eq_None_iff)
  then show ?case
    using snoc \<open>key_of (vo_Object (snd x)) = fst x\<close>
    by (auto simp: replay_def fun_eq_iff map_add_def map_of_append split: option.splits)
qed (simp add: replay_def)

lemma filterByNamespace_all:
  assumes "distinct (map fst objs)"
  shows "set (filterByNamespace objs []) = set objs" "distinct (map fst (filterByNamespace objs []))"
    "map_of (filterByNamespace objs []) = map_of objs"
proof -
  show s: "set (filterByNamespace objs []) = set objs" by (simp add: filterByNamespace_def)
  show d: "distinct (map fst (filterByNamespace objs []))"
    using assms by (simp add: filterByNamespace_def distinct_map)
  show "map_of (filterByNamespace objs []) = map_of objs" using s d assms by (simp add: map_of_inject_set)
qed

lemma Watch_run:
  assumes "tracker_Watch g ns opts t = (Inr i, t')"
  obtains C rv where "i = tr_created t"
    and "t' = t\<lparr>tr_created := Suc i, tr_channels := C,
      tr_watchers := (tr_watchers t)((g, ns) := tr_watchers t (g, ns) @ [i])\<rparr>"
    and "\<And>j. j \<noteq> i \<Longrightarrow> C j = tr_channels t j"
    and "fw_Sent (C i) = map (\<lambda>x. Added (vo_Object (snd x)))
      (filter (\<lambda>x. rv < vo_resourceVersion (snd x)) (filterByNamespace (objects_in t g) ns))"
    and "lo_ResourceVersion opts = [] \<longrightarrow> rv = 0"
proof -
  let ?n = "tr_created t"
  let ?t1 = "t\<lparr>tr_created := Suc ?n, tr_channels := (tr_channels t)(?n := NewRaceFreeFake),
      tr_watchers := (tr_watchers t)((g, ns) := tr_watchers t (g, ns) @ [?n])\<rparr>"
  have o: "objects_in ?t1 g = objects_in t g" by (simp add: objects_in_def)
  obtain rv where rv: "(if lo_ResourceVersion opts = [] then Some 0 else Atoi (lo_ResourceVersion opts)) = Some rv"
    using assms by (auto simp: tracker_Watch_def go_defs split: option.splits)
  then have run: "go_foreach (\<lambda>(key, obj). go_when (rv < vo_resourceVersion obj) (fw_send (Added (vo_Object obj)) ?n))
      (filterByNamespace (objects_in t g) ns) ?t1 = (Inr (), t')" and i: "i = ?n"
    using assms
    by (auto simp: tracker_Watch_def go_seq_def go_bind_def go_read_def go_modify_def go_return_def o
        split: prod.splits sum.splits)
  obtain C where C: "t' = ?t1\<lparr>tr_channels := C\<rparr>" "\<forall>j. j \<noteq> ?n \<longrightarrow> C j = tr_channels ?t1 j"
      "fw_Sent (C ?n) = fw_Sent (tr_channels ?t1 ?n) @ map (\<lambda>x. Added (vo_Object (snd x)))
        (filter (\<lambda>x. rv < vo_resourceVersion (snd x)) (filterByNamespace (objects_in t g) ns))"
    using send_existing[OF run] by (auto simp: NewRaceFreeFake_def)
  show ?thesis
    by (rule that[of C rv]) (use C i rv in \<open>auto simp: NewRaceFreeFake_def split: if_splits\<close>)
qed

lemma Watch_ok:
  assumes "tracker_ok t" and "tracker_Watch g ns opts t = (Inr i, t')"
  shows "tracker_ok t'"
proof -
  from assms(2) obtain C where i: "i = tr_created t" and t': "t' = t\<lparr>tr_created := Suc i, tr_channels := C,
      tr_watchers := (tr_watchers t)((g, ns) := tr_watchers t (g, ns) @ [i])\<rparr>" by (elim Watch_run)
  have new: "i \<notin> set (tr_watchers t h)" for h using assms(1) i unfolding tracker_ok_def by blast
  have "objects_in t' g' = objects_in t g'" "current_version t' g' = current_version t g'" for g'
    using t' by (simp_all add: objects_in_def current_version_def)
  moreover have "k < tr_created t'" if "k \<in> set (tr_watchers t' h)" for h k
    using that assms(1) t' i unfolding tracker_ok_def by (auto split: if_splits simp del: split_paired_All) (metis less_Suc_eq)+
  moreover have "h = h'" if k: "k \<in> set (tr_watchers t' h)" "k \<in> set (tr_watchers t' h')" for h h' k
  proof (cases "k = i")
    case True
    then have "h = (g, ns)" "h' = (g, ns)" using k t' new[of h] new[of h'] by (auto split: if_splits)
    then show ?thesis by simp
  next
    case False
    then have "k \<in> set (tr_watchers t h)" "k \<in> set (tr_watchers t h')" using k t' by (auto split: if_splits)
    then show ?thesis using assms(1) unfolding tracker_ok_def by blast
  qed
  ultimately show ?thesis using assms(1) unfolding tracker_ok_def by (metis (no_types))
qed

lemma Watch_follows:
  assumes ok: "tracker_ok t" and run: "tracker_Watch g [] opts t = (Inr i, t')" and "lo_ResourceVersion opts = []"
  shows "follows g i t'"
proof -
  from run assms(3) obtain C where t': "t' = t\<lparr>tr_created := Suc i, tr_channels := C,
      tr_watchers := (tr_watchers t)((g, []) := tr_watchers t (g, []) @ [i])\<rparr>"
      and sent: "fw_Sent (C i) = map (\<lambda>x. Added (vo_Object (snd x)))
        (filter (\<lambda>x. 0 < vo_resourceVersion (snd x)) (filterByNamespace (objects_in t g) []))"
    by (elim Watch_run) auto
  have objs: "objects_ok (objects_in t g)" by (rule tracker_ok_objects[OF ok])
  note all = filterByNamespace_all[of "objects_in t g"]
  have "\<forall>x \<in> set (filterByNamespace (objects_in t g) []). 0 < vo_resourceVersion (snd x)"
    using objs all(1) by (auto simp: objects_ok_def)
  then have "fw_Sent (C i) = map (\<lambda>x. Added (vo_Object (snd x))) (filterByNamespace (objects_in t g) [])"
    using sent by (metis (no_types, lifting) filter_True)
  moreover have "\<forall>(key, v) \<in> set (filterByNamespace (objects_in t g) []). key_of (vo_Object v) = key"
    using objs all(1) by (auto simp: objects_ok_def)
  ultimately have "replay (fw_Sent (C i)) = (\<lambda>k. map_option vo_Object (map_of (objects_in t g) k))"
    using replay_added[of "filterByNamespace (objects_in t g) []"] all objs by (simp add: objects_ok_def)
  then show ?thesis using t' by (simp add: follows_def stored_def objects_in_def fun_eq_iff)
qed

lemma Watch_keeps:
  assumes I: "kept W t" and run: "tracker_Watch g ns opts t = (Inr j, t')"
  shows "kept W t'"
proof -
  from run obtain C where j: "j = tr_created t" and t': "t' = t\<lparr>tr_created := Suc j, tr_channels := C,
      tr_watchers := (tr_watchers t)((g, ns) := tr_watchers t (g, ns) @ [j])\<rparr>"
      and C: "\<And>k. k \<noteq> j \<Longrightarrow> C k = tr_channels t k"
    by (elim Watch_run) metis
  have "follows gvr i t'" if "follows gvr i t" for gvr i
  proof -
    have i: "i \<in> set (tr_watchers t (gvr, []))" using that by (simp add: follows_def)
    then have "i \<noteq> j" using keptD(1)[OF I] j unfolding tracker_ok_def by blast
    then show ?thesis
      using that t' C[of i] i by (auto simp: follows_def stored_def objects_in_def fun_eq_iff)
  qed
  then show ?thesis using Watch_ok[OF keptD(1)[OF I] run] keptD(2)[OF I] by (intro keptI) blast+
qed

section \<open>Watching is complete\<close>

text \<open>Requests and readers interleave; a request may fail, but does not panic.\<close>
inductive tracker_step :: "Tracker \<Rightarrow> Tracker \<Rightarrow> bool" where
  Step_Add: "tracker_Add obj t = (r, t') \<Longrightarrow> (\<And>e. r = Inl e \<Longrightarrow> \<not> is_panic e) \<Longrightarrow> tracker_step t t'"
| Step_Create: "tracker_Create gvr obj ns t = (r, t') \<Longrightarrow> (\<And>e. r = Inl e \<Longrightarrow> \<not> is_panic e) \<Longrightarrow> tracker_step t t'"
| Step_Update: "tracker_Update gvr obj ns t = (r, t') \<Longrightarrow> (\<And>e. r = Inl e \<Longrightarrow> \<not> is_panic e) \<Longrightarrow> tracker_step t t'"
| Step_Delete: "tracker_Delete gvr ns name t = (r, t') \<Longrightarrow> (\<And>e. r = Inl e \<Longrightarrow> \<not> is_panic e) \<Longrightarrow> tracker_step t t'"
| Step_Watch: "tracker_Watch gvr ns opts t = (Inr i, t') \<Longrightarrow> tracker_step t t'"
| Step_Receive: "fw_receive i t = (r, t') \<Longrightarrow> tracker_step t t'"
| Step_Stop: "fw_Stop i t = (r, t') \<Longrightarrow> tracker_step t t'"

lemma channel_step:
  assumes "kept W t" and "tr_objects t' = tr_objects t" "tr_watchers t' = tr_watchers t"
    "tr_created t' = tr_created t" "tr_resourceVersions t' = tr_resourceVersions t"
    and "\<And>j. fw_Sent (tr_channels t' j) = fw_Sent (tr_channels t j)"
    and "\<And>j. fw_Stopped (tr_channels t j) \<Longrightarrow> fw_Stopped (tr_channels t' j)"
  shows "kept W t'"
proof -
  have "objects_in t' g = objects_in t g" "current_version t' g = current_version t g" for g
    using assms by (simp_all add: objects_in_def current_version_def)
  then have "tracker_ok t'" using keptD(1)[OF assms(1)] assms(3,4) unfolding tracker_ok_def by simp
  moreover have "follows gvr i t'" if "(gvr, i) \<in> W" for gvr i
  proof -
    have "stored t' gvr = stored t gvr" by (rule ext) (simp add: stored_def objects_in_def assms(2))
    then show ?thesis using keptD(2)[OF assms(1) that] assms(3,6,7) by (auto simp: follows_def)
  qed
  ultimately show ?thesis by (rule keptI)
qed

lemma step_keeps: "tracker_step t t' \<Longrightarrow> kept W t \<Longrightarrow> kept W t'"
proof (induction rule: tracker_step.induct)
  case (Step_Add obj t r t')
  show ?case by (rule unless_panicD[OF Add_keeps Step_Add(3,1,2)])
next
  case (Step_Create gvr obj ns t r t')
  show ?case by (rule unless_panicD[OF add_keeps Step_Create(3) Step_Create(1)[unfolded tracker_Create_def] Step_Create(2)])
next
  case (Step_Update gvr obj ns t r t')
  show ?case by (rule unless_panicD[OF add_keeps Step_Update(3) Step_Update(1)[unfolded tracker_Update_def] Step_Update(2)])
next
  case (Step_Delete gvr ns name t r t')
  show ?case by (rule unless_panicD[OF delete_keeps Step_Delete(3,1,2)])
next
  case (Step_Watch gvr ns opts t i t')
  show ?case by (rule Watch_keeps[OF Step_Watch(2,1)])
next
  case (Step_Receive j t r t')
  then show ?case
    by (intro channel_step[OF Step_Receive.prems])
      (auto simp: fw_receive_def go_defs split: if_splits)
next
  case (Step_Stop j t r t')
  then show ?case
    by (intro channel_step[OF Step_Stop.prems]) (auto simp: fw_Stop_def go_defs)
qed

lemma tracker_steps_keep: "tracker_step\<^sup>*\<^sup>* t t' \<Longrightarrow> kept W t \<Longrightarrow> kept W t'"
  by (induction rule: rtranclp_induct) (use step_keeps in blast)+

lemma NewObjectTracker_ok: "tracker_ok (NewObjectTracker scheme)"
  by (simp add: tracker_ok_def NewObjectTracker_def objects_in_def objects_ok_def current_version_def)

text \<open>C24. Watching misses nothing: whatever requests were made to the tracker before, and whatever requests,
  watches and reads follow in any order, as long as none panics (a panic is an event for a channel with
  100 events that nobody received), a watcher that was started on all namespaces of a resource without a
  version was sent events that rebuild exactly the objects the tracker has for the resource now, unless the
  watcher was stopped.\<close>
theorem watch_replays_tracker:
  assumes "tracker_step\<^sup>*\<^sup>* (NewObjectTracker scheme) t"
    and "tracker_Watch gvr [] opts t = (Inr i, t1)" and "lo_ResourceVersion opts = []"
    and "tracker_step\<^sup>*\<^sup>* t1 t2" and "\<not> fw_Stopped (tr_channels t2 i)"
  shows "replay (fw_Sent (tr_channels t2 i)) = stored t2 gvr"
proof -
  have "tracker_ok t" using tracker_steps_keep[OF assms(1), of "{}"] NewObjectTracker_ok by (simp add: kept_def)
  then have "kept {(gvr, i)} t1" using Watch_ok Watch_follows assms(2,3) by (intro keptI) blast+
  then have "follows gvr i t2" using tracker_steps_keep[OF assms(4)] by (intro keptD(2)) auto
  then show ?thesis using assms(5) by (simp add: follows_def)
qed

theorem watch_replays_tracker_witness:
  "\<exists>t1 t2. tracker_Watch (''g'', ''v1'', ''kueues'') [] empty_list_options (NewObjectTracker NewScheme) = (Inr 0, t1) \<and>
     tracker_Create (''g'', ''v1'', ''kueues'') (RKueue (kueue_with_frameworks [])) [] t1 = (Inr (), t2) \<and>
     replay (fw_Sent (tr_channels t2 0)) = stored t2 (''g'', ''v1'', ''kueues'') \<and>
     stored t2 (''g'', ''v1'', ''kueues'') ([], ''cluster'') = Some (RKueue (kueue_with_frameworks []))"
proof -
  let ?g = "(''g'', ''v1'', ''kueues'')" and ?k = "RKueue (kueue_with_frameworks [])"
  obtain t1 where t1: "tracker_Watch ?g [] empty_list_options (NewObjectTracker NewScheme) = (Inr 0, t1)"
      "tr_watchers t1 (?g, []) = [0]" "\<not> fw_Stopped (tr_channels t1 0)" "fw_Sent (tr_channels t1 0) = []" "tr_objects t1 = Map.empty"
    by (simp add: tracker_Watch_def empty_list_options_def NewObjectTracker_def NewRaceFreeFake_def
        objects_in_def filterByNamespace_def go_defs)
  obtain t2 where t2: "tracker_Create ?g ?k [] t1 = (Inr (), t2)" "\<not> fw_Stopped (tr_channels t2 0)"
      "stored t2 ?g ([], ''cluster'') = Some ?k"
    using t1(2-5)
    by (simp add: tracker_Create_def tracker_add_def notify_def getWatches_def fw_send_def store_object_def stored_def
        objects_in_def kueue_with_frameworks_def empty_meta_def go_defs Let_def)
  have "tracker_step t1 t2" by (rule Step_Create[OF t2(1)]) simp
  then have "tracker_step\<^sup>*\<^sup>* t1 t2" by blast
  from watch_replays_tracker[OF rtranclp.rtrancl_refl t1(1) _ this t2(2)] t1(1) t2(1,3) show ?thesis
    by (auto simp: empty_list_options_def)
qed

end
