(* ===== verification/Fake_Client.thy ===== *)
theory Fake_Client
  imports Object_Tracker Apply_Configuration
begin

text \<open>
  The fake clientset: \<^verbatim>\<open>clientset_generated.go\<close> and \<^verbatim>\<open>register.go\<close> of
  \<^verbatim>\<open>src/pkg/generated/clientset/versioned/fake\<close> and the fake client of \<^verbatim>\<open>typed/kueueoperator/v1/fake\<close>, over the
  object tracker (\<open>Object_Tracker\<close>), with the reactors of \<^verbatim>\<open>testing/fixture.go\<close> and the generic client of
  \<^verbatim>\<open>gentype/fake.go\<close>. The clientset holds the tracker and the recorded actions; the pointers to its embedded
  \<^verbatim>\<open>Fake\<close> are the clientset itself. A reactor is a function on the tracker; tests may add their own.

  Parameters (\<open>TestLibrary\<close>): selectors, JSON and patches, and the field manager that \<^verbatim>\<open>NewClientset\<close> uses. The
  kind of an object is its type, so setting it on an object changes nothing here.
\<close>

section \<open>What other packages compute\<close>

record FieldManager =
  fm_Update :: "runtime_object \<Rightarrow> runtime_object \<Rightarrow> string \<Rightarrow> err + runtime_object"
  fm_Apply :: "runtime_object \<Rightarrow> json_map \<Rightarrow> string \<Rightarrow> bool \<Rightarrow> err + runtime_object"

record FieldManagement =
  fmg_KindFor :: "gvr \<Rightarrow> err + group_version_kind"
  fmg_fieldManagerFor :: "group_version_kind \<Rightarrow> err + FieldManager"

datatype patch_type = JSONPatchType | MergePatchType | StrategicMergePatchType | ApplyPatchType | OtherPatchType

record TestLibrary =
  tl_ParseLabels :: "string \<Rightarrow> err + ((string, string) gomap \<Rightarrow> bool)"
  tl_ParseFields :: "string \<Rightarrow> err + unit"
  tl_Unmarshal :: "string \<Rightarrow> err + json_map"
  tl_Patch :: "patch_type \<Rightarrow> runtime_object \<Rightarrow> string \<Rightarrow> err + runtime_object"
  tl_StrategicMerge :: "runtime_object \<Rightarrow> json_map \<Rightarrow> err + runtime_object"
  tl_MarshalApply :: "KueueApply \<Rightarrow> err + string"
  tl_FieldManagement :: FieldManagement

definition zero_Kueue :: Kueue where
  "zero_Kueue = (kueue_with_frameworks [])\<lparr>ku_ObjectMeta := empty_meta\<rparr>"

text \<open>\<^verbatim>\<open>Scheme.New\<close>: a new object of the type of the kind.\<close>
definition new_object :: "Scheme \<Rightarrow> group_version_kind \<Rightarrow> err + runtime_object" where
  "new_object scheme gvk = (case scheme_New scheme gvk of Inl e \<Rightarrow> Inl e
     | Inr t \<Rightarrow> Inr (if t = api_type ''Kueue'' then RKueue zero_Kueue
         else if is_list_type t then RList t [] [] else ROther t None []))"

section \<open>Actions\<close>

record PatchOptions =
  po_FieldManager :: string
  po_Force :: "bool option"

text \<open>Resource, subresource and namespace, then what is special to the action; for creations and updates the
  last string is the field manager of the options.\<close>
datatype action =
    ListAction gvr group_version_kind string ListOptions
  | GetAction gvr string string
  | CreateAction gvr string string runtime_object string
  | UpdateAction gvr string string runtime_object string
  | DeleteAction gvr string string
  | DeleteCollectionAction gvr string ListOptions
  | PatchAction gvr string string string patch_type string PatchOptions
  | WatchAction gvr string ListOptions

fun GetVerb :: "action \<Rightarrow> string" where
  "GetVerb (ListAction _ _ _ _) = ''list''"
| "GetVerb (GetAction _ _ _) = ''get''"
| "GetVerb (CreateAction _ _ _ _ _) = ''create''"
| "GetVerb (UpdateAction _ _ _ _ _) = ''update''"
| "GetVerb (DeleteAction _ _ _) = ''delete''"
| "GetVerb (DeleteCollectionAction _ _ _) = ''delete-collection''"
| "GetVerb (PatchAction _ _ _ _ _ _ _) = ''patch''"
| "GetVerb (WatchAction _ _ _) = ''watch''"

fun GetResource :: "action \<Rightarrow> gvr" where
  "GetResource (ListAction r _ _ _) = r"
| "GetResource (GetAction r _ _) = r"
| "GetResource (CreateAction r _ _ _ _) = r"
| "GetResource (UpdateAction r _ _ _ _) = r"
| "GetResource (DeleteAction r _ _) = r"
| "GetResource (DeleteCollectionAction r _ _) = r"
| "GetResource (PatchAction r _ _ _ _ _ _) = r"
| "GetResource (WatchAction r _ _) = r"

fun action_namespace :: "action \<Rightarrow> string" where
  "action_namespace (ListAction _ _ ns _) = ns"
| "action_namespace (GetAction _ ns _) = ns"
| "action_namespace (CreateAction _ _ ns _ _) = ns"
| "action_namespace (UpdateAction _ _ ns _ _) = ns"
| "action_namespace (DeleteAction _ ns _) = ns"
| "action_namespace (DeleteCollectionAction _ ns _) = ns"
| "action_namespace (PatchAction _ _ ns _ _ _ _) = ns"
| "action_namespace (WatchAction _ ns _) = ns"

fun GetSubresource :: "action \<Rightarrow> string" where
  "GetSubresource (CreateAction _ sub _ _ _) = sub"
| "GetSubresource (UpdateAction _ sub _ _ _) = sub"
| "GetSubresource (PatchAction _ sub _ _ _ _ _) = sub"
| "GetSubresource _ = []"

definition resourceCovers :: "string \<Rightarrow> action \<Rightarrow> bool" where
  "resourceCovers resource act \<longleftrightarrow>
     resource = ''*'' \<or> resource = snd (snd (GetResource act)) \<or>
     (CHR ''/'' \<in> set resource \<and> takeWhile (\<lambda>c. c \<noteq> CHR ''/'') resource = snd (snd (GetResource act)) \<and>
      tl (dropWhile (\<lambda>c. c \<noteq> CHR ''/'') resource) = GetSubresource act)"

section \<open>Field management\<close>

text \<open>\<^verbatim>\<open>managedFieldObjectTracker\<close>: \<^term>\<open>None\<close> is the tracker without it.\<close>
definition live_or_new :: "gvr \<Rightarrow> string \<Rightarrow> string \<Rightarrow> group_version_kind \<Rightarrow> (Tracker, runtime_object \<times> bool) go" where
  "live_or_new gvr ns name gvk =
     go_bind (go_try (tracker_Get gvr ns name)) (\<lambda>r. case r of
        Inr liveObject \<Rightarrow> go_return (liveObject, True)
      | Inl err \<Rightarrow> if IsNotFound err
          then go_bind (go_read tr_scheme) (\<lambda>scheme. go_bind (go_lift (new_object scheme gvk)) (\<lambda>x. go_return (x, False)))
          else go_throw err)"

definition managed :: "FieldManagement \<Rightarrow> gvr \<Rightarrow> (Tracker, group_version_kind \<times> FieldManager) go" where
  "managed mf gvr =
     go_bind (go_lift (fmg_KindFor mf gvr)) (\<lambda>gvk.
     go_bind (go_lift (fmg_fieldManagerFor mf gvk)) (\<lambda>mgr. go_return (gvk, mgr)))"

definition ot_Create ::
  "FieldManagement option \<Rightarrow> gvr \<Rightarrow> runtime_object \<Rightarrow> string \<Rightarrow> string \<Rightarrow> (Tracker, unit) go" where
  "ot_Create mf gvr obj ns fieldManager = (case mf of
     None \<Rightarrow> tracker_Create gvr obj ns
   | Some mf \<Rightarrow>
       go_bind (managed mf gvr) (\<lambda>(gvk, mgr).
       go_bind (go_lift (Accessor obj)) (\<lambda>objMeta.
       go_bind (live_or_new gvr ns (om_Name objMeta) gvk) (\<lambda>(liveObject, _).
       go_bind (go_lift (fm_Update mgr liveObject obj fieldManager)) (\<lambda>objWithManagedFields.
         tracker_Create gvr objWithManagedFields ns)))))"

text \<open>\<^verbatim>\<open>Update\<close> and \<^verbatim>\<open>Patch\<close> are the same but for the options.\<close>
definition ot_Update ::
  "FieldManagement option \<Rightarrow> gvr \<Rightarrow> runtime_object \<Rightarrow> string \<Rightarrow> string \<Rightarrow> (Tracker, unit) go" where
  "ot_Update mf gvr obj ns fieldManager = (case mf of
     None \<Rightarrow> tracker_Update gvr obj ns
   | Some mf \<Rightarrow>
       go_bind (managed mf gvr) (\<lambda>(gvk, mgr).
       go_bind (go_lift (Accessor obj)) (\<lambda>objMeta.
       go_bind (tracker_Get gvr ns (om_Name objMeta)) (\<lambda>oldObj.
       go_bind (go_lift (fm_Update mgr oldObj obj fieldManager)) (\<lambda>objWithManagedFields.
         tracker_Update gvr objWithManagedFields ns)))))"

definition ot_Apply ::
  "TestLibrary \<Rightarrow> FieldManagement option \<Rightarrow> gvr \<Rightarrow> json_map \<Rightarrow> string \<Rightarrow> string \<Rightarrow> PatchOptions \<Rightarrow> (Tracker, unit) go" where
  "ot_Apply lib mf gvr applyConfiguration ns name opts = (case mf of
     None \<Rightarrow>
       go_bind (tracker_Get gvr ns name) (\<lambda>obj.
       go_bind (go_lift (tl_StrategicMerge lib obj applyConfiguration)) (\<lambda>obj. tracker_add gvr obj ns True))
   | Some mf \<Rightarrow>
       go_bind (go_lift (fmg_KindFor mf gvr)) (\<lambda>gvk.
       go_bind (live_or_new gvr ns name gvk) (\<lambda>(liveObject, exists).
       go_bind (go_lift (fmg_fieldManagerFor mf gvk)) (\<lambda>mgr.
       go_bind (go_lift (fm_Apply mgr liveObject applyConfiguration (po_FieldManager opts) (po_Force opts = Some True)))
         (\<lambda>objWithManagedFields.
         if \<not> exists then tracker_Create gvr objWithManagedFields ns
         else tracker_Update gvr objWithManagedFields ns)))))"

section \<open>The reactor of a tracker\<close>

text \<open>Whether the action is handled, and its result; an object may be nil.\<close>
type_synonym 'a reaction = "action \<Rightarrow> Tracker \<Rightarrow> (bool \<times> (err + 'a option)) \<times> Tracker"

definition react_Create ::
  "FieldManagement option \<Rightarrow> gvr \<Rightarrow> string \<Rightarrow> string \<Rightarrow> runtime_object \<Rightarrow> string \<Rightarrow> (Tracker, runtime_object) go" where
  "react_Create mf gvr sub ns obj fieldManager =
     go_bind (go_lift (Accessor obj)) (\<lambda>objMeta.
       if sub = []
       then go_seq (ot_Create mf gvr obj ns fieldManager) (tracker_Get gvr ns (om_Name objMeta))
       else go_bind (tracker_Get gvr ns (om_Name objMeta)) (\<lambda>oldObj.
         if type_of oldObj = type_of obj
         then go_seq (ot_Update mf gvr obj ns fieldManager) (tracker_Get gvr ns (om_Name objMeta))
         else go_return obj))"

definition react_Update ::
  "FieldManagement option \<Rightarrow> gvr \<Rightarrow> string \<Rightarrow> runtime_object \<Rightarrow> string \<Rightarrow> (Tracker, runtime_object) go" where
  "react_Update mf gvr ns obj fieldManager =
     go_bind (go_lift (Accessor obj)) (\<lambda>objMeta.
     go_seq (ot_Update mf gvr obj ns fieldManager) (tracker_Get gvr ns (om_Name objMeta)))"

text \<open>\<^verbatim>\<open>patchObj.SetName(name)\<close>: metadata that is not an object is replaced.\<close>
definition set_patch_name :: "string \<Rightarrow> json_map \<Rightarrow> json_map" where
  "set_patch_name name m = m(''metadata'' \<mapsto> JObj
     ((case m ''metadata'' of Some (JObj meta) \<Rightarrow> meta | _ \<Rightarrow> Map.empty)(''name'' \<mapsto> JStr name)))"

definition react_Apply ::
  "TestLibrary \<Rightarrow> FieldManagement option \<Rightarrow> gvr \<Rightarrow> string \<Rightarrow> string \<Rightarrow> string \<Rightarrow> PatchOptions \<Rightarrow> (Tracker, runtime_object) go" where
  "react_Apply lib mf gvr ns name patch opts =
     go_bind (go_lift (tl_Unmarshal lib patch)) (\<lambda>patchObj.
     go_seq (ot_Apply lib mf gvr (set_patch_name name patchObj) ns name opts) (tracker_Get gvr ns name))"

definition react_Patch ::
  "TestLibrary \<Rightarrow> FieldManagement option \<Rightarrow> gvr \<Rightarrow> string \<Rightarrow> string \<Rightarrow> patch_type \<Rightarrow> string \<Rightarrow> PatchOptions
   \<Rightarrow> (Tracker, runtime_object) go" where
  "react_Patch lib mf gvr ns name patchType patch opts =
     go_bind (tracker_Get gvr ns name) (\<lambda>obj.
     go_bind (if patchType \<in> {JSONPatchType, MergePatchType, StrategicMergePatchType}
              then go_lift (tl_Patch lib patchType obj patch)
              else go_throw (Errorf ''PatchType is not supported'')) (\<lambda>obj.
     go_seq (ot_Update mf gvr obj ns (po_FieldManager opts)) (go_return obj)))"

definition object_result :: "(Tracker, runtime_object) go \<Rightarrow> (Tracker, runtime_object option) go" where
  "object_result m = go_bind m (\<lambda>x. go_return (Some x))"

text \<open>What the tracker does on an action; \<^term>\<open>None\<close> for the actions that it has no reaction to.\<close>
fun tracker_reaction ::
  "TestLibrary \<Rightarrow> FieldManagement option \<Rightarrow> action \<Rightarrow> (Tracker, runtime_object option) go option" where
  "tracker_reaction lib mf (ListAction gvr gvk ns opts) = Some (object_result (tracker_List gvr gvk ns))"
| "tracker_reaction lib mf (GetAction gvr ns name) = Some (object_result (tracker_Get gvr ns name))"
| "tracker_reaction lib mf (CreateAction gvr sub ns obj mgr) =
     Some (object_result (react_Create mf gvr sub ns obj mgr))"
| "tracker_reaction lib mf (UpdateAction gvr sub ns obj mgr) =
     Some (object_result (react_Update mf gvr ns obj mgr))"
| "tracker_reaction lib mf (DeleteAction gvr ns name) =
     Some (go_seq (tracker_Delete gvr ns name) (go_return None))"
| "tracker_reaction lib mf (PatchAction gvr sub ns name patchType patch opts) =
     Some (object_result (if patchType = ApplyPatchType then react_Apply lib mf gvr ns name patch opts
       else react_Patch lib mf gvr ns name patchType patch opts))"
| "tracker_reaction lib mf _ = None"

definition ObjectReaction :: "TestLibrary \<Rightarrow> FieldManagement option \<Rightarrow> runtime_object reaction" where
  "ObjectReaction lib mf act t = (case tracker_reaction lib mf act of
     None \<Rightarrow> ((False, Inl (Errorf ''no reaction implemented'')), t)
   | Some m \<Rightarrow> (case m t of (r, t') \<Rightarrow> ((True, r), t')))"

section \<open>The fake\<close>

record SimpleReactor =
  re_Verb :: string
  re_Resource :: string
  re_Reaction :: "runtime_object reaction"

record SimpleWatchReactor =
  wre_Resource :: string
  wre_Reaction :: "nat reaction"

definition Handles :: "SimpleReactor \<Rightarrow> action \<Rightarrow> bool" where
  "Handles r act \<longleftrightarrow> (re_Verb r = ''*'' \<or> re_Verb r = GetVerb act) \<and> resourceCovers (re_Resource r) act"

definition watch_Handles :: "SimpleWatchReactor \<Rightarrow> action \<Rightarrow> bool" where
  "watch_Handles r act \<longleftrightarrow> resourceCovers (wre_Resource r) act"

record Fake =
  fk_actions :: "action list"
  fk_ReactionChain :: "SimpleReactor list"
  fk_WatchReactionChain :: "SimpleWatchReactor list"

record fake_Clientset =
  fc_Fake :: Fake
  fc_tracker :: Tracker

definition AddReactor :: "string \<Rightarrow> string \<Rightarrow> runtime_object reaction \<Rightarrow> fake_Clientset \<Rightarrow> fake_Clientset" where
  "AddReactor verb resource reaction c = c\<lparr>fc_Fake := (fc_Fake c)\<lparr>fk_ReactionChain :=
     fk_ReactionChain (fc_Fake c) @ [\<lparr>re_Verb = verb, re_Resource = resource, re_Reaction = reaction\<rparr>]\<rparr>\<rparr>"

definition AddWatchReactor :: "string \<Rightarrow> nat reaction \<Rightarrow> fake_Clientset \<Rightarrow> fake_Clientset" where
  "AddWatchReactor resource reaction c = c\<lparr>fc_Fake := (fc_Fake c)\<lparr>fk_WatchReactionChain :=
     fk_WatchReactionChain (fc_Fake c) @ [\<lparr>wre_Resource = resource, wre_Reaction = reaction\<rparr>]\<rparr>\<rparr>"

text \<open>The first reaction that handles the action; a panic ends the search.\<close>
fun try_reactions :: "'a reaction list \<Rightarrow> action \<Rightarrow> err + 'a option \<Rightarrow> Tracker \<Rightarrow> (err + 'a option) \<times> Tracker" where
  "try_reactions [] act unhandled t = (unhandled, t)"
| "try_reactions (r # rs) act unhandled t = (case r act t of ((handled, ret), t') \<Rightarrow>
     if handled \<or> (case ret of Inl e \<Rightarrow> is_panic e | Inr _ \<Rightarrow> False) then (ret, t')
     else try_reactions rs act unhandled t')"

definition Invokes :: "action \<Rightarrow> runtime_object \<Rightarrow> (fake_Clientset, runtime_object option) go" where
  "Invokes act defaultReturnObj c =
     (case try_reactions (map re_Reaction (filter (\<lambda>r. Handles r act) (fk_ReactionChain (fc_Fake c)))) act
         (Inr (Some defaultReturnObj)) (fc_tracker c) of (ret, t) \<Rightarrow>
       (ret, c\<lparr>fc_tracker := t, fc_Fake := (fc_Fake c)\<lparr>fk_actions := fk_actions (fc_Fake c) @ [act]\<rparr>\<rparr>))"

definition InvokesWatch :: "action \<Rightarrow> (fake_Clientset, nat option) go" where
  "InvokesWatch act c =
     (case try_reactions (map wre_Reaction (filter (\<lambda>r. watch_Handles r act) (fk_WatchReactionChain (fc_Fake c)))) act
         (Inl (Errorf ''unhandled watch'')) (fc_tracker c) of (ret, t) \<Rightarrow>
       (ret, c\<lparr>fc_tracker := t, fc_Fake := (fc_Fake c)\<lparr>fk_actions := fk_actions (fc_Fake c) @ [act]\<rparr>\<rparr>))"

section \<open>The clientset\<close>

text \<open>The package's scheme after its \<^verbatim>\<open>init\<close>.\<close>
definition fake_scheme :: Scheme where
  "fake_scheme = snd (scheme_init NewScheme)"

text \<open>The reaction to watches that the constructors install; a failure leaves the watch unhandled.\<close>
definition watch_reaction :: "nat reaction" where
  "watch_reaction act t =
     (let opts = (case act of WatchAction gvr ns opts \<Rightarrow> opts | _ \<Rightarrow> empty_list_options)
      in case tracker_Watch (GetResource act) (action_namespace act) opts t of
           (Inl err, t') \<Rightarrow> ((False, Inl err), t')
         | (Inr watch, t') \<Rightarrow> ((True, Inr (Some watch)), t'))"

text \<open>What the constructors share: the objects are added to the tracker, and an error is a panic.\<close>
definition new_clientset ::
  "TestLibrary \<Rightarrow> FieldManagement option \<Rightarrow> Tracker \<Rightarrow> runtime_object list \<Rightarrow> err + fake_Clientset" where
  "new_clientset lib mf tracker objects = (case go_foreach tracker_Add objects tracker of
     (Inl err, _) \<Rightarrow> Inl (Panic ''NewClientset'')
   | (Inr _, o') \<Rightarrow>
       let cs = \<lparr>fc_Fake = \<lparr>fk_actions = [], fk_ReactionChain = [], fk_WatchReactionChain = []\<rparr>, fc_tracker = o'\<rparr>
       in Inr (AddWatchReactor ''*'' watch_reaction (AddReactor ''*'' ''*'' (ObjectReaction lib mf) cs)))"

definition NewSimpleClientset :: "TestLibrary \<Rightarrow> runtime_object list \<Rightarrow> err + fake_Clientset" where
  "NewSimpleClientset lib objects = new_clientset lib None (NewObjectTracker fake_scheme) objects"

definition NewClientset :: "TestLibrary \<Rightarrow> runtime_object list \<Rightarrow> err + fake_Clientset" where
  "NewClientset lib objects =
     new_clientset lib (Some (tl_FieldManagement lib)) (NewObjectTracker fake_scheme) objects"

text \<open>The discovery client records its requests in the same fake.\<close>
definition fake_Discovery :: "fake_Clientset \<Rightarrow> Fake" where
  "fake_Discovery c = fc_Fake c"

definition fake_Tracker :: "fake_Clientset \<Rightarrow> Tracker" where
  "fake_Tracker c = fc_tracker c"

definition IsWatchListSemanticsUnSupported :: "fake_Clientset \<Rightarrow> bool" where
  "IsWatchListSemanticsUnSupported c = True"

section \<open>The client of the Kueue resources\<close>

text \<open>\<^verbatim>\<open>fakeKueues\<close>: where the requests go. The fake itself is the state of the requests.\<close>
record fakeKueues =
  fkc_ns :: string
  fkc_resource :: gvr
  fkc_kind :: group_version_kind

definition newFakeKueues :: fakeKueues where
  "newFakeKueues = \<lparr>fkc_ns = [], fkc_resource = (fst SchemeGroupVersion, snd SchemeGroupVersion, ''kueues''),
     fkc_kind = WithKind_gvk SchemeGroupVersion ''Kueue''\<rparr>"

definition FakeKueueV1_Kueues :: fakeKueues where
  "FakeKueueV1_Kueues = newFakeKueues"

text \<open>A nil pointer.\<close>
definition FakeKueueV1_RESTClient :: "unit option" where
  "FakeKueueV1_RESTClient = None"

text \<open>\<^verbatim>\<open>KueueV1\<close> of the clientset, and the clients of its resources.\<close>
definition fake_KueueV1 :: "fake_Clientset \<Rightarrow> Fake" where
  "fake_KueueV1 c = fc_Fake c"

text \<open>\<^verbatim>\<open>obj.(T)\<close>, where a nil object stands for a new one.\<close>
definition as_Kueue :: "runtime_object option \<Rightarrow> err + Kueue" where
  "as_Kueue obj = (case obj of None \<Rightarrow> Inr zero_Kueue | Some (RKueue k) \<Rightarrow> Inr k
     | Some _ \<Rightarrow> Inl (Panic ''interface conversion''))"

definition invoke_Kueue :: "action \<Rightarrow> (fake_Clientset, Kueue) go" where
  "invoke_Kueue act = go_bind (Invokes act (RKueue zero_Kueue)) (\<lambda>obj. go_lift (as_Kueue obj))"

definition fake_Get :: "fakeKueues \<Rightarrow> string \<Rightarrow> (fake_Clientset, Kueue) go" where
  "fake_Get c name = invoke_Kueue (GetAction (fkc_resource c) (fkc_ns c) name)"

definition fake_Create :: "fakeKueues \<Rightarrow> Kueue \<Rightarrow> string \<Rightarrow> (fake_Clientset, Kueue) go" where
  "fake_Create c k mgr = invoke_Kueue (CreateAction (fkc_resource c) [] (fkc_ns c) (RKueue k) mgr)"

definition fake_Update :: "fakeKueues \<Rightarrow> Kueue \<Rightarrow> string \<Rightarrow> (fake_Clientset, Kueue) go" where
  "fake_Update c k mgr = invoke_Kueue (UpdateAction (fkc_resource c) [] (fkc_ns c) (RKueue k) mgr)"

definition fake_UpdateStatus :: "fakeKueues \<Rightarrow> Kueue \<Rightarrow> string \<Rightarrow> (fake_Clientset, Kueue) go" where
  "fake_UpdateStatus c k mgr = invoke_Kueue (UpdateAction (fkc_resource c) ''status'' (fkc_ns c) (RKueue k) mgr)"

definition fake_Delete :: "fakeKueues \<Rightarrow> string \<Rightarrow> (fake_Clientset, unit) go" where
  "fake_Delete c name =
     go_seq (Invokes (DeleteAction (fkc_resource c) (fkc_ns c) name) (RKueue zero_Kueue)) (go_return ())"

definition fake_Patch ::
  "fakeKueues \<Rightarrow> string \<Rightarrow> patch_type \<Rightarrow> string \<Rightarrow> PatchOptions \<Rightarrow> string \<Rightarrow> (fake_Clientset, Kueue) go" where
  "fake_Patch c name pt data opts sub = invoke_Kueue (PatchAction (fkc_resource c) sub (fkc_ns c) name pt data opts)"

text \<open>\<^verbatim>\<open>Apply\<close> (without a subresource) and \<^verbatim>\<open>ApplyStatus\<close>.\<close>
definition fake_Apply ::
  "TestLibrary \<Rightarrow> fakeKueues \<Rightarrow> KueueApply option \<Rightarrow> PatchOptions \<Rightarrow> string \<Rightarrow> (fake_Clientset, Kueue) go" where
  "fake_Apply lib c configuration opts sub = (case configuration of
     None \<Rightarrow> go_throw (Errorf ''configuration provided to Apply must not be nil'')
   | Some configuration \<Rightarrow>
       go_bind (go_lift (tl_MarshalApply lib configuration)) (\<lambda>data.
         case apply_GetName configuration of
           None \<Rightarrow> go_throw (Errorf ''configuration.Name must be provided to Apply'')
         | Some name \<Rightarrow> invoke_Kueue (PatchAction (fkc_resource c) sub (fkc_ns c) name ApplyPatchType data opts)))"

text \<open>\<^verbatim>\<open>ExtractFromListOptions\<close> panics on a selector it cannot parse.\<close>
definition ExtractFromListOptions :: "TestLibrary \<Rightarrow> ListOptions \<Rightarrow> err + ((string, string) gomap \<Rightarrow> bool)" where
  "ExtractFromListOptions lib opts = (case tl_ParseLabels lib (lo_LabelSelector opts) of
     Inl e \<Rightarrow> Inl (Panic ''invalid selector'')
   | Inr selector \<Rightarrow> (case tl_ParseFields lib (lo_FieldSelector opts) of
       Inl e \<Rightarrow> Inl (Panic ''invalid selector'') | Inr _ \<Rightarrow> Inr selector))"

fun kueue_items :: "runtime_object list \<Rightarrow> Kueue list" where
  "kueue_items [] = []"
| "kueue_items (RKueue k # xs) = k # kueue_items xs"
| "kueue_items (_ # xs) = kueue_items xs"

text \<open>The resource version of the list and the items that match.\<close>
definition fake_List :: "TestLibrary \<Rightarrow> fakeKueues \<Rightarrow> ListOptions \<Rightarrow> (fake_Clientset, string \<times> Kueue list) go" where
  "fake_List lib c opts =
     go_bind (go_lift (ExtractFromListOptions lib opts)) (\<lambda>label.
     go_bind (Invokes (ListAction (fkc_resource c) (fkc_kind c) (fkc_ns c) opts) (RList (api_type ''KueueList'') [] []))
       (\<lambda>obj. case obj of
          None \<Rightarrow> go_return ([], [])
        | Some (RList t v items) \<Rightarrow> if t \<noteq> api_type ''KueueList'' then go_throw (Panic ''interface conversion'')
            else go_return (v, filter (\<lambda>k. label (om_Labels (ku_ObjectMeta k))) (kueue_items items))
        | Some _ \<Rightarrow> go_throw (Panic ''interface conversion'')))"

definition fake_DeleteCollection :: "TestLibrary \<Rightarrow> fakeKueues \<Rightarrow> ListOptions \<Rightarrow> (fake_Clientset, unit) go" where
  "fake_DeleteCollection lib c listOpts =
     go_seq (go_lift (ExtractFromListOptions lib listOpts))
    (go_seq (Invokes (DeleteCollectionAction (fkc_resource c) (fkc_ns c) listOpts) (RList (api_type ''KueueList'') [] []))
      (go_return ()))"

definition fake_Watch :: "TestLibrary \<Rightarrow> fakeKueues \<Rightarrow> ListOptions \<Rightarrow> (fake_Clientset, nat option) go" where
  "fake_Watch lib c opts =
     (let opts = opts\<lparr>lo_Watch := True\<rparr>
      in go_seq (go_lift (ExtractFromListOptions lib opts))
           (InvokesWatch (WatchAction (fkc_resource c) (fkc_ns c) opts)))"

section \<open>The kinds of the scheme\<close>

abbreviation kueue_gvk :: group_version_kind where
  "kueue_gvk \<equiv> (''kueue.openshift.io'', ''v1'', ''Kueue'')"

definition kueues_gvr :: gvr where
  "kueues_gvr = (''kueue.openshift.io'', ''v1'', ''kueues'')"

text \<open>No other kind than its own is registered for the type of the resource.\<close>
definition one_kind :: "Scheme \<Rightarrow> bool" where
  "one_kind s \<longleftrightarrow> sc_typeToGVK s (api_type ''Kueue'') \<in> {[], [kueue_gvk]}"

lemma one_kind_rules [go_keep]:
  "go_keeps one_kind (addObservedVersion v)" "go_keeps one_kind (add_unversioned v t)"
  by (auto simp: go_triple_def addObservedVersion_def add_unversioned_def one_kind_def go_defs)

lemma one_kind_known [go_keep]:
  "t \<noteq> api_type ''Kueue'' \<or> gvk = kueue_gvk \<Longrightarrow> go_keeps one_kind (AddKnownTypeWithName gvk t)"
  unfolding AddKnownTypeWithName_def
  by (intro go_keep) (auto simp: one_kind_def Let_def)

lemma one_kind_must [go_keep]: "go_keeps one_kind m \<Longrightarrow> go_keeps one_kind (Must m)"
  by (auto simp: go_triple_def Must_def split: prod.splits sum.splits)

lemma one_kind_init: "go_keeps one_kind scheme_init"
  unfolding scheme_init_def clientset_AddToScheme_def scheme_actions append.simps go_foreach.simps optionsTypes_def list.map
  by (intro go_keep) (simp_all add: meta_type_def api_type_def WithKind_gvk_def SchemeGroupVersion_def)

lemma fake_scheme_kinds:
  "sc_typeToGVK fake_scheme (api_type ''Kueue'') = [kueue_gvk]"
  "scheme_New fake_scheme (''kueue.openshift.io'', ''v1'', ''KueueList'') = Inr (api_type ''KueueList'')"
proof -
  obtain P where P: "adds v1_AddToScheme P" "\<And>s. P s \<Longrightarrow>
      known (WithKind_gvk SchemeGroupVersion ''Kueue'') (api_type ''Kueue'') s \<and>
      known (WithKind_gvk SchemeGroupVersion ''KueueList'') (api_type ''KueueList'') s"
    using adds_AddToScheme by blast
  have "scheme_init NewScheme = (Inr (), fake_scheme)"
    using scheme_init_succeeds unfolding fake_scheme_def by (metis prod.collapse)
  then obtain s where "Must clientset_AddToScheme s = (Inr (), fake_scheme)"
    unfolding scheme_init_def by (elim go_seq_InrE)
  then have "v1_AddToScheme s = (Inr (), fake_scheme)"
    by (auto simp: Must_def clientset_AddToScheme_def builder_AddToScheme_def go_seq_def go_bind_def go_return_def
        split: prod.splits sum.splits)
  then have known: "known kueue_gvk (api_type ''Kueue'') fake_scheme"
      "known (''kueue.openshift.io'', ''v1'', ''KueueList'') (api_type ''KueueList'') fake_scheme"
    using P(2)[OF addsD(1)[OF P(1)]] by (auto simp: WithKind_gvk_def SchemeGroupVersion_def)
  have "one_kind fake_scheme"
    using go_keeps_snd[OF one_kind_init, of NewScheme] by (simp add: fake_scheme_def one_kind_def NewScheme_def)
  then show "sc_typeToGVK fake_scheme (api_type ''Kueue'') = [kueue_gvk]"
    using known(1) by (auto simp: one_kind_def known_def)
  show "scheme_New fake_scheme (''kueue.openshift.io'', ''v1'', ''KueueList'') = Inr (api_type ''KueueList'')"
    using known(2) by (simp add: known_def scheme_New_def)
qed

lemma kueue_resource: "UnsafeGuessKindToResource kueue_gvk = kueues_gvr"
  unfolding kueues_gvr_def by code_simp

section \<open>The fake as a store\<close>

text \<open>What a test relies on: the Kueue resources are a finite map by name.\<close>
datatype store_op = OpGet string | OpCreate Kueue | OpUpdate Kueue | OpUpdateStatus Kueue | OpDelete string

abbreviation kueue_name :: "Kueue \<Rightarrow> string" where "kueue_name k \<equiv> om_Name (ku_ObjectMeta k)"

definition wrong_namespace :: err where
  "wrong_namespace = ApiError OtherReason ''request namespace does not match object namespace''"

text \<open>An update of the status replaces the whole object, and no version is checked.\<close>
definition store_replace :: "Kueue \<Rightarrow> (string \<rightharpoonup> Kueue) \<Rightarrow> (err + Kueue option) \<times> (string \<rightharpoonup> Kueue)" where
  "store_replace k m =
     (if om_Namespace (ku_ObjectMeta k) \<noteq> [] then (Inl wrong_namespace, m)
      else if m (kueue_name k) = None then (Inl (ApiError NotFound (kueue_name k)), m)
      else (Inr (Some k), m(kueue_name k \<mapsto> k)))"

fun store_spec :: "store_op \<Rightarrow> (string \<rightharpoonup> Kueue) \<Rightarrow> (err + Kueue option) \<times> (string \<rightharpoonup> Kueue)" where
  "store_spec (OpGet n) m = (case m n of None \<Rightarrow> (Inl (ApiError NotFound n), m) | Some k \<Rightarrow> (Inr (Some k), m))"
| "store_spec (OpCreate k) m =
     (if om_Namespace (ku_ObjectMeta k) \<noteq> [] then (Inl wrong_namespace, m)
      else if m (kueue_name k) \<noteq> None then (Inl (ApiError AlreadyExists (kueue_name k)), m)
      else (Inr (Some k), m(kueue_name k \<mapsto> k)))"
| "store_spec (OpUpdate k) m = store_replace k m"
| "store_spec (OpUpdateStatus k) m = store_replace k m"
| "store_spec (OpDelete n) m = (if m n = None then (Inl (ApiError NotFound n), m) else (Inr None, m(n := None)))"

definition some_result :: "('s, 'a) go \<Rightarrow> ('s, 'a option) go" where
  "some_result m = go_bind m (\<lambda>x. go_return (Some x))"

fun fake_op :: "store_op \<Rightarrow> (fake_Clientset, Kueue option) go" where
  "fake_op (OpGet n) = some_result (fake_Get FakeKueueV1_Kueues n)"
| "fake_op (OpCreate k) = some_result (fake_Create FakeKueueV1_Kueues k [])"
| "fake_op (OpUpdate k) = some_result (fake_Update FakeKueueV1_Kueues k [])"
| "fake_op (OpUpdateStatus k) = some_result (fake_UpdateStatus FakeKueueV1_Kueues k [])"
| "fake_op (OpDelete n) = go_seq (fake_Delete FakeKueueV1_Kueues n) (go_return None)"

text \<open>A sequence of requests goes on after an error; the answers are collected.\<close>
fun run_ops :: "('o \<Rightarrow> 's \<Rightarrow> 'r \<times> 's) \<Rightarrow> 'o list \<Rightarrow> 's \<Rightarrow> 'r list \<times> 's" where
  "run_ops step [] s = ([], s)"
| "run_ops step (x # xs) s = (case step x s of (r, s') \<Rightarrow> (case run_ops step xs s' of (rs, s'') \<Rightarrow> (r # rs, s'')))"

text \<open>An operation of the implementation that corresponds to one of the specification for every step
  corresponds for every sequence.\<close>
locale simulates =
  fixes impl :: "'o \<Rightarrow> 'c \<Rightarrow> 'r \<times> 'c" and spec :: "'o \<Rightarrow> 'a \<Rightarrow> 'r \<times> 'a"
    and related :: "'c \<Rightarrow> 'a \<Rightarrow> bool"
  assumes step_simulates: "related c a \<Longrightarrow> \<exists>c'. impl x c = (fst (spec x a), c') \<and> related c' (snd (spec x a))"
begin

lemma run_simulates:
  "related c a \<Longrightarrow> fst (run_ops impl xs c) = fst (run_ops spec xs a) \<and>
   related (snd (run_ops impl xs c)) (snd (run_ops spec xs a))"
proof (induction xs arbitrary: c a)
  case (Cons x xs)
  obtain c' where c': "impl x c = (fst (spec x a), c')" "related c' (snd (spec x a))"
    using step_simulates[OF Cons.prems] by blast
  from Cons.IH[OF c'(2)] c'(1) show ?case by (auto split: prod.splits)
qed simp

end

definition store_of :: "Tracker \<Rightarrow> string \<rightharpoonup> Kueue" where
  "store_of t n = (case stored t kueues_gvr ([], n) of Some (RKueue k) \<Rightarrow> Some k | _ \<Rightarrow> None)"

text \<open>The tracker holds Kueue resources only, and nobody watches.\<close>
definition plain_tracker :: "Tracker \<Rightarrow> bool" where
  "plain_tracker t \<longleftrightarrow> tr_watchers t = (\<lambda>_. []) \<and> tr_scheme t = fake_scheme \<and>
     (\<forall>n x. stored t kueues_gvr ([], n) = Some x \<longrightarrow> (\<exists>k. x = RKueue k))"

definition serves :: "TestLibrary \<Rightarrow> fake_Clientset \<Rightarrow> (string \<rightharpoonup> Kueue) \<Rightarrow> bool" where
  "serves lib c m \<longleftrightarrow> plain_tracker (fc_tracker c) \<and> store_of (fc_tracker c) = m \<and>
     fk_ReactionChain (fc_Fake c) = [\<lparr>re_Verb = ''*'', re_Resource = ''*'', re_Reaction = ObjectReaction lib None\<rparr>]"

lemma plain_stored:
  "plain_tracker t \<Longrightarrow> stored t kueues_gvr ([], n) = map_option RKueue (store_of t n)"
  by (auto simp: plain_tracker_def store_of_def split: option.splits runtime_object.splits)

lemma plain_get:
  "plain_tracker t \<Longrightarrow> tracker_Get kueues_gvr [] n t =
     (case store_of t n of None \<Rightarrow> Inl (ApiError NotFound n) | Some k \<Rightarrow> Inr (RKueue k), t)"
  using plain_stored[of t n]
  by (auto simp: tracker_Get_def stored_def objects_in_def go_defs split: option.splits)

lemma plain_notify: "plain_tracker t \<Longrightarrow> notify g ns e t = (Inr (), t)"
  by (simp add: notify_def getWatches_def plain_tracker_def go_defs)

lemma SetNamespace_same: "om_Namespace (ku_ObjectMeta k) = ns \<Longrightarrow> SetNamespace ns (RKueue k) = RKueue k"
  by (cases k) (auto intro: ObjectMeta.equality)

lemma plain_store:
  assumes "plain_tracker t"
  shows "plain_tracker (store_object kueues_gvr ([], n) v (RKueue k) t)"
    and "store_of (store_object kueues_gvr ([], n) v (RKueue k) t) = (store_of t)(n \<mapsto> k)"
  using assms by (auto simp: plain_tracker_def store_of_def store_object_def[of _ _ _ _ t] stored_store[unfolded store_object_def])

text \<open>Adding or replacing, in a tracker that nobody watches.\<close>
lemma plain_add:
  assumes plain: "plain_tracker t"
  shows "\<exists>t'. tracker_add kueues_gvr (RKueue k) [] replaceExisting t =
      (if om_Namespace (ku_ObjectMeta k) \<noteq> [] then Inl wrong_namespace
       else if replaceExisting \<and> store_of t (kueue_name k) = None then Inl (ApiError NotFound (kueue_name k))
       else if \<not> replaceExisting \<and> store_of t (kueue_name k) \<noteq> None then Inl (ApiError AlreadyExists (kueue_name k))
       else Inr (), t') \<and> plain_tracker t' \<and>
    store_of t' = (if om_Namespace (ku_ObjectMeta k) = [] \<and> (store_of t (kueue_name k) \<noteq> None) = replaceExisting
      then (store_of t)(kueue_name k \<mapsto> k) else store_of t)"
proof (cases "om_Namespace (ku_ObjectMeta k) = []")
  case False
  then show ?thesis
    using plain by (auto simp: tracker_add_def go_defs wrong_namespace_def)
next
  case True
  let ?t0 = "t\<lparr>tr_objects := (tr_objects t)(kueues_gvr \<mapsto> objects_in t kueues_gvr)\<rparr>"
  have t0: "objects_in ?t0 g = objects_in t g" "stored ?t0 g = stored t g" for g
    by (auto simp: objects_in_def stored_def fun_eq_iff)
  have p0: "plain_tracker ?t0" "store_of ?t0 = store_of t"
    using plain by (auto simp: plain_tracker_def store_of_def t0 fun_eq_iff)
  have old: "map_of (objects_in t kueues_gvr) ([], kueue_name k) = None \<longleftrightarrow> store_of t (kueue_name k) = None"
    using plain_stored[OF plain, of "kueue_name k"] by (auto simp: stored_def)
  let ?t1 = "store_object kueues_gvr ([], kueue_name k) (current_version ?t0 kueues_gvr + 1) (RKueue k) ?t0"
  note p1 = plain_store[OF p0(1), of "kueue_name k" "current_version ?t0 kueues_gvr + 1" k]
  have run: "tracker_add kueues_gvr (RKueue k) [] replaceExisting t =
      (if store_of t (kueue_name k) \<noteq> None
       then if replaceExisting then notify kueues_gvr [] (Modified (RKueue k)) ?t1
         else (Inl (ApiError AlreadyExists (kueue_name k)), ?t0)
       else if replaceExisting then (Inl (ApiError NotFound (kueue_name k)), ?t0)
       else notify kueues_gvr [] (Added (RKueue k)) ?t1)"
    using True old SetNamespace_same[of k "[]"]
    by (simp add: tracker_add_def go_seq_def go_bind_def go_lift_def go_modify_def go_read_def go_throw_def Let_def t0 del: SetNamespace.simps not_None_eq)
  show ?thesis
    unfolding run plain_notify[OF p1(1)]
    by (rule exI[of _ "if (store_of t (kueue_name k) \<noteq> None) = replaceExisting then ?t1 else ?t0"])
      (use True p0 p1 in auto)
qed


lemma serves_invoke:
  assumes "serves lib c m" and "tracker_reaction lib None act = Some p" and "p (fc_tracker c) = (r, t)"
  shows "Invokes act d c = (r, c\<lparr>fc_tracker := t, fc_Fake := (fc_Fake c)\<lparr>fk_actions := fk_actions (fc_Fake c) @ [act]\<rparr>\<rparr>)"
  using assms by (simp add: Invokes_def serves_def Handles_def resourceCovers_def ObjectReaction_def)

lemma serves_kueue:
  assumes "serves lib c m" and "tracker_reaction lib None act = Some (object_result p)"
    and "p (fc_tracker c) = (r, t)" and "\<And>x. r = Inr x \<Longrightarrow> \<exists>k. x = RKueue k"
    and "plain_tracker t" and "store_of t = m'"
  shows "\<exists>c'. some_result (invoke_Kueue act) c =
      (case r of Inl e \<Rightarrow> Inl e | Inr x \<Rightarrow> Inr (Some (case x of RKueue k \<Rightarrow> k | _ \<Rightarrow> zero_Kueue)), c') \<and> serves lib c' m'"
proof -
  let ?c = "c\<lparr>fc_tracker := t, fc_Fake := (fc_Fake c)\<lparr>fk_actions := fk_actions (fc_Fake c) @ [act]\<rparr>\<rparr>"
  have "object_result p (fc_tracker c) = (case r of Inl e \<Rightarrow> Inl e | Inr x \<Rightarrow> Inr (Some x), t)"
    using assms(3) by (cases r) (simp_all add: object_result_def go_bind_def go_return_def)
  from serves_invoke[OF assms(1,2) this, of "RKueue zero_Kueue"]
  have "some_result (invoke_Kueue act) c =
      (case r of Inl e \<Rightarrow> Inl e | Inr x \<Rightarrow> Inr (Some (case x of RKueue k \<Rightarrow> k | _ \<Rightarrow> zero_Kueue)), ?c)"
    using assms(4)
    by (cases r) (auto simp: some_result_def invoke_Kueue_def as_Kueue_def go_bind_def go_return_def go_lift_def)
  moreover have "serves lib ?c m'" using assms by (simp add: serves_def)
  ultimately show ?thesis by blast
qed

lemma client_sel [simp]: "fkc_resource FakeKueueV1_Kueues = kueues_gvr" "fkc_ns FakeKueueV1_Kueues = []"
  by (simp_all add: FakeKueueV1_Kueues_def newFakeKueues_def kueues_gvr_def SchemeGroupVersion_def)

text \<open>An addition or a replacement, followed by reading the object back.\<close>
lemma add_then_get:
  assumes "serves lib c m" and "tracker_reaction lib None act = Some (object_result
      (go_seq (tracker_add kueues_gvr (RKueue k) [] replaceExisting) (tracker_Get kueues_gvr [] (kueue_name k))))"
  shows "\<exists>c'. some_result (invoke_Kueue act) c =
      (fst (if replaceExisting then store_replace k m else store_spec (OpCreate k) m), c') \<and>
    serves lib c' (snd (if replaceExisting then store_replace k m else store_spec (OpCreate k) m))"
proof -
  let ?t = "fc_tracker c" and ?s = "if replaceExisting then store_replace k m else store_spec (OpCreate k) m"
  have plain: "plain_tracker ?t" and m: "store_of ?t = m" using assms(1) by (simp_all add: serves_def)
  obtain t' where t': "tracker_add kueues_gvr (RKueue k) [] replaceExisting ?t =
      (if om_Namespace (ku_ObjectMeta k) \<noteq> [] then Inl wrong_namespace
       else if replaceExisting \<and> m (kueue_name k) = None then Inl (ApiError NotFound (kueue_name k))
       else if \<not> replaceExisting \<and> m (kueue_name k) \<noteq> None then Inl (ApiError AlreadyExists (kueue_name k))
       else Inr (), t')" "plain_tracker t'"
      "store_of t' = (if om_Namespace (ku_ObjectMeta k) = [] \<and> (m (kueue_name k) \<noteq> None) = replaceExisting
        then m(kueue_name k \<mapsto> k) else m)"
    using plain_add[OF plain, of k replaceExisting] m by blast
  have "go_seq (tracker_add kueues_gvr (RKueue k) [] replaceExisting) (tracker_Get kueues_gvr [] (kueue_name k)) ?t =
      (case fst ?s of Inl e \<Rightarrow> Inl e | Inr _ \<Rightarrow> Inr (RKueue k), t')"
    using t' plain_get[OF t'(2), of "kueue_name k"]
    by (auto simp: go_seq_def go_bind_def store_replace_def)
  moreover have "snd ?s = store_of t'" "fst ?s = Inr (Some k) \<or> isl (fst ?s)"
    using t'(3) by (auto simp: store_replace_def)
  moreover from this(2) have "(case case fst ?s of Inl e \<Rightarrow> Inl e | Inr _ \<Rightarrow> Inr (RKueue k) of Inl e \<Rightarrow> Inl e
      | Inr x \<Rightarrow> Inr (Some (case x of RKueue k \<Rightarrow> k | _ \<Rightarrow> zero_Kueue))) = fst ?s"
    by (cases "fst ?s") auto
  ultimately show ?thesis
    using serves_kueue[OF assms(1,2) _ _ t'(2) refl, of "case fst ?s of Inl e \<Rightarrow> Inl e | Inr _ \<Rightarrow> Inr (RKueue k)"]
    by (auto split: sum.splits)
qed

lemma go_bind_lift_Inr: "go_bind (go_lift (Inr x)) f = f x"
  by (simp add: go_bind_def go_lift_def)

lemma write_reactions:
  "tracker_reaction lib None (CreateAction kueues_gvr [] [] (RKueue k) mgr) = Some (object_result
     (go_seq (tracker_add kueues_gvr (RKueue k) [] False) (tracker_Get kueues_gvr [] (kueue_name k))))"
  "tracker_reaction lib None (UpdateAction kueues_gvr sub [] (RKueue k) mgr) = Some (object_result
     (go_seq (tracker_add kueues_gvr (RKueue k) [] True) (tracker_Get kueues_gvr [] (kueue_name k))))"
  by (simp_all add: react_Create_def react_Update_def ot_Create_def ot_Update_def tracker_Create_def
      tracker_Update_def go_bind_lift_Inr)

interpretation fake_store: simulates fake_op store_spec "serves lib" for lib
proof
  fix c m x
  assume s: "serves lib c m"
  have plain: "plain_tracker (fc_tracker c)" and m: "store_of (fc_tracker c) = m" using s by (simp_all add: serves_def)
  show "\<exists>c'. fake_op x c = (fst (store_spec x m), c') \<and> serves lib c' (snd (store_spec x m))"
  proof (cases x)
    case (OpGet n)
    have "tracker_Get kueues_gvr [] n (fc_tracker c) =
        (case m n of None \<Rightarrow> Inl (ApiError NotFound n) | Some k \<Rightarrow> Inr (RKueue k), fc_tracker c)"
      using plain_get[OF plain] m by simp
    from serves_kueue[where p = "tracker_Get kueues_gvr [] n", OF s _ this _ plain m, of "GetAction kueues_gvr [] n"]
    show ?thesis
      unfolding OpGet by (auto simp: fake_Get_def split: option.splits)
  next
    case (OpCreate k)
    show ?thesis using add_then_get[OF s write_reactions(1), of k] unfolding OpCreate by (simp add: fake_Create_def)
  next
    case (OpUpdate k)
    show ?thesis using add_then_get[OF s write_reactions(2), of "[]" k] unfolding OpUpdate by (simp add: fake_Update_def)
  next
    case (OpUpdateStatus k)
    show ?thesis using add_then_get[OF s write_reactions(2), of "''status''" k] unfolding OpUpdateStatus
      by (simp add: fake_UpdateStatus_def)
  next
    case (OpDelete n)
    let ?objs = "objects_in (fc_tracker c) kueues_gvr"
    let ?t1 = "(fc_tracker c)\<lparr>tr_objects := (tr_objects (fc_tracker c))(kueues_gvr \<mapsto> AList.delete ([], n) ?objs)\<rparr>"
    have old: "map_of ?objs ([], n) = None \<longleftrightarrow> m n = None"
      using plain_stored[OF plain, of n] m by (auto simp: stored_def)
    have st: "stored ?t1 kueues_gvr = (stored (fc_tracker c) kueues_gvr)(([], n) := None)"
      by (auto simp: stored_def objects_in_def delete_conv')
    have p1: "plain_tracker ?t1" "store_of ?t1 = m(n := None)"
      using plain m by (auto simp: plain_tracker_def store_of_def st fun_eq_iff)
    have run: "tracker_Delete kueues_gvr [] n (fc_tracker c) =
        (if m n = None then (Inl (ApiError NotFound n), fc_tracker c) else (Inr (), ?t1))"
      using old plain_notify[OF p1(1), of kueues_gvr "[]"]
      by (auto simp: tracker_Delete_def objects_in_def go_defs split: option.splits)
    let ?act = "DeleteAction kueues_gvr [] n"
    have "go_seq (tracker_Delete kueues_gvr [] n) (go_return None) (fc_tracker c) =
        (if m n = None then Inl (ApiError NotFound n) else Inr None, if m n = None then fc_tracker c else ?t1)"
      unfolding go_seq_def go_bind_def run by (simp add: go_return_def)
    from serves_invoke[where p = "go_seq (tracker_Delete kueues_gvr [] n) (go_return None)", OF s _ this,
        of ?act "RKueue zero_Kueue"] s p1 m plain show ?thesis
      unfolding OpDelete by (auto simp: fake_Delete_def go_seq_def go_bind_def go_return_def serves_def)
  qed
qed


section \<open>The constructor\<close>

lemma plain_new: "plain_tracker (NewObjectTracker fake_scheme)" "store_of (NewObjectTracker fake_scheme) = Map.empty"
  by (auto simp: plain_tracker_def NewObjectTracker_def stored_def objects_in_def store_of_def)

lemma plain_Add:
  assumes "plain_tracker t" and "om_Namespace (ku_ObjectMeta k) = []"
  shows "tracker_Add (RKueue k) t = tracker_add kueues_gvr (RKueue k) [] False t"
proof -
  have "ObjectKinds (tr_scheme t) (api_type ''Kueue'') = Inr ([kueue_gvk], sc_unversionedTypes fake_scheme (api_type ''Kueue'') \<noteq> None)"
    using assms(1) by (simp add: plain_tracker_def ObjectKinds_def fake_scheme_kinds)
  moreover have "(let (g, v, r) = UnsafeGuessKindToResource kueue_gvk in (g, if v = APIVersionInternal then [] else v, r)) = kueues_gvr"
    unfolding kueue_resource by (simp add: kueues_gvr_def)
  ultimately show ?thesis
    using assms(2)
    by (cases "tracker_add kueues_gvr (RKueue k) [] False t")
      (simp add: add_single_def go_defs case_prod_beta Let_def split: sum.split)
qed

lemma add_all:
  "plain_tracker t \<Longrightarrow> list_all (\<lambda>k. om_Namespace (ku_ObjectMeta k) = []) ks \<Longrightarrow>
   \<exists>r t'. go_foreach tracker_Add (map RKueue ks) t = (r, t') \<and>
     (isl r \<longleftrightarrow> \<not> (distinct (map kueue_name ks) \<and> (\<forall>k \<in> set ks. store_of t (kueue_name k) = None))) \<and>
     (\<not> isl r \<longrightarrow> plain_tracker t' \<and> store_of t' = store_of t ++ map_of (map (\<lambda>k. (kueue_name k, k)) ks))"
proof (induction ks arbitrary: t)
  case Nil
  then show ?case by (simp add: go_return_def)
next
  case (Cons k ks)
  have ns: "om_Namespace (ku_ObjectMeta k) = []"
    and rest_ns: "list_all (\<lambda>k. om_Namespace (ku_ObjectMeta k) = []) ks" using Cons.prems(2) by simp_all
  obtain t1 where t1: "tracker_add kueues_gvr (RKueue k) [] False t =
      (if store_of t (kueue_name k) \<noteq> None then Inl (ApiError AlreadyExists (kueue_name k)) else Inr (), t1)"
      "plain_tracker t1" "store_of t (kueue_name k) = None \<Longrightarrow> store_of t1 = (store_of t)(kueue_name k \<mapsto> k)"
    using plain_add[OF Cons.prems(1), of k False] ns by auto
  show ?case
  proof (cases "store_of t (kueue_name k) = None")
    case False
    then show ?thesis
      using t1(1) plain_Add[OF Cons.prems(1) ns] by (auto simp: go_seq_def go_bind_def)
  next
    case True
    obtain r t' where rest: "go_foreach tracker_Add (map RKueue ks) t1 = (r, t')"
        "isl r \<longleftrightarrow> \<not> (distinct (map kueue_name ks) \<and> (\<forall>k \<in> set ks. store_of t1 (kueue_name k) = None))"
        "\<not> isl r \<longrightarrow> plain_tracker t' \<and> store_of t' = store_of t1 ++ map_of (map (\<lambda>k. (kueue_name k, k)) ks)"
      using Cons.IH[OF t1(2) rest_ns] by blast
    have run: "go_foreach tracker_Add (map RKueue (k # ks)) t = (r, t')"
      using t1(1) plain_Add[OF Cons.prems(1) ns] True rest(1) by (simp add: go_seq_def go_bind_def)
    have new: "(\<forall>j \<in> set ks. store_of t1 (kueue_name j) = None) \<longleftrightarrow>
        kueue_name k \<notin> kueue_name ` set ks \<and> (\<forall>j \<in> set ks. store_of t (kueue_name j) = None)"
      using t1(3)[OF True] by (auto simp: image_iff)
    have same: "store_of t1 ++ map_of (map (\<lambda>k. (kueue_name k, k)) ks) =
        store_of t ++ map_of (map (\<lambda>k. (kueue_name k, k)) (k # ks))" if "kueue_name k \<notin> kueue_name ` set ks"
    proof -
      have "map_of (map (\<lambda>k. (kueue_name k, k)) ks) (kueue_name k) = None"
        using that by (auto simp: map_of_eq_None_iff)
      then show ?thesis using t1(3)[OF True] by (auto simp: map_add_def fun_eq_iff split: option.splits)
    qed
    have "isl r \<longleftrightarrow> \<not> (distinct (map kueue_name (k # ks)) \<and> (\<forall>j \<in> set (k # ks). store_of t (kueue_name j) = None))"
      using rest(2) new True by auto
    moreover have "plain_tracker t' \<and> store_of t' = store_of t ++ map_of (map (\<lambda>k. (kueue_name k, k)) (k # ks))" if "\<not> isl r"
    proof -
      have "kueue_name k \<notin> kueue_name ` set ks" using that rest(2) new by blast
      from same[OF this] that rest(3) show ?thesis by simp
    qed
    ultimately show ?thesis using run by blast
  qed
qed

text \<open>C23. The fake clientset is a store of Kueue resources: \<^verbatim>\<open>NewSimpleClientset\<close> panics exactly when two of the
  given resources have the same name, and otherwise the fake client answers every sequence of reads,
  creations, updates, status updates and deletions as a map from names to resources would that starts
  with the given ones, errors included, and holds the same resources afterwards. (An update replaces
  whatever is there, and a status update replaces the specification too: the fake neither checks
  versions nor separates the status, as the API server does.)\<close>
theorem fake_clientset_refines_store:
  assumes "list_all (\<lambda>k. om_Namespace (ku_ObjectMeta k) = []) ks"
  shows "case NewSimpleClientset lib (map RKueue ks) of
      Inl e \<Rightarrow> is_panic e \<and> \<not> distinct (map kueue_name ks)
    | Inr c \<Rightarrow> distinct (map kueue_name ks) \<and>
        (let start = map_of (map (\<lambda>k. (kueue_name k, k)) ks)
         in fst (run_ops fake_op ops c) = fst (run_ops store_spec ops start) \<and>
            store_of (fc_tracker (snd (run_ops fake_op ops c))) = snd (run_ops store_spec ops start))"
proof -
  obtain r t where rt: "go_foreach tracker_Add (map RKueue ks) (NewObjectTracker fake_scheme) = (r, t)"
      "isl r \<longleftrightarrow> \<not> distinct (map kueue_name ks)"
      "\<not> isl r \<longrightarrow> plain_tracker t \<and> store_of t = map_of (map (\<lambda>k. (kueue_name k, k)) ks)"
    using add_all[OF plain_new(1) assms] plain_new(2) by auto
  show ?thesis
  proof (cases r)
    case (Inl e)
    then show ?thesis using rt(1,2) by (simp add: NewSimpleClientset_def new_clientset_def)
  next
    case (Inr u)
    define c where "c = AddWatchReactor ''*'' watch_reaction (AddReactor ''*'' ''*'' (ObjectReaction lib None)
      \<lparr>fc_Fake = \<lparr>fk_actions = [], fk_ReactionChain = [], fk_WatchReactionChain = []\<rparr>, fc_tracker = t\<rparr>)"
    have c: "NewSimpleClientset lib (map RKueue ks) = Inr c"
      using rt(1) Inr by (simp add: NewSimpleClientset_def new_clientset_def c_def)
    have "serves lib c (map_of (map (\<lambda>k. (kueue_name k, k)) ks))"
      using rt(3) Inr by (simp add: serves_def c_def AddWatchReactor_def AddReactor_def)
    from fake_store.run_simulates[OF this, of ops] show ?thesis
      using rt(2) Inr by (simp add: c serves_def Let_def)
  qed
qed

definition plain_test_library :: TestLibrary where
  "plain_test_library = \<lparr>tl_ParseLabels = (\<lambda>_. Inr (\<lambda>_. True)), tl_ParseFields = (\<lambda>_. Inr ()),
     tl_Unmarshal = (\<lambda>_. Inr Map.empty), tl_Patch = (\<lambda>_ obj _. Inr obj), tl_StrategicMerge = (\<lambda>obj _. Inr obj),
     tl_MarshalApply = (\<lambda>_. Inr []), tl_FieldManagement = \<lparr>fmg_KindFor = (\<lambda>_. Inr kueue_gvk),
       fmg_fieldManagerFor = (\<lambda>_. Inr \<lparr>fm_Update = (\<lambda>_ obj _. Inr obj), fm_Apply = (\<lambda>obj _ _ _. Inr obj)\<rparr>)\<rparr>\<rparr>"

theorem fake_clientset_refines_store_witness:
  "\<exists>c. NewSimpleClientset plain_test_library [RKueue (kueue_with_frameworks [])] = Inr c \<and>
     fst (run_ops fake_op [OpGet ''cluster'', OpDelete ''cluster'', OpGet ''cluster''] c) =
       [Inr (Some (kueue_with_frameworks [])), Inr None, Inl (ApiError NotFound ''cluster'')]"
  using fake_clientset_refines_store[where ks = "[kueue_with_frameworks []]" and lib = plain_test_library and
      ops = "[OpGet ''cluster'', OpDelete ''cluster'', OpGet ''cluster'']"]
  by (auto simp: kueue_with_frameworks_def empty_meta_def split: sum.splits)

end
