(* ===== verification/Bindata.thy ===== *)
theory Bindata
  imports Rbac_Resources Network_Resources Workload_Resources
begin

text \<open>
  The embedded manifests: \<^verbatim>\<open>src/bindata/assets.go\<close> over Go's \<^verbatim>\<open>embed.FS\<close>, and the functions that decode them,
  \<^verbatim>\<open>resourceread\<close> of library-go and the readers of \<^verbatim>\<open>src/pkg/util/resourceapply\<close>. The YAML decoder is a
  parameter; its result is an object of some kind, which the readers assert to be the one they expect.
  \<open>embedded_assets\<close> is the view on the manifests that the reconciler of the other theories works with.
\<close>

section \<open>Embedded files\<close>

text \<open>A file of \<^verbatim>\<open>embed.FS\<close>: the directory and the last element of its name, in the order in which the file system
  keeps them.\<close>
record embed_file =
  ef_dir :: string
  ef_elem :: string
  ef_isDir :: bool
  ef_data :: string

type_synonym embed_FS = "embed_file list"

definition full_name :: "embed_file \<Rightarrow> string" where
  "full_name f = (if ef_dir f = ''.'' then ef_elem f else path_join (ef_dir f) (ef_elem f))"

fun path_elements :: "string \<Rightarrow> string list" where
  "path_elements [] = [[]]"
| "path_elements (c # s) = (if c = CHR ''/'' then [] # path_elements s
     else (case path_elements s of [] \<Rightarrow> [[c]] | e # es \<Rightarrow> (c # e) # es))"

text \<open>\<^verbatim>\<open>fs.ValidPath\<close>.\<close>
definition ValidPath :: "string \<Rightarrow> bool" where
  "ValidPath name \<longleftrightarrow> name = ''.'' \<or> list_all (\<lambda>e. e \<notin> {[], ''.'', ''..''}) (path_elements name)"

text \<open>The files are sorted, which Go uses to find them by bisection.\<close>
definition fs_lookup :: "embed_FS \<Rightarrow> string \<Rightarrow> embed_file option" where
  "fs_lookup fs name =
     (if \<not> ValidPath name then None
      else if name = ''.'' then Some \<lparr>ef_dir = ''.'', ef_elem = ''.'', ef_isDir = True, ef_data = []\<rparr>
      else find (\<lambda>f. full_name f = name) fs)"

definition ReadFile :: "embed_FS \<Rightarrow> string \<Rightarrow> err + string" where
  "ReadFile fs name = (case fs_lookup fs name of
     None \<Rightarrow> Inl (Errorf (''open '' @ name @ '': file does not exist''))
   | Some f \<Rightarrow> if ef_isDir f then Inl (Errorf (''read '' @ name @ '': is a directory'')) else Inr (ef_data f))"

definition ReadDir :: "embed_FS \<Rightarrow> string \<Rightarrow> err + embed_file list" where
  "ReadDir fs name = (case fs_lookup fs name of
     None \<Rightarrow> Inl (Errorf (''open '' @ name @ '': file does not exist''))
   | Some f \<Rightarrow> if ef_isDir f then Inr (filter (\<lambda>g. ef_dir g = name) fs)
       else Inl (Errorf (''read '' @ name @ '': not a directory'')))"

section \<open>Package bindata\<close>

definition Asset :: "embed_FS \<Rightarrow> string \<Rightarrow> err + string" where
  "Asset f name = ReadFile f name"

definition MustAsset :: "embed_FS \<Rightarrow> string \<Rightarrow> err + string" where
  "MustAsset f name = (case ReadFile f name of Inl err \<Rightarrow> Inl (Panic (''asset: '' @ name)) | Inr data \<Rightarrow> Inr data)"

definition AssetDir :: "embed_FS \<Rightarrow> string \<Rightarrow> err + string list" where
  "AssetDir f dir = (case ReadDir f dir of
     Inl err \<Rightarrow> Inl (Wrap (''failed to read directory '' @ dir) err)
   | Inr entries \<Rightarrow> Inr (map ef_elem (filter (\<lambda>entry. \<not> ef_isDir entry) entries)))"

section \<open>Decoding\<close>

text \<open>\<^verbatim>\<open>runtime.Decode\<close> with the decoder of a group: an object of some kind.\<close>
type_synonym decoder = "string \<Rightarrow> string \<Rightarrow> err + robj"

text \<open>Decodes and asserts the type; a failure of either is a panic.\<close>
definition read_or_die :: "decoder \<Rightarrow> string \<Rightarrow> (robj \<Rightarrow> 'a option) \<Rightarrow> string \<Rightarrow> err + 'a" where
  "read_or_die decode grp as_type objBytes = (case decode grp objBytes of
     Inl err \<Rightarrow> Inl (Panic ''failed to decode'')
   | Inr requiredObj \<Rightarrow> (case as_type requiredObj of
       None \<Rightarrow> Inl (Panic ''interface conversion'') | Some x \<Rightarrow> Inr x))"

definition ReadServiceAccountV1OrDie :: "decoder \<Rightarrow> string \<Rightarrow> err + ServiceAccount" where
  "ReadServiceAccountV1OrDie decode = read_or_die decode [] (\<lambda>m. case m of RServiceAccount x \<Rightarrow> Some x | _ \<Rightarrow> None)"

definition ReadServiceV1OrDie :: "decoder \<Rightarrow> string \<Rightarrow> err + Service" where
  "ReadServiceV1OrDie decode = read_or_die decode [] (\<lambda>m. case m of RService x \<Rightarrow> Some x | _ \<Rightarrow> None)"

abbreviation rbac_group :: string where "rbac_group \<equiv> ''rbac.authorization.k8s.io''"
abbreviation admission_group :: string where "admission_group \<equiv> ''admissionregistration.k8s.io''"
abbreviation flowcontrol_group :: string where "flowcontrol_group \<equiv> ''flowcontrol.apiserver.k8s.io''"

definition ReadRoleV1OrDie :: "decoder \<Rightarrow> string \<Rightarrow> err + Role" where
  "ReadRoleV1OrDie decode = read_or_die decode rbac_group (\<lambda>m. case m of RRole x \<Rightarrow> Some x | _ \<Rightarrow> None)"

definition ReadRoleBindingV1OrDie :: "decoder \<Rightarrow> string \<Rightarrow> err + RoleBinding" where
  "ReadRoleBindingV1OrDie decode =
     read_or_die decode rbac_group (\<lambda>m. case m of RRoleBinding x \<Rightarrow> Some x | _ \<Rightarrow> None)"

definition ReadClusterRoleV1OrDie :: "decoder \<Rightarrow> string \<Rightarrow> err + ClusterRole" where
  "ReadClusterRoleV1OrDie decode =
     read_or_die decode rbac_group (\<lambda>m. case m of RClusterRole x \<Rightarrow> Some x | _ \<Rightarrow> None)"

definition ReadClusterRoleBindingV1OrDie :: "decoder \<Rightarrow> string \<Rightarrow> err + ClusterRoleBinding" where
  "ReadClusterRoleBindingV1OrDie decode =
     read_or_die decode rbac_group (\<lambda>m. case m of RClusterRoleBinding x \<Rightarrow> Some x | _ \<Rightarrow> None)"

definition ReadMutatingWebhookConfigurationV1OrDie :: "decoder \<Rightarrow> string \<Rightarrow> err + MutatingWebhookConfiguration" where
  "ReadMutatingWebhookConfigurationV1OrDie decode =
     read_or_die decode admission_group (\<lambda>m. case m of RMutatingWebhook x \<Rightarrow> Some x | _ \<Rightarrow> None)"

definition ReadValidatingWebhookConfigurationV1OrDie ::
  "decoder \<Rightarrow> string \<Rightarrow> err + ValidatingWebhookConfiguration" where
  "ReadValidatingWebhookConfigurationV1OrDie decode =
     read_or_die decode admission_group (\<lambda>m. case m of RValidatingWebhook x \<Rightarrow> Some x | _ \<Rightarrow> None)"

definition ReadNetworkPolicyV1OrDie :: "decoder \<Rightarrow> string \<Rightarrow> err + NetworkPolicy" where
  "ReadNetworkPolicyV1OrDie decode =
     read_or_die decode ''networking.k8s.io'' (\<lambda>m. case m of RNetworkPolicy x \<Rightarrow> Some x | _ \<Rightarrow> None)"

definition ReadPriorityLevelConfigurationV1OrDie :: "decoder \<Rightarrow> string \<Rightarrow> err + PriorityLevelConfiguration" where
  "ReadPriorityLevelConfigurationV1OrDie decode =
     read_or_die decode flowcontrol_group (\<lambda>m. case m of RPriorityLevel x \<Rightarrow> Some x | _ \<Rightarrow> None)"

definition ReadFlowSchemaV1OrDie :: "decoder \<Rightarrow> string \<Rightarrow> err + FlowSchema" where
  "ReadFlowSchemaV1OrDie decode =
     read_or_die decode flowcontrol_group (\<lambda>m. case m of RFlowSchema x \<Rightarrow> Some x | _ \<Rightarrow> None)"

definition ReadCustomResourceDefinitionV1OrDie :: "decoder \<Rightarrow> string \<Rightarrow> err + CustomResourceDefinition" where
  "ReadCustomResourceDefinitionV1OrDie decode =
     read_or_die decode ''apiextensions.k8s.io'' (\<lambda>m. case m of RCRD x \<Rightarrow> Some x | _ \<Rightarrow> None)"

definition ReadAPIServiceOrDie :: "decoder \<Rightarrow> string \<Rightarrow> err + APIService" where
  "ReadAPIServiceOrDie decode =
     read_or_die decode ''apiregistration.k8s.io'' (\<lambda>m. case m of RAPIService x \<Rightarrow> Some x | _ \<Rightarrow> None)"

definition ReadDeploymentV1OrDie :: "decoder \<Rightarrow> string \<Rightarrow> err + Deployment" where
  "ReadDeploymentV1OrDie decode = read_or_die decode ''apps'' (\<lambda>m. case m of RDeployment x \<Rightarrow> Some x | _ \<Rightarrow> None)"

lemmas reader_defs = ReadServiceAccountV1OrDie_def ReadServiceV1OrDie_def ReadRoleV1OrDie_def
  ReadRoleBindingV1OrDie_def ReadClusterRoleV1OrDie_def ReadClusterRoleBindingV1OrDie_def
  ReadMutatingWebhookConfigurationV1OrDie_def ReadValidatingWebhookConfigurationV1OrDie_def
  ReadNetworkPolicyV1OrDie_def ReadPriorityLevelConfigurationV1OrDie_def ReadFlowSchemaV1OrDie_def
  ReadCustomResourceDefinitionV1OrDie_def ReadAPIServiceOrDie_def ReadDeploymentV1OrDie_def

text \<open>\<^verbatim>\<open>Read...OrDie(bindata.MustAsset(path))\<close>; nothing is left of a panic but that it happens.\<close>
definition read_manifest :: "embed_FS \<Rightarrow> (string \<Rightarrow> err + 'a) \<Rightarrow> string \<Rightarrow> 'a option" where
  "read_manifest fs reader path = (case MustAsset fs path of
     Inl _ \<Rightarrow> None | Inr data \<Rightarrow> (case reader data of Inl _ \<Rightarrow> None | Inr x \<Rightarrow> Some x))"

text \<open>The manifests as the reconciler reads them.\<close>
definition embedded_assets :: "decoder \<Rightarrow> embed_FS \<Rightarrow> Assets" where
  "embedded_assets decode fs = \<lparr>
     a_Dir = AssetDir fs,
     a_ServiceAccount = read_manifest fs (ReadServiceAccountV1OrDie decode),
     a_Service = read_manifest fs (ReadServiceV1OrDie decode),
     a_Role = read_manifest fs (ReadRoleV1OrDie decode),
     a_RoleBinding = read_manifest fs (ReadRoleBindingV1OrDie decode),
     a_ClusterRole = read_manifest fs (ReadClusterRoleV1OrDie decode),
     a_ClusterRoleBinding = read_manifest fs (ReadClusterRoleBindingV1OrDie decode),
     a_MutatingWebhook = read_manifest fs (ReadMutatingWebhookConfigurationV1OrDie decode),
     a_ValidatingWebhook = read_manifest fs (ReadValidatingWebhookConfigurationV1OrDie decode),
     a_NetworkPolicy = read_manifest fs (ReadNetworkPolicyV1OrDie decode),
     a_PriorityLevel = read_manifest fs (ReadPriorityLevelConfigurationV1OrDie decode),
     a_FlowSchema = read_manifest fs (ReadFlowSchemaV1OrDie decode),
     a_CRD = read_manifest fs (ReadCustomResourceDefinitionV1OrDie decode),
     a_APIService = read_manifest fs (ReadAPIServiceOrDie decode),
     a_Deployment = read_manifest fs (ReadDeploymentV1OrDie decode)\<rparr>"

section \<open>The file system\<close>

text \<open>The order of the files: by directory, then by name.\<close>
definition file_before :: "embed_file \<Rightarrow> embed_file \<Rightarrow> bool" where
  "file_before a b \<longleftrightarrow> ef_dir a < ef_dir b \<or> ef_dir a = ef_dir b \<and> ef_elem a < ef_elem b"

definition file_ok :: "embed_file \<Rightarrow> bool" where
  "file_ok f \<longleftrightarrow> CHR ''/'' \<notin> set (ef_elem f) \<and> ValidPath (full_name f) \<and> full_name f \<noteq> ''.''"

text \<open>What \<^verbatim>\<open>go:embed\<close> makes: sorted, without duplicates and with valid names.\<close>
definition fs_ok :: "embed_FS \<Rightarrow> bool" where
  "fs_ok fs \<longleftrightarrow> sorted_wrt file_before fs \<and> list_all file_ok fs"

lemma path_join_inj:
  assumes "path_join d e = path_join d' e'" and "CHR ''/'' \<notin> set e" and "CHR ''/'' \<notin> set e'"
  shows "d = d' \<and> e = e'"
proof -
  have "takeWhile (\<lambda>c. c \<noteq> CHR ''/'') (rev (path_join x y)) = rev y" if "CHR ''/'' \<notin> set y" for x y
    using that by (simp add: path_join_def takeWhile_append)
  then have "e = e'" using assms by (metis rev_is_rev_conv)
  then show ?thesis using assms(1) by (simp add: path_join_def)
qed

lemma top_level_iff:
  "file_ok f \<Longrightarrow> ef_dir f = ''.'' \<longleftrightarrow> CHR ''/'' \<notin> set (full_name f)"
  by (simp add: full_name_def file_ok_def path_join_def)

lemma full_name_inj:
  assumes "file_ok f" and "file_ok g" and "full_name f = full_name g"
  shows "ef_dir f = ef_dir g \<and> ef_elem f = ef_elem g"
proof -
  have no: "CHR ''/'' \<notin> set (ef_elem f)" "CHR ''/'' \<notin> set (ef_elem g)"
    using assms(1,2) by (simp_all add: file_ok_def)
  have "ef_dir f = ''.'' \<longleftrightarrow> ef_dir g = ''.''"
    using top_level_iff[OF assms(1)] top_level_iff[OF assms(2)] assms(3) by simp
  then show ?thesis
    using path_join_inj[OF _ no] assms(3) by (cases "ef_dir f = ''.''") (simp_all add: full_name_def)
qed

lemma fs_lookup_file:
  assumes "fs_ok fs" and "f \<in> set fs"
  shows "fs_lookup fs (full_name f) = Some f"
proof -
  have "find (\<lambda>g. full_name g = full_name f) fs = Some f"
    using assms
  proof (induction fs)
    case Nil
    then show ?case by simp
  next
    case (Cons g fs)
    show ?case
    proof (cases "f = g")
      case True
      then show ?thesis by simp
    next
      case False
      with Cons.prems have f: "f \<in> set fs" and ok: "file_ok f" "file_ok g" and "file_before g f"
        by (auto simp: fs_ok_def list_all_iff)
      then have "full_name g \<noteq> full_name f"
        using full_name_inj[of g f] by (auto simp: file_before_def)
      then show ?thesis using Cons.IH[OF _ f] Cons.prems(1) by (simp add: fs_ok_def)
    qed
  qed
  moreover have "ValidPath (full_name f)" "full_name f \<noteq> ''.''"
    using assms by (auto simp: fs_ok_def list_all_iff file_ok_def)
  ultimately show ?thesis by (simp add: fs_lookup_def)
qed

lemma full_names_distinct:
  assumes "fs_ok fs"
  shows "distinct (map full_name fs)"
proof -
  have "sorted_wrt file_before fs" using assms by (simp add: fs_ok_def)
  then have "distinct fs" by (induction fs) (auto simp: file_before_def)
  moreover have "inj_on full_name (set fs)"
    using fs_lookup_file[OF assms] by (metis inj_onI option.inject)
  ultimately show ?thesis by (simp add: distinct_map)
qed

lemma fs_lookup_member:
  assumes "fs_lookup fs name = Some f" and "name \<noteq> ''.''"
  shows "f \<in> set fs \<and> full_name f = name"
  using assms by (auto simp: fs_lookup_def find_Some_iff split: if_splits)

lemma Asset_file:
  assumes "fs_ok fs" and "f \<in> set fs" and "\<not> ef_isDir f"
  shows "Asset fs (full_name f) = Inr (ef_data f)" "MustAsset fs (full_name f) = Inr (ef_data f)"
  using fs_lookup_file[OF assms(1,2)] assms(3) by (simp_all add: Asset_def MustAsset_def ReadFile_def)

text \<open>Listing a directory of the embedded manifests and reading its files fit together: the list is
  sorted and without duplicates, it has exactly the names under which a file can be read from the directory,
  reading one of them never panics, and there is an error exactly when there is no such directory.\<close>
theorem AssetDir_files:
  assumes "fs_ok fs" and "dir \<noteq> ''.''"
  shows "case AssetDir fs dir of
      Inr files \<Rightarrow> sorted_wrt (<) files \<and>
        (\<forall>name. name \<in> set files \<longleftrightarrow> CHR ''/'' \<notin> set name \<and> \<not> isl (Asset fs (path_join dir name))) \<and>
        (\<forall>name \<in> set files. MustAsset fs (path_join dir name) = Asset fs (path_join dir name))
    | Inl _ \<Rightarrow> \<not> (\<exists>f \<in> set fs. full_name f = dir \<and> ef_isDir f)"
proof (cases "AssetDir fs dir")
  case (Inl e)
  then have "\<not> ef_isDir f" if "f \<in> set fs" "full_name f = dir" for f
    using fs_lookup_file[OF assms(1) that(1)] that(2) by (auto simp: AssetDir_def ReadDir_def split: option.splits if_splits)
  with Inl show ?thesis by auto
next
  case (Inr files)
  let ?in = "filter (\<lambda>g. \<not> ef_isDir g) (filter (\<lambda>g. ef_dir g = dir) fs)"
  have files: "files = map ef_elem ?in"
    using Inr by (auto simp: AssetDir_def ReadDir_def split: option.splits if_splits)
  have "sorted_wrt file_before ?in" using assms(1) by (simp add: fs_ok_def sorted_wrt_filter)
  then have sorted: "sorted_wrt (<) files"
    unfolding files sorted_wrt_map by (rule sorted_wrt_mono_rel[rotated]) (auto simp: file_before_def)
  have read: "CHR ''/'' \<notin> set name \<and> Asset fs (path_join dir name) = MustAsset fs (path_join dir name) \<and>
      \<not> isl (Asset fs (path_join dir name))" if "name \<in> set files" for name
  proof -
    from that obtain f where f: "f \<in> set fs" "ef_dir f = dir" "\<not> ef_isDir f" "ef_elem f = name"
      by (auto simp: files)
    then have "full_name f = path_join dir name" using assms(2) by (simp add: full_name_def)
    with Asset_file[OF assms(1) f(1,3)] f assms(1) show ?thesis
      by (auto simp: fs_ok_def list_all_iff file_ok_def)
  qed
  have "name \<in> set files" if no: "CHR ''/'' \<notin> set name" and r: "\<not> isl (Asset fs (path_join dir name))" for name
  proof -
    have "path_join dir name \<noteq> ''.''" by (auto simp: path_join_def append_eq_Cons_conv)
    with r obtain f where f: "f \<in> set fs" "full_name f = path_join dir name" "\<not> ef_isDir f"
      using fs_lookup_member by (fastforce simp: Asset_def ReadFile_def split: option.splits if_splits)
    then have ok: "CHR ''/'' \<notin> set (ef_elem f)" using assms(1) by (auto simp: fs_ok_def list_all_iff file_ok_def)
    moreover from this have "ef_dir f \<noteq> ''.''"
      using f(2) by (auto simp: full_name_def path_join_def)
    ultimately have "ef_dir f = dir" "ef_elem f = name"
      using f(2) no path_join_inj[of "ef_dir f" "ef_elem f" dir name] by (auto simp: full_name_def)
    with f show ?thesis by (auto simp: files)
  qed
  with read sorted Inr show ?thesis by auto
qed

definition small_fs :: embed_FS where
  "small_fs = [\<lparr>ef_dir = ''.'', ef_elem = ''a'', ef_isDir = True, ef_data = []\<rparr>,
     \<lparr>ef_dir = ''a'', ef_elem = ''b'', ef_isDir = True, ef_data = []\<rparr>,
     \<lparr>ef_dir = ''a'', ef_elem = ''c.yaml'', ef_isDir = False, ef_data = ''kind: Role''\<rparr>,
     \<lparr>ef_dir = ''a/b'', ef_elem = ''d.yaml'', ef_isDir = False, ef_data = ''kind: Secret''\<rparr>]"

theorem AssetDir_files_witness:
  "AssetDir small_fs ''a'' = Inr [''c.yaml''] \<and> sorted_wrt (<) [''c.yaml''] \<and>
   MustAsset small_fs ''a/c.yaml'' = Asset small_fs ''a/c.yaml'' \<and> isl (Asset small_fs ''a/b'')"
proof -
  have "AssetDir small_fs ''a'' = Inr [''c.yaml'']" by code_simp
  moreover have "fs_ok small_fs" by code_simp
  moreover have "isl (Asset small_fs ''a/b'')" by code_simp
  ultimately show ?thesis
    using AssetDir_files[of small_fs "''a''"] by (simp add: path_join_def)
qed

end
