(* ===== verification/Shipped_Manifests.thy ===== *)
theory Shipped_Manifests
  imports Bindata Progress
begin

text \<open>
  The files under \<^verbatim>\<open>src/bindata/assets\<close> that are compiled into the operator: their names, and the kind and the
  name of the object in each. The content is a parameter; that it decodes to an object of that kind and name
  is the hypothesis \<open>decoded_as_shipped\<close>. The code names the files it reads as string constants and asserts the
  type of what it decodes, without a check at compile time. The lemmas show that every file it reads is there
  and has the kind it expects, so that the assumptions about the manifests that other theorems make hold for the
  shipped ones, and that the cleanup finds the objects without an owner and the cluster-wide objects by
  their shipped names.
\<close>

section \<open>The files\<close>

text \<open>The files and directories of \<^verbatim>\<open>assets/kueue-operator\<close>.\<close>
definition shipped_top :: "(string \<times> (kind \<times> string) option) list" where
  "shipped_top =
    [(''apiservice-v1beta1.visibility.kueue.x-k8s.io.yaml'', Some (KAPIService, ''v1beta1.visibility.kueue.x-k8s.io'')),
     (''apiservice-v1beta2.visibility.kueue.x-k8s.io.yaml'', Some (KAPIService, ''v1beta2.visibility.kueue.x-k8s.io'')),
     (''clusterrolebinding-manager.yaml'', Some (KClusterRoleBinding, ''kueue-manager-rolebinding'')),
     (''clusterrolebinding-metrics-auth.yaml'', Some (KClusterRoleBinding, ''kueue-metrics-auth-rolebinding'')),
     (''clusterrolebinding-metrics-monitoring.yaml'', Some (KClusterRoleBinding, ''kueue-metrics-monitoring-rolebinding'')),
     (''clusterrolebinding-metrics.yaml'', Some (KClusterRoleBinding, ''kueue-metrics-rolebinding'')),
     (''clusterrolebinding-proxy.yaml'', Some (KClusterRoleBinding, ''kueue-proxy-rolebinding'')),
     (''clusterroles'', None),
     (''controller-manager-metrics-service.yaml'', Some (KService, ''kueue-controller-manager-metrics-service'')),
     (''crds'', None), (''deployment.yaml'', Some (KDeployment, ''kueue-controller-manager'')),
     (''flowschema.yaml'', Some (KFlowSchema, ''visibility'')),
     (''mutatingwebhook.yaml'', Some (KMutatingWebhook, ''kueue-mutating-webhook-configuration'')),
     (''networkpolicy'', None),
     (''prioritylevelconfiguration.yaml'', Some (KPriorityLevel, ''kueue-visibility'')),
     (''role-leader-election.yaml'', Some (KRole, ''kueue-leader-election-role'')),
     (''role-manager-clusterprofiles.yaml'', Some (KRole, ''kueue-manager-clusterprofiles-role'')),
     (''role-manager-secrets.yaml'', Some (KRole, ''kueue-manager-secrets-role'')),
     (''role-prometheus.yaml'', Some (KRole, ''prometheus-k8s'')),
     (''role-visibility-server.yaml'', Some (KRole, ''extension-apiserver-authentication-reader'')),
     (''rolebinding-leader-election.yaml'', Some (KRoleBinding, ''kueue-leader-election-rolebinding'')),
     (''rolebinding-manager-clusterprofiles.yaml'', Some (KRoleBinding, ''kueue-manager-clusterprofiles-rolebinding'')),
     (''rolebinding-manager-secrets.yaml'', Some (KRoleBinding, ''kueue-manager-secrets-rolebinding'')),
     (''rolebinding-prometheus.yaml'', Some (KRoleBinding, ''prometheus-k8s'')),
     (''rolebinding-visibility-server-auth-reader.yaml'', Some (KRoleBinding, ''kueue-visibility-server-auth-reader'')),
     (''secret.yaml'', Some (KSecret, ''kueue-webhook-server-cert'')),
     (''serviceaccount.yaml'', Some (KServiceAccount, ''kueue-controller-manager'')),
     (''validatingwebhook.yaml'', Some (KValidatingWebhook, ''kueue-validating-webhook-configuration'')),
     (''visibility-server.yaml'', Some (KService, ''kueue-visibility-server'')),
     (''webhook-service.yaml'', Some (KService, ''kueue-webhook-service''))]"

text \<open>The role \<open>r\<close> is in the file \<^verbatim>\<open>clusterrole-r.yaml\<close> and has the name \<^verbatim>\<open>kueue-r\<close>.\<close>
definition shipped_cluster_roles :: "string list" where
  "shipped_cluster_roles =
    [''batch-admin-role'', ''batch-user-role'', ''clusterqueue-editor-role'', ''clusterqueue-viewer-role'',
     ''cohort-editor-role'', ''cohort-viewer-role'', ''jaxjob-editor-role'', ''jaxjob-viewer-role'',
     ''job-editor-role'', ''job-viewer-role'', ''jobset-editor-role'', ''jobset-viewer-role'',
     ''leaderworkerset-editor-role'', ''leaderworkerset-viewer-role'', ''localqueue-editor-role'',
     ''localqueue-viewer-role'', ''manager-role'', ''metrics-auth-role'', ''metrics-reader'',
     ''mpijob-editor-role'', ''mpijob-viewer-role'', ''mxjob-editor-role'', ''mxjob-viewer-role'',
     ''paddlejob-editor-role'', ''paddlejob-viewer-role'', ''pending-workloads-cq-viewer-role'',
     ''pending-workloads-lq-viewer-role'', ''proxy-role'', ''pytorchjob-editor-role'',
     ''pytorchjob-viewer-role'', ''raycluster-editor-role'', ''raycluster-viewer-role'',
     ''rayjob-editor-role'', ''rayjob-viewer-role'', ''rayservice-editor-role'', ''rayservice-viewer-role'',
     ''resourceflavor-editor-role'', ''resourceflavor-viewer-role'', ''sparkapplication-editor-role'',
     ''sparkapplication-viewer-role'', ''tfjob-editor-role'', ''tfjob-viewer-role'', ''topology-editor-role'',
     ''topology-viewer-role'', ''trainjob-editor-role'', ''trainjob-viewer-role'', ''workload-editor-role'',
     ''workload-viewer-role'', ''xgboostjob-editor-role'', ''xgboostjob-viewer-role'']"

text \<open>The cluster roles with an aggregation rule.\<close>
definition shipped_aggregated :: "string list" where
  "shipped_aggregated = [''kueue-batch-admin-role'', ''kueue-batch-user-role'']"

text \<open>The resource \<open>r\<close> is in the file \<^verbatim>\<open>crd-r.kueue.x-k8s.io-v1beta2.yaml\<close>.\<close>
definition shipped_crds :: "string list" where
  "shipped_crds =
    [''admissionchecks'', ''clusterqueues'', ''cohorts'', ''localqueues'', ''multikueueclusters'',
     ''multikueueconfigs'', ''provisioningrequestconfigs'', ''resourceflavors'', ''topologies'',
     ''workloadpriorityclasses'', ''workloads'']"

definition shipped_network_policies :: "(string \<times> string) list" where
  "shipped_network_policies =
    [(''10-allow-egress-api.yaml'', ''kueue-allow-egress-kube-apiserver''),
     (''10-allow-egress-cluster-dns.yaml'', ''kueue-allow-egress-cluster-dns''),
     (''10-allow-ingress-egress-metrics.yaml'', ''kueue-allow-ingress-egress-metrics''),
     (''10-allow-ingress-egress-visibility.yaml'', ''kueue-allow-ingress-egress-visibility''),
     (''10-allow-ingress-egress-webhook.yaml'', ''kueue-allow-ingress-egress-webhook''),
     (''99-deny-all.yaml'', ''kueue-deny-all'')]"

definition cluster_role_file :: "string \<Rightarrow> string" where
  "cluster_role_file r = ''clusterrole-'' @ r @ ''.yaml''"

definition crd_name :: "string \<Rightarrow> string" where
  "crd_name r = r @ ''.kueue.x-k8s.io''"

definition crd_file :: "string \<Rightarrow> string" where
  "crd_file r = ''crd-'' @ crd_name r @ ''-v1beta2.yaml''"

abbreviation asset_root :: string where "asset_root \<equiv> ''assets/kueue-operator''"

text \<open>Directory, name and whether it is a directory, in the order of the file system.\<close>
definition shipped_names :: "(string \<times> string \<times> bool) list" where
  "shipped_names = [(''.'', ''assets'', True), (''assets'', ''kueue-operator'', True)] @
     map (\<lambda>(e, m). (asset_root, e, m = None)) shipped_top @
     map (\<lambda>r. (asset ''clusterroles'', cluster_role_file r, False)) shipped_cluster_roles @
     map (\<lambda>r. (asset ''crds'', crd_file r, False)) shipped_crds @
     map (\<lambda>(e, _). (asset ''networkpolicy'', e, False)) shipped_network_policies"

definition shipped_file :: "(string \<Rightarrow> string) \<Rightarrow> string \<times> string \<times> bool \<Rightarrow> embed_file" where
  "shipped_file content = (\<lambda>(d, e, dir). \<lparr>ef_dir = d, ef_elem = e, ef_isDir = dir,
     ef_data = (if dir then [] else content (path_join d e))\<rparr>)"

definition shipped_fs :: "(string \<Rightarrow> string) \<Rightarrow> embed_FS" where
  "shipped_fs content = map (shipped_file content) shipped_names"

text \<open>Path, kind and name of every manifest.\<close>
definition shipped_manifests :: "(string \<times> kind \<times> string) list" where
  "shipped_manifests =
     [(path_join asset_root e, m). (e, Some m) \<leftarrow> shipped_top] @
     map (\<lambda>r. (path_join (asset ''clusterroles'') (cluster_role_file r), KClusterRole, ''kueue-'' @ r))
       shipped_cluster_roles @
     map (\<lambda>r. (path_join (asset ''crds'') (crd_file r), KCRD, crd_name r)) shipped_crds @
     map (\<lambda>(e, n). (path_join (asset ''networkpolicy'') e, KNetworkPolicy, n)) shipped_network_policies"

section \<open>What they decode to\<close>

fun group_of :: "kind \<Rightarrow> string" where
  "group_of KRole = rbac_group"
| "group_of KRoleBinding = rbac_group"
| "group_of KClusterRole = rbac_group"
| "group_of KClusterRoleBinding = rbac_group"
| "group_of KMutatingWebhook = admission_group"
| "group_of KValidatingWebhook = admission_group"
| "group_of KNetworkPolicy = ''networking.k8s.io''"
| "group_of KPriorityLevel = flowcontrol_group"
| "group_of KFlowSchema = flowcontrol_group"
| "group_of KCRD = ''apiextensions.k8s.io''"
| "group_of KAPIService = ''apiregistration.k8s.io''"
| "group_of KDeployment = ''apps''"
| "group_of _ = []"

text \<open>An object of the kind and with the name of the manifest; a cluster role has an aggregation rule if it does
  in the manifest.\<close>
definition is_shipped :: "kind \<Rightarrow> string \<Rightarrow> robj \<Rightarrow> bool" where
  "is_shipped k n x \<longleftrightarrow> rkind x = k \<and> om_Name (rmeta x) = n \<and>
     (case x of RClusterRole r \<Rightarrow> cro_AggregationRule r \<noteq> None \<longleftrightarrow> n \<in> set shipped_aggregated | _ \<Rightarrow> True)"

definition decoded_as_shipped :: "decoder \<Rightarrow> (string \<Rightarrow> string) \<Rightarrow> bool" where
  "decoded_as_shipped decode content \<longleftrightarrow> list_all (\<lambda>(path, k, n).
     case decode (group_of k) (content path) of Inl _ \<Rightarrow> False | Inr x \<Rightarrow> is_shipped k n x) shipped_manifests"

section \<open>The file system\<close>

lemma shipped_sorted:
  "sorted_wrt (\<lambda>a b. fst a < fst b \<or> fst a = fst b \<and> fst (snd a) < fst (snd b)) shipped_names"
proof -
  have "successively (\<lambda>a b. fst a < fst b \<or> fst a = fst b \<and> fst (snd a) < fst (snd b)) shipped_names"
    by code_simp
  then show ?thesis
    by (subst (asm) successively_conv_sorted_wrt) (auto simp: transp_def)
qed

lemma shipped_names_ok:
  "list_all (\<lambda>(d, e, dir). CHR ''/'' \<notin> set e \<and> ValidPath (if d = ''.'' then e else path_join d e) \<and> e \<noteq> ''.''
     \<and> (d = ''.'' \<longrightarrow> dir)) shipped_names"
  by code_simp

lemma shipped_fs_ok: "fs_ok (shipped_fs content)"
proof -
  have "sorted_wrt file_before (shipped_fs content)"
    unfolding shipped_fs_def sorted_wrt_map
    by (rule sorted_wrt_mono_rel[OF _ shipped_sorted]) (auto simp: file_before_def shipped_file_def)
  moreover have "file_ok (shipped_file content x)" if "x \<in> set shipped_names" for x
  proof -
    have "path_join d e \<noteq> ''.''" for d e by (auto simp: path_join_def append_eq_Cons_conv)
    then show ?thesis
      using shipped_names_ok that by (auto simp: list_all_iff file_ok_def full_name_def shipped_file_def)
  qed
  ultimately show ?thesis by (auto simp: fs_ok_def shipped_fs_def list_all_iff)
qed

lemma asset_path_join: "asset e = path_join asset_root e"
  by (simp add: asset_def path_join_def)

lemma top_paths:
  "map fst [(path_join d e, m). (e, Some m) \<leftarrow> xs] =
   map (\<lambda>(d, e, _). path_join d e) (filter (\<lambda>(d, e, dir). \<not> dir) (map (\<lambda>(e, m). (d, e, m = None)) xs))"
  by (induction xs) (auto split: option.splits)

lemma shipped_paths:
  "map fst shipped_manifests = map (\<lambda>(d, e, _). path_join d e) (filter (\<lambda>(d, e, dir). \<not> dir) shipped_names)"
  unfolding shipped_manifests_def map_append top_paths
  by (simp add: shipped_names_def filter_map o_def case_prod_beta)

text \<open>Every manifest can be read.\<close>
lemma shipped_manifest_file:
  assumes "(path, k, n) \<in> set shipped_manifests"
  shows "MustAsset (shipped_fs content) path = Inr (content path)"
proof -
  have "path \<in> set (map fst shipped_manifests)" using assms by force
  then obtain d e where f: "(d, e, False) \<in> set shipped_names" "path = path_join d e"
    unfolding shipped_paths by auto
  then have "d \<noteq> ''.''" using shipped_names_ok by (auto simp: list_all_iff)
  moreover have "shipped_file content (d, e, False) \<in> set (shipped_fs content)"
    using f(1) by (force simp: shipped_fs_def)
  ultimately show ?thesis
    using Asset_file(2)[OF shipped_fs_ok, of "shipped_file content (d, e, False)" content] f(2)
    by (simp add: shipped_file_def full_name_def)
qed

lemma shipped_object:
  assumes "decoded_as_shipped decode content" and "(path, k, n) \<in> set shipped_manifests"
  shows "\<exists>x. decode (group_of k) (content path) = Inr x \<and> is_shipped k n x"
  using assms(1)[unfolded decoded_as_shipped_def list_all_iff, rule_format, OF assms(2)]
  by (auto split: sum.splits)

text \<open>A reader of the kind finds the object.\<close>
lemma shipped_read:
  assumes "decoded_as_shipped decode content" and "(path, k, n) \<in> set shipped_manifests"
    and "\<And>x. rkind x = k \<Longrightarrow> as_type x \<noteq> None"
  shows "\<exists>x y. as_type x = Some y \<and> is_shipped k n x \<and>
    read_manifest (shipped_fs content) (read_or_die decode (group_of k) as_type) path = Some y"
proof -
  from shipped_object[OF assms(1,2)] obtain x where x: "decode (group_of k) (content path) = Inr x" "is_shipped k n x"
    by blast
  moreover from this(2) have "as_type x \<noteq> None" using assms(3) by (simp add: is_shipped_def)
  ultimately show ?thesis
    using shipped_manifest_file[OF assms(2)] by (auto simp: read_manifest_def read_or_die_def)
qed

lemma shipped_names_set: "(path, k, n) \<in> set shipped_manifests \<Longrightarrow> n \<noteq> []"
proof -
  have "list_all (\<lambda>(path, k, n). n \<noteq> []) shipped_manifests" by code_simp
  then show "(path, k, n) \<in> set shipped_manifests \<Longrightarrow> n \<noteq> []" by (auto simp: list_all_iff)
qed

text \<open>The paths have manifests of the kind.\<close>
definition files_of_kind :: "kind \<Rightarrow> string list \<Rightarrow> bool" where
  "files_of_kind k paths \<longleftrightarrow> (\<forall>p \<in> set paths. \<exists>n. (p, k, n) \<in> set shipped_manifests)"

lemma shipped_named:
  assumes "decoded_as_shipped decode content" and "files_of_kind k paths"
    and "\<And>x. rkind x = k \<Longrightarrow> as_type x \<noteq> None" and "\<And>x y. as_type x = Some y \<Longrightarrow> meta y = rmeta x"
  shows "named (read_manifest (shipped_fs content) (read_or_die decode (group_of k) as_type)) meta paths"
proof -
  have "case read_manifest (shipped_fs content) (read_or_die decode (group_of k) as_type) p of
      None \<Rightarrow> False | Some x \<Rightarrow> om_Name (meta x) \<noteq> []" if p: "p \<in> set paths" for p
  proof -
    from assms(2) p obtain n where n: "(p, k, n) \<in> set shipped_manifests"
      by (auto simp: files_of_kind_def)
    from shipped_read[of decode content p k n as_type, OF assms(1) n assms(3)] obtain x y where "as_type x = Some y" "is_shipped k n x"
      "read_manifest (shipped_fs content) (read_or_die decode (group_of k) as_type) p = Some y" by blast
    then show ?thesis using assms(4) shipped_names_set[OF n] by (simp add: is_shipped_def)
  qed
  then show ?thesis by (simp add: named_def list_all_iff)
qed

section \<open>The directories\<close>

lemma shipped_dir:
  assumes "(dir, None) \<in> set shipped_top"
  shows "AssetDir (shipped_fs content) (asset dir) =
    Inr (map (\<lambda>x. fst (snd x)) (filter (\<lambda>x. fst x = asset dir \<and> \<not> snd (snd x)) shipped_names))"
proof -
  let ?f = "shipped_file content (asset_root, dir, True)"
  have "?f \<in> set (shipped_fs content)"
    using assms by (force simp: shipped_fs_def shipped_names_def)
  from fs_lookup_file[OF shipped_fs_ok this]
  have "fs_lookup (shipped_fs content) (asset dir) = Some ?f"
    by (simp add: shipped_file_def full_name_def asset_path_join)
  then show ?thesis
    by (simp add: AssetDir_def ReadDir_def shipped_fs_def filter_map o_def shipped_file_def case_prod_beta conj_commute)
qed

lemma asset_inj: "asset a = asset b \<longleftrightarrow> a = b"
  by (simp add: asset_def)

lemma shipped_dirs:
  "AssetDir (shipped_fs content) (asset ''clusterroles'') = Inr (map cluster_role_file shipped_cluster_roles)"
  "AssetDir (shipped_fs content) (asset ''crds'') = Inr (map crd_file shipped_crds)"
  "AssetDir (shipped_fs content) (asset ''networkpolicy'') = Inr (map fst shipped_network_policies)"
proof -
  have top: "(''clusterroles'', None) \<in> set shipped_top" "(''crds'', None) \<in> set shipped_top"
    "(''networkpolicy'', None) \<in> set shipped_top"
    by (simp_all add: shipped_top_def)
  have [simp]: "asset_root \<noteq> asset d" "''.'' \<noteq> asset d" "''assets'' \<noteq> asset d" for d
    by (simp_all add: asset_def)
  show "AssetDir (shipped_fs content) (asset ''clusterroles'') = Inr (map cluster_role_file shipped_cluster_roles)"
    "AssetDir (shipped_fs content) (asset ''crds'') = Inr (map crd_file shipped_crds)"
    "AssetDir (shipped_fs content) (asset ''networkpolicy'') = Inr (map fst shipped_network_policies)"
    unfolding shipped_dir[OF top(1)] shipped_dir[OF top(2)] shipped_dir[OF top(3)]
    by (simp_all add: shipped_names_def filter_map o_def case_prod_beta asset_inj)
qed

section \<open>The files that the code names\<close>

lemma top_manifest: "(e, Some (k, n)) \<in> set shipped_top \<Longrightarrow> (asset e, k, n) \<in> set shipped_manifests"
  by (force simp: shipped_manifests_def asset_path_join)

definition top_of_kind :: "kind \<Rightarrow> string \<Rightarrow> bool" where
  "top_of_kind k e = list_ex (\<lambda>(e', m). e' = e \<and> (case m of Some (k', _) \<Rightarrow> k' = k | None \<Rightarrow> False)) shipped_top"

lemma top_files:
  assumes "list_all (top_of_kind k) es"
  shows "files_of_kind k (map asset es)"
  using assms top_manifest
  by (fastforce simp: list_all_iff list_ex_iff top_of_kind_def files_of_kind_def split: option.splits)

lemma named_files:
  "files_of_kind KRole role_files"
  "files_of_kind KRoleBinding role_binding_files"
  "files_of_kind KService service_files"
  "files_of_kind KClusterRoleBinding cluster_role_binding_files"
  unfolding file_defs by (rule top_files, code_simp)+

lemma named_file: "top_of_kind k e \<Longrightarrow> files_of_kind k [asset e]"
  using top_files[of k "[e]"] by simp

lemma api_service_files: "files_of_kind KAPIService apiServiceFiles"
proof -
  have "apiServiceFiles = map asset [''apiservice-v1beta1.visibility.kueue.x-k8s.io.yaml'',
      ''apiservice-v1beta2.visibility.kueue.x-k8s.io.yaml'']"
    by (simp add: apiServiceFiles_def)
  moreover have "list_all (top_of_kind KAPIService) [''apiservice-v1beta1.visibility.kueue.x-k8s.io.yaml'',
      ''apiservice-v1beta2.visibility.kueue.x-k8s.io.yaml'']" by code_simp
  ultimately show ?thesis using top_files[of KAPIService] by metis
qed

lemma single_files:
  "top_of_kind KServiceAccount ''serviceaccount.yaml''" "top_of_kind KFlowSchema ''flowschema.yaml''"
  "top_of_kind KPriorityLevel ''prioritylevelconfiguration.yaml''"
  "top_of_kind KMutatingWebhook ''mutatingwebhook.yaml''" "top_of_kind KValidatingWebhook ''validatingwebhook.yaml''"
  "top_of_kind KDeployment ''deployment.yaml''"
  by code_simp+

lemma directory_files:
  "files_of_kind KClusterRole (map (path_join (asset ''clusterroles'')) (map cluster_role_file shipped_cluster_roles))"
  "files_of_kind KCRD (map (path_join (asset ''crds'')) (map crd_file shipped_crds))"
  "files_of_kind KNetworkPolicy (map (path_join (asset ''networkpolicy'')) (map fst shipped_network_policies))"
  by (force simp: shipped_manifests_def files_of_kind_def)+

section \<open>The manifests are as the reconciler expects\<close>

text \<open>The kind in the group of its reader.\<close>
lemma embedded_fields:
  "a_ServiceAccount (embedded_assets decode fs) =
     read_manifest fs (read_or_die decode (group_of KServiceAccount) (\<lambda>m. case m of RServiceAccount x \<Rightarrow> Some x | _ \<Rightarrow> None))"
  "a_Service (embedded_assets decode fs) =
     read_manifest fs (read_or_die decode (group_of KService) (\<lambda>m. case m of RService x \<Rightarrow> Some x | _ \<Rightarrow> None))"
  "a_Role (embedded_assets decode fs) =
     read_manifest fs (read_or_die decode (group_of KRole) (\<lambda>m. case m of RRole x \<Rightarrow> Some x | _ \<Rightarrow> None))"
  "a_RoleBinding (embedded_assets decode fs) =
     read_manifest fs (read_or_die decode (group_of KRoleBinding) (\<lambda>m. case m of RRoleBinding x \<Rightarrow> Some x | _ \<Rightarrow> None))"
  "a_ClusterRole (embedded_assets decode fs) =
     read_manifest fs (read_or_die decode (group_of KClusterRole) (\<lambda>m. case m of RClusterRole x \<Rightarrow> Some x | _ \<Rightarrow> None))"
  "a_ClusterRoleBinding (embedded_assets decode fs) =
     read_manifest fs (read_or_die decode (group_of KClusterRoleBinding) (\<lambda>m. case m of RClusterRoleBinding x \<Rightarrow> Some x | _ \<Rightarrow> None))"
  "a_MutatingWebhook (embedded_assets decode fs) =
     read_manifest fs (read_or_die decode (group_of KMutatingWebhook) (\<lambda>m. case m of RMutatingWebhook x \<Rightarrow> Some x | _ \<Rightarrow> None))"
  "a_ValidatingWebhook (embedded_assets decode fs) =
     read_manifest fs (read_or_die decode (group_of KValidatingWebhook) (\<lambda>m. case m of RValidatingWebhook x \<Rightarrow> Some x | _ \<Rightarrow> None))"
  "a_NetworkPolicy (embedded_assets decode fs) =
     read_manifest fs (read_or_die decode (group_of KNetworkPolicy) (\<lambda>m. case m of RNetworkPolicy x \<Rightarrow> Some x | _ \<Rightarrow> None))"
  "a_PriorityLevel (embedded_assets decode fs) =
     read_manifest fs (read_or_die decode (group_of KPriorityLevel) (\<lambda>m. case m of RPriorityLevel x \<Rightarrow> Some x | _ \<Rightarrow> None))"
  "a_FlowSchema (embedded_assets decode fs) =
     read_manifest fs (read_or_die decode (group_of KFlowSchema) (\<lambda>m. case m of RFlowSchema x \<Rightarrow> Some x | _ \<Rightarrow> None))"
  "a_CRD (embedded_assets decode fs) =
     read_manifest fs (read_or_die decode (group_of KCRD) (\<lambda>m. case m of RCRD x \<Rightarrow> Some x | _ \<Rightarrow> None))"
  "a_APIService (embedded_assets decode fs) =
     read_manifest fs (read_or_die decode (group_of KAPIService) (\<lambda>m. case m of RAPIService x \<Rightarrow> Some x | _ \<Rightarrow> None))"
  "a_Deployment (embedded_assets decode fs) =
     read_manifest fs (read_or_die decode (group_of KDeployment) (\<lambda>m. case m of RDeployment x \<Rightarrow> Some x | _ \<Rightarrow> None))"
  by (simp_all add: embedded_assets_def reader_defs)

lemma shipped_kinds:
  assumes "decoded_as_shipped decode content"
  shows
    "files_of_kind KServiceAccount paths \<Longrightarrow>
      named (a_ServiceAccount (embedded_assets decode (shipped_fs content))) sa_ObjectMeta paths"
    and "files_of_kind KService paths \<Longrightarrow>
      named (a_Service (embedded_assets decode (shipped_fs content))) sv_ObjectMeta paths"
    and "files_of_kind KRole paths \<Longrightarrow>
      named (a_Role (embedded_assets decode (shipped_fs content))) ro_ObjectMeta paths"
    and "files_of_kind KRoleBinding paths \<Longrightarrow>
      named (a_RoleBinding (embedded_assets decode (shipped_fs content))) rb_ObjectMeta paths"
    and "files_of_kind KClusterRole paths \<Longrightarrow>
      named (a_ClusterRole (embedded_assets decode (shipped_fs content))) cro_ObjectMeta paths"
    and "files_of_kind KClusterRoleBinding paths \<Longrightarrow>
      named (a_ClusterRoleBinding (embedded_assets decode (shipped_fs content))) crb_ObjectMeta paths"
    and "files_of_kind KMutatingWebhook paths \<Longrightarrow>
      named (a_MutatingWebhook (embedded_assets decode (shipped_fs content))) mwc_ObjectMeta paths"
    and "files_of_kind KValidatingWebhook paths \<Longrightarrow>
      named (a_ValidatingWebhook (embedded_assets decode (shipped_fs content))) vwc_ObjectMeta paths"
    and "files_of_kind KNetworkPolicy paths \<Longrightarrow>
      named (a_NetworkPolicy (embedded_assets decode (shipped_fs content))) np_ObjectMeta paths"
    and "files_of_kind KPriorityLevel paths \<Longrightarrow>
      named (a_PriorityLevel (embedded_assets decode (shipped_fs content))) plc_ObjectMeta paths"
    and "files_of_kind KFlowSchema paths \<Longrightarrow>
      named (a_FlowSchema (embedded_assets decode (shipped_fs content))) fl_ObjectMeta paths"
    and "files_of_kind KCRD paths \<Longrightarrow>
      named (a_CRD (embedded_assets decode (shipped_fs content))) crd_ObjectMeta paths"
    and "files_of_kind KAPIService paths \<Longrightarrow>
      named (a_APIService (embedded_assets decode (shipped_fs content))) as_ObjectMeta paths"
    and "files_of_kind KDeployment paths \<Longrightarrow>
      named (a_Deployment (embedded_assets decode (shipped_fs content))) de_ObjectMeta paths"
  unfolding embedded_fields
  by (rule shipped_named[OF assms], assumption; auto elim: rkind.elims split: robj.splits)+

lemma shipped_directory:
  assumes "AssetDir (shipped_fs content) dir = Inr files"
    and "named assets meta (map (path_join dir) files)"
  shows "directory_named (embedded_assets decode (shipped_fs content)) assets meta dir"
  using assms by (simp add: directory_named_def embedded_assets_def)

lemmas shipped_rules = conjI shipped_directory[OF shipped_dirs(1)] shipped_directory[OF shipped_dirs(2)]
  shipped_directory[OF shipped_dirs(3)] named_files directory_files api_service_files named_file single_files

lemma shipped_manifests_named:
  assumes "decoded_as_shipped decode content"
  shows "manifests_named (embedded_assets decode (shipped_fs content))"
  unfolding manifests_named_def by (intro shipped_rules shipped_kinds[OF assms])

lemma named_decodes: "named assets meta paths \<Longrightarrow> decodes assets paths"
  by (auto simp: named_def decodes_def list_all_iff split: option.splits)

lemma directory_named_decodes: "directory_named A assets meta dir \<Longrightarrow> directory_decodes A assets dir"
  by (auto simp: directory_named_def directory_decodes_def named_decodes split: sum.splits)

lemma named_files_ok: "manifests_named A \<Longrightarrow> files_ok A"
  unfolding manifests_named_def files_ok_def
  by (elim conjE) (intro conjI; erule named_decodes directory_named_decodes)

text \<open>C20. Every manifest that the reconciler reads is compiled into the operator under the path that the code has
  for it, and has the kind that the code asserts: if each shipped file decodes to an object of the kind and
  name that it has in the repository, then every file that is read by name, and every file of the three directories
  that are listed, decodes to an object that has a name, and the directories have the shipped files. This is what
  the theorems on reconciliations assume of the files.\<close>
theorem shipped_manifests_readable:
  assumes "decoded_as_shipped decode content"
  shows "(let A = embedded_assets decode (shipped_fs content) in
    files_ok A \<and> manifests_named A \<and> named (a_Deployment A) de_ObjectMeta [asset ''deployment.yaml''] \<and>
    a_Dir A (asset ''clusterroles'') = Inr (map cluster_role_file shipped_cluster_roles) \<and>
    a_Dir A (asset ''crds'') = Inr (map crd_file shipped_crds) \<and>
    a_Dir A (asset ''networkpolicy'') = Inr (map fst shipped_network_policies))"
proof -
  have "a_Dir (embedded_assets decode (shipped_fs content)) = AssetDir (shipped_fs content)"
    by (simp add: embedded_assets_def)
  then show ?thesis
    unfolding Let_def
    by (simp only: shipped_dirs)
      (intro conjI refl named_files_ok shipped_manifests_named assms shipped_kinds[OF assms] shipped_rules)
qed

text \<open>A decoder for files whose content is their path, with the least object of each kind.\<close>
fun plain_object :: "kind \<Rightarrow> string \<Rightarrow> robj" where
  "plain_object KServiceAccount n = RServiceAccount \<lparr>sa_TypeMeta = empty_type, sa_ObjectMeta = empty_meta\<lparr>om_Name := n\<rparr>, sa_Rest = []\<rparr>"
| "plain_object KService n = RService \<lparr>sv_TypeMeta = empty_type, sv_ObjectMeta = empty_meta\<lparr>om_Name := n\<rparr>,
     sv_Spec = \<lparr>svs_Selector = Map.empty, svs_Type = [], svs_Rest = []\<rparr>\<rparr>"
| "plain_object KRole n = RRole \<lparr>ro_TypeMeta = empty_type, ro_ObjectMeta = empty_meta\<lparr>om_Name := n\<rparr>, ro_Rules = []\<rparr>"
| "plain_object KRoleBinding n = RRoleBinding \<lparr>rb_TypeMeta = empty_type, rb_ObjectMeta = empty_meta\<lparr>om_Name := n\<rparr>, rb_Subjects = [],
     rb_RoleRef = \<lparr>rr_APIGroup = [], rr_Kind = [], rr_Name = []\<rparr>\<rparr>"
| "plain_object KClusterRole n = RClusterRole \<lparr>cro_TypeMeta = empty_type, cro_ObjectMeta = empty_meta\<lparr>om_Name := n\<rparr>, cro_Rules = [],
     cro_AggregationRule = (if n \<in> set shipped_aggregated then Some [] else None)\<rparr>"
| "plain_object KClusterRoleBinding n = RClusterRoleBinding \<lparr>crb_TypeMeta = empty_type, crb_ObjectMeta = empty_meta\<lparr>om_Name := n\<rparr>,
     crb_Subjects = [], crb_RoleRef = \<lparr>rr_APIGroup = [], rr_Kind = [], rr_Name = []\<rparr>\<rparr>"
| "plain_object KMutatingWebhook n = RMutatingWebhook \<lparr>mwc_TypeMeta = empty_type, mwc_ObjectMeta = empty_meta\<lparr>om_Name := n\<rparr>,
     mwc_Webhooks = [served_webhook ''mpod.kb.io'']\<rparr>"
| "plain_object KValidatingWebhook n = RValidatingWebhook \<lparr>vwc_TypeMeta = empty_type, vwc_ObjectMeta = empty_meta\<lparr>om_Name := n\<rparr>,
     vwc_Webhooks = [served_webhook ''vpod.kb.io'']\<rparr>"
| "plain_object KNetworkPolicy n = RNetworkPolicy (plain_policy n)"
| "plain_object KPriorityLevel n = RPriorityLevel \<lparr>plc_TypeMeta = empty_type, plc_ObjectMeta = empty_meta\<lparr>om_Name := n\<rparr>,
     plc_Spec = \<lparr>pls_Type = ''Limited'', pls_Limited = Some \<lparr>lim_NominalConcurrencyShares = Some 10,
       lim_Rest = []\<rparr>, pls_Exempt = None\<rparr>\<rparr>"
| "plain_object KFlowSchema n = RFlowSchema \<lparr>fl_TypeMeta = empty_type, fl_ObjectMeta = empty_meta\<lparr>om_Name := n\<rparr>, fl_Spec = []\<rparr>"
| "plain_object KCRD n = RCRD ((plain_crd ''workloads'' ''v1'')\<lparr>crd_ObjectMeta := empty_meta\<lparr>om_Name := n\<rparr>\<rparr>)"
| "plain_object KAPIService n = RAPIService \<lparr>as_TypeMeta = empty_type, as_ObjectMeta = empty_meta\<lparr>om_Name := n\<rparr>,
     as_Spec = \<lparr>ass_Service = Some visibility_service, ass_InsecureSkipTLSVerify = True, ass_CABundle = [],
       ass_GroupPriorityMinimum = 0, ass_VersionPriority = 0, ass_Rest = []\<rparr>\<rparr>"
| "plain_object KDeployment n = RDeployment (plain_deployment\<lparr>de_ObjectMeta := empty_meta\<lparr>om_Name := n\<rparr>\<rparr>)"
| "plain_object k n = RSecret \<lparr>us_Object = [''metadata'' \<mapsto> JObj [''name'' \<mapsto> JStr n]]\<rparr>"

definition plain_decoder :: decoder where
  "plain_decoder grp path = (case map_of shipped_manifests path of
     Some (k, n) \<Rightarrow> Inr (plain_object k n) | None \<Rightarrow> Inl (Errorf ''no manifest''))"

lemma plain_object_shipped:
  "k \<notin> {KConfigMap, KSecret, KIssuer, KCertificate, KServiceMonitor} \<or> k = KSecret \<Longrightarrow> is_shipped k n (plain_object k n)"
  by (cases k) (simp_all add: is_shipped_def plain_policy_def unstructured_meta_def GetName_def getNestedString_def
      nested_defs)

lemma plain_decoder_shipped: "decoded_as_shipped plain_decoder (\<lambda>path. path)"
proof -
  let ?fs = "filter (\<lambda>f. \<not> ef_isDir f) (shipped_fs (\<lambda>path. path))"
  have "map fst shipped_manifests = map full_name ?fs"
    unfolding shipped_paths shipped_fs_def filter_map o_def map_map
    using shipped_names_ok
    by (intro map_cong filter_cong) (auto simp: list_all_iff shipped_file_def full_name_def)
  then have "distinct (map fst shipped_manifests)"
    using full_names_distinct[OF shipped_fs_ok] by (simp add: distinct_map_filter)
  then have "map_of shipped_manifests path = Some (k, n)" if "(path, k, n) \<in> set shipped_manifests" for path k n
    using that by simp
  moreover have "list_all (\<lambda>(path, k, n). k \<notin> {KConfigMap, KIssuer, KCertificate, KServiceMonitor}) shipped_manifests"
    by code_simp
  ultimately show ?thesis
    using plain_object_shipped by (fastforce simp: decoded_as_shipped_def plain_decoder_def list_all_iff)
qed

theorem shipped_manifests_readable_witness:
  "decoded_as_shipped plain_decoder (\<lambda>path. path) \<and>
   files_ok (embedded_assets plain_decoder (shipped_fs (\<lambda>path. path)))"
  using shipped_manifests_readable[OF plain_decoder_shipped] plain_decoder_shipped by (simp add: Let_def)

end
