(* ===== verification/Cleanup_Coverage.thy ===== *)
theory Cleanup_Coverage
  imports Shipped_Manifests
begin

text \<open>
  Applying and cleaning up fit together. Deleting the Kueue resource leaves the rest to the garbage collector, as far as
  the objects are owned; what has no owner, and what works across the cluster, is found by the cleanup through its name
  only. The names are in the shipped manifests and in the code that applies, the patterns in the code that
  cleans up; the theorem says that they agree.
\<close>

section \<open>What the cleanup recognises\<close>

fun cleaned_up :: "string \<Rightarrow> robj \<Rightarrow> bool" where
  "cleaned_up opns (RClusterRole x) \<longleftrightarrow> \<not> skip_cluster_role (om_Name (cro_ObjectMeta x))"
| "cleaned_up opns (RClusterRoleBinding x) \<longleftrightarrow> \<not> skip_cluster_role_binding (om_Name (crb_ObjectMeta x))"
| "cleaned_up opns (RMutatingWebhook x) \<longleftrightarrow> Contains (om_Name (mwc_ObjectMeta x)) ''kueue''"
| "cleaned_up opns (RValidatingWebhook x) \<longleftrightarrow> Contains (om_Name (vwc_ObjectMeta x)) ''kueue''"
| "cleaned_up opns (RConfigMap x) \<longleftrightarrow> om_Name (cm_ObjectMeta x) = KueueConfigMap \<and>
     (opns \<noteq> [] \<longrightarrow> om_Namespace (cm_ObjectMeta x) = opns)"
| "cleaned_up opns _ \<longleftrightarrow> True"

fun cleaned_write :: "string \<Rightarrow> call \<Rightarrow> bool" where
  "cleaned_write opns (Create x) = cleaned_up opns x"
| "cleaned_write opns (Update x) = cleaned_up opns x"
| "cleaned_write opns _ = True"

section \<open>Applying\<close>

lemma skip_unnamed: "skip_cluster_role []" "skip_cluster_role_binding []"
  by (simp_all add: skip_cluster_role_def skip_cluster_role_binding_def)

lemma merged_name: "om_Name req \<noteq> [] \<Longrightarrow> om_Name (snd (EnsureObjectMeta m ex req)) = om_Name req"
  by (simp add: EnsureObjectMeta_fields)

lemma clean_fields [simp]:
  "om_Name (WithCleanLabelsAndAnnotations m) = om_Name m"
  "om_Namespace (WithCleanLabelsAndAnnotations m) = om_Namespace m"
  by (simp_all add: WithCleanLabelsAndAnnotations_def)

lemma cleaned_cluster_role:
  assumes "\<not> skip_cluster_role (om_Name (cro_ObjectMeta cr))"
  shows "sends (cleaned_write opns) (ApplyClusterRole env cr)"
proof -
  have "om_Name (cro_ObjectMeta cr) \<noteq> []" using assms skip_unnamed by metis
  then show ?thesis
    unfolding ApplyClusterRole_def
    using assms cluster_role.merge_meta[of env cr]
    by (intro sends_apply_object) (simp_all add: ClusterRoles_def clean_def merged_name)
qed

lemma cleaned_cluster_role_binding:
  assumes "\<not> skip_cluster_role_binding (om_Name (crb_ObjectMeta crb))"
  shows "sends (cleaned_write opns) (ApplyClusterRoleBinding env crb)"
proof -
  have "om_Name (crb_ObjectMeta crb) \<noteq> []" using assms skip_unnamed by metis
  then show ?thesis
    unfolding ApplyClusterRoleBinding_def
    using assms cluster_role_binding.merge_meta[of env crb]
    by (intro sends_apply_object) (simp_all add: ClusterRoleBindings_def clean_def merged_name)
qed

lemma cleaned_webhooks:
  "Contains (om_Name (mwc_ObjectMeta m)) ''kueue'' \<Longrightarrow>
   sends (cleaned_write opns) (ApplyMutatingWebhookConfigurationImproved env m)"
  "Contains (om_Name (vwc_ObjectMeta v)) ''kueue'' \<Longrightarrow>
   sends (cleaned_write opns) (ApplyValidatingWebhookConfigurationImproved env v)"
proof -
  have named: "Contains n ''kueue'' \<Longrightarrow> n \<noteq> []" for n by auto
  show "Contains (om_Name (mwc_ObjectMeta m)) ''kueue'' \<Longrightarrow>
      sends (cleaned_write opns) (ApplyMutatingWebhookConfigurationImproved env m)"
    unfolding ApplyMutatingWebhookConfigurationImproved_def
    using mutating_webhook.merge_meta[of env m]
    by (intro sends_apply_object_cached) (simp_all add: MutatingWebhookConfigurations_def clean_def merged_name named)
  show "Contains (om_Name (vwc_ObjectMeta v)) ''kueue'' \<Longrightarrow>
      sends (cleaned_write opns) (ApplyValidatingWebhookConfigurationImproved env v)"
    unfolding ApplyValidatingWebhookConfigurationImproved_def
    using validating_webhook.merge_meta[of env v]
    by (intro sends_apply_object_cached) (simp_all add: ValidatingWebhookConfigurations_def clean_def merged_name named)
qed

lemma cleaned_config_map:
  assumes "om_Name (cm_ObjectMeta cm) = KueueConfigMap" and "om_Namespace (cm_ObjectMeta cm) = opns"
  shows "sends (cleaned_write opns) (ApplyConfigMapImproved env cm)"
proof -
  have "om_Name (cm_ObjectMeta (snd (merge_ConfigMap cm ex))) = KueueConfigMap \<and>
      (opns \<noteq> [] \<longrightarrow> om_Namespace (cm_ObjectMeta (snd (merge_ConfigMap cm ex))) = opns)" for ex
    using assms by (auto simp: merge_ConfigMap_def Let_def case_prod_beta EnsureObjectMeta_fields)
  then show ?thesis
    unfolding ApplyConfigMapImproved_def
    using assms by (intro sends_apply_object_cached) (simp_all add: ConfigMaps_def clean_def)
qed

text \<open>The other kinds.\<close>
lemma cleaned_others [sends_rules]:
  "sends (cleaned_write opns) (ApplyRole env role)" "sends (cleaned_write opns) (ApplyRoleBinding env rb)"
  "sends (cleaned_write opns) (ApplyServiceAccountImproved env sa)" "sends (cleaned_write opns) (ApplyNetworkPolicy env np)"
  "sends (cleaned_write opns) (ApplyFlowSchema env fl)" "sends (cleaned_write opns) (ApplyAPIService env api)"
  "sends (cleaned_write opns) (ApplyCustomResourceDefinitionV1 env crd)"
  unfolding ApplyRole_def ApplyRoleBinding_def ApplyServiceAccountImproved_def ApplyNetworkPolicy_def
    ApplyFlowSchema_def ApplyAPIService_def ApplyCustomResourceDefinitionV1_def
  by (rule sends_apply_object sends_apply_object_cached; simp add: client_defs)+

lemma cleaned_service [sends_rules]: "sends (cleaned_write opns) (ApplyServiceImproved env svc)"
  unfolding ApplyServiceImproved_def Let_def
  by (intro sends_bind_lift sends_apply_object_cached sends_apply_object) (simp_all add: Services_def)

lemma cleaned_deployment [sends_rules]: "sends (cleaned_write opns) (ApplyDeployment env d g)"
proof -
  have "sends (cleaned_write opns) (apply_object env (Deployments env) ns n required b merge)" for ns n required b merge
    by (rule sends_apply_object) (simp_all add: Deployments_def)
  then show ?thesis
    unfolding ApplyDeployment_def ApplyDeploymentWithForce_def
    by (intro sends_bind_lift) (auto simp: go_bind_def go_throw_def go_return_def sends_step split: list.splits)
qed

lemma cleaned_priority_level [sends_rules]: "sends (cleaned_write opns) (ApplyPriorityLevelConfiguration env p)"
  unfolding ApplyPriorityLevelConfiguration_def
  by (intro sends_rules) (auto simp: PriorityLevelConfigurations_def case_prod_beta Let_def intro!: sends_rules)

lemma cleaned_monitor [sends_rules]: "sends (cleaned_write opns) (manageServiceMonitor env kueue)"
  unfolding manageServiceMonitor_def ApplyServiceMonitor_def ApplyUnstructuredResourceImproved_def Let_def
  by (intro sends_rules; auto simp: ServiceMonitors_def intro!: sends_rules)

lemma sends_bind_read:
  assumes "\<And>x. assets path = Some x \<Longrightarrow> sends P (f x)"
  shows "sends P (go_bind (read_asset assets path) f)"
proof (rule sends_bind_result[where Q = "\<lambda>x. assets path = Some x"])
  show "sends P (read_asset assets path)" by (rule sends_read_asset)
  show "read_asset assets path w = (Inr x, w') \<Longrightarrow> assets path = Some x" for w x w'
    by (auto simp: read_asset_def go_return_def go_throw_def split: option.splits)
qed (rule assms)

section \<open>The managed resources\<close>

lemma cleaned_manage_config: "sends (cleaned_write (e_OperatorNamespace env)) (manageConfigMap env kueue tls)"
proof -
  have "sends (cleaned_write (e_OperatorNamespace env)) (ApplyConfigMapImproved env cm)"
    if "BuildConfigMap pf ym (e_OperatorNamespace env) cfg gvr en t = Inr cm" for pf ym cfg gvr en t cm
    using that by (intro cleaned_config_map) (auto simp: BuildConfigMap_def split: sum.splits)
  then have "sends (cleaned_write (e_OperatorNamespace env)) (buildAndApplyConfigMap env old cfg gvr t)" for old cfg gvr t
    unfolding buildAndApplyConfigMap_def Let_def
    by (intro sends_bind[OF sends_read] sends_bind_lift) (auto intro!: sends_rules split: option.splits)
  then show ?thesis
    unfolding manageConfigMap_def resolveGVRsToKinds_def by (intro sends_rules) simp_all
qed

lemma cleaned_manage_namespaced [sends_rules]:
  "sends (cleaned_write opns) (manageServiceAccount env r)" "sends (cleaned_write opns) (manageRole env path r)"
  "sends (cleaned_write opns) (manageRoleBindingsByNamespace env ns path r b)"
  "sends (cleaned_write opns) (manageService env path r)"
  "sends (cleaned_write opns) (manageFlowSchema env annos r)"
  "sends (cleaned_write opns) (managePriorityLevelConfiguration env annos r)"
  "sends (cleaned_write opns) (manageCustomResources env annos)"
  "sends (cleaned_write opns) (manageNetworkPolicies env annos r)"
  "sends (cleaned_write opns) (manageAPIService env annos r)"
  unfolding manageServiceAccount_def manageRole_def manageRoleBindingsByNamespace_def manageService_def
    applyRoleWithCache_def applyRoleBindingWithCache_def manageFlowSchema_def managePriorityLevelConfiguration_def
    applyPriorityLevelConfigurationWithCache_def manageCustomResources_def applyCustomResourceDefinitionWithCache_def
    manageNetworkPolicies_def applyNetworkPolicyWithCache_def manageAPIService_def Let_def
  by (intro sends_rules)+

lemma cleaned_manage_rest [sends_rules]:
  "sends (cleaned_write opns) (manageRoleBindings env path r b)"
  "sends (cleaned_write opns) (manageSystemRoleBindings env path r b)"
  "sends (cleaned_write opns) (manageDeployment env kueue annos r)"
  "sends (cleaned_write opns) (updateKueueStatus env kueue conds n)"
  unfolding manageRoleBindings_def manageSystemRoleBindings_def manageDeployment_def applyDeploymentWithCache_def
    updateKueueStatus_def api_ApplyStatus_def Let_def
  by (intro sends_rules sends_api_call; simp)+

lemma openshift_names:
  "\<not> skip_cluster_role ''kueue-openshift-roles''"
  "\<not> skip_cluster_role_binding ''kueue-openshift-cluster-role-binding''"
  by code_simp+

lemma cleaned_manage_openshift [sends_rules]:
  "sends (cleaned_write opns) (manageOpenshiftClusterRolesForKueue env r)"
  "sends (cleaned_write opns) (manageOpenshiftClusterRolesBindingForKueue env r)"
  unfolding manageOpenshiftClusterRolesForKueue_def manageOpenshiftClusterRolesBindingForKueue_def
    applyClusterRoleWithCache_def applyClusterRoleBindingWithCache_def
  by (intro sends_apply_with_cache cleaned_cluster_role cleaned_cluster_role_binding;
      simp add: openshift_cluster_role_def openshift_cluster_role_binding_def owned_meta_def ensure_owned_def
        openshift_names)+


section \<open>With the shipped manifests\<close>

text \<open>The operator was built with the files of the repository.\<close>
definition shipped_env :: "Env \<Rightarrow> bool" where
  "shipped_env env \<longleftrightarrow> (\<exists>decode content. decoded_as_shipped decode content \<and>
     e_Assets env = embedded_assets decode (shipped_fs content))"

lemma shipped_typed:
  assumes "decoded_as_shipped decode content" and "(path, k, n) \<in> set shipped_manifests"
    and "\<And>x. rkind x = k \<Longrightarrow> as_type x \<noteq> None" and "\<And>x y. as_type x = Some y \<Longrightarrow> x = con y"
    and "read_manifest (shipped_fs content) (read_or_die decode (group_of k) as_type) path = Some y"
  shows "is_shipped k n (con y)"
  using shipped_read[of decode content path k n as_type, OF assms(1,2,3)] assms(4,5) by auto

text \<open>What is read from a shipped path.\<close>
lemma shipped_objects:
  assumes "shipped_env env"
  shows
    "(path, KClusterRole, n) \<in> set shipped_manifests \<Longrightarrow> a_ClusterRole (e_Assets env) path = Some cr \<Longrightarrow>
      is_shipped KClusterRole n (RClusterRole cr)"
    and "(path, KClusterRoleBinding, n) \<in> set shipped_manifests \<Longrightarrow> a_ClusterRoleBinding (e_Assets env) path = Some crb \<Longrightarrow>
      is_shipped KClusterRoleBinding n (RClusterRoleBinding crb)"
    and "(path, KMutatingWebhook, n) \<in> set shipped_manifests \<Longrightarrow> a_MutatingWebhook (e_Assets env) path = Some mw \<Longrightarrow>
      is_shipped KMutatingWebhook n (RMutatingWebhook mw)"
    and "(path, KValidatingWebhook, n) \<in> set shipped_manifests \<Longrightarrow> a_ValidatingWebhook (e_Assets env) path = Some vw \<Longrightarrow>
      is_shipped KValidatingWebhook n (RValidatingWebhook vw)"
proof -
  obtain decode content where d: "decoded_as_shipped decode content"
      and A: "e_Assets env = embedded_assets decode (shipped_fs content)"
    using assms(1) by (auto simp: shipped_env_def)
  show
    "(path, KClusterRole, n) \<in> set shipped_manifests \<Longrightarrow> a_ClusterRole (e_Assets env) path = Some cr \<Longrightarrow>
      is_shipped KClusterRole n (RClusterRole cr)"
    "(path, KClusterRoleBinding, n) \<in> set shipped_manifests \<Longrightarrow> a_ClusterRoleBinding (e_Assets env) path = Some crb \<Longrightarrow>
      is_shipped KClusterRoleBinding n (RClusterRoleBinding crb)"
    "(path, KMutatingWebhook, n) \<in> set shipped_manifests \<Longrightarrow> a_MutatingWebhook (e_Assets env) path = Some mw \<Longrightarrow>
      is_shipped KMutatingWebhook n (RMutatingWebhook mw)"
    "(path, KValidatingWebhook, n) \<in> set shipped_manifests \<Longrightarrow> a_ValidatingWebhook (e_Assets env) path = Some vw \<Longrightarrow>
      is_shipped KValidatingWebhook n (RValidatingWebhook vw)"
    unfolding A embedded_fields
    by (rule shipped_typed[OF d], assumption, auto elim: rkind.elims split: robj.splits)+
qed

text \<open>The shipped names, against the patterns of the cleanup.\<close>
lemma shipped_names_match:
  "list_all (\<lambda>(path, k, n). case k of
      KClusterRole \<Rightarrow> skip_cluster_role n \<longrightarrow> n \<in> set shipped_aggregated
    | KClusterRoleBinding \<Rightarrow> \<not> skip_cluster_role_binding n
    | KMutatingWebhook \<Rightarrow> Contains n ''kueue''
    | KValidatingWebhook \<Rightarrow> Contains n ''kueue''
    | _ \<Rightarrow> True) shipped_manifests"
  by code_simp

lemma cleaned_manage_cluster_role_bindings:
  assumes "shipped_env env" and "files_of_kind KClusterRoleBinding [path]"
  shows "sends (cleaned_write opns) (manageClusterRoleBindings env path r)"
    and "sends (cleaned_write opns) (manageClusterRoleBindingsWithoutNamespaceOverride env path r)"
proof -
  have "\<not> skip_cluster_role_binding (om_Name (crb_ObjectMeta crb))"
    if "a_ClusterRoleBinding (e_Assets env) path = Some crb" for crb
    using assms(2) shipped_objects(2)[OF assms(1) _ that] shipped_names_match
    by (fastforce simp: files_of_kind_def list_all_iff is_shipped_def)
  then show "sends (cleaned_write opns) (manageClusterRoleBindings env path r)"
    "sends (cleaned_write opns) (manageClusterRoleBindingsWithoutNamespaceOverride env path r)"
    unfolding manageClusterRoleBindings_def manageClusterRoleBindingsWithoutNamespaceOverride_def
      applyClusterRoleBindingWithCache_def
    by (intro sends_bind_read sends_apply_with_cache cleaned_cluster_role_binding; simp add: owned_meta_def)+
qed

lemma cleaned_manage_webhooks:
  assumes "shipped_env env"
  shows "sends (cleaned_write opns) (manageMutatingWebhook env kueue r)"
    and "sends (cleaned_write opns) (manageValidatingWebhook env kueue r)"
proof -
  have "files_of_kind KMutatingWebhook [asset ''mutatingwebhook.yaml'']"
    "files_of_kind KValidatingWebhook [asset ''validatingwebhook.yaml'']"
    by (intro named_file single_files)+
  then have "Contains (om_Name (mwc_ObjectMeta m)) ''kueue''"
      if "a_MutatingWebhook (e_Assets env) (asset ''mutatingwebhook.yaml'') = Some m" for m
    using shipped_objects(3)[OF assms _ that] shipped_names_match
    by (fastforce simp: files_of_kind_def list_all_iff is_shipped_def)
  moreover have "Contains (om_Name (vwc_ObjectMeta v)) ''kueue''"
      if "a_ValidatingWebhook (e_Assets env) (asset ''validatingwebhook.yaml'') = Some v" for v
    using shipped_objects(4)[OF assms _ that] shipped_names_match named_file[OF single_files(5)]
    by (fastforce simp: files_of_kind_def list_all_iff is_shipped_def)
  ultimately show "sends (cleaned_write opns) (manageMutatingWebhook env kueue r)"
    "sends (cleaned_write opns) (manageValidatingWebhook env kueue r)"
    unfolding manageMutatingWebhook_def manageValidatingWebhook_def
    by (intro sends_bind_read sends_bind_lift cleaned_webhooks; auto simp: owned_meta_def dest!: webhook_meta_kept)+
qed

lemma cleaned_manage_cluster_roles:
  assumes "shipped_env env"
  shows "sends (cleaned_write opns) (manageClusterRoles env annos r)"
proof -
  let ?path = "path_join (asset ''clusterroles'')"
  have apply_one: "sends (cleaned_write opns) (go_bind (maybe_scoped env required) (\<lambda>required.
      go_bind (applyClusterRoleWithCache env required) f))"
    if "\<not> skip_cluster_role (om_Name (cro_ObjectMeta required))" and "\<And>x. sends (cleaned_write opns) (f x)"
    for required and f :: "ClusterRole \<times> bool \<Rightarrow> (World, annotations) go"
  proof (rule sends_bind_result[where Q = "\<lambda>x. \<not> skip_cluster_role (om_Name (cro_ObjectMeta x))"])
    show "sends (cleaned_write opns) (maybe_scoped env required)"
      unfolding maybe_scoped_def by (intro sends_rules)
  qed (use that in \<open>auto simp: applyClusterRoleWithCache_def dest: maybe_scoped_owner
        intro!: sends_bind sends_apply_with_cache cleaned_cluster_role\<close>)
  have one: "sends (cleaned_write opns) (manageClusterRole_file env r a path)"
    if "files_of_kind KClusterRole [path]" for a path
  proof -
    have "\<not> skip_cluster_role (om_Name (cro_ObjectMeta cr))"
      if "a_ClusterRole (e_Assets env) path = Some cr" "cro_AggregationRule cr = None" for cr
      using \<open>files_of_kind KClusterRole [path]\<close> shipped_objects(1)[OF assms _ that(1)] that(2) shipped_names_match
      by (fastforce simp: files_of_kind_def list_all_iff is_shipped_def)
    then show ?thesis
      unfolding manageClusterRole_file_def Let_def maybe_scoped_def[symmetric]
      by (intro sends_bind_read sends_if sends_return apply_one) (auto simp: owned_meta_def intro!: sends_rules)
  qed
  have "asset_dir env (asset ''clusterroles'') msg w = (Inr files, w') \<Longrightarrow>
      files_of_kind KClusterRole (map ?path files)" for msg w files w'
    using assms directory_files(1) shipped_dirs(1)
    by (auto simp: shipped_env_def embedded_assets_def asset_dir_def go_return_def go_throw_def split: sum.splits)
  then show ?thesis
    unfolding manageClusterRoles_def Let_def
    by (intro sends_bind_result[where Q = "\<lambda>files. files_of_kind KClusterRole (map ?path files)"] sends_asset_dir
        sends_foldM one) (auto simp: files_of_kind_def)
qed

section \<open>The operand\<close>

lemma binding_file: "path \<in> set cluster_role_binding_files \<Longrightarrow> files_of_kind KClusterRoleBinding [path]"
  using named_files(4) by (simp add: files_of_kind_def)

lemma cleaned_operand:
  assumes "shipped_env env"
  shows "sends (cleaned_write (e_OperatorNamespace env)) (sync_operand env kueue tls r dep annos)"
  unfolding sync_operand_def sync_config_def sync_roles_def sync_prometheus_def sync_cluster_wide_def
    sync_bindings_def sync_webhooks_def sync_deployment_def sync_role_def sync_role_binding_def
    sync_service_def sync_cluster_role_binding_def
  by (intro sends_rules cleaned_manage_config cleaned_manage_cluster_role_bindings cleaned_manage_webhooks
      cleaned_manage_cluster_roles binding_file assms; simp add: cluster_role_binding_files_def)

text \<open>C11. The cleanup finds what was applied: with the shipped manifests, every cluster role, cluster role
  binding and webhook configuration that a reconciliation of the operand creates or updates has a name that the
  cleanup recognises as Kueue's, and the ConfigMap, which has no owner, is the one that the cleanup
  deletes. The two cluster roles that the cleanup leaves alone are never written, since they have an aggregation
  rule. This holds for every content of the Kueue resource and whatever fails or interferes.\<close>
theorem cleanup_covers_operand:
  assumes "shipped_env env" and "sync_operand env kueue tls r dep annos w = (res, w')"
  shows "\<exists>calls. w_Trace w' = w_Trace w @ calls \<and> list_all (cleaned_write (e_OperatorNamespace env)) calls"
  using sendsD[OF cleaned_operand[OF assms(1)] assms(2)] .


theorem cleanup_covers_operand_witness:
  "\<exists>calls. w_Trace (snd (sync_operand ((calm_env empty_cluster)\<lparr>e_Assets :=
        embedded_assets plain_decoder (shipped_fs (\<lambda>path. path))\<rparr>) (kueue_with_frameworks []) None some_owner
      None [] (initial_world empty_cluster))) = calls \<and> list_all (cleaned_write (e_OperatorNamespace (calm_env empty_cluster))) calls"
proof -
  have "shipped_env ((calm_env empty_cluster)\<lparr>e_Assets := embedded_assets plain_decoder (shipped_fs (\<lambda>path. path))\<rparr>)"
    using plain_decoder_shipped by (auto simp: shipped_env_def)
  from cleanup_covers_operand[OF this prod.collapse[symmetric], of "kueue_with_frameworks []" None some_owner None "[]"
      "initial_world empty_cluster"]
  show ?thesis by simp
qed


end
