(* ===== verification/Command_Line.thy ===== *)
theory Command_Line
  imports Startup
begin

text \<open>
  The command line: \<^verbatim>\<open>src/cmd/kueue-operator/main.go\<close>, \<^verbatim>\<open>src/pkg/cmd/operator/cmd.go\<close> and
  \<^verbatim>\<open>src/pkg/version/version.go\<close>, with the constructor of library-go's \<^verbatim>\<open>ControllerCommandConfig\<close> and the end of the command
  that it makes. How cobra reads the arguments is a parameter (\<open>resolution\<close>), as is what library-go does around the
  start function (leader election, configuration files, signals). The lemmas say how the process ends.
\<close>

section \<open>Version\<close>

record version_Info =
  vi_Major :: string
  vi_Minor :: string
  vi_GitCommit :: string
  vi_GitVersion :: string
  vi_BuildDate :: string

text \<open>The variables that the linker sets.\<close>
record build_variables =
  commitFromGit :: string
  versionFromGit :: string
  majorFromGit :: string
  minorFromGit :: string
  buildDate :: string

definition version_Get :: "build_variables \<Rightarrow> version_Info" where
  "version_Get b = \<lparr>vi_Major = majorFromGit b, vi_Minor = minorFromGit b, vi_GitCommit = commitFromGit b,
     vi_GitVersion = versionFromGit b, vi_BuildDate = buildDate b\<rparr>"

section \<open>Commands\<close>

text \<open>How a command's \<^verbatim>\<open>Run\<close> ends: it returns, or it ends the process (\<^verbatim>\<open>os.Exit\<close>, \<^verbatim>\<open>klog.Fatal\<close>) with a status.\<close>
datatype run_end = Returns | Exits nat

record 'f ControllerCommandConfig =
  ccc_componentName :: string
  ccc_startFunc :: 'f
  ccc_version :: version_Info
  ccc_DisableServing :: bool
  ccc_EnableHTTP2 :: bool
  ccc_DisableLeaderElection :: bool

definition NewControllerCommandConfig :: "string \<Rightarrow> version_Info \<Rightarrow> 'f \<Rightarrow> 'f ControllerCommandConfig" where
  "NewControllerCommandConfig componentName version startFunc = \<lparr>ccc_componentName = componentName,
     ccc_startFunc = startFunc, ccc_version = version, ccc_DisableServing = False, ccc_EnableHTTP2 = False,
     ccc_DisableLeaderElection = False\<rparr>"

datatype command_text = HelpText | ErrorText err

text \<open>A command with its subcommands; running it ends in some way and prints something.\<close>
datatype 's cobra_Command = Command (cmd_Use: string) (cmd_Short: string)
  (cmd_Run: "'s \<Rightarrow> run_end \<times> command_text list \<times> 's") (cmd_Commands: "'s cobra_Command list")

text \<open>\<^verbatim>\<open>StartController\<close> of library-go, with the controller's start function: \<^term>\<open>None\<close> is success.\<close>
type_synonym ('f, 's) starter = "'f ControllerCommandConfig \<Rightarrow> 's \<Rightarrow> err option \<times> 's"

text \<open>\<^verbatim>\<open>NewCommand\<close>: flags that are not valid and errors of the controller end the process through \<^verbatim>\<open>klog.Fatal\<close>.\<close>
definition NewCommand :: "('f, 's) starter \<Rightarrow> err option \<Rightarrow> 'f ControllerCommandConfig \<Rightarrow> 's cobra_Command" where
  "NewCommand StartController flagError c = Command [] []
     (\<lambda>s. case flagError of Some err \<Rightarrow> (Exits 255, [ErrorText err], s)
        | None \<Rightarrow> (case StartController c s of
            (Some err, s') \<Rightarrow> (Exits 255, [ErrorText err], s') | (None, s') \<Rightarrow> (Returns, [], s'))) []"

type_synonym start_func = "Env \<Rightarrow> Process \<Rightarrow> (StartWorld, TargetConfigReconciler) go"

definition NewOperator :: "(start_func, StartWorld) starter \<Rightarrow> err option \<Rightarrow> build_variables \<Rightarrow> StartWorld cobra_Command" where
  "NewOperator StartController flagError b =
     (let config = NewControllerCommandConfig ''openshift-kueue-operator'' (version_Get b) RunOperator;
          config = config\<lparr>ccc_DisableServing := True\<rparr>;
          cmd = NewCommand StartController flagError config
      in Command ''operator'' ''Start the Cluster Kueue Operator'' (cmd_Run cmd) (cmd_Commands cmd))"

definition NewKueueOperatorCommand ::
  "(start_func, StartWorld) starter \<Rightarrow> err option \<Rightarrow> build_variables \<Rightarrow> StartWorld cobra_Command" where
  "NewKueueOperatorCommand StartController flagError b =
     Command ''kueue-operator'' ''OpenShift cluster kueue operator'' (\<lambda>s. (Exits 1, [HelpText], s))
       [NewOperator StartController flagError b]"

text \<open>What cobra makes of the arguments: an error (an unknown command or flag), the help that was asked for, or the
  command at a position, given by the names that lead to it.\<close>
datatype resolution = Unusable err | HelpWanted | Chosen "string list"

fun command_at :: "'s cobra_Command \<Rightarrow> string list \<Rightarrow> 's cobra_Command option" where
  "command_at c [] = Some c"
| "command_at c (n # ns) = (case find (\<lambda>d. cmd_Use d = n) (cmd_Commands c) of
     None \<Rightarrow> None | Some d \<Rightarrow> command_at d ns)"

definition Execute :: "resolution \<Rightarrow> 's cobra_Command \<Rightarrow> 's \<Rightarrow> (err + run_end) \<times> command_text list \<times> 's" where
  "Execute res c s = (case res of
     Unusable err \<Rightarrow> (Inl err, [], s)
   | HelpWanted \<Rightarrow> (Inr Returns, [HelpText], s)
   | Chosen names \<Rightarrow> (case command_at c names of
       None \<Rightarrow> (Inl (Errorf ''unknown command''), [], s)
     | Some d \<Rightarrow> (case cmd_Run d s of (e, out, s') \<Rightarrow> (Inr e, out, s'))))"

text \<open>The status of the process, what it printed and what it did.\<close>
definition main ::
  "(start_func, StartWorld) starter \<Rightarrow> err option \<Rightarrow> build_variables \<Rightarrow> resolution \<Rightarrow> StartWorld
   \<Rightarrow> nat \<times> command_text list \<times> StartWorld" where
  "main StartController flagError b res s =
     (case Execute res (NewKueueOperatorCommand StartController flagError b) s of
        (Inl err, out, s') \<Rightarrow> (1, out @ [ErrorText err], s')
      | (Inr (Exits n), out, s') \<Rightarrow> (n, out, s')
      | (Inr Returns, out, s') \<Rightarrow> (0, out, s'))"

section \<open>How the process ends\<close>

lemma command_at_cases:
  "command_at (NewKueueOperatorCommand st fe b) names =
     (case names of [] \<Rightarrow> Some (NewKueueOperatorCommand st fe b)
      | n # ns \<Rightarrow> if n = ''operator'' \<and> ns = [] then Some (NewOperator st fe b) else None)"
proof (cases names)
  case (Cons n ns)
  then show ?thesis
    by (cases ns) (auto simp: NewKueueOperatorCommand_def NewOperator_def NewCommand_def Let_def)
qed simp

text \<open>The configuration of the operator's controller.\<close>
definition operator_config :: "build_variables \<Rightarrow> start_func ControllerCommandConfig" where
  "operator_config b = \<lparr>ccc_componentName = ''openshift-kueue-operator'', ccc_startFunc = RunOperator,
     ccc_version = version_Get b, ccc_DisableServing = True, ccc_EnableHTTP2 = False, ccc_DisableLeaderElection = False\<rparr>"

text \<open>Nothing is started but by the subcommand \<^verbatim>\<open>operator\<close>, with a controller that does not serve and that elects a
  leader; the process ends with success only after help that was asked for, or after a controller that returned
  without an error.\<close>
lemma main_status:
  "main st fe b res s = (case res of
     HelpWanted \<Rightarrow> (0, [HelpText], s)
   | Unusable err \<Rightarrow> (1, [ErrorText err], s)
   | Chosen [] \<Rightarrow> (1, [HelpText], s)
   | Chosen (n # ns) \<Rightarrow>
       if n \<noteq> ''operator'' \<or> ns \<noteq> [] then (1, [ErrorText (Errorf ''unknown command'')], s)
       else (case fe of Some err \<Rightarrow> (255, [ErrorText err], s)
         | None \<Rightarrow> (case st (operator_config b) s of
             (None, s') \<Rightarrow> (0, [], s') | (Some err, s') \<Rightarrow> (255, [ErrorText err], s'))))"
proof (cases res)
  case (Chosen names)
  have config: "NewControllerCommandConfig ''openshift-kueue-operator'' (version_Get b) RunOperator
      \<lparr>ccc_DisableServing := True\<rparr> = operator_config b"
    by (simp add: NewControllerCommandConfig_def operator_config_def)
  have run: "cmd_Run (NewOperator st fe b) s = (case fe of Some err \<Rightarrow> (Exits 255, [ErrorText err], s)
      | None \<Rightarrow> (case st (operator_config b) s of
          (Some err, s') \<Rightarrow> (Exits 255, [ErrorText err], s') | (None, s') \<Rightarrow> (Returns, [], s')))" for fe
    unfolding NewOperator_def NewCommand_def Let_def config by simp
  show ?thesis
  proof (cases names)
    case Nil
    then show ?thesis using Chosen by (simp add: main_def Execute_def NewKueueOperatorCommand_def)
  next
    case (Cons n ns)
    show ?thesis
    proof (cases "n = ''operator'' \<and> ns = []")
      case True
      obtain e s' where start: "st (operator_config b) s = (e, s')" by fastforce
      show ?thesis
        using True Cons Chosen
        by (cases fe; cases e) (simp_all add: main_def Execute_def command_at_cases run start del: command_at.simps)
    next
      case False
      then show ?thesis using Cons Chosen by (auto simp: main_def Execute_def command_at_cases simp del: command_at.simps)
    qed
  qed
qed (simp_all add: main_def Execute_def)

end
