(* ===== verification/Spec2Isabelle.thy ===== *)
theory Spec2Isabelle
  imports Undisturbed Apply_Cache Operator_Client Informer_Factory Client_Set Deep_Copy Fake_Client
    Cleanup_Coverage Command_Line
begin

text \<open>
  A verification development of the OpenShift operator for Kueue (\<^verbatim>\<open>src/cmd/kueue-operator\<close>,
  \<^verbatim>\<open>src/pkg\<close>).

  \<^bold>\<open>The program.\<close> The operator watches one cluster-scoped custom resource, \<^verbatim>\<open>Kueue/cluster\<close>, and keeps
  the objects of the operand (a deployment of Kueue with its configuration, roles, webhooks, network
  policies, certificates and custom resource definitions) as the resource and the embedded manifests
  say. Its heart is \<^verbatim>\<open>sync\<close> of \<^verbatim>\<open>src/pkg/operator/target_config_reconciler.go\<close>: it reads the resource
  from an informer, refuses to work without cert-manager, cleans up and removes its finalizer when the
  resource is being deleted, adds the finalizer otherwise, applies the certificates and waits for
  their secrets, translates the cluster's TLS profile, applies the objects in a fixed order while it
  collects a hash of each, applies the deployment with these hashes as annotations of its pods, and
  reports conditions in the resource's status. Applying is done by functions that read, merge and
  write (\<^verbatim>\<open>src/pkg/util/resourceapply\<close>, and the parts of library-go that the operator calls), some of
  them behind a cache that spares requests for unchanged objects.

  \<^bold>\<open>Basics.\<close> \<^verbatim>\<open>Go_Prelude\<close> has Go's strings, maps with an iteration order, errors as values of \<open>err\<close> (a
  panic is the constructor \<open>Panic\<close>) and the named theorem collections; \<^verbatim>\<open>Go_Monad\<close> has the state monad
  with errors that all effectful code is written in (\<open>go_try\<close> is \<^verbatim>\<open>if err != nil\<close>, and does not catch
  panics), loops over slices, \<^verbatim>\<open>retry.OnError\<close> and \<^verbatim>\<open>errors.NewAggregate\<close>, with a Hoare triple
  \<open>go_triple\<close> and its rules. Machine integers are words (\<open>int32\<close>, \<open>int64\<close>).

  \<^bold>\<open>Data.\<close> \<^verbatim>\<open>API_Types\<close> is \<^verbatim>\<open>src/pkg/apis/kueueoperator/v1/types.go\<close> with the validation markers as
  boolean functions; \<^verbatim>\<open>Config_Api\<close> is Kueue's own configuration type; \<^verbatim>\<open>K8s_Objects\<close> has the Kubernetes
  objects the operator handles (fields it never looks at are kept as one opaque field, so that
  equality of objects is equality of all fields); \<^verbatim>\<open>Unstructured_Objects\<close> is JSON with the accessors of
  \<^verbatim>\<open>unstructured\<close>.

  \<^bold>\<open>The cluster.\<close> \<^verbatim>\<open>Kube_Api\<close> has the cluster as a record of stores, the requests as a datatype, and the
  environment \<open>Env\<close>: which requests fail and how (\<open>e_Fault\<close>), what other actors do to the cluster
  between two requests (\<open>e_Interfere\<close>), what the informers show (\<open>e_Informer\<close>, \<open>e_KueueInformer\<close>, each
  depending on the number of requests so far, so that a cache may lag or run ahead in any way), what
  the server does to an object it stores (\<open>e_Server\<close>), the time a request takes, the embedded manifests,
  and the functions of other packages (YAML and hash functions among them). The environment is
  arbitrary in every theorem, except for what its hypotheses name. \<open>World\<close> has the cluster, the clock,
  the trace of all requests, the events and the operator's own state. \<^verbatim>\<open>Kube_Client\<close> has the requests,
  one generic definition each over a record \<open>client\<close> per kind; the locales \<open>api_store\<close> and
  \<open>typed_client\<close> have the laws of a store and are interpreted for all nineteen kinds; the predicate
  \<open>sends P m\<close> says that every request of \<open>m\<close> satisfies \<open>P\<close>, whatever happens.

  \<^bold>\<open>Components.\<close>
  \<^item> \<^verbatim>\<open>Config_Builder\<close>: \<^verbatim>\<open>src/pkg/configmap/configmap.go\<close>, the translation of the resource into Kueue's
    configuration (framework names, durations without wrap-around, device classes and their feature
    gates, requeuing strategies, error behaviour).
  \<^item> \<^verbatim>\<open>Pod_Webhook\<close>: \<^verbatim>\<open>src/pkg/webhook/pod_webhook.go\<close>, which webhooks are installed and for which
    namespaces; the locale \<open>webhook_kind\<close> covers the mutating and the validating side.
  \<^item> \<^verbatim>\<open>Tls_Profile\<close>: \<^verbatim>\<open>src/pkg/tlsprofile/tlsprofile.go\<close> with the tables of library-go's \<^verbatim>\<open>crypto\<close>.
  \<^item> \<^verbatim>\<open>Cert_Manager\<close>: \<^verbatim>\<open>src/pkg/cert/cert.go\<close>, with the polling loop on fuel \<open>poll_fuel\<close>, which is shown
    to be enough for every schedule of answers.
  \<^item> \<^verbatim>\<open>Resource_Merge\<close>, \<^verbatim>\<open>Resource_Apply\<close>: library-go's \<^verbatim>\<open>resourcemerge\<close> and \<^verbatim>\<open>resourceapply\<close>, and
    \<^verbatim>\<open>src/pkg/util/resourceapply\<close>; \<^verbatim>\<open>Apply_Laws\<close> has the laws of a merge as the locales \<open>merge_kind\<close>
    (ownership and names are kept) and \<open>apply_kind\<close> (merging twice is merging once), from which follow
    once for all kinds that written objects are owned and that applying converges.
  \<^item> \<^verbatim>\<open>Managed_Resources\<close>, \<^verbatim>\<open>Rbac_Resources\<close>, \<^verbatim>\<open>Network_Resources\<close>, \<^verbatim>\<open>Workload_Resources\<close>: the
    \<^verbatim>\<open>manage...\<close>, \<^verbatim>\<open>adjust...\<close> and \<^verbatim>\<open>apply...WithCache\<close> methods of the reconciler.
  \<^item> \<^verbatim>\<open>Operator_Status\<close>, \<^verbatim>\<open>Finalizer\<close>, \<^verbatim>\<open>Cleanup\<close>, \<^verbatim>\<open>Dependencies\<close>: conditions and status, the
    finalizer patch (strategic merge patch computed, JSON merge patch sent), the five cleanup steps,
    and the discovery of the platform and of optional operators.
  \<^item> \<^verbatim>\<open>Reconciler\<close>: \<^verbatim>\<open>sync\<close>, cut into the phases that the code has as consecutive paragraphs, in their
    order, with every early return. \<^verbatim>\<open>Ownership\<close> shows which requests the phases make,
    \<^verbatim>\<open>Deletion\<close> what a deletion does and when it cannot finish, \<^verbatim>\<open>Apply_Cache\<close> when an apply is spared.
    \<^verbatim>\<open>Rollout\<close> shows the order of a reconciliation (the deployment last, with the hashes of everything
    before it), \<^verbatim>\<open>No_Panic\<close> that the operator never crashes, \<^verbatim>\<open>Progress\<close> that the operand is reconciled
    without an error and that a new configuration reaches the pods, and \<^verbatim>\<open>Undisturbed\<close> that a whole
    reconciliation which nobody disturbs succeeds in any cluster, if the certificates are issued in
    time; the predicates \<open>tame\<close> (no panic), \<open>sure\<close> (no error) and \<open>settles\<close> (no error but the named
    ones) have a rule for each construct of the monad.
  \<^item> \<^verbatim>\<open>Apply_Documents\<close>, \<^verbatim>\<open>Apply_Configuration\<close>, \<^verbatim>\<open>Operator_Client\<close>: the generated builders of
    \<^verbatim>\<open>src/pkg/generated/applyconfiguration\<close>, for the types inside the resource (the locale \<open>declares\<close>, that a
    value can be declared and is read back, is interpreted for each of them) and for the resource, its
    specification and its status, and \<^verbatim>\<open>src/pkg/operator/operatorclient/interfaces.go\<close> with the server's
    version check.
  \<^item> \<^verbatim>\<open>Work_Queue\<close>: the work queue of client-go with its delays. The locale \<open>work_source\<close> is what a worker
    relies on, interpreted for the queue; a contract over sets, without order, is refined by the queue.
  \<^item> \<^verbatim>\<open>Controller\<close>: the controller of library-go around \<^verbatim>\<open>sync\<close>. Events, the waiting loop, the worker and
    other actors are steps that interleave in any order; the theorems are about all reachable states.
    \<^verbatim>\<open>Lifetime\<close> lifts the requests of one reconciliation to those of the operator's whole life.
  \<^item> \<^verbatim>\<open>Startup\<close>: \<^verbatim>\<open>src/pkg/operator/starter.go\<close>, the constructor and the event handlers of the
    reconciler, and \<^verbatim>\<open>src/pkg/namespace/namespace.go\<close>.
  \<^item> \<^verbatim>\<open>Api_Scheme\<close>, \<^verbatim>\<open>Client_Set\<close>: the registration of the API types (\<^verbatim>\<open>register.go\<close>, which registers them
    twice, so that the registration has to be idempotent), and the construction of the clientset of
    \<^verbatim>\<open>src/pkg/generated/clientset\<close> with the HTTP client and the rate limiters that its clients share.
  \<^item> \<^verbatim>\<open>Informer_Factory\<close>: the generated factory of \<^verbatim>\<open>src/pkg/generated/informers\<close>, from which start-up, client
    and reconciler take the same informer, and the lister of its cache; the locale \<open>shared_informers\<close> is
    what they rely on.
  \<^item> \<^verbatim>\<open>Heap_Copy\<close>, \<^verbatim>\<open>Deep_Copy\<close>: the generated deep copies over a heap with addresses. The locale
    \<open>deep_copy\<close> is the contract of a copying function, interpreted for every type of the package; its
    function \<open>view\<close> reads the value that all other theories work with from the heap.
  \<^item> \<^verbatim>\<open>Object_Tracker\<close>, \<^verbatim>\<open>Fake_Client\<close>: the fake clientset that the unit tests run against, over client-go's object
    tracker. What a test sees through a watch is what the tracker has stored, and the locale \<open>simulates\<close>, interpreted for the
    clientset and a plain store, carries its refinement from single requests to sequences of them.
  \<^item> \<^verbatim>\<open>Bindata\<close>, \<^verbatim>\<open>Shipped_Manifests\<close>: the manifests that are compiled into the operator (\<^verbatim>\<open>src/bindata\<close>), the functions
    that list, read and decode them, and the list of the shipped files. The code refers to them by strings;
    the lemmas show that every file it names exists and has the kind that the code asserts.
    \<^verbatim>\<open>Cleanup_Coverage\<close> shows that the cleanup recognises by its name every object that a reconciliation makes from
    them and that it has to delete.
  \<^item> \<^verbatim>\<open>Command_Line\<close>: the commands, the version and the exit status.
  \<^item> This theory has the properties that span components.

  \<^bold>\<open>Bounds.\<close> Retries are bounded as in the code (four steps of the default backoff, five for a
  conflict); platform detection makes at most six requests; the polling loop ends by its timeout.
  All other loops are over finite lists.

  \<^bold>\<open>Not modelled.\<close> Logging and the text of events; cancellation of contexts and the shutdown of the
  controller; the wait for the informer caches at start; the log level controller; aliasing, outside of
  \<^verbatim>\<open>Deep_Copy\<close>; the schema text of the apply configurations; conversion and defaulting functions of a scheme; HTTP
  clients and URLs; how cobra parses arguments; the text of the embedded YAML (its content is a parameter, except for
  the kinds and names of the objects and the names of the webhooks); the end-to-end tests and their utilities.
\<close>


section \<open>Cert-manager is missing\<close>

lemma transition_status [simp]:
  "condition_status (SetApplyConditionsLastTransitionTime now cs old) t = condition_status cs t"
  by (induction cs) (simp_all add: condition_status_def FindApplyCondition_def
      SetApplyConditionsLastTransitionTime_def)

text \<open>C17. Without cert-manager nothing is reconciled: when the informer does not know its issuers, a
  reconciliation succeeds and makes a single request, which reports the Kueue resource as degraded
  and neither available nor progressing. No object is created, updated or deleted, and, if the
  resource is being deleted, neither its objects nor its finalizer are removed.\<close>
theorem sync_without_cert_manager:
  assumes "e_KueueInformer env (w_Calls w) = CacheKueue kueue"
    and "e_ListerFault env (w_Calls w) = None"
    and "map_of (c_CRDs (e_Informer env (w_Calls w))) ([], ''issuers.cert-manager.io'') = None"
  shows "\<exists>w' st. sync env w = (Inr (), w') \<and> w_Trace w' = w_Trace w @ [ApplyStatus st] \<and>
    condition_status (sta_Conditions st) ''Degraded'' = Some ConditionTrue \<and>
    condition_status (sta_Conditions st) ''Available'' = Some ConditionFalse \<and>
    condition_status (sta_Conditions st) ''Progressing'' = Some ConditionFalse"
proof -
  let ?w = "w\<lparr>w_Events := w_Events w @ [''CertManagerMissing'']\<rparr>"
  have "sync env w = (Inr (), snd (updateKueueStatus env kueue buildCertManagerMissingConditions None ?w))"
    by (rule cert_manager_missing_run[OF assms])
  then show ?thesis
    using status_request[of env kueue buildCertManagerMissingConditions None ?w]
    by (auto simp: condition_status_def FindApplyCondition_def buildCertManagerMissingConditions_def
        SetApplyConditionsLastTransitionTime_def)
qed

theorem sync_without_cert_manager_witness:
  "\<exists>w' st. sync ((calm_env empty_cluster)\<lparr>e_KueueInformer := \<lambda>n. CacheKueue (kueue_with_frameworks [])\<rparr>)
      (initial_world empty_cluster) = (Inr (), w') \<and> w_Trace w' = [ApplyStatus st]"
  using sync_without_cert_manager[of "(calm_env empty_cluster)\<lparr>e_KueueInformer :=
      \<lambda>n. CacheKueue (kueue_with_frameworks [])\<rparr>" "initial_world empty_cluster" "kueue_with_frameworks []"]
  by (auto simp: empty_cluster_def)

section \<open>An unsupported TLS profile\<close>



section \<open>The metrics certificate\<close>

text \<open>The server name that Prometheus expects of the first endpoint of a service monitor.\<close>
definition expected_server_name :: "Unstructured \<Rightarrow> string option" where
  "expected_server_name u = (case NestedSlice (us_Object u) [''spec'', ''endpoints''] of
     Inr (Some (JObj endpoint # _)) \<Rightarrow> (case NestedString endpoint [''tlsConfig'', ''serverName''] of
        Inr r \<Rightarrow> r | Inl _ \<Rightarrow> None)
   | _ \<Rightarrow> None)"

text \<open>C40. The service monitor expects a server name that is fixed to one namespace, while the metrics
  certificate is issued for the operator's namespace: the name is one of the certificate's DNS names
  exactly when the operator runs in \<^verbatim>\<open>openshift-kueue-operator\<close>.\<close>
theorem metrics_server_name_matches:
  "(\<exists>name. expected_server_name (required_service_monitor env kueue) = Some name \<and>
      name \<in> set (cd_dnsNames (certificateData env ! 1))) \<longleftrightarrow>
   e_OperatorNamespace env = ''openshift-kueue-operator''"
proof -
  have name: "expected_server_name (required_service_monitor env kueue) =
      Some (''kueue-controller-manager-metrics-service.'' @ ''openshift-kueue-operator'' @ ''.svc'')"
    by (simp add: expected_server_name_def required_service_monitor_def unstructured_def nested_defs jobj_def)
  have dns: "cd_dnsNames (certificateData env ! 1) =
      [''kueue-controller-manager-metrics-service.'' @ e_OperatorNamespace env @ ''.svc'',
       ''kueue-controller-manager-metrics-service.'' @ e_OperatorNamespace env @ ''.svc.cluster.local'']"
    by (simp add: certificateData_def service_dns_names_def)
  have "''openshift-kueue-operator'' @ ''.svc'' \<noteq> ns @ ''.svc.cluster.local''" for ns
  proof
    assume "''openshift-kueue-operator'' @ ''.svc'' = ns @ ''.svc.cluster.local''"
    then have "last (''openshift-kueue-operator'' @ ''.svc'') = last (ns @ ''.svc.cluster.local'')" by simp
    then show False by simp
  qed
  moreover have "''openshift-kueue-operator'' @ ''.svc'' = ns @ ''.svc'' \<longleftrightarrow> ns = ''openshift-kueue-operator''" for ns
    by (metis append_same_eq)
  ultimately show ?thesis unfolding name dns by auto
qed

end
